(* ===== verification/Prelude.thy ===== *)
theory Prelude
  imports Complex_Main "HOL-Library.Char_ord" "HOL-Library.List_Lexorder"
begin

section \<open>Shared types, the session monad and generic lemmas\<close>

text \<open>
  What every component theory builds on.  Database work of the program runs inside a
  SQLAlchemy session: it changes a working copy, may raise, and is made durable by
  \<open>commit\<close> or dropped by \<open>rollback\<close>.  A program over a session of type \<open>'s\<close> is a function
  from the session to a result and the new session; a raised exception is the value
  \<open>Inl\<close>, and, as in Python, raising does not undo what was already changed.

  Time is an \<open>int\<close> count of microseconds (Python's resolution), all datetimes being aware
  UTC values.  Strings are lists of characters and are compared as Python compares them,
  lexicographically.
\<close>

subsection \<open>Named collections\<close>

named_theorems run_simps "unfolding of session programs and of their combinators"
named_theorems keeps_intros "one rule per session program: it keeps an invariant"
named_theorems field_simps' "what an operation leaves unchanged in a record"

subsection \<open>Basic types\<close>

type_synonym datetime = int
type_synonym date = int
type_synonym uuid = nat

abbreviation seconds :: "int \<Rightarrow> int" where
  "seconds n \<equiv> n * 1000000"

abbreviation minutes :: "int \<Rightarrow> int" where
  "minutes n \<equiv> seconds (60 * n)"

abbreviation days :: "int \<Rightarrow> int" where
  "days n \<equiv> seconds (86400 * n)"

text \<open>The exception classes the modelled code raises or catches.\<close>

datatype exn_class =
    RadarClientError | RadarOutputValidationError | RadarDigestNotFoundError
  | RadarRunAlreadyActiveError | RadarRunNotRetryableError
  | AccessDenied int | ObservationError int | RateLimitExceeded int
  | BillingError int | DigestNotFoundError | DigestValidationError | DigestRunActiveError
  | DigestRunNotFoundError | DigestRunFeedbackUnavailableError
  | EmailVerificationError int | AuthenticationError | RefreshConflict | TokenError | HttpError int
  | ProfileEmailConflictError | CurrentPasswordInvalidError | PasswordReuseError
  | UserNotFoundError | AdminActionForbiddenError | UserEmailConflictError | RuntimeErrorPy
  | ManualQualityUnavailableError
  | ValidationError | IntegrityError | ValueErrorPy | KeyErrorPy | IndexErrorPy
  | AttributeErrorPy | TypeErrorPy | AssertionErrorPy | ProviderException "int option"

datatype exn = Exn (exn_class: exn_class) (exn_message: string)

text \<open>A decision of Python's \<open>isinstance(error, RadarClientError)\<close>: the validation error
  is a subclass of it.\<close>

definition is_client_error :: "exn \<Rightarrow> bool" where
  "is_client_error e \<longleftrightarrow>
     exn_class e = RadarClientError \<or> exn_class e = RadarOutputValidationError"

type_synonym ('s, 'a) prog = "'s \<Rightarrow> (exn + 'a) \<times> 's"

subsection \<open>The session monad\<close>

definition ret :: "'a \<Rightarrow> ('s, 'a) prog" where
  "ret v s = (Inr v, s)"

definition raise :: "exn_class \<Rightarrow> string \<Rightarrow> ('s, 'a) prog" where
  "raise c m s = (Inl (Exn c m), s)"

definition reraise :: "exn \<Rightarrow> ('s, 'a) prog" where
  "reraise e s = (Inl e, s)"

definition bind :: "('s, 'a) prog \<Rightarrow> ('a \<Rightarrow> ('s, 'b) prog) \<Rightarrow> ('s, 'b) prog" where
  "bind m f s = (case m s of (Inl e, s') \<Rightarrow> (Inl e, s') | (Inr v, s') \<Rightarrow> f v s')"

definition seq :: "('s, 'a) prog \<Rightarrow> ('s, 'b) prog \<Rightarrow> ('s, 'b) prog" where
  "seq m n = bind m (\<lambda>_. n)"

text \<open>\<open>try: m except e: h e\<close>; the handler sees the session as it was left by the raise.\<close>

definition catch :: "('s, 'a) prog \<Rightarrow> (exn \<Rightarrow> ('s, 'a) prog) \<Rightarrow> ('s, 'a) prog" where
  "catch m h s = (case m s of (Inl e, s') \<Rightarrow> h e s' | (Inr v, s') \<Rightarrow> (Inr v, s'))"

definition gets :: "('s \<Rightarrow> 'a) \<Rightarrow> ('s, 'a) prog" where
  "gets f s = (Inr (f s), s)"

definition modify :: "('s \<Rightarrow> 's) \<Rightarrow> ('s, unit) prog" where
  "modify f s = (Inr (), f s)"

definition guard :: "bool \<Rightarrow> exn_class \<Rightarrow> string \<Rightarrow> ('s, unit) prog" where
  "guard b c m = (if b then ret () else raise c m)"

definition lift_result :: "exn + 'a \<Rightarrow> ('s, 'a) prog" where
  "lift_result r s = (r, s)"

fun for_each :: "'x list \<Rightarrow> ('x \<Rightarrow> ('s, unit) prog) \<Rightarrow> ('s, unit) prog" where
  "for_each [] f = ret ()"
| "for_each (x # xs) f = seq (f x) (for_each xs f)"

lemmas prog_defs [run_simps] =
  ret_def raise_def reraise_def bind_def seq_def catch_def gets_def modify_def guard_def
  lift_result_def

lemma bind_ret [simp]: "bind (ret v) f = f v"
  by (simp add: bind_def ret_def fun_eq_iff)

lemma ret_bind [simp]: "bind m ret = m"
  by (auto simp: bind_def ret_def fun_eq_iff split: prod.splits sum.splits)

lemma bind_assoc: "bind (bind m f) g = bind m (\<lambda>v. bind (f v) g)"
  by (auto simp: bind_def fun_eq_iff split: prod.splits sum.splits)

lemma bind_raise [simp]: "bind (raise c m) f = raise c m"
  by (simp add: bind_def raise_def fun_eq_iff)

subsection \<open>Invariants kept by a session program\<close>

text \<open>
  \<open>keeps I m\<close>: from a session where \<open>I\<close> holds, the program ends in one where it holds,
  whether it returns or raises.  The rules below follow the combinators, so a proof about
  a composed program is an \<open>intro\<close> over the facts of its parts.
\<close>

definition keeps :: "('s \<Rightarrow> bool) \<Rightarrow> ('s, 'a) prog \<Rightarrow> bool" where
  "keeps I m \<longleftrightarrow> (\<forall>s. I s \<longrightarrow> I (snd (m s)))"

lemma keepsD: "keeps I m \<Longrightarrow> I s \<Longrightarrow> m s = (r, s') \<Longrightarrow> I s'"
  by (metis keeps_def snd_conv)

lemma keepsD': "keeps I m \<Longrightarrow> I s \<Longrightarrow> I (snd (m s))"
  by (simp add: keeps_def)

lemma keepsI: "(\<And>s r s'. I s \<Longrightarrow> m s = (r, s') \<Longrightarrow> I s') \<Longrightarrow> keeps I m"
  unfolding keeps_def by (metis prod.collapse)

lemma keeps_ret [keeps_intros]: "keeps I (ret v)"
  by (simp add: keeps_def ret_def)

lemma keeps_raise [keeps_intros]: "keeps I (raise c m)"
  by (simp add: keeps_def raise_def)

lemma keeps_reraise [keeps_intros]: "keeps I (reraise e)"
  by (simp add: keeps_def reraise_def)

lemma keeps_gets [keeps_intros]: "keeps I (gets f)"
  by (simp add: keeps_def gets_def)

lemma keeps_guard [keeps_intros]: "keeps I (guard b c m)"
  by (simp add: guard_def keeps_ret keeps_raise)

lemma keeps_lift_result [keeps_intros]: "keeps I (lift_result r)"
  by (simp add: keeps_def lift_result_def)

lemma keeps_modify: "(\<And>s. I s \<Longrightarrow> I (f s)) \<Longrightarrow> keeps I (modify f)"
  by (simp add: keeps_def modify_def)

lemma keeps_bind [keeps_intros]:
  "keeps I m \<Longrightarrow> (\<And>v. keeps I (f v)) \<Longrightarrow> keeps I (bind m f)"
  by (fastforce simp: keeps_def bind_def split: prod.splits sum.splits)

lemma keeps_seq [keeps_intros]: "keeps I m \<Longrightarrow> keeps I n \<Longrightarrow> keeps I (seq m n)"
  by (simp add: seq_def keeps_bind)

lemma keeps_catch [keeps_intros]:
  "keeps I m \<Longrightarrow> (\<And>e. keeps I (h e)) \<Longrightarrow> keeps I (catch m h)"
  by (fastforce simp: keeps_def catch_def split: prod.splits sum.splits)

lemma keeps_if [keeps_intros]:
  "(b \<Longrightarrow> keeps I m) \<Longrightarrow> (\<not> b \<Longrightarrow> keeps I n) \<Longrightarrow> keeps I (if b then m else n)"
  by simp

lemma keeps_case_option [keeps_intros]:
  "keeps I m \<Longrightarrow> (\<And>v. keeps I (f v)) \<Longrightarrow> keeps I (case x of None \<Rightarrow> m | Some v \<Rightarrow> f v)"
  by (cases x) simp_all

lemma keeps_case_prod [keeps_intros]:
  "(\<And>a b. keeps I (f a b)) \<Longrightarrow> keeps I (case p of (a, b) \<Rightarrow> f a b)"
  by (cases p) simp

lemma keeps_for_each [keeps_intros]:
  "(\<And>x. x \<in> set xs \<Longrightarrow> keeps I (f x)) \<Longrightarrow> keeps I (for_each xs f)"
  by (induction xs) (auto intro: keeps_intros)

lemma keeps_conj: "keeps I m \<Longrightarrow> keeps J m \<Longrightarrow> keeps (\<lambda>s. I s \<and> J s) m"
  by (simp add: keeps_def)

subsection \<open>Small pieces of Python's standard library\<close>

text \<open>Decimal digits of a number, as \<open>str\<close> prints them.\<close>

definition digit_char :: "nat \<Rightarrow> char" where
  "digit_char d = char_of (48 + d)"

fun nat_str :: "nat \<Rightarrow> string" where
  "nat_str n = (if n < 10 then [digit_char n] else nat_str (n div 10) @ [digit_char (n mod 10)])"

declare nat_str.simps [simp del]

definition int_str :: "int \<Rightarrow> string" where
  "int_str i = (if i < 0 then ''-'' @ nat_str (nat (- i)) else nat_str (nat i))"

text \<open>\<open>sep.join(parts)\<close>.\<close>

fun join :: "string \<Rightarrow> string list \<Rightarrow> string" where
  "join sep [] = []"
| "join sep [x] = x"
| "join sep (x # y # ys) = x @ sep @ join sep (y # ys)"

text \<open>\<open>list(dict.fromkeys(xs))\<close>: the first occurrence of every element, in order.\<close>

fun dedup_from :: "'a list \<Rightarrow> 'a list \<Rightarrow> 'a list" where
  "dedup_from seen [] = []"
| "dedup_from seen (x # xs) =
     (if x \<in> set seen then dedup_from seen xs else x # dedup_from (x # seen) xs)"

definition dict_fromkeys :: "'a list \<Rightarrow> 'a list" where
  "dict_fromkeys xs = dedup_from [] xs"

lemma set_dedup_from: "set (dedup_from seen xs) = set xs - set seen"
  by (induction xs arbitrary: seen) auto

lemma distinct_dedup_from: "distinct (dedup_from seen xs)"
  by (induction xs arbitrary: seen) (auto simp: set_dedup_from)

lemma set_dict_fromkeys [simp]: "set (dict_fromkeys xs) = set xs"
  by (simp add: dict_fromkeys_def set_dedup_from)

lemma distinct_dict_fromkeys [simp]: "distinct (dict_fromkeys xs)"
  by (simp add: dict_fromkeys_def distinct_dedup_from)

text \<open>A later entry of a dict comprehension wins; lookup in \<open>{key(x): x for x in xs}\<close>.\<close>

definition last_by :: "('a \<Rightarrow> 'k) \<Rightarrow> 'a list \<Rightarrow> 'k \<Rightarrow> 'a option" where
  "last_by key xs k = find (\<lambda>x. key x = k) (rev xs)"

lemma find_Some_mem: "find P xs = Some x \<Longrightarrow> x \<in> set xs \<and> P x"
  by (induction xs) (auto split: if_splits)

lemma last_by_Some: "last_by key xs k = Some x \<Longrightarrow> x \<in> set xs \<and> key x = k"
  unfolding last_by_def by (drule find_Some_mem) simp

lemma last_by_None: "last_by key xs k = None \<longleftrightarrow> k \<notin> key ` set xs"
  by (auto simp: last_by_def find_None_iff)

lemma last_by_distinct:
  assumes "distinct (map key xs)" and "x \<in> set xs"
  shows "last_by key xs (key x) = Some x"
proof (cases "last_by key xs (key x)")
  case None
  with assms(2) show ?thesis by (auto simp: last_by_None)
next
  case (Some y)
  then have "y \<in> set xs" "key y = key x" by (auto dest: last_by_Some)
  with assms have "y = x" by (metis distinct_map inj_onD)
  with Some show ?thesis by simp
qed

text \<open>\<open>UPDATE ... WHERE p\<close> over a table: every matching row is changed.\<close>

definition update_where :: "('a \<Rightarrow> bool) \<Rightarrow> ('a \<Rightarrow> 'a) \<Rightarrow> 'a list \<Rightarrow> 'a list" where
  "update_where p f xs = map (\<lambda>x. if p x then f x else x) xs"

definition rowcount :: "('a \<Rightarrow> bool) \<Rightarrow> 'a list \<Rightarrow> nat" where
  "rowcount p xs = length (filter p xs)"

lemma length_update_where [simp]: "length (update_where p f xs) = length xs"
  by (simp add: update_where_def)

lemma map_update_where [simp]:
  "(\<And>x. p x \<Longrightarrow> k (f x) = k x) \<Longrightarrow> map k (update_where p f xs) = map k xs"
  by (simp add: update_where_def)

lemma set_update_where:
  "y \<in> set (update_where p f xs) \<longleftrightarrow> (\<exists>x \<in> set xs. y = (if p x then f x else x))"
  by (auto simp: update_where_def)

lemma rowcount_0: "rowcount p xs = 0 \<longleftrightarrow> (\<forall>x \<in> set xs. \<not> p x)"
  by (simp add: rowcount_def filter_empty_conv)

text \<open>Changing in place the entry a dict built by \<open>{key(x): x for x in xs}\<close> refers to.\<close>

fun update_first :: "('a \<Rightarrow> bool) \<Rightarrow> ('a \<Rightarrow> 'a) \<Rightarrow> 'a list \<Rightarrow> 'a list" where
  "update_first p f [] = []"
| "update_first p f (x # xs) = (if p x then f x # xs else x # update_first p f xs)"

definition update_last_by :: "('a \<Rightarrow> 'k) \<Rightarrow> 'k \<Rightarrow> ('a \<Rightarrow> 'a) \<Rightarrow> 'a list \<Rightarrow> 'a list" where
  "update_last_by key k f xs = rev (update_first (\<lambda>x. key x = k) f (rev xs))"

lemma map_update_first:
  "(\<And>x. p x \<Longrightarrow> g (f x) = g x) \<Longrightarrow> map g (update_first p f xs) = map g xs"
  by (induction xs) auto

lemma map_update_last_by:
  "(\<And>x. key x = k \<Longrightarrow> g (f x) = g x) \<Longrightarrow> map g (update_last_by key k f xs) = map g xs"
  by (simp add: update_last_by_def map_update_first flip: rev_map)

lemma update_first_distinct:
  assumes "distinct (map key xs)"
  shows "update_first (\<lambda>x. key x = k) f xs = map (\<lambda>x. if key x = k then f x else x) xs"
  using assms by (induction xs) (auto intro!: map_idI [symmetric] simp: image_iff)

lemma update_last_by_distinct:
  assumes "distinct (map key xs)"
  shows "update_last_by key k f xs = update_where (\<lambda>x. key x = k) f xs"
proof -
  from assms have "distinct (map key (rev xs))" by (metis distinct_rev rev_map)
  then show ?thesis
    by (simp add: update_last_by_def update_first_distinct update_where_def rev_map)
qed

text \<open>A list comprehension whose element may raise.\<close>

fun map_result :: "('a \<Rightarrow> exn + 'b) \<Rightarrow> 'a list \<Rightarrow> exn + 'b list" where
  "map_result f [] = Inr []"
| "map_result f (x # xs) =
     (case f x of Inl e \<Rightarrow> Inl e
      | Inr y \<Rightarrow> (case map_result f xs of Inl e \<Rightarrow> Inl e | Inr ys \<Rightarrow> Inr (y # ys)))"

lemma map_result_ok: "(\<And>x. x \<in> set xs \<Longrightarrow> f x = Inr (g x)) \<Longrightarrow> map_result f xs = Inr (map g xs)"
  by (induction xs) simp_all

lemma map_result_Inr_iff:
  "map_result f xs = Inr ys \<longleftrightarrow> list_all2 (\<lambda>x y. f x = Inr y) xs ys"
proof (induction xs arbitrary: ys)
  case (Cons x xs)
  show ?case by (auto simp: list_all2_Cons1 simp flip: Cons.IH split: sum.splits)
qed auto

lemma map_result_map:
  "map_result f xs = Inr ys \<Longrightarrow> (\<And>x y. f x = Inr y \<Longrightarrow> g y = h x) \<Longrightarrow> map g ys = map h xs"
  by (induction xs arbitrary: ys) (auto split: sum.splits)

text \<open>\<open>d[k]\<close>.\<close>

definition getitem :: "('k \<Rightarrow> 'v option) \<Rightarrow> 'k \<Rightarrow> exn + 'v" where
  "getitem d k = (case d k of None \<Rightarrow> Inl (Exn KeyErrorPy []) | Some v \<Rightarrow> Inr v)"

lemma getitem_simps [simp]: "d k = Some v \<Longrightarrow> getitem d k = Inr v"
  by (simp add: getitem_def)

text \<open>\<open>sorted(xs)\<close> of a Python set.\<close>

abbreviation sorted_set :: "'a::linorder set \<Rightarrow> 'a list" where
  "sorted_set A \<equiv> sorted_list_of_set A"

text \<open>The first element of a list that is least for a key, as \<open>ORDER BY key LIMIT 1\<close>.\<close>

definition first_by :: "('a \<Rightarrow> 'k::linorder) \<Rightarrow> 'a list \<Rightarrow> 'a option" where
  "first_by key xs = (case sort_key key xs of [] \<Rightarrow> None | x # _ \<Rightarrow> Some x)"

lemma first_by_Some:
  assumes "first_by key xs = Some x"
  shows "x \<in> set xs" and "\<forall>y \<in> set xs. key x \<le> key y"
proof -
  from assms obtain ys where eq: "sort_key key xs = x # ys"
    by (auto simp: first_by_def split: list.splits)
  have s: "set (sort_key key xs) = set xs" by simp
  then show "x \<in> set xs" unfolding eq by auto
  have "sorted (map key (x # ys))" using sorted_sort_key [of key xs] unfolding eq .
  then show "\<forall>y \<in> set xs. key x \<le> key y" using s unfolding eq by auto
qed

lemma first_by_None: "first_by key xs = None \<longleftrightarrow> xs = []"
proof
  assume "first_by key xs = None"
  then have "sort_key key xs = []" by (simp add: first_by_def split: list.splits)
  then have "set xs = {}" using set_sort [of key xs] by simp
  then show "xs = []" by simp
qed (simp add: first_by_def)

end
