(* ===== verification/PyStrings.thy ===== *)
theory PyStrings
  imports Prelude
begin

section \<open>Python strings and URLs\<close>

text \<open>
  The string methods the modelled code calls, on ASCII text: \<open>strip\<close>, \<open>split\<close>, \<open>lower\<close> and
  \<open>casefold\<close>, \<open>startswith\<close>, \<open>in\<close>, \<open>rstrip\<close>, and \<open>urllib.parse.urlsplit\<close> with the
  \<open>hostname\<close> of its result.  The literal inside the brackets of an IPv6 host is not checked.
\<close>

definition is_space :: "char \<Rightarrow> bool" where
  "is_space c \<longleftrightarrow> (let n = of_char c :: nat in (9 \<le> n \<and> n \<le> 13) \<or> (28 \<le> n \<and> n \<le> 32))"

definition is_upper :: "char \<Rightarrow> bool" where
  "is_upper c \<longleftrightarrow> (let n = of_char c :: nat in 65 \<le> n \<and> n \<le> 90)"

definition is_lower :: "char \<Rightarrow> bool" where
  "is_lower c \<longleftrightarrow> (let n = of_char c :: nat in 97 \<le> n \<and> n \<le> 122)"

definition is_digit :: "char \<Rightarrow> bool" where
  "is_digit c \<longleftrightarrow> (let n = of_char c :: nat in 48 \<le> n \<and> n \<le> 57)"

definition is_alpha :: "char \<Rightarrow> bool" where
  "is_alpha c \<longleftrightarrow> is_upper c \<or> is_lower c"

definition is_word :: "char \<Rightarrow> bool" where
  "is_word c \<longleftrightarrow> is_alpha c \<or> is_digit c \<or> c = CHR ''_''"

definition to_lower :: "char \<Rightarrow> char" where
  "to_lower c = (if is_upper c then char_of (of_char c + 32 :: nat) else c)"

definition lower :: "string \<Rightarrow> string" where
  "lower s = map to_lower s"

definition to_upper :: "char \<Rightarrow> char" where
  "to_upper c = (if is_lower c then char_of (of_char c - 32 :: nat) else c)"

text \<open>\<open>s.capitalize()\<close>: the first letter raised, the rest lowered.\<close>

fun capitalize :: "string \<Rightarrow> string" where
  "capitalize [] = []"
| "capitalize (c # cs) = to_upper c # lower cs"

definition lstrip_by :: "(char \<Rightarrow> bool) \<Rightarrow> string \<Rightarrow> string" where
  "lstrip_by p s = dropWhile p s"

definition rstrip_by :: "(char \<Rightarrow> bool) \<Rightarrow> string \<Rightarrow> string" where
  "rstrip_by p s = rev (dropWhile p (rev s))"

definition strip :: "string \<Rightarrow> string" where
  "strip s = rstrip_by is_space (lstrip_by is_space s)"

definition startswith :: "string \<Rightarrow> string \<Rightarrow> bool" where
  "startswith s p \<longleftrightarrow> take (length p) s = p"

text \<open>\<open>needle in s\<close>.\<close>

fun contains :: "string \<Rightarrow> string \<Rightarrow> bool" where
  "contains needle [] = (needle = [])"
| "contains needle (c # cs) = (startswith (c # cs) needle \<or> contains needle cs)"

definition removeprefix :: "string \<Rightarrow> string \<Rightarrow> string" where
  "removeprefix s p = (if startswith s p then drop (length p) s else s)"

definition replace_char :: "char \<Rightarrow> char \<Rightarrow> string \<Rightarrow> string" where
  "replace_char a b s = map (\<lambda>c. if c = a then b else c) s"

text \<open>The maximal runs of characters that satisfy \<open>p\<close>: \<open>s.split()\<close> for non-spaces,
  \<open>re.findall(r"\w+", s)\<close> for word characters.\<close>

function runs_of :: "(char \<Rightarrow> bool) \<Rightarrow> string \<Rightarrow> string list" where
  "runs_of p s =
     (case dropWhile (\<lambda>c. \<not> p c) s of [] \<Rightarrow> []
      | c # cs \<Rightarrow> (c # takeWhile p cs) # runs_of p (dropWhile p cs))"
  by pat_completeness auto
termination
proof (relation "measure (\<lambda>(p, s). length s)", simp)
  fix p :: "char \<Rightarrow> bool" and s c cs
  assume "dropWhile (\<lambda>c. \<not> p c) s = c # cs"
  then have "Suc (length cs) \<le> length s"
    by (metis length_Cons length_dropWhile_le)
  moreover have "length (dropWhile p cs) \<le> length cs" by (rule length_dropWhile_le)
  ultimately show "((p, dropWhile p cs), (p, s)) \<in> measure (\<lambda>(p, s). length s)" by simp
qed

declare runs_of.simps [simp del]

definition split_ws :: "string \<Rightarrow> string list" where
  "split_ws s = runs_of (\<lambda>c. \<not> is_space c) s"

definition words :: "string \<Rightarrow> string list" where
  "words s = runs_of is_word s"

lemma runs_of_nonempty: "r \<in> set (runs_of p s) \<Longrightarrow> r \<noteq> [] \<and> (\<forall>c \<in> set r. p c)"
proof (induction p s rule: runs_of.induct)
  case (1 p s)
  show ?case
  proof (cases "dropWhile (\<lambda>c. \<not> p c) s")
    case Nil
    with "1.prems" show ?thesis by (simp add: runs_of.simps [of p s])
  next
    case (Cons c cs)
    have "dropWhile (\<lambda>c. \<not> p c) s \<noteq> []" unfolding Cons by simp
    then have "\<not> \<not> p (hd (dropWhile (\<lambda>c. \<not> p c) s))" by (rule hd_dropWhile)
    then have pc: "p c" unfolding Cons by simp
    have eq: "runs_of p s = (c # takeWhile p cs) # runs_of p (dropWhile p cs)"
      by (subst runs_of.simps) (simp only: Cons list.case)
    from "1.prems" consider "r = c # takeWhile p cs" | "r \<in> set (runs_of p (dropWhile p cs))"
      unfolding eq by auto
    then show ?thesis
    proof cases
      case 1
      with pc show ?thesis by (auto dest: set_takeWhileD)
    next
      case 2
      then show ?thesis by (rule "1.IH" [OF Cons])
    qed
  qed
qed

subsection \<open>URLs\<close>

record SplitResult =
  scheme :: string
  netloc :: string
  path :: string
  query :: string
  fragment :: string

text \<open>The text before and after the first character that satisfies \<open>p\<close>.\<close>

definition cut_at :: "(char \<Rightarrow> bool) \<Rightarrow> string \<Rightarrow> string \<times> string" where
  "cut_at p s = (takeWhile (\<lambda>c. \<not> p c) s, dropWhile (\<lambda>c. \<not> p c) s)"

definition is_scheme_char :: "char \<Rightarrow> bool" where
  "is_scheme_char c \<longleftrightarrow> is_alpha c \<or> is_digit c \<or> c \<in> set ''+-.''"

definition split_scheme :: "string \<Rightarrow> string \<times> string" where
  "split_scheme url =
     (case cut_at (\<lambda>c. c = CHR '':'') url of
        (c # cs, _ # rest) \<Rightarrow>
          if is_alpha c \<and> list_all is_scheme_char (c # cs) then (lower (c # cs), rest)
          else ([], url)
      | _ \<Rightarrow> ([], url))"

definition urlsplit :: "string \<Rightarrow> exn + SplitResult" where
  "urlsplit raw =
     (let url = filter (\<lambda>c. c \<notin> {CHR 0x09, CHR 0x0A, CHR 0x0D})
                  (lstrip_by (\<lambda>c. (of_char c :: nat) \<le> 32) raw);
          (sch, rest) = split_scheme url;
          (net, rest) = (if startswith rest ''//''
             then cut_at (\<lambda>c. c \<in> set ''/?#'') (drop 2 rest) else ([], rest));
          (body, frag) = cut_at (\<lambda>c. c = CHR ''#'') rest;
          (pth, qry) = cut_at (\<lambda>c. c = CHR ''?'') body
      in if (CHR ''['' \<in> set net) \<noteq> (CHR '']'' \<in> set net)
         then Inl (Exn ValueErrorPy ''Invalid IPv6 URL'')
         else Inr \<lparr>scheme = sch, netloc = net, path = pth, query = drop 1 qry,
                   fragment = drop 1 frag\<rparr>)"

text \<open>\<open>urlunsplit\<close> with an empty fragment.\<close>

definition urlunsplit :: "SplitResult \<Rightarrow> string" where
  "urlunsplit u =
     (let p = path u;
          slashed = (if netloc u \<noteq> [] then ''//'' @ netloc u @
             (if p \<noteq> [] \<and> \<not> startswith p ''/'' then CHR ''/'' # p else p)
             else if startswith p ''//'' then ''//'' @ p else p);
          full = (if scheme u \<noteq> [] then scheme u @ '':'' @ slashed else slashed);
          q = (if query u \<noteq> [] then full @ ''?'' @ query u else full)
      in if fragment u \<noteq> [] then q @ ''#'' @ fragment u else q)"

text \<open>\<open>SplitResult.hostname\<close>, with \<open>or ""\<close>.\<close>

definition hostname :: "SplitResult \<Rightarrow> string" where
  "hostname u =
     (let hostinfo = rev (takeWhile (\<lambda>c. c \<noteq> CHR ''@'') (rev (netloc u)))
      in if CHR ''['' \<in> set hostinfo
         then lower (takeWhile (\<lambda>c. c \<noteq> CHR '']'') (drop 1 (dropWhile (\<lambda>c. c \<noteq> CHR ''['') hostinfo)))
         else lower (takeWhile (\<lambda>c. c \<noteq> CHR '':'') hostinfo))"

end
