(* ===== verification/Calendar.thy ===== *)
theory Calendar
  imports Prelude
begin

section \<open>The calendar of Python's datetime module\<close>

text \<open>
  The proleptic Gregorian calendar as \<open>datetime\<close> and \<open>calendar.monthrange\<close> define it: a date
  is its ordinal (day 1 is the first of January of year 1), a datetime the number of
  microseconds \<open>ordinal * 86400000000 + time of day\<close>.  The lemmas give the two round trips
  between ordinals and year, month, day, and that the month number grows with time, which
  the billing windows and the recurrences rest on.  The range check of years 1 to 9999 is
  not modelled.
\<close>

definition is_leap :: "int \<Rightarrow> bool" where
  "is_leap y \<longleftrightarrow> y mod 4 = 0 \<and> (y mod 100 \<noteq> 0 \<or> y mod 400 = 0)"

definition days_before_year :: "int \<Rightarrow> int" where
  "days_before_year y = (let p = y - 1 in p * 365 + p div 4 - p div 100 + p div 400)"

definition monthrange :: "int \<Rightarrow> int \<Rightarrow> int" where
  "monthrange y m =
     (if m = 2 then (if is_leap y then 29 else 28)
      else if m = 4 \<or> m = 6 \<or> m = 9 \<or> m = 11 then 30 else 31)"

definition days_before_month :: "int \<Rightarrow> int \<Rightarrow> int" where
  "days_before_month y m =
     (let l = (if is_leap y then 1 else 0) in
      if m \<le> 1 then 0 else if m = 2 then 31 else if m = 3 then 59 + l else if m = 4 then 90 + l
      else if m = 5 then 120 + l else if m = 6 then 151 + l else if m = 7 then 181 + l
      else if m = 8 then 212 + l else if m = 9 then 243 + l else if m = 10 then 273 + l
      else if m = 11 then 304 + l else if m = 12 then 334 + l else 365 + l)"

definition toordinal :: "int \<Rightarrow> int \<Rightarrow> int \<Rightarrow> int" where
  "toordinal y m d = days_before_year y + days_before_month y m + d"

definition ord_year :: "int \<Rightarrow> int" where
  "ord_year n =
     (let n0 = n - 1; a = n0 div 146097; n1 = n0 mod 146097; b = n1 div 36524;
          n2 = n1 mod 36524; c = n2 div 1461; n3 = n2 mod 1461; e = n3 div 365
      in if b = 4 \<or> e = 4 then a * 400 + b * 100 + c * 4 + e
         else a * 400 + b * 100 + c * 4 + e + 1)"

definition ord_month :: "int \<Rightarrow> int" where
  "ord_month n =
     (let y = ord_year n; k = n - days_before_year y in
      if k \<le> days_before_month y 2 then 1 else if k \<le> days_before_month y 3 then 2
      else if k \<le> days_before_month y 4 then 3 else if k \<le> days_before_month y 5 then 4
      else if k \<le> days_before_month y 6 then 5 else if k \<le> days_before_month y 7 then 6
      else if k \<le> days_before_month y 8 then 7 else if k \<le> days_before_month y 9 then 8
      else if k \<le> days_before_month y 10 then 9 else if k \<le> days_before_month y 11 then 10
      else if k \<le> days_before_month y 12 then 11 else 12)"

definition ord_day :: "int \<Rightarrow> int" where
  "ord_day n = n - days_before_year (ord_year n) - days_before_month (ord_year n) (ord_month n)"

lemma div_pred_step:
  fixes y m :: int
  assumes "0 < m"
  shows "y div m = (y - 1) div m + (if y mod m = 0 then 1 else 0)"
proof -
  define q r where "q = y div m" and "r = y mod m"
  have y: "y = q * m + r" and r: "0 \<le> r" "r < m" using assms by (simp_all add: q_def r_def)
  show ?thesis
  proof (cases "r = 0")
    case True
    have e: "y - 1 = (m - 1) + (q - 1) * m" unfolding y using True by (simp add: algebra_simps)
    have "(y - 1) div m = (q - 1) + (m - 1) div m"
      unfolding e using assms by (intro div_mult_self1) simp
    moreover have "(m - 1) div m = 0" using assms by simp
    ultimately have "(y - 1) div m = q - 1" by simp
    then show ?thesis using True by (simp add: q_def r_def)
  next
    case False
    have e: "y - 1 = (r - 1) + q * m" unfolding y by simp
    have "(y - 1) div m = q + (r - 1) div m"
      unfolding e using assms by (intro div_mult_self1) simp
    moreover have "(r - 1) div m = 0" using r False by simp
    ultimately have "(y - 1) div m = q" by simp
    then show ?thesis using False by (simp add: q_def r_def)
  qed
qed

lemma leap_count_step:
  fixes y a b c :: int
  assumes "p100 \<Longrightarrow> p4" and "p400 \<Longrightarrow> p100"
  shows "y * 365 + (a + (if p4 then 1 else 0)) - (b + (if p100 then 1 else 0))
           + (c + (if p400 then 1 else 0))
         = ((y - 1) * 365 + a - b + c) + (if p4 \<and> (\<not> p100 \<or> p400) then 366 else 365)"
  using assms by (cases p4; cases p100; cases p400) auto

lemma days_before_year_Suc:
  "days_before_year (y + 1) = days_before_year y + (if is_leap y then 366 else 365)"
proof -
  define a b c where "a = (y - 1) div 4" and "b = (y - 1) div 100" and "c = (y - 1) div 400"
  have 4: "y div 4 = a + (if y mod 4 = 0 then 1 else 0)"
    unfolding a_def by (rule div_pred_step) simp
  have 100: "y div 100 = b + (if y mod 100 = 0 then 1 else 0)"
    unfolding b_def by (rule div_pred_step) simp
  have 400: "y div 400 = c + (if y mod 400 = 0 then 1 else 0)"
    unfolding c_def by (rule div_pred_step) simp
  have i1: "y mod 100 = 0 \<Longrightarrow> y mod 4 = 0"
    using dvd_trans [of 4 100 y] by (simp add: dvd_eq_mod_eq_0)
  have i2: "y mod 400 = 0 \<Longrightarrow> y mod 100 = 0"
    using dvd_trans [of 100 400 y] by (simp add: dvd_eq_mod_eq_0)
  have d: "days_before_year y = (y - 1) * 365 + a - b + c"
    by (simp only: days_before_year_def Let_def a_def b_def c_def)
  have "days_before_year (y + 1) = y * 365 + y div 4 - y div 100 + y div 400"
    by (simp add: days_before_year_def)
  then show ?thesis unfolding d 4 100 400 is_leap_def
    by (simp only: leap_count_step [OF i1 i2])
qed

lemma days_before_year_mono: "x \<le> y \<Longrightarrow> days_before_year x \<le> days_before_year y"
proof (induction "nat (y - x)" arbitrary: y)
  case 0
  then show ?case by simp
next
  case (Suc k)
  then have "days_before_year x \<le> days_before_year (y - 1)" by simp
  also have "\<dots> \<le> days_before_year y"
    using days_before_year_Suc [of "y - 1"] by simp
  finally show ?case .
qed

lemma days_before_year_split:
  assumes "0 \<le> b" "b \<le> 3" "0 \<le> c" "c \<le> 24" "0 \<le> e" "e \<le> 3"
  shows "days_before_year (a * 400 + b * 100 + c * 4 + e + 1)
           = 146097 * a + 36524 * b + 1461 * c + 365 * e"
proof -
  let ?p = "a * 400 + b * 100 + c * 4 + e"
  have e: "?p = e + (100 * a + 25 * b + c) * 4" "?p = (c * 4 + e) + (4 * a + b) * 100"
    "?p = (b * 100 + c * 4 + e) + a * 400" by simp_all
  have "?p div 4 = 100 * a + 25 * b + c" unfolding e(1) using assms by simp
  moreover have "?p div 100 = 4 * a + b" unfolding e(2) using assms by simp
  moreover have "?p div 400 = a" unfolding e(3) using assms by simp
  ultimately show ?thesis by (simp add: days_before_year_def Let_def)
qed

lemma ord_year_lower: "days_before_year (ord_year n) < n"
  and ord_year_upper: "n \<le> days_before_year (ord_year n + 1)"
proof -
  define a where "a = (n - 1) div 146097"
  define n1 where "n1 = (n - 1) mod 146097"
  define b where "b = n1 div 36524"
  define n2 where "n2 = n1 mod 36524"
  define c where "c = n2 div 1461"
  define n3 where "n3 = n2 mod 1461"
  define e where "e = n3 div 365"
  define n4 where "n4 = n3 mod 365"
  have n: "n - 1 = 146097 * a + n1" "0 \<le> n1" "n1 < 146097"
    by (simp_all add: a_def n1_def)
  have n1: "n1 = 36524 * b + n2" "0 \<le> n2" "n2 < 36524" by (simp_all add: b_def n2_def)
  have n2: "n2 = 1461 * c + n3" "0 \<le> n3" "n3 < 1461" by (simp_all add: c_def n3_def)
  have n3: "n3 = 365 * e + n4" "0 \<le> n4" "n4 < 365" by (simp_all add: e_def n4_def)
  have b: "0 \<le> b" "b \<le> 4" using n n1 by linarith+
  have c: "0 \<le> c" "c \<le> 24" using n1 n2 by linarith+
  have e: "0 \<le> e" "e \<le> 4" using n2 n3 by linarith+
  have year: "ord_year n = (if b = 4 \<or> e = 4 then a * 400 + b * 100 + c * 4 + e
       else a * 400 + b * 100 + c * 4 + e + 1)"
    by (simp add: ord_year_def Let_def a_def n1_def b_def n2_def c_def n3_def e_def)
  have "days_before_year (ord_year n) < n \<and> n \<le> days_before_year (ord_year n + 1)"
  proof (cases "b = 4")
    case True
    then have z: "n1 = 146096" "n2 = 0" "c = 0" "n3 = 0" "e = 0" using n n1 n2 n3 c e by linarith+
    have y: "ord_year n = a * 400 + 3 * 100 + 24 * 4 + 3 + 1" using year True z by simp
    have "days_before_year (ord_year n) = 146097 * a + 36524 * 3 + 1461 * 24 + 365 * 3"
      unfolding y by (rule days_before_year_split) simp_all
    moreover have "days_before_year (ord_year n + 1) = 146097 * (a + 1)"
      using days_before_year_split [of 0 0 0 "a + 1"] unfolding y by (simp add: algebra_simps)
    ultimately show ?thesis using n z by simp
  next
    case False
    then have b3: "b \<le> 3" using b by simp
    show ?thesis
    proof (cases "e = 4")
      case True
      then have n4: "n4 = 0" using n2 n3 by linarith
      have y: "ord_year n = a * 400 + b * 100 + c * 4 + 3 + 1" using year True by simp
      have dby: "days_before_year (ord_year n) = 146097 * a + 36524 * b + 1461 * c + 365 * 3"
        unfolding y using b b3 c by (intro days_before_year_split) simp_all
      have leap: "is_leap (ord_year n)"
      proof (cases "c = 24")
        case True
        then have "b = 3 \<or> n2 < 36524" using n1 by simp
        have "n3 = 1460" using \<open>e = 4\<close> n2 n3 by linarith
        with True n2 have "n2 = 36524" by simp
        with n1 show ?thesis by simp
      next
        case False
        with c have "c \<le> 23" by simp
        have "ord_year n mod 4 = 0" unfolding y by presburger
        moreover have "ord_year n mod 100 = 4 * (c + 1)"
        proof -
          have "ord_year n = 4 * (c + 1) + (4 * a + b) * 100" unfolding y by simp
          then have "ord_year n mod 100 = (4 * (c + 1)) mod 100" by (simp only: mod_mult_self1)
          then show ?thesis using c \<open>c \<le> 23\<close> by simp
        qed
        ultimately show ?thesis using c \<open>c \<le> 23\<close> by (simp add: is_leap_def)
      qed
      have nn: "n = 146097 * a + 36524 * b + 1461 * c + 1461"
        using n n1 n2 n3 n4 \<open>e = 4\<close> by simp
      show ?thesis using dby days_before_year_Suc [of "ord_year n"] leap nn by simp
    next
      case False
      then have e3: "e \<le> 3" using e by simp
      have y: "ord_year n = a * 400 + b * 100 + c * 4 + e + 1"
        using year False \<open>b \<noteq> 4\<close> by simp
      have dby: "days_before_year (ord_year n) = 146097 * a + 36524 * b + 1461 * c + 365 * e"
        unfolding y using b b3 c e e3 by (intro days_before_year_split) simp_all
      have nn: "n = 146097 * a + 36524 * b + 1461 * c + 365 * e + n4 + 1"
        using n n1 n2 n3 by simp
      show ?thesis using dby days_before_year_Suc [of "ord_year n"] nn n3
        by (auto split: if_splits)
    qed
  qed
  then show "days_before_year (ord_year n) < n" "n \<le> days_before_year (ord_year n + 1)"
    by simp_all
qed

lemma ord_year_unique:
  assumes "days_before_year y < n" "n \<le> days_before_year (y + 1)"
  shows "ord_year n = y"
proof (rule ccontr)
  assume "ord_year n \<noteq> y"
  then consider "ord_year n + 1 \<le> y" | "y + 1 \<le> ord_year n" by linarith
  then show False
  proof cases
    case 1
    then show False using days_before_year_mono [OF 1] ord_year_upper [of n] assms by simp
  next
    case 2
    then show False using days_before_year_mono [OF 2] ord_year_lower [of n] assms by simp
  qed
qed

subsection \<open>Month numbers\<close>

text \<open>Months are numbered through the years: month \<open>m\<close> of year \<open>y\<close> is \<open>12 * y + m - 1\<close>.\<close>

definition month_start :: "int \<Rightarrow> int" where
  "month_start i = toordinal (i div 12) (i mod 12 + 1) 1"

definition ord_month_index :: "int \<Rightarrow> int" where
  "ord_month_index n = ord_year n * 12 + ord_month n - 1"

lemma month_cases:
  assumes "1 \<le> m" "m \<le> (12::int)"
  shows "m = 1 \<or> m = 2 \<or> m = 3 \<or> m = 4 \<or> m = 5 \<or> m = 6 \<or> m = 7 \<or> m = 8 \<or> m = 9
         \<or> m = 10 \<or> m = 11 \<or> m = 12"
  using assms by presburger

lemma days_before_month_Suc:
  assumes "1 \<le> m" "m \<le> 12"
  shows "days_before_month y (m + 1) = days_before_month y m + monthrange y m"
  using month_cases [OF assms]
  by (elim disjE) (simp_all add: days_before_month_def monthrange_def Let_def)

lemma monthrange_bounds: "28 \<le> monthrange y m" "monthrange y m \<le> 31"
  by (simp_all add: monthrange_def)

lemma month_start_Suc: "month_start (i + 1) = month_start i + monthrange (i div 12) (i mod 12 + 1)"
proof -
  define y k where "y = i div 12" and "k = i mod 12"
  have i: "i = k + y * 12" and k: "0 \<le> k" "k < 12" by (simp_all add: y_def k_def)
  have start: "month_start i = toordinal y (k + 1) 1" by (simp add: month_start_def y_def k_def)
  show ?thesis
  proof (cases "k = 11")
    case True
    then have "(i + 1) div 12 = y + 1" "(i + 1) mod 12 = 0" unfolding i by simp_all
    with True start days_before_year_Suc [of y] show ?thesis
      by (simp add: month_start_def [of "i + 1"] toordinal_def days_before_month_def
          monthrange_def Let_def flip: y_def k_def)
  next
    case False
    have s: "i + 1 = (k + 1) + y * 12" unfolding i by simp
    have eq: "(i + 1) div 12 = y" "(i + 1) mod 12 = k + 1" unfolding s using k False by simp_all
    have "1 \<le> k + 1" "k + 1 \<le> 12" using k by simp_all
    from days_before_month_Suc [OF this, of y] show ?thesis
      by (simp add: month_start_def [of "i + 1"] start toordinal_def eq flip: y_def k_def)
  qed
qed

lemma month_start_less: "i < j \<Longrightarrow> month_start i < month_start j"
proof (induction "nat (j - i)" arbitrary: j)
  case 0
  then show ?case by simp
next
  case (Suc k)
  have step: "month_start (j - 1) < month_start j"
    using month_start_Suc [of "j - 1"] monthrange_bounds(1) [of "(j - 1) div 12" "(j - 1) mod 12 + 1"]
    by simp
  show ?case
  proof (cases "i = j - 1")
    case True
    with step show ?thesis by simp
  next
    case False
    with Suc have "month_start i < month_start (j - 1)" by simp
    with step show ?thesis by simp
  qed
qed

lemma month_start_le: "i \<le> j \<Longrightarrow> month_start i \<le> month_start j"
  using month_start_less [of i j] by (cases "i = j") auto

lemma ord_month_range: "1 \<le> ord_month n" "ord_month n \<le> 12"
  by (simp_all add: ord_month_def Let_def)

lemma ord_month_lower: "days_before_month (ord_year n) (ord_month n) < n - days_before_year (ord_year n)"
  and ord_month_upper:
    "n - days_before_year (ord_year n) \<le> days_before_month (ord_year n) (ord_month n + 1)"
proof -
  let ?y = "ord_year n" and ?k = "n - days_before_year (ord_year n)"
  have k: "0 < ?k" "?k \<le> days_before_month ?y 13"
    using ord_year_lower [of n] ord_year_upper [of n] days_before_year_Suc [of ?y]
    by (auto simp: days_before_month_def Let_def split: if_splits)
  show "days_before_month ?y (ord_month n) < ?k"
    unfolding ord_month_def Let_def using k(1)
    by (auto simp: days_before_month_def Let_def)
  show "?k \<le> days_before_month ?y (ord_month n + 1)"
    unfolding ord_month_def Let_def using k(2) by auto
qed

lemma ord_month_index_div: "ord_month_index n div 12 = ord_year n"
  and ord_month_index_mod: "ord_month_index n mod 12 + 1 = ord_month n"
proof -
  have m: "0 \<le> ord_month n - 1" "ord_month n - 1 < 12" using ord_month_range [of n] by simp_all
  have i: "ord_month_index n = (ord_month n - 1) + ord_year n * 12"
    by (simp add: ord_month_index_def)
  show "ord_month_index n div 12 = ord_year n" unfolding i using m by simp
  show "ord_month_index n mod 12 + 1 = ord_month n" unfolding i using m by simp
qed

lemma month_start_ord: "month_start (ord_month_index n) = n - ord_day n + 1"
  by (simp add: month_start_def toordinal_def ord_month_index_div ord_month_index_mod ord_day_def)

lemma ord_day_bounds:
  "1 \<le> ord_day n" "ord_day n \<le> monthrange (ord_year n) (ord_month n)"
  using ord_month_lower [of n] ord_month_upper [of n]
    days_before_month_Suc [of "ord_month n" "ord_year n"] ord_month_range [of n]
  by (simp_all add: ord_day_def)

lemma month_start_bounds:
  "month_start (ord_month_index n) \<le> n" "n < month_start (ord_month_index n + 1)"
  using ord_day_bounds [of n] month_start_Suc [of "ord_month_index n"] month_start_ord [of n]
  by (simp_all add: ord_month_index_div ord_month_index_mod)

lemma ord_month_index_unique:
  assumes "month_start i \<le> n" "n < month_start (i + 1)"
  shows "ord_month_index n = i"
proof (rule ccontr)
  assume "ord_month_index n \<noteq> i"
  then consider "ord_month_index n + 1 \<le> i" | "i + 1 \<le> ord_month_index n" by linarith
  then show False
  proof cases
    case 1
    then show False using month_start_le [OF 1] month_start_bounds(2) [of n] assms by simp
  next
    case 2
    then show False using month_start_le [OF 2] month_start_bounds(1) [of n] assms by simp
  qed
qed

lemma ord_month_index_mono: "n \<le> n' \<Longrightarrow> ord_month_index n \<le> ord_month_index n'"
proof (rule ccontr)
  assume le: "n \<le> n'" and "\<not> ord_month_index n \<le> ord_month_index n'"
  then have "ord_month_index n' + 1 \<le> ord_month_index n" by simp
  from month_start_le [OF this] show False
    using month_start_bounds [of n] month_start_bounds [of n'] le by simp
qed

text \<open>The round trips.\<close>

lemma toordinal_ord: "toordinal (ord_year n) (ord_month n) (ord_day n) = n"
  by (simp add: toordinal_def ord_day_def)

lemma toordinal_month_start:
  "1 \<le> m \<Longrightarrow> m \<le> 12 \<Longrightarrow> toordinal y m d = month_start (y * 12 + m - 1) + d - 1"
proof -
  assume m: "1 \<le> m" "m \<le> 12"
  have i: "y * 12 + m - 1 = (m - 1) + y * 12" by simp
  have "(y * 12 + m - 1) div 12 = y" "(y * 12 + m - 1) mod 12 = m - 1"
    unfolding i using m by simp_all
  then show ?thesis by (simp add: month_start_def toordinal_def)
qed

lemma ord_month_index_toordinal:
  assumes "1 \<le> m" "m \<le> 12" "1 \<le> d" "d \<le> monthrange y m"
  shows "ord_month_index (toordinal y m d) = y * 12 + m - 1"
proof (rule ord_month_index_unique)
  let ?i = "y * 12 + m - 1"
  have i: "?i = (m - 1) + y * 12" by simp
  have dm: "?i div 12 = y" "?i mod 12 + 1 = m" unfolding i using assms by simp_all
  show "month_start ?i \<le> toordinal y m d" using assms by (simp add: toordinal_month_start)
  show "toordinal y m d < month_start (?i + 1)"
    using assms month_start_Suc [of ?i] unfolding dm by (simp add: toordinal_month_start)
qed

lemma ord_fields_toordinal:
  assumes "1 \<le> m" "m \<le> 12" "1 \<le> d" "d \<le> monthrange y m"
  shows "ord_year (toordinal y m d) = y" "ord_month (toordinal y m d) = m"
    "ord_day (toordinal y m d) = d"
proof -
  let ?n = "toordinal y m d" and ?i = "y * 12 + m - 1"
  have i: "?i = (m - 1) + y * 12" by simp
  have dm: "?i div 12 = y" "?i mod 12 + 1 = m" unfolding i using assms by simp_all
  show y: "ord_year ?n = y"
    using ord_month_index_div [of ?n] ord_month_index_toordinal [OF assms] dm by simp
  show m: "ord_month ?n = m"
    using ord_month_index_mod [of ?n] ord_month_index_toordinal [OF assms] dm by simp
  show "ord_day ?n = d" using y m by (simp add: ord_day_def toordinal_def)
qed

subsection \<open>Datetimes\<close>

definition day_us :: int where
  "day_us = 86400000000"

definition dt_date :: "datetime \<Rightarrow> date" where
  "dt_date t = t div day_us"

definition dt_time :: "datetime \<Rightarrow> int" where
  "dt_time t = t mod day_us"

definition at_midnight :: "date \<Rightarrow> datetime" where
  "at_midnight n = n * day_us"

definition dt_month_index :: "datetime \<Rightarrow> int" where
  "dt_month_index t = ord_month_index (dt_date t)"

text \<open>A datetime counts microseconds from the midnight that begins day 0 of the ordinals, so
  that the day of a datetime is its ordinal; \<open>timestamp\<close> counts seconds from 1970, the ordinal
  719163 (\<open>int(value.timestamp())\<close> of a time after 1970).\<close>

definition epoch_us :: int where
  "epoch_us = 719163 * day_us"

definition timestamp :: "datetime \<Rightarrow> int" where
  "timestamp t = (t - epoch_us) div 1000000"

definition from_timestamp :: "int \<Rightarrow> datetime" where
  "from_timestamp n = epoch_us + n * 1000000"

lemma timestamp_from_timestamp [simp]: "timestamp (from_timestamp n) = n"
  by (simp add: timestamp_def from_timestamp_def)

lemma epoch_ordinal: "epoch_us = at_midnight (toordinal 1970 1 1)"
  by (simp add: epoch_us_def at_midnight_def toordinal_def days_before_year_def days_before_month_def
      is_leap_def)

text \<open>\<open>value.replace(year=y, month=m, day=d)\<close> keeps the time of day.\<close>

definition dt_replace :: "datetime \<Rightarrow> int \<Rightarrow> int \<Rightarrow> int \<Rightarrow> datetime" where
  "dt_replace t y m d = toordinal y m d * day_us + dt_time t"

lemma dt_split: "t = dt_date t * day_us + dt_time t"
  by (simp add: dt_date_def dt_time_def)

lemma dt_time_bounds: "0 \<le> dt_time t" "dt_time t < day_us"
  by (simp_all add: dt_time_def day_us_def)

lemma dt_date_replace [simp]: "dt_date (dt_replace t y m d) = toordinal y m d"
  using dt_time_bounds [of t] by (simp add: dt_date_def dt_replace_def day_us_def)

lemma dt_time_replace [simp]: "dt_time (dt_replace t y m d) = dt_time t"
  using dt_time_bounds [of t] by (simp add: dt_time_def dt_replace_def day_us_def)

lemma dt_date_mono: "t \<le> t' \<Longrightarrow> dt_date t \<le> dt_date t'"
  by (simp add: dt_date_def day_us_def zdiv_mono1)

lemma dt_month_index_mono: "t \<le> t' \<Longrightarrow> dt_month_index t \<le> dt_month_index t'"
  by (simp add: dt_month_index_def ord_month_index_mono dt_date_mono)

lemma dt_month_index_less: "dt_month_index t < dt_month_index t' \<Longrightarrow> t < t'"
  using dt_month_index_mono [of t' t] by linarith

lemma dt_month_index_replace:
  "1 \<le> m \<Longrightarrow> m \<le> 12 \<Longrightarrow> 1 \<le> d \<Longrightarrow> d \<le> monthrange y m \<Longrightarrow>
     dt_month_index (dt_replace t y m d) = y * 12 + m - 1"
  by (simp add: dt_month_index_def ord_month_index_toordinal)

text \<open>\<open>date.isoformat\<close>: four digits, two and two.\<close>

definition pad :: "nat \<Rightarrow> int \<Rightarrow> string" where
  "pad w i = (let s = nat_str (nat i) in replicate (w - length s) (CHR ''0'') @ s)"

definition isoformat :: "date \<Rightarrow> string" where
  "isoformat n = pad 4 (ord_year n) @ ''-'' @ pad 2 (ord_month n) @ ''-'' @ pad 2 (ord_day n)"

section \<open>Billing windows (month_at and window of
  backend/app/services/subscription_access_service.py)\<close>

text \<open>
  The monthly allowance windows of an account: \<open>month_at\<close> moves an anchor by whole months,
  clamping the day, and \<open>window\<close> finds the window a time falls into.  The lemmas show that
  the windows of one anchor tile time without gap or overlap.  Years outside 1 to 9999,
  which Python's datetime refuses, are not excluded here.
\<close>

definition month_at :: "datetime \<Rightarrow> int \<Rightarrow> datetime" where
  "month_at anchor offset =
     (let index = ord_year (dt_date anchor) * 12 + ord_month (dt_date anchor) - 1 + offset;
          year = index div 12; month = index mod 12 + 1
      in dt_replace anchor year month (min (ord_day (dt_date anchor)) (monthrange year month)))"

definition month_offset :: "datetime \<Rightarrow> datetime \<Rightarrow> int" where
  "month_offset anchor stamp =
     (ord_year (dt_date stamp) - ord_year (dt_date anchor)) * 12
       + ord_month (dt_date stamp) - ord_month (dt_date anchor)"

definition window :: "datetime \<Rightarrow> datetime \<Rightarrow> datetime \<times> datetime" where
  "window anchor stamp =
     (let offset = month_offset anchor stamp;
          offset = (if month_at anchor offset > stamp then offset - 1 else offset)
      in (month_at anchor offset, month_at anchor (offset + 1)))"

lemma month_offset_index: "month_offset anchor stamp = dt_month_index stamp - dt_month_index anchor"
  by (simp add: month_offset_def dt_month_index_def ord_month_index_def)

lemma month_index_month_at: "dt_month_index (month_at anchor k) = dt_month_index anchor + k"
proof -
  let ?i = "dt_month_index anchor + k"
  have i: "ord_year (dt_date anchor) * 12 + ord_month (dt_date anchor) - 1 + k = ?i"
    by (simp add: dt_month_index_def ord_month_index_def)
  have m: "1 \<le> ?i mod 12 + 1" "?i mod 12 + 1 \<le> 12"
    using pos_mod_bound [of 12 ?i] by simp_all
  have d: "1 \<le> ord_day (dt_date anchor)" by (rule ord_day_bounds)
  have "dt_month_index (month_at anchor k) = (?i div 12) * 12 + (?i mod 12 + 1) - 1"
    unfolding month_at_def Let_def i
    using m d monthrange_bounds(1) [of "?i div 12" "?i mod 12 + 1"]
    by (intro dt_month_index_replace) auto
  then show ?thesis by simp
qed

lemma month_at_strict_mono: "j < k \<Longrightarrow> month_at anchor j < month_at anchor k"
  by (rule dt_month_index_less) (simp add: month_index_month_at)

lemma month_at_0: "month_at anchor 0 = anchor"
proof -
  let ?n = "dt_date anchor"
  have y: "(ord_year ?n * 12 + ord_month ?n - 1) div 12 = ord_year ?n"
    and m: "(ord_year ?n * 12 + ord_month ?n - 1) mod 12 + 1 = ord_month ?n"
    using ord_month_index_div [of ?n] ord_month_index_mod [of ?n] by (simp_all add: ord_month_index_def)
  show ?thesis
    using ord_day_bounds(2) [of ?n] dt_split [of anchor] toordinal_ord [of ?n]
    by (simp add: month_at_def Let_def y m dt_replace_def min_absorb1)
qed

lemma window_bounds:
  "fst (window anchor stamp) \<le> stamp" "stamp < snd (window anchor stamp)"
proof -
  let ?k = "month_offset anchor stamp"
  have below: "month_at anchor (?k - 1) < stamp" and above: "stamp < month_at anchor (?k + 1)"
    by (rule dt_month_index_less, simp add: month_index_month_at month_offset_index)+
  then show "fst (window anchor stamp) \<le> stamp" "stamp < snd (window anchor stamp)"
    by (auto simp: window_def Let_def)
qed

lemma window_unique:
  assumes "month_at anchor k \<le> stamp" and "stamp < month_at anchor (k + 1)"
  shows "window anchor stamp = (month_at anchor k, month_at anchor (k + 1))"
proof -
  define j where "j = (if month_at anchor (month_offset anchor stamp) > stamp
     then month_offset anchor stamp - 1 else month_offset anchor stamp)"
  have w: "window anchor stamp = (month_at anchor j, month_at anchor (j + 1))"
    by (simp add: window_def Let_def j_def)
  have b: "month_at anchor j \<le> stamp" "stamp < month_at anchor (j + 1)"
    using window_bounds(1) [of anchor stamp] window_bounds(2) [of stamp anchor] by (simp_all add: w)
  have mono: "\<And>a b. month_at anchor a < month_at anchor b \<Longrightarrow> a < b"
    using month_at_strict_mono [of _ _ anchor] by (metis not_less_iff_gr_or_eq)
  have "j < k + 1" by (rule mono) (use b(1) assms(2) in simp)
  moreover have "k < j + 1" by (rule mono) (use b(2) assms(1) in simp)
  ultimately have "j = k" by simp
  then show ?thesis by (simp add: w)
qed

text \<open>Two times are in the same window or in disjoint ones.\<close>

lemma window_same:
  assumes "fst (window anchor s) \<le> t" and "t < snd (window anchor s)"
  shows "window anchor t = window anchor s"
proof -
  obtain k where k: "window anchor s = (month_at anchor k, month_at anchor (k + 1))"
    by (auto simp: window_def Let_def)
  show ?thesis using assms unfolding k by (simp add: window_unique)
qed

end
