(* ===== verification/Contracts.thy ===== *)
theory Contracts
  imports PyStrings Calendar
begin

section \<open>Research output contracts (backend/app/radar/contracts.py)\<close>

text \<open>
  The structured output of the four research stages: one record per pydantic model, one
  datatype per \<open>Literal\<close>, and the validators as functions that return a
  \<open>ValidationError\<close> or the accepted value.  A record carries the values after pydantic's
  parsing of JSON; the \<open>Field(ge, le)\<close> bounds are the \<open>_bounds\<close> predicates.  A float is a
  rational.
\<close>

datatype Level = Low | Medium | High

type_synonym Confidence = Level
type_synonym Priority = Level

datatype Audience = Researchers | BuildersTechnicalTeams | ScienceCommunicatorsEducators
  | ExecutivesDecisionMakers | GeneralAudience

definition validation_error :: "string \<Rightarrow> exn + 'a" where
  "validation_error m = Inl (Exn ValidationError m)"

definition validate_http_url :: "string option \<Rightarrow> exn + string option" where
  "validate_http_url v =
     (case v of None \<Rightarrow> Inr None
      | Some url \<Rightarrow> (case urlsplit url of
            Inl e \<Rightarrow> Inl e
          | Inr parsed \<Rightarrow>
              if scheme parsed \<notin> {''http'', ''https''} \<or> netloc parsed = []
              then validation_error ''URL must use HTTP or HTTPS and include a host''
              else Inr v))"

record SourceCitation =
  cit_title :: string
  cit_url :: string

datatype access_status = AccessOpen | AccessPaywalled | AccessMetadataOnly
  | AccessUserProvided | AccessUnknown

record SearchPaper =
  sp_source_name :: string
  sp_external_id :: string
  sp_title :: string
  sp_authors :: "string list"
  sp_abstract :: "string option"
  sp_published_date :: "date option"
  sp_updated_date :: "date option"
  sp_venue_or_source :: "string option"
  sp_url :: string
  sp_pdf_url :: "string option"
  sp_doi :: "string option"
  sp_access_status :: access_status
  sp_license :: "string option"
  sp_full_text_available :: bool
  sp_discovery_reason :: string
  sp_matched_keywords :: "string list"
  sp_possible_duplicate_of :: "string option"
  sp_factual_note :: string
  sp_warnings :: "string list"
  sp_citations :: "SourceCitation list"

record SearchMetadata =
  sm_queries :: "string list"
  sm_sources_used :: "string list"
  sm_deduplication_notes :: "string list"
  sm_coverage_notes :: "string list"
  sm_next_step_recommendations :: "string list"

record SearchStage = SearchMetadata +
  ss_papers :: "SearchPaper list"

datatype recommended_status = Summarize | MentionBriefly | Archive | Reject

datatype digest_placement = TopPaper | ImportantTechnicalContribution | TrendSignal
  | BackgroundContext | NicheInterest | ArchiveOnly | PlacementReject

record RelevanceDetails =
  ra_topic_relevance_score :: int
  ra_novelty_signal_score :: int
  ra_practical_value_score :: int
  ra_score :: rat
  ra_confidence_score :: int
  ra_recommended_status :: recommended_status
  ra_best_digest_placement :: digest_placement
  ra_rationale :: string
  ra_criteria :: "string list"
  ra_evidence_used :: "string list"
  ra_potential_value_for_audience :: string
  ra_caveats :: "string list"
  ra_next_step_recommendations :: "string list"

record RelevanceAssessment = RelevanceDetails +
  ra_external_id :: string

record RelevanceStage =
  rs_methodology :: string
  rs_assessments :: "RelevanceAssessment list"
  rs_recommendations :: "string list"
  rs_quality_warnings :: "string list"

text \<open>The \<open>Field(ge=..., le=...)\<close> bounds of \<open>RelevanceDetails\<close>.\<close>

definition one_to_ten :: "int \<Rightarrow> bool" where
  "one_to_ten n \<longleftrightarrow> 1 \<le> n \<and> n \<le> 10"

definition relevance_bounds :: "'a RelevanceDetails_scheme \<Rightarrow> bool" where
  "relevance_bounds a \<longleftrightarrow>
     one_to_ten (ra_topic_relevance_score a) \<and> one_to_ten (ra_novelty_signal_score a)
     \<and> one_to_ten (ra_practical_value_score a) \<and> 0 \<le> ra_score a \<and> ra_score a \<le> 100
     \<and> one_to_ten (ra_confidence_score a)"

definition is_selected :: "'a RelevanceDetails_scheme \<Rightarrow> bool" where
  "is_selected a \<longleftrightarrow> ra_recommended_status a \<in> {Summarize, MentionBriefly}"

record FindingEvidence =
  fe_finding_index :: nat
  fe_passage_ids :: "string list"

record SourceAttribution =
  sa_title :: string
  sa_authors :: "string list"
  sa_source_url :: string
  sa_license_url :: string
  sa_rights_notice :: string
  sa_changes :: string

datatype summary_basis = BasisMetadataOnly | BasisAbstractOnly | BasisExtractedSections
  | BasisOpenFullText | BasisUserProvidedSource | BasisUnclear

datatype paper_type = EmpiricalStudy | BenchmarkPaper | DatasetPaper | SurveyReview
  | TheoreticalPaper | SystemsPaper | MethodsPaper | PositionPaper | CaseStudy | TypeUnclear

record PaperSummary =
  ps_external_id :: string
  ps_summary_basis :: summary_basis
  ps_paper_type :: paper_type
  ps_concise_summary :: string
  ps_why_this_paper_matters :: "string list"
  ps_methods :: "string list"
  ps_key_findings :: "string list"
  ps_limitations :: "string list"
  ps_implications :: "string list"
  ps_recommendations :: "string list"
  ps_suggested_digest_bullet :: string
  ps_follow_up_questions :: "string list"
  ps_related_search_terms :: "string list"
  ps_warnings :: "string list"
  ps_confidence_score :: int
  ps_summary_evidence_ids :: "string list"
  ps_finding_evidence :: "FindingEvidence list"
  ps_source_attribution :: "SourceAttribution option"

datatype trend_evidence_type = MultiPaperPattern | SinglePaperSignal
  | HistoricalContinuation | WeakSignalEvidence

record TrendTheme =
  tt_title :: string
  tt_summary :: string
  tt_evidence_type :: trend_evidence_type
  tt_evidence_external_ids :: "string list"
  tt_observed_pattern :: string
  tt_interpretation :: string
  tt_confidence :: Confidence
  tt_relevance_to_audience :: string
  tt_caveats :: "string list"

datatype emerging_item_type = ItemMethod | ItemModel | ItemTool | ItemDataset | ItemBenchmark
  | ItemFramework | ItemMetric | ItemSystem | ItemOther

datatype maturity_level = MaturityEarly | MaturityEmerging | MaturityEstablished | MaturityUnclear

record EmergingItem =
  ei_name :: string
  ei_item_type :: emerging_item_type
  ei_description :: string
  ei_supporting_external_ids :: "string list"
  ei_why_it_matters :: string
  ei_maturity_level :: maturity_level
  ei_confidence :: Confidence
  ei_caveats :: "string list"

record RepeatedProblem =
  rp_name :: string
  rp_description :: string
  rp_supporting_external_ids :: "string list"
  rp_affected_methods_or_topics :: "string list"
  rp_why_it_matters :: string
  rp_confidence :: Confidence

record CompetingApproach =
  ca_description :: string
  ca_approach_a :: string
  ca_approach_b :: string
  ca_supporting_external_ids :: "string list"
  ca_interpretation :: string
  ca_confidence :: Confidence
  ca_caveats :: "string list"

record WeakSignal =
  ws_name :: string
  ws_description :: string
  ws_supporting_external_ids :: "string list"
  ws_why_it_may_matter :: string
  ws_why_confidence_is_limited :: string
  ws_recommended_monitoring_query :: string

datatype change_type = NewTheme | RepeatedTheme | FadingTheme | StrongerSignal | WeakerSignal
  | ChangeUnclear

record HistoricalChange =
  hc_change_type :: change_type
  hc_description :: string
  hc_supporting_external_ids :: "string list"
  hc_previous_digest_reference :: string
  hc_confidence :: Confidence

record PracticalImplication =
  pi_audience_segment :: Audience
  pi_implication :: string
  pi_supporting_external_ids :: "string list"
  pi_recommended_action :: string
  pi_confidence :: Confidence

record RecommendedSearch =
  rec_query :: string
  rec_reason :: string
  rec_priority :: Priority

record TrendAnalysis =
  ta_overview :: string
  ta_overall_confidence :: Confidence
  ta_analysis_limitations :: "string list"
  ta_themes :: "TrendTheme list"
  ta_emerging_items :: "EmergingItem list"
  ta_repeated_problems :: "RepeatedProblem list"
  ta_competing_approaches :: "CompetingApproach list"
  ta_weak_signals :: "WeakSignal list"
  ta_changes_vs_previous_digest :: "HistoricalChange list"
  ta_practical_implications :: "PracticalImplication list"
  ta_recommendations :: "string list"
  ta_recommended_next_searches :: "RecommendedSearch list"

record BriefingMainSignal =
  ms_title :: string
  ms_summary :: string
  ms_why_it_matters :: string
  ms_supporting_external_ids :: "string list"
  ms_confidence :: Confidence
  ms_caveats :: "string list"

record RecommendedAction =
  act_action :: string
  act_reason :: string
  act_priority :: Priority
  act_related_external_ids :: "string list"

datatype source_basis = SBMetadataOnly | SBAbstractsOnly | SBOpenFullText
  | SBUserProvidedSources | SBMixed | SBUnclear

record DigestBriefing =
  db_title :: string
  db_executive_summary :: string
  db_highlights :: "string list"
  db_main_signal :: "BriefingMainSignal option"
  db_top_paper_external_ids :: "string list"
  db_secondary_paper_external_ids :: "string list"
  db_recommendations :: "RecommendedAction list"
  db_recommended_next_searches :: "RecommendedSearch list"
  db_source_basis :: source_basis
  db_transparency_note :: string
  db_quality_warnings :: "string list"
  db_source_attributions :: "SourceAttribution list"
  db_content_markdown :: string

subsection \<open>Stage outputs and their validators\<close>

record DiscoveryRelevanceOutput =
  dr_search :: SearchStage
  dr_relevance :: RelevanceStage

definition paper_ids :: "DiscoveryRelevanceOutput \<Rightarrow> string list" where
  "paper_ids d = map sp_external_id (ss_papers (dr_search d))"

definition assessment_ids :: "DiscoveryRelevanceOutput \<Rightarrow> string list" where
  "assessment_ids d = map ra_external_id (rs_assessments (dr_relevance d))"

definition validate_assessments :: "DiscoveryRelevanceOutput \<Rightarrow> exn + DiscoveryRelevanceOutput" where
  "validate_assessments d =
     (if length (paper_ids d) \<noteq> length (remdups (paper_ids d))
      then validation_error ''Search results must use unique external paper identifiers''
      else if length (assessment_ids d) \<noteq> length (remdups (assessment_ids d))
      then validation_error ''Relevance assessments must use unique paper identifiers''
      else if set (assessment_ids d) \<noteq> set (paper_ids d)
      then validation_error ''Every searched paper must have one relevance assessment''
      else Inr d)"

record AssessedPaper =
  ap_paper :: SearchPaper
  ap_assessment :: RelevanceDetails

record DiscoveryResponse =
  dresp_search :: SearchMetadata
  dresp_papers :: "AssessedPaper list"
  dresp_methodology :: string
  dresp_recommendations :: "string list"
  dresp_quality_warnings :: "string list"

definition to_output :: "DiscoveryResponse \<Rightarrow> exn + DiscoveryRelevanceOutput" where
  "to_output r = validate_assessments
     \<lparr>dr_search = SearchMetadata.extend (dresp_search r)
        (SearchStage.fields (map ap_paper (dresp_papers r))),
      dr_relevance = \<lparr>rs_methodology = dresp_methodology r,
        rs_assessments = map (\<lambda>item. RelevanceDetails.extend (ap_assessment item)
            (RelevanceAssessment.fields (sp_external_id (ap_paper item)))) (dresp_papers r),
        rs_recommendations = dresp_recommendations r,
        rs_quality_warnings = dresp_quality_warnings r\<rparr>\<rparr>"

record PaperSummariesOutput =
  paper_summaries :: "PaperSummary list"

definition validate_unique_papers :: "PaperSummariesOutput \<Rightarrow> exn + PaperSummariesOutput" where
  "validate_unique_papers p =
     (let ids = map ps_external_id (paper_summaries p)
      in if length ids \<noteq> length (remdups ids)
         then validation_error ''Paper summaries must use unique paper identifiers''
         else Inr p)"

record TrendAnalysisOutput =
  trend_analysis :: TrendAnalysis

record DigestBriefingOutput =
  digest_briefing :: DigestBriefing

definition check_selections :: "DigestBriefing \<Rightarrow> exn + unit" where
  "check_selections b =
     (let top = db_top_paper_external_ids b; secondary = db_secondary_paper_external_ids b
      in if length top \<noteq> length (remdups top) \<or> length secondary \<noteq> length (remdups secondary)
         then validation_error ''Briefing paper selections must not contain duplicates''
         else if set top \<inter> set secondary \<noteq> {}
         then validation_error ''Top and secondary briefing papers must not overlap''
         else Inr ())"

definition validate_paper_selections :: "DigestBriefingOutput \<Rightarrow> exn + DigestBriefingOutput" where
  "validate_paper_selections o' =
     (case check_selections (digest_briefing o') of Inl e \<Rightarrow> Inl e | Inr _ \<Rightarrow> Inr o')"

record RadarOutput =
  ro_search :: SearchStage
  ro_relevance :: RelevanceStage
  ro_paper_summaries :: "PaperSummary list"
  ro_trend_analysis :: TrendAnalysis
  ro_digest_briefing :: DigestBriefing

text \<open>The reference lists of a trend analysis and of a briefing, in the code's order.\<close>

definition trend_groups :: "TrendAnalysis \<Rightarrow> string list list" where
  "trend_groups t =
     map tt_evidence_external_ids (ta_themes t)
     @ map ei_supporting_external_ids (ta_emerging_items t)
     @ map rp_supporting_external_ids (ta_repeated_problems t)
     @ map ca_supporting_external_ids (ta_competing_approaches t)
     @ map ws_supporting_external_ids (ta_weak_signals t)
     @ map hc_supporting_external_ids (ta_changes_vs_previous_digest t)
     @ map pi_supporting_external_ids (ta_practical_implications t)"

definition briefing_groups :: "DigestBriefing \<Rightarrow> string list list" where
  "briefing_groups b =
     [db_top_paper_external_ids b, db_secondary_paper_external_ids b]
     @ map act_related_external_ids (db_recommendations b)
     @ (case db_main_signal b of None \<Rightarrow> [] | Some m \<Rightarrow> [ms_supporting_external_ids m])"

definition collect_referenced_ids :: "RadarOutput \<Rightarrow> string set" where
  "collect_referenced_ids r =
     set (concat (trend_groups (ro_trend_analysis r) @ briefing_groups (ro_digest_briefing r)))"

definition validate_paper_references :: "RadarOutput \<Rightarrow> exn + RadarOutput" where
  "validate_paper_references r =
     (case validate_assessments \<lparr>dr_search = ro_search r, dr_relevance = ro_relevance r\<rparr> of
        Inl e \<Rightarrow> Inl e
      | Inr discovery \<Rightarrow>
          (let expected = set (paper_ids discovery);
               summary_ids = map ps_external_id (ro_paper_summaries r);
               unknown = collect_referenced_ids r - expected
           in if length summary_ids \<noteq> length (remdups summary_ids) \<or> set summary_ids \<noteq> expected
              then validation_error ''Every searched paper must have one paper summary''
              else if unknown \<noteq> {}
              then validation_error (''Trend and briefing data reference unknown papers: ''
                     @ join '', '' (sorted_set unknown))
              else (case check_selections (ro_digest_briefing r) of
                      Inl e \<Rightarrow> Inl e | Inr _ \<Rightarrow> Inr r)))"

subsection \<open>Parsing saved output again\<close>

text \<open>
  \<open>Model.model_validate(...)\<close> of a saved value: the field constraints (URLs and score ranges),
  then the validator of the model.
\<close>

definition url_ok :: "string \<Rightarrow> bool" where
  "url_ok u \<longleftrightarrow> (case validate_http_url (Some u) of Inl _ \<Rightarrow> False | Inr _ \<Rightarrow> True)"

definition paper_fields_ok :: "SearchPaper \<Rightarrow> bool" where
  "paper_fields_ok p \<longleftrightarrow> url_ok (sp_url p)
     \<and> (case sp_pdf_url p of None \<Rightarrow> True | Some u \<Rightarrow> url_ok u)
     \<and> list_all (\<lambda>c. url_ok (cit_url c)) (sp_citations p)"

definition model_validate_discovery :: "DiscoveryRelevanceOutput \<Rightarrow> exn + DiscoveryRelevanceOutput" where
  "model_validate_discovery d =
     (if \<not> (list_all paper_fields_ok (ss_papers (dr_search d))
             \<and> list_all relevance_bounds (rs_assessments (dr_relevance d)))
      then validation_error ''Input should satisfy the field constraints''
      else validate_assessments d)"

definition model_validate_summaries :: "PaperSummariesOutput \<Rightarrow> exn + PaperSummariesOutput" where
  "model_validate_summaries p =
     (if \<not> list_all (\<lambda>s. one_to_ten (ps_confidence_score s)) (paper_summaries p)
      then validation_error ''Input should satisfy the field constraints''
      else validate_unique_papers p)"

subsection \<open>What the validators establish\<close>

lemma length_remdups_eq_iff: "length xs = length (remdups xs) \<longleftrightarrow> distinct xs"
  by (metis distinct_card length_remdups_card_conv card_distinct)

text \<open>The invariant of an accepted discovery output.\<close>

definition valid_discovery :: "DiscoveryRelevanceOutput \<Rightarrow> bool" where
  "valid_discovery d \<longleftrightarrow> distinct (paper_ids d) \<and> distinct (assessment_ids d)
     \<and> set (assessment_ids d) = set (paper_ids d)"

lemma validate_assessments_iff:
  "validate_assessments d = Inr d' \<longleftrightarrow> valid_discovery d \<and> d' = d"
  by (auto simp: validate_assessments_def validation_error_def valid_discovery_def
      length_remdups_eq_iff)

lemma validate_assessments_ok: "valid_discovery d \<Longrightarrow> validate_assessments d = Inr d"
  by (simp add: validate_assessments_iff)

lemma validate_assessments_error:
  "validate_assessments d = Inl e \<Longrightarrow> \<not> valid_discovery d \<and> exn_class e = ValidationError"
  by (auto simp: validate_assessments_def validation_error_def valid_discovery_def
      length_remdups_eq_iff split: if_splits)

lemma model_validate_discovery_Inr:
  "model_validate_discovery d = Inr d' \<Longrightarrow> d' = d \<and> valid_discovery d"
  by (auto simp: model_validate_discovery_def validation_error_def validate_assessments_iff
      split: if_splits)

lemma validate_unique_papers_iff:
  "validate_unique_papers p = Inr p' \<longleftrightarrow> distinct (map ps_external_id (paper_summaries p)) \<and> p' = p"
  by (auto simp: validate_unique_papers_def validation_error_def Let_def length_remdups_eq_iff)

lemma model_validate_summaries_Inr:
  "model_validate_summaries p = Inr p' \<Longrightarrow> p' = p \<and> distinct (map ps_external_id (paper_summaries p))"
  by (auto simp: model_validate_summaries_def validation_error_def validate_unique_papers_iff
      split: if_splits)

lemma check_selections_iff:
  "check_selections b = Inr () \<longleftrightarrow>
     distinct (db_top_paper_external_ids b @ db_secondary_paper_external_ids b)"
  by (auto simp: check_selections_def validation_error_def Let_def length_remdups_eq_iff)

lemma validate_paper_selections_iff:
  "validate_paper_selections p = Inr p' \<longleftrightarrow>
     distinct (db_top_paper_external_ids (digest_briefing p)
               @ db_secondary_paper_external_ids (digest_briefing p)) \<and> p' = p"
  using check_selections_iff [of "digest_briefing p"]
  by (auto simp: validate_paper_selections_def split: sum.splits)

lemma validate_paper_references_iff:
  "validate_paper_references r = Inr r' \<longleftrightarrow>
     r' = r \<and> valid_discovery \<lparr>dr_search = ro_search r, dr_relevance = ro_relevance r\<rparr>
     \<and> distinct (map ps_external_id (ro_paper_summaries r))
     \<and> set (map ps_external_id (ro_paper_summaries r)) = sp_external_id ` set (ss_papers (ro_search r))
     \<and> collect_referenced_ids r \<subseteq> sp_external_id ` set (ss_papers (ro_search r))
     \<and> distinct (db_top_paper_external_ids (ro_digest_briefing r)
                @ db_secondary_paper_external_ids (ro_digest_briefing r))"
  (is "_ \<longleftrightarrow> ?rhs")
proof -
  let ?d = "\<lparr>dr_search = ro_search r, dr_relevance = ro_relevance r\<rparr>"
  have ids: "set (paper_ids ?d) = sp_external_id ` set (ss_papers (ro_search r))"
    by (simp add: paper_ids_def)
  show ?thesis
  proof (cases "validate_assessments ?d")
    case (Inl e)
    then show ?thesis using validate_assessments_error [OF Inl]
      by (auto simp: validate_paper_references_def)
  next
    case (Inr d')
    then have v: "valid_discovery ?d" "d' = ?d" by (simp_all add: validate_assessments_iff)
    show ?thesis
      using v check_selections_iff [of "ro_digest_briefing r"]
      by (auto simp: validate_paper_references_def Inr ids Let_def validation_error_def
          length_remdups_eq_iff split: sum.splits)
  qed
qed

text \<open>Two lookups by identifier agree with each other on an accepted discovery output.\<close>

definition relevance_of :: "DiscoveryRelevanceOutput \<Rightarrow> string \<Rightarrow> RelevanceAssessment option" where
  "relevance_of d k = last_by ra_external_id (rs_assessments (dr_relevance d)) k"

lemma relevance_of_paper:
  assumes "valid_discovery d" and "p \<in> set (ss_papers (dr_search d))"
  obtains a where "relevance_of d (sp_external_id p) = Some a"
    and "a \<in> set (rs_assessments (dr_relevance d))" and "ra_external_id a = sp_external_id p"
proof -
  from assms have "sp_external_id p \<in> set (assessment_ids d)"
    by (simp add: valid_discovery_def paper_ids_def)
  then have "relevance_of d (sp_external_id p) \<noteq> None"
    by (auto simp: relevance_of_def last_by_None assessment_ids_def)
  then obtain a where a: "relevance_of d (sp_external_id p) = Some a" by auto
  show ?thesis
    by (rule that [OF a]) (use last_by_Some [of ra_external_id] a in \<open>auto simp: relevance_of_def\<close>)
qed

end
