(* ===== verification/Evidence.thy ===== *)
theory Evidence
  imports Contracts
begin

section \<open>Source evidence of summaries\<close>

text \<open>
  The documents a summary may cite (backend/app/schemas/source_content.py), the quality
  records (backend/app/schemas/research_quality.py) and the traceability rules of
  backend/app/radar/evidence.py: \<open>inspect_summary\<close> checks the links, \<open>constrain_summaries\<close>
  rewrites accepted summaries so that they claim no more than their documents allow,
  \<open>evidence_findings\<close> reports what is left.
\<close>

subsection \<open>Schemas\<close>

record SourcePassage =
  psg_id :: string
  psg_section :: string
  psg_text :: string

datatype document_status = Available | Unavailable | RightsUnconfirmed

datatype document_basis = DocAbstractOnly | DocExtractedSections | DocMetadataOnly

record SourceDocument =
  doc_external_id :: string
  doc_title :: string
  doc_authors :: "string list"
  doc_status :: document_status
  doc_basis :: document_basis
  doc_source_url :: "string option"
  doc_request_url :: "string option"
  doc_retrieved_at :: datetime
  doc_source_version :: "string option"
  doc_content_sha256 :: "string option"
  doc_license_url :: "string option"
  doc_permission_source :: "string option"
  doc_rights_notice :: "string option"
  doc_policy_version :: string
  doc_cached :: bool
  doc_passages :: "SourcePassage list"
  doc_notes :: "string list"

record EvidenceStatement =
  es_text :: string
  es_passage_ids :: "string list"
  es_references_valid :: bool

record PaperContentRead =
  pcr_document :: SourceDocument
  pcr_statements :: "EvidenceStatement list"
  pcr_warnings :: "string list"

datatype QualityMode = ModeOff | ModeObserve | ModeEnforce

datatype QualityStatus = NotEvaluated | QPass | QWarning | QHold

datatype severity = SevWarning | SevHold

text \<open>The limits of the paid review of claims (schemas/claim_review_config.py).\<close>

datatype claim_review_mode = ReviewsOff | ReviewsObserve

record ClaimReviewConfig =
  cv_mode :: claim_review_mode
  cv_model :: string
  cv_max_claims :: nat
  cv_max_output_tokens :: nat
  cv_max_review_usd :: rat
  cv_daily_budget_usd :: rat
  cv_daily_call_limit :: nat

definition default_ClaimReviewConfig :: ClaimReviewConfig where
  "default_ClaimReviewConfig = \<lparr>cv_mode = ReviewsOff, cv_model = ''gpt-6-astra'', cv_max_claims = 40,
     cv_max_output_tokens = 1500, cv_max_review_usd = 1, cv_daily_budget_usd = 5, cv_daily_call_limit = 100\<rparr>"

record QualityConfig =
  qc_mode :: QualityMode
  qc_check_reporting_dates :: bool
  qc_check_duplicates :: bool
  qc_check_source_access :: bool
  qc_sparse_paper_threshold :: nat
  qc_source_verification_mode :: QualityMode
  qc_check_evidence_links :: bool
  qc_claim_review :: ClaimReviewConfig

definition default_QualityConfig :: QualityConfig where
  "default_QualityConfig = \<lparr>qc_mode = ModeObserve, qc_check_reporting_dates = True,
     qc_check_duplicates = True, qc_check_source_access = True, qc_sparse_paper_threshold = 3,
     qc_source_verification_mode = ModeObserve, qc_check_evidence_links = True,
     qc_claim_review = default_ClaimReviewConfig\<rparr>"

record QualitySnapshot =
  qs_version :: int
  qs_engine_version :: string
  qs_config :: QualityConfig

record QualityFinding =
  qf_code :: string
  qf_severity :: severity
  qf_message :: string
  qf_paper_ids :: "string list"

record QualityDecision =
  qd_status :: QualityStatus
  qd_findings :: "QualityFinding list"

text \<open>A dict of documents keeps its insertion order, as Python's does.\<close>

type_synonym documents = "(string \<times> SourceDocument) list"

subsection \<open>Checking the links of one summary\<close>

definition allowed_ids :: "SourceDocument \<Rightarrow> string set" where
  "allowed_ids d = psg_id ` set (doc_passages d)"

text \<open>The loop over \<open>summary.finding_evidence\<close>: the dict of links, the last link of an index
  winning, and one warning for each index out of range or seen before.\<close>

fun collect_links ::
  "nat \<Rightarrow> FindingEvidence list \<Rightarrow> (nat \<Rightarrow> string list option) \<Rightarrow> string list
     \<Rightarrow> (nat \<Rightarrow> string list option) \<times> string list" where
  "collect_links n [] links warns = (links, warns)"
| "collect_links n (l # ls) links warns =
     collect_links n ls (links(fe_finding_index l \<mapsto> fe_passage_ids l))
       (if fe_finding_index l \<ge> n \<or> links (fe_finding_index l) \<noteq> None
        then warns @ [''A finding reference has an invalid or duplicate index.''] else warns)"

definition statement_of :: "string set \<Rightarrow> string \<times> string list \<Rightarrow> EvidenceStatement" where
  "statement_of allowed v = \<lparr>es_text = fst v, es_passage_ids = snd v,
     es_references_valid = (snd v \<noteq> [] \<and> set (snd v) \<subseteq> allowed)\<rparr>"

definition inspect_summary :: "SourceDocument \<Rightarrow> PaperSummary option \<Rightarrow> PaperContentRead" where
  "inspect_summary document summary =
     (let allowed = allowed_ids document;
          w0 = (if doc_status document \<noteq> Available \<or> allowed = {}
                then [''No permission-checked source text was available.''] else [])
      in case summary of
           None \<Rightarrow> \<lparr>pcr_document = document, pcr_statements = [], pcr_warnings = dict_fromkeys w0\<rparr>
         | Some s \<Rightarrow>
             (let (links, w1) = collect_links (length (ps_key_findings s)) (ps_finding_evidence s)
                                  Map.empty w0;
                  linked = (\<lambda>i. case links i of None \<Rightarrow> [] | Some ids \<Rightarrow> ids);
                  values = (ps_concise_summary s, ps_summary_evidence_ids s)
                           # map (\<lambda>(i, f). (f, linked i)) (enumerate 0 (ps_key_findings s));
                  statements = map (statement_of allowed) values;
                  w2 = concat (map (\<lambda>st. if es_text st \<noteq> [] \<and> \<not> es_references_valid st
                                \<and> doc_status document = Available
                              then [''A summary statement has missing or invalid evidence references.'']
                              else []) statements)
              in \<lparr>pcr_document = document, pcr_statements = statements,
                  pcr_warnings = dict_fromkeys (w1 @ w2)\<rparr>))"

subsection \<open>Constraining accepted summaries\<close>

definition metadata_only_text :: string where
  "metadata_only_text = ''This paper was discovered, but reusable source content could not be confirmed. Scientific findings were not summarized.''"

definition metadata_only_summary :: "PaperSummary \<Rightarrow> PaperSummary" where
  "metadata_only_summary s = s\<lparr>
     ps_source_attribution := None,
     ps_summary_basis := BasisMetadataOnly, ps_paper_type := TypeUnclear,
     ps_concise_summary := metadata_only_text, ps_suggested_digest_bullet := metadata_only_text,
     ps_why_this_paper_matters := [], ps_methods := [], ps_key_findings := [],
     ps_implications := [], ps_recommendations := [], ps_follow_up_questions := [],
     ps_related_search_terms := [], ps_summary_evidence_ids := [], ps_finding_evidence := [],
     ps_limitations := [''Only bibliographic metadata is available; consult the original source.''],
     ps_warnings := [''No approved source content was supplied; detailed claims were omitted.''],
     ps_confidence_score := 1\<rparr>"

fun basis_of_document :: "document_basis \<Rightarrow> summary_basis" where
  "basis_of_document DocAbstractOnly = BasisAbstractOnly"
| "basis_of_document DocExtractedSections = BasisExtractedSections"
| "basis_of_document DocMetadataOnly = BasisMetadataOnly"

definition truthy_str :: "string option \<Rightarrow> bool" where
  "truthy_str v \<longleftrightarrow> (case v of None \<Rightarrow> False | Some s \<Rightarrow> s \<noteq> [])"

definition attribution_changes :: string where
  "attribution_changes = ''Original AI summary based on selected source excerpts; source formatting normalized and text may be shortened. Source excerpts remain under the linked licence. No author endorsement is implied.''"

definition supported_summary :: "SourceDocument \<Rightarrow> PaperSummary \<Rightarrow> PaperSummary" where
  "supported_summary d s =
     (let s1 = s\<lparr>ps_summary_basis := basis_of_document (doc_basis d),
            ps_source_attribution := Some \<lparr>sa_title = doc_title d, sa_authors = doc_authors d,
              sa_source_url = the (doc_source_url d), sa_license_url = the (doc_license_url d),
              sa_rights_notice = (case doc_rights_notice d of None \<Rightarrow> [] | Some r \<Rightarrow> r),
              sa_changes = attribution_changes\<rparr>\<rparr>;
          note = (if doc_basis d = DocAbstractOnly
             then ''Based only on the source abstract; full text was not reviewed.''
             else ''Based on selected source sections; this is not a complete full-text review.'')
      in s1\<lparr>ps_warnings := dict_fromkeys
              (ps_warnings s @ [note] @ pcr_warnings (inspect_summary d (Some s1)))\<rparr>)"

definition constrain_summary :: "documents \<Rightarrow> PaperSummary \<Rightarrow> exn + PaperSummary" where
  "constrain_summary docs s =
     (case getitem (map_of docs) (ps_external_id s) of
        Inl e \<Rightarrow> Inl e
      | Inr d \<Rightarrow>
          if doc_status d \<noteq> Available \<or> doc_passages d = [] then Inr (metadata_only_summary s)
          else if \<not> (truthy_str (doc_source_url d) \<and> truthy_str (doc_license_url d))
          then Inl (Exn AssertionErrorPy [])
          else Inr (supported_summary d s))"

definition constrain_summaries :: "PaperSummariesOutput \<Rightarrow> documents \<Rightarrow> exn + PaperSummariesOutput" where
  "constrain_summaries out docs =
     (case map_result (constrain_summary docs) (paper_summaries out) of
        Inl e \<Rightarrow> Inl e
      | Inr ss \<Rightarrow> Inr (out\<lparr>paper_summaries := ss\<rparr>))"

definition evidence_findings :: "documents \<Rightarrow> PaperSummariesOutput \<Rightarrow> QualityFinding list" where
  "evidence_findings docs summaries =
     (let affected = map fst (filter (\<lambda>(key, document).
            pcr_warnings (inspect_summary document
              (last_by ps_external_id (paper_summaries summaries) key)) \<noteq> []) docs)
      in if affected = [] then []
         else [\<lparr>qf_code = ''source_evidence_incomplete'', qf_severity = SevWarning,
           qf_message = ''Source content or evidence links require review for ''
             @ nat_str (length affected)
             @ '' paper(s); semantic support has not been automatically assessed.'',
           qf_paper_ids = affected\<rparr>])"

subsection \<open>What constraining guarantees\<close>

lemma metadata_only_summary_fields [simp]:
  "ps_external_id (metadata_only_summary s) = ps_external_id s"
  "ps_summary_basis (metadata_only_summary s) = BasisMetadataOnly"
  "ps_key_findings (metadata_only_summary s) = []"
  "ps_source_attribution (metadata_only_summary s) = None"
  "ps_confidence_score (metadata_only_summary s) = 1"
  by (simp_all add: metadata_only_summary_def)

lemma supported_summary_fields [simp]:
  "ps_external_id (supported_summary d s) = ps_external_id s"
  "ps_summary_basis (supported_summary d s) = basis_of_document (doc_basis d)"
  "\<exists>a. ps_source_attribution (supported_summary d s) = Some a
       \<and> sa_license_url a = the (doc_license_url d) \<and> sa_source_url a = the (doc_source_url d)"
  by (simp_all add: supported_summary_def Let_def)

lemma constrain_summary_id:
  "constrain_summary docs s = Inr s' \<Longrightarrow> ps_external_id s' = ps_external_id s"
  by (auto simp: constrain_summary_def split: sum.splits if_splits)

lemma constrain_summaries_ids:
  "constrain_summaries out docs = Inr out' \<Longrightarrow>
     map ps_external_id (paper_summaries out') = map ps_external_id (paper_summaries out)"
  by (auto simp: constrain_summaries_def split: sum.splits
      dest!: map_result_map [where g = ps_external_id and h = ps_external_id]
        dest: constrain_summary_id)

text \<open>An accepted summary claims content only under an available document with passages.\<close>

definition claims_within :: "documents \<Rightarrow> PaperSummary \<Rightarrow> bool" where
  "claims_within docs s \<longleftrightarrow>
     (case map_of docs (ps_external_id s) of
        None \<Rightarrow> False
      | Some d \<Rightarrow>
          if doc_status d = Available \<and> doc_passages d \<noteq> []
          then ps_summary_basis s = basis_of_document (doc_basis d)
               \<and> (\<exists>a. ps_source_attribution s = Some a \<and> Some (sa_license_url a) = doc_license_url d
                      \<and> Some (sa_source_url a) = doc_source_url d)
          else ps_summary_basis s = BasisMetadataOnly \<and> ps_key_findings s = []
               \<and> ps_source_attribution s = None \<and> ps_confidence_score s = 1)"

lemma constrain_summary_within:
  assumes "constrain_summary docs s = Inr s'"
  shows "claims_within docs s'"
proof -
  obtain d where d: "map_of docs (ps_external_id s) = Some d"
    using assms by (auto simp: constrain_summary_def getitem_def split: sum.splits option.splits)
  have id: "ps_external_id s' = ps_external_id s" using assms by (rule constrain_summary_id)
  show ?thesis
  proof (cases "doc_status d \<noteq> Available \<or> doc_passages d = []")
    case True
    with assms d have "s' = metadata_only_summary s" by (simp add: constrain_summary_def)
    with True d show ?thesis by (auto simp: claims_within_def)
  next
    case False
    with assms d have s': "s' = supported_summary d s"
      and t: "truthy_str (doc_source_url d)" "truthy_str (doc_license_url d)"
      by (auto simp: constrain_summary_def split: if_splits)
    from t obtain u l where "doc_source_url d = Some u" "doc_license_url d = Some l"
      by (auto simp: truthy_str_def split: option.splits)
    with False d id s' supported_summary_fields(3) [of d s] show ?thesis
      by (auto simp: claims_within_def)
  qed
qed

lemma constrain_summaries_within:
  "constrain_summaries out docs = Inr out' \<Longrightarrow> s \<in> set (paper_summaries out') \<Longrightarrow>
     claims_within docs s"
  by (auto simp: constrain_summaries_def map_result_Inr_iff list_all2_conv_all_nth in_set_conv_nth
      constrain_summary_within split: sum.splits)

text \<open>A link is reported exactly when it is out of range or repeats an earlier index.\<close>

lemma collect_links_warns:
  "snd (collect_links n ls links warns) =
     warns @ snd (collect_links n ls links [])"
proof (induction ls arbitrary: links warns)
  case Nil
  then show ?case by simp
next
  case (Cons l ls)
  let ?w = "[''A finding reference has an invalid or duplicate index.'']"
  let ?b = "fe_finding_index l \<ge> n \<or> links (fe_finding_index l) \<noteq> None"
  let ?l = "links(fe_finding_index l \<mapsto> fe_passage_ids l)"
  have step: "snd (collect_links n (l # ls) links ws)
      = (if ?b then ws @ ?w else ws) @ snd (collect_links n ls ?l [])" for ws
    unfolding collect_links.simps by (rule Cons.IH)
  show ?case unfolding step [of warns] step [of "[]"] by simp
qed

lemma collect_links_clean_iff:
  "snd (collect_links n ls links []) = [] \<longleftrightarrow>
     distinct (map fe_finding_index ls) \<and> (\<forall>l \<in> set ls. fe_finding_index l < n)
     \<and> dom links \<inter> fe_finding_index ` set ls = {}"
proof (induction ls arbitrary: links)
  case Nil
  then show ?case by simp
next
  case (Cons l ls)
  let ?b = "fe_finding_index l \<ge> n \<or> links (fe_finding_index l) \<noteq> None"
  have "snd (collect_links n (l # ls) links []) = [] \<longleftrightarrow>
      \<not> ?b \<and> snd (collect_links n ls (links(fe_finding_index l \<mapsto> fe_passage_ids l)) []) = []"
    by (simp only: collect_links.simps, subst collect_links_warns) auto
  then show ?case unfolding Cons.IH by (auto simp: not_le)
qed

lemma dict_fromkeys_Nil_iff [simp]: "dict_fromkeys xs = [] \<longleftrightarrow> xs = []"
  using set_dict_fromkeys [of xs] by (metis set_empty)

text \<open>A summary passes inspection without a warning exactly when every statement with text
  cites at least one passage, all of the document, and the finding links are well formed.\<close>

lemma inspect_summary_clean_iff:
  assumes "doc_status d = Available" and "doc_passages d \<noteq> []"
  shows "pcr_warnings (inspect_summary d (Some s)) = [] \<longleftrightarrow>
     distinct (map fe_finding_index (ps_finding_evidence s))
     \<and> (\<forall>l \<in> set (ps_finding_evidence s). fe_finding_index l < length (ps_key_findings s))
     \<and> (\<forall>st \<in> set (pcr_statements (inspect_summary d (Some s))).
          es_text st \<noteq> [] \<longrightarrow> es_references_valid st)"
proof -
  have ne: "allowed_ids d \<noteq> {}" using assms by (simp add: allowed_ids_def)
  obtain links w where c: "collect_links (length (ps_key_findings s)) (ps_finding_evidence s)
      Map.empty [] = (links, w)" by (cases "collect_links (length (ps_key_findings s))
        (ps_finding_evidence s) Map.empty []")
  have w: "w = [] \<longleftrightarrow> distinct (map fe_finding_index (ps_finding_evidence s))
     \<and> (\<forall>l \<in> set (ps_finding_evidence s). fe_finding_index l < length (ps_key_findings s))"
    using collect_links_clean_iff [of "length (ps_key_findings s)" "ps_finding_evidence s" Map.empty] c
    by simp
  show ?thesis using w assms ne by (auto simp: inspect_summary_def Let_def c)
qed

end
