(* ===== verification/Validation.thy ===== *)
theory Validation
  imports Evidence
begin

section \<open>Acceptance rules and stage inputs\<close>

text \<open>
  backend/app/radar/validation.py (what a completed response must satisfy before it is saved)
  and backend/app/radar/stage_inputs.py (what the next stage is given).  A rejected output is
  a \<open>RadarOutputValidationError\<close>.
\<close>

definition rejected :: "string \<Rightarrow> exn + 'a" where
  "rejected m = Inl (Exn RadarOutputValidationError m)"

definition trend_references :: "TrendAnalysisOutput \<Rightarrow> string set" where
  "trend_references out = set (concat (trend_groups (trend_analysis out)))"

definition briefing_references :: "DigestBriefingOutput \<Rightarrow> string set" where
  "briefing_references out = set (concat (briefing_groups (digest_briefing out)))"

definition validate_references :: "string set \<Rightarrow> string set \<Rightarrow> string \<Rightarrow> exn + unit" where
  "validate_references referenced known stage =
     (let unknown = referenced - known
      in if unknown \<noteq> {}
         then rejected (''The '' @ stage @ '' referenced unknown papers: ''
                @ join '', '' (sorted_set unknown))
         else Inr ())"

definition validate_discovery :: "DiscoveryRelevanceOutput \<Rightarrow> int \<Rightarrow> exn + unit" where
  "validate_discovery out maximum_papers =
     (if int (length (ss_papers (dr_search out))) > maximum_papers
      then rejected ''The discovery stage returned more papers than the digest maximum''
      else Inr ())"

subsection \<open>The reporting-period rule\<close>

definition in_period :: "date \<Rightarrow> date \<Rightarrow> date option \<Rightarrow> bool" where
  "in_period lo hi d \<longleftrightarrow> (case d of None \<Rightarrow> True | Some x \<Rightarrow> lo \<le> x \<and> x \<le> hi)"

definition exclusion_reason :: "date \<Rightarrow> date \<Rightarrow> date \<Rightarrow> string" where
  "exclusion_reason lo hi d = ''Excluded by reporting-period rule: publication date ''
     @ isoformat d @ '' is outside '' @ isoformat lo @ '' to '' @ isoformat hi @ '' (inclusive).''"

definition reject_assessment :: "string \<Rightarrow> RelevanceAssessment \<Rightarrow> RelevanceAssessment" where
  "reject_assessment reason a =
     (let a1 = a\<lparr>ra_recommended_status := Reject, ra_best_digest_placement := PlacementReject\<rparr>
      in if reason \<in> set (ra_caveats a) then a1
         else a1\<lparr>ra_caveats := ra_caveats a @ [reason],
                 ra_rationale := reason @ '' Original discovery assessment: '' @ ra_rationale a\<rparr>)"

definition warn_paper :: "string \<Rightarrow> SearchPaper \<Rightarrow> SearchPaper" where
  "warn_paper reason p =
     (if reason \<in> set (sp_warnings p) then p else p\<lparr>sp_warnings := sp_warnings p @ [reason]\<rparr>)"

fun exclude_papers ::
  "date \<Rightarrow> date \<Rightarrow> SearchPaper list \<Rightarrow> RelevanceAssessment list
     \<Rightarrow> exn + SearchPaper list \<times> RelevanceAssessment list" where
  "exclude_papers lo hi [] assessments = Inr ([], assessments)"
| "exclude_papers lo hi (p # ps) assessments =
     (if in_period lo hi (sp_published_date p)
      then (case exclude_papers lo hi ps assessments of
              Inl e \<Rightarrow> Inl e | Inr (ps', as') \<Rightarrow> Inr (p # ps', as'))
      else (let reason = exclusion_reason lo hi (the (sp_published_date p))
            in case last_by ra_external_id assessments (sp_external_id p) of
                 None \<Rightarrow> Inl (Exn KeyErrorPy (sp_external_id p))
               | Some _ \<Rightarrow>
                   (case exclude_papers lo hi ps (update_last_by ra_external_id (sp_external_id p)
                            (reject_assessment reason) assessments) of
                      Inl e \<Rightarrow> Inl e
                    | Inr (ps', as') \<Rightarrow> Inr (warn_paper reason p # ps', as'))))"

definition exclude_out_of_period_papers ::
  "DiscoveryRelevanceOutput \<Rightarrow> date \<Rightarrow> date \<Rightarrow> exn + DiscoveryRelevanceOutput" where
  "exclude_out_of_period_papers out lo hi =
     (if lo > hi then rejected ''Invalid reporting interval''
      else (case exclude_papers lo hi (ss_papers (dr_search out)) (rs_assessments (dr_relevance out)) of
              Inl e \<Rightarrow> Inl e
            | Inr (papers, assessments) \<Rightarrow>
                Inr \<lparr>dr_search = (dr_search out)\<lparr>ss_papers := papers\<rparr>,
                     dr_relevance = (dr_relevance out)\<lparr>rs_assessments := assessments\<rparr>\<rparr>))"

definition validate_summaries :: "PaperSummariesOutput \<Rightarrow> string set \<Rightarrow> exn + unit" where
  "validate_summaries out expected =
     (if set (map ps_external_id (paper_summaries out)) \<noteq> expected
      then rejected ''The summary stage must return exactly one summary for each batch paper''
      else Inr ())"

definition validate_trends :: "TrendAnalysisOutput \<Rightarrow> string set \<Rightarrow> exn + unit" where
  "validate_trends out known = validate_references (trend_references out) known ''trend analysis''"

definition validate_briefing :: "DigestBriefingOutput \<Rightarrow> string set \<Rightarrow> exn + unit" where
  "validate_briefing out known = validate_references (briefing_references out) known ''digest briefing''"

subsection \<open>Stage inputs\<close>

text \<open>The dict given to the summary stage: the discovered paper with its assessment, or, once
  documents were prepared, identity fields with the saved document only.\<close>

datatype SummaryInput =
    CandidateInput SearchPaper RelevanceAssessment
  | DocumentInput string string "string list" string "date option" SourceDocument

fun si_external_id :: "SummaryInput \<Rightarrow> string" where
  "si_external_id (CandidateInput p a) = sp_external_id p"
| "si_external_id (DocumentInput i t au u d doc) = i"

fun keep_selected ::
  "DiscoveryRelevanceOutput \<Rightarrow> SearchPaper list \<Rightarrow> exn + (SearchPaper \<times> RelevanceAssessment) list" where
  "keep_selected disc [] = Inr []"
| "keep_selected disc (p # ps) =
     (case getitem (relevance_of disc) (sp_external_id p) of
        Inl e \<Rightarrow> Inl e
      | Inr a \<Rightarrow> (case keep_selected disc ps of
            Inl e \<Rightarrow> Inl e
          | Inr rest \<Rightarrow> Inr (if is_selected a then (p, a) # rest else rest)))"

definition document_input ::
  "documents \<Rightarrow> SearchPaper \<times> RelevanceAssessment \<Rightarrow> exn + SummaryInput" where
  "document_input docs pa =
     (let p = fst pa in case getitem (map_of docs) (sp_external_id p) of
        Inl e \<Rightarrow> Inl e
      | Inr d \<Rightarrow> Inr (DocumentInput (sp_external_id p) (sp_title p) (sp_authors p) (sp_url p)
                        (sp_published_date p) d))"

definition summary_input ::
  "DiscoveryRelevanceOutput \<Rightarrow> documents option \<Rightarrow> exn + SummaryInput list" where
  "summary_input disc documents =
     (case keep_selected disc (ss_papers (dr_search disc)) of
        Inl e \<Rightarrow> Inl e
      | Inr papers \<Rightarrow> (case documents of
            None \<Rightarrow> Inr (map (\<lambda>(p, a). CandidateInput p a) papers)
          | Some docs \<Rightarrow> map_result (document_input docs) papers))"

record TrendInput =
  tin_external_id :: string
  tin_title :: string
  tin_authors :: "string list"
  tin_published_date :: "string option"
  tin_url :: string
  tin_source_name :: string
  tin_access_status :: access_status
  tin_relevance :: "rat \<times> recommended_status"
  tin_summary :: PaperSummary

record BriefingInput =
  bin_external_id :: string
  bin_title :: string
  bin_authors :: "string list"
  bin_url :: string
  bin_relevance_score :: rat
  bin_recommended_status :: recommended_status
  bin_concise_summary :: string
  bin_key_findings :: "string list"
  bin_limitations :: "string list"
  bin_suggested_digest_bullet :: string
  bin_confidence_score :: int
  bin_summary_basis :: summary_basis
  bin_warnings :: "string list"

text \<open>The comprehension shared by the last two inputs: the papers that have a summary, each
  with its assessment and its summary.\<close>

fun with_summaries ::
  "(SearchPaper \<Rightarrow> RelevanceAssessment \<Rightarrow> PaperSummary \<Rightarrow> 'b)
     \<Rightarrow> DiscoveryRelevanceOutput \<Rightarrow> PaperSummariesOutput \<Rightarrow> SearchPaper list \<Rightarrow> exn + 'b list" where
  "with_summaries mk disc smry [] = Inr []"
| "with_summaries mk disc smry (p # ps) =
     (case last_by ps_external_id (paper_summaries smry) (sp_external_id p) of
        None \<Rightarrow> with_summaries mk disc smry ps
      | Some s \<Rightarrow> (case getitem (relevance_of disc) (sp_external_id p) of
            Inl e \<Rightarrow> Inl e
          | Inr a \<Rightarrow> (case with_summaries mk disc smry ps of
                Inl e \<Rightarrow> Inl e | Inr rest \<Rightarrow> Inr (mk p a s # rest))))"

definition trend_input ::
  "DiscoveryRelevanceOutput \<Rightarrow> PaperSummariesOutput \<Rightarrow> exn + TrendInput list" where
  "trend_input disc smry = with_summaries (\<lambda>p a s.
     \<lparr>tin_external_id = sp_external_id p, tin_title = sp_title p, tin_authors = sp_authors p,
      tin_published_date = map_option isoformat (sp_published_date p), tin_url = sp_url p,
      tin_source_name = sp_source_name p, tin_access_status = sp_access_status p,
      tin_relevance = (ra_score a, ra_recommended_status a), tin_summary = s\<rparr>)
     disc smry (ss_papers (dr_search disc))"

definition briefing_input ::
  "DiscoveryRelevanceOutput \<Rightarrow> PaperSummariesOutput \<Rightarrow> exn + BriefingInput list" where
  "briefing_input disc smry = with_summaries (\<lambda>p a s.
     \<lparr>bin_external_id = sp_external_id p, bin_title = sp_title p, bin_authors = sp_authors p,
      bin_url = sp_url p, bin_relevance_score = ra_score a,
      bin_recommended_status = ra_recommended_status a,
      bin_concise_summary = ps_concise_summary s, bin_key_findings = ps_key_findings s,
      bin_limitations = ps_limitations s,
      bin_suggested_digest_bullet = ps_suggested_digest_bullet s,
      bin_confidence_score = ps_confidence_score s, bin_summary_basis = ps_summary_basis s,
      bin_warnings = ps_warnings s\<rparr>)
     disc smry (ss_papers (dr_search disc))"

subsection \<open>Reference checks\<close>

lemma validate_references_iff: "validate_references r k st = Inr u \<longleftrightarrow> r \<subseteq> k"
  by (auto simp: validate_references_def rejected_def Let_def)

lemma validate_references_error:
  "validate_references r k st = Inl e \<Longrightarrow> exn_class e = RadarOutputValidationError"
  by (auto simp: validate_references_def rejected_def Let_def split: if_splits)

lemma validate_summaries_iff:
  "validate_summaries out expected = Inr u \<longleftrightarrow> ps_external_id ` set (paper_summaries out) = expected"
  by (auto simp: validate_summaries_def rejected_def)

subsection \<open>The reporting-period rule keeps identities and leaves no selected paper outside\<close>

lemma reject_assessment_id [simp]: "ra_external_id (reject_assessment r a) = ra_external_id a"
  by (simp add: reject_assessment_def Let_def)

lemma reject_assessment_status [simp]: "ra_recommended_status (reject_assessment r a) = Reject"
  by (simp add: reject_assessment_def Let_def)

lemma reject_assessment_placement [simp]:
  "ra_best_digest_placement (reject_assessment r a) = PlacementReject"
  by (simp add: reject_assessment_def Let_def)

lemma warn_paper_fields [simp]:
  "sp_external_id (warn_paper r p) = sp_external_id p"
  "sp_published_date (warn_paper r p) = sp_published_date p"
  by (simp_all add: warn_paper_def)

lemma exclude_papers_frame:
  "exclude_papers lo hi ps as' = Inr (ps2, as2) \<Longrightarrow>
     map sp_external_id ps2 = map sp_external_id ps
     \<and> map sp_published_date ps2 = map sp_published_date ps
     \<and> map ra_external_id as2 = map ra_external_id as'"
proof (induction ps arbitrary: as' ps2 as2)
  case Nil
  then show ?case by simp
next
  case (Cons p ps)
  show ?case
  proof (cases "in_period lo hi (sp_published_date p)")
    case True
    with Cons show ?thesis by (auto split: sum.splits)
  next
    case False
    let ?r = "exclusion_reason lo hi (the (sp_published_date p))"
    have "map ra_external_id (update_last_by ra_external_id (sp_external_id p)
        (reject_assessment ?r) as') = map ra_external_id as'"
      by (rule map_update_last_by) simp
    with False Cons show ?thesis
      by (fastforce simp: Let_def split: sum.splits option.splits)
  qed
qed

lemma exclude_papers_ok:
  "set (map sp_external_id ps) \<subseteq> set (map ra_external_id as') \<Longrightarrow> \<exists>r. exclude_papers lo hi ps as' = Inr r"
proof (induction ps arbitrary: as')
  case Nil
  then show ?case by simp
next
  case (Cons p ps)
  let ?r = "exclusion_reason lo hi (the (sp_published_date p))"
  let ?as = "update_last_by ra_external_id (sp_external_id p) (reject_assessment ?r) as'"
  have "map ra_external_id ?as = map ra_external_id as'" by (rule map_update_last_by) simp
  then have s: "set (map ra_external_id ?as) = set (map ra_external_id as')" by simp
  have "last_by ra_external_id as' (sp_external_id p) \<noteq> None"
    using Cons.prems by (auto simp: last_by_None)
  moreover obtain r1 where "exclude_papers lo hi ps as' = Inr r1"
    using Cons.IH [of as'] Cons.prems by fastforce
  moreover obtain r2 where "exclude_papers lo hi ps ?as = Inr r2"
    using Cons.IH [of ?as] Cons.prems s by auto
  ultimately show ?case by (cases r1; cases r2) (auto simp: Let_def split: option.splits)
qed

text \<open>Rejection of an identifier persists through the rest of the loop.\<close>

lemma exclude_papers_rejects:
  assumes "distinct (map ra_external_id as')"
    and "exclude_papers lo hi ps as' = Inr (ps2, as2)" and "a \<in> set as2"
    and "(\<exists>b \<in> set as'. ra_external_id b = ra_external_id a \<and> ra_recommended_status b = Reject)
         \<or> (\<exists>p \<in> set ps. sp_external_id p = ra_external_id a \<and> \<not> in_period lo hi (sp_published_date p))"
  shows "ra_recommended_status a = Reject"
  using assms
proof (induction ps arbitrary: as' ps2)
  case Nil
  then show ?case by (auto dest: map_of_SomeD simp: distinct_map inj_on_def)
next
  case (Cons p ps)
  show ?case
  proof (cases "in_period lo hi (sp_published_date p)")
    case True
    with Cons.prems obtain ps3 where "exclude_papers lo hi ps as' = Inr (ps3, as2)"
      by (auto split: sum.splits)
    from Cons.IH [OF Cons.prems(1) this Cons.prems(3)] Cons.prems(4) True show ?thesis by auto
  next
    case False
    let ?f = "reject_assessment (exclusion_reason lo hi (the (sp_published_date p)))"
    let ?as = "update_last_by ra_external_id (sp_external_id p) ?f as'"
    have eq: "?as = update_where (\<lambda>x. ra_external_id x = sp_external_id p) ?f as'"
      using Cons.prems(1) by (rule update_last_by_distinct)
    have ids: "map ra_external_id ?as = map ra_external_id as'" by (rule map_update_last_by) simp
    from False Cons.prems(2) obtain ps3 where ex: "exclude_papers lo hi ps ?as = Inr (ps3, as2)"
      and hit: "last_by ra_external_id as' (sp_external_id p) \<noteq> None"
      by (auto simp: Let_def split: sum.splits option.splits)
    have d: "distinct (map ra_external_id ?as)" using Cons.prems(1) ids by simp
    have "(\<exists>b \<in> set ?as. ra_external_id b = ra_external_id a \<and> ra_recommended_status b = Reject)
       \<or> (\<exists>q \<in> set ps. sp_external_id q = ra_external_id a \<and> \<not> in_period lo hi (sp_published_date q))"
    proof (cases "sp_external_id p = ra_external_id a")
      case True
      from hit obtain b where "b \<in> set as'" "ra_external_id b = sp_external_id p"
        by (auto simp: last_by_None)
      then have "?f b \<in> set ?as" unfolding eq by (auto simp: set_update_where intro!: bexI [of _ b])
      with True \<open>ra_external_id b = _\<close> show ?thesis
        by (intro disjI1 bexI [of _ "?f b"]) simp_all
    next
      case neq: False
      from Cons.prems(4) neq consider
          b where "b \<in> set as'" "ra_external_id b = ra_external_id a" "ra_recommended_status b = Reject"
        | "\<exists>q \<in> set ps. sp_external_id q = ra_external_id a \<and> \<not> in_period lo hi (sp_published_date q)"
        by auto
      then show ?thesis
      proof cases
        case (1 b)
        then have "b \<in> set ?as" unfolding eq using neq
          by (auto simp: set_update_where intro!: bexI [of _ b])
        with 1 show ?thesis by auto
      qed simp
    qed
    from Cons.IH [OF d ex Cons.prems(3) this] show ?thesis .
  qed
qed

lemma exclude_valid_discovery:
  assumes "valid_discovery d" and "exclude_out_of_period_papers d lo hi = Inr d'"
  shows "valid_discovery d'" and "paper_ids d' = paper_ids d"
proof -
  from assms(2) obtain ps as' where ex: "exclude_papers lo hi (ss_papers (dr_search d))
      (rs_assessments (dr_relevance d)) = Inr (ps, as')"
    and d': "d' = \<lparr>dr_search = (dr_search d)\<lparr>ss_papers := ps\<rparr>,
                  dr_relevance = (dr_relevance d)\<lparr>rs_assessments := as'\<rparr>\<rparr>"
    by (auto simp: exclude_out_of_period_papers_def rejected_def split: if_splits sum.splits)
  have m: "paper_ids d' = paper_ids d" "assessment_ids d' = assessment_ids d"
    using exclude_papers_frame [OF ex] by (simp_all add: d' paper_ids_def assessment_ids_def)
  then show "valid_discovery d'" using assms(1) by (simp add: valid_discovery_def)
  show "paper_ids d' = paper_ids d" by (rule m(1))
qed

lemma exclude_selected_in_period:
  assumes v: "valid_discovery d" and ex: "exclude_out_of_period_papers d lo hi = Inr d'"
    and p: "p \<in> set (ss_papers (dr_search d'))"
    and a: "a \<in> set (rs_assessments (dr_relevance d'))" "ra_external_id a = sp_external_id p"
    and sel: "is_selected a"
  shows "in_period lo hi (sp_published_date p)"
proof (rule ccontr)
  assume out: "\<not> in_period lo hi (sp_published_date p)"
  from ex obtain ps as' where e: "exclude_papers lo hi (ss_papers (dr_search d))
      (rs_assessments (dr_relevance d)) = Inr (ps, as')"
    and d': "ss_papers (dr_search d') = ps" "rs_assessments (dr_relevance d') = as'"
    by (auto simp: exclude_out_of_period_papers_def rejected_def split: if_splits sum.splits)
  note fr = exclude_papers_frame [OF e]
  from p d' obtain i where i: "i < length ps" "ps ! i = p" by (auto simp: in_set_conv_nth)
  let ?q = "ss_papers (dr_search d) ! i"
  have l: "i < length (ss_papers (dr_search d))" using fr i by (metis length_map)
  have "map sp_external_id ps ! i = map sp_external_id (ss_papers (dr_search d)) ! i"
    "map sp_published_date ps ! i = map sp_published_date (ss_papers (dr_search d)) ! i"
    using fr by simp_all
  then have "sp_external_id ?q = sp_external_id p" "sp_published_date ?q = sp_published_date p"
    using i l by simp_all
  then have "\<exists>q \<in> set (ss_papers (dr_search d)). sp_external_id q = ra_external_id a
      \<and> \<not> in_period lo hi (sp_published_date q)"
    using l out a(2) by (intro bexI [of _ ?q]) simp_all
  moreover have "distinct (map ra_external_id (rs_assessments (dr_relevance d)))"
    using v by (simp add: valid_discovery_def assessment_ids_def)
  ultimately have "ra_recommended_status a = Reject"
    using exclude_papers_rejects [OF _ e] a(1) d'(2) by blast
  with sel show False by (simp add: is_selected_def)
qed

subsection \<open>Stage inputs of an accepted discovery\<close>

lemma keep_selected_ok:
  assumes "valid_discovery d" and "set ps \<subseteq> set (ss_papers (dr_search d))"
  shows "\<exists>r. keep_selected d ps = Inr r \<and> map fst r = filter (\<lambda>p.
           case relevance_of d (sp_external_id p) of None \<Rightarrow> False | Some a \<Rightarrow> is_selected a) ps"
  using assms(2)
proof (induction ps)
  case Nil
  then show ?case by simp
next
  case (Cons p ps)
  then obtain r where r: "keep_selected d ps = Inr r" "map fst r = filter (\<lambda>p.
      case relevance_of d (sp_external_id p) of None \<Rightarrow> False | Some a \<Rightarrow> is_selected a) ps"
    by auto
  from assms(1) Cons.prems obtain a where "relevance_of d (sp_external_id p) = Some a"
    using relevance_of_paper [of d p] by auto
  with r show ?case by simp
qed

lemma with_summaries_ok:
  assumes "valid_discovery d" and "set ps \<subseteq> set (ss_papers (dr_search d))"
    and "\<And>p a s. key (mk p a s) = sp_external_id p"
  shows "\<exists>r. with_summaries mk d smry ps = Inr r
           \<and> map key r = filter (\<lambda>i. i \<in> ps_external_id ` set (paper_summaries smry))
                           (map sp_external_id ps)"
  using assms(2)
proof (induction ps)
  case Nil
  then show ?case by simp
next
  case (Cons p ps)
  then obtain r where r: "with_summaries mk d smry ps = Inr r"
    "map key r = filter (\<lambda>i. i \<in> ps_external_id ` set (paper_summaries smry)) (map sp_external_id ps)"
    by auto
  from assms(1) Cons.prems obtain a where a: "relevance_of d (sp_external_id p) = Some a"
    using relevance_of_paper [of d p] by auto
  show ?case
  proof (cases "last_by ps_external_id (paper_summaries smry) (sp_external_id p)")
    case None
    then have "sp_external_id p \<notin> ps_external_id ` set (paper_summaries smry)"
      by (simp add: last_by_None)
    with None r show ?thesis by simp
  next
    case (Some s)
    then have "sp_external_id p \<in> ps_external_id ` set (paper_summaries smry)"
      by (metis last_by_None option.distinct(1))
    with r a Some assms(3) show ?thesis by auto
  qed
qed

end
