(* ===== verification/Quality.thy ===== *)
theory Quality
  imports Validation
begin

section \<open>Deterministic quality checks (backend/app/radar/quality.py)\<close>

text \<open>
  The evaluation of a finished run's four saved checkpoints.  Each group of checks is one
  definition that returns its findings; \<open>evaluate_quality\<close> parses the checkpoints again,
  collects the findings in the code's order, puts the blocking ones first and derives the
  status.
\<close>

datatype DigestRunStageType = DISCOVERY_RELEVANCE | PAPER_SUMMARIES | TREND_ANALYSIS | DIGEST_BRIEFING

text \<open>A stage's saved \<open>result_data\<close>, by the stage that wrote it.\<close>

datatype StageData = DiscoveryData DiscoveryRelevanceOutput | SummariesData PaperSummariesOutput
  | TrendData TrendAnalysisOutput | BriefingData DigestBriefingOutput

type_synonym stage_results = "(DigestRunStageType \<times> StageData option) list"

definition stage_data :: "stage_results \<Rightarrow> DigestRunStageType \<Rightarrow> exn + StageData option" where
  "stage_data stages t = getitem (map_of stages) t"

fun parse_discovery :: "StageData option \<Rightarrow> exn + DiscoveryRelevanceOutput" where
  "parse_discovery (Some (DiscoveryData d)) = model_validate_discovery d"
| "parse_discovery _ = validation_error ''validation error for DiscoveryRelevanceOutput''"

fun parse_summaries :: "StageData option \<Rightarrow> exn + PaperSummariesOutput" where
  "parse_summaries (Some (SummariesData d)) = model_validate_summaries d"
| "parse_summaries _ = validation_error ''validation error for PaperSummariesOutput''"

fun parse_trends :: "StageData option \<Rightarrow> exn + TrendAnalysisOutput" where
  "parse_trends (Some (TrendData d)) = Inr d"
| "parse_trends _ = validation_error ''validation error for TrendAnalysisOutput''"

fun parse_briefing :: "StageData option \<Rightarrow> exn + DigestBriefingOutput" where
  "parse_briefing (Some (BriefingData d)) = validate_paper_selections d"
| "parse_briefing _ = validation_error ''validation error for DigestBriefingOutput''"

subsection \<open>Canonical identities\<close>

definition doi_prefixes :: "string list" where
  "doi_prefixes = [''https://doi.org/'', ''https://dx.doi.org/'', ''http://doi.org/'', ''http://dx.doi.org/'']"

definition strip_doi_prefix :: "string \<Rightarrow> string" where
  "strip_doi_prefix s =
     (case find (\<lambda>p. startswith (lower s) p) doi_prefixes of
        Some p \<Rightarrow> drop (length p) s
      | None \<Rightarrow> if startswith (lower s) ''doi:'' then lstrip_by is_space (drop 4 s) else s)"

definition canonical_doi :: "string option \<Rightarrow> string" where
  "canonical_doi v = lower (strip_doi_prefix (strip (case v of None \<Rightarrow> [] | Some s \<Rightarrow> s)))"

definition canonical_url :: "string \<Rightarrow> exn + string" where
  "canonical_url v =
     (case urlsplit v of Inl e \<Rightarrow> Inl e
      | Inr parts \<Rightarrow> Inr (urlunsplit \<lparr>scheme = lower (scheme parts), netloc = lower (netloc parts),
          path = rstrip_by (\<lambda>c. c = CHR ''/'') (path parts), query = query parts, fragment = []\<rparr>))"

subsection \<open>Findings\<close>

definition finding :: "string \<Rightarrow> severity \<Rightarrow> string \<Rightarrow> string set \<Rightarrow> QualityFinding" where
  "finding code sev msg ids =
     \<lparr>qf_code = code, qf_severity = sev, qf_message = msg, qf_paper_ids = sorted_set ids\<rparr>"

definition finding_if :: "bool \<Rightarrow> string \<Rightarrow> severity \<Rightarrow> string \<Rightarrow> string set \<Rightarrow> QualityFinding list" where
  "finding_if b code sev msg ids = (if b then [finding code sev msg ids] else [])"

definition selected_ids :: "DiscoveryRelevanceOutput \<Rightarrow> string set" where
  "selected_ids d = ra_external_id ` set (filter is_selected (rs_assessments (dr_relevance d)))"

definition summary_ids :: "PaperSummariesOutput \<Rightarrow> string set" where
  "summary_ids s = ps_external_id ` set (paper_summaries s)"

definition reference_findings ::
  "DiscoveryRelevanceOutput \<Rightarrow> PaperSummariesOutput \<Rightarrow> string set \<Rightarrow> QualityFinding list" where
  "reference_findings d s refs =
     (let sel = selected_ids d; sum = summary_ids s; known = set (paper_ids d) in
      finding_if (sel \<noteq> sum) ''summary_coverage'' SevHold
        ''Summaries do not match the papers selected for research.'' ((sel - sum) \<union> (sum - sel))
      @ finding_if (refs - known \<noteq> {}) ''unknown_references'' SevHold
        ''Research output references papers absent from discovery.'' (refs - known)
      @ finding_if (refs - sel \<noteq> {}) ''unselected_references'' SevHold
        ''Research output cites papers that were not selected for summaries.'' (refs - sel))"

definition content_findings ::
  "PaperSummariesOutput \<Rightarrow> TrendAnalysisOutput \<Rightarrow> DigestBriefingOutput \<Rightarrow> QualityFinding list" where
  "content_findings s t b =
     (let br = digest_briefing b; tr = trend_analysis t;
          blank = (\<lambda>v. strip v = []);
          missing = map fst (filter (\<lambda>(n, v). blank v)
            [(''briefing title'', db_title br), (''executive summary'', db_executive_summary br),
             (''briefing content'', db_content_markdown br),
             (''source transparency'', db_transparency_note br), (''trend overview'', ta_overview tr)]);
          empty = ps_external_id ` set (filter (\<lambda>x. blank (ps_concise_summary x)) (paper_summaries s));
          unsupported = filter (\<lambda>th. tt_evidence_external_ids th = []) (ta_themes tr);
          overstated = set (concat (map tt_evidence_external_ids (filter (\<lambda>th.
             tt_evidence_type th = MultiPaperPattern
             \<and> card (set (tt_evidence_external_ids th)) < 2) (ta_themes tr))))
      in finding_if (missing \<noteq> []) ''missing_content'' SevHold
           (''Required content is blank: '' @ join '', '' missing @ ''.'') {}
         @ finding_if (empty \<noteq> {}) ''empty_summaries'' SevHold
             ''Selected papers have blank summaries.'' empty
         @ finding_if (unsupported \<noteq> [] \<or> (case db_main_signal br of None \<Rightarrow> False
              | Some m \<Rightarrow> ms_supporting_external_ids m = [])) ''missing_evidence_references'' SevHold
             ''A research theme or main signal has no supporting paper references.'' {}
         @ finding_if (overstated \<noteq> {}) ''single_paper_pattern'' SevHold
             ''A multi-paper pattern references only one distinct paper.'' overstated)"

text \<open>The papers the later checks look at: selected or referenced, and discovered.\<close>

definition included_papers :: "DiscoveryRelevanceOutput \<Rightarrow> string set \<Rightarrow> SearchPaper list" where
  "included_papers d refs =
     filter (\<lambda>p. sp_external_id p \<in> selected_ids d \<union> refs) (ss_papers (dr_search d))"

definition reporting_findings :: "date \<Rightarrow> date \<Rightarrow> SearchPaper list \<Rightarrow> QualityFinding list" where
  "reporting_findings lo hi included =
     (let outside = filter (\<lambda>p. \<not> in_period lo hi (sp_published_date p)) included;
          unknown = filter (\<lambda>p. sp_published_date p = None) included;
          dates = join ''; '' (map (\<lambda>k. k @ '': '' @ (case last_by sp_external_id included k of
                     Some p \<Rightarrow> (case sp_published_date p of Some x \<Rightarrow> isoformat x | None \<Rightarrow> ''None'')
                   | None \<Rightarrow> [])) (sorted_set (sp_external_id ` set outside)))
      in finding_if (outside \<noteq> []) ''reporting_period'' SevHold
           (''Included papers have publication dates outside the reporting period '' @ isoformat lo
            @ '' to '' @ isoformat hi @ '' (inclusive). Saved publication dates: '' @ dates @ ''.'')
           (sp_external_id ` set outside)
         @ finding_if (unknown \<noteq> []) ''unknown_publication_date'' SevWarning
           ''Some included papers have no publication date to check.'' (sp_external_id ` set unknown))"

subsection \<open>Duplicates\<close>

text \<open>The dicts of sets \<open>identities\<close> and \<open>titles\<close> are lists of (identity, paper key) entries;
  the keys of a repeated identity are those of every group with more than one key.\<close>

definition group_keys :: "('i \<times> string) list \<Rightarrow> 'i \<Rightarrow> string set" where
  "group_keys entries i = snd ` set (filter (\<lambda>e. fst e = i) entries)"

definition repeated_keys :: "('i \<times> string) list \<Rightarrow> string set" where
  "repeated_keys entries =
     \<Union> (set (filter (\<lambda>g. card g > 1) (map (\<lambda>e. group_keys entries (fst e)) entries)))"

definition paper_doi :: "SearchPaper \<Rightarrow> exn + string" where
  "paper_doi p =
     (let doi = canonical_doi (sp_doi p)
      in if doi \<noteq> [] then Inr doi
         else (case urlsplit (sp_url p) of Inl e \<Rightarrow> Inl e
               | Inr u \<Rightarrow> Inr (if hostname u \<in> {''doi.org'', ''dx.doi.org''}
                              then canonical_doi (Some (sp_url p)) else doi)))"

definition identity_entries :: "SearchPaper \<Rightarrow> exn + ((string \<times> string) \<times> string) list" where
  "identity_entries p =
     (case paper_doi p of Inl e \<Rightarrow> Inl e
      | Inr doi \<Rightarrow> (case canonical_url (sp_url p) of Inl e \<Rightarrow> Inl e
          | Inr url \<Rightarrow> Inr ((if doi \<noteq> [] then [((''doi'', doi), sp_external_id p)] else [])
                           @ [((''url'', url), sp_external_id p)])))"

definition normalized_title :: "SearchPaper \<Rightarrow> string" where
  "normalized_title p = join '' '' (words (lower (sp_title p)))"

definition title_entries :: "SearchPaper list \<Rightarrow> (string \<times> string) list" where
  "title_entries included = map (\<lambda>p. (normalized_title p, sp_external_id p))
     (filter (\<lambda>p. normalized_title p \<noteq> []) included)"

definition duplicate_findings :: "SearchPaper list \<Rightarrow> exn + QualityFinding list" where
  "duplicate_findings included =
     (case map_result identity_entries included of Inl e \<Rightarrow> Inl e
      | Inr entries \<Rightarrow>
          (let dup = repeated_keys (concat entries);
               declared = set (map sp_external_id (filter (\<lambda>p. case sp_possible_duplicate_of p of
                   None \<Rightarrow> False | Some k \<Rightarrow> k \<in> sp_external_id ` set included) included));
               possible = (repeated_keys (title_entries included) - dup) \<union> declared
           in Inr (finding_if (dup \<noteq> {}) ''duplicate_identity'' SevHold
                     ''Multiple included papers share the same DOI or source URL.'' dup
                   @ finding_if (possible \<noteq> {}) ''possible_duplicates'' SevWarning
                     ''Included papers may represent duplicate versions; review their identity.'' possible)))"

definition access_findings :: "DiscoveryRelevanceOutput \<Rightarrow> PaperSummariesOutput \<Rightarrow> QualityFinding list" where
  "access_findings d s =
     (let limited = ps_external_id ` set (filter (\<lambda>x. ps_summary_basis x
              \<in> {BasisAbstractOnly, BasisMetadataOnly, BasisUnclear}) (paper_summaries s));
          inconsistent = ps_external_id ` set (filter (\<lambda>x. ps_summary_basis x = BasisOpenFullText
              \<and> (case last_by sp_external_id (ss_papers (dr_search d)) (ps_external_id x) of
                   None \<Rightarrow> False | Some p \<Rightarrow> \<not> sp_full_text_available p)) (paper_summaries s))
      in finding_if (limited \<noteq> {}) ''limited_source_access'' SevWarning
           ''Some summaries report abstract-only, metadata-only, or unclear evidence.'' limited
         @ finding_if (inconsistent \<noteq> {}) ''inconsistent_source_basis'' SevHold
           ''A summary claims full-text review although discovery reports no full text.'' inconsistent)"

definition sparse_findings :: "DiscoveryRelevanceOutput \<Rightarrow> nat \<Rightarrow> QualityFinding list" where
  "sparse_findings d threshold =
     finding_if (card (selected_ids d) < threshold) ''sparse_results'' SevWarning
       (''Only '' @ nat_str (card (selected_ids d))
        @ '' papers were selected; limited coverage does not by itself block delivery.'') {}"

definition decide :: "QualityFinding list \<Rightarrow> QualityDecision" where
  "decide findings =
     (let sorted_findings = sort_key (\<lambda>f. qf_severity f \<noteq> SevHold) findings
      in \<lparr>qd_status = (if \<exists>f \<in> set sorted_findings. qf_severity f = SevHold then QHold
                      else if sorted_findings \<noteq> [] then QWarning else QPass),
          qd_findings = sorted_findings\<rparr>)"

text \<open>All findings of parsed checkpoints, in the order the code adds them.\<close>

definition quality_findings ::
  "date \<Rightarrow> date \<Rightarrow> QualityConfig \<Rightarrow> DiscoveryRelevanceOutput \<Rightarrow> PaperSummariesOutput
     \<Rightarrow> TrendAnalysisOutput \<Rightarrow> DigestBriefingOutput \<Rightarrow> exn + QualityFinding list" where
  "quality_findings lo hi c d s t b =
     (let refs = trend_references t \<union> briefing_references b;
          included = included_papers d refs;
          before = reference_findings d s refs @ content_findings s t b
      in if qc_check_reporting_dates c \<and> lo > hi
         then Inl (Exn ValueErrorPy ''Invalid reporting interval'')
         else (case (if qc_check_duplicates c then duplicate_findings included else Inr []) of
                 Inl e \<Rightarrow> Inl e
               | Inr dups \<Rightarrow> Inr (before
                   @ (if qc_check_reporting_dates c then reporting_findings lo hi included else [])
                   @ dups
                   @ (if qc_check_source_access c then access_findings d s else [])
                   @ sparse_findings d (qc_sparse_paper_threshold c))))"

definition parse_stage ::
  "stage_results \<Rightarrow> DigestRunStageType \<Rightarrow> (StageData option \<Rightarrow> exn + 'a) \<Rightarrow> exn + 'a" where
  "parse_stage stages t parse =
     (case stage_data stages t of Inl e \<Rightarrow> Inl e | Inr v \<Rightarrow> parse v)"

definition evaluate_quality ::
  "date \<Rightarrow> date \<Rightarrow> stage_results \<Rightarrow> QualityConfig \<Rightarrow> exn + QualityDecision" where
  "evaluate_quality reporting_from reporting_to stages config =
     (if qc_mode config = ModeOff then Inr \<lparr>qd_status = NotEvaluated, qd_findings = []\<rparr>
      else
     (case parse_stage stages DISCOVERY_RELEVANCE parse_discovery of Inl e \<Rightarrow> Inl e | Inr d \<Rightarrow>
     (case parse_stage stages PAPER_SUMMARIES parse_summaries of Inl e \<Rightarrow> Inl e | Inr s \<Rightarrow>
     (case parse_stage stages TREND_ANALYSIS parse_trends of Inl e \<Rightarrow> Inl e | Inr t \<Rightarrow>
     (case parse_stage stages DIGEST_BRIEFING parse_briefing of Inl e \<Rightarrow> Inl e | Inr b \<Rightarrow>
     (case quality_findings reporting_from reporting_to config d s t b of Inl e \<Rightarrow> Inl e
      | Inr findings \<Rightarrow> Inr (decide findings)))))))"

subsection \<open>Properties of the decision\<close>

lemma set_finding_if: "set (finding_if b c sv m i) = (if b then {finding c sv m i} else {})"
  by (simp add: finding_if_def)

lemma finding_severity [simp]: "qf_severity (finding c sv m i) = sv"
  by (simp add: finding_def)

lemma decide_set [simp]: "set (qd_findings (decide fs)) = set fs"
  by (simp add: decide_def Let_def)

lemma decide_hold_iff: "qd_status (decide fs) = QHold \<longleftrightarrow> (\<exists>f \<in> set fs. qf_severity f = SevHold)"
  by (simp add: decide_def Let_def)

lemma decide_pass_iff: "qd_status (decide fs) = QPass \<longleftrightarrow> fs = []"
proof -
  have "sort_key (\<lambda>f. qf_severity f \<noteq> SevHold) fs = [] \<longleftrightarrow> fs = []"
    by (metis set_empty set_sort)
  then show ?thesis by (auto simp: decide_def Let_def)
qed

lemma decide_holds_first:
  assumes "i < j" and "j < length (qd_findings (decide fs))"
    and "qf_severity (qd_findings (decide fs) ! j) = SevHold"
  shows "qf_severity (qd_findings (decide fs) ! i) = SevHold"
proof -
  let ?k = "\<lambda>f. qf_severity f \<noteq> SevHold"
  let ?fs = "qd_findings (decide fs)"
  have "sorted (map ?k ?fs)" by (simp add: decide_def Let_def)
  then have "map ?k ?fs ! i \<le> map ?k ?fs ! j"
    using assms(1,2) by (intro sorted_nth_mono) simp_all
  then show ?thesis using assms by simp
qed

lemma repeated_keys_iff:
  "k \<in> repeated_keys entries \<longleftrightarrow>
     (\<exists>i k'. (i, k) \<in> set entries \<and> (i, k') \<in> set entries \<and> k' \<noteq> k)"
proof
  assume "k \<in> repeated_keys entries"
  then obtain e where e: "e \<in> set entries" "card (group_keys entries (fst e)) > 1"
    "k \<in> group_keys entries (fst e)" by (auto simp: repeated_keys_def)
  then obtain k' where "k' \<in> group_keys entries (fst e)" "k' \<noteq> k"
    by (metis card_le_Suc0_iff_eq One_nat_def group_keys_def List.finite_set finite_imageI
        leD less_eq_Suc_le)
  then have "(fst e, k) \<in> set entries" "(fst e, k') \<in> set entries"
    using e(3) by (auto simp: group_keys_def)
  with \<open>k' \<noteq> k\<close> show "\<exists>i k'. (i, k) \<in> set entries \<and> (i, k') \<in> set entries \<and> k' \<noteq> k"
    by blast
next
  assume "\<exists>i k'. (i, k) \<in> set entries \<and> (i, k') \<in> set entries \<and> k' \<noteq> k"
  then obtain i k' where m: "(i, k) \<in> set entries" "(i, k') \<in> set entries" "k' \<noteq> k" by blast
  have fin: "finite (group_keys entries i)" by (simp add: group_keys_def)
  have "k \<in> group_keys entries i" "k' \<in> group_keys entries i"
    using m by (force simp: group_keys_def)+
  then have "card {k, k'} \<le> card (group_keys entries i)" using fin by (intro card_mono) auto
  then have "card (group_keys entries i) > 1" using m(3) by simp
  then show "k \<in> repeated_keys entries"
    using m(1) \<open>k \<in> group_keys entries i\<close> by (force simp: repeated_keys_def)
qed

text \<open>When an evaluation succeeds its four checkpoints were valid and its findings are the
  collected ones.\<close>

lemma evaluate_quality_cases:
  assumes "evaluate_quality lo hi stages c = Inr dec" and "qc_mode c \<noteq> ModeOff"
  obtains d s t b fs where
    "map_of stages DISCOVERY_RELEVANCE = Some (Some (DiscoveryData d))" "valid_discovery d"
    "map_of stages PAPER_SUMMARIES = Some (Some (SummariesData s))"
    "distinct (map ps_external_id (paper_summaries s))"
    "map_of stages TREND_ANALYSIS = Some (Some (TrendData t))"
    "map_of stages DIGEST_BRIEFING = Some (Some (BriefingData b))"
    "quality_findings lo hi c d s t b = Inr fs" "dec = decide fs"
proof -
  from assms obtain d s t b fs where
    p: "parse_stage stages DISCOVERY_RELEVANCE parse_discovery = Inr d"
    "parse_stage stages PAPER_SUMMARIES parse_summaries = Inr s"
    "parse_stage stages TREND_ANALYSIS parse_trends = Inr t"
    "parse_stage stages DIGEST_BRIEFING parse_briefing = Inr b"
    and q: "quality_findings lo hi c d s t b = Inr fs" "dec = decide fs"
    by (auto simp: evaluate_quality_def split: sum.splits)
  have 1: "map_of stages DISCOVERY_RELEVANCE = Some (Some (DiscoveryData d)) \<and> valid_discovery d"
    using p(1) by (auto simp: parse_stage_def stage_data_def getitem_def validation_error_def
        split: sum.splits option.splits elim!: parse_discovery.elims
        dest: model_validate_discovery_Inr model_validate_discovery_Inr[OF sym])
  have 2: "map_of stages PAPER_SUMMARIES = Some (Some (SummariesData s))
      \<and> distinct (map ps_external_id (paper_summaries s))"
    using p(2) by (auto simp: parse_stage_def stage_data_def getitem_def validation_error_def
        split: sum.splits option.splits elim!: parse_summaries.elims
        dest: model_validate_summaries_Inr model_validate_summaries_Inr[OF sym])
  have 3: "map_of stages TREND_ANALYSIS = Some (Some (TrendData t))"
    using p(3) by (auto simp: parse_stage_def stage_data_def getitem_def validation_error_def
        split: sum.splits option.splits elim!: parse_trends.elims)
  have 4: "map_of stages DIGEST_BRIEFING = Some (Some (BriefingData b))"
    using p(4) by (auto simp: parse_stage_def stage_data_def getitem_def validation_error_def
        split: sum.splits option.splits elim!: parse_briefing.elims
        dest: validate_paper_selections_iff [THEN iffD1] validate_paper_selections_iff [THEN iffD1, OF sym])
  from 1 2 3 4 q that show thesis by blast
qed

lemma finding_ifI: "b \<Longrightarrow> finding c sv m i \<in> set (finding_if b c sv m i)"
  by (simp add: finding_if_def)

lemma quality_findings_parts:
  assumes "quality_findings lo hi c d s t b = Inr fs"
  shows "set (reference_findings d s (trend_references t \<union> briefing_references b)) \<subseteq> set fs"
    and "set (content_findings s t b) \<subseteq> set fs"
    and "qc_check_reporting_dates c \<Longrightarrow> set (reporting_findings lo hi
           (included_papers d (trend_references t \<union> briefing_references b))) \<subseteq> set fs"
    and "qc_check_source_access c \<Longrightarrow> set (access_findings d s) \<subseteq> set fs"
  using assms by (auto simp: quality_findings_def Let_def split: if_splits sum.splits)

lemma reference_findings_hold:
  "sel = selected_ids d \<Longrightarrow> sel \<noteq> summary_ids s \<or> \<not> refs \<subseteq> sel \<Longrightarrow>
     \<exists>f \<in> set (reference_findings d s refs). qf_severity f = SevHold"
  unfolding reference_findings_def Let_def
  by (auto simp: set_finding_if intro: finding_ifI split: if_splits)

end
