(* ===== verification/Results.thy ===== *)
theory Results
  imports Prelude
begin

section \<open>Computations that may raise\<close>

text \<open>
  Code without a session: a value or an exception.  \<open>rbind\<close> is the sequence of two such
  computations, \<open>require\<close> a check that raises, \<open>checks\<close> a row of checks of which the first
  failing one raises.  The collection \<open>ok_iff\<close> says of each when it returns, so that the
  acceptance condition of a validator is read off its definition with \<open>simp add: ok_iff\<close>.
\<close>

named_theorems ok_iff "when a computation returns a value"

definition rbind :: "exn + 'a \<Rightarrow> ('a \<Rightarrow> exn + 'b) \<Rightarrow> exn + 'b" where
  "rbind m f = (case m of Inl e \<Rightarrow> Inl e | Inr v \<Rightarrow> f v)"

definition require :: "bool \<Rightarrow> exn_class \<Rightarrow> string \<Rightarrow> exn + unit" where
  "require b c m = (if b then Inr () else Inl (Exn c m))"

definition rseq :: "exn + unit \<Rightarrow> exn + 'b \<Rightarrow> exn + 'b" where
  "rseq m n = rbind m (\<lambda>_. n)"

fun checks :: "(exn + unit) list \<Rightarrow> exn + unit" where
  "checks [] = Inr ()"
| "checks (c # cs) = rseq c (checks cs)"

text \<open>\<open>d[k]\<close> or \<open>obj.attr\<close> of a missing object.\<close>

definition the_value :: "exn_class \<Rightarrow> 'a option \<Rightarrow> exn + 'a" where
  "the_value c v = (case v of None \<Rightarrow> Inl (Exn c []) | Some x \<Rightarrow> Inr x)"

lemma rbind_simps [simp]: "rbind (Inl e) f = Inl e" "rbind (Inr v) f = f v"
  by (simp_all add: rbind_def)

lemma rseq_simps [simp]: "rseq (Inl e) n = Inl e" "rseq (Inr u) n = n"
  by (simp_all add: rseq_def)

lemma rbind_ok [ok_iff]: "rbind m f = Inr w \<longleftrightarrow> (\<exists>v. m = Inr v \<and> f v = Inr w)"
  by (cases m) simp_all

lemma rseq_ok [ok_iff]: "rseq m n = Inr w \<longleftrightarrow> m = Inr () \<and> n = Inr w"
  by (cases m) simp_all

lemma require_ok [ok_iff]: "require b c m = Inr u \<longleftrightarrow> b"
  by (simp add: require_def)

lemma require_error: "require b c m = Inl e \<longleftrightarrow> \<not> b \<and> e = Exn c m"
  by (auto simp: require_def)

lemma checks_ok [ok_iff]: "checks cs = Inr u \<longleftrightarrow> list_all (\<lambda>c. c = Inr ()) cs"
  by (induction cs) (simp_all add: rseq_ok)

lemma checks_error:
  "checks cs = Inl e \<longleftrightarrow> (\<exists>xs c ys. cs = xs @ c # ys \<and> list_all (\<lambda>c. c = Inr ()) xs \<and> c = Inl e)"
proof (induction cs)
  case (Cons c cs)
  show ?case
  proof (cases c)
    case (Inl d)
    then show ?thesis by (auto simp: Cons_eq_append_conv)
  next
    case (Inr u)
    have "checks (c # cs) = Inl e \<longleftrightarrow> checks cs = Inl e" using Inr by simp
    also have "\<dots> \<longleftrightarrow> (\<exists>xs b ys. c # cs = xs @ b # ys \<and> list_all (\<lambda>c. c = Inr ()) xs \<and> b = Inl e)"
      unfolding Cons.IH
    proof
      assume "\<exists>xs b ys. cs = xs @ b # ys \<and> list_all (\<lambda>c. c = Inr ()) xs \<and> b = Inl e"
      then obtain xs b ys where "cs = xs @ b # ys" "list_all (\<lambda>c. c = Inr ()) xs" "b = Inl e" by blast
      then show "\<exists>xs b ys. c # cs = xs @ b # ys \<and> list_all (\<lambda>c. c = Inr ()) xs \<and> b = Inl e"
        using Inr by (intro exI [of _ "c # xs"]) auto
    qed (use Inr in \<open>auto simp: Cons_eq_append_conv\<close>)
    finally show ?thesis .
  qed
qed simp

lemma the_value_ok [ok_iff]: "the_value c v = Inr x \<longleftrightarrow> v = Some x"
  by (cases v) (simp_all add: the_value_def)

lemma map_sum_ok [ok_iff]: "map_sum f g m = Inr w \<longleftrightarrow> (\<exists>v. m = Inr v \<and> w = g v)"
  by (cases m) auto

text \<open>\<open>try: m except E: handler\<close>, for a class of errors.\<close>

definition rcatch :: "exn + 'a \<Rightarrow> (exn \<Rightarrow> exn + 'a) \<Rightarrow> exn + 'a" where
  "rcatch m h = (case m of Inl e \<Rightarrow> h e | Inr v \<Rightarrow> Inr v)"

lemma rcatch_simps [simp]: "rcatch (Inl e) h = h e" "rcatch (Inr v) h = Inr v"
  by (simp_all add: rcatch_def)

section \<open>The files of the claim evaluation (evaluation/models.py)\<close>

text \<open>
  A benchmark of claims with its sources, human reviews of the claims, the judgments of a
  candidate, the acceptance criteria, and the report that compares them.  They are files of
  the offline evaluation and JSON columns of the benchmark tables.
\<close>

subsection \<open>Benchmarks, reviews and candidates\<close>

datatype Split = Development | Heldout

datatype Verdict = VSupported | VContradicted | VInsufficient

text \<open>What was predicted for a case: a verdict, an abstention, or nothing.\<close>

datatype Prediction = Predicted Verdict | Abstain | Missing

datatype source_kind = ArxivAbstract | Synthetic | SourceUnavailable

datatype claim_scope = ScopeSummary | ScopeFinding | ScopeTrend | ScopeBriefing

datatype case_severity = Ordinary | Critical

datatype review_status = ReviewPending | ReviewApproved | ReviewExcluded

datatype candidate_method = ByHuman | SavedModelOutput | TestFixture

record Passage =
  bp_id :: string
  bp_text :: string

record Source =
  src_id :: string
  src_family :: string
  src_split :: Split
  src_kind :: source_kind
  src_title :: string
  src_authors :: "string list"
  src_url :: "string option"
  src_license_url :: "string option"
  src_permission_url :: "string option"
  src_captured_at :: "date option"
  src_permission_note :: string
  src_passages :: "Passage list"

record Case =
  cs_id :: string
  cs_split :: Split
  cs_scope :: claim_scope
  cs_claim :: string
  cs_source_ids :: "string list"
  cs_cited_passage_ids :: "string list"
  cs_tags :: "string list"
  cs_severity :: case_severity

record Benchmark =
  bm_id :: string
  bm_version :: string
  bm_description :: string
  bm_sources :: "Source list"
  bm_cases :: "Case list"

text \<open>\<open>reviewed_at\<close>: the time and whether it carries a UTC offset.\<close>

record Review =
  rv_case_id :: string
  rv_case_sha256 :: string
  rv_status :: review_status
  rv_verdict :: "Verdict option"
  rv_evidence_passage_ids :: "string list"
  rv_reviewer :: "string option"
  rv_reviewed_at :: "(datetime \<times> bool) option"
  rv_rationale :: "string option"
  rv_human_reviewed :: bool
  rv_permissions_checked :: bool

record Reviews =
  rvs_benchmark_sha256 :: string
  rvs_records :: "Review list"

record Judgment =
  jd_case_id :: string
  jd_case_sha256 :: string
  jd_verdict :: Prediction
  jd_evidence_passage_ids :: "string list"
  jd_rationale :: string
  jd_cost_usd :: "rat option"
  jd_latency_seconds :: "rat option"

record Candidate =
  cd_benchmark_sha256 :: string
  cd_candidate_id :: string
  cd_method :: candidate_method
  cd_model :: "string option"
  cd_prompt_version :: "string option"
  cd_evaluator_version :: string
  cd_judgments :: "Judgment list"

record Criteria =
  cr_approved :: bool
  cr_reviewer :: "string option"
  cr_reviewed_at :: "(datetime \<times> bool) option"
  cr_rationale :: "string option"
  cr_minimum_reviewed_cases :: nat
  cr_minimum_source_families :: nat
  cr_minimum_prediction_coverage :: rat
  cr_minimum_accuracy :: rat
  cr_maximum_false_acceptance_rate :: rat
  cr_maximum_regressions :: nat

subsection \<open>Scores and reports (evaluation/scoring.py)\<close>

record ScoredRow =
  row_case_id :: string
  row_scope :: claim_scope
  row_tags :: "string list"
  row_severity :: case_severity
  row_real :: bool
  row_review_status :: review_status
  row_expected :: "Verdict option"
  row_predicted :: Prediction
  row_references_valid :: "bool option"
  row_correct :: bool
  row_rationale :: "string option"

record Metrics =
  mt_cases :: nat
  mt_correct :: nat
  mt_accuracy :: "rat option"
  mt_verdict_accuracy :: "rat option"
  mt_prediction_coverage :: "rat option"
  mt_missing :: nat
  mt_abstentions :: nat
  mt_invalid_evidence_references :: nat
  mt_supported_cases :: nat
  mt_unsupported_cases :: nat
  mt_false_acceptances :: nat
  mt_false_acceptance_rate :: "rat option"
  mt_false_rejections :: nat
  mt_false_rejection_rate :: "rat option"
  mt_unsupported_detection_rate :: "rat option"
  mt_critical_unsupported_cases :: nat
  mt_critical_false_acceptances :: nat
  mt_confusion_matrix :: "((Verdict \<times> Prediction) \<times> nat) list"

record CandidateScore =
  sco_candidate_id :: string
  sco_method :: candidate_method
  sco_model :: "string option"
  sco_prompt_version :: "string option"
  sco_evaluator_version :: string
  sco_selected_cases :: nat
  sco_approved_cases :: nat
  sco_pending_cases :: nat
  sco_excluded_cases :: nat
  sco_reviewed_real_source_families :: nat
  sco_metrics :: Metrics
  sco_by_scope :: "(string \<times> Metrics) list"
  sco_by_source_kind :: "(string \<times> Metrics) list"
  sco_by_tag :: "(string \<times> Metrics) list"
  sco_cases :: "ScoredRow list"
  sco_recorded_cost_usd :: "rat option"
  sco_cost_records_missing :: nat
  sco_recorded_latency_seconds :: "rat option"
  sco_latency_records_missing :: nat

datatype evaluation_decision = NotReady | Fail | Pass

record Comparison =
  cmp_baseline :: CandidateScore
  cmp_regressions :: "string list"
  cmp_improvements :: "string list"
  cmp_accuracy_delta :: "rat option"

record Report =
  rep_benchmark_sha256 :: string
  rep_reviews_sha256 :: string
  rep_candidate_sha256 :: string
  rep_criteria_sha256 :: string
  rep_baseline_sha256 :: "string option"
  rep_split :: Split
  rep_decision :: evaluation_decision
  rep_readiness_reasons :: "string list"
  rep_failures :: "string list"
  rep_candidate :: CandidateScore
  rep_comparison :: "Comparison option"

end
