(* ===== verification/Json.thy ===== *)
theory Json
  imports Results PyStrings
begin

section \<open>Untrusted JSON\<close>

text \<open>
  What Stripe returns is JSON that nothing has validated (\<open>ProviderObject\<close> in
  backend/app/services/billing_types.py).  The functions below are the Python operations the
  billing code applies to it: \<open>value.get(key)\<close>, which only a dictionary has, \<open>value or {}\<close>,
  \<open>value[0]\<close>, \<open>len\<close>, equality with a string or a number, \<open>is True\<close>, \<open>type(v) is int\<close> and
  \<open>Decimal(str(value))\<close>.  A dictionary is the list of its items with distinct keys.  What
  raises in Python is an \<open>Inl\<close> here, so that a malformed object is a branch of the model.
\<close>

datatype json = JNull | JBool bool | JInt int | JReal rat | JStr string
  | JList "json list" | JObj "(string \<times> json) list"

fun truthy :: "json \<Rightarrow> bool" where
  "truthy JNull = False"
| "truthy (JBool b) = b"
| "truthy (JInt i) = (i \<noteq> 0)"
| "truthy (JReal r) = (r \<noteq> 0)"
| "truthy (JStr s) = (s \<noteq> [])"
| "truthy (JList js) = (js \<noteq> [])"
| "truthy (JObj kvs) = (kvs \<noteq> [])"

text \<open>\<open>a or b\<close>.\<close>

definition jor :: "json \<Rightarrow> json \<Rightarrow> json" where
  "jor a b = (if truthy a then a else b)"

definition lookup_or :: "json \<Rightarrow> (string \<times> json) list \<Rightarrow> string \<Rightarrow> json" where
  "lookup_or d kvs k = (case map_of kvs k of None \<Rightarrow> d | Some v \<Rightarrow> v)"

text \<open>\<open>j.get(k, d)\<close>.\<close>

fun jget_or :: "json \<Rightarrow> json \<Rightarrow> string \<Rightarrow> exn + json" where
  "jget_or d (JObj kvs) k = Inr (lookup_or d kvs k)"
| "jget_or d j k = Inl (Exn AttributeErrorPy ''get'')"

abbreviation jget :: "json \<Rightarrow> string \<Rightarrow> exn + json" where
  "jget \<equiv> jget_or JNull"

text \<open>\<open>((j.get(k1) or {}).get(k2) or {}).get(k3)\<close> and so on.\<close>

fun dig :: "json \<Rightarrow> string list \<Rightarrow> exn + json" where
  "dig j [] = Inr j"
| "dig j [k] = jget j k"
| "dig j (k # l # ks) = rbind (jget j k) (\<lambda>v. dig (jor v (JObj [])) (l # ks))"

text \<open>What \<open>len\<close> counts and a loop runs over; \<open>j[0]\<close>.\<close>

fun jiter :: "json \<Rightarrow> exn + json list" where
  "jiter (JList js) = Inr js"
| "jiter (JStr s) = Inr (map (\<lambda>c. JStr [c]) s)"
| "jiter (JObj kvs) = Inr (map (\<lambda>(k, v). JStr k) kvs)"
| "jiter j = Inl (Exn TypeErrorPy ''iteration'')"

fun jfirst :: "json \<Rightarrow> exn + json" where
  "jfirst (JList (j # js)) = Inr j"
| "jfirst (JStr (c # s)) = Inr (JStr [c])"
| "jfirst (JList []) = Inl (Exn IndexErrorPy [])"
| "jfirst (JStr []) = Inl (Exn IndexErrorPy [])"
| "jfirst (JObj kvs) = Inl (Exn KeyErrorPy ''0'')"
| "jfirst j = Inl (Exn TypeErrorPy ''subscript'')"

text \<open>\<open>(value.get("items") or {}).get("data") or []\<close>.\<close>

definition jdata :: "string \<Rightarrow> json \<Rightarrow> exn + json" where
  "jdata k j = rbind (dig j [k, ''data'']) (\<lambda>d. Inr (jor d (JList [])))"

subsection \<open>Comparisons\<close>

fun jnum :: "json \<Rightarrow> rat option" where
  "jnum (JBool b) = Some (if b then 1 else 0)"
| "jnum (JInt i) = Some (of_int i)"
| "jnum (JReal r) = Some r"
| "jnum _ = None"

text \<open>\<open>j == n\<close>; a boolean counts as a number.\<close>

definition jis_num :: "json \<Rightarrow> int \<Rightarrow> bool" where
  "jis_num j n \<longleftrightarrow> jnum j = Some (of_int n)"

definition jtext :: "string option \<Rightarrow> json" where
  "jtext v = (case v of None \<Rightarrow> JNull | Some s \<Rightarrow> JStr s)"

fun jint :: "json \<Rightarrow> int option" where
  "jint (JInt i) = Some i"
| "jint _ = None"

fun jstring :: "json \<Rightarrow> string option" where
  "jstring (JStr s) = Some s"
| "jstring _ = None"

text \<open>\<open>value.get("id") if isinstance(value, dict) else value\<close>.\<close>

fun ref :: "json \<Rightarrow> json" where
  "ref (JObj kvs) = lookup_or JNull kvs ''id''"
| "ref j = j"

lemma jint_Some [simp]: "jint j = Some i \<longleftrightarrow> j = JInt i"
  by (cases j) auto

lemma jstring_Some [simp]: "jstring j = Some s \<longleftrightarrow> j = JStr s"
  by (cases j) auto

lemma jget_ok [ok_iff]: "jget_or d j k = Inr v \<longleftrightarrow> (\<exists>kvs. j = JObj kvs \<and> v = lookup_or d kvs k)"
  by (cases j) auto

subsection \<open>Conditions with early exit\<close>

text \<open>\<open>c1 or c2 or ...\<close>: the first true condition ends the evaluation, an exception leaves it.\<close>

fun any_of :: "(exn + bool) list \<Rightarrow> exn + bool" where
  "any_of [] = Inr False"
| "any_of (c # cs) = rbind c (\<lambda>b. if b then Inr True else any_of cs)"

text \<open>\<open>if c1 or c2 or ...: raise error\<close>.\<close>

definition refuse_if :: "(exn + bool) list \<Rightarrow> exn \<Rightarrow> exn + unit" where
  "refuse_if cs e = rbind (any_of cs) (\<lambda>b. if b then Inl e else Inr ())"

definition test :: "(json \<Rightarrow> bool) \<Rightarrow> exn + json \<Rightarrow> exn + bool" where
  "test p m = map_sum id p m"

lemma any_of_False [ok_iff]: "any_of cs = Inr False \<longleftrightarrow> list_all (\<lambda>c. c = Inr False) cs"
  by (induction cs) (auto simp: rbind_def split: sum.splits)

lemma refuse_if_ok [ok_iff]: "refuse_if cs e = Inr u \<longleftrightarrow> list_all (\<lambda>c. c = Inr False) cs"
  by (auto simp: refuse_if_def rbind_ok any_of_False split: if_splits)

lemma test_False [ok_iff]: "test p m = Inr False \<longleftrightarrow> (\<exists>v. m = Inr v \<and> \<not> p v)"
  by (cases m) (auto simp: test_def)

lemma test_simps [simp]: "test p (Inl e) = Inl e" "test p (Inr v) = Inr (p v)"
  by (simp_all add: test_def)

subsection \<open>Decimal numbers\<close>

text \<open>\<open>Decimal(s)\<close> of a string: blanks around it and underscores are dropped; \<open>None\<close> stands
  for what it refuses, and for infinities and NaN, which equal no number.\<close>

definition digits_value :: "string \<Rightarrow> nat" where
  "digits_value s = foldl (\<lambda>n c. 10 * n + (of_char c - 48)) 0 s"

definition split_sign :: "string \<Rightarrow> bool \<times> string" where
  "split_sign s = (case s of [] \<Rightarrow> (False, s)
     | c # r \<Rightarrow> if c = CHR ''-'' then (True, r) else if c = CHR ''+'' then (False, r) else (False, s))"

definition exponent_of :: "string \<Rightarrow> int option" where
  "exponent_of s = (case s of [] \<Rightarrow> Some 0
     | e # r \<Rightarrow> (let (negative, ds) = split_sign r
                in if e \<in> {CHR ''e'', CHR ''E''} \<and> ds \<noteq> [] \<and> list_all is_digit ds
                   then Some ((if negative then -1 else 1) * int (digits_value ds)) else None))"

definition power_of_ten :: "int \<Rightarrow> rat" where
  "power_of_ten e = (if e \<ge> 0 then 10 ^ nat e else 1 / 10 ^ nat (- e))"

definition decimal_of :: "string \<Rightarrow> rat option" where
  "decimal_of t =
     (let (negative, s) = split_sign (filter (\<lambda>c. c \<noteq> CHR ''_'') (strip t));
          whole = takeWhile is_digit s;
          rest = dropWhile is_digit s;
          dotted = (take 1 rest = ''.'');
          fraction = (if dotted then takeWhile is_digit (drop 1 rest) else []);
          tail = (if dotted then dropWhile is_digit (drop 1 rest) else rest)
      in if whole @ fraction = [] then None
         else map_option (\<lambda>e. (if negative then -1 else 1) * of_nat (digits_value (whole @ fraction))
                * power_of_ten (e - int (length fraction))) (exponent_of tail))"

text \<open>\<open>Decimal(str(j))\<close>; of a list, a dictionary, a boolean or \<open>None\<close> it is refused.\<close>

fun jdecimal :: "json \<Rightarrow> rat option" where
  "jdecimal (JInt i) = Some (of_int i)"
| "jdecimal (JReal r) = Some r"
| "jdecimal (JStr s) = decimal_of s"
| "jdecimal _ = None"

lemma decimal_of_examples:
  "decimal_of ''1'' = Some 1 \<and> decimal_of '' +1.00 '' = Some 1 \<and> decimal_of ''10e-1'' = Some 1
    \<and> decimal_of ''-.5'' = Some (- 1 / 2) \<and> decimal_of ''1x'' = None \<and> decimal_of '''' = None"
  by code_simp

end
