(* ===== verification/Models.thy ===== *)
theory Models
  imports Quality Json Results
begin

section \<open>Stored rows (backend/app/models)\<close>

text \<open>
  One record per table, with the columns the modelled code reads or writes, and one
  datatype per enumeration.  A JSON column holds the record of what the code writes into it.
  A foreign key is the referenced identifier; the collections of a parent (\<open>run.stages\<close>,
  \<open>run.paper_results\<close>) are queries over the child table, in Store.
\<close>

subsection \<open>Accounts (models/user.py)\<close>

datatype UserRole = RoleUser | RoleAdmin

record User =
  usr_id :: uuid
  usr_email :: string
  usr_full_name :: string
  usr_auth_version :: int
  usr_is_active :: bool
  usr_closure_requested_at :: "datetime option"
  usr_role :: UserRole
  usr_is_super_admin :: bool
  usr_created_at :: datetime
  usr_password_hash :: string
  usr_legal_agreement_at :: "datetime option"
  usr_terms_version :: "string option"
  usr_privacy_version :: "string option"

subsection \<open>Digests (models/digest.py, schemas/digest_schedule.py)\<close>

datatype TargetAudience = RESEARCHERS | BUILDERS_TECHNICAL_TEAMS
  | SCIENCE_COMMUNICATORS_EDUCATORS | EXECUTIVES_DECISION_MAKERS | GENERAL

datatype DigestFrequency = DAILY | WEEKLY | MONTHLY | QUARTERLY

record DigestSchedule =
  sch_frequency :: DigestFrequency
  sch_send_email :: bool
  sch_starts_at :: datetime
  sch_ends_at :: "datetime option"
  sch_time_zone :: string

record Digest =
  dg_id :: uuid
  dg_owner_id :: uuid
  dg_topic :: string
  dg_description :: "string option"
  dg_include_keywords :: "string list"
  dg_exclude_keywords :: "string list"
  dg_target_audience :: "TargetAudience list"
  dg_reporting_from :: date
  dg_reporting_to :: date
  dg_frequency :: "DigestFrequency option"
  dg_schedule :: "DigestSchedule option"
  dg_schedule_paused :: bool
  dg_subscription_retry_at :: "datetime option"
  dg_schedule_next_at :: "datetime option"
  dg_maximum_papers :: nat
  dg_created_at :: datetime
  dg_updated_at :: datetime

text \<open>The settings a run keeps of its digest; the dates are stored as ISO text.\<close>

record DigestSnapshot =
  ds_topic :: string
  ds_description :: "string option"
  ds_include_keywords :: "string list"
  ds_exclude_keywords :: "string list"
  ds_target_audience :: "TargetAudience list"
  ds_reporting_from :: date
  ds_reporting_to :: date
  ds_frequency :: "DigestFrequency option"
  ds_maximum_papers :: nat

subsection \<open>Runs (models/digest_run.py)\<close>

datatype DigestRunStatus = QUEUED | RUNNING | COMPLETED | FAILED

datatype DigestRunTrigger = MANUAL | SCHEDULED

datatype DigestRunStageStatus = PENDING | STAGE_RUNNING | STAGE_COMPLETED | STAGE_FAILED

definition RADAR_STAGE_ORDER :: "DigestRunStageType list" where
  "RADAR_STAGE_ORDER = [DISCOVERY_RELEVANCE, PAPER_SUMMARIES, TREND_ANALYSIS, DIGEST_BRIEFING]"

text \<open>The saved quality settings of a run: what \<open>snapshot_settings\<close> wrote, or a value that no
  longer validates, of which only a readable \<open>config.mode\<close> is kept.\<close>

datatype saved_config = SavedSnapshot QualitySnapshot | UnreadableSnapshot "QualityMode option"

record HistoryItem =
  hi_run_id :: uuid
  hi_completed_at :: "datetime option"
  hi_reporting_from :: date
  hi_reporting_to :: date
  hi_title :: "string option"
  hi_executive_summary :: "string option"
  hi_highlights :: "string list"
  hi_overview :: "string option"
  hi_themes :: "TrendTheme list"
  hi_papers :: "(string \<times> string \<times> rat) list"

record FeedbackItem =
  fb_run_id :: uuid
  fb_completed_at :: "datetime option"
  fb_user_feedback :: "string option"

record DigestRun =
  rn_id :: uuid
  rn_digest_id :: uuid
  rn_owner_id :: uuid
  rn_status :: DigestRunStatus
  rn_trigger :: DigestRunTrigger
  rn_digest_snapshot :: DigestSnapshot
  rn_history_context :: "HistoryItem list"
  rn_feedback_context :: "FeedbackItem list"
  rn_search_data :: "SearchMetadata option"
  rn_relevance_data :: "RelevanceStage option"
  rn_model_name :: string
  rn_prompt_version :: string
  rn_openai_response_id :: "string option"
  rn_error_message :: "string option"
  rn_started_at :: datetime
  rn_completed_at :: "datetime option"
  rn_scheduled_for :: "datetime option"
  rn_worker_id :: "string option"
  rn_lease_expires_at :: "datetime option"
  rn_request_count :: nat
  rn_feedback_text :: "string option"
  rn_feedback_created_at :: "datetime option"
  rn_feedback_updated_at :: "datetime option"
  rn_quality_config :: "saved_config option"
  rn_quality_status :: QualityStatus
  rn_quality_findings :: "QualityFinding list"
  rn_quality_evaluated_at :: "datetime option"
  rn_quality_delivery_blocked :: bool

record RadarTokenUsage =
  tu_input_tokens :: nat
  tu_cached_input_tokens :: nat
  tu_output_tokens :: nat
  tu_reasoning_tokens :: nat

record DigestRunStage =
  sg_id :: uuid
  sg_run_id :: uuid
  sg_stage :: DigestRunStageType
  sg_position :: nat
  sg_status :: DigestRunStageStatus
  sg_progress_current :: nat
  sg_progress_total :: nat
  sg_result_data :: "StageData option"
  sg_error_message :: "string option"
  sg_response_ids :: "string list"
  sg_active_response_id :: "string option"
  sg_usage_data :: RadarTokenUsage
  sg_model_name :: string
  sg_prompt_version :: string
  sg_started_at :: "datetime option"
  sg_completed_at :: "datetime option"

record Paper =
  pp_id :: uuid
  pp_source_name :: string
  pp_external_id :: string
  pp_title :: string
  pp_authors :: "string list"
  pp_abstract :: "string option"
  pp_published_date :: "date option"
  pp_url :: string
  pp_doi :: "string option"

record DigestRunPaper =
  dp_id :: uuid
  dp_run_id :: uuid
  dp_paper_id :: uuid
  dp_rank :: nat
  dp_relevance_score :: rat
  dp_search_data :: SearchPaper
  dp_relevance_data :: RelevanceAssessment
  dp_summary_data :: "PaperSummary option"

record DigestRunTrendAnalysis =
  rt_id :: uuid
  rt_run_id :: uuid
  rt_overview :: string
  rt_data :: TrendAnalysis

record DigestRunBriefing =
  rb_id :: uuid
  rb_run_id :: uuid
  rb_title :: string
  rb_executive_summary :: string
  rb_content_markdown :: string
  rb_data :: DigestBriefing

subsection \<open>Provider requests (models/radar_request.py, models/radar_price.py)\<close>

datatype request_outcome = Unconfirmed | Accepted | Rejected | Interrupted

record Pricing =
  pr_model_name :: string
  pr_max_input_tokens :: int
  pr_input_per_million :: rat
  pr_cached_input_per_million :: rat
  pr_cache_write_per_million :: "rat option"
  pr_output_per_million :: rat
  pr_web_search_per_call :: rat

record RequestUsage =
  ru_input_tokens :: int
  ru_cached_input_tokens :: int
  ru_output_tokens :: int
  ru_cache_write_tokens :: int

record RadarRequest =
  rq_id :: uuid
  rq_run_id :: uuid
  rq_stage_id :: uuid
  rq_response_id :: "string option"
  rq_model_name :: string
  rq_reasoning_effort :: string
  rq_status :: string
  rq_outcome :: request_outcome
  rq_usage :: "RequestUsage option"
  rq_web_search_calls :: "nat option"
  rq_service_tier :: "string option"
  rq_pricing :: "Pricing option"
  rq_created_at :: datetime
  rq_observed_at :: "datetime option"

record RadarPrice =
  px_id :: nat
  px_model_name :: string
  px_pricing :: Pricing
  px_created_at :: datetime

text \<open>
  What the provider returns for a request (the fields radar/client.py reads of a Responses
  API object).  \<open>resp_output\<close> is the structured text it returned: none, text that does not
  validate, or a value of one stage's wire format.
\<close>

datatype wire_output = WireMissing | WireInvalid | WireDiscovery DiscoveryResponse | WireStage StageData

record ProviderResponse =
  resp_id :: string
  resp_status :: string
  resp_model :: "string option"
  resp_usage :: "RequestUsage option"
  resp_reasoning_tokens :: nat
  resp_web_search_calls :: nat
  resp_service_tier :: "string option"
  resp_error_message :: "string option"
  resp_incomplete_reason :: "string option"
  resp_output :: wire_output

subsection \<open>Delivery (models/digest_email_delivery.py)\<close>

datatype delivery_status = DeliveryPending | Sending | Sent | DeliveryFailed | Held | Cancelled

record DigestEmailDelivery =
  dl_run_id :: uuid
  dl_status :: delivery_status
  dl_attempts :: nat
  dl_next_attempt_at :: datetime
  dl_claim_token :: "string option"
  dl_claimed_until :: "datetime option"
  dl_sent_at :: "datetime option"
  dl_last_error :: "string option"

subsection \<open>Plans and billing (models/subscription_plan.py, models/stripe_sandbox.py,
  models/billing_invoice.py, models/subscription_change.py, models/subscription_upgrade.py)\<close>

datatype plan_state = Draft | Reviewed | Archived

datatype billing_type = BillingStripe | BillingFree

datatype tax_display = Undecided | Inclusive | Exclusive

record StripeMapping =
  map_product_id :: string
  map_monthly_price_id :: string
  map_annual_price_id :: "string option"

text \<open>Prices are kept in cents.\<close>

record PlanConfiguration =
  pc_name :: string
  pc_state :: plan_state
  pc_currency :: string
  pc_monthly_price :: nat
  pc_annual_price :: "nat option"
  pc_tax_display :: tax_display
  pc_max_digests :: nat
  pc_max_papers_per_run :: nat
  pc_papers_per_month :: nat
  pc_runs_per_month :: nat
  pc_manual_runs_per_month :: nat
  pc_schedule_frequencies :: "DigestFrequency list"
  pc_email_delivery :: bool
  pc_trial_days :: nat
  pc_stripe_sandbox :: "StripeMapping option"
  pc_billing_type :: "billing_type option"
  pc_subscriber_visible :: bool
  pc_display_order :: nat

record PlanRevision =
  pl_id :: nat
  pl_code :: string
  pl_revision :: nat
  pl_configuration :: PlanConfiguration

text \<open>The parameters of a request to Stripe; the mode of a checkout is read off them.\<close>

type_synonym parameters = "(string \<times> string) list"

text \<open>The intent to replace an unfinished checkout, and what the last notifications said.\<close>

record ReplacementIntent =
  ri_id :: string
  ri_state :: string
  ri_code :: string
  ri_revision :: nat
  ri_interval :: string
  ri_plan_id :: nat
  ri_successor_id :: "string option"

record NotificationState =
  ns_cancel :: bool
  ns_sequence :: nat

record Checkout =
  co_id :: uuid
  co_user_id :: uuid
  co_plan_revision_id :: nat
  co_interval :: string
  co_price_id :: string
  co_parameters :: parameters
  co_checkout_id :: "string option"
  co_checkout_status :: string
  co_subscription_id :: "string option"
  co_subscription_status :: "string option"
  co_customer_id :: "string option"
  co_notification_state :: "NotificationState option"
  co_replacement_intent :: "ReplacementIntent option"
  co_cancel_at_period_end :: bool
  co_price_matches :: bool
  co_latest_invoice_id :: "string option"
  co_invoices_checked_at :: "datetime option"
  co_invoice_history_cursor :: "string option"
  co_invoice_history_complete :: bool
  co_period_start :: "datetime option"
  co_billing_anchor :: "datetime option"
  co_delinquent_since :: "datetime option"
  co_active_through :: "datetime option"
  co_period_end :: "datetime option"
  co_observed_at :: "datetime option"
  co_created_at :: datetime

definition co_livemode :: "Checkout \<Rightarrow> bool" where
  "co_livemode c \<longleftrightarrow> map_of (co_parameters c) ''metadata[radar_mode]'' = Some ''live''"

record SandboxBillingAccount =
  ba_user_id :: uuid
  ba_lock_version :: nat

record SandboxStripeEvent =
  se_id :: string
  se_checkout_id :: uuid
  se_event_type :: string

record BillingInvoice =
  iv_id :: string
  iv_checkout_id :: uuid
  iv_status :: string
  iv_currency :: string
  iv_amount_due :: nat
  iv_amount_paid :: nat
  iv_amount_remaining :: nat
  iv_attempt_count :: nat
  iv_billing_reason :: string
  iv_period_start :: "datetime option"
  iv_period_end :: "datetime option"
  iv_paid_at :: "datetime option"
  iv_next_payment_attempt :: "datetime option"
  iv_issue :: "string option"
  iv_created_at :: datetime
  iv_observed_at :: datetime

text \<open>The saved quote of an upgrade: the credit for the unused time and the charge.\<close>

record ProrationLineRecord =
  ln_price :: string
  ln_amount :: int
  ln_start :: int
  ln_end :: int

record UpgradeQuoteRecord =
  uq_currency :: string
  uq_amount_due :: int
  uq_total :: int
  uq_lines :: "ProrationLineRecord list"

record SubscriptionUpgrade =
  up_id :: uuid
  up_user_id :: uuid
  up_checkout_id :: uuid
  up_source_revision_id :: nat
  up_target_revision_id :: nat
  up_source_price_id :: string
  up_target_price_id :: string
  up_item_id :: string
  up_interval :: string
  up_source_invoice_id :: string
  up_invoice_id :: "string option"
  up_period_start :: datetime
  up_period_end :: datetime
  up_proration_at :: datetime
  up_expires_at :: datetime
  up_created_at :: datetime
  up_submitted_at :: "datetime option"
  up_applied_at :: "datetime option"
  up_pending_until :: "datetime option"
  up_state :: string
  up_quote :: UpgradeQuoteRecord
  up_parameters :: parameters
  up_attempts :: nat
  up_next_attempt_at :: "datetime option"
  up_last_error :: "string option"

abbreviation up_quote_amount_due :: "SubscriptionUpgrade \<Rightarrow> int" where
  "up_quote_amount_due u \<equiv> uq_amount_due (up_quote u)"

record SubscriptionChange =
  ch_id :: uuid
  ch_user_id :: uuid
  ch_checkout_id :: uuid
  ch_source_revision_id :: nat
  ch_target_revision_id :: nat
  ch_source_price_id :: string
  ch_target_price_id :: string
  ch_source_interval :: string
  ch_target_interval :: string
  ch_effective_at :: datetime
  ch_state :: string
  ch_schedule_id :: "string option"
  ch_parameters :: parameters
  ch_digest_ids :: "uuid list"
  ch_applied_at :: "datetime option"
  ch_last_error :: "string option"
  ch_attempts :: nat
  ch_next_attempt_at :: "datetime option"
  ch_created_at :: datetime

record BillingNotification =
  bn_id :: string
  bn_user_id :: uuid
  bn_subject :: string
  bn_text :: string
  bn_state :: string
  bn_attempts :: nat
  bn_next_attempt_at :: datetime
  bn_sent_at :: "datetime option"
  bn_created_at :: datetime

text \<open>The jobs of the synchronisation with Stripe (models/billing_sync.py).\<close>

record BillingSyncJob =
  sj_id :: string
  sj_checkout_id :: uuid
  sj_user_id :: uuid
  sj_kind :: string
  sj_event_type :: "string option"
  sj_payload :: json
  sj_state :: string
  sj_attempts :: nat
  sj_failures :: nat
  sj_manual_retries :: nat
  sj_retried_by :: "uuid option"
  sj_retried_at :: "datetime option"
  sj_next_attempt_at :: "datetime option"
  sj_lease_token :: "string option"
  sj_lease_expires_at :: "datetime option"
  sj_last_error :: "string option"
  sj_last_attempt_at :: "datetime option"
  sj_last_success_at :: "datetime option"
  sj_created_at :: datetime

subsection \<open>Subscription access and observation
  (models/subscription_access.py, models/subscription_observation.py)\<close>

datatype access_mode = Complimentary | Sandbox

datatype usage_state = Reserved | Settled | Released

record AccessPolicy =
  pol_user_id :: uuid
  pol_version :: nat
  pol_mode :: access_mode
  pol_created_by :: "uuid option"
  pol_change_note :: string

record RequestContext =
  cx_frequency :: "DigestFrequency option"
  cx_send_email :: bool

record RunUsage =
  us_run_key :: uuid
  us_user_id :: uuid
  us_checkout_id :: "uuid option"
  us_plan_revision_id :: nat
  us_period_start :: datetime
  us_period_end :: datetime
  us_trigger :: DigestRunTrigger
  us_state :: usage_state
  us_requested_papers :: nat
  us_actual_papers :: nat
  us_request_context :: RequestContext

record FreeSubscription =
  fs_user_id :: uuid
  fs_plan_revision_id :: nat
  fs_anchor :: datetime

record AccountState =
  as_user_id :: uuid
  as_allowance_anchor :: datetime
  as_paid_digest_ids :: "uuid list"
  as_preferred_digest_ids :: "uuid list"
  as_effective_type :: "billing_type option"
  as_fallback_since :: "datetime option"

record ObservationAccount =
  oa_user_id :: uuid
  oa_version :: nat
  oa_lock_version :: nat
  oa_tracking_since :: datetime

record ObservationAssignment =
  om_id :: nat
  om_user_id :: uuid
  om_version :: nat
  om_plan_revision_id :: "nat option"
  om_created_by :: "uuid option"
  om_change_note :: string

record Assessment =
  at_at :: datetime
  at_reasons :: "string list"
  at_would_block :: bool
  at_request_context :: RequestContext

record ObservedRunUsage =
  ob_run_key :: uuid
  ob_digest_id :: uuid
  ob_user_id :: uuid
  ob_assignment_id :: "nat option"
  ob_topic :: string
  ob_period_start :: date
  ob_trigger :: DigestRunTrigger
  ob_state :: usage_state
  ob_requested_papers :: nat
  ob_actual_papers :: nat
  ob_attempts :: nat
  ob_assessments :: "Assessment list"
  ob_updated_at :: datetime

subsection \<open>Rate limits, quality settings and saved content (models/rate_limit.py,
  models/research_quality.py, models/source_content.py, models/source_verification.py)\<close>

record RateLimitBucket =
  bk_key :: string
  bk_count :: nat
  bk_expires_at :: datetime

record QualitySettings =
  st_version :: int
  st_config :: QualityConfig

record QualityEvaluation =
  ev_id :: uuid
  ev_run_id :: uuid
  ev_created_by :: "uuid option"
  ev_created_by_name :: string
  ev_config :: QualitySnapshot
  ev_status :: QualityStatus
  ev_findings :: "QualityFinding list"
  ev_created_at :: datetime

record RunSourceContent =
  sc_id :: uuid
  sc_run_id :: uuid
  sc_external_id :: string
  sc_document :: SourceDocument

subsection \<open>Sign-in, verification, recovery and closure (models/auth_session.py,
  models/email_verification.py, models/password_reset.py, models/account_closure.py,
  models/contact_message.py, models/public_content.py)\<close>

record AuthSession =
  ses_id :: uuid
  ses_user_id :: uuid
  ses_token_hash :: string
  ses_previous_token_hash :: "string option"
  ses_rotated_at :: "datetime option"
  ses_expires_at :: datetime
  ses_revoked_at :: "datetime option"
  ses_created_at :: datetime

record EmailVerification =
  emv_id :: uuid
  emv_email :: string
  emv_user_id :: "uuid option"
  emv_full_name :: "string option"
  emv_password_hash :: "string option"
  emv_code_hash :: string
  emv_sent_at :: datetime
  emv_code_expires_at :: datetime
  emv_expires_at :: datetime
  emv_attempts :: nat
  emv_legal_agreement_at :: "datetime option"
  emv_terms_version :: "string option"
  emv_privacy_version :: "string option"

record PasswordReset =
  prs_user_id :: uuid
  prs_token_hash :: string
  prs_email :: string
  prs_credential_fingerprint :: string
  prs_expires_at :: datetime
  prs_consumed_at :: "datetime option"

datatype closure_state = ClosurePending | ClosureWaiting | ClosureNeedsReview | ClosureCompleted

datatype notice_state = NoticePending | NoticeSent | NoticeRetry | NoticeFailed | NoticeExpired

record ClosureIssue =
  iss_kind :: string
  iss_reference :: string
  iss_attempt_id :: "string option"

record AccountClosure =
  clo_user_id :: uuid
  clo_requested_by :: "uuid option"
  clo_requested_at :: datetime
  clo_state :: closure_state
  clo_attempts :: nat
  clo_next_attempt_at :: "datetime option"
  clo_last_error :: "string option"
  clo_billing_resolved_at :: "datetime option"
  clo_data_removed_at :: "datetime option"
  clo_completed_at :: "datetime option"
  clo_billing_issues :: "ClosureIssue list"
  clo_unrelated_contact_ids :: "string list"
  clo_notification_email :: "string option"
  clo_notification_deadline :: datetime
  clo_notice_state :: notice_state
  clo_notice_attempts :: nat
  clo_notice_next_at :: "datetime option"
  clo_acknowledgement_sent_at :: "datetime option"
  clo_completion_sent_at :: "datetime option"

record ContactMessage =
  cme_id :: uuid
  cme_user_id :: "uuid option"
  cme_name :: string
  cme_email :: string
  cme_message :: string
  cme_created_at :: datetime
  cme_reviewed_at :: "datetime option"
  cme_retention_hold :: bool

record PublicContentRevision =
  pub_slug :: string
  pub_revision :: nat
  pub_title :: string
  pub_body_markdown :: string
  pub_change_note :: string
  pub_created_by :: "uuid option"
  pub_created_by_name :: string
  pub_created_at :: datetime

record AccountTables =
  auth_sessions :: "AuthSession list"
  email_verifications :: "EmailVerification list"
  password_resets :: "PasswordReset list"
  account_closures :: "AccountClosure list"
  contact_messages :: "ContactMessage list"
  public_contents :: "PublicContentRevision list"

subsection \<open>Claim reviews and benchmarks (models/claim_review.py, models/benchmark_review.py)\<close>

record ReviewSource =
  rso_title :: string
  rso_authors :: "string list"
  rso_basis :: string
  rso_source_url :: "string option"
  rso_license_url :: "string option"
  rso_permission_url :: "string option"
  rso_source_version :: "string option"
  rso_content_sha256 :: "string option"
  rso_rights_notice :: "string option"
  rso_permission_note :: "string option"
  rso_passages :: "(string \<times> string) list"

record ReviewCase =
  rca_case_id :: string
  rca_case_sha256 :: "string option"
  rca_paper_id :: "string option"
  rca_scope :: claim_scope
  rca_claim :: string
  rca_cited_passage_ids :: "string list"
  rca_sources :: "ReviewSource list"

text \<open>What a review is asked to compare: a run of a digest, or a published benchmark.\<close>

datatype review_target = TargetRun uuid uuid | TargetBenchmark uuid nat

record ReviewStart =
  rst_request_id :: uuid
  rst_expected_settings_version :: int
  rst_target :: review_target
  rst_split :: Split

record ReviewContext =
  cxt_request :: ReviewStart
  cxt_benchmark_sha256 :: "string option"
  cxt_publication_sha256 :: "string option"

record ClaimReviewBudget =
  bud_serial :: nat
  bud_day :: date
  bud_reserved_usd :: rat
  bud_reserved_calls :: nat

datatype review_job_status = ReviewQueued | ReviewRunning | ReviewCompleted | ReviewFailed

record ClaimReview =
  clr_id :: uuid
  clr_run_id :: "uuid option"
  clr_publication_id :: "uuid option"
  clr_active_key :: "string option"
  clr_status :: review_job_status
  clr_created_by :: "uuid option"
  clr_created_by_name :: string
  clr_created_at :: datetime
  clr_finished_at :: "datetime option"
  clr_lease_until :: "datetime option"
  clr_lease_token :: "string option"
  clr_settings_version :: int
  clr_config :: ClaimReviewConfig
  clr_pricing :: Pricing
  clr_prompt_version :: string
  clr_input_sha256 :: string
  clr_inputs :: "ReviewCase list"
  clr_total_claims :: nat
  clr_reserved_usd :: rat
  clr_context :: ReviewContext
  clr_report :: "Report option"
  clr_error :: "string option"

record ReviewerVerdict =
  vdt_verdict :: Prediction
  vdt_evidence_passage_ids :: "string list"
  vdt_rationale :: string

record ClaimReviewRequest =
  crq_id :: uuid
  crq_review_id :: uuid
  crq_case_id :: string
  crq_response_id :: "string option"
  crq_model_name :: string
  crq_status :: string
  crq_outcome :: string
  crq_usage :: "RequestUsage option"
  crq_web_search_calls :: "nat option"
  crq_service_tier :: "string option"
  crq_pricing :: Pricing
  crq_created_at :: datetime
  crq_observed_at :: "datetime option"
  crq_result :: "ReviewerVerdict option"
  crq_latency_seconds :: "rat option"

record ResearchBenchmark =
  rbm_id :: uuid
  rbm_fingerprint :: string
  rbm_dataset :: Benchmark
  rbm_criteria :: Criteria
  rbm_revision :: nat
  rbm_created_by :: "uuid option"
  rbm_created_by_name :: string
  rbm_created_at :: datetime

datatype case_state = CaseDraft | CaseApproved | CaseExcluded | CaseDisputed

record CaseReviewContent =
  crc_verdict :: "Verdict option"
  crc_evidence_passage_ids :: "string list"
  crc_rationale :: string
  crc_human_reviewed :: bool
  crc_permissions_checked :: bool
  crc_imported :: bool

record BenchmarkCaseReview =
  bcr_id :: uuid
  bcr_benchmark_id :: uuid
  bcr_case_id :: string
  bcr_version :: nat
  bcr_state :: case_state
  bcr_content :: CaseReviewContent
  bcr_created_by :: "uuid option"
  bcr_created_by_name :: string
  bcr_created_at :: datetime

record BenchmarkCriteriaHistory =
  bch_id :: uuid
  bch_benchmark_id :: uuid
  bch_revision :: nat
  bch_criteria :: Criteria
  bch_created_by :: "uuid option"
  bch_created_by_name :: string
  bch_created_at :: datetime

record BenchmarkPublication =
  bpu_id :: uuid
  bpu_benchmark_id :: uuid
  bpu_number :: nat
  bpu_source_revision :: nat
  bpu_reviews :: Reviews
  bpu_criteria :: Criteria
  bpu_fingerprint :: string
  bpu_reason :: string
  bpu_created_by :: "uuid option"
  bpu_created_by_name :: string
  bpu_created_at :: datetime

record ReviewTables =
  review_budget :: "ClaimReviewBudget option"
  claim_reviews :: "ClaimReview list"
  claim_requests :: "ClaimReviewRequest list"
  benchmarks :: "ResearchBenchmark list"
  case_reviews :: "BenchmarkCaseReview list"
  criteria_history :: "BenchmarkCriteriaHistory list"
  publications :: "BenchmarkPublication list"

subsection \<open>Properties of a run (models/digest_run.py)\<close>

definition is_active_status :: "DigestRunStatus \<Rightarrow> bool" where
  "is_active_status st \<longleftrightarrow> st \<in> {QUEUED, RUNNING}"

definition has_feedback :: "DigestRun \<Rightarrow> bool" where
  "has_feedback r \<longleftrightarrow> rn_feedback_text r \<noteq> None"

definition current_stage :: "DigestRun \<Rightarrow> DigestRunStage list \<Rightarrow> DigestRunStageType option" where
  "current_stage r stages =
     (if \<not> is_active_status (rn_status r) then None
      else (case find (\<lambda>s. sg_status s = STAGE_RUNNING) stages of
              Some s \<Rightarrow> Some (sg_stage s)
            | None \<Rightarrow> (case find (\<lambda>s. sg_status s = PENDING) stages of
                Some s \<Rightarrow> Some (sg_stage s)
              | None \<Rightarrow> None)))"

definition paper_count :: "DigestRunPaper list \<Rightarrow> nat" where
  "paper_count results = length results"

end
