(* ===== verification/Store.thy ===== *)
theory Store
  imports Models
begin

section \<open>The database and a session on it\<close>

text \<open>
  \<open>db\<close> has one list of rows per table.  A session sees its own pending changes
  (\<open>working\<close>); \<open>flush\<close> sends them to the database, which refuses rows that break one of
  its constraints; \<open>commit\<close> flushes and makes the changes durable; \<open>rollback\<close> drops
  everything since the last commit.  \<open>committed\<close> is what every other session sees.

  The environment of a session is part of its state: \<open>clock k\<close> is the k-th value
  \<open>datetime.now\<close> returns, \<open>uuids k\<close> the k-th value \<open>uuid4\<close> returns, \<open>monotonic k\<close> the k-th
  reading of \<open>time.monotonic\<close> in microseconds and \<open>answers k\<close> what the k-th call of the
  research provider returns or raises; \<open>wire\<close> is what Stripe answers to a request; nothing is assumed of them unless a theorem says so.
\<close>

record db =
  users :: "User list"
  digests :: "Digest list"
  digest_runs :: "DigestRun list"
  run_stages :: "DigestRunStage list"
  papers :: "Paper list"
  run_papers :: "DigestRunPaper list"
  trend_analyses :: "DigestRunTrendAnalysis list"
  briefings :: "DigestRunBriefing list"
  radar_requests :: "RadarRequest list"
  radar_prices :: "RadarPrice list"
  deliveries :: "DigestEmailDelivery list"
  plans :: "PlanRevision list"
  checkouts :: "Checkout list"
  billing_accounts :: "SandboxBillingAccount list"
  stripe_events :: "SandboxStripeEvent list"
  stripe_mode :: "string option"
  sync_jobs :: "BillingSyncJob list"
  sync_seen_at :: "datetime option"
  invoices :: "BillingInvoice list"
  upgrades :: "SubscriptionUpgrade list"
  changes :: "SubscriptionChange list"
  notices :: "BillingNotification list"
  policies :: "AccessPolicy list"
  usages :: "RunUsage list"
  free_subs :: "FreeSubscription list"
  account_states :: "AccountState list"
  observation_accounts :: "ObservationAccount list"
  assignments :: "ObservationAssignment list"
  observed_runs :: "ObservedRunUsage list"
  buckets :: "RateLimitBucket list"
  quality_settings :: "QualitySettings list"
  quality_evaluations :: "QualityEvaluation list"
  source_contents :: "RunSourceContent list"
  account_tables :: AccountTables
  review_tables :: ReviewTables

text \<open>A request to Stripe with its idempotency key, and the status and body of an answer; a
  body that is no JSON is \<open>None\<close>, and no answer is \<open>NoReply\<close>.\<close>

record stripe_call =
  cl_method :: string
  cl_path :: string
  cl_data :: parameters
  cl_key :: "string option"

datatype stripe_answer = Reply int "json option" | NoReply

record session =
  committed :: db
  working :: db
  clock :: "nat \<Rightarrow> datetime"
  ticks :: nat
  uuids :: "nat \<Rightarrow> uuid"
  drawn :: nat
  monotonic :: "nat \<Rightarrow> int"
  mono_ticks :: nat
  answers :: "nat \<Rightarrow> exn + ProviderResponse"
  asked :: nat
  wire :: "stripe_call list \<Rightarrow> stripe_call \<Rightarrow> stripe_answer"
  sent :: "(stripe_call \<times> db) list"

type_synonym 'a sess = "(session, 'a) prog"

definition now :: "datetime sess" where
  "now s = (Inr (clock s (ticks s)), s\<lparr>ticks := Suc (ticks s)\<rparr>)"

definition uuid4 :: "uuid sess" where
  "uuid4 s = (Inr (uuids s (drawn s)), s\<lparr>drawn := Suc (drawn s)\<rparr>)"

definition mono_now :: "int sess" where
  "mono_now s = (Inr (monotonic s (mono_ticks s)), s\<lparr>mono_ticks := Suc (mono_ticks s)\<rparr>)"

definition ask_provider :: "ProviderResponse sess" where
  "ask_provider s = (answers s (asked s), s\<lparr>asked := Suc (asked s)\<rparr>)"

text \<open>The answer of Stripe may depend on all earlier requests, the newest first; with each
  request goes what was committed when it was sent.\<close>

definition ask_stripe :: "stripe_call \<Rightarrow> stripe_answer sess" where
  "ask_stripe c s = (Inr (wire s (map fst (sent s)) c), s\<lparr>sent := (c, committed s) # sent s\<rparr>)"

definition query :: "(db \<Rightarrow> 'a) \<Rightarrow> 'a sess" where
  "query f = gets (\<lambda>s. f (working s))"

definition change :: "(db \<Rightarrow> db) \<Rightarrow> unit sess" where
  "change f = modify (\<lambda>s. s\<lparr>working := f (working s)\<rparr>)"

definition rollback :: "unit sess" where
  "rollback = modify (\<lambda>s. s\<lparr>working := committed s\<rparr>)"

subsection \<open>Constraints the database checks\<close>

definition active_owners :: "DigestRun list \<Rightarrow> uuid list" where
  "active_owners rs = map rn_owner_id (filter (\<lambda>r. is_active_status (rn_status r)) rs)"

text \<open>The accounts: the keys, the unique address, \<open>ck_users_closure_inactive\<close> and
  \<open>ck_users_super_admin_active_admin\<close>.\<close>

definition user_ok :: "User \<Rightarrow> bool" where
  "user_ok u \<longleftrightarrow> (usr_closure_requested_at u = None \<or> \<not> usr_is_active u)
     \<and> (\<not> usr_is_super_admin u \<or> usr_role u = RoleAdmin \<and> usr_is_active u)"

definition users_ok :: "User list \<Rightarrow> bool" where
  "users_ok us \<longleftrightarrow> distinct (map usr_id us) \<and> distinct (map usr_email us) \<and> list_all user_ok us"

lemma users_ok_simps [simp]:
  "users_ok []"
  "users_ok (u # us) \<longleftrightarrow> usr_id u \<notin> usr_id ` set us \<and> usr_email u \<notin> usr_email ` set us \<and> user_ok u \<and> users_ok us"
  by (auto simp: users_ok_def)

declare user_ok_def [simp]

text \<open>The primary keys and unique columns of the tables around the accounts.\<close>

definition account_tables_ok :: "AccountTables \<Rightarrow> bool" where
  "account_tables_ok a \<longleftrightarrow> distinct (map ses_id (auth_sessions a))
     \<and> distinct (map emv_id (email_verifications a)) \<and> distinct (map emv_email (email_verifications a))
     \<and> distinct (List.map_filter emv_user_id (email_verifications a))
     \<and> distinct (map prs_user_id (password_resets a)) \<and> distinct (map prs_token_hash (password_resets a))
     \<and> distinct (map clo_user_id (account_closures a))
     \<and> distinct (map (\<lambda>p. (pub_slug p, pub_revision p)) (public_contents a))"

definition review_tables_ok :: "ReviewTables \<Rightarrow> bool" where
  "review_tables_ok t \<longleftrightarrow> distinct (map clr_id (claim_reviews t))
     \<and> distinct (List.map_filter clr_active_key (claim_reviews t))
     \<and> distinct (map (\<lambda>r. (crq_review_id r, crq_case_id r)) (claim_requests t))
     \<and> distinct (map rbm_fingerprint (benchmarks t))
     \<and> distinct (map (\<lambda>r. (bcr_benchmark_id r, bcr_case_id r, bcr_version r)) (case_reviews t))
     \<and> distinct (map (\<lambda>h. (bch_benchmark_id h, bch_revision h)) (criteria_history t))
     \<and> distinct (map (\<lambda>p. (bpu_benchmark_id p, bpu_number p)) (publications t))"

text \<open>\<open>uq_digest_runs_owner_active\<close>, \<open>uq_digest_run_stages_run_stage\<close>,
  \<open>ck_digest_run_stages_progress\<close>, \<open>uq_papers_source_external_id\<close>,
  \<open>uq_digest_run_papers_run_paper\<close>, the unique \<open>run_id\<close> of analyses and briefings and the
  unique \<open>response_id\<close> of requests and \<open>uq_run_source_content_paper\<close>.\<close>

definition constraints_ok :: "db \<Rightarrow> bool" where
  "constraints_ok d \<longleftrightarrow>
     distinct (map rn_id (digest_runs d))
     \<and> distinct (active_owners (digest_runs d))
     \<and> distinct (map (\<lambda>s. (sg_run_id s, sg_stage s)) (run_stages d))
     \<and> list_all (\<lambda>s. sg_progress_current s \<le> sg_progress_total s) (run_stages d)
     \<and> distinct (map (\<lambda>p. (pp_source_name p, pp_external_id p)) (papers d))
     \<and> distinct (map (\<lambda>p. (dp_run_id p, dp_paper_id p)) (run_papers d))
     \<and> distinct (map rt_run_id (trend_analyses d))
     \<and> distinct (map rb_run_id (briefings d))
     \<and> distinct (List.map_filter rq_response_id (radar_requests d))
     \<and> distinct (map (\<lambda>c. (sc_run_id c, sc_external_id c)) (source_contents d))
     \<and> users_ok (users d) \<and> account_tables_ok (account_tables d) \<and> review_tables_ok (review_tables d)"

definition flush :: "unit sess" where
  "flush s = (if constraints_ok (working s) then ret () s
              else raise IntegrityError ''constraint'' s)"

definition commit :: "unit sess" where
  "commit = seq flush (modify (\<lambda>s. s\<lparr>committed := working s\<rparr>))"

lemmas store_defs [run_simps] =
  now_def uuid4_def mono_now_def ask_provider_def ask_stripe_def query_def change_def rollback_def flush_def commit_def

lemma commit_ok:
  "constraints_ok (working s) \<Longrightarrow> commit s = (Inr (), s\<lparr>committed := working s\<rparr>)"
  by (simp add: run_simps)

lemma commit_fails:
  "\<not> constraints_ok (working s) \<Longrightarrow> commit s = (Inl (Exn IntegrityError ''constraint''), s)"
  by (simp add: run_simps)

text \<open>Running a program one primitive at a time.\<close>

lemma step_now: "bind now f s = f (clock s (ticks s)) (s\<lparr>ticks := Suc (ticks s)\<rparr>)"
  by (simp add: run_simps)

lemma step_uuid4: "bind uuid4 f s = f (uuids s (drawn s)) (s\<lparr>drawn := Suc (drawn s)\<rparr>)"
  by (simp add: run_simps)

lemma step_query: "bind (query g) f s = f (g (working s)) s"
  by (simp add: run_simps)

lemma step_change: "seq (change g) m s = m (s\<lparr>working := g (working s)\<rparr>)"
  by (simp add: run_simps)

lemma step_ret: "bind (ret v) f s = f v s" "seq (ret v) m s = m s"
  by (simp_all add: run_simps)

lemma step_raise: "bind (raise c e) f s = raise c e s" "seq (raise c e) m s = raise c e s"
  by (simp_all add: run_simps)

lemma step_rollback: "seq rollback m s = m (s\<lparr>working := committed s\<rparr>)"
  by (simp add: run_simps)

lemma step_Inr: "m s = (Inr v, s') \<Longrightarrow> bind m f s = f v s'" "m s = (Inr v, s') \<Longrightarrow> seq m n s = n s'"
  by (simp_all add: run_simps)

lemma step_Inl: "m s = (Inl e, s') \<Longrightarrow> bind m f s = (Inl e, s')" "m s = (Inl e, s') \<Longrightarrow> seq m n s = (Inl e, s')"
  by (simp_all add: run_simps)

lemmas run_steps = step_now step_uuid4 step_query step_change step_ret step_raise step_rollback

subsection \<open>Rows\<close>

text \<open>\<open>db.get(Model, key)\<close> and the attribute updates of a loaded row.\<close>

definition get_row :: "('a \<Rightarrow> 'k) \<Rightarrow> 'k \<Rightarrow> 'a list \<Rightarrow> 'a option" where
  "get_row key k rows = find (\<lambda>r. key r = k) rows"

lemma get_row_Some: "get_row key k rows = Some r \<Longrightarrow> r \<in> set rows \<and> key r = k"
  unfolding get_row_def by (rule find_Some_mem)

lemma get_row_None: "get_row key k rows = None \<longleftrightarrow> k \<notin> key ` set rows"
  by (auto simp: get_row_def find_None_iff)

lemma get_row_distinct:
  assumes "distinct (map key rows)" and "r \<in> set rows"
  shows "get_row key (key r) rows = Some r"
proof (cases "get_row key (key r) rows")
  case None
  with assms(2) show ?thesis by (auto simp: get_row_None)
next
  case (Some y)
  then have "y \<in> set rows" "key y = key r" by (auto dest: get_row_Some)
  with assms have "y = r" by (metis distinct_map inj_onD)
  with Some show ?thesis by simp
qed

lemma get_row_update_where:
  assumes "\<And>r. key (f r) = key r"
  shows "get_row key k (update_where p f rows)
       = map_option (\<lambda>r. if p r then f r else r) (get_row key k rows)"
  using assms by (induction rows) (auto simp: get_row_def update_where_def)

definition set_run :: "uuid \<Rightarrow> (DigestRun \<Rightarrow> DigestRun) \<Rightarrow> unit sess" where
  "set_run i f = change (\<lambda>d. d\<lparr>digest_runs := update_where (\<lambda>r. rn_id r = i) f (digest_runs d)\<rparr>)"

definition set_stage :: "uuid \<Rightarrow> (DigestRunStage \<Rightarrow> DigestRunStage) \<Rightarrow> unit sess" where
  "set_stage i f = change (\<lambda>d. d\<lparr>run_stages := update_where (\<lambda>r. sg_id r = i) f (run_stages d)\<rparr>)"

definition set_digest :: "uuid \<Rightarrow> (Digest \<Rightarrow> Digest) \<Rightarrow> unit sess" where
  "set_digest i f = change (\<lambda>d. d\<lparr>digests := update_where (\<lambda>r. dg_id r = i) f (digests d)\<rparr>)"

definition set_request :: "uuid \<Rightarrow> (RadarRequest \<Rightarrow> RadarRequest) \<Rightarrow> unit sess" where
  "set_request i f =
     change (\<lambda>d. d\<lparr>radar_requests := update_where (\<lambda>r. rq_id r = i) f (radar_requests d)\<rparr>)"

lemmas row_defs [run_simps] = set_run_def set_stage_def set_digest_def set_request_def

text \<open>\<open>run.stages\<close>, \<open>run.paper_results\<close>, \<open>run.trend_analysis\<close> and \<open>run.briefing\<close>.\<close>

definition stages_of :: "uuid \<Rightarrow> db \<Rightarrow> DigestRunStage list" where
  "stages_of i d = sort_key sg_position (filter (\<lambda>s. sg_run_id s = i) (run_stages d))"

definition paper_results_of :: "uuid \<Rightarrow> db \<Rightarrow> DigestRunPaper list" where
  "paper_results_of i d = sort_key dp_rank (filter (\<lambda>p. dp_run_id p = i) (run_papers d))"

definition trend_analysis_of :: "uuid \<Rightarrow> db \<Rightarrow> DigestRunTrendAnalysis option" where
  "trend_analysis_of i d = get_row rt_run_id i (trend_analyses d)"

definition briefing_of :: "uuid \<Rightarrow> db \<Rightarrow> DigestRunBriefing option" where
  "briefing_of i d = get_row rb_run_id i (briefings d)"

lemma set_stages_of: "s \<in> set (stages_of i d) \<longleftrightarrow> s \<in> set (run_stages d) \<and> sg_run_id s = i"
  by (auto simp: stages_of_def)

subsection \<open>Invariants of the working copy\<close>

text \<open>
  \<open>db_keeps P m\<close>: the program keeps a property of the working copy and, because only
  \<open>commit\<close> publishes, of the committed one.
\<close>

definition both :: "(db \<Rightarrow> bool) \<Rightarrow> session \<Rightarrow> bool" where
  "both P s \<longleftrightarrow> P (working s) \<and> P (committed s)"

lemma both_now [keeps_intros]: "keeps (both P) now"
  by (simp add: keeps_def both_def run_simps)

lemma both_uuid4 [keeps_intros]: "keeps (both P) uuid4"
  by (simp add: keeps_def both_def run_simps)

lemma both_environment [keeps_intros]: "keeps (both P) mono_now" "keeps (both P) ask_provider"
  "keeps (both P) (ask_stripe c)"
  by (simp_all add: keeps_def both_def run_simps)

lemma both_query [keeps_intros]: "keeps (both P) (query f)"
  by (simp add: query_def keeps_intros)

lemma both_rollback [keeps_intros]: "keeps (both P) rollback"
  by (simp add: keeps_def both_def run_simps)

lemma both_flush [keeps_intros]: "keeps (both P) flush"
  by (simp add: keeps_def both_def run_simps)

lemma both_commit [keeps_intros]: "keeps (both P) commit"
  by (simp add: keeps_def both_def run_simps)

lemma both_change: "(\<And>d. P d \<Longrightarrow> P (f d)) \<Longrightarrow> keeps (both P) (change f)"
  by (simp add: keeps_def both_def run_simps)

text \<open>What is committed always satisfied the constraints.\<close>

definition committed_ok :: "session \<Rightarrow> bool" where
  "committed_ok s \<longleftrightarrow> constraints_ok (committed s)"

lemma committed_ok_commit: "keeps committed_ok commit"
  by (simp add: keeps_def committed_ok_def run_simps)

lemma committed_ok_basic [keeps_intros]:
  "keeps committed_ok now" "keeps committed_ok uuid4" "keeps committed_ok (query f)"
  "keeps committed_ok (change g)" "keeps committed_ok rollback" "keeps committed_ok flush"
  "keeps committed_ok commit" "keeps committed_ok mono_now" "keeps committed_ok ask_provider"
  "keeps committed_ok (ask_stripe c)"
  by (simp_all add: keeps_def committed_ok_def run_simps)

text \<open>Opening a session on a database.\<close>

record environment =
  env_clock :: "nat \<Rightarrow> datetime"
  env_uuids :: "nat \<Rightarrow> uuid"
  env_monotonic :: "nat \<Rightarrow> int"
  env_answers :: "nat \<Rightarrow> exn + ProviderResponse"
  env_wire :: "stripe_call list \<Rightarrow> stripe_call \<Rightarrow> stripe_answer"

definition open_session :: "environment \<Rightarrow> db \<Rightarrow> session" where
  "open_session e d = \<lparr>committed = d, working = d, clock = env_clock e, ticks = 0,
     uuids = env_uuids e, drawn = 0, monotonic = env_monotonic e, mono_ticks = 0,
     answers = env_answers e, asked = 0, wire = env_wire e, sent = []\<rparr>"

lemma open_session_simps [simp]:
  "committed (open_session e d) = d" "working (open_session e d) = d"
  "clock (open_session e d) = env_clock e" "ticks (open_session e d) = 0"
  "uuids (open_session e d) = env_uuids e" "drawn (open_session e d) = 0"
  "monotonic (open_session e d) = env_monotonic e" "mono_ticks (open_session e d) = 0"
  "answers (open_session e d) = env_answers e" "asked (open_session e d) = 0"
  "wire (open_session e d) = env_wire e" "sent (open_session e d) = []"
  by (simp_all add: open_session_def)

definition no_accounts :: AccountTables where
  "no_accounts = \<lparr>auth_sessions = [], email_verifications = [], password_resets = [], account_closures = [],
     contact_messages = [], public_contents = []\<rparr>"

definition no_reviews :: ReviewTables where
  "no_reviews = \<lparr>review_budget = None, claim_reviews = [], claim_requests = [], benchmarks = [],
     case_reviews = [], criteria_history = [], publications = []\<rparr>"

lemma empty_tables_ok [simp]: "account_tables_ok no_accounts" "review_tables_ok no_reviews"
  by (simp_all add: account_tables_ok_def review_tables_ok_def no_accounts_def no_reviews_def List.map_filter_def)

definition empty_db :: db where
  "empty_db = \<lparr>users = [], digests = [], digest_runs = [], run_stages = [], papers = [],
     run_papers = [], trend_analyses = [], briefings = [], radar_requests = [], radar_prices = [],
     deliveries = [], plans = [], checkouts = [], billing_accounts = [],
     stripe_events = [], stripe_mode = None, sync_jobs = [], sync_seen_at = None, invoices = [], upgrades = [], changes = [],
     notices = [], policies = [], usages = [], free_subs = [], account_states = [],
     observation_accounts = [], assignments = [], observed_runs = [], buckets = [],
     quality_settings = [], quality_evaluations = [], source_contents = [], account_tables = no_accounts,
     review_tables = no_reviews\<rparr>"

end
