(* ===== verification/RunQueries.thy ===== *)
theory RunQueries
  imports Store "HOL-Library.Product_Lexorder"
begin

section \<open>Reading runs (backend/app/repositories/digest_run_repository.py)\<close>

text \<open>
  The queries on runs, the owner's feedback on the latest run and the history given to the
  next one.  \<open>ORDER BY started_at DESC, id DESC\<close> is the reverse of sorting by the pair.
\<close>

definition newest_first :: "DigestRun list \<Rightarrow> DigestRun list" where
  "newest_first rs = rev (sort_key (\<lambda>r. (rn_started_at r, rn_id r)) rs)"

definition is_active :: "DigestRun \<Rightarrow> bool" where
  "is_active r \<longleftrightarrow> is_active_status (rn_status r)"

definition has_running_for_owner :: "uuid \<Rightarrow> bool sess" where
  "has_running_for_owner owner =
     query (\<lambda>d. \<exists>r \<in> set (digest_runs d). rn_owner_id r = owner \<and> is_active r)"

definition has_running_for_digest :: "uuid \<Rightarrow> bool sess" where
  "has_running_for_digest digest =
     query (\<lambda>d. \<exists>r \<in> set (digest_runs d). rn_digest_id r = digest \<and> is_active r)"

definition get_run :: "uuid \<Rightarrow> db \<Rightarrow> DigestRun option" where
  "get_run i d = get_row rn_id i (digest_runs d)"

definition get_owned :: "uuid \<Rightarrow> uuid \<Rightarrow> uuid \<Rightarrow> db \<Rightarrow> DigestRun option" where
  "get_owned digest run owner d =
     find (\<lambda>r. rn_id r = run \<and> rn_digest_id r = digest \<and> rn_owner_id r = owner) (digest_runs d)"

definition get_active_owned :: "uuid \<Rightarrow> db \<Rightarrow> DigestRun option" where
  "get_active_owned owner d =
     (case newest_first (filter (\<lambda>r. rn_owner_id r = owner \<and> is_active r) (digest_runs d)) of
        [] \<Rightarrow> None | r # _ \<Rightarrow> Some r)"

definition list_running :: "db \<Rightarrow> DigestRun list" where
  "list_running d = filter is_active (digest_runs d)"

definition owned_by :: "uuid \<Rightarrow> uuid \<Rightarrow> DigestRun \<Rightarrow> bool" where
  "owned_by digest owner r \<longleftrightarrow> rn_digest_id r = digest \<and> rn_owner_id r = owner"

definition list_owned :: "uuid \<Rightarrow> uuid \<Rightarrow> nat \<Rightarrow> nat \<Rightarrow> db \<Rightarrow> DigestRun list" where
  "list_owned digest owner offset limit d =
     take limit (drop offset (newest_first (filter (owned_by digest owner) (digest_runs d))))"

definition count_owned :: "uuid \<Rightarrow> uuid \<Rightarrow> db \<Rightarrow> nat" where
  "count_owned digest owner d = length (filter (owned_by digest owner) (digest_runs d))"

subsection \<open>Feedback on the latest run\<close>

definition newer_run :: "DigestRun \<Rightarrow> DigestRun \<Rightarrow> bool" where
  "newer_run r n \<longleftrightarrow> rn_digest_id n = rn_digest_id r
     \<and> (rn_started_at n > rn_started_at r
        \<or> (rn_started_at n = rn_started_at r \<and> rn_id n > rn_id r))"

definition accepts_feedback :: "DigestRun list \<Rightarrow> DigestRun \<Rightarrow> DigestRun \<Rightarrow> bool" where
  "accepts_feedback rs run r \<longleftrightarrow> rn_id r = rn_id run \<and> rn_status r = COMPLETED
     \<and> \<not> list_ex (newer_run run) rs"

definition save_feedback_if_latest :: "DigestRun \<Rightarrow> string \<Rightarrow> bool sess" where
  "save_feedback_if_latest run txt =
     bind now (\<lambda>stamp.
     bind (query digest_runs) (\<lambda>rs.
     seq (change (\<lambda>d. d\<lparr>digest_runs := update_where (accepts_feedback rs run)
            (\<lambda>r. r\<lparr>rn_feedback_text := Some txt,
                   rn_feedback_created_at := (case rn_feedback_created_at run of
                        None \<Rightarrow> Some stamp | Some c \<Rightarrow> Some c),
                   rn_feedback_updated_at := Some stamp\<rparr>) (digest_runs d)\<rparr>))
     (ret (rowcount (accepts_feedback rs run) rs = 1))))"

subsection \<open>History and feedback for the next run\<close>

definition history_item :: "db \<Rightarrow> DigestRun \<Rightarrow> HistoryItem" where
  "history_item d r =
     \<lparr>hi_run_id = rn_id r, hi_completed_at = rn_completed_at r,
      hi_reporting_from = ds_reporting_from (rn_digest_snapshot r),
      hi_reporting_to = ds_reporting_to (rn_digest_snapshot r),
      hi_title = map_option rb_title (briefing_of (rn_id r) d),
      hi_executive_summary = map_option rb_executive_summary (briefing_of (rn_id r) d),
      hi_highlights = (case briefing_of (rn_id r) d of None \<Rightarrow> []
         | Some b \<Rightarrow> db_highlights (rb_data b)),
      hi_overview = map_option rt_overview (trend_analysis_of (rn_id r) d),
      hi_themes = (case trend_analysis_of (rn_id r) d of None \<Rightarrow> []
         | Some t \<Rightarrow> ta_themes (rt_data t)),
      hi_papers = map (\<lambda>p. (case get_row pp_id (dp_paper_id p) (papers d) of
           None \<Rightarrow> ([], [], dp_relevance_score p)
         | Some pp \<Rightarrow> (pp_external_id pp, pp_title pp, dp_relevance_score p)))
         (paper_results_of (rn_id r) d)\<rparr>"

definition in_history :: "uuid \<Rightarrow> DigestRun \<Rightarrow> bool" where
  "in_history digest r \<longleftrightarrow> rn_digest_id r = digest \<and> rn_status r = COMPLETED
     \<and> \<not> rn_quality_delivery_blocked r"

definition build_history_context :: "uuid \<Rightarrow> nat \<Rightarrow> db \<Rightarrow> HistoryItem list" where
  "build_history_context digest limit d =
     (if limit = 0 then []
      else map (history_item d)
        (rev (take limit (newest_first (filter (in_history digest) (digest_runs d))))))"

definition build_feedback_context :: "uuid \<Rightarrow> nat \<Rightarrow> db \<Rightarrow> FeedbackItem list" where
  "build_feedback_context digest limit d =
     map (\<lambda>r. \<lparr>fb_run_id = rn_id r, fb_completed_at = rn_completed_at r,
               fb_user_feedback = rn_feedback_text r\<rparr>)
       (rev (take limit (newest_first
          (filter (\<lambda>r. in_history digest r \<and> rn_feedback_text r \<noteq> None) (digest_runs d)))))"

subsection \<open>Lemmas\<close>

lemma set_newest_first [simp]: "set (newest_first rs) = set rs"
  by (simp add: newest_first_def)

lemma length_newest_first [simp]: "length (newest_first rs) = length rs"
  by (simp add: newest_first_def)

lemma newest_first_sorted:
  "sorted_wrt (\<lambda>a b. (rn_started_at a, rn_id a) \<ge> (rn_started_at b, rn_id b)) (newest_first rs)"
proof -
  have "sorted (map (\<lambda>r. (rn_started_at r, rn_id r)) (sort_key (\<lambda>r. (rn_started_at r, rn_id r)) rs))"
    by (rule sorted_sort_key)
  then show ?thesis by (simp add: newest_first_def sorted_wrt_rev sorted_wrt_map sorted_map)
qed

lemma build_history_context_members:
  assumes "h \<in> set (build_history_context digest limit d)"
  obtains r where "r \<in> set (digest_runs d)" "rn_digest_id r = digest" "rn_status r = COMPLETED"
    "\<not> rn_quality_delivery_blocked r" "hi_run_id h = rn_id r"
proof -
  from assms obtain r where "h = history_item d r"
    "r \<in> set (take limit (newest_first (filter (in_history digest) (digest_runs d))))"
    by (auto simp: build_history_context_def split: if_splits)
  moreover from this(2) have "r \<in> set (filter (in_history digest) (digest_runs d))"
    by (metis in_set_takeD set_newest_first)
  ultimately show thesis using that by (auto simp: in_history_def history_item_def)
qed

lemma build_history_context_length:
  "length (build_history_context digest limit d) \<le> limit"
  by (simp add: build_history_context_def)

text \<open>The window of runs kept for the history is the newest ones: a completed run that was
  left out is older than every run kept.\<close>

lemma newest_taken:
  assumes "r \<in> set (take n (newest_first rs))" and "r' \<in> set (drop n (newest_first rs))"
  shows "(rn_started_at r', rn_id r') \<le> (rn_started_at r, rn_id r)"
  using newest_first_sorted [of rs] assms
  by (metis append_take_drop_id sorted_wrt_append)

lemma count_owned_all:
  "count_owned digest owner d = length (list_owned digest owner 0 (length (digest_runs d)) d)"
  by (simp add: count_owned_def list_owned_def)

lemma has_running_for_owner_iff:
  "has_running_for_owner owner s
     = (Inr (owner \<in> set (active_owners (digest_runs (working s)))), s)"
  by (auto simp: has_running_for_owner_def active_owners_def is_active_def run_simps)

lemma filter_key_distinct:
  assumes "distinct (map key xs)" and "x \<in> set xs"
  shows "filter (\<lambda>y. key y = key x) xs = [x]"
  using assms
proof (induction xs)
  case (Cons y ys)
  show ?case
  proof (cases "x = y")
    case True
    then have "\<forall>z \<in> set ys. key z \<noteq> key x" using Cons.prems by (auto simp: image_iff)
    then have "filter (\<lambda>z. key z = key x) ys = []" by (simp add: filter_empty_conv)
    with True show ?thesis by simp
  next
    case False
    with Cons.prems have "x \<in> set ys" "key y \<noteq> key x" by (auto simp: image_iff)
    with Cons show ?thesis by simp
  qed
qed simp

text \<open>Feedback is saved exactly when the run is completed and no run of its digest is newer.\<close>

lemma save_feedback_result:
  assumes "distinct (map rn_id (digest_runs (working s)))" and "run \<in> set (digest_runs (working s))"
  shows "fst (save_feedback_if_latest run txt s)
       = Inr (rn_status run = COMPLETED \<and> \<not> list_ex (newer_run run) (digest_runs (working s)))"
proof -
  let ?rs = "digest_runs (working s)"
  have "filter (\<lambda>r. rn_id r = rn_id run) ?rs = [run]"
    by (rule filter_key_distinct [OF assms])
  then have "filter (accepts_feedback ?rs run) ?rs
      = (if rn_status run = COMPLETED \<and> \<not> list_ex (newer_run run) ?rs then [run] else [])"
  proof -
    assume one: "filter (\<lambda>r. rn_id r = rn_id run) ?rs = [run]"
    have "filter (accepts_feedback ?rs run) ?rs
        = filter (\<lambda>r. rn_status r = COMPLETED \<and> \<not> list_ex (newer_run run) ?rs)
            (filter (\<lambda>r. rn_id r = rn_id run) ?rs)"
      by (simp add: accepts_feedback_def [abs_def] conj_ac)
    then show ?thesis unfolding one by simp
  qed
  then show ?thesis by (simp add: save_feedback_if_latest_def run_simps rowcount_def)
qed

end
