(* ===== verification/RunState.thy ===== *)
theory RunState
  imports RunQueries
begin

section \<open>Queue, stage and lease state
  (backend/app/repositories/run_state_repository.py, radar_request_repository.py)\<close>

text \<open>
  The transitions of runs and stages and the ledger of provider requests.  A run or stage
  object is passed by its identifier; reads and writes go to the session's working copy.
  \<open>claim_next\<close> is split as the code is: the choice of a candidate, then the conditional
  update that takes the lease, so that another worker's claim may come between them.
\<close>

definition empty_usage :: RadarTokenUsage where
  "empty_usage = \<lparr>tu_input_tokens = 0, tu_cached_input_tokens = 0, tu_output_tokens = 0,
     tu_reasoning_tokens = 0\<rparr>"

definition new_stage ::
  "uuid \<Rightarrow> string \<Rightarrow> string \<Rightarrow> uuid \<Rightarrow> nat \<Rightarrow> DigestRunStageType \<Rightarrow> DigestRunStage" where
  "new_stage run model version i position type =
     \<lparr>sg_id = i, sg_run_id = run, sg_stage = type, sg_position = position, sg_status = PENDING,
      sg_progress_current = 0, sg_progress_total = 1, sg_result_data = None,
      sg_error_message = None, sg_response_ids = [], sg_active_response_id = None,
      sg_usage_data = empty_usage, sg_model_name = model, sg_prompt_version = version,
      sg_started_at = None, sg_completed_at = None\<rparr>"

fun new_stages ::
  "uuid \<Rightarrow> string \<Rightarrow> string \<Rightarrow> nat \<Rightarrow> DigestRunStageType list \<Rightarrow> DigestRunStage list sess" where
  "new_stages run model version position [] = ret []"
| "new_stages run model version position (t # ts) =
     bind uuid4 (\<lambda>i. bind (new_stages run model version (Suc position) ts)
       (\<lambda>rest. ret (new_stage run model version i position t # rest)))"

definition new_run ::
  "uuid \<Rightarrow> uuid \<Rightarrow> uuid \<Rightarrow> DigestSnapshot \<Rightarrow> HistoryItem list \<Rightarrow> FeedbackItem list
     \<Rightarrow> string \<Rightarrow> string \<Rightarrow> datetime \<Rightarrow> DigestRun" where
  "new_run i digest owner snapshot history feedback model version started =
     \<lparr>rn_id = i, rn_digest_id = digest, rn_owner_id = owner, rn_status = QUEUED,
      rn_trigger = MANUAL, rn_digest_snapshot = snapshot, rn_history_context = history,
      rn_feedback_context = feedback, rn_search_data = None, rn_relevance_data = None,
      rn_model_name = model, rn_prompt_version = version, rn_openai_response_id = None,
      rn_error_message = None, rn_started_at = started, rn_completed_at = None,
      rn_scheduled_for = None, rn_worker_id = None, rn_lease_expires_at = None,
      rn_request_count = 0, rn_feedback_text = None, rn_feedback_created_at = None,
      rn_feedback_updated_at = None, rn_quality_config = None,
      rn_quality_status = NotEvaluated, rn_quality_findings = [],
      rn_quality_evaluated_at = None, rn_quality_delivery_blocked = False\<rparr>"

definition create_running ::
  "uuid \<Rightarrow> uuid \<Rightarrow> DigestSnapshot \<Rightarrow> HistoryItem list \<Rightarrow> FeedbackItem list \<Rightarrow> string \<Rightarrow> string
     \<Rightarrow> uuid sess" where
  "create_running digest owner snapshot history feedback model version =
     bind uuid4 (\<lambda>i.
     bind now (\<lambda>started.
     bind (new_stages i model version 1 RADAR_STAGE_ORDER) (\<lambda>stages.
     seq (change (\<lambda>d. d\<lparr>digest_runs := digest_runs d
              @ [new_run i digest owner snapshot history feedback model version started],
            run_stages := run_stages d @ stages\<rparr>))
     (seq flush (ret i)))))"

subsection \<open>Stage and run transitions\<close>

definition mark_stage_running :: "uuid \<Rightarrow> nat \<Rightarrow> unit sess" where
  "mark_stage_running stage progress_total =
     bind now (\<lambda>started. set_stage stage (\<lambda>s. s\<lparr>sg_status := STAGE_RUNNING,
       sg_progress_current := 0, sg_progress_total := progress_total, sg_error_message := None,
       sg_started_at := Some started, sg_completed_at := None\<rparr>))"

definition clear_active_response :: "uuid \<Rightarrow> unit sess" where
  "clear_active_response stage = set_stage stage (\<lambda>s. s\<lparr>sg_active_response_id := None\<rparr>)"

definition mark_completed :: "uuid \<Rightarrow> unit sess" where
  "mark_completed run =
     bind now (\<lambda>completed. set_run run (\<lambda>r. r\<lparr>rn_status := COMPLETED, rn_error_message := None,
       rn_completed_at := Some completed, rn_worker_id := None, rn_lease_expires_at := None\<rparr>))"

definition fail_stage :: "uuid \<Rightarrow> string \<Rightarrow> datetime \<Rightarrow> unit sess" where
  "fail_stage stage message stamp =
     set_stage stage (\<lambda>s. s\<lparr>sg_status := STAGE_FAILED, sg_error_message := Some (take 2000 message),
       sg_completed_at := Some stamp\<rparr>)"

definition fail_run :: "uuid \<Rightarrow> string \<Rightarrow> datetime \<Rightarrow> unit sess" where
  "fail_run run message stamp =
     set_run run (\<lambda>r. r\<lparr>rn_status := FAILED, rn_error_message := Some (take 2000 message),
       rn_completed_at := Some stamp, rn_worker_id := None, rn_lease_expires_at := None\<rparr>)"

subsection \<open>Claiming work\<close>

definition open_accounts :: "db \<Rightarrow> uuid set" where
  "open_accounts d = set (map usr_id (filter (\<lambda>u. usr_closure_requested_at u = None) (users d)))"

definition claimable :: "db \<Rightarrow> datetime \<Rightarrow> DigestRun \<Rightarrow> bool" where
  "claimable d stamp r \<longleftrightarrow> rn_owner_id r \<in> open_accounts d \<and> is_active r
     \<and> (case rn_lease_expires_at r of None \<Rightarrow> True | Some e \<Rightarrow> e < stamp)"

definition claim_candidate :: "datetime \<Rightarrow> db \<Rightarrow> uuid option" where
  "claim_candidate stamp d =
     map_option rn_id (first_by (\<lambda>r. (rn_started_at r, rn_id r))
       (filter (claimable d stamp) (digest_runs d)))"

text \<open>The conditional \<open>UPDATE\<close>; its result is the number of rows it changed.\<close>

definition take_lease :: "uuid \<Rightarrow> string \<Rightarrow> datetime \<Rightarrow> datetime \<Rightarrow> nat sess" where
  "take_lease run worker expires stamp =
     bind (query (\<lambda>d. rowcount (\<lambda>r. rn_id r = run \<and> claimable d stamp r) (digest_runs d))) (\<lambda>n.
     seq (change (\<lambda>d. d\<lparr>digest_runs := update_where (\<lambda>r. rn_id r = run \<and> claimable d stamp r)
            (\<lambda>r. r\<lparr>rn_status := RUNNING, rn_worker_id := Some worker,
                   rn_lease_expires_at := Some expires\<rparr>) (digest_runs d)\<rparr>))
     (ret n))"

definition claim_next :: "string \<Rightarrow> datetime \<Rightarrow> uuid option sess" where
  "claim_next worker expires =
     bind now (\<lambda>stamp.
     bind (query (claim_candidate stamp)) (\<lambda>candidate.
     case candidate of
       None \<Rightarrow> ret None
     | Some run \<Rightarrow>
         bind (take_lease run worker expires stamp) (\<lambda>n.
         seq commit
         (if n = 1 then query (\<lambda>d. map_option rn_id (get_run run d)) else ret None))))"

definition renew_lease :: "uuid \<Rightarrow> string \<Rightarrow> datetime \<Rightarrow> bool sess" where
  "renew_lease run worker expires =
     (let mine = \<lambda>r. rn_id r = run \<and> rn_worker_id r = Some worker \<and> rn_status r = RUNNING
      in bind (query (\<lambda>d. rowcount mine (digest_runs d))) (\<lambda>n.
         seq (change (\<lambda>d. d\<lparr>digest_runs := update_where mine
                (\<lambda>r. r\<lparr>rn_lease_expires_at := Some expires\<rparr>) (digest_runs d)\<rparr>))
         (ret (n = 1))))"

subsection \<open>Retrying a failed run\<close>

definition rejected_prefixes :: "string list" where
  "rejected_prefixes =
     [''Discovery relevance failed: The discovery stage returned more papers'',
      ''Paper summaries failed: The summary stage must return exactly one summary'',
      ''Trend analysis failed: The trend analysis referenced unknown papers:'',
      ''Digest briefing failed: The digest briefing referenced unknown papers:'']"

definition message_of :: "string option \<Rightarrow> string" where
  "message_of m = (case m of None \<Rightarrow> [] | Some x \<Rightarrow> x)"

definition legacy_discovery_mismatch :: "DigestRunStage \<Rightarrow> bool" where
  "legacy_discovery_mismatch s \<longleftrightarrow> sg_stage s = DISCOVERY_RELEVANCE
     \<and> contains ''validation error for DiscoveryRelevanceOutput'' (message_of (sg_error_message s))
     \<and> contains ''Every searched paper must have one relevance assessment''
         (message_of (sg_error_message s))"

definition rejected_response :: "DigestRunStage \<Rightarrow> bool" where
  "rejected_response s \<longleftrightarrow> legacy_discovery_mismatch s
     \<or> list_ex (startswith (message_of (sg_error_message s))) rejected_prefixes"

definition requeue_failed :: "uuid \<Rightarrow> unit sess" where
  "requeue_failed run =
     bind (query (\<lambda>d. find (\<lambda>s. sg_status s = STAGE_FAILED) (stages_of run d))) (\<lambda>failed.
     case failed of
       None \<Rightarrow> raise ValueErrorPy ''This run has no failed stage to retry''
     | Some s \<Rightarrow>
         seq (if rejected_response s then clear_active_response (sg_id s) else ret ())
         (seq (set_stage (sg_id s) (\<lambda>g. g\<lparr>sg_status := PENDING, sg_error_message := None,
                 sg_completed_at := None\<rparr>))
         (set_run run (\<lambda>r. r\<lparr>rn_status := QUEUED, rn_error_message := None,
            rn_completed_at := None, rn_worker_id := None, rn_lease_expires_at := None\<rparr>))))"

definition claim_failed_retry :: "uuid \<Rightarrow> bool sess" where
  "claim_failed_retry run =
     (let failed = \<lambda>r. rn_id r = run \<and> rn_status r = FAILED
      in bind (query (\<lambda>d. rowcount failed (digest_runs d))) (\<lambda>n.
         seq (change (\<lambda>d. d\<lparr>digest_runs := update_where failed
                (\<lambda>r. r\<lparr>rn_status := QUEUED\<rparr>) (digest_runs d)\<rparr>))
         (ret (n = 1))))"

subsection \<open>Provider requests\<close>

definition record_response_started :: "uuid \<Rightarrow> uuid \<Rightarrow> string \<Rightarrow> unit sess" where
  "record_response_started run stage response =
     seq (set_stage stage (\<lambda>s. s\<lparr>sg_active_response_id := Some response\<rparr>))
         (set_run run (\<lambda>r. r\<lparr>rn_request_count := rn_request_count r + 1\<rparr>))"

definition merge_usage :: "RadarTokenUsage \<Rightarrow> RadarTokenUsage \<Rightarrow> RadarTokenUsage" where
  "merge_usage current incoming =
     \<lparr>tu_input_tokens = tu_input_tokens current + tu_input_tokens incoming,
      tu_cached_input_tokens = tu_cached_input_tokens current + tu_cached_input_tokens incoming,
      tu_output_tokens = tu_output_tokens current + tu_output_tokens incoming,
      tu_reasoning_tokens = tu_reasoning_tokens current + tu_reasoning_tokens incoming\<rparr>"

record 'a RadarClientResult =
  cr_output :: 'a
  cr_response_id :: "string option"
  cr_model_name :: string
  cr_usage :: RadarTokenUsage

definition find_by_response :: "uuid \<Rightarrow> string \<Rightarrow> db \<Rightarrow> RadarRequest option" where
  "find_by_response run response d =
     find (\<lambda>q. rq_response_id q = Some response \<and> rq_run_id q = run) (radar_requests d)"

definition record_result_metadata :: "uuid \<Rightarrow> uuid \<Rightarrow> 'a RadarClientResult \<Rightarrow> unit sess" where
  "record_result_metadata run stage result =
     seq (case cr_response_id result of
            None \<Rightarrow> ret ()
          | Some response \<Rightarrow>
              (if response = [] then ret () else
               bind (query (find_by_response run response)) (\<lambda>request.
               seq (case request of None \<Rightarrow> ret ()
                    | Some q \<Rightarrow> set_request (rq_id q) (\<lambda>x. x\<lparr>rq_outcome := Accepted\<rparr>))
               (seq (set_stage stage (\<lambda>s. s\<lparr>sg_response_ids := sg_response_ids s @ [response]\<rparr>))
                    (set_run run (\<lambda>r. r\<lparr>rn_openai_response_id := Some response\<rparr>))))))
     (seq (set_stage stage (\<lambda>s. s\<lparr>sg_active_response_id := None,
             sg_model_name := cr_model_name result,
             sg_usage_data := merge_usage (sg_usage_data s) (cr_usage result)\<rparr>))
          (set_run run (\<lambda>r. r\<lparr>rn_model_name := cr_model_name result\<rparr>)))"

text \<open>\<open>ORDER BY created_at DESC, observed_at DESC\<close>: the database sorts a missing
  \<open>observed_at\<close> before every value.\<close>

definition latest_unconfirmed :: "uuid \<Rightarrow> uuid \<Rightarrow> db \<Rightarrow> RadarRequest option" where
  "latest_unconfirmed run stage d =
     first_by (\<lambda>q. (- rq_created_at q, rq_observed_at q \<noteq> None,
                    - (case rq_observed_at q of None \<Rightarrow> 0 | Some t \<Rightarrow> t)))
       (filter (\<lambda>q. rq_run_id q = run \<and> rq_stage_id q = stage \<and> rq_outcome q = Unconfirmed)
         (radar_requests d))"

definition reject_latest :: "uuid \<Rightarrow> uuid \<Rightarrow> unit sess" where
  "reject_latest run stage =
     bind (query (latest_unconfirmed run stage)) (\<lambda>latest.
     case latest of
       None \<Rightarrow> ret ()
     | Some q \<Rightarrow> set_request (rq_id q) (\<lambda>x. x\<lparr>rq_outcome :=
         (if rq_status x = ''completed'' then Rejected else Interrupted)\<rparr>))"

section \<open>Persisting accepted output (backend/app/repositories/run_result_repository.py)\<close>

text \<open>
  The writes of one accepted stage result; the caller owns the transaction.  Discovery ranks
  the papers by score, stores each paper once per source and external identifier, and one
  run result per paper; summaries are attached to the run results batch by batch; trends and
  the briefing get a row of their own.
\<close>

definition same_paper :: "SearchPaper \<Rightarrow> Paper \<Rightarrow> bool" where
  "same_paper v p \<longleftrightarrow> pp_source_name p = sp_source_name v \<and> pp_external_id p = sp_external_id v"

definition paper_values :: "SearchPaper \<Rightarrow> Paper \<Rightarrow> Paper" where
  "paper_values v p = p\<lparr>pp_title := sp_title v, pp_authors := sp_authors v,
     pp_abstract := sp_abstract v, pp_published_date := sp_published_date v,
     pp_url := sp_url v, pp_doi := sp_doi v\<rparr>"

definition upsert_paper :: "SearchPaper \<Rightarrow> uuid sess" where
  "upsert_paper v =
     bind (query (\<lambda>d. find (same_paper v) (papers d))) (\<lambda>found.
     case found of
       None \<Rightarrow>
         bind uuid4 (\<lambda>i.
         seq (change (\<lambda>d. d\<lparr>papers := papers d @ [\<lparr>pp_id = i,
                pp_source_name = sp_source_name v, pp_external_id = sp_external_id v,
                pp_title = sp_title v, pp_authors = sp_authors v, pp_abstract = sp_abstract v,
                pp_published_date = sp_published_date v, pp_url = sp_url v,
                pp_doi = sp_doi v\<rparr>]\<rparr>))
         (seq flush (ret i)))
     | Some p \<Rightarrow>
         seq (change (\<lambda>d. d\<lparr>papers := update_where (\<lambda>x. pp_id x = pp_id p) (paper_values v) (papers d)\<rparr>))
             (ret (pp_id p)))"

definition score_of :: "RelevanceAssessment list \<Rightarrow> SearchPaper \<Rightarrow> exn + RelevanceAssessment" where
  "score_of assessments p = getitem (last_by ra_external_id assessments) (sp_external_id p)"

text \<open>\<open>sorted(papers, key=score, reverse=True)\<close>; Python's reverse sort keeps the order of
  equal keys.  A paper without an assessment is a \<open>KeyError\<close>.\<close>

definition ranked_papers ::
  "RelevanceAssessment list \<Rightarrow> SearchPaper list \<Rightarrow> exn + (RelevanceAssessment \<times> SearchPaper) list" where
  "ranked_papers assessments ps =
     (case map_result (score_of assessments) ps of
        Inl e \<Rightarrow> Inl e
      | Inr rs \<Rightarrow> Inr (sort_key (\<lambda>x. - ra_score (fst x)) (zip rs ps)))"

fun save_ranked :: "uuid \<Rightarrow> nat \<Rightarrow> (RelevanceAssessment \<times> SearchPaper) list \<Rightarrow> unit sess" where
  "save_ranked run rank [] = ret ()"
| "save_ranked run rank ((a, v) # rest) =
     bind (upsert_paper v) (\<lambda>paper.
     bind uuid4 (\<lambda>i.
     seq (change (\<lambda>d. d\<lparr>run_papers := run_papers d @ [\<lparr>dp_id = i, dp_run_id = run,
            dp_paper_id = paper, dp_rank = rank, dp_relevance_score = ra_score a,
            dp_search_data = v, dp_relevance_data = a, dp_summary_data = None\<rparr>]\<rparr>))
         (save_ranked run (Suc rank) rest)))"

definition complete_stage ::
  "uuid \<Rightarrow> uuid \<Rightarrow> StageData \<Rightarrow> 'a RadarClientResult \<Rightarrow> unit sess" where
  "complete_stage run stage data result =
     bind now (\<lambda>stamp.
     seq (set_stage stage (\<lambda>s. s\<lparr>sg_result_data := Some data, sg_progress_current := 1,
            sg_progress_total := 1, sg_status := STAGE_COMPLETED, sg_completed_at := Some stamp\<rparr>))
         (record_result_metadata run stage result))"

definition save_discovery_relevance ::
  "uuid \<Rightarrow> uuid \<Rightarrow> DiscoveryRelevanceOutput RadarClientResult \<Rightarrow> unit sess" where
  "save_discovery_relevance run stage result =
     (let output = cr_output result;
          assessments = rs_assessments (dr_relevance output)
      in seq (set_run run (\<lambda>r. r\<lparr>rn_search_data := Some (SearchMetadata.truncate (dr_search output)),
                rn_relevance_data := Some ((dr_relevance output)\<lparr>rs_assessments := []\<rparr>)\<rparr>))
        (bind (lift_result (ranked_papers assessments (ss_papers (dr_search output)))) (\<lambda>ranked.
         seq (save_ranked run 1 ranked)
             (complete_stage run stage (DiscoveryData output) result))))"

text \<open>\<open>{result.paper.external_id: result}\<close> over the run's results, and the assignment to the
  entry of one identifier.\<close>

definition external_id_of :: "db \<Rightarrow> DigestRunPaper \<Rightarrow> string" where
  "external_id_of d p = (case get_row pp_id (dp_paper_id p) (papers d) of
     None \<Rightarrow> [] | Some pp \<Rightarrow> pp_external_id pp)"

definition paper_results_by_external_id :: "uuid \<Rightarrow> db \<Rightarrow> string \<Rightarrow> DigestRunPaper option" where
  "paper_results_by_external_id run d k =
     last_by (external_id_of d) (filter (\<lambda>p. dp_run_id p = run) (run_papers d)) k"

fun attach_summaries :: "uuid \<Rightarrow> PaperSummary list \<Rightarrow> unit sess" where
  "attach_summaries run [] = ret ()"
| "attach_summaries run (s # rest) =
     bind (query (\<lambda>d. paper_results_by_external_id run d (ps_external_id s))) (\<lambda>row.
     bind (lift_result (case row of None \<Rightarrow> Inl (Exn KeyErrorPy []) | Some p \<Rightarrow> Inr p)) (\<lambda>p.
     seq (change (\<lambda>d. d\<lparr>run_papers := update_where (\<lambda>x. dp_id x = dp_id p)
            (\<lambda>x. x\<lparr>dp_summary_data := Some s\<rparr>) (run_papers d)\<rparr>))
         (attach_summaries run rest)))"

text \<open>The \<open>paper_summaries\<close> list a stage has saved so far.\<close>

definition saved_summaries :: "StageData option \<Rightarrow> PaperSummary list" where
  "saved_summaries data = (case data of Some (SummariesData p) \<Rightarrow> paper_summaries p | _ \<Rightarrow> [])"

definition save_summary_batch ::
  "uuid \<Rightarrow> uuid \<Rightarrow> PaperSummariesOutput RadarClientResult \<Rightarrow> nat \<Rightarrow> unit sess" where
  "save_summary_batch run stage result progress_total =
     (let summaries = paper_summaries (cr_output result)
      in seq (attach_summaries run summaries)
        (seq (set_stage stage (\<lambda>s.
                let existing = saved_summaries (sg_result_data s) @ summaries
                in s\<lparr>sg_result_data := Some (SummariesData \<lparr>paper_summaries = existing\<rparr>),
                     sg_progress_current := length existing, sg_progress_total := progress_total\<rparr>))
             (record_result_metadata run stage result)))"

definition complete_summary_stage :: "uuid \<Rightarrow> nat \<Rightarrow> unit sess" where
  "complete_summary_stage stage progress_total =
     bind now (\<lambda>stamp. set_stage stage (\<lambda>s. s\<lparr>sg_status := STAGE_COMPLETED,
       sg_progress_current := progress_total, sg_progress_total := progress_total,
       sg_completed_at := Some stamp,
       sg_result_data := (case sg_result_data s of
            None \<Rightarrow> Some (SummariesData \<lparr>paper_summaries = []\<rparr>) | Some x \<Rightarrow> Some x)\<rparr>))"

definition save_trend_analysis ::
  "uuid \<Rightarrow> uuid \<Rightarrow> TrendAnalysisOutput RadarClientResult \<Rightarrow> unit sess" where
  "save_trend_analysis run stage result =
     (let trend = trend_analysis (cr_output result)
      in bind uuid4 (\<lambda>i.
         seq (change (\<lambda>d. d\<lparr>trend_analyses := trend_analyses d @ [\<lparr>rt_id = i, rt_run_id = run,
                rt_overview = ta_overview trend, rt_data = trend\<rparr>]\<rparr>))
             (complete_stage run stage (TrendData (cr_output result)) result)))"

definition save_digest_briefing ::
  "uuid \<Rightarrow> uuid \<Rightarrow> DigestBriefingOutput RadarClientResult \<Rightarrow> unit sess" where
  "save_digest_briefing run stage result =
     (let briefing = digest_briefing (cr_output result)
      in bind uuid4 (\<lambda>i.
         seq (change (\<lambda>d. d\<lparr>briefings := briefings d @ [\<lparr>rb_id = i, rb_run_id = run,
                rb_title = db_title briefing,
                rb_executive_summary = db_executive_summary briefing,
                rb_content_markdown = db_content_markdown briefing, rb_data = briefing\<rparr>]\<rparr>))
             (complete_stage run stage (BriefingData (cr_output result)) result)))"

end
