(* ===== verification/RunFacts.thy ===== *)
theory RunFacts
  imports RunState
begin

section \<open>Invariants of runs and stages, and the lease protocol\<close>

text \<open>
  \<open>run_ok\<close> and \<open>stage_ok\<close> say which columns agree with the status of a row; \<open>rows_ok\<close>
  asks it of every row and is kept by every operation of RunState and RunResults.  The
  second part states the lease protocol: who can take a run, renew it, and when a worker
  has lost it.
\<close>

definition run_ok :: "DigestRun \<Rightarrow> bool" where
  "run_ok r \<longleftrightarrow>
     (rn_worker_id r = None \<longleftrightarrow> rn_status r \<noteq> RUNNING)
     \<and> (rn_lease_expires_at r = None \<longleftrightarrow> rn_status r \<noteq> RUNNING)
     \<and> (is_active r \<or> rn_completed_at r \<noteq> None)"

definition stage_ok :: "DigestRunStage \<Rightarrow> bool" where
  "stage_ok s \<longleftrightarrow>
     (sg_status s = STAGE_COMPLETED \<longrightarrow> sg_result_data s \<noteq> None \<and> sg_completed_at s \<noteq> None)
     \<and> (sg_status s = STAGE_FAILED \<longrightarrow> sg_error_message s \<noteq> None \<and> sg_completed_at s \<noteq> None)
     \<and> (sg_status s = STAGE_RUNNING \<longrightarrow> sg_started_at s \<noteq> None \<and> sg_completed_at s = None)"

definition rows_ok :: "db \<Rightarrow> bool" where
  "rows_ok d \<longleftrightarrow> list_all run_ok (digest_runs d) \<and> list_all stage_ok (run_stages d)"

lemma list_all_update_where:
  "list_all P xs \<Longrightarrow> (\<And>x. P x \<Longrightarrow> q x \<Longrightarrow> P (f x)) \<Longrightarrow> list_all P (update_where q f xs)"
  by (auto simp: list_all_iff set_update_where)

lemma rows_ok_set_run:
  "(\<And>r. run_ok r \<Longrightarrow> rn_id r = i \<Longrightarrow> run_ok (f r)) \<Longrightarrow> keeps (both rows_ok) (set_run i f)"
  unfolding set_run_def by (rule both_change) (auto simp: rows_ok_def intro: list_all_update_where)

lemma rows_ok_set_stage:
  "(\<And>r. stage_ok r \<Longrightarrow> sg_id r = i \<Longrightarrow> stage_ok (f r)) \<Longrightarrow> keeps (both rows_ok) (set_stage i f)"
  unfolding set_stage_def by (rule both_change) (auto simp: rows_ok_def intro: list_all_update_where)

lemma rows_ok_set_request [keeps_intros]: "keeps (both rows_ok) (set_request i f)"
  unfolding set_request_def by (rule both_change) (simp add: rows_ok_def)

lemma rows_ok_other_tables:
  "(\<And>d. digest_runs (f d) = digest_runs d) \<Longrightarrow> (\<And>d. run_stages (f d) = run_stages d) \<Longrightarrow>
     keeps (both rows_ok) (change f)"
  by (rule both_change) (simp add: rows_ok_def)

lemma new_stages_ok:
  "new_stages run model version position ts s = (Inr stages, s') \<Longrightarrow>
     list_all stage_ok stages \<and> map sg_stage stages = ts \<and> map sg_run_id stages = map (\<lambda>_. run) ts
     \<and> map sg_position stages = [position ..< position + length ts]
     \<and> (\<forall>g \<in> set stages. sg_status g = PENDING)
     \<and> working s' = working s \<and> committed s' = committed s"
  by (induction ts arbitrary: position s stages s')
     (auto simp: run_simps new_stage_def stage_ok_def upt_conv_Cons
        split: prod.splits sum.splits simp del: upt_Suc)

lemma new_stages_returns: "new_stages run model version position ts s \<noteq> (Inl e, s')"
  by (induction ts arbitrary: position s s')
     (auto simp: run_simps split: prod.splits sum.splits)

lemma run_ok_new_run: "run_ok (new_run i digest owner snapshot history feedback model version started)"
  by (simp add: run_ok_def new_run_def is_active_def is_active_status_def)

lemma create_running_keeps [keeps_intros]:
  "keeps (both rows_ok) (create_running digest owner snapshot history feedback model version)"
proof (rule keepsI)
  fix s r s'
  assume ok: "both rows_ok s"
    and run: "create_running digest owner snapshot history feedback model version s = (r, s')"
  let ?s1 = "s\<lparr>drawn := Suc (drawn s), ticks := Suc (ticks s)\<rparr>"
  obtain res s2 where ns: "new_stages (uuids s (drawn s)) model version 1 RADAR_STAGE_ORDER
      (s\<lparr>drawn := Suc (drawn s), ticks := Suc (ticks s)\<rparr>) = (res, s2)" by fastforce
  show "both rows_ok s'"
  proof (cases res)
    case (Inl e)
    with ns show ?thesis using new_stages_returns by blast
  next
    case (Inr stages)
    from new_stages_ok [OF ns [unfolded Inr]]
    have "list_all stage_ok stages" "working s2 = working s" "committed s2 = committed s" by simp_all
    with ok run ns Inr run_ok_new_run show ?thesis
      by (auto simp: create_running_def run_simps both_def rows_ok_def split: if_splits)
  qed
qed

lemma mark_stage_running_keeps [keeps_intros]: "keeps (both rows_ok) (mark_stage_running stage n)"
  unfolding mark_stage_running_def
  by (intro keeps_intros rows_ok_set_stage) (simp add: stage_ok_def)

lemma clear_active_response_keeps [keeps_intros]: "keeps (both rows_ok) (clear_active_response stage)"
  unfolding clear_active_response_def by (intro rows_ok_set_stage) (simp add: stage_ok_def)

lemma mark_completed_keeps [keeps_intros]: "keeps (both rows_ok) (mark_completed run)"
  unfolding mark_completed_def
  by (intro keeps_intros rows_ok_set_run) (simp add: run_ok_def)

lemma fail_stage_keeps [keeps_intros]: "keeps (both rows_ok) (fail_stage stage m t)"
  unfolding fail_stage_def by (intro rows_ok_set_stage) (simp add: stage_ok_def)

lemma fail_run_keeps [keeps_intros]: "keeps (both rows_ok) (fail_run run m t)"
  unfolding fail_run_def by (intro rows_ok_set_run) (simp add: run_ok_def)

lemma take_lease_keeps [keeps_intros]: "keeps (both rows_ok) (take_lease run worker expires stamp)"
  unfolding take_lease_def
  by (intro keeps_intros both_change)
     (auto simp: rows_ok_def run_ok_def is_active_def is_active_status_def
        intro!: list_all_update_where)

lemma claim_next_keeps [keeps_intros]: "keeps (both rows_ok) (claim_next worker expires)"
  unfolding claim_next_def by (intro keeps_intros)

lemma renew_lease_keeps [keeps_intros]: "keeps (both rows_ok) (renew_lease run worker expires)"
  unfolding renew_lease_def Let_def
  by (intro keeps_intros both_change)
     (auto simp: rows_ok_def run_ok_def is_active_def intro!: list_all_update_where)

lemma requeue_failed_keeps [keeps_intros]: "keeps (both rows_ok) (requeue_failed run)"
  unfolding requeue_failed_def
  by (intro keeps_intros rows_ok_set_run rows_ok_set_stage)
     (auto simp: run_ok_def stage_ok_def is_active_def is_active_status_def)

lemma claim_failed_retry_keeps [keeps_intros]: "keeps (both rows_ok) (claim_failed_retry run)"
  unfolding claim_failed_retry_def Let_def
  by (intro keeps_intros both_change)
     (auto simp: rows_ok_def run_ok_def is_active_def is_active_status_def
        intro!: list_all_update_where)

lemma record_response_started_keeps [keeps_intros]:
  "keeps (both rows_ok) (record_response_started run stage response)"
  unfolding record_response_started_def
  by (intro keeps_intros rows_ok_set_run rows_ok_set_stage)
     (simp_all add: run_ok_def stage_ok_def is_active_def)

lemma record_result_metadata_keeps [keeps_intros]:
  "keeps (both rows_ok) (record_result_metadata run stage result)"
  unfolding record_result_metadata_def
  by (intro keeps_intros rows_ok_set_run rows_ok_set_stage)
     (simp_all add: run_ok_def stage_ok_def is_active_def)

lemma reject_latest_keeps [keeps_intros]: "keeps (both rows_ok) (reject_latest run stage)"
  unfolding reject_latest_def by (intro keeps_intros)

lemma upsert_paper_keeps [keeps_intros]: "keeps (both rows_ok) (upsert_paper v)"
  unfolding upsert_paper_def by (intro keeps_intros rows_ok_other_tables) simp_all

lemma save_ranked_keeps [keeps_intros]: "keeps (both rows_ok) (save_ranked run rank xs)"
proof (induction xs arbitrary: rank)
  case (Cons x xs)
  then show ?case by (cases x) (auto intro!: keeps_intros rows_ok_other_tables)
qed (simp add: keeps_ret)

lemma complete_stage_keeps [keeps_intros]: "keeps (both rows_ok) (complete_stage run stage data result)"
  unfolding complete_stage_def
  by (intro keeps_intros rows_ok_set_stage) (simp add: stage_ok_def)

lemma save_discovery_relevance_keeps [keeps_intros]:
  "keeps (both rows_ok) (save_discovery_relevance run stage result)"
  unfolding save_discovery_relevance_def Let_def
  by (intro keeps_intros rows_ok_set_run) (simp add: run_ok_def is_active_def)

lemma attach_summaries_keeps [keeps_intros]: "keeps (both rows_ok) (attach_summaries run xs)"
  by (induction xs) (auto intro!: keeps_intros rows_ok_other_tables)

lemma save_summary_batch_keeps [keeps_intros]:
  "keeps (both rows_ok) (save_summary_batch run stage result n)"
  unfolding save_summary_batch_def Let_def
  by (intro keeps_intros rows_ok_set_stage) (simp add: stage_ok_def)

lemma complete_summary_stage_keeps [keeps_intros]:
  "keeps (both rows_ok) (complete_summary_stage stage n)"
  unfolding complete_summary_stage_def
  by (intro keeps_intros rows_ok_set_stage) (simp add: stage_ok_def split: option.split)

lemma save_trend_analysis_keeps [keeps_intros]:
  "keeps (both rows_ok) (save_trend_analysis run stage result)"
  unfolding save_trend_analysis_def Let_def
  by (intro keeps_intros rows_ok_other_tables) simp_all

lemma save_digest_briefing_keeps [keeps_intros]:
  "keeps (both rows_ok) (save_digest_briefing run stage result)"
  unfolding save_digest_briefing_def Let_def
  by (intro keeps_intros rows_ok_other_tables) simp_all

subsection \<open>The lease protocol on the run table\<close>

lemma set_run_row:
  assumes "distinct (map key xs)" and "x \<in> set xs" and "\<And>y. key (f y) = key y"
  shows "get_row key (key x) (update_where (\<lambda>y. key y = key x \<and> q y) f xs)
       = Some (if q x then f x else x)"
  using assms by (simp add: get_row_update_where get_row_distinct)

lemma rowcount_distinct:
  assumes "distinct (map key xs)" and "x \<in> set xs"
  shows "rowcount (\<lambda>y. key y = key x \<and> q y) xs = (if q x then 1 else 0)"
proof -
  have "filter (\<lambda>y. key y = key x \<and> q y) xs = filter q (filter (\<lambda>y. key y = key x) xs)"
    by (simp add: conj_commute)
  then show ?thesis by (simp add: rowcount_def filter_key_distinct [OF assms])
qed

lemma rowcount_absent: "k \<notin> key ` set xs \<Longrightarrow> rowcount (\<lambda>y. key y = k \<and> q y) xs = 0"
  by (auto simp: rowcount_0)

lemma update_where_none: "\<forall>x \<in> set xs. \<not> q x \<Longrightarrow> update_where q f xs = xs"
  by (simp add: update_where_def map_idI)

lemma filter_update_where:
  "(\<And>x. P (f x) = P x) \<Longrightarrow> filter P (update_where q f xs) = update_where q f (filter P xs)"
  by (induction xs) (auto simp: update_where_def)

lemma active_owners_update_where:
  assumes "\<And>r. q r \<Longrightarrow> is_active_status (rn_status (f r)) = is_active_status (rn_status r)"
    and "\<And>r. q r \<Longrightarrow> rn_owner_id (f r) = rn_owner_id r"
  shows "active_owners (update_where q f rs) = active_owners rs"
  unfolding active_owners_def using assms by (induction rs) (auto simp: update_where_def)

definition leased :: "string \<Rightarrow> datetime \<Rightarrow> DigestRun \<Rightarrow> DigestRun" where
  "leased worker expires r = r\<lparr>rn_status := RUNNING, rn_worker_id := Some worker,
     rn_lease_expires_at := Some expires\<rparr>"

lemma leased_simps [simp]:
  "rn_id (leased w e r) = rn_id r" "rn_owner_id (leased w e r) = rn_owner_id r"
  "rn_status (leased w e r) = RUNNING" "rn_worker_id (leased w e r) = Some w"
  "rn_lease_expires_at (leased w e r) = Some e"
  by (simp_all add: leased_def)

lemma take_lease_eq:
  "take_lease run worker expires stamp s =
     (Inr (rowcount (\<lambda>r. rn_id r = run \<and> claimable (working s) stamp r) (digest_runs (working s))),
      s\<lparr>working := (working s)\<lparr>digest_runs :=
          update_where (\<lambda>r. rn_id r = run \<and> claimable (working s) stamp r) (leased worker expires)
            (digest_runs (working s))\<rparr>\<rparr>)"
  by (simp add: take_lease_def run_simps leased_def [abs_def])

lemma constraints_ok_take_lease:
  assumes "constraints_ok (working s)"
  shows "constraints_ok (working (snd (take_lease run worker expires stamp s)))"
proof -
  have "active_owners (update_where (\<lambda>r. rn_id r = run \<and> claimable (working s) stamp r)
      (leased worker expires) (digest_runs (working s))) = active_owners (digest_runs (working s))"
    by (rule active_owners_update_where)
       (auto simp: claimable_def is_active_def, simp add: is_active_status_def)
  with assms show ?thesis by (simp add: take_lease_eq constraints_ok_def)
qed

text \<open>A running lease is not claimable until it has expired.\<close>

lemma not_claimable: "rn_lease_expires_at r = Some e \<Longrightarrow> stamp \<le> e \<Longrightarrow> \<not> claimable d stamp r"
  by (simp add: claimable_def)

lemma take_lease_refused:
  assumes "distinct (map rn_id (digest_runs (working s)))" and "r \<in> set (digest_runs (working s))"
    and "\<not> claimable (working s) stamp r"
  shows "take_lease (rn_id r) worker expires stamp s = (Inr 0, s)"
proof -
  have "\<forall>x \<in> set (digest_runs (working s)). \<not> (rn_id x = rn_id r \<and> claimable (working s) stamp x)"
    using assms by (metis distinct_map inj_onD)
  then show ?thesis by (simp add: take_lease_eq update_where_none rowcount_0)
qed

text \<open>The chosen run is claimable and the oldest of the claimable ones.\<close>

lemma claim_candidate_Some:
  assumes "claim_candidate stamp d = Some i"
  obtains r where "r \<in> set (digest_runs d)" "rn_id r = i" "claimable d stamp r"
    "\<forall>r' \<in> set (digest_runs d). claimable d stamp r' \<longrightarrow>
       (rn_started_at r, rn_id r) \<le> (rn_started_at r', rn_id r')"
proof -
  from assms obtain r where f: "first_by (\<lambda>r. (rn_started_at r, rn_id r))
      (filter (claimable d stamp) (digest_runs d)) = Some r" and i: "rn_id r = i"
    by (auto simp: claim_candidate_def)
  from first_by_Some [OF f] i that show thesis by auto
qed

lemma claim_candidate_None:
  "claim_candidate stamp d = None \<longleftrightarrow> (\<forall>r \<in> set (digest_runs d). \<not> claimable d stamp r)"
  by (simp add: claim_candidate_def first_by_None filter_empty_conv)

lemma claim_next_cases:
  fixes s :: session
  defines "stamp \<equiv> clock s (ticks s)" and "d \<equiv> working s"
  assumes ok: "constraints_ok d"
  shows "claim_next worker expires s =
    (case claim_candidate stamp d of
       None \<Rightarrow> (Inr None, s\<lparr>ticks := Suc (ticks s)\<rparr>)
     | Some i \<Rightarrow>
        (let d' = d\<lparr>digest_runs := update_where (\<lambda>r. rn_id r = i) (leased worker expires) (digest_runs d)\<rparr>
         in (Inr (Some i), s\<lparr>ticks := Suc (ticks s), working := d', committed := d'\<rparr>)))"
proof (cases "claim_candidate stamp d")
  case None
  then show ?thesis by (simp add: claim_next_def run_simps stamp_def d_def)
next
  case (Some i)
  then obtain r where r: "r \<in> set (digest_runs d)" "rn_id r = i" "claimable d stamp r"
    by (rule claim_candidate_Some)
  have dist: "distinct (map rn_id (digest_runs d))" using ok by (simp add: constraints_ok_def)
  have one: "\<And>x. x \<in> set (digest_runs d) \<Longrightarrow> (rn_id x = i \<and> claimable d stamp x) = (rn_id x = i)"
    using dist r by (metis distinct_map inj_onD)
  let ?s = "s\<lparr>ticks := Suc (ticks s)\<rparr>"
  let ?d' = "d\<lparr>digest_runs := update_where (\<lambda>r. rn_id r = i) (leased worker expires) (digest_runs d)\<rparr>"
  have upd: "update_where (\<lambda>r. rn_id r = i \<and> claimable d stamp r) (leased worker expires) (digest_runs d)
      = update_where (\<lambda>r. rn_id r = i) (leased worker expires) (digest_runs d)"
    using one by (simp add: update_where_def)
  have cnt: "rowcount (\<lambda>r. rn_id r = i \<and> claimable d stamp r) (digest_runs d) = 1"
    using rowcount_distinct [OF dist r(1), of "claimable d stamp"] r(2,3) by simp
  have take_: "take_lease i worker expires stamp ?s = (Inr 1, ?s\<lparr>working := ?d'\<rparr>)"
    using cnt upd by (simp add: take_lease_eq d_def)
  have ok': "constraints_ok ?d'"
    using constraints_ok_take_lease [of ?s i worker expires stamp] ok take_ by (simp add: d_def)
  have found: "get_run i ?d' = Some (leased worker expires r)"
    using set_run_row [OF dist r(1), of "leased worker expires" "\<lambda>_. True"] r(2)
    by (simp add: get_run_def)
  have "claim_next worker expires s
      = bind (take_lease i worker expires stamp) (\<lambda>n. seq commit
          (if n = 1 then query (\<lambda>d. map_option rn_id (get_run i d)) else ret None)) ?s"
    using Some by (simp add: claim_next_def stamp_def d_def run_steps)
  also have "\<dots> = (Inr (Some i), ?s\<lparr>working := ?d', committed := ?d'\<rparr>)"
    using take_ ok' found r(2) by (simp add: step_Inr commit_ok query_def gets_def)
  finally show ?thesis using Some by (simp add: Let_def)
qed

lemma renew_lease_eq:
  "renew_lease run worker expires s =
     (let mine = \<lambda>r. rn_id r = run \<and> rn_worker_id r = Some worker \<and> rn_status r = RUNNING
      in (Inr (rowcount mine (digest_runs (working s)) = 1),
          s\<lparr>working := (working s)\<lparr>digest_runs := update_where mine
              (\<lambda>r. r\<lparr>rn_lease_expires_at := Some expires\<rparr>) (digest_runs (working s))\<rparr>\<rparr>))"
  by (simp add: renew_lease_def run_simps Let_def)

lemma renew_lease_result:
  assumes "distinct (map rn_id (digest_runs (working s)))" and "r \<in> set (digest_runs (working s))"
  shows "fst (renew_lease (rn_id r) worker expires s)
       = Inr (rn_worker_id r = Some worker \<and> rn_status r = RUNNING)"
  using rowcount_distinct [OF assms, of "\<lambda>r. rn_worker_id r = Some worker \<and> rn_status r = RUNNING"]
  by (simp add: renew_lease_eq Let_def)

end
