(* ===== verification/Billing.thy ===== *)
theory Billing
  imports RunFacts
begin

section \<open>Plans, entitlements and payment evidence\<close>

text \<open>
  The order of plans (backend/app/services/billing_types.py, billing_renewal_policy.py), who
  may buy (billing_policy.py), the Free plan (free_subscription_service.py), the outbox of
  notifications (billing_notification_service.py) and the reading of saved invoices
  (\<open>assessment\<close> and \<open>settled_chain\<close> of billing_invoice_service.py).  Stripe is never called
  here: the rows were written by the reconciliation.
\<close>

subsection \<open>Entitlements\<close>

record PlanEntitlements =
  pe_max_digests :: nat
  pe_max_papers_per_run :: nat
  pe_papers_per_month :: nat
  pe_runs_per_month :: nat
  pe_manual_runs_per_month :: nat
  pe_schedule_frequencies :: "DigestFrequency set"
  pe_email_delivery :: bool

definition from_configuration :: "PlanConfiguration \<Rightarrow> PlanEntitlements" where
  "from_configuration c =
     \<lparr>pe_max_digests = pc_max_digests c, pe_max_papers_per_run = pc_max_papers_per_run c,
      pe_papers_per_month = pc_papers_per_month c, pe_runs_per_month = pc_runs_per_month c,
      pe_manual_runs_per_month = pc_manual_runs_per_month c,
      pe_schedule_frequencies = set (pc_schedule_frequencies c),
      pe_email_delivery = pc_email_delivery c\<rparr>"

definition plan_includes :: "PlanEntitlements \<Rightarrow> PlanEntitlements \<Rightarrow> bool" where
  "plan_includes self other \<longleftrightarrow>
     pe_max_digests self \<ge> pe_max_digests other
     \<and> pe_max_papers_per_run self \<ge> pe_max_papers_per_run other
     \<and> pe_papers_per_month self \<ge> pe_papers_per_month other
     \<and> pe_runs_per_month self \<ge> pe_runs_per_month other
     \<and> pe_manual_runs_per_month self \<ge> pe_manual_runs_per_month other
     \<and> pe_schedule_frequencies other \<subseteq> pe_schedule_frequencies self
     \<and> (\<not> pe_email_delivery other \<or> pe_email_delivery self)"

definition improves :: "PlanEntitlements \<Rightarrow> PlanEntitlements \<Rightarrow> bool" where
  "improves self other \<longleftrightarrow> plan_includes self other \<and> self \<noteq> other"

definition billing_type_of :: "PlanConfiguration \<Rightarrow> billing_type" where
  "billing_type_of c = (case pc_billing_type c of None \<Rightarrow> BillingStripe | Some b \<Rightarrow> b)"

definition is_renewal_upgrade :: "PlanRevision \<Rightarrow> PlanRevision \<Rightarrow> bool" where
  "is_renewal_upgrade source target =
     (let before = pl_configuration source; after = pl_configuration target
      in if pl_code source = pl_code target
            \<or> billing_type_of before \<noteq> BillingStripe \<or> billing_type_of after \<noteq> BillingStripe
            \<or> pc_currency before \<noteq> pc_currency after
         then False
         else improves (from_configuration after) (from_configuration before))"

text \<open>The entitlements are ordered by inclusion, and improvement is its strict part, so a
  chain of renewal upgrades never comes back to a plan it left.\<close>

lemma plan_includes_refl [simp]: "plan_includes p p"
  by (simp add: plan_includes_def)

lemma plan_includes_trans: "plan_includes p q \<Longrightarrow> plan_includes q r \<Longrightarrow> plan_includes p r"
  by (auto simp: plan_includes_def)

lemma plan_includes_antisym: "plan_includes p q \<Longrightarrow> plan_includes q p \<Longrightarrow> p = (q :: PlanEntitlements)"
  by (cases p; cases q) (auto simp: plan_includes_def)

lemma improves_trans: "improves p q \<Longrightarrow> improves q r \<Longrightarrow> improves p r"
  unfolding improves_def using plan_includes_trans plan_includes_antisym by blast

lemma improves_asym: "improves p q \<Longrightarrow> \<not> improves q p"
  unfolding improves_def using plan_includes_antisym by blast

subsection \<open>Eligibility (billing_policy.py)\<close>

definition plan_available :: "PlanRevision \<Rightarrow> bool" where
  "plan_available p =
     (let c = pl_configuration p
      in pc_subscriber_visible c \<and> pc_state c = Reviewed \<and> pc_tax_display c = Inclusive
         \<and> (pc_billing_type c = Some BillingFree \<or> pc_stripe_sandbox c \<noteq> None)
         \<and> pc_trial_days c = 0)"

text \<open>The policy of the highest version, as \<open>policy\<close> of the access service reads it too.\<close>

definition policy_of :: "db \<Rightarrow> uuid \<Rightarrow> AccessPolicy option" where
  "policy_of d user =
     first_by (\<lambda>p. - int (pol_version p)) (filter (\<lambda>p. pol_user_id p = user) (policies d))"

definition opted_in :: "db \<Rightarrow> uuid \<Rightarrow> bool" where
  "opted_in d user \<longleftrightarrow> (case policy_of d user of None \<Rightarrow> False | Some p \<Rightarrow> pol_mode p = Sandbox)"

definition require_opt_in :: "uuid \<Rightarrow> unit sess" where
  "require_opt_in user =
     bind (query (\<lambda>d. opted_in d user)) (\<lambda>ok. guard ok (BillingError 403)
       ''Subscriber checkout is available to accounts enrolled in subscription limits. Contact the administrator to join.'')"

definition change_terminal :: "string set" where
  "change_terminal = {''applied'', ''undone'', ''stopped''}"

definition upgrade_open :: "string set" where
  "upgrade_open = {''submitting'', ''pending_payment'', ''needs_review''}"

definition blocking_change :: "db \<Rightarrow> uuid \<Rightarrow> SubscriptionChange option" where
  "blocking_change d user =
     find (\<lambda>c. ch_user_id c = user \<and> ch_state c \<notin> change_terminal) (changes d)"

definition blocking_upgrade :: "db \<Rightarrow> uuid \<Rightarrow> SubscriptionUpgrade option" where
  "blocking_upgrade d user =
     find (\<lambda>u. up_user_id u = user \<and> up_state u \<in> upgrade_open) (upgrades d)"

subsection \<open>The Free plan (free_subscription_service.py)\<close>

definition default_configuration :: PlanConfiguration where
  "default_configuration = \<lparr>pc_name = ''Free'', pc_state = Reviewed, pc_currency = ''EUR'',
     pc_monthly_price = 0, pc_annual_price = None, pc_tax_display = Inclusive,
     pc_max_digests = 1, pc_max_papers_per_run = 10, pc_papers_per_month = 10,
     pc_runs_per_month = 1, pc_manual_runs_per_month = 1, pc_schedule_frequencies = [],
     pc_email_delivery = False, pc_trial_days = 0, pc_stripe_sandbox = None,
     pc_billing_type = Some BillingFree, pc_subscriber_visible = True,
     pc_display_order = 0\<rparr>"

definition next_plan_id :: "db \<Rightarrow> nat" where
  "next_plan_id d = Suc (Max (insert 0 (set (map pl_id (plans d)))))"

definition reviewed_free :: "db \<Rightarrow> PlanRevision option" where
  "reviewed_free d = first_by (\<lambda>p. - int (pl_revision p))
     (filter (\<lambda>p. pl_code p = ''free'' \<and> pc_billing_type (pl_configuration p) = Some BillingFree
        \<and> pc_state (pl_configuration p) = Reviewed) (plans d))"

definition default_plan :: "PlanRevision sess" where
  "default_plan =
     bind (query reviewed_free) (\<lambda>found.
     case found of
       Some p \<Rightarrow> ret p
     | None \<Rightarrow>
         bind (query (\<lambda>d. \<exists>p \<in> set (plans d). pl_code p = ''free'')) (\<lambda>other.
         if other then raise (AccessDenied 503) ''The registration Free plan needs administrator review.''
         else bind (query next_plan_id) (\<lambda>i.
           let p = \<lparr>pl_id = i, pl_code = ''free'', pl_revision = 1,
                    pl_configuration = default_configuration\<rparr>
           in seq (change (\<lambda>d. d\<lparr>plans := plans d @ [p]\<rparr>)) (seq flush (ret p)))))"

definition assign_free :: "uuid \<Rightarrow> datetime \<Rightarrow> FreeSubscription sess" where
  "assign_free user stamp =
     bind (query (\<lambda>d. get_row fs_user_id user (free_subs d))) (\<lambda>assigned.
     case assigned of
       Some f \<Rightarrow> ret f
     | None \<Rightarrow>
         bind default_plan (\<lambda>p.
           let f = \<lparr>fs_user_id = user, fs_plan_revision_id = pl_id p, fs_anchor = stamp\<rparr>
           in seq (change (\<lambda>d. d\<lparr>free_subs := free_subs d @ [f]\<rparr>)) (seq flush (ret f))))"

definition enroll_registration :: "User \<Rightarrow> unit sess" where
  "enroll_registration user =
     seq (assign_free (usr_id user) (usr_created_at user))
     (seq (change (\<lambda>d. d\<lparr>policies := policies d @ [\<lparr>pol_user_id = usr_id user, pol_version = 1,
            pol_mode = Sandbox, pol_created_by = None, pol_change_note =
            ''Free tier assigned at verified registration; subscription limits enforced.''\<rparr>]\<rparr>))
     flush)"

subsection \<open>Notifications (billing_notification_service.py)\<close>

definition enqueue :: "uuid \<Rightarrow> string \<Rightarrow> string \<Rightarrow> string \<Rightarrow> unit sess" where
  "enqueue user key subject txt =
     bind now (\<lambda>due. bind now (\<lambda>created.
     change (\<lambda>d. if key \<in> bn_id ` set (notices d) then d
       else d\<lparr>notices := notices d @ [\<lparr>bn_id = key, bn_user_id = user, bn_subject = subject,
              bn_text = txt, bn_state = ''pending'', bn_attempts = 0,
              bn_next_attempt_at = due, bn_sent_at = None, bn_created_at = created\<rparr>]\<rparr>)))"

subsection \<open>Settled chains and the payment assessment (billing_invoice_service.py)\<close>

definition upgrade_of_invoice :: "db \<Rightarrow> string \<Rightarrow> uuid \<Rightarrow> SubscriptionUpgrade option" where
  "upgrade_of_invoice d invoice checkout =
     find (\<lambda>u. up_invoice_id u = Some invoice \<and> up_checkout_id u = checkout) (upgrades d)"

text \<open>The recursion follows the source invoices of upgrades; \<open>seen\<close> grows at every call and
  stops it at sixteen.\<close>

function settled_chain :: "db \<Rightarrow> BillingInvoice option \<Rightarrow> string list \<Rightarrow> bool" where
  "settled_chain d invoice seen =
     (case invoice of
        None \<Rightarrow> False
      | Some i \<Rightarrow>
          if iv_id i \<in> set seen \<or> length seen \<ge> 16 \<or> iv_issue i \<noteq> None then False
          else
            (let upgrade = upgrade_of_invoice d (iv_id i) (iv_checkout_id i);
                 source = (\<lambda>u. get_row iv_id (up_source_invoice_id u) (invoices d))
             in case upgrade of
                  None \<Rightarrow> iv_status i = ''paid'' \<and> iv_paid_at i \<noteq> None \<and> iv_amount_remaining i = 0
                | Some u \<Rightarrow>
                    if up_applied_at u = None \<and> up_state u = ''expired'' \<and> iv_status i = ''void''
                    then settled_chain d (source u) (iv_id i # seen)
                    else if iv_status i \<noteq> ''paid'' \<or> iv_paid_at i = None \<or> iv_amount_remaining i \<noteq> 0
                    then False
                    else up_applied_at u \<noteq> None \<and> int (iv_amount_paid i) = up_quote_amount_due u
                         \<and> settled_chain d (source u) (iv_id i # seen)))"
  by pat_completeness auto
termination
  by (relation "measure (\<lambda>(d, i, seen). 16 - length seen)") auto

declare settled_chain.simps [simp del]

record Payment =
  py_status :: string
  py_paid_through :: "datetime option"
  py_grace_until :: "datetime option"
  py_covered :: bool
  py_issue :: "string option"

text \<open>The invoice settled immediately before the current period; at most sixteen are tried.\<close>

definition prior_candidates :: "db \<Rightarrow> Checkout \<Rightarrow> BillingInvoice \<Rightarrow> BillingInvoice list" where
  "prior_candidates d c i =
     take 16 (sort_key (\<lambda>x. - iv_created_at x) (filter (\<lambda>x. iv_checkout_id x = co_id c
        \<and> iv_id x \<noteq> iv_id i \<and> iv_status x = ''paid'' \<and> iv_issue x = None
        \<and> iv_amount_remaining x = 0 \<and> iv_paid_at x \<noteq> None
        \<and> (case (iv_period_start x, co_period_start c) of (Some a, Some b) \<Rightarrow> a < b | _ \<Rightarrow> False)
        \<and> iv_period_end x \<noteq> None \<and> iv_period_end x = co_period_start c) (invoices d)))"

definition prior_upgrade :: "db \<Rightarrow> Checkout \<Rightarrow> SubscriptionUpgrade option" where
  "prior_upgrade d c = first_by (\<lambda>u. - up_proration_at u) (filter (\<lambda>u. up_checkout_id u = co_id c
     \<and> up_applied_at u \<noteq> None \<and> Some (up_period_end u) = co_period_start c) (upgrades d))"

definition prior_settled :: "db \<Rightarrow> Checkout \<Rightarrow> BillingInvoice \<Rightarrow> bool" where
  "prior_settled d c i =
     (case prior_upgrade d c of
        Some u \<Rightarrow> (case up_invoice_id u of None \<Rightarrow> False
                  | Some k \<Rightarrow> settled_chain d (get_row iv_id k (invoices d)) [])
      | None \<Rightarrow> list_ex (\<lambda>x. settled_chain d (Some x) []) (prior_candidates d c i))"

text \<open>The first invoice of a scheduled higher tier.\<close>

definition first_of_higher_tier :: "db \<Rightarrow> Checkout \<Rightarrow> BillingInvoice \<Rightarrow> bool" where
  "first_of_higher_tier d c i =
     (case first_by (\<lambda>x. - ch_created_at x) (filter (\<lambda>x. ch_checkout_id x = co_id c
             \<and> ch_target_revision_id x = co_plan_revision_id c \<and> ch_applied_at x \<noteq> None
             \<and> Some (ch_effective_at x) = iv_period_start i) (changes d)) of
        None \<Rightarrow> False
      | Some t \<Rightarrow> (case (get_row pl_id (ch_source_revision_id t) (plans d),
                        get_row pl_id (ch_target_revision_id t) (plans d)) of
            (Some a, Some b) \<Rightarrow> is_renewal_upgrade a b
          | _ \<Rightarrow> False))"

definition same_period :: "Checkout \<Rightarrow> BillingInvoice \<Rightarrow> bool" where
  "same_period c i \<longleftrightarrow> iv_period_start i = co_period_start c \<and> iv_period_end i = co_period_end c"

definition assess_invoice ::
  "db \<Rightarrow> Checkout \<Rightarrow> BillingInvoice \<Rightarrow> datetime \<Rightarrow> int \<Rightarrow> Payment \<Rightarrow> Payment" where
  "assess_invoice d c i stamp grace_days result =
     (case (iv_issue i, co_period_start c, co_period_end c, iv_period_start i, iv_period_end i) of
        (Some m, _) \<Rightarrow> result\<lparr>py_issue := Some m\<rparr>
      | (None, Some cs, Some ce, Some is, Some ie) \<Rightarrow>
          if is \<noteq> cs \<or> ie \<noteq> ce
          then result\<lparr>py_issue := Some ''Current invoice does not cover the current subscription period.''\<rparr>
          else if iv_status i = ''paid'' \<and> iv_paid_at i \<noteq> None \<and> iv_amount_remaining i = 0
          then result\<lparr>py_issue := None, py_covered := is \<le> stamp \<and> stamp < ie,
                      py_paid_through := Some ie\<rparr>
          else if iv_status i = ''open'' \<and> iv_attempt_count i > 0
               \<and> iv_billing_reason i \<in> {''subscription_cycle'', ''subscription_update''}
          then (if first_of_higher_tier d c i then result\<lparr>py_issue := None\<rparr>
                else if prior_settled d c i
                then (let end = is + days grace_days
                      in result\<lparr>py_issue := None, py_grace_until :=
                           Some (if co_cancel_at_period_end c then min end ce else end)\<rparr>)
                else result\<lparr>py_issue := None\<rparr>)
          else result\<lparr>py_issue := None\<rparr>
      | (None, _) \<Rightarrow> result\<lparr>py_issue := Some ''Invoice coverage is not verified.''\<rparr>)"

definition first_issue :: "string option \<Rightarrow> string \<Rightarrow> string option" where
  "first_issue i m = (case i of None \<Rightarrow> Some m | Some x \<Rightarrow> Some x)"

function assessment ::
  "db \<Rightarrow> Checkout \<Rightarrow> datetime \<Rightarrow> int \<Rightarrow> string option \<Rightarrow> nat \<Rightarrow> Payment" where
  "assessment d c stamp grace_days invoice_id depth =
     (let selected = (case invoice_id of None \<Rightarrow> co_latest_invoice_id c | Some k \<Rightarrow> Some k);
          invoice = (case selected of None \<Rightarrow> None | Some k \<Rightarrow> get_row iv_id k (invoices d));
          result = \<lparr>py_status = (case invoice of None \<Rightarrow> ''unverified'' | Some i \<Rightarrow> iv_status i),
             py_paid_through = None, py_grace_until = None, py_covered = False,
             py_issue = Some ''No verified current invoice. Reconcile billing to verify payment.''\<rparr>
      in case invoice of
           None \<Rightarrow> result
         | Some i \<Rightarrow>
             if iv_checkout_id i \<noteq> co_id c then result
             else (case upgrade_of_invoice d (iv_id i) (co_id c) of
                None \<Rightarrow> assess_invoice d c i stamp grace_days result
              | Some u \<Rightarrow>
                  if depth \<ge> 16
                  then result\<lparr>py_issue := Some ''Upgrade payment evidence chain needs review.''\<rparr>
                  else if up_applied_at u = None
                  then (if co_plan_revision_id c = up_source_revision_id u \<and> co_price_matches c
                        then assessment d c stamp grace_days (Some (up_source_invoice_id u)) (depth + 1)
                        else result\<lparr>py_issue :=
                          Some ''Upgrade payment has not been verified for the current plan.''\<rparr>)
                  else if iv_issue i \<noteq> None \<or> iv_status i \<noteq> ''paid'' \<or> iv_paid_at i = None
                          \<or> iv_amount_remaining i \<noteq> 0
                          \<or> int (iv_amount_paid i) \<noteq> up_quote_amount_due u
                  then result\<lparr>py_issue := first_issue (iv_issue i)
                         ''The prorated upgrade payment is not settled.''\<rparr>
                  else if co_period_start c \<noteq> Some (up_period_start u)
                          \<or> co_period_end c \<noteq> Some (up_period_end u)
                  then result\<lparr>py_issue :=
                         Some ''Upgrade evidence does not cover the current billing period.''\<rparr>
                  else
                    (let base = assessment d
                           (c\<lparr>co_plan_revision_id := up_source_revision_id u, co_price_matches := True\<rparr>)
                           stamp grace_days (Some (up_source_invoice_id u)) (depth + 1)
                     in if \<not> py_covered base \<or> py_issue base \<noteq> None
                        then result\<lparr>py_issue := first_issue (py_issue base)
                               ''The original paid coverage for this upgrade has expired.''\<rparr>
                        else result\<lparr>py_status := ''paid'', py_paid_through := Some (up_period_end u),
                               py_covered := up_proration_at u \<le> stamp \<and> stamp < up_period_end u,
                               py_issue := None\<rparr>)))"
  by pat_completeness auto
termination
  by (relation "measure (\<lambda>(d, c, s, g, i, depth). 16 - depth)") auto

declare assessment.simps [simp del]

subsection \<open>What the assessment establishes\<close>

definition settled_invoice :: "BillingInvoice \<Rightarrow> bool" where
  "settled_invoice i \<longleftrightarrow> iv_issue i = None \<and> iv_status i = ''paid'' \<and> iv_paid_at i \<noteq> None
     \<and> iv_amount_remaining i = 0"

lemma assess_invoice_covered:
  assumes "py_covered (assess_invoice d c i stamp g r)" and "\<not> py_covered r"
  obtains cs ce where "co_period_start c = Some cs" "co_period_end c = Some ce"
    "cs \<le> stamp" "stamp < ce" "settled_invoice i" "same_period c i"
    "py_issue (assess_invoice d c i stamp g r) = None"
    "py_paid_through (assess_invoice d c i stamp g r) = Some ce"
proof -
  show thesis
    using assms that
    by (cases "iv_issue i"; cases "co_period_start c"; cases "co_period_end c";
        cases "iv_period_start i"; cases "iv_period_end i")
       (auto simp: assess_invoice_def settled_invoice_def same_period_def Let_def split: if_splits)
qed

lemma assess_invoice_grace:
  assumes "py_grace_until (assess_invoice d c i stamp g r) = Some e" and "py_grace_until r = None"
  obtains cs ce where "co_period_start c = Some cs" "co_period_end c = Some ce"
    "e \<le> cs + days g" "co_cancel_at_period_end c \<Longrightarrow> e \<le> ce"
    "iv_status i = ''open''" "prior_settled d c i" "\<not> first_of_higher_tier d c i"
    "py_covered (assess_invoice d c i stamp g r) = py_covered r"
proof -
  show thesis
    using assms that
    by (cases "iv_issue i"; cases "co_period_start c"; cases "co_period_end c";
        cases "iv_period_start i"; cases "iv_period_end i")
       (auto simp: assess_invoice_def Let_def split: if_splits)
qed

lemma assessment_grace:
  assumes "py_grace_until (assessment d c stamp g k depth) = Some e"
  shows "\<exists>cs ce. co_period_start c = Some cs \<and> co_period_end c = Some ce \<and> e \<le> cs + days g
    \<and> (co_cancel_at_period_end c \<longrightarrow> e \<le> ce) \<and> \<not> py_covered (assessment d c stamp g k depth)"
  using assms
proof (induction d c stamp g k depth rule: assessment.induct)
  case (1 d c stamp g k depth)
  define sel where "sel = (case k of None \<Rightarrow> co_latest_invoice_id c | Some k \<Rightarrow> Some k)"
  define inv where "inv = (case sel of None \<Rightarrow> None | Some k \<Rightarrow> get_row iv_id k (invoices d))"
  define r where "r = \<lparr>py_status = (case inv of None \<Rightarrow> ''unverified'' | Some i \<Rightarrow> iv_status i),
     py_paid_through = None, py_grace_until = None, py_covered = False,
     py_issue = Some ''No verified current invoice. Reconcile billing to verify payment.''\<rparr>"
  have r [simp]: "\<not> py_covered r" "py_grace_until r = None" by (simp_all add: r_def)
  note unf = assessment.simps [of d c stamp g k depth, folded sel_def, unfolded Let_def, folded sel_def inv_def r_def]
  from "1.prems" obtain i where i: "inv = Some i" "iv_checkout_id i = co_id c"
    by (cases inv) (auto simp: unf r_def split: if_splits)
  show ?case
  proof (cases "upgrade_of_invoice d (iv_id i) (co_id c)")
    case None
    then have eq: "assessment d c stamp g k depth = assess_invoice d c i stamp g r"
      using i by (simp add: unf r_def)
    from "1.prems" [unfolded eq] r(2) show ?thesis
      unfolding eq by (rule assess_invoice_grace) (use r(1) in auto)
  next
    case (Some u)
    note IH = "1.IH"(1) [OF sel_def inv_def r_def i(1) _ Some]
    have pre: "depth < 16" "up_applied_at u = None" "co_plan_revision_id c = up_source_revision_id u"
        "co_price_matches c"
      and eq: "assessment d c stamp g k depth
          = assessment d c stamp g (Some (up_source_invoice_id u)) (depth + 1)"
      using "1.prems" i Some by (auto simp: unf r_def Let_def split: if_splits)
    from IH [OF _ _ pre(2)] pre "1.prems" i(2) show ?thesis unfolding eq by simp
  qed
qed

lemma assessment_covered:
  assumes "py_covered (assessment d c stamp g k depth)"
  shows "\<exists>cs ce i. co_period_start c = Some cs \<and> co_period_end c = Some ce \<and> cs \<le> stamp \<and> stamp < ce
    \<and> i \<in> set (invoices d) \<and> settled_invoice i \<and> same_period c i \<and> iv_checkout_id i = co_id c
    \<and> py_issue (assessment d c stamp g k depth) = None
    \<and> py_paid_through (assessment d c stamp g k depth) = Some ce"
  using assms
proof (induction d c stamp g k depth rule: assessment.induct)
  case (1 d c stamp g k depth)
  define sel where "sel = (case k of None \<Rightarrow> co_latest_invoice_id c | Some k \<Rightarrow> Some k)"
  define inv where "inv = (case sel of None \<Rightarrow> None | Some k \<Rightarrow> get_row iv_id k (invoices d))"
  define r where "r = \<lparr>py_status = (case inv of None \<Rightarrow> ''unverified'' | Some i \<Rightarrow> iv_status i),
     py_paid_through = None, py_grace_until = None, py_covered = False,
     py_issue = Some ''No verified current invoice. Reconcile billing to verify payment.''\<rparr>"
  have notr [simp]: "\<not> py_covered r" by (simp add: r_def)
  note unf = assessment.simps [of d c stamp g k depth, folded sel_def, unfolded Let_def, folded sel_def inv_def r_def]
  from "1.prems" obtain i where i: "inv = Some i" "iv_checkout_id i = co_id c"
    by (cases inv) (auto simp: unf r_def split: if_splits)
  have mem: "i \<in> set (invoices d)"
    using i(1) by (auto simp: inv_def split: option.splits dest: get_row_Some)
  show ?case
  proof (cases "upgrade_of_invoice d (iv_id i) (co_id c)")
    case None
    then have eq: "assessment d c stamp g k depth = assess_invoice d c i stamp g r"
      using i by (simp add: unf r_def)
    from "1.prems" [unfolded eq] show ?thesis
      unfolding eq by (rule assess_invoice_covered) (use mem i(2) in auto)
  next
    case (Some u)
    note IH = "1.IH" [OF sel_def inv_def r_def i(1) _ Some]
    have d16: "depth < 16"
      using "1.prems" i Some by (auto simp: unf split: if_splits)
    show ?thesis
    proof (cases "up_applied_at u")
      case None
      then have eq: "assessment d c stamp g k depth
          = assessment d c stamp g (Some (up_source_invoice_id u)) (depth + 1)"
        and pre: "co_plan_revision_id c = up_source_revision_id u" "co_price_matches c"
        using "1.prems" i Some d16 by (auto simp: unf split: if_splits)
      from IH(1) [OF _ _ None] pre "1.prems" i(2) d16 show ?thesis unfolding eq by simp
    next
      case (Some w)
      let ?c = "c\<lparr>co_plan_revision_id := up_source_revision_id u, co_price_matches := True\<rparr>"
      let ?b = "assessment d ?c stamp g (Some (up_source_invoice_id u)) (depth + 1)"
      have b: "py_covered ?b" "py_issue ?b = None"
        and per: "co_period_start c = Some (up_period_start u)" "co_period_end c = Some (up_period_end u)"
        and eq: "assessment d c stamp g k depth = r\<lparr>py_status := ''paid'',
              py_paid_through := Some (up_period_end u),
              py_covered := up_proration_at u \<le> stamp \<and> stamp < up_period_end u, py_issue := None\<rparr>"
        and good: "iv_issue i = None" "iv_status i = ''paid''" "iv_paid_at i \<noteq> None"
          "iv_amount_remaining i = 0" "int (iv_amount_paid i) = up_quote_amount_due u"
        using "1.prems" i d16 \<open>upgrade_of_invoice d (iv_id i) (co_id c) = Some u\<close> Some
        by (auto simp: unf r_def Let_def split: if_splits)
      from IH(2) [OF _ _ _ _ _ b(1)] i(2) d16 Some good per
      have "\<exists>cs ce j. co_period_start ?c = Some cs \<and> co_period_end ?c = Some ce \<and> cs \<le> stamp \<and> stamp < ce
          \<and> j \<in> set (invoices d) \<and> settled_invoice j \<and> same_period ?c j \<and> iv_checkout_id j = co_id ?c"
        by simp blast
      then show ?thesis using per by (auto simp: eq same_period_def)
    qed
  qed
qed

end
