(* ===== verification/Observation.thy ===== *)
theory Observation
  imports Billing
begin

section \<open>Monthly observation ledger
  (backend/app/services/subscription_observation_service.py)\<close>

text \<open>
  What a plan would have allowed, recorded per run and never enforced.  The account lock
  serialises all writers of one account; \<open>reasons\<close> lists what a plan would refuse and is
  shared with the access service; \<open>obs_reserve\<close> and \<open>obs_settle\<close> move one run through
  reserved, settled and released.
\<close>

text \<open>The settings of backend/app/core/config.py that the services read; a secret that is
  not set is empty, and the Stripe settings are the effective ones of the selected mode.\<close>

record Settings =
  set_subscription_grace_days :: int
  set_subscription_sync_max_age_seconds :: int
  set_radar_runs_per_hour :: nat
  set_radar_runs_per_day :: nat
  set_jwt_secret :: string
  set_frontend_base_url :: string
  set_stripe_livemode :: bool
  set_stripe_api_key :: string
  set_stripe_webhook_secret :: string
  set_stripe_portal_configuration_id :: string
  set_stripe_checkout_enabled :: bool
  set_stripe_sync_reconcile_seconds :: int
  set_stripe_sync_max_failures :: nat

subsection \<open>Months\<close>

definition obs_month :: "datetime \<Rightarrow> date" where
  "obs_month t = toordinal (ord_year (dt_date t)) (ord_month (dt_date t)) 1"

definition next_month :: "date \<Rightarrow> date" where
  "next_month v = toordinal (ord_year v + (if ord_month v = 12 then 1 else 0))
                            (ord_month v mod 12 + 1) 1"

lemma obs_month_start: "obs_month t = month_start (ord_month_index (dt_date t))"
  by (simp add: obs_month_def toordinal_month_start ord_month_range ord_month_index_def)

lemma next_month_start:
  "next_month (obs_month t) = month_start (ord_month_index (dt_date t) + 1)"
proof -
  let ?y = "ord_year (dt_date t)" and ?m = "ord_month (dt_date t)"
  have m: "1 \<le> ?m" "?m \<le> 12" by (rule ord_month_range)+
  have f: "ord_year (obs_month t) = ?y" "ord_month (obs_month t) = ?m"
    using m monthrange_bounds(1) [of ?y ?m] by (simp_all add: obs_month_def ord_fields_toordinal)
  show ?thesis
  proof (cases "?m = 12")
    case True
    then show ?thesis
      unfolding next_month_def f by (simp add: toordinal_month_start ord_month_index_def algebra_simps)
  next
    case False
    with m have "?m mod 12 = ?m" by simp
    with False m show ?thesis
      unfolding next_month_def f by (simp add: toordinal_month_start ord_month_index_def algebra_simps)
  qed
qed

lemma obs_month_bounds: "obs_month t \<le> dt_date t" "dt_date t < next_month (obs_month t)"
  unfolding next_month_start unfolding obs_month_start by (rule month_start_bounds)+

subsection \<open>The account lock\<close>

definition lock_account :: "uuid \<Rightarrow> unit sess" where
  "lock_account user =
     bind now (\<lambda>stamp.
     change (\<lambda>d.
       let accounts = (if user \<in> oa_user_id ` set (observation_accounts d) then observation_accounts d
             else observation_accounts d @ [\<lparr>oa_user_id = user, oa_version = 0, oa_lock_version = 0,
                    oa_tracking_since = stamp\<rparr>])
       in d\<lparr>observation_accounts := update_where (\<lambda>a. oa_user_id a = user)
              (\<lambda>a. a\<lparr>oa_lock_version := oa_lock_version a + 1\<rparr>) accounts\<rparr>))"

definition current_assignment :: "db \<Rightarrow> uuid \<Rightarrow> ObservationAssignment option" where
  "current_assignment d user =
     first_by (\<lambda>a. - int (om_version a)) (filter (\<lambda>a. om_user_id a = user) (assignments d))"

definition plan_for :: "db \<Rightarrow> ObservationAssignment option \<Rightarrow> PlanRevision option" where
  "plan_for d assignment =
     (case assignment of None \<Rightarrow> None
      | Some a \<Rightarrow> (case om_plan_revision_id a of None \<Rightarrow> None
          | Some k \<Rightarrow> get_row pl_id k (plans d)))"

definition next_assignment_id :: "db \<Rightarrow> nat" where
  "next_assignment_id d = Suc (Max (insert 0 (set (map om_id (assignments d)))))"

definition assign_observation :: "uuid \<Rightarrow> uuid \<Rightarrow> nat option \<Rightarrow> nat \<Rightarrow> string \<Rightarrow> unit sess" where
  "assign_observation user actor revision expected_version note =
     seq (lock_account user)
     (bind (query (\<lambda>d. case get_row oa_user_id user (observation_accounts d) of
              None \<Rightarrow> 0 | Some a \<Rightarrow> oa_version a)) (\<lambda>version.
     if version \<noteq> expected_version
     then raise (ObservationError 409) ''The assignment changed. Reload and review before saving.''
     else bind (query (\<lambda>d. case revision of None \<Rightarrow> True
              | Some k \<Rightarrow> (case get_row pl_id k (plans d) of None \<Rightarrow> False
                  | Some p \<Rightarrow> pc_state (pl_configuration p) \<noteq> Archived))) (\<lambda>ok.
     seq (guard ok (ObservationError 422) ''Select an existing, non-archived plan revision.'')
     (seq (change (\<lambda>d. d\<lparr>assignments := assignments d @ [\<lparr>om_id = next_assignment_id d,
               om_user_id = user, om_version = version + 1, om_plan_revision_id = revision,
               om_created_by = Some actor, om_change_note = note\<rparr>],
             observation_accounts := update_where (\<lambda>a. oa_user_id a = user)
               (\<lambda>a. a\<lparr>oa_version := oa_version a + 1\<rparr>) (observation_accounts d)\<rparr>))
     flush))))"

subsection \<open>Totals of a month and what a plan would refuse\<close>

record UsageTotals =
  ut_completed_runs :: nat
  ut_reserved_runs :: nat
  ut_manual_runs :: nat
  ut_completed_papers :: nat
  ut_reserved_papers :: nat
  ut_released_runs :: nat

definition obs_totals :: "db \<Rightarrow> uuid \<Rightarrow> date \<Rightarrow> UsageTotals" where
  "obs_totals d user period =
     (let rows = filter (\<lambda>r. ob_user_id r = user \<and> ob_period_start r = period) (observed_runs d)
      in \<lparr>ut_completed_runs = rowcount (\<lambda>r. ob_state r = Settled) rows,
          ut_reserved_runs = rowcount (\<lambda>r. ob_state r = Reserved) rows,
          ut_manual_runs = rowcount (\<lambda>r. ob_state r \<in> {Settled, Reserved} \<and> ob_trigger r = MANUAL) rows,
          ut_completed_papers = (\<Sum>r\<leftarrow>rows. if ob_state r = Settled then ob_actual_papers r else 0),
          ut_reserved_papers = (\<Sum>r\<leftarrow>rows. if ob_state r = Reserved then ob_requested_papers r else 0),
          ut_released_runs = rowcount (\<lambda>r. ob_state r = Released) rows\<rparr>)"

definition msg_runs :: string where
  "msg_runs = ''Monthly run allowance would be exceeded''"
definition msg_manual :: string where
  "msg_manual = ''Monthly manual-run allowance would be exceeded''"
definition msg_papers :: string where
  "msg_papers = ''Monthly paper allowance would be exceeded''"
definition msg_per_run :: string where
  "msg_per_run = ''Requested papers exceed the per-run limit''"
definition msg_digests :: string where
  "msg_digests = ''Existing digest count exceeds the plan limit''"
definition msg_frequency :: string where
  "msg_frequency = ''Schedule frequency is not included in the plan''"
definition msg_email :: string where
  "msg_email = ''Email delivery is not included in the plan''"

definition reasons ::
  "PlanConfiguration option \<Rightarrow> UsageTotals \<Rightarrow> nat \<Rightarrow> DigestRunTrigger \<Rightarrow> nat
     \<Rightarrow> DigestFrequency option \<Rightarrow> bool \<Rightarrow> string list" where
  "reasons config usage requested trigger digest_count frequency email =
     (case config of None \<Rightarrow> []
      | Some c \<Rightarrow> map snd (filter fst
          [(ut_completed_runs usage + ut_reserved_runs usage + 1 > pc_runs_per_month c, msg_runs),
           (trigger = MANUAL \<and> ut_manual_runs usage + 1 > pc_manual_runs_per_month c, msg_manual),
           (ut_completed_papers usage + ut_reserved_papers usage + requested > pc_papers_per_month c, msg_papers),
           (requested > pc_max_papers_per_run c, msg_per_run),
           (digest_count > pc_max_digests c, msg_digests),
           (trigger = SCHEDULED \<and> frequency \<notin> Some ` set (pc_schedule_frequencies c), msg_frequency),
           (email \<and> \<not> pc_email_delivery c, msg_email)]))"

lemma reasons_Nil_iff:
  "reasons (Some c) usage requested trigger n f email = [] \<longleftrightarrow>
     ut_completed_runs usage + ut_reserved_runs usage + 1 \<le> pc_runs_per_month c
     \<and> (trigger = MANUAL \<longrightarrow> ut_manual_runs usage + 1 \<le> pc_manual_runs_per_month c)
     \<and> ut_completed_papers usage + ut_reserved_papers usage + requested \<le> pc_papers_per_month c
     \<and> requested \<le> pc_max_papers_per_run c \<and> n \<le> pc_max_digests c
     \<and> (trigger = SCHEDULED \<longrightarrow> f \<in> Some ` set (pc_schedule_frequencies c))
     \<and> (email \<longrightarrow> pc_email_delivery c)"
  by (simp add: reasons_def not_less)

text \<open>A plan that includes another refuses no run the other would accept.\<close>

lemma reasons_mono:
  assumes "plan_includes (from_configuration better) (from_configuration c)"
    and "reasons (Some c) usage requested trigger n f email = []"
  shows "reasons (Some better) usage requested trigger n f email = []"
  using assms
  unfolding reasons_Nil_iff plan_includes_def from_configuration_def
  by (auto intro: le_trans)

definition digest_count :: "db \<Rightarrow> uuid \<Rightarrow> nat" where
  "digest_count d user = length (filter (\<lambda>g. dg_owner_id g = user) (digests d))"

subsection \<open>Reserving and settling a run\<close>

definition observed_run :: "uuid \<Rightarrow> db \<Rightarrow> ObservedRunUsage option" where
  "observed_run key d = get_row ob_run_key key (observed_runs d)"

definition set_observed :: "uuid \<Rightarrow> (ObservedRunUsage \<Rightarrow> ObservedRunUsage) \<Rightarrow> unit sess" where
  "set_observed key f =
     change (\<lambda>d. d\<lparr>observed_runs := update_where (\<lambda>r. ob_run_key r = key) f (observed_runs d)\<rparr>)"

definition schedule_context :: "DigestSchedule option \<Rightarrow> DigestRunTrigger \<Rightarrow> RequestContext" where
  "schedule_context schedule trigger =
     \<lparr>cx_frequency = map_option sch_frequency schedule,
      cx_send_email = (case schedule of None \<Rightarrow> False | Some s \<Rightarrow> sch_send_email s) \<and> trigger = SCHEDULED\<rparr>"

definition new_observed :: "DigestRun \<Rightarrow> ObservationAssignment option \<Rightarrow> datetime \<Rightarrow> ObservedRunUsage" where
  "new_observed run assignment stamp =
     \<lparr>ob_run_key = rn_id run, ob_digest_id = rn_digest_id run, ob_user_id = rn_owner_id run,
      ob_assignment_id = map_option om_id assignment, ob_topic = ds_topic (rn_digest_snapshot run),
      ob_period_start = obs_month stamp, ob_trigger = rn_trigger run, ob_state = Released,
      ob_requested_papers = ds_maximum_papers (rn_digest_snapshot run), ob_actual_papers = 0,
      ob_attempts = 1, ob_assessments = [], ob_updated_at = stamp\<rparr>"

definition obs_context :: "ObservedRunUsage \<Rightarrow> DigestSchedule option \<Rightarrow> RequestContext" where
  "obs_context row schedule =
     (case ob_assessments row of [] \<Rightarrow> schedule_context schedule (ob_trigger row)
      | a # _ \<Rightarrow> at_request_context a)"

text \<open>The last part of \<open>reserve\<close>: the row is present and released.\<close>

definition assess_observed ::
  "DigestRun \<Rightarrow> DigestSchedule option \<Rightarrow> ObservationAssignment option \<Rightarrow> ObservedRunUsage
     \<Rightarrow> datetime \<Rightarrow> unit sess" where
  "assess_observed run schedule assignment row stamp =
     bind (query (\<lambda>d. reasons (map_option pl_configuration (plan_for d assignment))
              (obs_totals d (rn_owner_id run) (ob_period_start row)) (ob_requested_papers row)
              (ob_trigger row) (digest_count d (rn_owner_id run))
              (cx_frequency (obs_context row schedule)) (cx_send_email (obs_context row schedule))))
       (\<lambda>assessed.
     seq (set_observed (rn_id run) (\<lambda>r. r\<lparr>ob_assessments := ob_assessments r
              @ [\<lparr>at_at = stamp, at_reasons = assessed, at_would_block = (assessed \<noteq> []),
                  at_request_context = obs_context row schedule\<rparr>],
            ob_state := Reserved, ob_updated_at := stamp\<rparr>))
     flush)"

definition obs_reserve :: "DigestRun \<Rightarrow> DigestSchedule option \<Rightarrow> unit sess" where
  "obs_reserve run schedule =
     seq (lock_account (rn_owner_id run))
     (bind (query (observed_run (rn_id run))) (\<lambda>found.
     case found of
       Some row \<Rightarrow>
         if ob_state row \<noteq> Released then ret ()
         else bind now (\<lambda>stamp.
           bind (query (\<lambda>d. case ob_assignment_id row of None \<Rightarrow> None
                   | Some k \<Rightarrow> get_row om_id k (assignments d))) (\<lambda>assignment.
           seq (set_observed (rn_id run) (\<lambda>r. r\<lparr>ob_attempts := ob_attempts r + 1\<rparr>))
           (assess_observed run schedule assignment row stamp)))
     | None \<Rightarrow>
         bind now (\<lambda>stamp.
         bind (query (\<lambda>d. current_assignment d (rn_owner_id run))) (\<lambda>assignment.
         let row = new_observed run assignment stamp
         in seq (change (\<lambda>d. d\<lparr>observed_runs := observed_runs d @ [row]\<rparr>))
            (assess_observed run schedule assignment row stamp)))))"

text \<open>The papers of a run that have a saved summary.\<close>

definition summarised_papers :: "uuid \<Rightarrow> db \<Rightarrow> nat" where
  "summarised_papers run d =
     length (filter (\<lambda>p. dp_run_id p = run \<and> dp_summary_data p \<noteq> None) (run_papers d))"

definition obs_settle :: "DigestRun \<Rightarrow> bool \<Rightarrow> unit sess" where
  "obs_settle run success =
     seq (lock_account (rn_owner_id run))
     (bind (query (observed_run (rn_id run))) (\<lambda>found.
     case found of
       None \<Rightarrow> ret ()
     | Some row \<Rightarrow>
         if ob_state row \<noteq> Reserved then ret ()
         else seq flush
           (bind (query (summarised_papers (rn_id run))) (\<lambda>n.
           bind now (\<lambda>stamp.
           seq (set_observed (rn_id run) (\<lambda>r. r\<lparr>ob_actual_papers := n,
                  ob_state := (if success then Settled else Released), ob_updated_at := stamp\<rparr>))
           flush)))))"

subsection \<open>Overview\<close>

record Remaining =
  rem_runs :: nat
  rem_manual_runs :: nat
  rem_papers :: nat
  rem_digests :: nat

definition remaining :: "PlanConfiguration \<Rightarrow> UsageTotals \<Rightarrow> nat \<Rightarrow> Remaining" where
  "remaining c u count =
     \<lparr>rem_runs = pc_runs_per_month c - (ut_completed_runs u + ut_reserved_runs u),
      rem_manual_runs = pc_manual_runs_per_month c - ut_manual_runs u,
      rem_papers = pc_papers_per_month c - (ut_completed_papers u + ut_reserved_papers u),
      rem_digests = pc_max_digests c - count\<rparr>"

subsection \<open>Lemmas\<close>

lemma lock_account_eq:
  "\<exists>accounts. lock_account user s = (Inr (), s\<lparr>ticks := Suc (ticks s),
     working := (working s)\<lparr>observation_accounts := accounts\<rparr>\<rparr>)"
  by (simp add: lock_account_def run_steps Let_def) (auto simp: run_simps)

lemma obs_keeps [keeps_intros]:
  "keeps (both rows_ok) (lock_account user)"
  "keeps (both rows_ok) (set_observed key f)"
  unfolding lock_account_def set_observed_def
  by (intro keeps_intros rows_ok_other_tables; simp add: Let_def)+

lemma obs_reserve_keeps [keeps_intros]: "keeps (both rows_ok) (obs_reserve run schedule)"
  unfolding obs_reserve_def assess_observed_def Let_def
  by (intro keeps_intros rows_ok_other_tables; simp)

lemma obs_settle_keeps [keeps_intros]: "keeps (both rows_ok) (obs_settle run success)"
  unfolding obs_settle_def by (intro keeps_intros)

text \<open>Repeating a reservation or a settlement changes the ledger only once.\<close>

lemma obs_reserve_again:
  assumes "observed_run (rn_id run) (working s) = Some row" and "ob_state row \<noteq> Released"
  shows "fst (obs_reserve run schedule s) = Inr ()"
    and "observed_runs (working (snd (obs_reserve run schedule s))) = observed_runs (working s)"
  using lock_account_eq [of "rn_owner_id run" s] assms
  by (auto simp: obs_reserve_def step_Inr step_query observed_run_def run_simps)

lemma obs_settle_unreserved:
  assumes "case observed_run (rn_id run) (working s) of None \<Rightarrow> True | Some row \<Rightarrow> ob_state row \<noteq> Reserved"
  shows "fst (obs_settle run success s) = Inr ()"
    and "observed_runs (working (snd (obs_settle run success s))) = observed_runs (working s)"
  using lock_account_eq [of "rn_owner_id run" s] assms
  by (auto simp: obs_settle_def step_Inr step_query observed_run_def run_simps split: option.splits)

end
