(* ===== verification/Access.thy ===== *)
theory Access
  imports Observation Calendar
begin

section \<open>Subscription entitlements
  (backend/app/services/subscription_access_service.py)\<close>

text \<open>
  Whether an account may start research, and the ledger of what it used.  \<open>resolve_billing\<close>
  reads the saved billing rows; \<open>resolve\<close> adds the Free fallback, the account's allowance
  window and the pausing of schedules a plan no longer covers; \<open>assess\<close> lists what stands
  against one more run, \<open>reserve\<close> admits a run and \<open>settle\<close> closes it.
\<close>

definition msg_closing :: string where
  "msg_closing = ''This account is closing. New research and settings changes are unavailable.''"

definition require_open_account :: "uuid \<Rightarrow> unit sess" where
  "require_open_account user =
     bind (query (\<lambda>d. case get_row usr_id user (users d) of None \<Rightarrow> False
              | Some u \<Rightarrow> usr_closure_requested_at u \<noteq> None)) (\<lambda>closing.
     guard (\<not> closing) (AccessDenied 403) msg_closing)"

record Access =
  ac_mode :: access_mode
  ac_version :: nat
  ac_allowed :: bool
  ac_reason :: string
  ac_status :: string
  ac_plan :: "PlanRevision option"
  ac_checkout_id :: "uuid option"
  ac_period_start :: "datetime option"
  ac_period_end :: "datetime option"
  ac_grace_until :: "datetime option"
  ac_access_until :: "datetime option"
  ac_billing_type :: "billing_type option"
  ac_fallback_eligible :: bool
  ac_fallback :: bool
  ac_active_digest_ids :: "uuid list option"

subsection \<open>Texts\<close>

definition msg_complimentary :: string where
  "msg_complimentary = ''Complimentary development access.''"
definition msg_unverified :: string where
  "msg_unverified = ''No verified subscription. Review Subscription and usage.''"
definition msg_free :: string where
  "msg_free = ''Free subscription limits apply.''"
definition msg_ended :: string where
  "msg_ended = ''The paid subscription ended or its initial payment is incomplete.''"
definition msg_price :: string where
  "msg_price = ''The subscription price differs from the saved plan. Ask an admin to review billing synchronization.''"
definition msg_sync :: string where
  "msg_sync = ''Subscription synchronization is overdue. New research is paused until billing is verified.''"
definition msg_period :: string where
  "msg_period = ''The subscription period is not verified yet. Ask an admin to reconcile billing.''"
definition msg_payment :: string where
  "msg_payment = ''Payment verification is pending or overdue. Ask an admin to reconcile billing.''"
definition msg_paused :: string where
  "msg_paused = '' New research is paused; saved results remain available.''"
definition msg_limits :: string where
  "msg_limits = ''Sandbox subscription limits apply.''"
definition msg_grace_ended :: string where
  "msg_grace_ended = ''Renewal grace period has ended. Resolve payment to start new research.''"
definition msg_not_allowed :: string where
  "msg_not_allowed = ''The subscription does not currently allow new research. Saved results remain available.''"
definition msg_fallback :: string where
  "msg_fallback = ''Free access applies because paid access has ended. Saved research is retained. Any outstanding payment and Stripe retries remain separate.''"
definition msg_inactive_digest :: string where
  "msg_inactive_digest = ''This digest is inactive under your plan. Choose it in Subscription and usage to run research; saved results remain available.''"
definition msg_schedule_paused :: string where
  "msg_schedule_paused = ''This schedule is paused. Review and save it to resume from its next future occurrence.''"

text \<open>\<open>datetime.isoformat\<close> of an aware UTC value; a fraction is printed when there is one.\<close>

definition dt_isoformat :: "datetime \<Rightarrow> string" where
  "dt_isoformat t =
     (let us = dt_time t; s = us div 1000000; f = us mod 1000000
      in isoformat (dt_date t) @ ''T'' @ pad 2 (s div 3600) @ '':'' @ pad 2 (s div 60 mod 60) @ '':''
         @ pad 2 (s mod 60) @ (if f = 0 then [] else ''.'' @ pad 6 f) @ ''+00:00'')"

subsection \<open>Reading the billing rows\<close>

definition checkout_row :: "db \<Rightarrow> uuid \<Rightarrow> Checkout option" where
  "checkout_row d user =
     first_by (\<lambda>c. (- co_created_at c, - int (co_id c)))
       (filter (\<lambda>c. co_user_id c = user \<and> co_subscription_id c \<noteq> None) (checkouts d))"

definition overdue :: "datetime option \<Rightarrow> datetime \<Rightarrow> int \<Rightarrow> bool" where
  "overdue seen_at stamp max_age = (case seen_at of None \<Rightarrow> True | Some t \<Rightarrow> stamp - t > seconds max_age)"

text \<open>The chain of conditions on a subscription that has not ended: the new \<open>allowed\<close>,
  \<open>reason\<close>, \<open>grace_until\<close> and \<open>access_until\<close>.\<close>

definition paid_access :: "Checkout \<Rightarrow> Payment \<Rightarrow> datetime \<Rightarrow> Settings \<Rightarrow> Access \<Rightarrow> Access" where
  "paid_access row payment stamp settings r =
     (let status = co_subscription_status row;
          max_age = set_subscription_sync_max_age_seconds settings
      in if \<not> co_price_matches row then r\<lparr>ac_reason := msg_price\<rparr>
         else if overdue (co_observed_at row) stamp max_age then r\<lparr>ac_reason := msg_sync\<rparr>
         else if co_billing_anchor row = None \<or> (case ac_period_start r of None \<Rightarrow> True | Some p \<Rightarrow> p > stamp)
                 \<or> ac_period_end r = None then r\<lparr>ac_reason := msg_period\<rparr>
         else if overdue (co_invoices_checked_at row) stamp max_age then r\<lparr>ac_reason := msg_payment\<rparr>
         else (case py_issue payment of
             Some issue \<Rightarrow> r\<lparr>ac_reason := issue @ msg_paused\<rparr>
           | None \<Rightarrow>
               if status = Some ''active'' \<and> py_covered payment
               then r\<lparr>ac_allowed := True, ac_reason := msg_limits, ac_access_until := py_paid_through payment\<rparr>
               else (case py_grace_until payment of
                   Some end \<Rightarrow>
                     if status \<in> {Some ''active'', Some ''past_due''}
                     then r\<lparr>ac_grace_until := Some end, ac_access_until := Some end,
                            ac_allowed := stamp < end,
                            ac_reason := (if stamp < end then ''Renewal payment failed or is pending. Grace period ends ''
                              @ dt_isoformat end @ ''.'' else msg_grace_ended)\<rparr>
                     else r\<lparr>ac_reason := msg_not_allowed\<rparr>
                 | None \<Rightarrow> r\<lparr>ac_reason := msg_not_allowed\<rparr>)))"

definition fallback_allowed :: "Checkout \<Rightarrow> Payment \<Rightarrow> datetime \<Rightarrow> Access \<Rightarrow> bool" where
  "fallback_allowed row payment stamp r \<longleftrightarrow>
     \<not> ac_allowed r \<and> py_issue payment = None \<and> co_price_matches row \<and> co_billing_anchor row \<noteq> None
     \<and> co_observed_at row \<noteq> None \<and> co_invoices_checked_at row \<noteq> None
     \<and> ((co_cancel_at_period_end row
           \<and> (case py_paid_through payment of None \<Rightarrow> False | Some e \<Rightarrow> stamp \<ge> e))
        \<or> (\<not> py_covered payment
           \<and> ((co_subscription_status row \<in> {Some ''past_due'', Some ''unpaid''} \<and> py_grace_until payment = None)
              \<or> (co_subscription_status row \<in> {Some ''active'', Some ''past_due'', Some ''unpaid''}
                 \<and> (case py_grace_until payment of None \<Rightarrow> False | Some g \<Rightarrow> stamp \<ge> g)))))"

definition base_access :: "AccessPolicy option \<Rightarrow> Access" where
  "base_access selected =
     \<lparr>ac_mode = (case selected of None \<Rightarrow> Complimentary | Some p \<Rightarrow> pol_mode p),
      ac_version = (case selected of None \<Rightarrow> 0 | Some p \<Rightarrow> pol_version p), ac_allowed = True,
      ac_reason = msg_complimentary, ac_status = ''complimentary'', ac_plan = None,
      ac_checkout_id = None, ac_period_start = None, ac_period_end = None,
      ac_grace_until = None, ac_access_until = None, ac_billing_type = None,
      ac_fallback_eligible = False, ac_fallback = False, ac_active_digest_ids = None\<rparr>"

definition status_text :: "string option \<Rightarrow> string" where
  "status_text st = (case st of None \<Rightarrow> ''None'' | Some x \<Rightarrow> x)"

definition resolve_billing :: "db \<Rightarrow> uuid \<Rightarrow> Settings \<Rightarrow> datetime \<Rightarrow> exn + Access" where
  "resolve_billing d user settings stamp =
     (let r0 = base_access (policy_of d user)
      in if ac_mode r0 = Complimentary then Inr r0
         else
           (let r = r0\<lparr>ac_allowed := False, ac_status := ''unavailable'', ac_reason := msg_unverified\<rparr>
            in case checkout_row d user of
                 None \<Rightarrow> (case get_row fs_user_id user (free_subs d) of
                     None \<Rightarrow> Inr r
                   | Some free \<Rightarrow> (case get_row pl_id (fs_plan_revision_id free) (plans d) of
                         None \<Rightarrow> Inl (Exn AttributeErrorPy [])
                       | Some plan \<Rightarrow>
                           (let w = window (fs_anchor free) stamp
                            in Inr (r\<lparr>ac_allowed := True, ac_status := ''free'', ac_reason := msg_free,
                                 ac_billing_type := Some BillingFree, ac_plan := Some plan,
                                 ac_period_start := Some (fst w), ac_period_end := Some (snd w)\<rparr>))))
               | Some row \<Rightarrow> (case get_row pl_id (co_plan_revision_id row) (plans d) of
                     None \<Rightarrow> Inl (Exn AttributeErrorPy [])
                   | Some plan \<Rightarrow>
                       (let r1 = r\<lparr>ac_billing_type := Some BillingStripe, ac_checkout_id := Some (co_id row),
                              ac_status := status_text (co_subscription_status row), ac_plan := Some plan\<rparr>;
                            r2 = (case co_billing_anchor row of None \<Rightarrow> r1
                              | Some anchor \<Rightarrow> r1\<lparr>ac_period_start := Some (fst (window anchor stamp)),
                                                  ac_period_end := Some (snd (window anchor stamp))\<rparr>)
                        in if co_subscription_status row
                                \<in> {Some ''canceled'', Some ''incomplete_expired'', Some ''incomplete''}
                           then Inr (r2\<lparr>ac_fallback_eligible := True, ac_reason := msg_ended\<rparr>)
                           else
                             (let payment = assessment d row stamp (set_subscription_grace_days settings) None 0;
                                  r3 = paid_access row payment stamp settings r2
                              in Inr (r3\<lparr>ac_fallback_eligible := fallback_allowed row payment stamp r3\<rparr>))))))"

subsection \<open>Which digests a plan keeps active\<close>

definition latest_successful_run_at :: "db \<Rightarrow> uuid \<Rightarrow> datetime option" where
  "latest_successful_run_at d digest =
     (let times = List.map_filter rn_completed_at
            (filter (\<lambda>r. rn_digest_id r = digest \<and> rn_status r = COMPLETED) (digest_runs d))
      in if times = [] then None else Some (Max (set times)))"

definition last_used :: "db \<Rightarrow> Digest \<Rightarrow> datetime" where
  "last_used d g = (case latest_successful_run_at d (dg_id g) of None \<Rightarrow> dg_updated_at g | Some t \<Rightarrow> t)"

definition available_digests :: "db \<Rightarrow> uuid \<Rightarrow> uuid list" where
  "available_digests d user =
     map dg_id (sort_key (\<lambda>g. (- last_used d g, - dg_created_at g, dg_id g))
       (filter (\<lambda>g. dg_owner_id g = user) (digests d)))"

definition choose_digests :: "uuid list \<Rightarrow> uuid list \<Rightarrow> nat \<Rightarrow> uuid list" where
  "choose_digests preferences available limit =
     (let kept = take limit (filter (\<lambda>i. i \<in> set available) preferences)
      in kept @ take (limit - length kept) (filter (\<lambda>i. i \<notin> set kept) available))"

definition set_state :: "uuid \<Rightarrow> (AccountState \<Rightarrow> AccountState) \<Rightarrow> unit sess" where
  "set_state user f =
     change (\<lambda>d. d\<lparr>account_states := update_where (\<lambda>a. as_user_id a = user) f (account_states d)\<rparr>)"

definition free_digest_ids :: "uuid \<Rightarrow> AccountState \<Rightarrow> nat \<Rightarrow> bool \<Rightarrow> uuid list sess" where
  "free_digest_ids user state limit paid =
     bind (query (\<lambda>d. available_digests d user)) (\<lambda>available.
       let preferences = (if paid then as_paid_digest_ids state else as_preferred_digest_ids state);
           chosen = choose_digests preferences available limit
       in seq (if preferences \<noteq> chosen
               then set_state user (\<lambda>a. if paid then a\<lparr>as_paid_digest_ids := chosen\<rparr>
                                        else a\<lparr>as_preferred_digest_ids := chosen\<rparr>)
               else ret ())
          (ret chosen))"

text \<open>A saved schedule the plan no longer covers is paused.\<close>

definition outside_plan :: "PlanConfiguration \<Rightarrow> uuid list \<Rightarrow> Digest \<Rightarrow> DigestSchedule \<Rightarrow> bool" where
  "outside_plan c ids g s \<longleftrightarrow> dg_id g \<notin> set ids \<or> dg_maximum_papers g > pc_max_papers_per_run c
     \<or> sch_frequency s \<notin> set (pc_schedule_frequencies c)
     \<or> (sch_send_email s \<and> \<not> pc_email_delivery c)"

definition pause_digest :: "Digest \<Rightarrow> Digest" where
  "pause_digest g = g\<lparr>dg_schedule_paused := True, dg_schedule_next_at := None,
     dg_subscription_retry_at := None\<rparr>"

definition to_pause :: "uuid \<Rightarrow> PlanConfiguration \<Rightarrow> uuid list \<Rightarrow> Digest \<Rightarrow> bool" where
  "to_pause user c ids g \<longleftrightarrow> dg_owner_id g = user
     \<and> (case dg_schedule g of None \<Rightarrow> False | Some s \<Rightarrow> outside_plan c ids g s)"

subsection \<open>Resolving\<close>

text \<open>\<open>str\<close> of a UUID: thirty-two hexadecimal digits in five groups.\<close>

fun hex_digits :: "nat \<Rightarrow> nat \<Rightarrow> string" where
  "hex_digits 0 n = []"
| "hex_digits (Suc w) n = hex_digits w (n div 16) @ [''0123456789abcdef'' ! (n mod 16)]"

definition uuid_text :: "uuid \<Rightarrow> string" where
  "uuid_text u =
     (let s = hex_digits 32 u
      in take 8 s @ ''-'' @ take 4 (drop 8 s) @ ''-'' @ take 4 (drop 12 s) @ ''-''
         @ take 4 (drop 16 s) @ ''-'' @ drop 20 s)"

definition fallback_text :: string where
  "fallback_text = ''Paid access ended or payment grace expired. Your Free limits now apply. Saved research is retained, incompatible schedules are paused, and used allowance is preserved. Outstanding Stripe payments remain separate.''"

definition recovery_text :: string where
  "recovery_text = ''Your paid access has been verified again. Used allowance is preserved. Review and explicitly save any paused schedule to resume future runs.''"

definition account_state :: "uuid \<Rightarrow> Access \<Rightarrow> datetime \<Rightarrow> AccountState sess" where
  "account_state user result stamp =
     bind (query (\<lambda>d. get_row as_user_id user (account_states d))) (\<lambda>found.
     case found of
       Some a \<Rightarrow> ret a
     | None \<Rightarrow>
         bind (query (\<lambda>d.
           let paid = (case ac_checkout_id result of None \<Rightarrow> None
                        | Some k \<Rightarrow> get_row co_id k (checkouts d));
               paid_anchor = (case paid of None \<Rightarrow> None | Some c \<Rightarrow> co_billing_anchor c)
           in case paid_anchor of Some a \<Rightarrow> a
              | None \<Rightarrow> (case get_row fs_user_id user (free_subs d) of
                  None \<Rightarrow> stamp | Some f \<Rightarrow> fs_anchor f))) (\<lambda>anchor.
         let a = \<lparr>as_user_id = user, as_allowance_anchor = anchor, as_paid_digest_ids = [],
                  as_preferred_digest_ids = [], as_effective_type = None, as_fallback_since = None\<rparr>
         in seq (change (\<lambda>d. d\<lparr>account_states := account_states d @ [a]\<rparr>)) (seq flush (ret a))))"

text \<open>Recording which kind of access is in effect, with the notice of a change.\<close>

definition record_effective :: "uuid \<Rightarrow> AccountState \<Rightarrow> Access \<Rightarrow> datetime \<Rightarrow> unit sess" where
  "record_effective user state result stamp =
     (case ac_billing_type result of
        None \<Rightarrow> ret ()
      | Some kind \<Rightarrow>
          if \<not> ac_allowed result then ret ()
          else seq (if kind = BillingFree \<and> ac_fallback result \<and> as_fallback_since state = None
                    then seq (set_state user (\<lambda>a. a\<lparr>as_fallback_since := Some stamp\<rparr>))
                         (enqueue user (''fallback:'' @ uuid_text user @ '':'' @ dt_isoformat stamp)
                            ''Free access is now active'' fallback_text)
                    else ret ())
               (seq (if kind = BillingStripe
                     then seq (case as_fallback_since state of None \<Rightarrow> ret ()
                               | Some since \<Rightarrow> enqueue user (''recovery:'' @ uuid_text user @ '':''
                                    @ dt_isoformat since) ''Paid access restored'' recovery_text)
                          (set_state user (\<lambda>a. a\<lparr>as_fallback_since := None\<rparr>))
                     else ret ())
               (set_state user (\<lambda>a. a\<lparr>as_effective_type := Some kind\<rparr>))))"

definition activate_digests :: "uuid \<Rightarrow> AccountState \<Rightarrow> Access \<Rightarrow> Access sess" where
  "activate_digests user state result =
     (case (ac_billing_type result, ac_plan result) of
        (Some kind, Some plan) \<Rightarrow>
          if \<not> ac_allowed result then ret result
          else bind (free_digest_ids user state (pc_max_digests (pl_configuration plan))
                       (kind = BillingStripe)) (\<lambda>ids.
            bind (query (\<lambda>d. case ac_checkout_id result of None \<Rightarrow> False
                    | Some k \<Rightarrow> (\<exists>c \<in> set (changes d). ch_checkout_id c = k \<and> ch_applied_at c \<noteq> None)))
              (\<lambda>changed_paid_plan.
            seq (if kind = BillingStripe \<and> \<not> changed_paid_plan then ret ()
                 else change (\<lambda>d. d\<lparr>digests := update_where
                        (to_pause user (pl_configuration plan) ids) pause_digest (digests d)\<rparr>))
            (ret (result\<lparr>ac_active_digest_ids := Some ids\<rparr>))))
      | _ \<Rightarrow> ret result)"

definition fall_back :: "uuid \<Rightarrow> AccountState \<Rightarrow> Access \<Rightarrow> Access sess" where
  "fall_back user state result =
     (if ac_fallback_eligible result \<or> (as_fallback_since state \<noteq> None \<and> \<not> ac_allowed result)
      then bind (assign_free user (as_allowance_anchor state)) (\<lambda>free.
           bind (query (\<lambda>d. get_row pl_id (fs_plan_revision_id free) (plans d))) (\<lambda>plan.
           case plan of
             None \<Rightarrow> raise AttributeErrorPy []
           | Some p \<Rightarrow> ret (result\<lparr>ac_allowed := True, ac_billing_type := Some BillingFree,
               ac_status := ''free'', ac_checkout_id := None, ac_plan := Some p,
               ac_grace_until := None, ac_access_until := None, ac_fallback := True,
               ac_reason := msg_fallback\<rparr>)))
      else ret (result\<lparr>ac_fallback := False\<rparr>))"

definition resolve_locked :: "uuid \<Rightarrow> Settings \<Rightarrow> Access sess" where
  "resolve_locked user settings =
     seq (lock_account user)
     (bind now (\<lambda>stamp0.
     bind (query (\<lambda>d. resolve_billing d user settings stamp0)) (\<lambda>billing.
     bind (lift_result billing) (\<lambda>result0.
     bind now (\<lambda>stamp.
     bind (account_state user result0 stamp) (\<lambda>state.
     bind (fall_back user state result0) (\<lambda>result1.
     let w = window (as_allowance_anchor state) stamp;
         result2 = result1\<lparr>ac_period_start := Some (fst w), ac_period_end := Some (snd w)\<rparr>
     in seq (record_effective user state result2 stamp)
        (bind (activate_digests user state result2) (\<lambda>result3.
         seq flush (ret result3))))))))))"

definition resolve :: "uuid \<Rightarrow> Settings \<Rightarrow> Access sess" where
  "resolve user settings =
     seq (require_open_account user)
     (bind (query (\<lambda>d. policy_of d user)) (\<lambda>selected.
     case selected of
       None \<Rightarrow> bind now (\<lambda>stamp. bind (query (\<lambda>d. resolve_billing d user settings stamp)) lift_result)
     | Some p \<Rightarrow>
         if pol_mode p = Complimentary
         then bind now (\<lambda>stamp. bind (query (\<lambda>d. resolve_billing d user settings stamp)) lift_result)
         else resolve_locked user settings))"

end
