(* ===== verification/QualityService.thy ===== *)
theory QualityService
  imports RunFacts
begin

section \<open>Recording quality decisions
  (backend/app/services/research_quality_service.py, research_quality_settings.py,
  manual_quality_service.py)\<close>

text \<open>
  \<open>assess_run\<close> evaluates a finished run inside the completing transaction and decides
  whether its email may be delivered; a check that cannot complete holds the output.
  \<open>delivery_allowed\<close> reads that decision back.  \<open>evaluate_manually\<close> repeats the checks on
  request and only appends an audit row.
\<close>

definition ENGINE_VERSION :: string where
  "ENGINE_VERSION = ''1''"

subsection \<open>Settings\<close>

definition current_settings :: "db \<Rightarrow> QualitySettings" where
  "current_settings d =
     (case first_by (\<lambda>r. - st_version r) (quality_settings d) of
        None \<Rightarrow> \<lparr>st_version = 0, st_config = default_QualityConfig\<rparr>
      | Some r \<Rightarrow> r)"

definition snapshot_settings :: "db \<Rightarrow> saved_config" where
  "snapshot_settings d =
     (let c = current_settings d
      in SavedSnapshot \<lparr>qs_version = st_version c, qs_engine_version = ENGINE_VERSION,
           qs_config = st_config c\<rparr>)"

subsection \<open>The automatic assessment\<close>

definition stage_results_of :: "uuid \<Rightarrow> db \<Rightarrow> stage_results" where
  "stage_results_of run d = map (\<lambda>s. (sg_stage s, sg_result_data s)) (stages_of run d)"

definition failed_decision :: QualityDecision where
  "failed_decision = \<lparr>qd_status = QHold, qd_findings = [finding ''evaluation_failed'' SevHold
     ''Required quality checks could not complete. Output needs review.'' {}]\<rparr>"

definition merge_findings :: "QualityDecision \<Rightarrow> QualityFinding list \<Rightarrow> QualityDecision" where
  "merge_findings decision extra =
     (let fs = qd_findings decision @ extra
      in \<lparr>qd_status = (if list_ex (\<lambda>f. qf_severity f = SevHold) fs then QHold else QWarning),
          qd_findings = fs\<rparr>)"

text \<open>The \<open>try\<close> block: the mode as far as it was read, and the decision or the failed one.\<close>

definition run_decision ::
  "saved_config \<Rightarrow> DigestSnapshot \<Rightarrow> stage_results \<Rightarrow> QualityFinding list
     \<Rightarrow> QualityMode option \<times> QualityDecision" where
  "run_decision config snapshot stages source_findings =
     (case config of
        UnreadableSnapshot m \<Rightarrow> (None, failed_decision)
      | SavedSnapshot q \<Rightarrow>
          (let mode = qc_mode (qs_config q)
           in (Some mode,
               if qs_engine_version q \<noteq> ENGINE_VERSION then failed_decision
               else (case evaluate_quality (ds_reporting_from snapshot) (ds_reporting_to snapshot)
                            stages (qs_config q) of
                       Inl e \<Rightarrow> failed_decision
                     | Inr decision \<Rightarrow>
                         if mode \<noteq> ModeOff \<and> source_findings \<noteq> []
                         then merge_findings decision source_findings else decision))))"

definition held_text :: string where
  "held_text = ''Quality checks held this output. Automatic delivery is blocked.''"

definition assess_run :: "uuid \<Rightarrow> QualityFinding list \<Rightarrow> unit sess" where
  "assess_run i source_findings =
     bind (query (get_run i)) (\<lambda>found.
     case found of
       None \<Rightarrow> raise AttributeErrorPy []
     | Some run \<Rightarrow>
         (case rn_quality_config run of
            None \<Rightarrow> ret ()
          | Some config \<Rightarrow>
              if rn_quality_evaluated_at run \<noteq> None then ret ()
              else bind (query (stage_results_of i)) (\<lambda>stages.
                let (mode, decision) = run_decision config (rn_digest_snapshot run) stages source_findings;
                    blocked = (qd_status decision = QHold \<and> mode \<noteq> Some ModeObserve)
                in bind (if mode \<noteq> Some ModeOff then bind now (\<lambda>t. ret (Some t)) else ret None) (\<lambda>evaluated.
                   seq (set_run i (\<lambda>r. r\<lparr>rn_quality_status := qd_status decision,
                          rn_quality_findings := qd_findings decision,
                          rn_quality_evaluated_at := evaluated,
                          rn_quality_delivery_blocked := blocked\<rparr>))
                   (if blocked
                    then change (\<lambda>d. d\<lparr>deliveries := update_where (\<lambda>x. dl_run_id x = i)
                           (\<lambda>x. x\<lparr>dl_status := Held, dl_last_error := Some held_text\<rparr>) (deliveries d)\<rparr>)
                    else ret ())))))"

subsection \<open>Reading the decision\<close>

text \<open>\<open>quality_config["config"]["mode"]\<close> of the raw value.\<close>

fun raw_mode :: "saved_config \<Rightarrow> QualityMode option" where
  "raw_mode (SavedSnapshot q) = Some (qc_mode (qs_config q))"
| "raw_mode (UnreadableSnapshot m) = m"

definition delivery_allowed :: "DigestRun \<Rightarrow> bool" where
  "delivery_allowed run =
     (if rn_quality_delivery_blocked run then False
      else (case rn_quality_config run of
          None \<Rightarrow> True
        | Some config \<Rightarrow>
            if raw_mode config \<in> {Some ModeOff, Some ModeObserve} then True
            else raw_mode config = Some ModeEnforce \<and> rn_quality_evaluated_at run \<noteq> None
                 \<and> rn_quality_status run \<in> {QPass, QWarning}))"

fun quality_status_text :: "QualityStatus \<Rightarrow> string" where
  "quality_status_text NotEvaluated = ''not_evaluated''"
| "quality_status_text QPass = ''pass''"
| "quality_status_text QWarning = ''warning''"
| "quality_status_text QHold = ''hold''"

definition quality_email_note :: "DigestRun \<Rightarrow> string" where
  "quality_email_note run =
     (if rn_quality_status run = NotEvaluated
      then ''Quality checks: not evaluated. Consult the original sources.''
      else
        (let prefix = ''Quality checks: '' @ quality_status_text (rn_quality_status run)
               @ ''. These checks do not verify scientific claims.'';
             prefix = (if (case rn_quality_config run of None \<Rightarrow> False
                           | Some c \<Rightarrow> raw_mode c = Some ModeObserve)
                       then prefix @ '' Observation mode: findings do not block delivery.'' else prefix)
         in strip (prefix @ '' '' @ join '' '' (map qf_message (rn_quality_findings run)))))"

subsection \<open>Manual evaluation\<close>

definition stored_documents :: "uuid \<Rightarrow> db \<Rightarrow> documents" where
  "stored_documents run d = map (\<lambda>c. (sc_external_id c, sc_document c))
     (filter (\<lambda>c. sc_run_id c = run) (source_contents d))"

definition unavailable_error :: "string \<Rightarrow> 'a sess" where
  "unavailable_error m = raise ManualQualityUnavailableError m"

definition has_all_outputs :: "uuid \<Rightarrow> db \<Rightarrow> bool" where
  "has_all_outputs run d \<longleftrightarrow> list_all (\<lambda>t.
     case last_by sg_stage (stages_of run d) t of None \<Rightarrow> False
     | Some s \<Rightarrow> sg_status s = STAGE_COMPLETED \<and> sg_result_data s \<noteq> None) RADAR_STAGE_ORDER"

definition append_evidence :: "QualityDecision \<Rightarrow> QualityFinding list \<Rightarrow> QualityDecision" where
  "append_evidence decision extra =
     decision\<lparr>qd_findings := qd_findings decision @ extra,
              qd_status := (if extra \<noteq> [] \<and> qd_status decision = QPass then QWarning else qd_status decision)\<rparr>"

definition manual_decision ::
  "QualityConfig \<Rightarrow> DigestSnapshot \<Rightarrow> stage_results \<Rightarrow> documents \<Rightarrow> exn + QualityDecision" where
  "manual_decision config snapshot stages docs =
     (case evaluate_quality (ds_reporting_from snapshot) (ds_reporting_to snapshot) stages
             (config\<lparr>qc_mode := ModeObserve\<rparr>) of
        Inl e \<Rightarrow> Inl (Exn ManualQualityUnavailableError
          ''Saved research data is incomplete or incompatible with the current checks. No evaluation was recorded.'')
      | Inr decision \<Rightarrow>
          if \<not> qc_check_evidence_links config then Inr decision
          else (case parse_stage stages PAPER_SUMMARIES parse_summaries of
                  Inl e \<Rightarrow> Inl e
                | Inr summaries \<Rightarrow> Inr (append_evidence decision (evidence_findings docs summaries))))"

definition evaluate_manually :: "DigestRun \<Rightarrow> User \<Rightarrow> int \<Rightarrow> QualityEvaluation sess" where
  "evaluate_manually run actor expected =
     (if rn_status run \<noteq> COMPLETED
      then unavailable_error ''Quality checks require a completed research run.''
      else bind (query (has_all_outputs (rn_id run))) (\<lambda>complete.
        if \<not> complete
        then unavailable_error ''This run does not contain all saved stage outputs required for evaluation.''
        else bind (query current_settings) (\<lambda>settings.
          if st_version settings \<noteq> expected
          then unavailable_error ''Quality settings changed. Refresh the quality block before evaluating.''
          else bind (query (\<lambda>d. manual_decision (st_config settings) (rn_digest_snapshot run)
                       (stage_results_of (rn_id run) d) (stored_documents (rn_id run) d))) (\<lambda>result.
            bind (lift_result result) (\<lambda>decision.
            bind uuid4 (\<lambda>i. bind now (\<lambda>stamp.
              let row = \<lparr>ev_id = i, ev_run_id = rn_id run, ev_created_by = Some (usr_id actor),
                         ev_created_by_name = usr_full_name actor,
                    ev_config = \<lparr>qs_version = st_version settings, qs_engine_version = ENGINE_VERSION,
                                 qs_config = st_config settings\<rparr>,
                    ev_status = qd_status decision, ev_findings = qd_findings decision,
                    ev_created_at = stamp\<rparr>
              in seq (change (\<lambda>d. d\<lparr>quality_evaluations := quality_evaluations d @ [row]\<rparr>))
                 (seq commit (ret row)))))))))"

subsection \<open>Lemmas\<close>

lemma assess_run_keeps [keeps_intros]: "keeps (both rows_ok) (assess_run i fs)"
  unfolding assess_run_def Let_def
  by (intro keeps_intros rows_ok_set_run rows_ok_other_tables) (simp_all add: run_ok_def is_active_def)

text \<open>In the enforcing mode a finished assessment and the delivery agree.\<close>

definition assessed :: "DigestRun \<Rightarrow> saved_config \<Rightarrow> stage_results \<Rightarrow> QualityFinding list \<Rightarrow> datetime \<Rightarrow> DigestRun" where
  "assessed run config stages extra stamp =
     (case run_decision config (rn_digest_snapshot run) stages extra of (mode, decision) \<Rightarrow>
        run\<lparr>rn_quality_status := qd_status decision, rn_quality_findings := qd_findings decision,
            rn_quality_evaluated_at := (if mode \<noteq> Some ModeOff then Some stamp else None),
            rn_quality_delivery_blocked := (qd_status decision = QHold \<and> mode \<noteq> Some ModeObserve)\<rparr>)"

lemma assessed_id [simp]: "rn_id (assessed run config stages extra stamp) = rn_id run"
  by (simp add: assessed_def split: prod.split)

lemma assess_run_result:
  assumes dist: "distinct (map rn_id (digest_runs (working s)))" and mem: "run \<in> set (digest_runs (working s))"
    and config: "rn_quality_config run = Some config" and "rn_quality_evaluated_at run = None"
  shows "fst (assess_run (rn_id run) extra s) = Inr ()
    \<and> get_run (rn_id run) (working (snd (assess_run (rn_id run) extra s)))
       = Some (assessed run config (stage_results_of (rn_id run) (working s)) extra (clock s (ticks s)))"
proof -
  obtain mode decision where dec: "run_decision config (rn_digest_snapshot run)
      (stage_results_of (rn_id run) (working s)) extra = (mode, decision)" by fastforce
  have got: "get_run (rn_id run) (working s) = Some run"
    using dist mem by (simp add: get_run_def get_row_distinct)
  have upd: "get_row rn_id (rn_id run) (update_where (\<lambda>r. rn_id r = rn_id run) f (digest_runs (working s)))
      = Some (f run)" if "\<And>r. rn_id (f r) = rn_id r" for f :: "DigestRun \<Rightarrow> DigestRun"
    using set_run_row [OF dist mem, of f "\<lambda>_. True"] that by simp
  show ?thesis
    using assms dec got
    by (simp add: assess_run_def step_query Let_def)
       (auto simp: run_simps get_run_def assessed_def upd)
qed

lemma evaluated_status:
  assumes "evaluate_quality lo hi stages c = Inr dec" and "qc_mode c \<noteq> ModeOff"
  shows "qd_status dec \<in> {QPass, QWarning, QHold}"
proof -
  from evaluate_quality_cases [OF assms] obtain fs where "dec = decide fs" by metis
  then show ?thesis by (simp add: decide_def Let_def)
qed

lemma run_decision_status:
  assumes "qc_mode (qs_config q) \<noteq> ModeOff"
  shows "qd_status (snd (run_decision (SavedSnapshot q) snapshot stages extra)) \<in> {QPass, QWarning, QHold}"
  using assms evaluated_status [OF _ assms]
  by (auto simp: run_decision_def Let_def failed_decision_def merge_findings_def split: sum.splits)

lemma delivery_after_assessment:
  "delivery_allowed (assessed run config stages extra stamp) \<longleftrightarrow>
     (case config of
        UnreadableSnapshot m \<Rightarrow> False
      | SavedSnapshot q \<Rightarrow> (case qc_mode (qs_config q) of
            ModeEnforce \<Rightarrow> qd_status (snd (run_decision config (rn_digest_snapshot run) stages extra)) \<noteq> QHold
          | ModeObserve \<Rightarrow> True
          | ModeOff \<Rightarrow> qs_engine_version q = ENGINE_VERSION))"
  if "rn_quality_config run = Some config"
proof (cases config)
  case (UnreadableSnapshot m)
  then show ?thesis
    by (simp add: assessed_def run_decision_def delivery_allowed_def failed_decision_def)
next
  case (SavedSnapshot q)
  show ?thesis
  proof (cases "qc_mode (qs_config q)")
    case ModeOff
    then show ?thesis
      using SavedSnapshot that
      by (simp add: assessed_def run_decision_def delivery_allowed_def failed_decision_def
          evaluate_quality_def Let_def)
  next
    case ModeObserve
    then show ?thesis
      using SavedSnapshot that
      by (simp add: assessed_def run_decision_def delivery_allowed_def Let_def)
  next
    case ModeEnforce
    then have "qd_status (snd (run_decision (SavedSnapshot q) (rn_digest_snapshot run) stages extra))
        \<in> {QPass, QWarning, QHold}" by (intro run_decision_status) simp
    then show ?thesis
      using SavedSnapshot that ModeEnforce
      by (auto simp: assessed_def delivery_allowed_def Let_def run_decision_def split: prod.splits)
  qed
qed

text \<open>A manual evaluation changes nothing but the table of evaluations.\<close>

lemma evaluate_manually_frame:
  assumes "evaluate_manually run actor expected s = (r, s')"
  shows "\<exists>rows. working s' = (working s)\<lparr>quality_evaluations := rows\<rparr>
     \<and> (committed s' = committed s \<or> committed s' = working s')"
proof -
  have w: "\<exists>rows. d = d\<lparr>quality_evaluations := rows\<rparr>" for d :: db
    by (intro exI [of _ "quality_evaluations d"]) simp
  show ?thesis
    using assms w
    by (auto simp: evaluate_manually_def unavailable_error_def Let_def run_simps
        split: if_splits sum.splits prod.splits)
qed

end
