(* ===== verification/Execution.thy ===== *)
theory Execution
  imports QualityService
begin

section \<open>One stage request: lease, ledger and provider polling
  (backend/app/radar/lease.py, request_accounting.py, request_execution.py, client.py,
  backend/app/services/radar_pricing_service.py)\<close>

text \<open>
  A stage's request to the research provider runs under the worker's lease: every callback
  renews the lease before it writes, and every provider object seen is written to the
  request ledger and committed at once, independent of whether the stage is accepted.  The
  client creates or resumes a background response, polls it until it leaves the queue, and
  turns every failure into a \<open>RadarClientError\<close>.

  What the provider answers comes from the session's environment.  The polling loop runs on
  fuel; the fuel \<open>execute\<close> gives it is enough whenever the monotonic clock advances by the
  polling interval between two readings, as it does because the loop sleeps in between.
  The prompt text and the heartbeat file are not modelled.
\<close>

definition client_error :: "string \<Rightarrow> 'a sess" where
  "client_error m = raise RadarClientError m"

subsection \<open>The lease (lease.py)\<close>

record RunLease =
  le_worker_id :: "string option"
  le_lease_seconds :: int

definition closure_requested :: "uuid \<Rightarrow> db \<Rightarrow> bool" where
  "closure_requested owner d \<longleftrightarrow> (case get_row usr_id owner (users d) of None \<Rightarrow> False
     | Some u \<Rightarrow> usr_closure_requested_at u \<noteq> None)"

definition lease_renew :: "RunLease \<Rightarrow> uuid \<Rightarrow> uuid \<Rightarrow> unit sess" where
  "lease_renew lease run owner =
     bind (query (closure_requested owner)) (\<lambda>closing.
     if closing then client_error ''Account closure stopped this research run.''
     else (case le_worker_id lease of
        None \<Rightarrow> ret ()
      | Some worker \<Rightarrow>
          bind now (\<lambda>stamp.
          bind (renew_lease run worker (stamp + seconds (le_lease_seconds lease))) (\<lambda>renewed.
          if renewed then ret ()
          else seq rollback (client_error
            ''This worker lost its radar run lease; another worker may resume it'')))))"

definition lease_poll :: "RunLease \<Rightarrow> uuid \<Rightarrow> uuid \<Rightarrow> unit sess" where
  "lease_poll lease run owner = seq (lease_renew lease run owner) commit"

subsection \<open>Prices (radar_pricing_service.py)\<close>

definition current_price :: "string \<Rightarrow> datetime option \<Rightarrow> db \<Rightarrow> Pricing option" where
  "current_price model as_of d =
     map_option px_pricing (first_by (\<lambda>p. - int (px_id p)) (filter (\<lambda>p. px_model_name p = model
        \<and> (case as_of of None \<Rightarrow> True | Some t \<Rightarrow> px_created_at p \<le> t)) (radar_prices d)))"

subsection \<open>The request ledger (request_accounting.py)\<close>

record RequestAccounting =
  ac_run_id :: uuid
  ac_owner_id :: uuid
  ac_stage_id :: uuid
  ac_model_name :: string
  ac_reasoning_effort :: string
  ac_lease :: RunLease

definition model_of :: "string \<Rightarrow> ProviderResponse \<Rightarrow> string" where
  "model_of model r = (case resp_model r of None \<Rightarrow> model
     | Some m \<Rightarrow> if m = [] then model else m)"

definition in_progress :: "ProviderResponse \<Rightarrow> bool" where
  "in_progress r \<longleftrightarrow> resp_status r \<in> {''queued'', ''in_progress''}"

definition new_request ::
  "RequestAccounting \<Rightarrow> uuid \<Rightarrow> string \<Rightarrow> Pricing option \<Rightarrow> datetime \<Rightarrow> RadarRequest" where
  "new_request a i model pricing created =
     \<lparr>rq_id = i, rq_run_id = ac_run_id a, rq_stage_id = ac_stage_id a, rq_response_id = None,
      rq_model_name = model, rq_reasoning_effort = ac_reasoning_effort a, rq_status = ''submitted'',
      rq_outcome = Unconfirmed, rq_usage = None, rq_web_search_calls = None,
      rq_service_tier = None, rq_pricing = pricing, rq_created_at = created,
      rq_observed_at = None\<rparr>"

definition add_request :: "RadarRequest \<Rightarrow> unit sess" where
  "add_request q = change (\<lambda>d. d\<lparr>radar_requests := radar_requests d @ [q]\<rparr>)"

text \<open>The event \<open>submitted\<close>; the result is the collector's new current request.\<close>

definition observe_submitted :: "RequestAccounting \<Rightarrow> uuid option sess" where
  "observe_submitted a =
     seq (lease_renew (ac_lease a) (ac_run_id a) (ac_owner_id a))
     (bind (query (current_price (ac_model_name a) None)) (\<lambda>price.
     bind now (\<lambda>created.
     bind uuid4 (\<lambda>i.
     seq (add_request (new_request a i (ac_model_name a)
            (map_option (\<lambda>p. p\<lparr>pr_model_name := ac_model_name a\<rparr>) price) created))
     (seq commit (ret (Some i)))))))"

definition observed_request ::
  "string \<Rightarrow> ProviderResponse \<Rightarrow> Pricing option \<Rightarrow> datetime \<Rightarrow> RadarRequest \<Rightarrow> RadarRequest" where
  "observed_request model r actual_price stamp q =
     q\<lparr>rq_response_id := Some (resp_id r),
       rq_pricing := (if rq_model_name q \<noteq> model
          then (case actual_price of None \<Rightarrow> rq_pricing q
                | Some p \<Rightarrow> Some (p\<lparr>pr_model_name := model\<rparr>))
          else rq_pricing q),
       rq_model_name := model, rq_status := resp_status r,
       rq_usage := (case resp_usage r of None \<Rightarrow> rq_usage q | Some u \<Rightarrow> Some u),
       rq_web_search_calls := (if in_progress r then None else Some (resp_web_search_calls r)),
       rq_service_tier := resp_service_tier r, rq_observed_at := Some stamp\<rparr>"

definition current_or_new ::
  "RequestAccounting \<Rightarrow> uuid option \<Rightarrow> string \<Rightarrow> ProviderResponse \<Rightarrow> uuid sess" where
  "current_or_new a current model r =
     bind (query (find_by_response (ac_run_id a) (resp_id r))) (\<lambda>existing.
     case (existing, current) of
       (Some q, _) \<Rightarrow> ret (rq_id q)
     | (None, Some i) \<Rightarrow> ret i
     | (None, None) \<Rightarrow>
         bind uuid4 (\<lambda>i. bind now (\<lambda>created.
         seq (add_request (new_request a i model None created)) (ret i))))"

definition observe_response ::
  "RequestAccounting \<Rightarrow> uuid option \<Rightarrow> ProviderResponse \<Rightarrow> uuid option sess" where
  "observe_response a current r =
     (let model = model_of (ac_model_name a) r
      in seq (lease_renew (ac_lease a) (ac_run_id a) (ac_owner_id a))
        (bind (current_or_new a current model r) (\<lambda>i.
         bind (query (\<lambda>d. case get_row rq_id i (radar_requests d) of None \<Rightarrow> None
                 | Some q \<Rightarrow> current_price model (Some (rq_created_at q)) d)) (\<lambda>actual_price.
         bind now (\<lambda>stamp.
         seq (set_request i (observed_request model r actual_price stamp))
         (seq commit (ret (Some i))))))))"

definition persist_response_id :: "RequestAccounting \<Rightarrow> uuid option \<Rightarrow> string \<Rightarrow> unit sess" where
  "persist_response_id a current response =
     seq (lease_renew (ac_lease a) (ac_run_id a) (ac_owner_id a))
     (seq (record_response_started (ac_run_id a) (ac_stage_id a) response)
     (seq (case current of None \<Rightarrow> ret ()
           | Some i \<Rightarrow> set_request i (\<lambda>q. q\<lparr>rq_response_id := Some response\<rparr>))
     commit))"

definition clear_lost_response :: "RequestAccounting \<Rightarrow> unit sess" where
  "clear_lost_response a = seq (clear_active_response (ac_stage_id a)) commit"

subsection \<open>The provider client (client.py)\<close>

record ClientConfig =
  cl_model_name :: string
  cl_poll_timeout :: int
  cl_poll_interval :: int

fun stage_value :: "DigestRunStageType \<Rightarrow> string" where
  "stage_value DISCOVERY_RELEVANCE = ''discovery_relevance''"
| "stage_value PAPER_SUMMARIES = ''paper_summaries''"
| "stage_value TREND_ANALYSIS = ''trend_analysis''"
| "stage_value DIGEST_BRIEFING = ''digest_briefing''"

definition response_failure_detail :: "ProviderResponse \<Rightarrow> string" where
  "response_failure_detail r =
     (case resp_error_message r of
        Some (c # cs) \<Rightarrow> c # cs
      | _ \<Rightarrow> (case resp_incomplete_reason r of
            Some (c # cs) \<Rightarrow> c # cs
          | _ \<Rightarrow> ''No additional details were returned''))"

definition usage_of :: "ProviderResponse \<Rightarrow> RadarTokenUsage" where
  "usage_of r = (case resp_usage r of None \<Rightarrow> empty_usage
     | Some u \<Rightarrow> \<lparr>tu_input_tokens = nat (ru_input_tokens u),
          tu_cached_input_tokens = nat (ru_cached_input_tokens u),
          tu_output_tokens = nat (ru_output_tokens u),
          tu_reasoning_tokens = resp_reasoning_tokens r\<rparr>)"

text \<open>Parsing the output against the stage's format; discovery is converted from its wire
  format.\<close>

fun parse_wire :: "DigestRunStageType \<Rightarrow> wire_output \<Rightarrow> exn + StageData" where
  "parse_wire DISCOVERY_RELEVANCE (WireDiscovery w) =
     (case to_output w of Inl e \<Rightarrow> Inl e | Inr d \<Rightarrow> Inr (DiscoveryData d))"
| "parse_wire PAPER_SUMMARIES (WireStage (SummariesData p)) =
     (case model_validate_summaries p of Inl e \<Rightarrow> Inl e | Inr q \<Rightarrow> Inr (SummariesData q))"
| "parse_wire TREND_ANALYSIS (WireStage (TrendData t)) = Inr (TrendData t)"
| "parse_wire DIGEST_BRIEFING (WireStage (BriefingData b)) =
     (case validate_paper_selections b of Inl e \<Rightarrow> Inl e | Inr c \<Rightarrow> Inr (BriefingData c))"
| "parse_wire _ _ = validation_error ''response does not match its format''"

fun poll_loop ::
  "nat \<Rightarrow> RequestAccounting \<Rightarrow> DigestRunStageType \<Rightarrow> int \<Rightarrow> nat \<Rightarrow> uuid option
     \<Rightarrow> ProviderResponse \<Rightarrow> (ProviderResponse \<times> uuid option) option sess" where
  "poll_loop fuel a stage deadline failures current r =
     (if \<not> in_progress r then ret (Some (r, current))
      else (case fuel of
         0 \<Rightarrow> ret None
       | Suc n \<Rightarrow>
           bind mono_now (\<lambda>t.
           if t \<ge> deadline
           then client_error (''OpenAI '' @ stage_value stage @ '' exceeded the background time limit'')
           else
             seq (lease_poll (ac_lease a) (ac_run_id a) (ac_owner_id a))
             (bind (catch (bind ask_provider (\<lambda>r'. ret (r', 0)))
                      (\<lambda>e. if Suc failures \<ge> 3 then reraise e else ret (r, Suc failures)))
                (\<lambda>(r', failures').
              bind (observe_response a current r') (\<lambda>current'.
              poll_loop n a stage deadline failures' current' r'))))))"

declare poll_loop.simps [simp del]

definition poll_fuel :: "ClientConfig \<Rightarrow> nat" where
  "poll_fuel c = nat (cl_poll_timeout c div cl_poll_interval c) + 2"

text \<open>The existing background response, or a new one; a lost one (404) is forgotten first.\<close>

definition is_lost :: "exn \<Rightarrow> bool" where
  "is_lost e \<longleftrightarrow> exn_class e = ProviderException (Some 404)"

definition resume_response :: "RequestAccounting \<Rightarrow> string option \<Rightarrow> ProviderResponse option sess" where
  "resume_response a existing =
     (case existing of
        None \<Rightarrow> ret None
      | Some i \<Rightarrow>
          if i = [] then ret None
          else catch (bind ask_provider (\<lambda>r. ret (Some r)))
                 (\<lambda>e. if is_lost e then seq (clear_lost_response a) (ret None) else reraise e))"

definition start_response ::
  "RequestAccounting \<Rightarrow> string option \<Rightarrow> (ProviderResponse \<times> uuid option) sess" where
  "start_response a existing =
     bind (resume_response a existing) (\<lambda>found.
     case found of
       Some r \<Rightarrow> ret (r, None)
     | None \<Rightarrow>
         bind (observe_submitted a) (\<lambda>current.
         bind ask_provider (\<lambda>r.
         seq (persist_response_id a current (resp_id r)) (ret (r, current)))))"

definition finish_response ::
  "RequestAccounting \<Rightarrow> DigestRunStageType \<Rightarrow> ProviderResponse \<Rightarrow> StageData sess" where
  "finish_response a stage r =
     (if resp_status r \<noteq> ''completed''
      then seq (clear_lost_response a) (client_error (''OpenAI '' @ stage_value stage
             @ '' ended with status '' @ resp_status r @ '': '' @ response_failure_detail r))
      else if resp_output r = WireMissing
      then seq (clear_lost_response a)
             (client_error (''OpenAI '' @ stage_value stage @ '' returned no structured data''))
      else lift_result (parse_wire stage (resp_output r)))"

definition request_body ::
  "ClientConfig \<Rightarrow> RequestAccounting \<Rightarrow> DigestRunStageType \<Rightarrow> string option
     \<Rightarrow> (StageData \<times> ProviderResponse) sess" where
  "request_body c a stage existing =
     bind (start_response a existing) (\<lambda>(r0, current0).
     bind (observe_response a current0 r0) (\<lambda>current1.
     bind mono_now (\<lambda>t.
     bind (poll_loop (poll_fuel c) a stage (t + cl_poll_timeout c) 0 current1 r0) (\<lambda>polled.
     case polled of
       None \<Rightarrow> client_error (''OpenAI '' @ stage_value stage @ '' exceeded the background time limit'')
     | Some (r, current) \<Rightarrow>
         bind (finish_response a stage r) (\<lambda>data. ret (data, r))))))"

definition client_failure ::
  "RequestAccounting \<Rightarrow> DigestRunStageType \<Rightarrow> exn \<Rightarrow> 'a sess" where
  "client_failure a stage e =
     (if exn_class e = ValidationError
      then seq (clear_lost_response a) (client_error (''The '' @ stage_value stage
             @ '' response did not pass data validation. Retry the failed stage to request a fresh response.''))
      else if is_client_error e then reraise e
      else client_error (''The OpenAI '' @ stage_value stage @ '' request failed: '' @ exn_message e))"

definition client_execute ::
  "ClientConfig \<Rightarrow> RequestAccounting \<Rightarrow> DigestRunStageType \<Rightarrow> string option
     \<Rightarrow> StageData RadarClientResult sess" where
  "client_execute c a stage existing =
     bind (catch (request_body c a stage existing) (client_failure a stage)) (\<lambda>(data, r).
     ret \<lparr>cr_output = data, cr_response_id = Some (resp_id r),
          cr_model_name = model_of (cl_model_name c) r, cr_usage = usage_of r\<rparr>)"

subsection \<open>The executor of a stage request (request_execution.py)\<close>

definition execute_request ::
  "ClientConfig \<Rightarrow> RunLease \<Rightarrow> DigestRun \<Rightarrow> uuid \<Rightarrow> DigestRunStageType \<Rightarrow> string
     \<Rightarrow> StageData RadarClientResult sess" where
  "execute_request c lease run stage_id stage effort =
     bind (query (closure_requested (rn_owner_id run))) (\<lambda>closing.
     if closing then client_error ''Account closure stopped further research requests.''
     else bind (query (\<lambda>d. case get_row sg_id stage_id (run_stages d) of None \<Rightarrow> None
                  | Some s \<Rightarrow> sg_active_response_id s)) (\<lambda>existing.
       client_execute c \<lparr>ac_run_id = rn_id run, ac_owner_id = rn_owner_id run, ac_stage_id = stage_id,
            ac_model_name = cl_model_name c, ac_reasoning_effort = effort, ac_lease = lease\<rparr>
         stage existing))"

subsection \<open>Every part keeps the rows consistent\<close>

lemma lease_keeps [keeps_intros]:
  "keeps (both rows_ok) (lease_renew lease run owner)"
  "keeps (both rows_ok) (lease_poll lease run owner)"
  unfolding lease_poll_def lease_renew_def client_error_def by (intro keeps_intros)+

lemma add_request_keeps [keeps_intros]: "keeps (both rows_ok) (add_request q)"
  unfolding add_request_def by (rule rows_ok_other_tables) simp_all

lemma observe_submitted_keeps [keeps_intros]: "keeps (both rows_ok) (observe_submitted a)"
  unfolding observe_submitted_def by (intro keeps_intros)

lemma current_or_new_keeps [keeps_intros]: "keeps (both rows_ok) (current_or_new a current m r)"
  unfolding current_or_new_def
  by (auto intro!: keeps_intros split: option.split)

lemma observe_response_keeps [keeps_intros]: "keeps (both rows_ok) (observe_response a current r)"
  unfolding observe_response_def Let_def by (intro keeps_intros)

lemma persist_response_id_keeps [keeps_intros]:
  "keeps (both rows_ok) (persist_response_id a current response)"
  unfolding persist_response_id_def by (intro keeps_intros)

lemma clear_lost_response_keeps [keeps_intros]: "keeps (both rows_ok) (clear_lost_response a)"
  unfolding clear_lost_response_def by (intro keeps_intros)

lemma poll_loop_keeps [keeps_intros]:
  "keeps (both rows_ok) (poll_loop fuel a stage deadline failures current r)"
proof (induction fuel arbitrary: failures current r)
  case 0
  show ?case by (subst poll_loop.simps) (simp add: keeps_intros)
next
  case (Suc n)
  show ?case
    by (subst poll_loop.simps) (auto simp: client_error_def intro!: keeps_intros Suc.IH)
qed

lemma client_execute_keeps [keeps_intros]:
  "keeps (both rows_ok) (client_execute c a stage existing)"
  unfolding client_execute_def request_body_def start_response_def resume_response_def
    finish_response_def client_failure_def client_error_def
  by (auto intro!: keeps_intros split: option.split)

lemma execute_request_keeps [keeps_intros]:
  "keeps (both rows_ok) (execute_request c lease run stage_id stage effort)"
  unfolding execute_request_def client_error_def by (intro keeps_intros)

end
