(* ===== verification/Recurrence.thy ===== *)
theory Recurrence
  imports Models Calendar
begin

section \<open>Recurring schedules (backend/app/scheduler/recurrence.py)\<close>

text \<open>
  The occurrences of a schedule and \<open>around\<close>, which finds the latest one up to a time and
  the next one after it.  A time zone is a table of transitions, as \<open>zoneinfo\<close> loads it:
  the offset of an instant is that of the last transition before it, and the offset of a
  wall-clock time with \<open>fold=0\<close> changes at the wall time of the transition in the larger of
  the two offsets, so that a time in a gap keeps the old offset and a repeated time is its
  first occurrence.  Which table a name has is data of the system, a parameter here.

  The second loop of \<open>around\<close> is a partial function; the locale \<open>timezone\<close> states what it
  needs of a zone, that the offsets are less than a day apart and less than a day from UTC,
  and there the loop is shown to end and its result to be right.
\<close>

record zone =
  z_base :: int
  z_transitions :: "(datetime \<times> int) list"

definition offset_before :: "zone \<Rightarrow> datetime \<Rightarrow> int" where
  "offset_before z t =
     fold (\<lambda>(at', off) cur. if at' \<le> t then off else cur) (z_transitions z) (z_base z)"

definition utc_offset :: "zone \<Rightarrow> datetime \<Rightarrow> int" where
  "utc_offset z t = offset_before z t"

fun wall_offset_from :: "int \<Rightarrow> int \<Rightarrow> (datetime \<times> int) list \<Rightarrow> datetime \<Rightarrow> int" where
  "wall_offset_from cur prev [] w = cur"
| "wall_offset_from cur prev ((t, off) # rest) w =
     wall_offset_from (if t + max prev off \<le> w then off else cur) off rest w"

definition wall_offset :: "zone \<Rightarrow> datetime \<Rightarrow> int" where
  "wall_offset z w = wall_offset_from (z_base z) (z_base z) (z_transitions z) w"

definition zone_offsets :: "zone \<Rightarrow> int set" where
  "zone_offsets z = insert (z_base z) (snd ` set (z_transitions z))"

definition zone_ok :: "zone \<Rightarrow> bool" where
  "zone_ok z \<longleftrightarrow> (\<forall>a \<in> zone_offsets z. \<bar>a\<bar> < day_us \<and> (\<forall>b \<in> zone_offsets z. \<bar>a - b\<bar> \<le> day_us))"

text \<open>The zone \<open>UTC\<close>, the default of the run submission.\<close>

definition utc_zone :: zone where
  "utc_zone = \<lparr>z_base = 0, z_transitions = []\<rparr>"

subsection \<open>Occurrences\<close>

definition local_anchor :: "(datetime \<Rightarrow> int) \<Rightarrow> DigestSchedule \<Rightarrow> datetime" where
  "local_anchor utcoff s = sch_starts_at s + utcoff (sch_starts_at s)"

definition local_occurrence :: "DigestFrequency \<Rightarrow> datetime \<Rightarrow> nat \<Rightarrow> datetime" where
  "local_occurrence f anchor index =
     (case f of
        DAILY \<Rightarrow> anchor + days (int index)
      | WEEKLY \<Rightarrow> anchor + days (7 * int index)
      | MONTHLY \<Rightarrow> month_at anchor (int index)
      | QUARTERLY \<Rightarrow> month_at anchor (3 * int index))"

definition occurrence ::
  "(datetime \<Rightarrow> int) \<Rightarrow> (datetime \<Rightarrow> int) \<Rightarrow> DigestSchedule \<Rightarrow> nat \<Rightarrow> datetime" where
  "occurrence utcoff walloff s index =
     (if index = 0 then sch_starts_at s
      else (let local = local_occurrence (sch_frequency s) (local_anchor utcoff s) index
            in local - walloff local))"

definition first_index :: "DigestFrequency \<Rightarrow> datetime \<Rightarrow> datetime \<Rightarrow> nat" where
  "first_index f anchor local_now =
     (let day_count = dt_date local_now - dt_date anchor;
          month_count = (ord_year (dt_date local_now) - ord_year (dt_date anchor)) * 12
            + ord_month (dt_date local_now) - ord_month (dt_date anchor)
      in nat (max 0 (case f of DAILY \<Rightarrow> day_count | WEEKLY \<Rightarrow> day_count div 7
                     | MONTHLY \<Rightarrow> month_count | QUARTERLY \<Rightarrow> month_count div 3)))"

text \<open>\<open>while index > 0 and occurrence(index) > now: index -= 1\<close> and
  \<open>while occurrence(index + 1) <= now: index += 1\<close>.\<close>

fun step_back :: "(nat \<Rightarrow> datetime) \<Rightarrow> datetime \<Rightarrow> nat \<Rightarrow> nat" where
  "step_back occ stamp 0 = 0"
| "step_back occ stamp (Suc n) = (if occ (Suc n) > stamp then step_back occ stamp n else Suc n)"

partial_function (option) step_forward :: "(nat \<Rightarrow> datetime) \<Rightarrow> datetime \<Rightarrow> nat \<Rightarrow> nat option" where
  "step_forward occ stamp n =
     (if occ (Suc n) \<le> stamp then step_forward occ stamp (Suc n) else Some n)"

definition around ::
  "(datetime \<Rightarrow> int) \<Rightarrow> (datetime \<Rightarrow> int) \<Rightarrow> DigestSchedule \<Rightarrow> datetime
     \<Rightarrow> (datetime option \<times> datetime option) option" where
  "around utcoff walloff s stamp =
     (if (case sch_ends_at s of None \<Rightarrow> False | Some e \<Rightarrow> stamp \<ge> e) then Some (None, None)
      else
        (let occ = occurrence utcoff walloff s;
             start = first_index (sch_frequency s) (local_anchor utcoff s) (stamp + utcoff stamp)
         in case step_forward occ stamp (step_back occ stamp start) of
              None \<Rightarrow> None
            | Some index \<Rightarrow>
                (let candidate = occ index;
                     latest = (if candidate \<le> stamp then Some candidate else None);
                     following = (if latest \<noteq> None then occ (index + 1) else candidate)
                 in Some (latest,
                      (case sch_ends_at s of None \<Rightarrow> Some following
                       | Some e \<Rightarrow> if following \<ge> e then None else Some following)))))"

definition first_dispatch ::
  "(datetime \<Rightarrow> int) \<Rightarrow> (datetime \<Rightarrow> int) \<Rightarrow> DigestSchedule \<Rightarrow> datetime \<Rightarrow> datetime option option" where
  "first_dispatch utcoff walloff s stamp = map_option snd (around utcoff walloff s stamp)"

subsection \<open>The loops\<close>

lemma step_back_le: "step_back occ stamp n \<le> n"
  by (induction n) auto

lemma step_back_post: "step_back occ stamp n = 0 \<or> occ (step_back occ stamp n) \<le> stamp"
  by (induction n) auto

lemma step_forward_post:
  assumes "step_forward occ stamp n = Some m" and "n = 0 \<or> occ n \<le> stamp"
  shows "occ (Suc m) > stamp \<and> (m = 0 \<or> occ m \<le> stamp)"
proof -
  have "n = 0 \<or> occ n \<le> stamp \<longrightarrow> occ (Suc m) > stamp \<and> (m = 0 \<or> occ m \<le> stamp)"
    by (rule step_forward.raw_induct [where P = "\<lambda>occ stamp n m. n = 0 \<or> occ n \<le> stamp \<longrightarrow>
        occ (Suc m) > stamp \<and> (m = 0 \<or> occ m \<le> stamp)", OF _ assms(1)])
       (auto split: if_splits)
  with assms(2) show ?thesis by blast
qed

lemma step_forward_ends:
  assumes "\<And>k. K \<le> k \<Longrightarrow> occ k > stamp"
  shows "\<exists>m. step_forward occ stamp n = Some m"
proof (induction "K - n" arbitrary: n)
  case 0
  then have "occ (Suc n) > stamp" using assms by simp
  then show ?case by (subst step_forward.simps) simp
next
  case (Suc k)
  have "k = K - Suc n" using Suc.hyps(2) by simp
  from Suc.hyps(1) [OF this] show ?case by (subst step_forward.simps) simp
qed

subsection \<open>Zones\<close>

lemma offset_before_mem:
  "fold (\<lambda>(at', off) cur. if at' \<le> t then off else cur) xs cur \<in> insert cur (snd ` set xs)"
  by (induction xs arbitrary: cur) (auto split: if_splits, force+)

lemma utc_offset_mem: "utc_offset z t \<in> zone_offsets z"
  using offset_before_mem [of t "z_transitions z" "z_base z"]
  by (simp add: utc_offset_def offset_before_def zone_offsets_def)

lemma wall_offset_from_mem: "wall_offset_from cur prev xs w \<in> insert cur (snd ` set xs)"
proof (induction xs arbitrary: cur prev)
  case (Cons x xs)
  obtain t off where x: "x = (t, off)" by (cases x)
  show ?case
    using Cons.IH [of "if t + max prev off \<le> w then off else cur" off]
    by (auto simp: x split: if_splits)
qed simp

lemma wall_offset_mem: "wall_offset z w \<in> zone_offsets z"
  using wall_offset_from_mem [of "z_base z" "z_base z" "z_transitions z" w]
  by (simp add: wall_offset_def zone_offsets_def)

locale timezone =
  fixes utcoff :: "datetime \<Rightarrow> int" and walloff :: "datetime \<Rightarrow> int"
  assumes bounded: "\<bar>utcoff t\<bar> < day_us" "\<bar>walloff w\<bar> < day_us"
    and spread: "walloff w - utcoff t \<le> day_us" "walloff w - walloff v \<le> day_us"
begin

lemma local_occurrence_step:
  "local_occurrence f anchor k + day_us \<le> local_occurrence f anchor (Suc k)"
proof -
  have m: "month_at anchor i + day_us \<le> month_at anchor (i + int n)" if "0 < n" for i n
  proof -
    let ?a = "month_at anchor i" and ?b = "month_at anchor (i + int n)"
    have idx: "dt_month_index ?a < dt_month_index ?b" using that by (simp add: month_index_month_at)
    have "dt_date ?a < dt_date ?b"
    proof (rule ccontr)
      assume "\<not> ?thesis"
      then have "dt_month_index ?b \<le> dt_month_index ?a"
        by (simp add: dt_month_index_def ord_month_index_mono)
      with idx show False by simp
    qed
    then have "(dt_date ?a + 1) * day_us \<le> dt_date ?b * day_us" by (simp add: day_us_def)
    moreover have "dt_time ?a = dt_time ?b" by (simp add: month_at_def Let_def)
    ultimately show ?thesis
      using dt_split [of ?a] dt_split [of ?b] by (simp add: distrib_right)
  qed
  have 1: "month_at anchor (int k) + day_us \<le> month_at anchor (1 + int k)"
    using m [of 1 "int k"] by (simp add: add.commute)
  have 3: "month_at anchor (3 * int k) + day_us \<le> month_at anchor (3 + 3 * int k)"
    using m [of 3 "3 * int k"] by (simp add: add.commute)
  show ?thesis
    using 1 3 by (cases f) (simp_all add: local_occurrence_def day_us_def)
qed

lemma local_occurrence_0: "local_occurrence f anchor 0 = anchor"
  by (cases f) (simp_all add: local_occurrence_def month_at_0)

lemma local_occurrence_lower: "anchor + int k * day_us \<le> local_occurrence f anchor k"
proof (induction k)
  case 0
  then show ?case by (simp add: local_occurrence_0)
next
  case (Suc k)
  then show ?case using local_occurrence_step [of f anchor k] by (simp add: algebra_simps)
qed

lemma occurrence_step: "occurrence utcoff walloff s k \<le> occurrence utcoff walloff s (Suc k)"
proof (cases k)
  case 0
  let ?l = "local_occurrence (sch_frequency s) (local_anchor utcoff s) 1"
  have "local_anchor utcoff s + day_us \<le> ?l"
    using local_occurrence_step [of "sch_frequency s" "local_anchor utcoff s" 0]
    by (simp add: local_occurrence_0)
  then show ?thesis
    using spread(1) [of ?l "sch_starts_at s"] 0
    by (simp add: occurrence_def local_anchor_def Let_def)
next
  case (Suc j)
  let ?l = "\<lambda>k. local_occurrence (sch_frequency s) (local_anchor utcoff s) k"
  show ?thesis
    using local_occurrence_step [of "sch_frequency s" "local_anchor utcoff s" k]
      spread(2) [of "?l (Suc k)" "?l k"] Suc
    by (simp add: occurrence_def Let_def)
qed

lemma occurrence_mono: "j \<le> k \<Longrightarrow> occurrence utcoff walloff s j \<le> occurrence utcoff walloff s k"
  by (rule lift_Suc_mono_le) (rule occurrence_step)

lemma occurrence_lower: "sch_starts_at s + (int k - 2) * day_us \<le> occurrence utcoff walloff s k"
proof (cases "k = 0")
  case True
  then show ?thesis by (simp add: occurrence_def day_us_def)
next
  case False
  let ?l = "local_occurrence (sch_frequency s) (local_anchor utcoff s) k"
  have "local_anchor utcoff s + int k * day_us \<le> ?l" by (rule local_occurrence_lower)
  moreover have "- day_us < utcoff (sch_starts_at s)" "walloff ?l < day_us"
    using bounded(1) [of "sch_starts_at s"] bounded(2) [of ?l] by auto
  ultimately show ?thesis
    using False by (simp add: occurrence_def local_anchor_def Let_def algebra_simps)
qed

lemma occurrence_unbounded: "\<exists>K. \<forall>k \<ge> K. occurrence utcoff walloff s k > stamp"
proof -
  define K where "K = nat ((stamp - sch_starts_at s) div day_us + 4)"
  have "occurrence utcoff walloff s k > stamp" if "K \<le> k" for k
  proof -
    have "(stamp - sch_starts_at s) div day_us + 4 \<le> int K" by (simp add: K_def)
    with that have "(stamp - sch_starts_at s) div day_us + 2 \<le> int k - 2" by simp
    then have "((stamp - sch_starts_at s) div day_us + 2) * day_us \<le> (int k - 2) * day_us"
      by (rule mult_right_mono) (simp add: day_us_def)
    moreover have "stamp - sch_starts_at s < ((stamp - sch_starts_at s) div day_us + 1) * day_us"
      using pos_mod_bound [of day_us "stamp - sch_starts_at s"]
        div_mult_mod_eq [of "stamp - sch_starts_at s" day_us]
      by (simp add: day_us_def distrib_right)
    ultimately show ?thesis
      using occurrence_lower [of s k] by (simp add: distrib_right day_us_def)
  qed
  then show ?thesis by blast
qed

text \<open>\<open>around\<close> returns, and its result is the latest occurrence up to the time and the first
  one after it, cut off at the end of the schedule.\<close>

lemma around_correct:
  assumes still_open: "case sch_ends_at s of None \<Rightarrow> True | Some e \<Rightarrow> stamp < e"
  obtains latest upcoming where
    "around utcoff walloff s stamp = Some (latest,
       (case sch_ends_at s of None \<Rightarrow> Some upcoming | Some e \<Rightarrow> if upcoming \<ge> e then None else Some upcoming))"
    "\<And>l. latest = Some l \<Longrightarrow> l \<in> range (occurrence utcoff walloff s) \<and> l \<le> stamp
       \<and> (\<forall>j. occurrence utcoff walloff s j \<le> stamp \<longrightarrow> occurrence utcoff walloff s j \<le> l)"
    "latest = None \<longleftrightarrow> stamp < sch_starts_at s"
    "upcoming \<in> range (occurrence utcoff walloff s)" "stamp < upcoming"
    "\<And>j. stamp < occurrence utcoff walloff s j \<Longrightarrow> upcoming \<le> occurrence utcoff walloff s j"
proof -
  let ?o = "occurrence utcoff walloff s"
  define start where
    "start = first_index (sch_frequency s) (local_anchor utcoff s) (stamp + utcoff stamp)"
  obtain K where K: "\<And>k. K \<le> k \<Longrightarrow> ?o k > stamp" using occurrence_unbounded by blast
  obtain m where m: "step_forward ?o stamp (step_back ?o stamp start) = Some m"
    using step_forward_ends [where K = K and occ = ?o and stamp = stamp, OF K] by blast
  from step_forward_post [OF m step_back_post]
  have after: "?o (Suc m) > stamp" and before: "m = 0 \<or> ?o m \<le> stamp" by simp_all
  have zero: "?o 0 = sch_starts_at s" by (simp add: occurrence_def)
  define upcoming where "upcoming = (if ?o m \<le> stamp then ?o (Suc m) else ?o m)"
  define latest where "latest = (if ?o m \<le> stamp then Some (?o m) else None)"
  have eq: "around utcoff walloff s stamp = Some (latest,
       (case sch_ends_at s of None \<Rightarrow> Some upcoming | Some e \<Rightarrow> if upcoming \<ge> e then None else Some upcoming))"
    using still_open m
    by (auto simp: around_def Let_def start_def [symmetric] latest_def upcoming_def split: option.splits)
  show thesis
  proof (rule that [OF eq])
    show "l \<in> range ?o \<and> l \<le> stamp \<and> (\<forall>j. ?o j \<le> stamp \<longrightarrow> ?o j \<le> l)" if "latest = Some l" for l
    proof -
      have l: "l = ?o m" "?o m \<le> stamp" using that by (auto simp: latest_def split: if_splits)
      have "?o j \<le> l" if "?o j \<le> stamp" for j
      proof (cases "j \<le> m")
        case True
        then show ?thesis using occurrence_mono l(1) by simp
      next
        case False
        then have "?o (Suc m) \<le> ?o j" by (intro occurrence_mono) simp
        with after that show ?thesis by simp
      qed
      with l show ?thesis by blast
    qed
    show "latest = None \<longleftrightarrow> stamp < sch_starts_at s"
      using before zero occurrence_mono [of 0 m s] by (auto simp: latest_def)
    show "upcoming \<in> range ?o" "stamp < upcoming" using after by (auto simp: upcoming_def)
    show "upcoming \<le> ?o j" if "stamp < ?o j" for j
    proof (cases "?o m \<le> stamp")
      case True
      have "Suc m \<le> j"
        using that True occurrence_mono [of j m s] by (cases "Suc m \<le> j") auto
      then show ?thesis using True by (simp add: upcoming_def occurrence_mono)
    next
      case False
      with before show ?thesis by (simp add: upcoming_def occurrence_mono)
    qed
  qed
qed

end

lemma timezone_zone: "zone_ok z \<Longrightarrow> timezone (utc_offset z) (wall_offset z)"
  using utc_offset_mem [of z] wall_offset_mem [of z]
  by unfold_locales (simp_all add: zone_ok_def abs_le_iff)

interpretation utc: timezone "utc_offset utc_zone" "wall_offset utc_zone"
  by (rule timezone_zone) (simp add: zone_ok_def zone_offsets_def utc_zone_def day_us_def)

end
