(* ===== verification/Examples.thy ===== *)
theory Examples
  imports Execution Recurrence RunState Observation
begin

section \<open>Concrete values\<close>

text \<open>
  Small concrete inputs on which the witnesses of the properties evaluate the model: a time
  zone with two transitions, schedules, an environment, and rows of the tables.
\<close>

subsection \<open>Time\<close>

text \<open>Central European time around its summer of 2025: one hour ahead of UTC, two from
  30 March 01:00 UTC to 26 October 01:00 UTC.\<close>

definition cet_2025 :: zone where
  "cet_2025 = \<lparr>z_base = seconds 3600,
     z_transitions = [(from_timestamp 1743296400, seconds 7200), (from_timestamp 1761440400, seconds 3600)]\<rparr>"

text \<open>Weekly from 3 March 2025, 08:00 local time, for a year.\<close>

definition weekly_schedule :: DigestSchedule where
  "weekly_schedule = \<lparr>sch_frequency = WEEKLY, sch_send_email = True,
     sch_starts_at = from_timestamp 1740985200, sch_ends_at = Some (from_timestamp 1772521200),
     sch_time_zone = ''Europe/Berlin''\<rparr>"

subsection \<open>An environment\<close>

text \<open>The clock starts on 10 March 2025, 10:00 UTC, and moves a second with every reading;
  identifiers are drawn from 1000 on; the provider has completed every response.\<close>

definition noon :: datetime where
  "noon = from_timestamp 1741600800"

definition sample_response :: ProviderResponse where
  "sample_response = \<lparr>resp_id = ''resp_1'', resp_status = ''completed'', resp_model = None,
     resp_usage = None, resp_reasoning_tokens = 0, resp_web_search_calls = 0,
     resp_service_tier = None, resp_error_message = None, resp_incomplete_reason = None,
     resp_output = WireMissing\<rparr>"

definition sample_env :: environment where
  "sample_env = \<lparr>env_clock = (\<lambda>k. noon + seconds (int k)), env_uuids = (\<lambda>k. 1000 + k),
     env_monotonic = (\<lambda>k. 5000000 * int k), env_answers = (\<lambda>k. Inr sample_response),
     env_wire = (\<lambda>past c. NoReply)\<rparr>"

definition sample_settings :: Settings where
  "sample_settings = \<lparr>set_subscription_grace_days = 7, set_subscription_sync_max_age_seconds = 86400,
     set_radar_runs_per_hour = 5, set_radar_runs_per_day = 20, set_jwt_secret = ''secret'',
     set_frontend_base_url = ''https://radar.example'', set_stripe_livemode = False,
     set_stripe_api_key = ''sk_test_1'', set_stripe_webhook_secret = ''whsec_1'',
     set_stripe_portal_configuration_id = ''bpc_1'', set_stripe_checkout_enabled = True,
     set_stripe_sync_reconcile_seconds = 900, set_stripe_sync_max_failures = 8\<rparr>"

subsection \<open>Rows\<close>

definition sample_email :: "uuid \<Rightarrow> string" where
  "sample_email i = (if i = 1 then ''ada@example.org'' else if i = 2 then ''bob@example.org'' else ''eve@example.org'')"

lemma sample_email_simps [simp]: "sample_email 1 = ''ada@example.org''" "sample_email (Suc 0) = ''ada@example.org''"
  "sample_email 2 = ''bob@example.org''" "sample_email 3 = ''eve@example.org''"
  by (simp_all add: sample_email_def)

definition sample_user :: "uuid \<Rightarrow> datetime option \<Rightarrow> User" where
  "sample_user i closing = \<lparr>usr_id = i, usr_email = sample_email i, usr_full_name = ''Ada'',
     usr_auth_version = 1, usr_is_active = (closing = None), usr_closure_requested_at = closing,
     usr_role = RoleUser, usr_is_super_admin = False, usr_created_at = from_timestamp 1735689600, usr_password_hash = ''hash'',
     usr_legal_agreement_at = None, usr_terms_version = None, usr_privacy_version = None\<rparr>"

definition sample_digest :: "uuid \<Rightarrow> uuid \<Rightarrow> Digest" where
  "sample_digest i owner = \<lparr>dg_id = i, dg_owner_id = owner, dg_topic = ''Sleep'',
     dg_description = None, dg_include_keywords = [''memory''], dg_exclude_keywords = [],
     dg_target_audience = [GENERAL], dg_reporting_from = dt_date noon - 7, dg_reporting_to = dt_date noon,
     dg_frequency = None, dg_schedule = None, dg_schedule_paused = False,
     dg_subscription_retry_at = None, dg_schedule_next_at = None, dg_maximum_papers = 5,
     dg_created_at = from_timestamp 1735689600, dg_updated_at = from_timestamp 1735689600\<rparr>"

definition sample_snapshot :: DigestSnapshot where
  "sample_snapshot = \<lparr>ds_topic = ''Sleep'', ds_description = None, ds_include_keywords = [''memory''],
     ds_exclude_keywords = [], ds_target_audience = [GENERAL], ds_reporting_from = dt_date noon - 7,
     ds_reporting_to = dt_date noon, ds_frequency = None, ds_maximum_papers = 5\<rparr>"

text \<open>A run of a digest, started a number of seconds before the clock.\<close>

definition sample_run :: "uuid \<Rightarrow> uuid \<Rightarrow> int \<Rightarrow> DigestRun" where
  "sample_run i owner age = new_run i 7 owner sample_snapshot [] [] ''model'' ''v1'' (noon - seconds age)"

definition sample_stages :: "uuid \<Rightarrow> DigestRunStage list" where
  "sample_stages run = [new_stage run ''model'' ''v1'' (run + 1) 1 DISCOVERY_RELEVANCE,
     new_stage run ''model'' ''v1'' (run + 2) 2 PAPER_SUMMARIES,
     new_stage run ''model'' ''v1'' (run + 3) 3 TREND_ANALYSIS,
     new_stage run ''model'' ''v1'' (run + 4) 4 DIGEST_BRIEFING]"

text \<open>Two open accounts, each with a queued run, and one that is closing, with the oldest.\<close>

definition sample_db :: db where
  "sample_db = empty_db\<lparr>users := [sample_user 1 None, sample_user 2 None, sample_user 3 (Some noon)],
     digests := [sample_digest 7 1],
     digest_runs := [sample_run 10 1 60, sample_run 20 2 90, sample_run 30 3 3600],
     run_stages := sample_stages 10 @ sample_stages 20 @ sample_stages 30\<rparr>"

definition sample_session :: session where
  "sample_session = open_session sample_env sample_db"

end
