(* ===== verification/Admission.thy ===== *)
theory Admission
  imports Access
begin

section \<open>Admission and usage of an account
  (backend/app/services/subscription_access_service.py, second half)\<close>

text \<open>
  \<open>assess\<close> compares one more run with the plan, \<open>reserve\<close> refuses it or books it in the
  account's window, \<open>settle\<close> replaces the booking by what was used, \<open>change_policy\<close>
  switches enforcement and \<open>check_details\<close> guards edits of a digest.
\<close>

subsection \<open>Usage of a window\<close>

definition opt_less :: "datetime option \<Rightarrow> datetime \<Rightarrow> bool" where
  "opt_less a b \<longleftrightarrow> (case a of None \<Rightarrow> False | Some x \<Rightarrow> x < b)"

text \<open>A run counts in every window its own window overlaps.\<close>

definition in_window :: "uuid \<Rightarrow> Access \<Rightarrow> RunUsage \<Rightarrow> bool" where
  "in_window user access u \<longleftrightarrow> us_user_id u = user
     \<and> (case ac_period_start access of None \<Rightarrow> False | Some s \<Rightarrow> us_period_end u > s)
     \<and> (case ac_period_end access of None \<Rightarrow> False | Some e \<Rightarrow> us_period_start u < e)
     \<and> us_state u \<in> {Reserved, Settled}"

definition usage_totals :: "RunUsage list \<Rightarrow> UsageTotals" where
  "usage_totals rows =
     \<lparr>ut_completed_runs = rowcount (\<lambda>r. us_state r = Settled) rows,
      ut_reserved_runs = rowcount (\<lambda>r. us_state r = Reserved) rows,
      ut_manual_runs = rowcount (\<lambda>r. us_trigger r = MANUAL) rows,
      ut_completed_papers = (\<Sum>r\<leftarrow>rows. if us_state r = Settled then us_actual_papers r else 0),
      ut_reserved_papers = (\<Sum>r\<leftarrow>rows. if us_state r = Reserved then us_requested_papers r else 0),
      ut_released_runs = 0\<rparr>"

definition totals :: "db \<Rightarrow> uuid \<Rightarrow> Access \<Rightarrow> UsageTotals" where
  "totals d user access = usage_totals (filter (in_window user access) (usages d))"

subsection \<open>Assessment\<close>

fun replace_text :: "string \<Rightarrow> string \<Rightarrow> string \<Rightarrow> string" where
  "replace_text old new [] = []"
| "replace_text old new (c # cs) =
     (if old \<noteq> [] \<and> startswith (c # cs) old
      then new @ replace_text old new (drop (length old - 1) cs)
      else c # replace_text old new cs)"

definition exhausted_text :: "string \<Rightarrow> string" where
  "exhausted_text i = replace_text ''would'' ''will'' (replace_text ''would be exceeded'' ''is exhausted'' i)"

definition paper_allowance_text :: "nat \<Rightarrow> nat \<Rightarrow> string" where
  "paper_allowance_text available requested = ''Monthly paper allowance: '' @ nat_str available
     @ '' papers available, but this run requests '' @ nat_str requested
     @ ''. Reduce Maximum papers or upgrade your subscription.''"

definition msg_reduce :: string where
  "msg_reduce = ''Reduce Maximum papers to the per-run plan limit or upgrade your subscription.''"
definition msg_delete :: string where
  "msg_delete = ''Delete an unused digest or upgrade to a plan with more digest slots.''"
definition msg_reset :: "datetime \<Rightarrow> string" where
  "msg_reset t = ''Monthly allowances reset at '' @ dt_isoformat t @ ''. Saved results remain available.''"

definition starts :: "string \<Rightarrow> string list \<Rightarrow> bool" where
  "starts p issues = list_ex (\<lambda>i. startswith i p) issues"

definition explain_issues ::
  "PlanConfiguration \<Rightarrow> UsageTotals \<Rightarrow> nat \<Rightarrow> datetime option \<Rightarrow> string list \<Rightarrow> string list" where
  "explain_issues c usage requested period_end found =
     (let i1 = map exhausted_text found;
          i2 = map (\<lambda>i. if startswith i ''Monthly paper allowance''
                 then paper_allowance_text (rem_papers (remaining c usage 0)) requested else i) i1;
          i3 = (if starts ''Requested papers'' i2 then i2 @ [msg_reduce] else i2);
          i4 = (if starts ''Existing digest count'' i3 then i3 @ [msg_delete] else i3)
      in case period_end of
           Some e \<Rightarrow> if starts ''Monthly'' i4 then i4 @ [msg_reset e] else i4
         | None \<Rightarrow> i4)"

definition assess_usage ::
  "uuid \<Rightarrow> nat \<Rightarrow> DigestRunTrigger \<Rightarrow> RequestContext \<Rightarrow> uuid option \<Rightarrow> Access
     \<Rightarrow> (Access \<times> string list) sess" where
  "assess_usage user requested trigger context digest access =
     bind (query (\<lambda>d. trigger = SCHEDULED \<and> (case digest of None \<Rightarrow> False
              | Some k \<Rightarrow> (case get_row dg_id k (digests d) of None \<Rightarrow> False
                  | Some g \<Rightarrow> dg_schedule_paused g)))) (\<lambda>paused.
     if paused then ret (access, [msg_schedule_paused])
     else (case ac_plan access of
        None \<Rightarrow> raise TypeErrorPy []
      | Some plan \<Rightarrow>
          bind (query (\<lambda>d. totals d user access)) (\<lambda>usage.
          bind (query (\<lambda>d. case ac_active_digest_ids access of
                   None \<Rightarrow> digest_count d user | Some ids \<Rightarrow> length ids)) (\<lambda>count.
          ret (access, explain_issues (pl_configuration plan) usage requested (ac_period_end access)
             (reasons (Some (pl_configuration plan)) usage requested trigger count
                (cx_frequency context) (trigger = SCHEDULED \<and> cx_send_email context)))))))"

definition assess ::
  "uuid \<Rightarrow> nat \<Rightarrow> DigestRunTrigger \<Rightarrow> RequestContext \<Rightarrow> Settings \<Rightarrow> uuid option
     \<Rightarrow> (Access \<times> string list) sess" where
  "assess user requested trigger context settings digest =
     bind (resolve user settings) (\<lambda>access.
     if ac_mode access = Complimentary then ret (access, [])
     else if \<not> ac_allowed access then ret (access, [ac_reason access])
     else (case (ac_active_digest_ids access, digest) of
          (Some ids, Some k) \<Rightarrow>
             if k \<in> set ids then assess_usage user requested trigger context digest access
             else ret (access, [msg_inactive_digest])
        | _ \<Rightarrow> assess_usage user requested trigger context digest access))"

subsection \<open>Reserving and settling\<close>

definition find_usage :: "uuid \<Rightarrow> db \<Rightarrow> RunUsage option" where
  "find_usage key d = get_row us_run_key key (usages d)"

definition run_context ::
  "DigestRun \<Rightarrow> RunUsage option \<Rightarrow> DigestSchedule option \<Rightarrow> db \<Rightarrow> RequestContext" where
  "run_context run existing schedule d =
     (case existing of
        Some u \<Rightarrow> us_request_context u
      | None \<Rightarrow>
          (let context = \<lparr>cx_frequency = map_option sch_frequency schedule,
                  cx_send_email = (case schedule of None \<Rightarrow> False | Some s \<Rightarrow> sch_send_email s)\<rparr>
           in if rn_trigger run \<noteq> SCHEDULED then context
              else
                (let context = (case observed_run (rn_id run) d of
                       None \<Rightarrow> context
                     | Some seen \<Rightarrow> (case ob_assessments seen of [] \<Rightarrow> context
                         | a # _ \<Rightarrow> at_request_context a))
                 in if rn_id run \<in> dl_run_id ` set (deliveries d)
                    then context\<lparr>cx_send_email := True\<rparr> else context)))"

definition usage_row :: "DigestRun \<Rightarrow> RequestContext \<Rightarrow> Access \<Rightarrow> nat \<Rightarrow> datetime \<Rightarrow> datetime \<Rightarrow> RunUsage" where
  "usage_row run context access plan start stop =
     \<lparr>us_run_key = rn_id run, us_user_id = rn_owner_id run, us_checkout_id = ac_checkout_id access,
      us_plan_revision_id = plan, us_period_start = start, us_period_end = stop,
      us_trigger = rn_trigger run, us_state = Reserved,
      us_requested_papers = ds_maximum_papers (rn_digest_snapshot run), us_actual_papers = 0,
      us_request_context = context\<rparr>"

text \<open>Writing the booking: a new row, or the released row of an earlier attempt again.  The
  window is always present here; the columns do not accept a missing one.\<close>

definition book_usage ::
  "DigestRun \<Rightarrow> RunUsage option \<Rightarrow> RequestContext \<Rightarrow> Access \<Rightarrow> unit sess" where
  "book_usage run existing context access =
     (case (ac_plan access, ac_period_start access, ac_period_end access) of
        (Some plan, Some start, Some stop) \<Rightarrow>
          (let row = usage_row run context access (pl_id plan) start stop
           in seq (case existing of
                 None \<Rightarrow> change (\<lambda>d. d\<lparr>usages := usages d @ [row]\<rparr>)
               | Some u \<Rightarrow> change (\<lambda>d. d\<lparr>usages := update_where (\<lambda>x. us_run_key x = rn_id run)
                     (\<lambda>x. x\<lparr>us_checkout_id := us_checkout_id row, us_plan_revision_id := us_plan_revision_id row,
                            us_period_start := start, us_period_end := stop, us_trigger := us_trigger row,
                            us_state := Reserved, us_requested_papers := us_requested_papers row,
                            us_actual_papers := 0\<rparr>) (usages d)\<rparr>))
              flush)
      | _ \<Rightarrow> raise IntegrityError ''not null'')"

definition reserve :: "DigestRun \<Rightarrow> DigestSchedule option \<Rightarrow> Settings \<Rightarrow> unit sess" where
  "reserve run schedule settings =
     seq (lock_account (rn_owner_id run))
     (seq (require_open_account (rn_owner_id run))
     (bind (query (find_usage (rn_id run))) (\<lambda>existing.
     if (case existing of None \<Rightarrow> False | Some u \<Rightarrow> us_state u \<in> {Reserved, Settled})
     then ret ()
     else bind (query (run_context run existing schedule)) (\<lambda>context.
       bind (assess (rn_owner_id run) (ds_maximum_papers (rn_digest_snapshot run)) (rn_trigger run)
               context settings (Some (rn_digest_id run))) (\<lambda>(access, issues).
       if issues \<noteq> [] then raise (AccessDenied 403) (join '' '' issues)
       else if ac_mode access = Complimentary then ret ()
       else book_usage run existing context access)))))"

definition settle :: "DigestRun \<Rightarrow> bool \<Rightarrow> unit sess" where
  "settle run success =
     seq (lock_account (rn_owner_id run))
     (bind (query (find_usage (rn_id run))) (\<lambda>row.
     if (case row of None \<Rightarrow> True | Some u \<Rightarrow> us_state u \<noteq> Reserved) then ret ()
     else seq flush
       (bind (query (summarised_papers (rn_id run))) (\<lambda>n.
       seq (change (\<lambda>d. d\<lparr>usages := update_where (\<lambda>x. us_run_key x = rn_id run)
              (\<lambda>x. x\<lparr>us_actual_papers := n, us_state := (if success then Settled else Released)\<rparr>)
              (usages d)\<rparr>))
       flush))))"

subsection \<open>Policy changes and edits\<close>

definition msg_policy_changed :: string where
  "msg_policy_changed = ''Access policy changed. Reload before saving.''"
definition msg_active_run :: string where
  "msg_active_run = ''Wait for the active run to finish before changing access mode.''"

definition change_policy ::
  "uuid \<Rightarrow> uuid \<Rightarrow> access_mode \<Rightarrow> nat \<Rightarrow> string \<Rightarrow> unit sess" where
  "change_policy user actor mode expected_version note =
     seq (lock_account user)
     (seq (require_open_account user)
     (bind (query (\<lambda>d. case policy_of d user of None \<Rightarrow> 0 | Some p \<Rightarrow> pol_version p)) (\<lambda>version.
     seq (guard (expected_version = version) (AccessDenied 409) msg_policy_changed)
     (bind (has_running_for_owner user) (\<lambda>active.
     seq (guard (\<not> active) (AccessDenied 409) msg_active_run)
     (seq (if mode = Sandbox then bind now (\<lambda>stamp. seq (assign_free user stamp) (ret ())) else ret ())
     (seq (change (\<lambda>d. d\<lparr>policies := policies d @ [\<lparr>pol_user_id = user, pol_version = version + 1,
              pol_mode = mode, pol_created_by = Some actor, pol_change_note = note\<rparr>]\<rparr>))
     flush)))))))"

definition msg_digest_limit :: string where
  "msg_digest_limit = ''Digest limit reached. Delete an unused digest before creating another.''"
definition msg_paper_limit :: string where
  "msg_paper_limit = ''Maximum papers exceeds the subscription per-run limit.''"
definition msg_schedule_limit :: string where
  "msg_schedule_limit = ''The selected schedule frequency or email delivery is not included in this subscription.''"

definition check_details ::
  "uuid \<Rightarrow> nat option \<Rightarrow> bool \<Rightarrow> DigestSchedule option \<Rightarrow> Settings \<Rightarrow> unit sess" where
  "check_details user requested creating schedule settings =
     seq (lock_account user)
     (seq (require_open_account user)
     (bind (resolve user settings) (\<lambda>access.
     if ac_mode access = Complimentary then ret ()
     else if \<not> creating \<and> requested = None \<and> schedule = None then ret ()
     else if \<not> ac_allowed access then raise (AccessDenied 403) (ac_reason access)
     else (case ac_plan access of
        None \<Rightarrow> raise TypeErrorPy []
      | Some plan \<Rightarrow>
          (let c = pl_configuration plan
           in bind (query (\<lambda>d. case ac_active_digest_ids access of
                      None \<Rightarrow> digest_count d user | Some ids \<Rightarrow> length ids)) (\<lambda>count.
              seq (guard (\<not> (creating \<and> count \<ge> pc_max_digests c)) (AccessDenied 403) msg_digest_limit)
              (seq (guard (case requested of None \<Rightarrow> True | Some n \<Rightarrow> n \<le> pc_max_papers_per_run c)
                      (AccessDenied 403) msg_paper_limit)
              (guard (case schedule of None \<Rightarrow> True
                      | Some s \<Rightarrow> sch_frequency s \<in> set (pc_schedule_frequencies c)
                          \<and> (sch_send_email s \<longrightarrow> pc_email_delivery c))
                 (AccessDenied 403) msg_schedule_limit))))))))"

end
