(* ===== verification/AdmissionFacts.thy ===== *)
theory AdmissionFacts
  imports Admission
begin

section \<open>Admission never exceeds the plan\<close>

text \<open>
  First what an allowed access rests on and which digests a plan keeps active; then the
  frame of \<open>resolve\<close> (it never touches the usage ledger) and the effect of one booking on
  the totals, which give the bound on the ledger after an admission.
\<close>

subsection \<open>Frames on the working copy\<close>

definition on_working :: "(db \<Rightarrow> bool) \<Rightarrow> session \<Rightarrow> bool" where
  "on_working P s \<longleftrightarrow> P (working s)"

lemma on_working_basic [keeps_intros]:
  "keeps (on_working P) now" "keeps (on_working P) uuid4" "keeps (on_working P) (query f)"
  "keeps (on_working P) flush"
  by (simp_all add: keeps_def on_working_def run_simps)

lemma on_working_commit [keeps_intros]: "keeps (on_working P) commit"
  by (simp add: keeps_def on_working_def run_simps)

lemma on_working_change: "(\<And>d. P d \<Longrightarrow> P (f d)) \<Longrightarrow> keeps (on_working P) (change f)"
  by (simp add: keeps_def on_working_def run_simps)

abbreviation same_usages :: "RunUsage list \<Rightarrow> session \<Rightarrow> bool" where
  "same_usages us \<equiv> on_working (\<lambda>d. usages d = us)"

lemma resolve_same_usages [keeps_intros]:
  "keeps (same_usages us) (lock_account user)"
  "keeps (same_usages us) (require_open_account user)"
  "keeps (same_usages us) (set_state user g)"
  "keeps (same_usages us) (enqueue user key subject txt)"
  unfolding lock_account_def require_open_account_def set_state_def enqueue_def Let_def
  by (intro keeps_intros on_working_change; simp)+

lemma assign_free_same_usages [keeps_intros]: "keeps (same_usages us) (assign_free user stamp)"
  unfolding assign_free_def default_plan_def Let_def
  by (intro keeps_intros on_working_change; simp)

lemma resolve_parts_same_usages [keeps_intros]:
  "keeps (same_usages us) (account_state user result stamp)"
  "keeps (same_usages us) (fall_back user state result)"
  "keeps (same_usages us) (record_effective user state result stamp)"
  "keeps (same_usages us) (free_digest_ids user state limit paid)"
  unfolding account_state_def fall_back_def record_effective_def free_digest_ids_def Let_def
  by (intro keeps_intros on_working_change; simp)+

lemma activate_digests_same_usages [keeps_intros]:
  "keeps (same_usages us) (activate_digests user state result)"
  unfolding activate_digests_def
  by (cases "ac_billing_type result"; cases "ac_plan result")
     (auto intro!: keeps_intros on_working_change)

lemma resolve_same [keeps_intros]: "keeps (same_usages us) (resolve user settings)"
  unfolding resolve_def resolve_locked_def Let_def by (intro keeps_intros)

subsection \<open>What an allowed access rests on\<close>

lemma paid_access_allowed:
  assumes "ac_allowed (paid_access row payment stamp settings r)" and "\<not> ac_allowed r"
  shows "co_price_matches row \<and> py_issue payment = None
    \<and> \<not> overdue (co_observed_at row) stamp (set_subscription_sync_max_age_seconds settings)
    \<and> \<not> overdue (co_invoices_checked_at row) stamp (set_subscription_sync_max_age_seconds settings)
    \<and> ((co_subscription_status row = Some ''active'' \<and> py_covered payment)
       \<or> (co_subscription_status row \<in> {Some ''active'', Some ''past_due''}
          \<and> (\<exists>g. py_grace_until payment = Some g \<and> stamp < g)))"
  using assms by (auto simp: paid_access_def Let_def split: if_splits option.splits)

subsection \<open>The active digests\<close>

lemma choose_digests_length: "length (choose_digests prefs available limit) \<le> limit"
  by (simp add: choose_digests_def Let_def)

lemma choose_digests_subset: "set (choose_digests prefs available limit) \<subseteq> set available"
  by (auto simp: choose_digests_def Let_def dest!: in_set_takeD)

lemma distinct_choose_digests:
  assumes "distinct prefs" and "distinct available"
  shows "distinct (choose_digests prefs available limit)"
proof -
  let ?kept = "take limit (filter (\<lambda>i. i \<in> set available) prefs)"
  let ?rest = "filter (\<lambda>i. i \<notin> set ?kept) available"
  have "set (take (limit - length ?kept) ?rest) \<inter> set ?kept = {}"
    using set_take_subset [of "limit - length ?kept" ?rest] by auto
  then show ?thesis
    using assms by (simp add: choose_digests_def Let_def distinct_take Int_commute)
qed

lemma choose_digests_full:
  assumes "distinct prefs" and "distinct available"
  shows "length (choose_digests prefs available limit) = min limit (length available)"
proof -
  let ?kept = "take limit (filter (\<lambda>i. i \<in> set available) prefs)"
  let ?rest = "filter (\<lambda>i. i \<notin> set ?kept) available"
  have kd: "distinct ?kept" and ks: "set ?kept \<subseteq> set available"
    using assms by (auto dest: in_set_takeD)
  have "length (filter (\<lambda>i. i \<in> set ?kept) available) = card (set ?kept \<inter> set available)"
    using assms(2) by (simp add: distinct_card [symmetric] Int_def conj_commute del: set_take_subset)
  also have "\<dots> = length ?kept" using kd ks by (simp add: Int_absorb2 distinct_card)
  finally have "length ?rest = length available - length ?kept"
    using sum_length_filter_compl [of "\<lambda>i. i \<in> set ?kept" available] by simp
  moreover have "length ?kept \<le> length available"
    using kd ks by (metis card_mono distinct_card List.finite_set assms(2))
  ultimately show ?thesis by (simp add: choose_digests_def Let_def min_def) arith
qed

subsection \<open>The window of an enforced access\<close>

lemma fall_back_mode:
  assumes "fall_back user state r s = (Inr r', s')"
  shows "ac_mode r' = ac_mode r"
  using assms by (auto simp: fall_back_def run_simps split: if_splits prod.splits sum.splits option.splits)

lemma activate_digests_keeps_fields:
  assumes "activate_digests user state r s = (Inr r', s')"
  shows "ac_mode r' = ac_mode r" "ac_period_start r' = ac_period_start r"
    "ac_period_end r' = ac_period_end r" "ac_plan r' = ac_plan r"
  using assms
  by (auto simp: activate_digests_def run_simps split: if_splits prod.splits sum.splits option.splits)

lemma bind_Inr: "bind m f s = (Inr v, s') \<Longrightarrow> \<exists>w t. m s = (Inr w, t) \<and> f w t = (Inr v, s')"
  by (auto simp: bind_def split: prod.splits sum.splits)

lemma seq_Inr: "seq m n s = (Inr v, s') \<Longrightarrow> \<exists>w t. m s = (Inr w, t) \<and> n t = (Inr v, s')"
  unfolding seq_def by (rule bind_Inr)

lemma resolve_locked_window:
  assumes "resolve_locked user settings s = (Inr a, s')"
  shows "\<exists>anchor stamp. ac_period_start a = Some (fst (window anchor stamp))
     \<and> ac_period_end a = Some (snd (window anchor stamp))"
proof -
  from assms obtain anchor stamp state r t r' t' where
    act: "activate_digests user state (r\<lparr>ac_period_start := Some (fst (window anchor stamp)),
        ac_period_end := Some (snd (window anchor stamp))\<rparr>) t = (Inr r', t')"
    and "r' = a"
    unfolding resolve_locked_def Let_def by (fastforce dest!: bind_Inr seq_Inr simp: ret_def)
  from activate_digests_keeps_fields [OF act] \<open>r' = a\<close> show ?thesis by auto
qed

lemma resolve_billing_complimentary:
  assumes "policy_of d user = None \<or> (\<exists>p. policy_of d user = Some p \<and> pol_mode p = Complimentary)"
  shows "resolve_billing d user settings stamp = Inr (base_access (policy_of d user))"
    and "ac_mode (base_access (policy_of d user)) = Complimentary"
  using assms by (auto simp: resolve_billing_def base_access_def Let_def)

lemma resolve_enforced_window:
  assumes "resolve user settings s = (Inr a, s')" and "ac_mode a \<noteq> Complimentary"
  shows "\<exists>start stop. ac_period_start a = Some start \<and> ac_period_end a = Some stop \<and> start < stop"
proof -
  obtain t where t: "bind (query (\<lambda>d. policy_of d user)) (\<lambda>selected.
     case selected of
       None \<Rightarrow> bind now (\<lambda>stamp. bind (query (\<lambda>d. resolve_billing d user settings stamp)) lift_result)
     | Some p \<Rightarrow> if pol_mode p = Complimentary
         then bind now (\<lambda>stamp. bind (query (\<lambda>d. resolve_billing d user settings stamp)) lift_result)
         else resolve_locked user settings) t = (Inr a, s')"
    using assms(1) unfolding resolve_def by (auto dest!: seq_Inr)
  have "\<exists>p. policy_of (working t) user = Some p \<and> pol_mode p \<noteq> Complimentary"
  proof (rule ccontr)
    assume "\<not> ?thesis"
    then have c: "policy_of (working t) user = None
        \<or> (\<exists>p. policy_of (working t) user = Some p \<and> pol_mode p = Complimentary)" by auto
    from t resolve_billing_complimentary [OF c] have "ac_mode a = Complimentary"
      using c by (auto simp: step_query step_now lift_result_def)
    with assms(2) show False by simp
  qed
  then have "resolve_locked user settings t = (Inr a, s')" using t by (auto simp: step_query)
  from resolve_locked_window [OF this] show ?thesis
    using window_bounds by (metis le_less_trans)
qed

subsection \<open>An accepted assessment\<close>

lemma explain_issues_Nil: "explain_issues c usage requested e found = [] \<longleftrightarrow> found = []"
  by (auto simp: explain_issues_def Let_def starts_def split: option.splits if_splits)

lemma assess_usage_accepted:
  assumes "assess_usage user requested trigger context digest access s = (Inr (a, []), s')"
  shows "s' = s \<and> a = access \<and> (\<exists>plan n. ac_plan a = Some plan
    \<and> reasons (Some (pl_configuration plan)) (totals (working s') user a) requested trigger n
        (cx_frequency context) (trigger = SCHEDULED \<and> cx_send_email context) = [])"
  using assms
  by (auto simp: assess_usage_def step_query run_simps explain_issues_Nil split: if_splits option.splits)

lemma assess_accepted:
  assumes "assess user requested trigger context settings digest s = (Inr (a, []), s')"
    and "ac_mode a \<noteq> Complimentary"
  shows "\<exists>plan n start stop. ac_plan a = Some plan
    \<and> ac_period_start a = Some start \<and> ac_period_end a = Some stop \<and> start < stop
    \<and> reasons (Some (pl_configuration plan)) (totals (working s') user a) requested trigger n
        (cx_frequency context) (trigger = SCHEDULED \<and> cx_send_email context) = []"
proof -
  from assms(1) obtain b t where r: "resolve user settings s = (Inr b, t)"
    and rest: "(if ac_mode b = Complimentary then ret (b, [])
       else if \<not> ac_allowed b then ret (b, [ac_reason b])
       else (case (ac_active_digest_ids b, digest) of
          (Some ids, Some k) \<Rightarrow>
             if k \<in> set ids then assess_usage user requested trigger context digest b
             else ret (b, [msg_inactive_digest])
        | _ \<Rightarrow> assess_usage user requested trigger context digest b)) t = (Inr (a, []), s')"
    unfolding assess_def by (auto dest!: bind_Inr)
  have u: "assess_usage user requested trigger context digest b t = (Inr (a, []), s')"
    using rest assms(2) by (auto simp: ret_def split: if_splits option.splits)
  note acc = assess_usage_accepted [OF u]
  with assms(2) have "ac_mode b \<noteq> Complimentary" by simp
  from resolve_enforced_window [OF r this] acc show ?thesis by auto
qed

lemma assess_same_usages [keeps_intros]:
  "keeps (same_usages us) (assess user requested trigger context settings digest)"
  unfolding assess_def assess_usage_def
  by (auto intro!: keeps_intros split: option.split)

subsection \<open>The ledger after a booking\<close>

lemma usage_totals_append:
  "ut_completed_runs (usage_totals (xs @ ys)) = ut_completed_runs (usage_totals xs) + ut_completed_runs (usage_totals ys)"
  "ut_reserved_runs (usage_totals (xs @ ys)) = ut_reserved_runs (usage_totals xs) + ut_reserved_runs (usage_totals ys)"
  "ut_manual_runs (usage_totals (xs @ ys)) = ut_manual_runs (usage_totals xs) + ut_manual_runs (usage_totals ys)"
  "ut_completed_papers (usage_totals (xs @ ys)) = ut_completed_papers (usage_totals xs) + ut_completed_papers (usage_totals ys)"
  "ut_reserved_papers (usage_totals (xs @ ys)) = ut_reserved_papers (usage_totals xs) + ut_reserved_papers (usage_totals ys)"
  by (simp_all add: usage_totals_def rowcount_def)

text \<open>The totals grow by exactly the booked row.\<close>

definition grown :: "UsageTotals \<Rightarrow> RunUsage \<Rightarrow> UsageTotals \<Rightarrow> bool" where
  "grown before u after \<longleftrightarrow>
     ut_completed_runs after = ut_completed_runs before
     \<and> ut_reserved_runs after = ut_reserved_runs before + 1
     \<and> ut_manual_runs after = ut_manual_runs before + (if us_trigger u = MANUAL then 1 else 0)
     \<and> ut_completed_papers after = ut_completed_papers before
     \<and> ut_reserved_papers after = ut_reserved_papers before + us_requested_papers u"

lemma usage_totals_insert:
  "us_state u = Reserved \<Longrightarrow> grown (usage_totals (xs @ ys)) u (usage_totals (xs @ u # ys))"
  using usage_totals_append [of xs ys] usage_totals_append [of xs "u # ys"]
    usage_totals_append [of "[u]" ys]
  by (simp add: grown_def usage_totals_def rowcount_def)

lemma split_at_key:
  assumes "distinct (map key xs)" and "x \<in> set xs"
  obtains ys zs where "xs = ys @ x # zs" "\<forall>y \<in> set (ys @ zs). key y \<noteq> key x"
proof -
  from assms(2) obtain ys zs where "xs = ys @ x # zs" by (auto simp: in_set_conv_decomp)
  with assms(1) show thesis by (intro that) (auto simp: image_iff)
qed

lemma update_where_split:
  assumes "\<forall>y \<in> set (ys @ zs). key y \<noteq> k" and "key x = k"
  shows "update_where (\<lambda>y. key y = k) f (ys @ x # zs) = ys @ f x # zs"
  using assms by (simp add: update_where_def map_idI)

lemma find_append:
  "find P (xs @ ys) = (case find P xs of None \<Rightarrow> find P ys | Some x \<Rightarrow> Some x)"
  by (induction xs) auto

lemma totals_after_booking:
  assumes dist: "distinct (map us_run_key (usages d))"
    and free: "case find_usage key d of None \<Rightarrow> True | Some u \<Rightarrow> us_state u \<notin> {Reserved, Settled}"
    and us': "usages d' = (case find_usage key d of None \<Rightarrow> usages d @ [row]
        | Some u \<Rightarrow> update_where (\<lambda>x. us_run_key x = key) f (usages d))"
    and f: "\<And>u. find_usage key d = Some u \<Longrightarrow> f u = row"
    and row: "in_window user a row" "us_state row = Reserved" "us_run_key row = key"
  shows "grown (totals d user a) row (totals d' user a) \<and> find_usage key d' = Some row"
proof (cases "find_usage key d")
  case None
  then have absent: "\<forall>u \<in> set (usages d). us_run_key u \<noteq> key"
    by (auto simp: find_usage_def get_row_None)
  moreover have eq: "usages d' = usages d @ [row]" using us' None by simp
  ultimately have "find_usage key d' = Some row"
    using row(3) None by (simp add: find_usage_def get_row_def find_append)
  moreover have "grown (totals d user a) row (totals d' user a)"
    using usage_totals_insert [of row "filter (in_window user a) (usages d)" "[]"] us' None row
    by (simp add: totals_def)
  ultimately show ?thesis by simp
next
  case (Some u)
  then have u: "u \<in> set (usages d)" "us_run_key u = key"
    by (auto simp: find_usage_def dest: get_row_Some)
  from split_at_key [OF dist u(1)] obtain ys zs where
    eq: "usages d = ys @ u # zs" and others: "\<forall>y \<in> set (ys @ zs). us_run_key y \<noteq> key"
    using u(2) by metis
  have eq': "usages d' = ys @ row # zs"
    using us' Some update_where_split [of ys zs us_run_key key u f] others u(2) eq f by simp
  have out: "\<not> in_window user a u" using free Some by (auto simp: in_window_def)
  have "find (\<lambda>r. us_run_key r = key) ys = None" using others by (simp add: find_None_iff)
  then have "find_usage key d' = Some row"
    unfolding find_usage_def get_row_def eq' using row(3) by (simp add: find_append)
  moreover have "grown (totals d user a) row (totals d' user a)"
    unfolding totals_def eq eq'
    using usage_totals_insert [OF row(2), of "filter (in_window user a) ys" "filter (in_window user a) zs"]
    by (simp add: out row(1))
  ultimately show ?thesis by simp
qed

text \<open>An admitted run: either its account is not limited, or it was booked before, or its
  booking keeps the window within the plan.\<close>

lemma reserve_booked:
  assumes run: "reserve run schedule settings s = (Inr (), s')"
    and dist: "distinct (map us_run_key (usages (working s)))"
    and free: "case find_usage (rn_id run) (working s) of None \<Rightarrow> True
        | Some u \<Rightarrow> us_state u = Released \<and> us_user_id u = rn_owner_id run"
    and booked: "find_usage (rn_id run) (working s') = Some u" "us_state u = Reserved"
  shows "\<exists>plan access. ac_plan access = Some plan \<and> us_plan_revision_id u = pl_id plan
     \<and> ac_period_start access = Some (us_period_start u) \<and> ac_period_end access = Some (us_period_end u)
     \<and> us_requested_papers u = ds_maximum_papers (rn_digest_snapshot run)
     \<and> (let t = totals (working s') (rn_owner_id run) access; c = pl_configuration plan
        in ut_completed_runs t + ut_reserved_runs t \<le> pc_runs_per_month c
           \<and> (rn_trigger run = MANUAL \<longrightarrow> ut_manual_runs t \<le> pc_manual_runs_per_month c)
           \<and> ut_completed_papers t + ut_reserved_papers t \<le> pc_papers_per_month c
           \<and> us_requested_papers u \<le> pc_max_papers_per_run c)"
proof -
  let ?o = "rn_owner_id run" and ?k = "rn_id run"
  obtain s1 s2 where l: "lock_account ?o s = (Inr (), s1)" "require_open_account ?o s1 = (Inr (), s2)"
    and r2: "bind (query (find_usage ?k)) (\<lambda>existing.
     if (case existing of None \<Rightarrow> False | Some u \<Rightarrow> us_state u \<in> {Reserved, Settled})
     then ret ()
     else bind (query (run_context run existing schedule)) (\<lambda>context.
       bind (assess ?o (ds_maximum_papers (rn_digest_snapshot run)) (rn_trigger run)
               context settings (Some (rn_digest_id run))) (\<lambda>(access, issues).
       if issues \<noteq> [] then raise (AccessDenied 403) (join '' '' issues)
       else if ac_mode access = Complimentary then ret ()
       else book_usage run existing context access))) s2 = (Inr (), s')"
    using run unfolding reserve_def by (auto dest!: seq_Inr)
  have same12: "usages (working s2) = usages (working s)"
    using keepsD [OF resolve_same_usages(1) [of "usages (working s)" ?o] _ l(1)]
      keepsD [OF resolve_same_usages(2) [of "usages (working s)" ?o] _ l(2)]
    by (simp add: on_working_def)
  define ex where "ex = find_usage ?k (working s)"
  have ex: "find_usage ?k (working s2) = ex" by (simp add: ex_def find_usage_def same12)
  define cx where "cx = run_context run ex schedule (working s2)"
  have nb: "\<not> (case ex of None \<Rightarrow> False | Some u \<Rightarrow> us_state u \<in> {Reserved, Settled})"
    using free by (auto simp: ex_def split: option.splits)
  note r2' = r2 [unfolded step_query ex]
  from r2' nb obtain a issues s3 where
    as: "assess ?o (ds_maximum_papers (rn_digest_snapshot run)) (rn_trigger run) cx settings
           (Some (rn_digest_id run)) s2 = (Inr (a, issues), s3)"
    and r3: "(if issues \<noteq> [] then raise (AccessDenied 403) (join '' '' issues)
       else if ac_mode a = Complimentary then ret () else book_usage run ex cx a) s3 = (Inr (), s')"
    by (auto simp: step_query cx_def [symmetric] cong: if_cong dest!: bind_Inr split: prod.splits)
  have same: "usages (working s3) = usages (working s)"
    using keepsD [OF assess_same_usages [of "usages (working s)"] _ as] same12
    by (simp add: on_working_def)
  have noissues: "issues = []" using r3 by (auto simp: raise_def split: if_splits)
  have enforced: "ac_mode a \<noteq> Complimentary"
  proof
    assume "ac_mode a = Complimentary"
    with r3 noissues have "s' = s3" by (simp add: ret_def)
    with booked same free show False by (auto simp: find_usage_def split: option.splits)
  qed
  from assess_accepted [OF as [unfolded noissues] enforced] obtain plan n start stop where
    plan: "ac_plan a = Some plan" and win: "ac_period_start a = Some start"
      "ac_period_end a = Some stop" "start < stop"
    and none: "reasons (Some (pl_configuration plan)) (totals (working s3) ?o a)
        (ds_maximum_papers (rn_digest_snapshot run)) (rn_trigger run) n (cx_frequency cx)
        (rn_trigger run = SCHEDULED \<and> cx_send_email cx) = []" by blast
  define row where "row = usage_row run cx a (pl_id plan) start stop"
  define f :: "RunUsage \<Rightarrow> RunUsage" where "f = (\<lambda>x. x\<lparr>us_checkout_id := us_checkout_id row,
      us_plan_revision_id := us_plan_revision_id row, us_period_start := start,
      us_period_end := stop, us_trigger := us_trigger row, us_state := Reserved,
      us_requested_papers := us_requested_papers row, us_actual_papers := 0\<rparr>)"
  have us': "usages (working s') = (case find_usage ?k (working s3) of
        None \<Rightarrow> usages (working s3) @ [row]
      | Some u \<Rightarrow> update_where (\<lambda>x. us_run_key x = ?k) f (usages (working s3)))"
    using r3 noissues enforced plan win ex same same12
    by (auto simp: book_usage_def Let_def row_def [symmetric] f_def [symmetric] run_simps find_usage_def
        split: option.splits if_splits)
  have f: "f x = row" if "find_usage ?k (working s3) = Some x" for x
  proof -
    have x: "ex = Some x" using that same by (simp add: ex_def find_usage_def)
    then have "us_user_id x = ?o" "us_run_key x = ?k" "cx = us_request_context x"
      using free by (auto simp: ex_def cx_def run_context_def find_usage_def dest: get_row_Some)
    then show ?thesis by (simp add: f_def row_def usage_row_def)
  qed
  have d3: "distinct (map us_run_key (usages (working s3)))" using dist same by simp
  have f3: "case find_usage ?k (working s3) of None \<Rightarrow> True | Some u \<Rightarrow> us_state u \<notin> {Reserved, Settled}"
    using free same by (auto simp: find_usage_def split: option.splits)
  have w3: "in_window ?o a row" "us_state row = Reserved" "us_run_key row = ?k"
    using win by (simp_all add: in_window_def row_def usage_row_def)
  from totals_after_booking [OF d3 f3 us' f w3]
  have "grown (totals (working s3) ?o a) row (totals (working s') ?o a)
      \<and> find_usage ?k (working s') = Some row" by simp
  then have g: "grown (totals (working s3) ?o a) row (totals (working s') ?o a)" and "row = u"
    using booked(1) by simp_all
  have rowf: "us_requested_papers row = ds_maximum_papers (rn_digest_snapshot run)"
    "us_trigger row = rn_trigger run" "us_plan_revision_id row = pl_id plan"
    "us_period_start row = start" "us_period_end row = stop"
    by (simp_all add: row_def usage_row_def)
  show ?thesis
    using none g win plan rowf unfolding reasons_Nil_iff grown_def \<open>row = u\<close> [symmetric]
    by (intro exI [of _ plan] exI [of _ a]) (simp add: Let_def)
qed

end
