(* ===== verification/RateLimit.thy ===== *)
theory RateLimit
  imports AdmissionFacts
begin

section \<open>Fixed-window rate limits (backend/app/services/rate_limit_service.py)\<close>

text \<open>
  One counter per scope, subject and window.  \<open>hmac\<close> stands for HMAC-SHA256 in hexadecimal:
  the theorems ask at most that it separates the two windows they speak about.  Times are
  after 1970, where \<open>int(timestamp)\<close> is the floor.
\<close>

type_synonym hmac = "string \<Rightarrow> string \<Rightarrow> string"

definition policies_table :: "(string \<times> nat \<times> nat) list" where
  "policies_table =
     [(''contact-ip'', 5, 3600), (''sandbox-billing-user'', 20, 60), (''api-ip'', 1200, 60),
      (''api-user'', 600, 60), (''login-ip'', 60, 900), (''login-email'', 10, 900),
      (''registration-ip'', 20, 3600), (''registration-email'', 5, 3600), (''verify-ip'', 60, 900),
      (''verify-challenge'', 10, 900), (''resend-ip'', 20, 3600), (''resend-challenge'', 5, 3600),
      (''email-change-user'', 5, 3600), (''password-change-user'', 10, 900), (''refresh-ip'', 120, 60)]"

definition window_bucket :: "int \<Rightarrow> datetime \<Rightarrow> int" where
  "window_bucket secs stamp = timestamp stamp div secs"

definition window_key ::
  "hmac \<Rightarrow> Settings \<Rightarrow> string \<Rightarrow> string \<Rightarrow> int \<Rightarrow> datetime \<Rightarrow> string \<times> datetime" where
  "window_key hmac settings scope subject secs stamp =
     (let bucket = window_bucket secs stamp
      in (hmac (set_jwt_secret settings) (scope @ '':'' @ subject @ '':'' @ int_str bucket),
          from_timestamp ((bucket + 1) * secs)))"

definition get_bucket :: "string \<Rightarrow> db \<Rightarrow> RateLimitBucket option" where
  "get_bucket key d = get_row bk_key key (buckets d)"

definition run_allowance_available_at ::
  "hmac \<Rightarrow> Settings \<Rightarrow> uuid \<Rightarrow> datetime \<Rightarrow> db \<Rightarrow> datetime option" where
  "run_allowance_available_at hmac settings owner stamp d =
     (let blocked = concat (map (\<lambda>(scope, limit, secs).
            case window_key hmac settings scope (uuid_text owner) secs stamp of (key, deadline) \<Rightarrow>
              (case get_bucket key d of None \<Rightarrow> []
               | Some b \<Rightarrow> if bk_count b \<ge> limit then [deadline] else []))
            [(''radar-hour'', set_radar_runs_per_hour settings, 3600),
             (''radar-day'', set_radar_runs_per_day settings, 86400)])
      in if blocked = [] then None else Some (Max (set blocked)))"

text \<open>\<open>max(1, math.ceil(remaining seconds))\<close>.\<close>

definition retry_after :: "datetime \<Rightarrow> datetime \<Rightarrow> int" where
  "retry_after deadline stamp = max 1 (- ((stamp - deadline) div 1000000))"

definition below_limit :: "string \<Rightarrow> nat \<Rightarrow> RateLimitBucket \<Rightarrow> bool" where
  "below_limit key limit b \<longleftrightarrow> bk_key b = key \<and> bk_count b < limit"

definition count_up :: "string \<Rightarrow> nat \<Rightarrow> bool sess" where
  "count_up key limit =
     bind (query (\<lambda>d. rowcount (below_limit key limit) (buckets d))) (\<lambda>n.
     seq (change (\<lambda>d. d\<lparr>buckets := update_where (below_limit key limit)
            (\<lambda>b. b\<lparr>bk_count := bk_count b + 1\<rparr>) (buckets d)\<rparr>))
     (ret (n = 1)))"

text \<open>The nested insert fails only when another session inserted the same key in between; the
  counter is then raised instead, as \<open>count_up\<close> does.\<close>

definition consume ::
  "hmac \<Rightarrow> Settings \<Rightarrow> string \<Rightarrow> string \<Rightarrow> nat \<Rightarrow> int \<Rightarrow> bool \<Rightarrow> (bool \<times> int) sess" where
  "consume hmac settings scope subject limit secs do_commit =
     bind now (\<lambda>stamp.
       let (key, deadline) = window_key hmac settings scope subject secs stamp
       in bind (count_up key limit) (\<lambda>accepted.
          bind (query (get_bucket key)) (\<lambda>present.
          bind (if \<not> accepted \<and> present = None
                then seq (change (\<lambda>d. d\<lparr>buckets := buckets d
                            @ [\<lparr>bk_key = key, bk_count = 1, bk_expires_at = deadline\<rparr>]\<rparr>))
                     (ret True)
                else ret accepted) (\<lambda>result.
          seq (if do_commit then commit else ret ())
              (ret (result, retry_after deadline stamp))))))"

definition enforce ::
  "hmac \<Rightarrow> Settings \<Rightarrow> string \<Rightarrow> string \<Rightarrow> nat \<Rightarrow> int \<Rightarrow> bool \<Rightarrow> unit sess" where
  "enforce hmac settings scope subject limit secs do_commit =
     bind (consume hmac settings scope subject limit secs do_commit) (\<lambda>(accepted, retry).
       if accepted then ret () else raise (RateLimitExceeded retry) scope)"

definition cleanup_rate_limits :: "unit sess" where
  "cleanup_rate_limits =
     bind now (\<lambda>stamp.
     seq (change (\<lambda>d. d\<lparr>buckets := filter (\<lambda>b. \<not> bk_expires_at b \<le> stamp) (buckets d)\<rparr>)) commit)"

subsection \<open>Windows\<close>

lemma window_bucket_bounds:
  assumes "0 < secs"
  shows "from_timestamp (window_bucket secs stamp * secs) \<le> stamp"
    and "stamp < from_timestamp ((window_bucket secs stamp + 1) * secs)"
proof -
  define u where "u = stamp - epoch_us"
  have e: "u div 1000000 div secs = u div (1000000 * secs)"
    using assms by (simp add: zdiv_zmult2_eq)
  have p: "0 < 1000000 * secs" using assms by simp
  have "u div (1000000 * secs) * (1000000 * secs) \<le> u"
    using pos_mod_sign [OF p, of u] div_mult_mod_eq [of u "1000000 * secs"] by linarith
  then have "u div 1000000 div secs * secs * 1000000 \<le> u"
    by (simp add: e mult.assoc mult.commute)
  then show "from_timestamp (window_bucket secs stamp * secs) \<le> stamp"
    by (simp add: window_bucket_def timestamp_def from_timestamp_def u_def)
  have "u < (u div (1000000 * secs) + 1) * (1000000 * secs)"
    using pos_mod_bound [OF p, of u] div_mult_mod_eq [of u "1000000 * secs"]
    by (simp add: distrib_right)
  then have "u < (u div 1000000 div secs + 1) * secs * 1000000" by (simp add: e algebra_simps)
  then show "stamp < from_timestamp ((window_bucket secs stamp + 1) * secs)"
    by (simp add: window_bucket_def timestamp_def from_timestamp_def u_def)
qed

text \<open>The advised wait ends in the next window, and is never shorter than a second.\<close>

lemma retry_after_bounds:
  assumes "0 < secs" and "(key, deadline) = window_key hmac settings scope subject secs stamp"
  shows "1 \<le> retry_after deadline stamp"
    and "deadline \<le> stamp + seconds (retry_after deadline stamp)"
    and "retry_after deadline stamp \<le> secs"
proof -
  let ?w = "- ((stamp - deadline) div 1000000)"
  have dl: "deadline = from_timestamp ((window_bucket secs stamp + 1) * secs)"
    using assms(2) by (simp add: window_key_def Let_def)
  show "1 \<le> retry_after deadline stamp" by (simp add: retry_after_def)
  have "stamp - deadline = (stamp - deadline) div 1000000 * 1000000 + (stamp - deadline) mod 1000000"
    by simp
  moreover have m: "0 \<le> (stamp - deadline) mod 1000000" "(stamp - deadline) mod 1000000 < 1000000"
    by simp_all
  ultimately have up: "deadline - stamp \<le> ?w * 1000000" and low: "?w * 1000000 < deadline - stamp + 1000000"
    by linarith+
  show "deadline \<le> stamp + seconds (retry_after deadline stamp)"
    using up by (auto simp: retry_after_def max_def)
  have "deadline - stamp \<le> secs * 1000000"
    using window_bucket_bounds(1) [OF assms(1), of stamp] dl
    by (simp add: from_timestamp_def algebra_simps)
  with low have "?w * 1000000 < (secs + 1) * 1000000" by (simp add: algebra_simps)
  then have "?w \<le> secs" by simp
  then show "retry_after deadline stamp \<le> secs" using assms(1) by (simp add: retry_after_def)
qed

subsection \<open>Counting\<close>

definition bucket_keys_ok :: "db \<Rightarrow> bool" where
  "bucket_keys_ok d \<longleftrightarrow> distinct (map bk_key (buckets d))"

definition used :: "string \<Rightarrow> db \<Rightarrow> nat" where
  "used key d = (case get_bucket key d of None \<Rightarrow> 0 | Some b \<Rightarrow> bk_count b)"

lemma count_up_absent:
  assumes "get_bucket key (working s) = None"
  shows "count_up key limit s = (Inr False, s)"
proof -
  have "\<forall>b \<in> set (buckets (working s)). \<not> below_limit key limit b"
    using assms by (auto simp: get_bucket_def get_row_None below_limit_def)
  then show ?thesis
    by (simp add: count_up_def run_simps update_where_none) (simp add: rowcount_def filter_empty_conv)
qed

lemma count_up_present:
  assumes "bucket_keys_ok (working s)" and b: "get_bucket key (working s) = Some b"
  shows "fst (count_up key limit s) = Inr (bk_count b < limit)"
    and "get_bucket key (working (snd (count_up key limit s)))
       = Some (if bk_count b < limit then b\<lparr>bk_count := Suc (bk_count b)\<rparr> else b)"
proof -
  let ?bs = "buckets (working s)"
  have m: "b \<in> set ?bs" "bk_key b = key" using b by (auto simp: get_bucket_def dest: get_row_Some)
  have dist: "distinct (map bk_key ?bs)" using assms(1) by (simp add: bucket_keys_ok_def)
  have eq: "below_limit key limit = (\<lambda>y. bk_key y = bk_key b \<and> bk_count y < limit)"
    using m(2) by (simp add: below_limit_def [abs_def])
  show "fst (count_up key limit s) = Inr (bk_count b < limit)"
    using rowcount_distinct [OF dist m(1), of "\<lambda>y. bk_count y < limit"]
    by (simp add: count_up_def run_simps eq)
  show "get_bucket key (working (snd (count_up key limit s)))
       = Some (if bk_count b < limit then b\<lparr>bk_count := Suc (bk_count b)\<rparr> else b)"
    using set_run_row [OF dist m(1), of "\<lambda>b. b\<lparr>bk_count := Suc (bk_count b)\<rparr>" "\<lambda>y. bk_count y < limit"] m(2)
    by (simp add: count_up_def run_simps eq get_bucket_def)
qed

text \<open>The key of the window an attempt at a given time falls into.\<close>

definition key_at :: "hmac \<Rightarrow> Settings \<Rightarrow> string \<Rightarrow> string \<Rightarrow> int \<Rightarrow> datetime \<Rightarrow> string" where
  "key_at hmac settings scope subject secs stamp = fst (window_key hmac settings scope subject secs stamp)"

lemma count_up_frame:
  "bucket_keys_ok (working s) \<Longrightarrow> bucket_keys_ok (working (snd (count_up key limit s)))"
  "ticks (snd (count_up key limit s)) = ticks s" "clock (snd (count_up key limit s)) = clock s"
  by (simp_all add: count_up_def run_simps bucket_keys_ok_def below_limit_def)

text \<open>One attempt without a commit: accepted exactly when the counter is below the limit, or
  when the window has no counter yet, and an accepted attempt is counted.\<close>

lemma consume_step:
  fixes s :: session and hmac settings scope subject secs
  defines "key \<equiv> key_at hmac settings scope subject secs (clock s (ticks s))"
  assumes ok: "bucket_keys_ok (working s)" and limit: "0 < limit"
  shows "\<exists>retry s'. consume hmac settings scope subject limit secs False s
       = (Inr (used key (working s) < limit, retry), s')
     \<and> used key (working s') = (if used key (working s) < limit then Suc (used key (working s))
          else used key (working s))
     \<and> bucket_keys_ok (working s') \<and> ticks s' = Suc (ticks s) \<and> clock s' = clock s"
proof -
  let ?s = "s\<lparr>ticks := Suc (ticks s)\<rparr>"
  let ?stamp = "clock s (ticks s)"
  obtain deadline where w: "window_key hmac settings scope subject secs ?stamp = (key, deadline)"
    by (simp add: key_def key_at_def) (metis surjective_pairing)
  have eq: "consume hmac settings scope subject limit secs False s
     = bind (count_up key limit) (\<lambda>accepted.
          bind (query (get_bucket key)) (\<lambda>present.
          bind (if \<not> accepted \<and> present = None
                then seq (change (\<lambda>d. d\<lparr>buckets := buckets d
                            @ [\<lparr>bk_key = key, bk_count = 1, bk_expires_at = deadline\<rparr>]\<rparr>))
                     (ret True)
                else ret accepted) (\<lambda>result.
          seq (ret ()) (ret (result, retry_after deadline ?stamp))))) ?s"
    by (simp add: consume_def step_now w)
  show ?thesis
  proof (cases "get_bucket key (working s)")
    case None
    then have c: "count_up key limit ?s = (Inr False, ?s)" by (intro count_up_absent) simp
    have "get_row bk_key key (buckets (working s) @ [\<lparr>bk_key = key, bk_count = 1, bk_expires_at = deadline\<rparr>])
        = Some \<lparr>bk_key = key, bk_count = 1, bk_expires_at = deadline\<rparr>"
      using None by (simp add: get_bucket_def get_row_def find_append)
    moreover have "key \<notin> bk_key ` set (buckets (working s))" "get_row bk_key key (buckets (working s)) = None"
      using None by (simp_all add: get_bucket_def get_row_None)
    ultimately show ?thesis
      unfolding eq using c ok limit
      by (simp add: step_Inr step_query get_bucket_def)
         (simp add: run_simps used_def get_bucket_def bucket_keys_ok_def)
  next
    case (Some b)
    have ok': "bucket_keys_ok (working ?s)" and b': "get_bucket key (working ?s) = Some b"
      using ok Some by simp_all
    define t where "t = snd (count_up key limit ?s)"
    have c: "count_up key limit ?s = (Inr (bk_count b < limit), t)"
      using count_up_present(1) [OF ok' b', of limit] by (simp add: t_def prod_eq_iff)
    have g: "get_bucket key (working t)
        = Some (if bk_count b < limit then b\<lparr>bk_count := Suc (bk_count b)\<rparr> else b)"
      using count_up_present(2) [OF ok' b', of limit] by (simp add: t_def)
    have fr: "bucket_keys_ok (working t)" "ticks t = Suc (ticks s)" "clock t = clock s"
      using count_up_frame [where s = ?s and key = key and limit = limit] ok by (simp_all add: t_def)
    show ?thesis
      unfolding eq using Some c g fr
      by (simp add: step_Inr step_query) (simp add: run_simps used_def)
  qed
qed

text \<open>A sequence of attempts of one subject, without commits.\<close>

fun attempts ::
  "hmac \<Rightarrow> Settings \<Rightarrow> string \<Rightarrow> string \<Rightarrow> nat \<Rightarrow> int \<Rightarrow> nat \<Rightarrow> bool list sess" where
  "attempts hmac settings scope subject limit secs 0 = ret []"
| "attempts hmac settings scope subject limit secs (Suc n) =
     bind (consume hmac settings scope subject limit secs False) (\<lambda>(accepted, _).
     bind (attempts hmac settings scope subject limit secs n) (\<lambda>rest. ret (accepted # rest)))"

lemma attempts_results:
  assumes "bucket_keys_ok (working s)" and "0 < limit"
    and "\<And>i. i < n \<Longrightarrow> key_at hmac settings scope subject secs (clock s (ticks s + i)) = key"
  shows "fst (attempts hmac settings scope subject limit secs n s)
       = Inr (map (\<lambda>i. used key (working s) + i < limit) [0..<n])"
  using assms
proof (induction n arbitrary: s)
  case 0
  then show ?case by (simp add: ret_def)
next
  case (Suc n)
  have k0: "key_at hmac settings scope subject secs (clock s (ticks s)) = key"
    using Suc.prems(3) [of 0] by simp
  let ?u = "used key (working s)"
  from consume_step [OF Suc.prems(1,2), where hmac = hmac and settings = settings and scope = scope
      and subject = subject and secs = secs] obtain retry s' where
    c: "consume hmac settings scope subject limit secs False s = (Inr (?u < limit, retry), s')"
    and u': "used key (working s') = (if ?u < limit then Suc ?u else ?u)"
    and ok': "bucket_keys_ok (working s')" and t': "ticks s' = Suc (ticks s)" "clock s' = clock s"
    unfolding k0 by blast
  have IH: "fst (attempts hmac settings scope subject limit secs n s')
       = Inr (map (\<lambda>i. used key (working s') + i < limit) [0..<n])"
  proof (rule Suc.IH [OF ok' Suc.prems(2)])
    show "key_at hmac settings scope subject secs (clock s' (ticks s' + i)) = key" if "i < n" for i
      using Suc.prems(3) [of "Suc i"] that t' by simp
  qed
  have tail: "map (\<lambda>i. used key (working s') + i < limit) [0..<n]
      = map (\<lambda>i. ?u + i < limit) (map Suc [0..<n])"
    using u' by auto
  have split: "[0..<Suc n] = 0 # map Suc [0..<n]" by (metis map_Suc_upt upt_conv_Cons zero_less_Suc)
  obtain s'' where a: "attempts hmac settings scope subject limit secs n s'
      = (Inr (map (\<lambda>i. ?u + i < limit) (map Suc [0..<n])), s'')"
    using IH tail by (metis prod.collapse)
  show ?case
    unfolding split using c a by (simp add: step_Inr ret_def del: upt_Suc)
qed

end
