(* ===== verification/AccessProperties.thy ===== *)
theory AccessProperties
  imports Examples RateLimit
begin

section \<open>Properties of subscription access and limits\<close>

text \<open>
  What an admitted run, an allowed access, a plan upgrade, the choice of active digests and
  the rate limits guarantee, with witnesses on an account of the Free plan and a paid one.
\<close>

subsection \<open>Admission\<close>


text \<open>An account on the Free plan, with its only digest and no run yet this month.\<close>

definition free_plan :: PlanRevision where
  "free_plan = \<lparr>pl_id = 1, pl_code = ''free'', pl_revision = 1, pl_configuration = default_configuration\<rparr>"

definition free_session :: session where
  "free_session = open_session sample_env (empty_db\<lparr>plans := [free_plan], digests := [sample_digest 7 1],
     policies := [\<lparr>pol_user_id = 1, pol_version = 1, pol_mode = Sandbox, pol_created_by = None,
       pol_change_note = []\<rparr>],
     free_subs := [\<lparr>fs_user_id = 1, fs_plan_revision_id = 1, fs_anchor = noon\<rparr>]\<rparr>)"

lemmas resolving = resolve_billing_def Let_def base_access_def policy_of_def first_by_def
  checkout_row_def get_row_def resolve_def resolve_locked_def lock_account_def
  require_open_account_def account_state_def fall_back_def record_effective_def set_state_def
  activate_digests_def free_digest_ids_def assign_free_def available_digests_def
  choose_digests_def last_used_def latest_successful_run_at_def update_where_def to_pause_def

lemmas admitting = assess_def assess_usage_def book_usage_def usage_row_def find_usage_def
  run_context_def reserve_def totals_def usage_totals_def rowcount_def explain_issues_Nil
  reasons_Nil_iff

lemmas free_account = free_session_def empty_db_def free_plan_def default_configuration_def
  sample_env_def constraints_ok_def sample_digest_def sample_run_def new_run_def
  sample_snapshot_def active_owners_def

lemma case_booked:
  "(case m of (Inl e, s') \<Rightarrow> False
     | (Inr (u :: unit), s') \<Rightarrow> (case find_usage k (working s') of None \<Rightarrow> False | Some u \<Rightarrow> P u))
   \<Longrightarrow> \<exists>s' u. m = (Inr (), s') \<and> find_usage k (working s') = Some u \<and> P u"
  by (auto split: prod.splits sum.splits option.splits)

lemma free_run_booked:
  "\<exists>s' u. reserve (sample_run 10 1 60) None sample_settings free_session = (Inr (), s')
     \<and> find_usage 10 (working s') = Some u \<and> us_state u = Reserved"
  by (rule case_booked) (simp add: resolving admitting free_account run_simps)


subsection \<open>Paid access\<close>


text \<open>A subscription of a paid plan whose invoice of the current month is settled.\<close>

definition paid_plan :: PlanRevision where
  "paid_plan = \<lparr>pl_id = 2, pl_code = ''pro'', pl_revision = 1,
     pl_configuration = default_configuration\<lparr>pc_name := ''Pro'', pc_monthly_price := 900,
       pc_max_digests := 5, pc_max_papers_per_run := 20, pc_papers_per_month := 200,
       pc_runs_per_month := 20, pc_manual_runs_per_month := 10, pc_schedule_frequencies := [WEEKLY],
       pc_email_delivery := True, pc_billing_type := Some BillingStripe\<rparr>\<rparr>"

definition paid_checkout :: Checkout where
  "paid_checkout = \<lparr>co_id = 50, co_user_id = 1, co_plan_revision_id = 2,
     co_interval = ''monthly'', co_price_id = ''price_1'', co_parameters = [], co_checkout_id = Some ''cs_test_1'',
     co_checkout_status = ''complete'',
     co_subscription_id = Some ''sub_1'', co_subscription_status = Some ''active'', co_customer_id = Some ''cus_1'',
     co_notification_state = None, co_replacement_intent = None,
     co_cancel_at_period_end = False, co_price_matches = True, co_latest_invoice_id = Some ''in_1'',
     co_invoices_checked_at = Some noon, co_invoice_history_cursor = None,
     co_invoice_history_complete = True, co_period_start = Some (noon - days 3),
     co_billing_anchor = Some (noon - days 3), co_delinquent_since = None,
     co_active_through = Some (noon + days 28), co_period_end = Some (noon + days 28),
     co_observed_at = Some noon, co_created_at = noon - days 3\<rparr>"

definition paid_invoice :: BillingInvoice where
  "paid_invoice = \<lparr>iv_id = ''in_1'', iv_checkout_id = 50, iv_status = ''paid'', iv_currency = ''eur'', iv_amount_due = 900,
     iv_amount_paid = 900, iv_amount_remaining = 0, iv_attempt_count = 1,
     iv_billing_reason = ''subscription_create'', iv_period_start = Some (noon - days 3),
     iv_period_end = Some (noon + days 28), iv_paid_at = Some (noon - days 3),
     iv_next_payment_attempt = None, iv_issue = None, iv_created_at = noon - days 3, iv_observed_at = noon\<rparr>"

definition paid_db :: db where
  "paid_db = empty_db\<lparr>plans := [free_plan, paid_plan], checkouts := [paid_checkout], invoices := [paid_invoice],
     policies := [\<lparr>pol_user_id = 1, pol_version = 1, pol_mode = Sandbox, pol_created_by = None,
       pol_change_note = []\<rparr>]\<rparr>"

lemma paid_account_allowed:
  "\<exists>a. resolve_billing paid_db 1 sample_settings noon = Inr a \<and> ac_mode a \<noteq> Complimentary \<and> ac_allowed a"
  by (simp add: resolving paid_db_def empty_db_def paid_checkout_def paid_invoice_def paid_plan_def free_plan_def
      paid_access_def overdue_def assessment.simps assess_invoice_def upgrade_of_invoice_def
      sample_settings_def day_us_def not_less window_bounds)


subsection \<open>Plans and digests\<close>

text \<open>No chain of renewal upgrades returns to a plan it started from.\<close>

theorem renewal_upgrades_acyclic: "acyclicP is_renewal_upgrade"
proof -
  let ?better = "{(p, q). improves (from_configuration (pl_configuration q)) (from_configuration (pl_configuration p))}"
  have "trans ?better" by (auto simp: trans_def intro: improves_trans)
  moreover have "{(p, q). is_renewal_upgrade p q} \<subseteq> ?better"
    by (auto simp: is_renewal_upgrade_def Let_def split: if_splits)
  ultimately have "{(p, q). is_renewal_upgrade p q}\<^sup>+ \<subseteq> ?better"
    by (metis trancl_id trancl_mono_subset)
  then show ?thesis using improves_asym unfolding acyclic_def by blast
qed

text \<open>Whatever an account's plan accepts, a renewal upgrade of it accepts too.\<close>

theorem upgrade_accepts_no_less:
  assumes "is_renewal_upgrade source target"
    and "reasons (Some (pl_configuration source)) usage requested trigger n f email = []"
  shows "reasons (Some (pl_configuration target)) usage requested trigger n f email = []"
proof (rule reasons_mono [OF _ assms(2)])
  show "plan_includes (from_configuration (pl_configuration target)) (from_configuration (pl_configuration source))"
    using assms(1) by (simp add: is_renewal_upgrade_def improves_def Let_def split: if_splits)
qed

definition team_plan :: PlanRevision where
  "team_plan = paid_plan\<lparr>pl_id := 3, pl_code := ''team'',
     pl_configuration := (pl_configuration paid_plan)\<lparr>pc_max_digests := 20\<rparr>\<rparr>"

definition no_usage :: UsageTotals where
  "no_usage = \<lparr>ut_completed_runs = 0, ut_reserved_runs = 0, ut_manual_runs = 0, ut_completed_papers = 0,
     ut_reserved_papers = 0, ut_released_runs = 0\<rparr>"

theorem upgrade_accepts_no_less_witness:
  "is_renewal_upgrade paid_plan team_plan
   \<and> reasons (Some (pl_configuration team_plan)) no_usage 5 SCHEDULED 1 (Some WEEKLY) True = []"
proof
  show u: "is_renewal_upgrade paid_plan team_plan"
    by (simp add: is_renewal_upgrade_def paid_plan_def team_plan_def default_configuration_def
        billing_type_of_def improves_def plan_includes_def from_configuration_def)
  show "reasons (Some (pl_configuration team_plan)) no_usage 5 SCHEDULED 1 (Some WEEKLY) True = []"
    by (rule upgrade_accepts_no_less [OF u])
      (simp add: reasons_Nil_iff paid_plan_def no_usage_def default_configuration_def)
qed

text \<open>The digests a plan keeps active are the account's own, without repetition, as many as
  the plan allows or all there are; a preferred one is left out only when the preferred
  ones already fill the plan, and a digest nobody preferred only when it is full.\<close>

theorem active_digests_choice:
  assumes "distinct preferred" and "distinct available"
  shows "set (choose_digests preferred available limit) \<subseteq> set available
     \<and> distinct (choose_digests preferred available limit)
     \<and> length (choose_digests preferred available limit) = min limit (length available)
     \<and> (\<forall>i \<in> set preferred \<inter> set available. i \<notin> set (choose_digests preferred available limit) \<longrightarrow>
          set (choose_digests preferred available limit) \<subseteq> set preferred
          \<and> length (choose_digests preferred available limit) = limit)"
proof -
  have full: "set (choose_digests preferred available limit) \<subseteq> set preferred
      \<and> length (choose_digests preferred available limit) = limit"
    if "i \<in> set preferred" "i \<in> set available" "i \<notin> set (choose_digests preferred available limit)" for i
  proof -
    let ?own = "filter (\<lambda>i. i \<in> set available) preferred"
    have "i \<in> set ?own" "i \<notin> set (take limit ?own)"
      using that by (auto simp: choose_digests_def Let_def)
    then have "limit < length ?own" by (metis take_all not_le)
    then have "choose_digests preferred available limit = take limit ?own"
      by (simp add: choose_digests_def Let_def)
    with \<open>limit < length ?own\<close> show ?thesis by (auto dest: in_set_takeD)
  qed
  show ?thesis
    using choose_digests_subset distinct_choose_digests [OF assms] choose_digests_full [OF assms] full
    by blast
qed

theorem active_digests_choice_witness:
  "set (choose_digests [5, 3] [1, 2, 3, 4] 2) \<subseteq> {1, 2, 3, 4::nat}
   \<and> distinct (choose_digests [5, 3] [1, 2, 3, 4::nat] 2)
   \<and> length (choose_digests [5, 3] [1, 2, 3, 4::nat] 2) = 2"
  using active_digests_choice [of "[5, 3]" "[1, 2, 3, 4]" 2] by simp

end
