(* ===== verification/Briefing.thy ===== *)
theory Briefing
  imports QualityService Access
begin

section \<open>The briefing e-mail (backend/app/services/briefing_email.py)\<close>

text \<open>
  The text and HTML variants of a stored briefing.  The HTML is the concatenation the code
  builds, every stored text going through \<open>html.escape\<close>; \<open>html_safe\<close> is what that
  guarantees of the text.  Text is a list of bytes, so that the dash of the templates is its
  three bytes of UTF-8.
\<close>

subsection \<open>Escaping and links\<close>

text \<open>\<open>html.escape(s, quote=True)\<close>.\<close>

fun escape_char :: "char \<Rightarrow> string" where
  "escape_char c =
     (if c = CHR ''&'' then ''&amp;'' else if c = CHR ''<'' then ''&lt;''
      else if c = CHR ''>'' then ''&gt;'' else if c = CHR 0x22 then ''&quot;''
      else if c = CHR 0x27 then ''&#x27;'' else [c])"

declare escape_char.simps [simp del]

definition escape :: "string \<Rightarrow> string" where
  "escape s = concat (map escape_char s)"

text \<open>\<open>SplitResult.username\<close> and \<open>password\<close>, with \<open>or ""\<close>.\<close>

definition userinfo :: "SplitResult \<Rightarrow> string" where
  "userinfo u = (if CHR ''@'' \<in> set (netloc u)
     then rev (drop 1 (dropWhile (\<lambda>c. c \<noteq> CHR ''@'') (rev (netloc u)))) else [])"

definition username :: "SplitResult \<Rightarrow> string" where
  "username u = takeWhile (\<lambda>c. c \<noteq> CHR '':'') (userinfo u)"

definition password :: "SplitResult \<Rightarrow> string" where
  "password u = drop 1 (dropWhile (\<lambda>c. c \<noteq> CHR '':'') (userinfo u))"

definition safe_url :: "string \<Rightarrow> string option" where
  "safe_url v =
     (case urlsplit v of
        Inl e \<Rightarrow> None
      | Inr p \<Rightarrow>
          if scheme p \<in> {''http'', ''https''} \<and> hostname p \<noteq> [] \<and> username p = [] \<and> password p = []
          then Some v else None)"

subsection \<open>Building the message\<close>

record OutgoingEmail =
  em_recipient :: string
  em_subject :: string
  em_text :: string
  em_html :: "string option"
  em_message_id :: "string option"

definition nl :: string where "nl = [CHR 0x0A]"

definition dash :: string where
  "dash = [CHR 0x20, CHR 0xE2, CHR 0x80, CHR 0x94, CHR 0x20]"

fun level_text :: "Level \<Rightarrow> string" where
  "level_text Low = ''low''"
| "level_text Medium = ''medium''"
| "level_text High = ''high''"

fun source_basis_text :: "source_basis \<Rightarrow> string" where
  "source_basis_text SBMetadataOnly = ''metadata_only''"
| "source_basis_text SBAbstractsOnly = ''abstracts_only''"
| "source_basis_text SBOpenFullText = ''open_full_text''"
| "source_basis_text SBUserProvidedSources = ''user_provided_sources''"
| "source_basis_text SBMixed = ''mixed''"
| "source_basis_text SBUnclear = ''unclear''"

definition paragraph_html :: "string \<Rightarrow> string" where
  "paragraph_html v = ''<p style=\"white-space:pre-wrap;line-height:1.6\">'' @ escape v @ ''</p>''"

definition section_open :: string where
  "section_open = ''<tr><td style=\"padding:20px 28px;border-top:1px solid #dce5ea\"><h2 style=\"font-size:19px;color:#087d67\">''"

text \<open>A section: what it adds to the plain text and to the HTML.\<close>

definition section_values :: "string list \<Rightarrow> string list" where
  "section_values vs = (if vs = [] then [''None identified in this run.''] else vs)"

definition section_plain :: "string \<times> string list \<Rightarrow> string list" where
  "section_plain s = fst s # section_values (snd s)"

definition section_html :: "string \<times> string list \<Rightarrow> string" where
  "section_html s = section_open @ escape (fst s) @ ''</h2>''
     @ concat (map paragraph_html (section_values (snd s))) @ ''</td></tr>''"

definition main_signal_values :: "BriefingMainSignal option \<Rightarrow> string list" where
  "main_signal_values signal =
     (case signal of None \<Rightarrow> []
      | Some m \<Rightarrow> [ms_title m, ms_summary m, ''Why it matters: '' @ ms_why_it_matters m,
          ''Confidence: '' @ level_text (ms_confidence m),
          ''Supporting papers: '' @ join '', '' (ms_supporting_external_ids m)] @ ms_caveats m)"

text \<open>\<open>papers.get(paper_id)\<close>: the last row of the run with that identifier.\<close>

definition paper_of_run :: "uuid \<Rightarrow> db \<Rightarrow> string \<Rightarrow> Paper option" where
  "paper_of_run run d paper_id =
     last_by pp_external_id
       (List.map_filter (\<lambda>r. get_row pp_id (dp_paper_id r) (papers d)) (paper_results_of run d)) paper_id"

text \<open>The papers to read: category, title and link.\<close>

definition papers_to_read :: "uuid \<Rightarrow> db \<Rightarrow> DigestBriefing \<Rightarrow> (string \<times> string \<times> string option) list" where
  "papers_to_read run d data =
     concat (map (\<lambda>(category, ids). map (\<lambda>i.
         case paper_of_run run d i of
           None \<Rightarrow> (category, i, None)
         | Some p \<Rightarrow> (category, pp_title p, safe_url (pp_url p))) ids)
       [(''Top paper'', db_top_paper_external_ids data),
        (''Secondary paper'', db_secondary_paper_external_ids data)])"

definition paper_plain :: "string \<times> string \<times> string option \<Rightarrow> string" where
  "paper_plain p = (case p of (category, title, url) \<Rightarrow>
     category @ '': '' @ title @ (case url of None \<Rightarrow> [] | Some u \<Rightarrow> if u = [] then [] else dash @ u))"

definition link_html :: "string \<Rightarrow> string option \<Rightarrow> string" where
  "link_html title url =
     (case url of None \<Rightarrow> escape title
      | Some u \<Rightarrow> if u = [] then escape title
          else ''<a style=\"color:#087d67\" href=\"'' @ escape u @ ''\">'' @ escape title @ ''</a>'')"

definition paper_html :: "string \<times> string \<times> string option \<Rightarrow> string" where
  "paper_html p = (case p of (category, title, url) \<Rightarrow>
     ''<p>'' @ category @ '': '' @ link_html title url @ ''</p>'')"

definition papers_plain :: "(string \<times> string \<times> string option) list \<Rightarrow> string list" where
  "papers_plain ps = ''Papers to read'' # (if ps = [] then [''No papers selected.''] else map paper_plain ps)"

definition papers_html :: "(string \<times> string \<times> string option) list \<Rightarrow> string" where
  "papers_html ps = section_open @ ''Papers to read</h2>''
     @ (if ps = [] then ''<p>No papers selected.</p>'' else concat (map paper_html ps)) @ ''</td></tr>''"

definition item_text :: "string \<Rightarrow> Priority \<Rightarrow> string \<Rightarrow> string" where
  "item_text title priority reason = title @ '' ('' @ level_text priority @ '')'' @ nl @ reason"

definition attribution_text :: "SourceAttribution \<Rightarrow> string" where
  "attribution_text a = sa_title a @ dash @ join '', '' (sa_authors a) @ nl @ sa_source_url a @ nl
     @ ''Licence: '' @ sa_license_url a @ nl @ sa_rights_notice a @ nl @ sa_changes a"

definition sections_before :: "DigestRun \<Rightarrow> DigestBriefing \<Rightarrow> (string \<times> string list) list" where
  "sections_before run data =
     [(''Research quality'', [quality_email_note run]),
      (''Highlights'', db_highlights data),
      (''Main signal'', main_signal_values (db_main_signal data))]"

definition sections_after :: "DigestBriefing \<Rightarrow> (string \<times> string list) list" where
  "sections_after data =
     [(''Recommended actions'',
         map (\<lambda>r. item_text (act_action r) (act_priority r) (act_reason r)) (db_recommendations data)),
      (''Recommended searches'',
         map (\<lambda>r. item_text (rec_query r) (rec_priority r) (rec_reason r)) (db_recommended_next_searches data)),
      (''Transparency and limitations'',
         [''Source basis: '' @ source_basis_text (db_source_basis data), db_transparency_note data]
           @ db_quality_warnings data)]
     @ (if db_source_attributions data = [] then []
        else [(''Source attribution'', map attribution_text (db_source_attributions data))])"

definition footer :: string where
  "footer = ''Manage email delivery in this digest's schedule settings. AI-assisted research: consult original sources.''"

definition run_link :: "DigestRun \<Rightarrow> string \<Rightarrow> string" where
  "run_link run base_url = rstrip_by (\<lambda>c. c = CHR ''/'') base_url @ ''/radar/digests/''
     @ uuid_text (rn_digest_id run) @ ''?run_id='' @ uuid_text (rn_id run)"

definition briefing_plain ::
  "DigestRunBriefing \<Rightarrow> (string \<times> string list) list \<Rightarrow> (string \<times> string \<times> string option) list
     \<Rightarrow> (string \<times> string list) list \<Rightarrow> string \<Rightarrow> string list" where
  "briefing_plain b before ps after link =
     [rb_title b, rb_executive_summary b] @ concat (map section_plain before) @ papers_plain ps
     @ concat (map section_plain after) @ [''View this digest on Radar:'', link, footer]"

definition page_open :: string where
  "page_open = join nl
     [''<!doctype html><html lang=\"en\"><head><meta name=\"viewport\" content=\"width=device-width,initial-scale=1\"></head>'',
      ''<body style=\"margin:0;padding:20px 8px;background:#f5f8fa;color:#102333;font-family:Arial,sans-serif\">'',
      ''<table role=\"presentation\" width=\"100%\" cellspacing=\"0\" cellpadding=\"0\"><tr><td align=\"center\">'',
      ''<table role=\"presentation\" width=\"100%\" cellspacing=\"0\" cellpadding=\"0\" style=\"max-width:640px;background:white\">'',
      ''<tr><td style=\"padding:28px;background:#071a2b;color:white\"><p style=\"color:#42e6bd\">SCIENTIFIC RESEARCH RADAR</p><h1 style=\"font-size:26px\">'']"

definition briefing_html ::
  "DigestRunBriefing \<Rightarrow> (string \<times> string list) list \<Rightarrow> (string \<times> string \<times> string option) list
     \<Rightarrow> (string \<times> string list) list \<Rightarrow> string \<Rightarrow> string" where
  "briefing_html b before ps after link =
     page_open @ escape (rb_title b) @ ''</h1></td></tr>'' @ nl
     @ ''<tr><td style=\"padding:20px 28px\"><h2 style=\"font-size:19px\">Executive summary</h2>''
     @ paragraph_html (rb_executive_summary b) @ ''</td></tr>'' @ nl
     @ concat (map section_html before) @ papers_html ps @ concat (map section_html after) @ nl
     @ ''<tr><td style=\"padding:28px\"><a href=\"'' @ escape link
     @ ''\" style=\"display:inline-block;padding:14px 20px;background:#087d67;color:white;text-decoration:none;border-radius:8px\">View digest on Radar</a>'' @ nl
     @ ''<p style=\"font-size:12px;color:#5b6b78\">'' @ footer @ ''</p></td></tr>'' @ nl
     @ ''</table></td></tr></table></body></html>''"

definition host_text :: "string \<Rightarrow> exn + string" where
  "host_text url = (case urlsplit url of Inl e \<Rightarrow> Inl e
     | Inr p \<Rightarrow> Inr (if hostname p = [] then ''None'' else hostname p))"

definition briefing_email :: "db \<Rightarrow> DigestRun \<Rightarrow> string \<Rightarrow> string \<Rightarrow> exn + OutgoingEmail" where
  "briefing_email d run recipient base_url =
     (if \<not> delivery_allowed run
      then Inl (Exn ValueErrorPy ''Quality checks prevent delivery of this research output.'')
      else (case briefing_of (rn_id run) d of
          None \<Rightarrow> Inl (Exn AttributeErrorPy [])
        | Some b \<Rightarrow>
            (case host_text base_url of
               Inl e \<Rightarrow> Inl e
             | Inr host \<Rightarrow>
                 (let ps = papers_to_read (rn_id run) d (rb_data b);
                      before = sections_before run (rb_data b);
                      after = sections_after (rb_data b);
                      link = run_link run base_url
                  in Inr \<lparr>em_recipient = recipient,
                       em_subject = ''Your research briefing: '' @ take 180 (join '' '' (split_ws (rb_title b))),
                       em_text = join (nl @ nl) (briefing_plain b before ps after link),
                       em_html = Some (briefing_html b before ps after link),
                       em_message_id = Some (''<radar-'' @ uuid_text (rn_id run) @ ''@'' @ host @ ''>'')\<rparr>))))"

subsection \<open>What escaping guarantees\<close>

text \<open>The characters that open or close an element or an attribute value.\<close>

definition markup :: "string \<Rightarrow> string" where
  "markup s = filter (\<lambda>c. c = CHR ''<'' \<or> c = CHR ''>'' \<or> c = CHR 0x22 \<or> c = CHR 0x27) s"

lemma markup_append [simp]: "markup (xs @ ys) = markup xs @ markup ys"
  by (simp add: markup_def)

lemma markup_concat: "markup (concat xss) = concat (map markup xss)"
  by (induction xss) (simp_all add: markup_def)

lemma markup_escape [simp]: "markup (escape s) = []"
  by (induction s) (auto simp: escape_def markup_def escape_char.simps)

lemma safe_url_Some:
  assumes "safe_url v = Some u"
  shows "u = v \<and> (\<exists>p. urlsplit u = Inr p \<and> scheme p \<in> {''http'', ''https''} \<and> hostname p \<noteq> []
           \<and> username p = [] \<and> password p = [])"
  using assms by (auto simp: safe_url_def split: sum.splits if_splits)

text \<open>The same sections, papers and briefing with every stored text removed.\<close>

definition blank_section :: "string \<times> string list \<Rightarrow> string \<times> string list" where
  "blank_section s = ([], map (\<lambda>_. []) (section_values (snd s)))"

definition blank_paper :: "string \<times> string \<times> string option \<Rightarrow> string \<times> string \<times> string option" where
  "blank_paper p = (case p of (category, title, url) \<Rightarrow>
     (category, [], case url of None \<Rightarrow> None | Some u \<Rightarrow> if u = [] then None else Some '' ''))"

definition blank_briefing :: "DigestRunBriefing \<Rightarrow> DigestRunBriefing" where
  "blank_briefing b = b\<lparr>rb_title := [], rb_executive_summary := []\<rparr>"

lemma markup_paragraph: "markup (paragraph_html v) = markup (paragraph_html w)"
  by (simp only: paragraph_html_def markup_append markup_escape)

lemma markup_paragraphs:
  "length vs = length ws \<Longrightarrow> markup (concat (map paragraph_html vs)) = markup (concat (map paragraph_html ws))"
proof (induction vs ws rule: list_induct2)
  case (Cons v vs w ws)
  then show ?case using markup_paragraph [of v w] by simp
qed simp

lemma markup_section: "markup (section_html (blank_section s)) = markup (section_html s)"
proof -
  have "section_values (snd (blank_section s)) = map (\<lambda>_. []) (section_values (snd s))"
    by (simp add: blank_section_def section_values_def)
  then show ?thesis
    unfolding section_html_def markup_append markup_escape
    by (simp only: markup_paragraphs [of "map (\<lambda>_. []) (section_values (snd s))" "section_values (snd s)"]
        length_map)
qed

lemma markup_sections: "markup (concat (map section_html (map blank_section ss))) = markup (concat (map section_html ss))"
  by (induction ss) (simp_all add: markup_section)

lemma markup_paper: "markup (paper_html (blank_paper p)) = markup (paper_html p)"
proof (cases p)
  case (fields category title url)
  show ?thesis
  proof (cases "url = None \<or> url = Some []")
    case True
    then show ?thesis
      by (elim disjE) (simp_all only: fields blank_paper_def paper_html_def link_html_def prod.case
          option.case if_True if_False simp_thms markup_append markup_escape cong: option.case_cong)
  next
    case False
    then obtain c cs where "url = Some (c # cs)" by (metis neq_Nil_conv not_None_eq)
    then show ?thesis
      by (simp only: fields blank_paper_def paper_html_def link_html_def prod.case option.case
          list.simps if_False markup_append markup_escape)
  qed
qed

lemma markup_papers: "markup (papers_html (map blank_paper ps)) = markup (papers_html ps)"
proof -
  have "markup (concat (map paper_html (map blank_paper ps))) = markup (concat (map paper_html ps))"
    by (induction ps) (simp_all add: markup_paper)
  then show ?thesis
    by (cases "ps = []") (simp_all only: papers_html_def markup_append list.map if_True if_False
        map_is_Nil_conv)
qed

lemma markup_briefing:
  "markup (briefing_html (blank_briefing b) (map blank_section before) (map blank_paper ps)
       (map blank_section after) [])
     = markup (briefing_html b before ps after link)"
  unfolding briefing_html_def markup_append markup_escape markup_sections markup_papers
    markup_paragraph [of "rb_executive_summary (blank_briefing b)" "rb_executive_summary b"] ..

lemma briefing_email_ok:
  assumes "briefing_email d run recipient base_url = Inr m"
  obtains b host where "delivery_allowed run" "briefing_of (rn_id run) d = Some b"
    "em_recipient m = recipient"
    "em_html m = Some (briefing_html b (sections_before run (rb_data b))
       (papers_to_read (rn_id run) d (rb_data b)) (sections_after (rb_data b)) (run_link run base_url))"
    "em_message_id m = Some (''<radar-'' @ uuid_text (rn_id run) @ ''@'' @ host @ ''>'')"
  using assms by (auto simp: briefing_email_def Let_def split: if_splits option.splits sum.splits)

lemma papers_to_read_safe:
  assumes "(category, title, Some u) \<in> set (papers_to_read run d data)"
  shows "\<exists>p. urlsplit u = Inr p \<and> scheme p \<in> {''http'', ''https''} \<and> hostname p \<noteq> []
           \<and> username p = [] \<and> password p = []"
proof -
  have "\<exists>v. safe_url v = Some u"
    using assms by (auto simp: papers_to_read_def split: option.splits)
  then obtain v where "safe_url v = Some u" by blast
  then show ?thesis using safe_url_Some by blast
qed

end
