(* ===== verification/StripeClient.thy ===== *)
theory StripeClient
  imports Briefing Json
begin

section \<open>The Stripe client (billing_provider.py, stripe_environment.py, stripe_catalogue_service.py)\<close>

text \<open>
  The transport with the checks on every answer, the guards on single objects, the binding of
  the database to a mode, the account lock, and the comparison of a plan with the catalogue.
  A request is one call of \<open>ask_stripe\<close>; what Stripe answers is part of the environment.
\<close>

abbreviation billing :: "int \<Rightarrow> string \<Rightarrow> exn" where
  "billing status m \<equiv> Exn (BillingError status) m"

definition only_if :: "bool \<Rightarrow> unit sess \<Rightarrow> unit sess" where
  "only_if b m = (if b then m else ret ())"

subsection \<open>Objects (billing_provider.py)\<close>

definition TERMINAL :: "string set" where
  "TERMINAL = {''canceled'', ''incomplete_expired''}"

definition STATUSES :: "string set" where
  "STATUSES = {''incomplete'', ''incomplete_expired'', ''trialing'', ''active'', ''past_due'',
     ''canceled'', ''unpaid'', ''paused''}"

definition ended :: "Checkout \<Rightarrow> bool" where
  "ended c \<longleftrightarrow> (case co_subscription_status c of None \<Rightarrow> False | Some s \<Rightarrow> s \<in> TERMINAL)"

definition stripe_id :: "string \<Rightarrow> json \<Rightarrow> exn + string" where
  "stripe_id prefix value =
     (case jstring value of
        None \<Rightarrow> Inl (billing 502 ''Stripe returned an unexpected identifier.'')
      | Some s \<Rightarrow>
          (let tail = drop (length prefix) s
           in if startswith s prefix \<and> tail \<noteq> [] \<and> length tail \<le> 240 \<and> list_all is_word tail
              then Inr s else Inl (billing 502 ''Stripe returned an unexpected identifier.'')))"

definition redirect_url :: "json \<Rightarrow> string \<Rightarrow> exn + string" where
  "redirect_url value host =
     (case jstring value of
        None \<Rightarrow> Inl (billing 502 ''Stripe did not provide a hosted page.'')
      | Some s \<Rightarrow> rbind (urlsplit s) (\<lambda>parsed.
          if scheme parsed \<noteq> ''https'' \<or> netloc parsed \<noteq> host \<or> username parsed \<noteq> [] \<or> password parsed \<noteq> []
          then Inl (billing 502 ''Stripe returned an unexpected hosted page.'') else Inr s))"

definition session_prefix :: "bool \<Rightarrow> string" where
  "session_prefix live = (if live then ''cs_live_'' else ''cs_test_'')"

definition is_livemode :: "bool \<Rightarrow> json \<Rightarrow> exn + bool" where
  "is_livemode live value = test (\<lambda>v. v = JBool live) (jget value ''livemode'')"

definition not_livemode :: "bool \<Rightarrow> json \<Rightarrow> exn + bool" where
  "not_livemode live value = test (\<lambda>v. v \<noteq> JBool live) (jget value ''livemode'')"

definition wrong_mode :: "bool \<Rightarrow> json \<Rightarrow> exn + bool" where
  "wrong_mode live data =
     (if live then test (\<lambda>v. v \<noteq> JStr ''live'') (jget data ''radar_mode'')
      else any_of [test (\<lambda>v. v \<noteq> JStr ''sandbox'') (jget_or (JStr ''sandbox'') data ''radar_mode''),
                   test (\<lambda>v. v \<noteq> JStr ''1'') (jget data ''radar_sandbox'')])"

definition tagged :: "json \<Rightarrow> Checkout \<Rightarrow> exn + unit" where
  "tagged obj row =
     rbind (jget obj ''metadata'') (\<lambda>m.
     let data = jor m (JObj [])
     in refuse_if [test (\<lambda>v. v \<noteq> JStr (uuid_text (co_id row))) (jget data ''radar_attempt_id''),
          wrong_mode (co_livemode row) data, not_livemode (co_livemode row) obj]
          (billing 502 ''Stripe object does not match this checkout.''))"

definition matches_metadata :: "json \<Rightarrow> bool \<Rightarrow> exn + bool" where
  "matches_metadata data live = map_sum id Not (wrong_mode live data)"

subsection \<open>Requests\<close>

definition mode_name :: "Settings \<Rightarrow> string" where
  "mode_name s = (if set_stripe_livemode s then ''live'' else ''sandbox'')"

definition key_matches :: "Settings \<Rightarrow> bool" where
  "key_matches s \<longleftrightarrow> (let key = set_stripe_api_key s in
     if set_stripe_livemode s then startswith key ''rk_live_'' \<or> startswith key ''sk_live_''
     else startswith key ''rk_test_'' \<or> startswith key ''sk_test_'')"

definition stripe_client :: "Settings \<Rightarrow> unit sess" where
  "stripe_client s = guard (key_matches s) (BillingError 503)
     (''Configure a Stripe '' @ mode_name s @ '' API key on the API server. The key must match STRIPE_MODE.'')"

definition msg_stripe_down :: string where
  "msg_stripe_down = ''Stripe is unavailable or returned an unexpected response. Retry the same action to resume safely.''"

text \<open>Lists of these paths have no mode; the portal session does not expose it either.\<close>

definition modeless :: "string \<Rightarrow> (string \<times> json) list \<Rightarrow> bool" where
  "modeless p kvs \<longleftrightarrow> p = ''billing_portal/sessions''
     \<or> takeWhile (\<lambda>c. c \<noteq> CHR ''?'') p \<in> {''invoices'', ''invoiceitems'', ''checkout/sessions''}
       \<and> lookup_or JNull kvs ''object'' = JStr ''list''"

definition read_answer :: "Settings \<Rightarrow> string \<Rightarrow> stripe_answer \<Rightarrow> exn + json" where
  "read_answer s p a =
     (case a of
        NoReply \<Rightarrow> Inl (billing 503 msg_stripe_down)
      | Reply code body \<Rightarrow>
          if code \<in> {401, 403}
          then Inl (billing 503 ''Stripe rejected access. Check the Stripe key permissions in the setup guide.'')
          else if code \<noteq> 200
          then Inl (billing 503 ''Stripe could not complete this operation. Retry the same action; no new checkout will be created for an unresolved attempt.'')
          else (case body of
              Some (JObj kvs) \<Rightarrow>
                (let live = lookup_or JNull kvs ''livemode''; expected = JBool (set_stripe_livemode s)
                 in if map_of kvs ''livemode'' \<notin> {None, Some expected} \<or> \<not> modeless p kvs \<and> live \<noteq> expected
                    then Inl (billing 502 (''Stripe did not return a '' @ mode_name s @ '' object.''))
                    else Inr (JObj kvs))
            | _ \<Rightarrow> Inl (billing 503 msg_stripe_down)))"

definition request :: "Settings \<Rightarrow> string \<Rightarrow> string \<Rightarrow> parameters \<Rightarrow> string option \<Rightarrow> json sess" where
  "request s mthd p data key =
     bind (ask_stripe \<lparr>cl_method = mthd, cl_path = p, cl_data = data, cl_key = key\<rparr>)
       (\<lambda>a. lift_result (read_answer s p a))"

definition get_object :: "Settings \<Rightarrow> string \<Rightarrow> json sess" where
  "get_object s p = request s ''GET'' p [] None"

definition enabled :: "Settings \<Rightarrow> unit sess" where
  "enabled s =
     seq (guard (set_stripe_checkout_enabled s) (BillingError 503) ''Checkout is disabled on this server.'')
       (guard (startswith (set_stripe_webhook_secret s) ''whsec_'') (BillingError 503)
         ''Configure the Stripe webhook signing secret before enabling checkout.'')"

subsection \<open>The mode of the database (stripe_environment.py)\<close>

definition ensure_database_mode :: "Settings \<Rightarrow> unit sess" where
  "ensure_database_mode s =
     seq (change (\<lambda>d. if stripe_mode d = None
            then d\<lparr>stripe_mode := Some (if checkouts d \<noteq> [] then ''sandbox'' else mode_name s)\<rparr> else d))
     (bind (query stripe_mode) (\<lambda>mode.
      guard (mode = Some (mode_name s)) (BillingError 503)
        (''This database is bound to Stripe '' @ (case mode of None \<Rightarrow> [] | Some m \<Rightarrow> m)
         @ ''; STRIPE_MODE is '' @ mode_name s @ ''. Use a separate database for live and sandbox deployments. Do not change or delete the mode binding.'')))"

subsection \<open>Accounts and checkouts (stripe_sandbox_service.py)\<close>

definition closing :: "uuid \<Rightarrow> db \<Rightarrow> bool" where
  "closing user d \<longleftrightarrow> (case get_row usr_id user (users d) of None \<Rightarrow> False
     | Some u \<Rightarrow> usr_closure_requested_at u \<noteq> None)"

definition lock_billing :: "uuid \<Rightarrow> bool \<Rightarrow> unit sess" where
  "lock_billing user allow_closing =
     seq (change (\<lambda>d. d\<lparr>billing_accounts := billing_accounts d
            @ (if user \<in> ba_user_id ` set (billing_accounts d) then []
               else [\<lparr>ba_user_id = user, ba_lock_version = 0\<rparr>])\<rparr>))
     (seq (change (\<lambda>d. d\<lparr>billing_accounts := update_where (\<lambda>a. ba_user_id a = user)
            (\<lambda>a. a\<lparr>ba_lock_version := Suc (ba_lock_version a)\<rparr>) (billing_accounts d)\<rparr>))
     (if allow_closing then ret ()
      else bind (query (closing user)) (\<lambda>c. guard (\<not> c) (BillingError 409)
        ''This account is closing. Billing changes are unavailable.'')))"

definition latest_checkout :: "db \<Rightarrow> uuid \<Rightarrow> Checkout option" where
  "latest_checkout d user =
     first_by (\<lambda>c. (- co_created_at c, - int (co_id c))) (filter (\<lambda>c. co_user_id c = user) (checkouts d))"

definition set_checkout :: "uuid \<Rightarrow> (Checkout \<Rightarrow> Checkout) \<Rightarrow> unit sess" where
  "set_checkout i f = change (\<lambda>d. d\<lparr>checkouts := update_where (\<lambda>r. co_id r = i) f (checkouts d)\<rparr>)"

definition set_change :: "uuid \<Rightarrow> (SubscriptionChange \<Rightarrow> SubscriptionChange) \<Rightarrow> unit sess" where
  "set_change i f = change (\<lambda>d. d\<lparr>changes := update_where (\<lambda>r. ch_id r = i) f (changes d)\<rparr>)"

definition set_upgrade :: "uuid \<Rightarrow> (SubscriptionUpgrade \<Rightarrow> SubscriptionUpgrade) \<Rightarrow> unit sess" where
  "set_upgrade i f = change (\<lambda>d. d\<lparr>upgrades := update_where (\<lambda>r. up_id r = i) f (upgrades d)\<rparr>)"

text \<open>\<open>db.get(Model, key)\<close> of a row that must exist, and its attributes.\<close>

definition load :: "(db \<Rightarrow> 'a list) \<Rightarrow> ('a \<Rightarrow> 'k) \<Rightarrow> 'k \<Rightarrow> 'a sess" where
  "load rows key k = bind (query (\<lambda>d. get_row key k (rows d))) (\<lambda>r. lift_result (the_value AttributeErrorPy r))"

definition load_checkout :: "uuid \<Rightarrow> Checkout sess" where
  "load_checkout = load checkouts co_id"

definition load_plan :: "nat \<Rightarrow> PlanRevision sess" where
  "load_plan = load plans pl_id"

subsection \<open>Subscriptions of a checkout (billing_policy.py)\<close>

definition subscription :: "Settings \<Rightarrow> Checkout \<Rightarrow> json sess" where
  "subscription s c =
     bind (lift_result (stripe_id ''sub_'' (jtext (co_subscription_id c)))) (\<lambda>i.
     bind (get_object s (''subscriptions/'' @ i)) (\<lambda>value.
     bind (lift_result (tagged value c)) (\<lambda>_.
     bind (lift_result (refuse_if
        [test (\<lambda>v. v \<noteq> jtext (co_subscription_id c)) (jget value ''id''),
         test (\<lambda>v. v \<noteq> JStr ''subscription'') (jget value ''object''),
         test (\<lambda>v. ref v \<noteq> jtext (co_customer_id c)) (jget value ''customer''),
         not_livemode (co_livemode c) value]
        (billing 409 ''Subscription ownership could not be verified.''))) (\<lambda>_. ret value))))"

definition flag :: "json \<Rightarrow> string \<Rightarrow> exn + bool" where
  "flag j k = test truthy (jget j k)"

definition simple_subscription :: "json \<Rightarrow> exn + unit" where
  "simple_subscription value =
     rbind (jdata ''items'' value) (\<lambda>data. rbind (jiter data) (\<lambda>items.
     refuse_if
      [Inr (length items \<noteq> 1),
       test (\<lambda>v. v = JBool True) (dig value [''items'', ''has_more'']),
       rbind (jfirst data) (\<lambda>item. test (\<lambda>v. \<not> jis_num v 1) (jget item ''quantity'')),
       test (\<lambda>v. v \<noteq> JStr ''charge_automatically'') (jget value ''collection_method''),
       flag value ''pending_update'', flag value ''pause_collection'', flag value ''discounts'',
       flag value ''discount'', flag value ''default_tax_rates'',
       test truthy (dig value [''automatic_tax'', ''enabled'']),
       rbind (jfirst data) (\<lambda>item. flag item ''discounts''),
       rbind (jfirst data) (\<lambda>item. flag item ''tax_rates''),
       flag value ''trial_end'', flag value ''cancel_at'', flag value ''pending_invoice_item_interval'']
      (billing 409 ''This subscription has billing customizations that require operator review before a scheduled change.'')))"

end
