(* ===== verification/Catalogue.thy ===== *)
theory Catalogue
  imports StripeClient "HOL-Library.Product_Lexorder" "HOL-Library.List_Lexorder"
begin

section \<open>The Stripe catalogue (stripe_catalogue_service.py)\<close>

text \<open>
  \<open>check_mapping\<close> compares a plan revision with the product and the prices it is mapped to.
  It reads with its own client, whose answers have other messages; a price is kept in cents.
\<close>

record PriceObservation =
  ob_interval :: string
  ob_price_id :: string
  ob_tax_behavior :: json
  ob_currency :: json
  ob_unit_amount :: json

record MappingReport =
  mr_issues :: "string list"
  mr_prices :: "PriceObservation list"
  mr_checked_at :: datetime

definition mr_matches :: "MappingReport \<Rightarrow> bool" where
  "mr_matches r \<longleftrightarrow> mr_issues r = []"

definition msg_unverified_catalogue :: string where
  "msg_unverified_catalogue = ''Stripe verification failed or returned an unexpected response. Please try again.''"

text \<open>\<open>fetch\<close>: an object of the expected mode, or one of four errors.\<close>

definition read_catalogue :: "Settings \<Rightarrow> stripe_answer \<Rightarrow> exn + json" where
  "read_catalogue s a =
     (case a of
        NoReply \<Rightarrow> Inl (billing 502 msg_unverified_catalogue)
      | Reply code body \<Rightarrow>
          if code \<in> {401, 403}
          then Inl (billing 503 ''Stripe rejected access. Check the Stripe key and read permissions for Products and Prices.'')
          else if code = 404
          then Inl (billing 422 ''A mapped product or price was not found in the configured Stripe environment. Check the IDs and Stripe key.'')
          else if code \<noteq> 200 then Inl (billing 502 ''Stripe could not complete the check. Please try again later.'')
          else (case body of
              None \<Rightarrow> Inl (billing 502 msg_unverified_catalogue)
            | Some (JObj kvs) \<Rightarrow>
                if lookup_or JNull kvs ''livemode'' = JBool (set_stripe_livemode s) then Inr (JObj kvs)
                else Inl (billing 502 ''Stripe did not return a expected-mode object. Verification stopped.'')
            | Some _ \<Rightarrow> Inl (billing 502 ''Stripe did not return a expected-mode object. Verification stopped.'')))"

definition fetch :: "Settings \<Rightarrow> string \<Rightarrow> json sess" where
  "fetch s p = bind (ask_stripe \<lparr>cl_method = ''GET'', cl_path = p, cl_data = [], cl_key = None\<rparr>)
     (\<lambda>a. lift_result (read_catalogue s a))"

definition issue_if :: "string \<Rightarrow> (exn + bool) list \<Rightarrow> exn + string list" where
  "issue_if m cs = map_sum id (\<lambda>b. if b then [m] else []) (any_of cs)"

fun collect :: "(exn + 'a list) list \<Rightarrow> exn + 'a list" where
  "collect [] = Inr []"
| "collect (m # ms) = rbind m (\<lambda>xs. map_sum id (\<lambda>ys. xs @ ys) (collect ms))"

definition product_issues :: "StripeMapping \<Rightarrow> json \<Rightarrow> exn + string list" where
  "product_issues m product =
     issue_if ''The mapped product is not an active Stripe product.''
      [test (\<lambda>v. v \<noteq> JStr (map_product_id m)) (jget product ''id''),
       test (\<lambda>v. v \<noteq> JStr ''product'') (jget product ''object''),
       test (\<lambda>v. v \<noteq> JBool True) (jget product ''active'')]"

text \<open>\<open>{tax or 'missing'}\<close>; what is no string is not printed.\<close>

definition tax_text :: "json \<Rightarrow> string" where
  "tax_text tax = (if truthy tax then (case jstring tax of Some t \<Rightarrow> t | None \<Rightarrow> []) else ''missing'')"

definition price_issues ::
  "StripeMapping \<Rightarrow> PlanConfiguration \<Rightarrow> string \<Rightarrow> string \<Rightarrow> nat \<Rightarrow> string \<Rightarrow> json \<Rightarrow> exn + string list" where
  "price_issues m c label price_id amount interval price =
     collect
      [issue_if (''The '' @ label @ '' price is not an active Stripe price.'')
        [test (\<lambda>v. v \<noteq> JStr price_id) (jget price ''id''),
         test (\<lambda>v. v \<noteq> JStr ''price'') (jget price ''object''),
         test (\<lambda>v. v \<noteq> JBool True) (jget price ''active'')],
       issue_if (''The '' @ label @ '' price belongs to a different product.'')
        [test (\<lambda>v. v \<noteq> JStr (map_product_id m)) (jget price ''product'')],
       issue_if (''The '' @ label @ '' price amount or currency differs from this Radar revision.'')
        [test (\<lambda>v. v \<noteq> JStr (lower (pc_currency c))) (jget price ''currency''),
         test (\<lambda>v. \<not> jis_num v (int amount)) (jget price ''unit_amount'')],
       rbind (jget price ''recurring'') (\<lambda>r. let recurring = jor r (JObj []) in
       issue_if (''The '' @ label @ '' price must be a flat, non-metered '' @ interval @ ''ly price with no price-level trial or quantity transformation.'')
        [test (\<lambda>v. v \<noteq> JStr ''recurring'') (jget price ''type''),
         test (\<lambda>v. v \<noteq> JStr interval) (jget recurring ''interval''),
         test (\<lambda>v. \<not> jis_num v 1) (jget recurring ''interval_count''),
         test (\<lambda>v. v \<noteq> JStr ''licensed'') (jget recurring ''usage_type''),
         test (\<lambda>v. v \<noteq> JStr ''per_unit'') (jget price ''billing_scheme''),
         test (\<lambda>v. v \<noteq> JNull) (jget price ''transform_quantity''),
         test (\<lambda>v. v \<noteq> JNull) (jget recurring ''trial_period_days'')]),
       rbind (jget price ''tax_behavior'') (\<lambda>tax. Inr (if tax = JStr ''inclusive'' then []
         else [''The '' @ label @ '' price tax_behavior is '' @ tax_text tax
               @ ''. Explicit inclusive behavior is required for this check; unspecified may inherit Stripe Tax defaults.'']))]"

definition observe_price :: "string \<Rightarrow> string \<Rightarrow> json \<Rightarrow> exn + PriceObservation" where
  "observe_price label price_id price =
     rbind (jget price ''tax_behavior'') (\<lambda>tax. rbind (jget price ''currency'') (\<lambda>currency.
     rbind (jget price ''unit_amount'') (\<lambda>amount. Inr \<lparr>ob_interval = label, ob_price_id = price_id,
       ob_tax_behavior = tax, ob_currency = currency, ob_unit_amount = amount\<rparr>)))"

text \<open>The monthly price and, when mapped, the annual one; an annual mapping without an annual
  price is a \<open>TypeError\<close> of \<open>Decimal\<close>.\<close>

definition mapped_prices :: "StripeMapping \<Rightarrow> PlanConfiguration \<Rightarrow> (string \<times> string \<times> nat option \<times> string) list" where
  "mapped_prices m c = (''monthly'', map_monthly_price_id m, Some (pc_monthly_price c), ''month'')
     # (case map_annual_price_id m of None \<Rightarrow> []
        | Some i \<Rightarrow> if i = [] then [] else [(''annual'', i, pc_annual_price c, ''year'')])"

fun check_prices :: "Settings \<Rightarrow> StripeMapping \<Rightarrow> PlanConfiguration \<Rightarrow> (string \<times> string \<times> nat option \<times> string) list
    \<Rightarrow> (string list \<times> PriceObservation list) sess" where
  "check_prices s m c [] = ret ([], [])"
| "check_prices s m c ((label, price_id, amount, interval) # ps) =
     bind (fetch s (''prices/'' @ price_id)) (\<lambda>price.
     bind (lift_result (rbind (the_value TypeErrorPy amount) (\<lambda>a. price_issues m c label price_id a interval price))) (\<lambda>issues.
     bind (lift_result (observe_price label price_id price)) (\<lambda>ob.
     bind (check_prices s m c ps) (\<lambda>(further, obs). ret (issues @ further, ob # obs)))))"

definition is_billing_error :: "exn \<Rightarrow> bool" where
  "is_billing_error e \<longleftrightarrow> (case exn_class e of BillingError st \<Rightarrow> True | _ \<Rightarrow> False)"

definition check_mapping :: "PlanConfiguration \<Rightarrow> Settings \<Rightarrow> MappingReport sess" where
  "check_mapping c s =
     (case pc_stripe_sandbox c of
        None \<Rightarrow> raise (BillingError 422) ''Save a Stripe mapping for this plan first.''
      | Some m \<Rightarrow>
          if \<not> key_matches s
          then raise (BillingError 503) ''Configure STRIPE_API_KEY with a key matching STRIPE_MODE on the API server.''
          else
            (let policy = (if pc_tax_display c \<noteq> Inclusive
               then [''The Radar plan tax-display policy must be Inclusive for this integration.''] else [])
             in bind (catch
                  (bind (fetch s (''products/'' @ map_product_id m)) (\<lambda>product.
                   bind (lift_result (product_issues m product)) (\<lambda>first.
                   bind (check_prices s m c (mapped_prices m c)) (\<lambda>(further, obs). ret (first @ further, obs)))))
                  (\<lambda>e. if is_billing_error e then reraise e else raise (BillingError 502) msg_unverified_catalogue))
                (\<lambda>(issues, obs). bind now (\<lambda>stamp.
                   ret \<lparr>mr_issues = policy @ issues, mr_prices = obs, mr_checked_at = stamp\<rparr>))))"

subsection \<open>The catalogue of the picker (\<open>list_products\<close>)\<close>

definition item_id :: "Settings \<Rightarrow> string \<Rightarrow> json \<Rightarrow> string option" where
  "item_id s object_type item = (case item of
     JObj kvs \<Rightarrow> if lookup_or JNull kvs ''object'' = JStr object_type
         \<and> lookup_or JNull kvs ''livemode'' = JBool (set_stripe_livemode s)
       then jstring (lookup_or JNull kvs ''id'') else None
   | _ \<Rightarrow> None)"

text \<open>The items of a page, each of the expected type and mode and not seen before.\<close>

fun add_items :: "Settings \<Rightarrow> string \<Rightarrow> string list \<Rightarrow> json list \<Rightarrow> json list \<Rightarrow> exn + (string list \<times> json list)" where
  "add_items s object_type seen acc [] = Inr (seen, acc)"
| "add_items s object_type seen acc (item # items) =
     (case item_id s object_type item of
        None \<Rightarrow> Inl (billing 502 ''Stripe returned an unexpected or wrong-mode catalogue object.'')
      | Some i \<Rightarrow>
          if i \<in> set seen then Inl (billing 502 ''Stripe returned an unexpected or wrong-mode catalogue object.'')
          else add_items s object_type (i # seen) (acc @ [item]) items)"

definition read_page :: "stripe_answer \<Rightarrow> exn + (json list \<times> bool)" where
  "read_page a =
     (case a of
        NoReply \<Rightarrow> Inl (billing 502 ''Stripe catalogue could not be read. Please retry.'')
      | Reply code body \<Rightarrow>
          if code \<in> {401, 403}
          then Inl (billing 503 ''Stripe rejected access. Check the Stripe key and read permissions for Products and Prices.'')
          else if code \<noteq> 200 then Inl (billing 502 ''Stripe catalogue is unavailable. Please retry later.'')
          else (case body of
              None \<Rightarrow> Inl (billing 502 ''Stripe catalogue could not be read. Please retry.'')
            | Some page \<Rightarrow>
                (case page of
                   JObj kvs \<Rightarrow>
                     (case (lookup_or JNull kvs ''data'', lookup_or JNull kvs ''has_more'') of
                        (JList items, JBool further) \<Rightarrow>
                          if lookup_or JNull kvs ''object'' = JStr ''list'' then Inr (items, further)
                          else Inl (billing 502 ''Stripe returned an unexpected catalogue response.'')
                      | _ \<Rightarrow> Inl (billing 502 ''Stripe returned an unexpected catalogue response.''))
                 | _ \<Rightarrow> Inl (billing 502 ''Stripe returned an unexpected catalogue response.''))))"

text \<open>At most twenty pages are read; \<open>seen\<close> begins with the identifier of the last item.\<close>

fun collect_pages :: "Settings \<Rightarrow> string \<Rightarrow> string \<Rightarrow> parameters \<Rightarrow> nat \<Rightarrow> string list \<Rightarrow> json list \<Rightarrow> json list sess" where
  "collect_pages s p object_type params 0 seen acc =
     raise (BillingError 502) ''Stripe catalogue exceeds the supported size (2,000 products or prices). No partial list was returned.''"
| "collect_pages s p object_type params (Suc n) seen acc =
     bind (ask_stripe \<lparr>cl_method = ''GET'', cl_path = p,
       cl_data = params @ (if acc = [] then [] else [(''starting_after'', hd seen)]), cl_key = None\<rparr>) (\<lambda>a.
     bind (lift_result (read_page a)) (\<lambda>(items, further).
     bind (lift_result (add_items s object_type seen acc items)) (\<lambda>(seen', acc').
     if \<not> further then ret acc'
     else if items = [] then raise (BillingError 502) ''Stripe returned invalid catalogue pagination.''
     else collect_pages s p object_type params n seen' acc')))"

definition collect_catalogue :: "Settings \<Rightarrow> string \<Rightarrow> string \<Rightarrow> json list sess" where
  "collect_catalogue s p object_type =
     collect_pages s p object_type ([(''limit'', ''100''), (''active'', ''true'')]
       @ (if p = ''prices'' then [(''type'', ''recurring'')] else [])) 20 [] []"

record CataloguePrice =
  ct_id :: string
  ct_currency :: string
  ct_amount :: int
  ct_interval :: string

definition PICKER_CURRENCIES :: "string list" where
  "PICKER_CURRENCIES = [''eur'', ''usd'', ''gbp'', ''pln'']"

text \<open>A price the picker offers, with its product.\<close>

definition offered_price :: "json \<Rightarrow> exn + (json \<times> CataloguePrice) option" where
  "offered_price price =
     rbind (jget price ''recurring'') (\<lambda>r. let recurring = jor r (JObj []) in
     rbind (any_of
        [test (\<lambda>v. v \<noteq> JBool True) (jget price ''active''),
         test (\<lambda>v. v \<noteq> JStr ''recurring'') (jget price ''type''),
         test (\<lambda>v. v \<notin> {JStr ''month'', JStr ''year''}) (jget recurring ''interval''),
         test (\<lambda>v. \<not> jis_num v 1) (jget recurring ''interval_count''),
         test (\<lambda>v. v \<noteq> JStr ''licensed'') (jget recurring ''usage_type''),
         test (\<lambda>v. v \<noteq> JNull) (jget recurring ''trial_period_days''),
         test (\<lambda>v. v \<noteq> JStr ''per_unit'') (jget price ''billing_scheme''),
         test (\<lambda>v. v \<noteq> JNull) (jget price ''transform_quantity''),
         test (\<lambda>v. v \<noteq> JStr ''inclusive'') (jget price ''tax_behavior''),
         test (\<lambda>v. v \<notin> JStr ` set PICKER_CURRENCIES) (jget price ''currency''),
         test (\<lambda>v. case jint v of None \<Rightarrow> True | Some a \<Rightarrow> \<not> (0 \<le> a \<and> a \<le> 100000000)) (jget price ''unit_amount'')])
     (\<lambda>skip. if skip then Inr None else
       (case price of JObj kvs \<Rightarrow>
          rbind (the_value KeyErrorPy (map_of kvs ''product'')) (\<lambda>product.
          case (jstring (lookup_or JNull kvs ''id''), jstring (lookup_or JNull kvs ''currency''),
                jint (lookup_or JNull kvs ''unit_amount''), jget recurring ''interval'') of
            (Some i, Some currency, Some amount, Inr (JStr interval)) \<Rightarrow>
              Inr (Some (product, \<lparr>ct_id = i, ct_currency = map to_upper currency, ct_amount = amount,
                     ct_interval = interval\<rparr>))
          | _ \<Rightarrow> Inr None)
        | _ \<Rightarrow> Inr None)))"

record CatalogueProduct =
  cp_id :: json
  cp_name :: json
  cp_prices :: "CataloguePrice list"

definition price_key :: "CataloguePrice \<Rightarrow> string \<times> string \<times> int \<times> string" where
  "price_key p = (ct_interval p, ct_currency p, ct_amount p, ct_id p)"

definition offered_product :: "(json \<times> CataloguePrice) list \<Rightarrow> json \<Rightarrow> exn + CatalogueProduct list" where
  "offered_product offered product =
     (case product of
        JObj kvs \<Rightarrow>
          if lookup_or JNull kvs ''active'' \<noteq> JBool True then Inr []
          else rbind (the_value KeyErrorPy (map_of kvs ''id'')) (\<lambda>i.
               rbind (the_value KeyErrorPy (map_of kvs ''name'')) (\<lambda>name.
               Inr [\<lparr>cp_id = i, cp_name = name,
                 cp_prices = sort_key price_key (map snd (filter (\<lambda>(p, x). p = i) offered))\<rparr>]))
      | _ \<Rightarrow> Inl (Exn AttributeErrorPy ''get''))"

definition list_products :: "Settings \<Rightarrow> CatalogueProduct list sess" where
  "list_products s =
     (if \<not> key_matches s
      then raise (BillingError 503) ''Configure STRIPE_API_KEY with a key matching STRIPE_MODE.''
      else catch
        (bind (collect_catalogue s ''products'' ''product'') (\<lambda>products.
         bind (collect_catalogue s ''prices'' ''price'') (\<lambda>prices.
         bind (lift_result (collect (map (\<lambda>p. map_sum id (case_option [] (\<lambda>x. [x])) (offered_price p)) prices))) (\<lambda>offered.
         lift_result (collect (map (offered_product offered) products))))))
        (\<lambda>e. if is_billing_error e then reraise e
             else raise (BillingError 502) ''Stripe catalogue could not be read. Please retry.''))"

end
