(* ===== verification/PaymentRules.thy ===== *)
theory PaymentRules
  imports Catalogue
begin

section \<open>Invoice evidence (billing_payment_rules.py)\<close>

text \<open>
  The checks of an invoice against the saved checkout and the confirmed quote of an upgrade.
  They read untrusted JSON: a check that fails raises the billing error of the code, a value of
  the wrong shape the exception Python raises on it.
\<close>

definition subscription_id :: "json \<Rightarrow> exn + json" where
  "subscription_id value =
     rbind (jget value ''parent'') (\<lambda>p.
     rbind (dig (jor p (JObj [])) [''subscription_details'', ''subscription'']) (\<lambda>linked.
     if truthy linked then Inr (ref linked) else map_sum id ref (jget value ''subscription'')))"

definition invoice_metadata :: "json \<Rightarrow> exn + json" where
  "invoice_metadata value =
     rbind (dig value [''parent'', ''subscription_details'']) (\<lambda>details.
     rbind (if truthy details then Inr details else jget value ''subscription_details'') (\<lambda>found.
     map_sum id (\<lambda>m. jor m (JObj [])) (jget (jor found (JObj [])) ''metadata'')))"

text \<open>\<open>datetime.fromtimestamp\<close> ends with the year 9999.\<close>

definition MAX_TIMESTAMP :: int where "MAX_TIMESTAMP = 253402300799"

definition invoice_stamp :: "bool \<Rightarrow> json \<Rightarrow> exn + datetime option" where
  "invoice_stamp optional value =
     (if value = JNull \<and> optional then Inr None
      else case jint value of
        None \<Rightarrow> Inl (billing 502 ''Stripe returned an invalid invoice timestamp.'')
      | Some i \<Rightarrow> if 0 \<le> i \<and> i \<le> MAX_TIMESTAMP then Inr (Some (from_timestamp i))
          else Inl (billing 502 ''Stripe returned an invalid invoice timestamp.''))"

subsection \<open>The price an invoice must have\<close>

record PriceBinding =
  bd_effective_at :: datetime
  bd_source_price_id :: string
  bd_target_price_id :: string

definition price_bindings :: "db \<Rightarrow> Checkout \<Rightarrow> PriceBinding list" where
  "price_bindings d c = sort_key bd_effective_at
     (map (\<lambda>x. \<lparr>bd_effective_at = ch_effective_at x, bd_source_price_id = ch_source_price_id x,
            bd_target_price_id = ch_target_price_id x\<rparr>)
        (filter (\<lambda>x. ch_checkout_id x = co_id c \<and> ch_applied_at x \<noteq> None) (changes d))
      @ map (\<lambda>u. \<lparr>bd_effective_at = up_proration_at u, bd_source_price_id = up_source_price_id u,
            bd_target_price_id = up_target_price_id u\<rparr>)
        (filter (\<lambda>u. up_checkout_id u = co_id c \<and> up_applied_at u \<noteq> None) (upgrades d)))"

fun bound_price :: "datetime \<Rightarrow> PriceBinding list \<Rightarrow> string \<Rightarrow> string" where
  "bound_price start [] price = price"
| "bound_price start (b # bs) price =
     bound_price start bs (if start \<ge> bd_effective_at b then bd_target_price_id b else price)"

definition expected_invoice_price :: "db \<Rightarrow> Checkout \<Rightarrow> datetime option \<Rightarrow> string" where
  "expected_invoice_price d c period_start =
     (case (price_bindings d c, period_start) of
        (b # bs, Some start) \<Rightarrow> bound_price start (b # bs) (bd_source_price_id b)
      | _ \<Rightarrow> co_price_id c)"

subsection \<open>The invoice of an upgrade\<close>

definition require_invoice_identity :: "json \<Rightarrow> Checkout \<Rightarrow> exn + unit" where
  "require_invoice_identity invoice c =
     refuse_if [test (\<lambda>v. v \<noteq> JStr ''invoice'') (jget invoice ''object''),
       not_livemode (co_livemode c) invoice,
       test (\<lambda>v. ref v \<noteq> jtext (co_customer_id c)) (jget invoice ''customer''),
       test (\<lambda>v. v \<noteq> jtext (co_subscription_id c)) (subscription_id invoice)]
       (billing 409 ''Upgrade invoice ownership could not be verified.'')"

definition adjustment_fields :: "string list" where
  "adjustment_fields = [''discounts'', ''total_discount_amounts'', ''default_tax_rates'', ''starting_balance'',
     ''ending_balance'', ''amount_shipping'', ''paid_out_of_band'', ''amount_paid_off_stripe'',
     ''post_payment_credit_notes_amount'', ''pre_payment_credit_notes_amount'', ''amount_overpaid'']"

definition require_supported_invoice_setup :: "json \<Rightarrow> string \<Rightarrow> bool \<Rightarrow> exn + unit" where
  "require_supported_invoice_setup invoice currency preview =
     checks
      [refuse_if [test (\<lambda>v. v \<noteq> JStr currency) (jget invoice ''currency''),
          test (\<lambda>v. v \<noteq> JStr ''charge_automatically'') (jget invoice ''collection_method'')]
        (billing 409 ''Upgrade invoice currency or collection method does not match.''),
       refuse_if [if preview then Inr False
            else test (\<lambda>v. v \<noteq> JStr ''subscription_update'') (jget invoice ''billing_reason'')]
        (billing 409 ''Expected an invoice generated by this subscription update.''),
       refuse_if (map (flag invoice) (take 3 adjustment_fields)
           @ [test truthy (dig invoice [''automatic_tax'', ''enabled''])]
           @ map (flag invoice) (drop 3 adjustment_fields))
        (billing 409 ''Discounts, balances, manual settlement, or invoice adjustments require review.'')]"

text \<open>\<open>ProrationLine\<close>: the price is what the provider sent.\<close>

record ProrationLine =
  vl_price :: json
  vl_amount :: int
  vl_start :: int
  vl_end :: int

definition line_details :: "json \<Rightarrow> exn + json" where
  "line_details line = map_sum id (\<lambda>v. jor v (JObj [])) (dig line [''parent'', ''subscription_item_details''])"

definition line_price :: "json \<Rightarrow> exn + json" where
  "line_price line =
     rbind (dig line [''pricing'', ''price_details'', ''price'']) (\<lambda>p.
     if truthy p then Inr (ref p) else map_sum id ref (jget line ''price''))"

definition line_quantity :: "json \<Rightarrow> exn + rat" where
  "line_quantity line =
     rbind (jget line ''quantity_decimal'') (\<lambda>q.
     rbind (if q \<noteq> JNull then Inr q else jget line ''quantity'') (\<lambda>v.
     Inr (case jdecimal v of Some r \<Rightarrow> r | None \<Rightarrow> 0)))"

text \<open>\<open>ref(details.get(k) or line.get(k))\<close>.\<close>

definition line_link :: "json \<Rightarrow> json \<Rightarrow> string \<Rightarrow> exn + json" where
  "line_link details line k =
     rbind (jget details k) (\<lambda>v. if truthy v then Inr (ref v) else map_sum id ref (jget line k))"

definition line_proration :: "json \<Rightarrow> json \<Rightarrow> exn + json" where
  "line_proration details line =
     rbind (jget line ''proration'') (\<lambda>dflt. jget_or dflt details ''proration'')"

definition validate_proration_line ::
  "json \<Rightarrow> Checkout \<Rightarrow> SubscriptionUpgrade \<Rightarrow> string \<Rightarrow> exn + ProrationLine" where
  "validate_proration_line line c u currency =
     rbind (line_details line) (\<lambda>details.
     rbind (line_price line) (\<lambda>price.
     rbind (line_quantity line) (\<lambda>quantity.
     rbind (refuse_if
        [test (\<lambda>v. v \<noteq> JBool True) (line_proration details line),
         Inr (quantity \<noteq> 1),
         test (\<lambda>v. v \<noteq> jtext (co_subscription_id c)) (line_link details line ''subscription''),
         test (\<lambda>v. v \<noteq> JStr (up_item_id u)) (line_link details line ''subscription_item''),
         test (\<lambda>v. v \<noteq> JStr currency) (jget line ''currency''),
         test (\<lambda>v. jint v = None) (jget line ''amount'')]
        (billing 409 ''Upgrade invoice line ownership, quantity, or proration is unverified.'')) (\<lambda>_.
     rbind (refuse_if
        [test (\<lambda>v. \<not> jis_num v (timestamp (up_proration_at u))) (dig line [''period'', ''start'']),
         test (\<lambda>v. \<not> jis_num v (timestamp (up_period_end u))) (dig line [''period'', ''end''])]
        (billing 409 ''Upgrade proration dates differ from the confirmed quote.'')) (\<lambda>_.
     rbind (jget line ''amount'') (\<lambda>a.
     map_sum id (\<lambda>amount. \<lparr>vl_price = price, vl_amount = amount,
        vl_start = timestamp (up_proration_at u), vl_end = timestamp (up_period_end u)\<rparr>)
       (the_value KeyErrorPy (jint a))))))))"

fun hashable :: "json \<Rightarrow> bool" where
  "hashable (JList js) = False"
| "hashable (JObj kvs) = False"
| "hashable j = True"

definition amount_of :: "ProrationLine list \<Rightarrow> string \<Rightarrow> int" where
  "amount_of lines price = (case last_by vl_price lines (JStr price) of None \<Rightarrow> 0 | Some l \<Rightarrow> vl_amount l)"

definition require_credit_and_charge :: "ProrationLine list \<Rightarrow> SubscriptionUpgrade \<Rightarrow> exn + unit" where
  "require_credit_and_charge lines u =
     rseq (require (list_all (\<lambda>l. hashable (vl_price l)) lines) TypeErrorPy ''unhashable type'')
     (refuse_if [Inr (length (remdups (map vl_price lines)) \<noteq> 2),
        Inr (vl_price ` set lines \<noteq> {JStr (up_source_price_id u), JStr (up_target_price_id u)}),
        Inr (amount_of lines (up_source_price_id u) > 0),
        Inr (amount_of lines (up_target_price_id u) \<le> 0)]
       (billing 409 ''Upgrade invoice must credit the saved source price and charge the target price.''))"

record VerifiedUpgradeInvoice =
  vi_currency :: string
  vi_amount_due :: int
  vi_total :: int
  vi_lines :: "ProrationLine list"

fun each_ok :: "('a \<Rightarrow> exn + 'b) \<Rightarrow> 'a list \<Rightarrow> exn + 'b list" where
  "each_ok f [] = Inr []"
| "each_ok f (x # xs) = rbind (f x) (\<lambda>y. map_sum id (\<lambda>ys. y # ys) (each_ok f xs))"

definition agreed_total :: "json \<Rightarrow> json \<Rightarrow> ProrationLine list \<Rightarrow> exn + int" where
  "agreed_total t due lines =
     (case (jint t, jint due) of
        (Some owed, Some amount_due) \<Rightarrow>
          if owed \<le> 0 \<or> amount_due \<noteq> owed \<or> sum_list (map vl_amount lines) \<noteq> owed
          then Inl (billing 409 ''Upgrade total must match its credit and charge without other adjustments.'')
          else Inr owed
      | _ \<Rightarrow> Inl (billing 409 ''Upgrade total must match its credit and charge without other adjustments.''))"

definition validate_upgrade_invoice ::
  "json \<Rightarrow> Checkout \<Rightarrow> SubscriptionUpgrade \<Rightarrow> bool \<Rightarrow> exn + VerifiedUpgradeInvoice" where
  "validate_upgrade_invoice invoice c u preview =
     rseq (require_invoice_identity invoice c)
     (let currency = uq_currency (up_quote u) in
      rseq (require_supported_invoice_setup invoice currency preview)
     (rbind (jget invoice ''lines'') (\<lambda>p. let page = jor p (JObj []) in
      rbind (jget page ''data'') (\<lambda>raw. let raw_lines = jor raw (JList []) in
      rseq (refuse_if [test (\<lambda>v. v \<noteq> JBool False) (jget page ''has_more''),
            map_sum id (\<lambda>xs. length xs \<noteq> 2) (jiter raw_lines)]
          (billing 409 ''Expected exactly the complete unused-time credit and upgrade charge.''))
     (rbind (jiter raw_lines) (\<lambda>items.
      rbind (each_ok (\<lambda>line. validate_proration_line line c u currency) items) (\<lambda>lines.
      rseq (require_credit_and_charge lines u)
     (rbind (jget invoice ''total'') (\<lambda>t. rbind (jget invoice ''amount_due'') (\<lambda>due.
      map_sum id (\<lambda>owed. \<lparr>vi_currency = currency, vi_amount_due = owed, vi_total = owed, vi_lines = lines\<rparr>)
        (agreed_total t due lines)))))))))))"

text \<open>\<open>to_record\<close>: the lines in the order of their prices, which are strings by now.\<close>

definition price_text :: "json \<Rightarrow> string" where
  "price_text j = (case jstring j of None \<Rightarrow> [] | Some s \<Rightarrow> s)"

definition line_record :: "ProrationLine \<Rightarrow> ProrationLineRecord" where
  "line_record l = \<lparr>ln_price = price_text (vl_price l), ln_amount = vl_amount l, ln_start = vl_start l,
     ln_end = vl_end l\<rparr>"

definition to_record :: "VerifiedUpgradeInvoice \<Rightarrow> UpgradeQuoteRecord" where
  "to_record v = \<lparr>uq_currency = vi_currency v, uq_amount_due = vi_amount_due v, uq_total = vi_total v,
     uq_lines = map line_record (sort_key (price_text \<circ> vl_price) (vi_lines v))\<rparr>"

definition snapshot :: "json \<Rightarrow> Checkout \<Rightarrow> SubscriptionUpgrade \<Rightarrow> bool \<Rightarrow> exn + UpgradeQuoteRecord" where
  "snapshot invoice c u preview = map_sum id to_record (validate_upgrade_invoice invoice c u preview)"

definition require_upgrade_settlement :: "json \<Rightarrow> UpgradeQuoteRecord \<Rightarrow> exn + unit" where
  "require_upgrade_settlement invoice quote =
     rbind (jget invoice ''status'') (\<lambda>status.
     if status \<noteq> JStr ''paid'' then Inr ()
     else refuse_if [test (\<lambda>v. \<not> jis_num v (uq_amount_due quote)) (jget invoice ''amount_paid''),
        test (\<lambda>v. \<not> jis_num v 0) (jget invoice ''amount_remaining''),
        test (\<lambda>v. \<not> truthy v) (dig invoice [''status_transitions'', ''paid_at''])]
        (billing 409 ''Upgrade settlement is incomplete or inconsistent.''))"

record InvoiceReview =
  ir_issue :: "string option"
  ir_start :: datetime
  ir_end :: datetime

definition quote_issue :: "json \<Rightarrow> Checkout \<Rightarrow> SubscriptionUpgrade \<Rightarrow> exn + unit" where
  "quote_issue invoice c u =
     rbind (snapshot invoice c u False) (\<lambda>q.
     rseq (require (q = up_quote u) (BillingError 409) ''The invoice differs from the confirmed upgrade quote.'')
       (require_upgrade_settlement invoice (up_quote u)))"

definition invoice_issue :: "db \<Rightarrow> Checkout \<Rightarrow> json \<Rightarrow> exn + InvoiceReview option" where
  "invoice_issue d c invoice =
     rbind (jget invoice ''id'') (\<lambda>i.
     case find (\<lambda>u. jtext (up_invoice_id u) = i \<and> up_invoice_id u \<noteq> None \<and> up_checkout_id u = co_id c) (upgrades d) of
       None \<Rightarrow> Inr None
     | Some u \<Rightarrow>
         map_sum id (\<lambda>issue. Some \<lparr>ir_issue = issue, ir_start = up_proration_at u, ir_end = up_period_end u\<rparr>)
          (rcatch (map_sum id (\<lambda>_. None) (quote_issue invoice c u))
             (\<lambda>e. if is_billing_error e then Inr (Some (exn_message e)) else Inl e)))"

subsection \<open>What an accepted invoice says\<close>

text \<open>The quote of an upgrade: one line credits the old price, one charges the new one, both
  from the moment of the proration to the end of the period, and they add up to the total.\<close>

definition proper_quote :: "SubscriptionUpgrade \<Rightarrow> UpgradeQuoteRecord \<Rightarrow> bool" where
  "proper_quote u q \<longleftrightarrow>
     (\<exists>credit charge.
        set (uq_lines q) = {\<lparr>ln_price = up_source_price_id u, ln_amount = credit,
             ln_start = timestamp (up_proration_at u), ln_end = timestamp (up_period_end u)\<rparr>,
            \<lparr>ln_price = up_target_price_id u, ln_amount = charge,
             ln_start = timestamp (up_proration_at u), ln_end = timestamp (up_period_end u)\<rparr>}
        \<and> length (uq_lines q) = 2 \<and> sorted (map ln_price (uq_lines q))
        \<and> credit \<le> 0 \<and> 0 < charge \<and> uq_total q = credit + charge)
     \<and> uq_amount_due q = uq_total q \<and> 0 < uq_total q \<and> uq_currency q = uq_currency (up_quote u)"

lemma each_ok_Inr [ok_iff]: "each_ok f xs = Inr ys \<longleftrightarrow> list_all2 (\<lambda>x y. f x = Inr y) xs ys"
proof (induction xs arbitrary: ys)
  case (Cons x xs)
  show ?case by (cases ys) (auto simp: rbind_ok map_sum_ok Cons.IH)
qed auto

lemma proration_line_ok:
  "validate_proration_line line c u currency = Inr l \<Longrightarrow>
     vl_start l = timestamp (up_proration_at u) \<and> vl_end l = timestamp (up_period_end u)"
  by (auto simp: validate_proration_line_def ok_iff)

lemma agreed_total_ok [ok_iff]:
  "agreed_total t due lines = Inr owed \<longleftrightarrow>
     t = JInt owed \<and> due = JInt owed \<and> 0 < owed \<and> sum_list (map vl_amount lines) = owed"
  by (cases t; cases due) (auto simp: agreed_total_def)

lemma validated_lines:
  assumes "validate_upgrade_invoice invoice c u preview = Inr v"
  obtains "require_invoice_identity invoice c = Inr ()" "require_credit_and_charge (vi_lines v) u = Inr ()"
    "length (vi_lines v) = 2" "vi_total v = sum_list (map vl_amount (vi_lines v))" "vi_amount_due v = vi_total v"
    "0 < vi_total v" "vi_currency v = uq_currency (up_quote u)"
    "\<forall>l \<in> set (vi_lines v). vl_start l = timestamp (up_proration_at u) \<and> vl_end l = timestamp (up_period_end u)"
proof -
  from assms obtain items where ident: "require_invoice_identity invoice c = Inr ()"
    and two: "length items = 2"
    and lines: "each_ok (\<lambda>line. validate_proration_line line c u (uq_currency (up_quote u))) items = Inr (vi_lines v)"
    and cc: "require_credit_and_charge (vi_lines v) u = Inr ()"
    and money: "vi_total v = sum_list (map vl_amount (vi_lines v))" "vi_amount_due v = vi_total v"
      "0 < vi_total v" "vi_currency v = uq_currency (up_quote u)"
    by (auto simp: validate_upgrade_invoice_def rbind_ok rseq_ok refuse_if_ok Let_def map_sum_ok agreed_total_ok)
  have "vl_start l = timestamp (up_proration_at u) \<and> vl_end l = timestamp (up_period_end u)"
    if "l \<in> set (vi_lines v)" for l
    using that lines unfolding each_ok_Inr list_all2_conv_all_nth in_set_conv_nth
    by (metis proration_line_ok)
  moreover have "length (vi_lines v) = 2"
    using lines two by (auto simp: each_ok_Inr dest: list_all2_lengthD)
  ultimately show thesis using that ident cc money by blast
qed

lemma two_lines:
  assumes "length xs = 2" and "f ` set xs = {a, b}" and "a \<noteq> b"
  obtains x y where "f x = a" "f y = b" "xs = [x, y] \<or> xs = [y, x]"
proof -
  from assms(1) obtain p q where "xs = [p, q]" by (auto simp: length_Suc_conv numeral_2_eq_2)
  with assms(2,3) that show thesis by (auto simp: doubleton_eq_iff)
qed

end
