(* ===== verification/Invoices.thy ===== *)
theory Invoices
  imports PaymentRules
begin

section \<open>Reconciling invoices (billing_invoice_service.py, billing_notification_service.py)\<close>

text \<open>
  Stripe's invoices are read and minimised into rows; an invoice that does not cover one
  recurring line of the saved price, or is no confirmed upgrade, is kept with its issue.  The
  row is written when all of the answer has been read: an invoice with an invalid timestamp at
  its end leaves no pending row here, where the code leaves one that falls with the transaction.
\<close>

subsection \<open>One invoice\<close>

definition INVOICE_STATUSES :: "string set" where
  "INVOICE_STATUSES = {''draft'', ''open'', ''paid'', ''void'', ''uncollectible''}"

record InvoiceAmounts =
  ia_amount_due :: nat
  ia_amount_paid :: nat
  ia_amount_remaining :: nat
  ia_attempt_count :: nat

definition invoice_amount :: "json \<Rightarrow> string \<Rightarrow> exn + nat" where
  "invoice_amount value k =
     rbind (jget value k) (\<lambda>v. case jint v of
        None \<Rightarrow> Inl (billing 502 ''Stripe returned invalid invoice amounts or attempts.'')
      | Some i \<Rightarrow> if i < 0 then Inl (billing 502 ''Stripe returned invalid invoice amounts or attempts.'')
          else Inr (nat i))"

definition invoice_amounts :: "json \<Rightarrow> exn + InvoiceAmounts" where
  "invoice_amounts value =
     rbind (invoice_amount value ''amount_due'') (\<lambda>due. rbind (invoice_amount value ''amount_paid'') (\<lambda>paid.
     rbind (invoice_amount value ''amount_remaining'') (\<lambda>left. rbind (invoice_amount value ''attempt_count'') (\<lambda>n.
     Inr \<lparr>ia_amount_due = due, ia_amount_paid = paid, ia_amount_remaining = left, ia_attempt_count = n\<rparr>))))"

definition hashed :: "json \<Rightarrow> exn + string option" where
  "hashed v = (if hashable v then Inr (jstring v) else Inl (Exn TypeErrorPy ''unhashable type''))"

definition invoice_status :: "json \<Rightarrow> exn + string" where
  "invoice_status value =
     rbind (jget value ''status'') (\<lambda>v. rbind (hashed v) (\<lambda>s.
     if s \<in> Some ` INVOICE_STATUSES then Inr (price_text v)
     else Inl (billing 502 ''Stripe returned an unknown invoice status.'')))"

definition invoice_currency :: "json \<Rightarrow> exn + string" where
  "invoice_currency value =
     rbind (jget value ''currency'') (\<lambda>v. case jstring v of
        None \<Rightarrow> Inl (billing 502 ''Stripe returned an invalid invoice currency.'')
      | Some s \<Rightarrow> if length s \<noteq> 3 then Inl (billing 502 ''Stripe returned an invalid invoice currency.'')
          else Inr s)"

text \<open>Issue, start and end of an ordinary invoice: exactly one unprorated line of the saved
  price.\<close>

definition line_coverage ::
  "db \<Rightarrow> Checkout \<Rightarrow> json \<Rightarrow> exn + (string option \<times> datetime option \<times> datetime option)" where
  "line_coverage d c line =
     rbind (line_details line) (\<lambda>details.
     rbind (line_link details line ''subscription'') (\<lambda>linked.
     rbind (line_price line) (\<lambda>price.
     rbind (rbind (dig line [''period'', ''start'']) (invoice_stamp True)) (\<lambda>begins.
     rbind (rbind (dig line [''period'', ''end'']) (invoice_stamp True)) (\<lambda>ends.
     rbind (line_quantity line) (\<lambda>quantity.
     if linked \<noteq> jtext (co_subscription_id c) \<or> price \<noteq> JStr (expected_invoice_price d c begins) \<or> quantity \<noteq> 1
     then Inr (Some ''Invoice line does not match the subscription, quantity or saved price.'', begins, ends)
     else rbind (line_proration details line) (\<lambda>p.
       Inr (if p \<noteq> JBool False
               \<or> (case (begins, ends) of (Some a, Some b) \<Rightarrow> a \<ge> b | _ \<Rightarrow> True)
            then Some ''Prorated or unverified invoice coverage needs manual review.'' else None,
            begins, ends))))))))"

definition coverage ::
  "db \<Rightarrow> Checkout \<Rightarrow> json \<Rightarrow> exn + (string option \<times> datetime option \<times> datetime option)" where
  "coverage d c value =
     rbind (jget value ''lines'') (\<lambda>l. let page = jor l (JObj []) in
     rbind (jget page ''data'') (\<lambda>data. let items = jor data (JList []) in
     rbind (any_of [map_sum id (\<lambda>xs. length xs \<noteq> 1) (jiter items),
          test (\<lambda>v. v \<noteq> JBool False) (jget page ''has_more'')]) (\<lambda>odd.
     if odd then Inr (Some ''Invoice needs review: expected one complete recurring subscription line.'', None, None)
     else rbind (jfirst items) (line_coverage d c))))"

definition is_transition :: "db \<Rightarrow> Checkout \<Rightarrow> string \<Rightarrow> datetime option \<Rightarrow> bool" where
  "is_transition d c reason begins \<longleftrightarrow> reason = ''subscription_update'' \<and> begins \<noteq> None
     \<and> list_ex (\<lambda>x. ch_checkout_id x = co_id c \<and> ch_applied_at x \<noteq> None \<and> Some (ch_effective_at x) = begins) (changes d)"

text \<open>A reason that is no text is refused when the row is written.\<close>

definition invoice_reason :: "json \<Rightarrow> exn + string" where
  "invoice_reason value =
     rbind (jget value ''billing_reason'') (\<lambda>v. let reason = jor v (JStr ''unknown'') in
     rbind (hashed reason) (\<lambda>s. the_value TypeErrorPy s))"

definition override_if :: "exn + bool \<Rightarrow> string \<Rightarrow> string option \<Rightarrow> exn + string option" where
  "override_if b m issue = map_sum id (\<lambda>b. if b then Some m else issue) b"

definition setup_issue :: "PlanConfiguration \<Rightarrow> string \<Rightarrow> json \<Rightarrow> string option \<Rightarrow> exn + string option" where
  "setup_issue cfg currency value issue =
     rbind (override_if (any_of [Inr (map to_upper currency \<noteq> pc_currency cfg),
          test (\<lambda>v. v \<noteq> JStr ''charge_automatically'') (jget value ''collection_method'')])
        ''Invoice currency or collection method differs from the supported subscription setup.'' issue) (\<lambda>issue.
     override_if (any_of [test (\<lambda>v. v = JBool True) (jget value ''paid_out_of_band''),
          flag value ''amount_paid_off_stripe'', flag value ''post_payment_credit_notes_amount'',
          flag value ''pre_payment_credit_notes_amount''])
        ''Manual settlement or credit notes require review before granting access.'' issue)"

text \<open>The row an observed invoice becomes; \<open>observed_at\<close> is read last.\<close>

definition read_invoice :: "db \<Rightarrow> Checkout \<Rightarrow> json \<Rightarrow> datetime \<Rightarrow> exn + BillingInvoice" where
  "read_invoice d c value observed =
     rbind (rbind (jget value ''id'') (stripe_id ''in_'')) (\<lambda>invoice_id.
     rseq (refuse_if [test (\<lambda>v. v \<noteq> JStr ''invoice'') (jget value ''object''), not_livemode (co_livemode c) value]
        (billing 502 ''Stripe did not return a expected-mode invoice.''))
     (rseq (refuse_if [test (\<lambda>v. v \<noteq> jtext (co_subscription_id c)) (subscription_id value),
          test (\<lambda>v. ref v \<noteq> jtext (co_customer_id c)) (jget value ''customer'')]
        (billing 502 ''Invoice ownership does not match the subscription.''))
     (rseq (require (case get_row iv_id invoice_id (invoices d) of None \<Rightarrow> True
            | Some row \<Rightarrow> iv_checkout_id row = co_id c) (BillingError 502)
          ''Invoice is already associated with a different checkout.'')
     (rbind (invoice_status value) (\<lambda>status.
      rbind (invoice_amounts value) (\<lambda>amounts.
      rbind (the_value AttributeErrorPy (get_row pl_id (co_plan_revision_id c) (plans d))) (\<lambda>plan.
      rbind (invoice_currency value) (\<lambda>currency.
      rbind (coverage d c value) (\<lambda>(issue, begins, ends).
      rbind (invoice_reason value) (\<lambda>reason.
      let issue = (if reason \<notin> {''subscription_create'', ''subscription_cycle''} \<and> \<not> is_transition d c reason begins
            then Some ''This invoice is not a supported initial or renewal invoice.'' else issue) in
      rbind (invoice_issue d c value) (\<lambda>upgrade_check.
      let (issue, begins, ends) = (case upgrade_check of None \<Rightarrow> (issue, begins, ends)
            | Some r \<Rightarrow> (ir_issue r, Some (ir_start r), Some (ir_end r))) in
      rbind (setup_issue (pl_configuration plan) currency value issue) (\<lambda>issue.
      rbind (rbind (dig value [''status_transitions'', ''paid_at'']) (invoice_stamp True)) (\<lambda>paid_at.
      let issue = (if status = ''paid'' \<and> (paid_at = None \<or> ia_amount_remaining amounts \<noteq> 0
              \<or> ia_amount_paid amounts < ia_amount_due amounts)
            then Some ''Invoice settlement is inconsistent or incomplete.'' else issue) in
      rbind (rbind (jget value ''next_payment_attempt'') (invoice_stamp True)) (\<lambda>next_attempt.
      rbind (rbind (rbind (jget value ''created'') (invoice_stamp False)) (the_value TypeErrorPy)) (\<lambda>created.
      Inr \<lparr>iv_id = invoice_id, iv_checkout_id = co_id c, iv_status = status, iv_currency = lower currency,
         iv_amount_due = ia_amount_due amounts, iv_amount_paid = ia_amount_paid amounts,
         iv_amount_remaining = ia_amount_remaining amounts, iv_attempt_count = ia_attempt_count amounts,
         iv_billing_reason = reason, iv_period_start = begins, iv_period_end = ends, iv_paid_at = paid_at,
         iv_next_payment_attempt = next_attempt, iv_issue = issue, iv_created_at = created,
         iv_observed_at = observed\<rparr>)))))))))))))))"

definition save_invoice :: "BillingInvoice \<Rightarrow> unit sess" where
  "save_invoice i = change (\<lambda>d. d\<lparr>invoices :=
     (if iv_id i \<in> iv_id ` set (invoices d) then update_where (\<lambda>r. iv_id r = iv_id i) (\<lambda>_. i) (invoices d)
      else invoices d @ [i])\<rparr>)"

definition observe_invoice :: "Checkout \<Rightarrow> json \<Rightarrow> unit sess" where
  "observe_invoice c value =
     bind now (\<lambda>observed.
     bind (query (\<lambda>d. read_invoice d c value observed)) (\<lambda>r.
     bind (lift_result r) (\<lambda>i. seq (save_invoice i) flush)))"

subsection \<open>All invoices of a subscription\<close>

definition retrieve :: "Settings \<Rightarrow> json \<Rightarrow> json sess" where
  "retrieve s invoice =
     bind (lift_result (stripe_id ''in_'' invoice)) (\<lambda>i.
     bind (get_object s (''invoices/'' @ i)) (\<lambda>value.
     bind (lift_result (refuse_if [test (\<lambda>v. v \<noteq> JStr i) (jget value ''id'')]
        (billing 502 ''Stripe returned a different invoice than requested.''))) (\<lambda>_. ret value)))"

definition text_or_none :: "string option \<Rightarrow> string" where
  "text_or_none v = (case v of None \<Rightarrow> ''None'' | Some s \<Rightarrow> s)"

text \<open>A page: its invoices, and whether there are further ones.\<close>

definition read_invoice_page :: "json \<Rightarrow> exn + (json list \<times> bool)" where
  "read_invoice_page result =
     rbind (jget result ''data'') (\<lambda>data. rbind (jget result ''object'') (\<lambda>object.
     rbind (jget result ''has_more'') (\<lambda>has_more.
     case (data, has_more) of
       (JList values, JBool further) \<Rightarrow>
         if object \<noteq> JStr ''list'' \<or> length values > 100
         then Inl (billing 502 ''Stripe returned an invalid invoice page.'')
         else if further \<and> values = []
         then Inl (billing 502 ''Stripe returned an empty invoice page with more results.'')
         else Inr (values, further)
     | _ \<Rightarrow> Inl (billing 502 ''Stripe returned an invalid invoice page.''))))"

definition invoice_page :: "Settings \<Rightarrow> Checkout \<Rightarrow> string option \<Rightarrow> (json list \<times> bool) sess" where
  "invoice_page s c cursor =
     bind (lift_result (case cursor of None \<Rightarrow> Inr []
        | Some k \<Rightarrow> if k = [] then Inr []
            else map_sum id (\<lambda>k. ''&starting_after='' @ k) (stripe_id ''in_'' (JStr k)))) (\<lambda>after.
     bind (get_object s (''invoices?subscription='' @ text_or_none (co_subscription_id c) @ ''&limit=100'' @ after)) (\<lambda>result.
     bind (lift_result (read_invoice_page result)) (\<lambda>(values, further).
     seq (for_each values (observe_invoice c)) (ret (values, further)))))"

definition id_of :: "json \<Rightarrow> string" where
  "id_of v = (case jget v ''id'' of Inl e \<Rightarrow> [] | Inr i \<Rightarrow> price_text i)"

text \<open>The settled invoice of the preceding period.\<close>

definition prior_invoice :: "Checkout \<Rightarrow> db \<Rightarrow> BillingInvoice option" where
  "prior_invoice c d = first_by (\<lambda>i. - iv_created_at i) (filter (\<lambda>i. iv_checkout_id i = co_id c
     \<and> iv_period_end i \<noteq> None \<and> iv_period_end i = co_period_start c \<and> iv_status i = ''paid''
     \<and> iv_issue i = None) (invoices d))"

definition advance_history :: "Settings \<Rightarrow> Checkout \<Rightarrow> json list \<times> bool \<Rightarrow> unit sess" where
  "advance_history s c recent =
     (if co_invoice_history_complete c then ret ()
      else bind (case co_invoice_history_cursor c of
            Some k \<Rightarrow> if k = [] then ret recent else invoice_page s c (Some k)
          | None \<Rightarrow> ret recent) (\<lambda>(values, further).
        if further
        then bind (lift_result (stripe_id ''in_'' (JStr (id_of (last values))))) (\<lambda>cursor.
             if co_invoice_history_cursor c = Some cursor
             then raise (BillingError 502) ''Stripe invoice pagination did not advance.''
             else set_checkout (co_id c) (\<lambda>r. r\<lparr>co_invoice_history_cursor := Some cursor\<rparr>))
        else set_checkout (co_id c) (\<lambda>r. r\<lparr>co_invoice_history_complete := True,
               co_invoice_history_cursor := None\<rparr>)))"

definition reconcile :: "Settings \<Rightarrow> uuid \<Rightarrow> json \<Rightarrow> unit sess" where
  "reconcile s checkout latest =
     bind (lift_result (if truthy latest then map_sum id Some (stripe_id ''in_'' (ref latest)) else Inr None)) (\<lambda>latest_id.
     seq (set_checkout checkout (\<lambda>r. r\<lparr>co_latest_invoice_id := latest_id\<rparr>))
    (bind (load_checkout checkout) (\<lambda>c.
     seq (case latest_id of None \<Rightarrow> ret () | Some i \<Rightarrow> bind (retrieve s (JStr i)) (observe_invoice c))
    (bind (invoice_page s c None) (\<lambda>recent.
     seq (bind (query (prior_invoice c)) (\<lambda>prior.
        case prior of
          None \<Rightarrow> ret ()
        | Some p \<Rightarrow> if iv_id p \<in> id_of ` set (fst recent) \<or> latest_id = Some (iv_id p) then ret ()
            else bind (retrieve s (JStr (iv_id p))) (observe_invoice c)))
    (seq (advance_history s c recent)
    (bind now (\<lambda>stamp. set_checkout checkout (\<lambda>r. r\<lparr>co_invoices_checked_at := Some stamp\<rparr>)))))))))"

subsection \<open>Notifications of an observed checkout\<close>

text \<open>\<open>str\<close> of an aware datetime: a blank where \<open>isoformat\<close> has a T.\<close>

definition dt_str :: "datetime \<Rightarrow> string" where
  "dt_str t = replace_char (CHR ''T'') (CHR '' '') (dt_isoformat t)"

definition capture :: "uuid \<Rightarrow> Payment \<Rightarrow> unit sess" where
  "capture checkout payment =
     bind (load_checkout checkout) (\<lambda>c.
     let previous = (case co_notification_state c of None \<Rightarrow> \<lparr>ns_cancel = False, ns_sequence = 0\<rparr> | Some p \<Rightarrow> p);
         cancel = co_cancel_at_period_end c;
         changed = (\<not> ended c \<and> cancel \<noteq> ns_cancel previous);
         sequence = (if changed then Suc (ns_sequence previous) else ns_sequence previous)
     in seq (if ended c
             then enqueue (co_user_id c) (''ended:'' @ uuid_text checkout) ''Paid subscription ended''
               ''Your paid subscription has ended. Review your Free access and retained research in Subscription and usage.''
             else if changed
             then enqueue (co_user_id c) (''cancel:'' @ uuid_text checkout @ '':'' @ nat_str sequence)
               (if cancel then ''Cancellation scheduled'' else ''Cancellation withdrawn'')
               (if cancel then ''Renewal is cancelled. Paid access continues until ''
                    @ (case co_period_end c of None \<Rightarrow> ''None'' | Some e \<Rightarrow> dt_str e)
                    @ ''. Free access then applies; saved research is retained.''
                else ''Your cancellation was withdrawn. Your subscription will renew unless you cancel again.'')
             else ret ())
       (bind (query (\<lambda>d. case co_latest_invoice_id c of None \<Rightarrow> None | Some i \<Rightarrow> get_row iv_id i (invoices d))) (\<lambda>invoice.
        seq (case invoice of
               None \<Rightarrow> ret ()
             | Some i \<Rightarrow>
                 if py_status payment = ''open'' \<and> py_issue payment = None \<and> iv_attempt_count i > 0
                 then enqueue (co_user_id c) (''payment:'' @ iv_id i) ''Subscription payment needs attention''
                   (''Your subscription payment has not completed. Review your payment method in Manage billing.''
                    @ (case py_grace_until payment of
                         Some e \<Rightarrow> '' Grace ends '' @ dt_isoformat e @ ''; Free access applies afterward.''
                       | None \<Rightarrow> '' Paid benefits require verified payment.'')
                    @ '' Your saved research remains available.'')
                 else ret ())
          (set_checkout checkout (\<lambda>r. r\<lparr>co_notification_state := Some \<lparr>ns_cancel = cancel, ns_sequence = sequence\<rparr>\<rparr>)))))"

end
