(* ===== verification/Transitions.thy ===== *)
theory Transitions
  imports Invoices
begin

section \<open>Observed changes and upgrades (billing_change_observation.py, billing_upgrade_observation.py)\<close>

text \<open>
  What a reading of the subscription means for the saved renewal change and for the pending
  upgrade of its checkout.  Both only interpret; nothing here writes to Stripe or commits.
  The branches follow the early returns of the code.  The second test of an ended subscription
  in \<open>observe\<close> of a change is never reached, the first one has returned.
\<close>

fun all_of :: "(exn + bool) list \<Rightarrow> exn + bool" where
  "all_of [] = Inr True"
| "all_of (c # cs) = rbind c (\<lambda>b. if b then all_of cs else Inr False)"

lemma all_of_True [ok_iff]: "all_of cs = Inr True \<longleftrightarrow> list_all (\<lambda>c. c = Inr True) cs"
  by (induction cs) (auto simp: rbind_def split: sum.splits)

lemma test_True [ok_iff]: "test p m = Inr True \<longleftrightarrow> (\<exists>v. m = Inr v \<and> p v)"
  by (cases m) (auto simp: test_def)

definition boundary :: "SubscriptionChange \<Rightarrow> int" where
  "boundary ch = timestamp (ch_effective_at ch)"

text \<open>The items of a subscription or of a schedule phase; \<open>item.get(k, value.get(k))\<close>.\<close>

definition items_of :: "json \<Rightarrow> exn + json list" where
  "items_of value = rbind (jdata ''items'' value) jiter"

definition item_field :: "json \<Rightarrow> json \<Rightarrow> string \<Rightarrow> exn + json" where
  "item_field value item k = rbind (jget value k) (\<lambda>dflt. jget_or dflt item k)"

definition status_in :: "json \<Rightarrow> string set \<Rightarrow> exn + bool" where
  "status_in value names =
     rbind (jget value ''status'') (\<lambda>v. rbind (hashed v) (\<lambda>s. Inr (s \<in> Some ` names)))"

subsection \<open>Renewal changes\<close>

definition change_notice :: "SubscriptionChange \<Rightarrow> string \<Rightarrow> string \<Rightarrow> unit sess" where
  "change_notice ch event message =
     bind (load_plan (ch_target_revision_id ch)) (\<lambda>target.
     enqueue (ch_user_id ch) (''change:'' @ uuid_text (ch_id ch) @ '':'' @ event) (''Subscription change '' @ event)
       (message @ nl @ ''Plan: '' @ pc_name (pl_configuration target) @ '' ('' @ ch_target_interval ch @ '').'' @ nl
        @ ''Scheduled renewal: '' @ dt_isoformat (ch_effective_at ch) @ ''.'' @ nl
        @ ''Your saved research and monthly allowance clock are preserved.''))"

definition verified_schedule :: "Settings \<Rightarrow> Checkout \<Rightarrow> SubscriptionChange \<Rightarrow> json sess" where
  "verified_schedule s c ch =
     bind (lift_result (stripe_id ''sub_sched_'' (jtext (ch_schedule_id ch)))) (\<lambda>i.
     bind (get_object s (''subscription_schedules/'' @ i)) (\<lambda>value.
     bind (lift_result (refuse_if
        [test (\<lambda>v. v \<noteq> jtext (ch_schedule_id ch)) (jget value ''id''),
         test (\<lambda>v. v \<noteq> JStr ''subscription_schedule'') (jget value ''object''),
         not_livemode (co_livemode c) value,
         test (\<lambda>v. ref v \<noteq> jtext (co_customer_id c)) (jget value ''customer''),
         rbind (jget value ''subscription'') (\<lambda>v.
           test (\<lambda>w. ref (jor v w) \<noteq> jtext (co_subscription_id c))
             (if truthy v then Inr JNull else jget value ''released_subscription''))]
        (billing 409 ''Scheduled change ownership could not be verified.''))) (\<lambda>_. ret value)))"

definition phase_items :: "json \<Rightarrow> exn + json list" where
  "phase_items phase = rbind (jget phase ''items'') (\<lambda>v. jiter (jor v (JList [])))"

definition first_item :: "json \<Rightarrow> exn + json" where
  "first_item phase = rbind (jget phase ''items'') jfirst"

definition phase_price :: "json \<Rightarrow> string \<Rightarrow> (exn + bool) list" where
  "phase_price phase price =
     [map_sum id (\<lambda>xs. length xs = 1) (phase_items phase),
      test (\<lambda>v. ref v = JStr price) (rbind (first_item phase) (\<lambda>i. jget i ''price'')),
      test (\<lambda>v. jis_num v 1) (rbind (first_item phase) (\<lambda>i. jget i ''quantity''))]"

definition has_target :: "json \<Rightarrow> SubscriptionChange \<Rightarrow> exn + bool" where
  "has_target value ch =
     rbind (jget value ''phases'') (\<lambda>p. let phases = jor p (JList []) in
     rbind (any_of
        [test (\<lambda>v. v \<noteq> JStr ''release'') (jget value ''end_behavior''),
         test (\<lambda>v. v \<noteq> JStr (uuid_text (ch_id ch))) (dig value [''metadata'', ''radar_change_id'']),
         map_sum id (\<lambda>xs. length xs \<noteq> 2) (jiter phases)]) (\<lambda>other.
     if other then Inr False
     else rbind (jiter phases) (\<lambda>xs. case xs of
         [first, target] \<Rightarrow>
           all_of ([test (\<lambda>v. jis_num v (boundary ch)) (jget first ''end_date'')]
             @ phase_price first (ch_source_price_id ch)
             @ [test (\<lambda>v. jis_num v (boundary ch)) (jget target ''start_date'')]
             @ phase_price target (ch_target_price_id ch)
             @ [test (\<lambda>v. v = JStr ''none'') (jget target ''proration_behavior''),
                test (\<lambda>v. v = JStr ''phase_start'') (jget target ''billing_cycle_anchor'')])
       | _ \<Rightarrow> Inr False)))"

definition open_change :: "uuid \<Rightarrow> db \<Rightarrow> SubscriptionChange option" where
  "open_change checkout d = first_by (\<lambda>x. - ch_created_at x)
     (filter (\<lambda>x. ch_checkout_id x = checkout \<and> ch_state x \<notin> change_terminal) (changes d))"

definition stop_change :: "SubscriptionChange \<Rightarrow> string \<Rightarrow> unit sess" where
  "stop_change ch message =
     seq (set_change (ch_id ch) (\<lambda>x. x\<lparr>ch_state := ''stopped''\<rparr>)) (change_notice ch ''stopped'' message)"

text \<open>A schedule that was undone before the renewal authorises no later edit of the price.\<close>

definition undone_before :: "SubscriptionChange \<Rightarrow> json \<Rightarrow> exn + bool" where
  "undone_before ch schedule =
     rbind (jget schedule ''status'') (\<lambda>st. if st \<noteq> JStr ''released'' then Inr False
     else rbind (jget schedule ''released_at'') (\<lambda>v.
       rbind (the_value TypeErrorPy (jnum (jor v (JInt 0)))) (\<lambda>r. Inr (r < of_int (boundary ch)))))"

text \<open>The target price is in effect: the checkout takes the new plan, price and interval.\<close>

definition bind_target :: "Checkout \<Rightarrow> SubscriptionChange \<Rightarrow> unit sess" where
  "bind_target c ch =
     seq (set_checkout (co_id c) (\<lambda>r. r\<lparr>co_plan_revision_id := ch_target_revision_id ch,
            co_price_id := ch_target_price_id ch, co_interval := ch_target_interval ch\<rparr>))
     (seq (if ch_applied_at ch \<noteq> None then ret ()
           else seq (set_change (ch_id ch) (\<lambda>x. x\<lparr>ch_applied_at := Some (ch_effective_at ch),
                  ch_state := ''awaiting_payment''\<rparr>))
             (change (\<lambda>d. d\<lparr>account_states := update_where (\<lambda>a. as_user_id a = co_user_id c)
                (\<lambda>a. a\<lparr>as_paid_digest_ids := ch_digest_ids ch\<rparr>) (account_states d)\<rparr>)))
      flush)"

definition observe_price_of_change :: "Settings \<Rightarrow> Checkout \<Rightarrow> SubscriptionChange \<Rightarrow> json \<Rightarrow> json \<Rightarrow> unit sess" where
  "observe_price_of_change s c ch value item =
     bind (lift_result (map_sum id ref (jget item ''price''))) (\<lambda>price.
     bind (lift_result (rbind (item_field value item ''current_period_start'') (invoice_stamp True))) (\<lambda>begins.
     if price = JStr (ch_target_price_id ch) \<and> (case begins of None \<Rightarrow> False | Some b \<Rightarrow> b \<ge> ch_effective_at ch)
     then bind (verified_schedule s c ch) (\<lambda>schedule.
          bind (lift_result (has_target schedule ch)) (\<lambda>ours.
          if \<not> ours then ret ()
          else bind (lift_result (undone_before ch schedule)) (\<lambda>undone.
               if undone then ret () else bind_target c ch)))
     else if ch_state ch \<in> {''scheduled'', ''preparing'', ''needs_review''} \<and> price = JStr (ch_source_price_id ch)
     then bind (verified_schedule s c ch) (\<lambda>schedule.
          bind (lift_result (status_in schedule {''released'', ''canceled''})) (\<lambda>gone.
          if gone then stop_change ch ''The schedule was removed in Stripe. Review the current subscription before choosing another change.''
          else ret ()))
     else ret ()))"

definition observe_change :: "Settings \<Rightarrow> uuid \<Rightarrow> json \<Rightarrow> unit sess" where
  "observe_change s checkout value =
     bind (load_checkout checkout) (\<lambda>c.
     bind (query (open_change checkout)) (\<lambda>found.
     case found of
       None \<Rightarrow> ret ()
     | Some ch \<Rightarrow>
         if ch_schedule_id ch \<in> {None, Some []} then ret ()
         else bind (lift_result (status_in value TERMINAL)) (\<lambda>gone.
           if gone then stop_change ch ''The subscription ended before this change completed. Review your Free access and billing status.''
           else bind (lift_result (items_of value)) (\<lambda>items. case items of
               [item] \<Rightarrow> bind (lift_result (test (\<lambda>v. jis_num v 1) (jget item ''quantity''))) (\<lambda>one.
                   if one then observe_price_of_change s c ch value item else ret ())
             | _ \<Rightarrow> ret ()))))"

text \<open>\<open>paid\<close>: the first payment of the new terms has been verified.\<close>

definition settle_change :: "Settings \<Rightarrow> uuid \<Rightarrow> unit sess" where
  "settle_change s checkout =
     bind (load_checkout checkout) (\<lambda>c.
     bind (query (\<lambda>d. find (\<lambda>x. ch_checkout_id x = checkout \<and> ch_state x = ''awaiting_payment'') (changes d))) (\<lambda>found.
     case found of
       None \<Rightarrow> ret ()
     | Some ch \<Rightarrow>
         if \<not> co_price_matches c \<or> co_subscription_status c \<noteq> Some ''active'' then ret ()
         else bind now (\<lambda>stamp.
           bind (query (\<lambda>d. assessment d c stamp (set_subscription_grace_days s) None 0)) (\<lambda>payment.
           if \<not> py_covered payment then ret ()
           else bind now (\<lambda>t.
             seq (set_change (ch_id ch) (\<lambda>x. x\<lparr>ch_state := ''finalizing'', ch_next_attempt_at := Some t\<rparr>))
               (change_notice ch ''completed'' ''Payment was verified and your subscription change is now in effect.''))))))"

subsection \<open>Upgrades\<close>

definition upgrade_notice :: "SubscriptionUpgrade \<Rightarrow> string \<Rightarrow> string \<Rightarrow> unit sess" where
  "upgrade_notice u event message =
     bind (load_plan (up_target_revision_id u)) (\<lambda>target.
     enqueue (up_user_id u) (''upgrade:'' @ uuid_text (up_id u) @ '':'' @ event) (''Subscription upgrade '' @ event)
       (message @ nl @ ''Target: '' @ pc_name (pl_configuration target) @ '' ('' @ up_interval u @ '').'' @ nl
        @ ''Your allowance reset date, used quota, and saved research are preserved.''))"

text \<open>The chain of invoices an upgrade rests on, refreshed from the oldest one; it has at most
  sixteen links.\<close>

fun evidence :: "Settings \<Rightarrow> Checkout \<Rightarrow> nat \<Rightarrow> string list \<Rightarrow> string \<Rightarrow> unit sess" where
  "evidence s c 0 seen invoice = raise (BillingError 409) ''Upgrade coverage chain needs operator review.''"
| "evidence s c (Suc n) seen invoice =
     (if invoice \<in> set seen then raise (BillingError 409) ''Upgrade coverage chain needs operator review.''
      else bind (query (\<lambda>d. upgrade_of_invoice d invoice (co_id c))) (\<lambda>earlier.
        seq (case earlier of None \<Rightarrow> ret ()
             | Some u \<Rightarrow> evidence s c n (invoice # seen) (up_source_invoice_id u))
          (bind (retrieve s (JStr invoice)) (observe_invoice c))))"

definition review_upgrade :: "uuid \<Rightarrow> string \<Rightarrow> unit sess" where
  "review_upgrade i m = set_upgrade i (\<lambda>u. u\<lparr>up_state := ''needs_review'', up_last_error := Some m\<rparr>)"

definition submitted_upgrade :: "uuid \<Rightarrow> db \<Rightarrow> SubscriptionUpgrade option" where
  "submitted_upgrade checkout d = first_by (\<lambda>u. (- up_created_at u, - int (up_id u)))
     (filter (\<lambda>u. up_checkout_id u = checkout \<and> up_submitted_at u \<noteq> None) (upgrades d))"

text \<open>The invoice that answers the request is the quoted one, made after the proration.\<close>

definition matches_request :: "Checkout \<Rightarrow> SubscriptionUpgrade \<Rightarrow> json \<Rightarrow> exn + unit" where
  "matches_request c u raw =
     rbind (snapshot raw c u False) (\<lambda>q.
     rbind (if q \<noteq> up_quote u then Inr True
            else rbind (rbind (jget raw ''created'') (invoice_stamp False)) (\<lambda>t. Inr (case t of None \<Rightarrow> False
              | Some t \<Rightarrow> t < up_proration_at u))) (\<lambda>bad.
     if bad then Inl (billing 409 ''The invoice does not match the saved upgrade request.'') else Inr ()))"

text \<open>Attaching the latest invoice to a submitted upgrade; the result says whether to go on.\<close>

definition attach_invoice :: "Settings \<Rightarrow> Checkout \<Rightarrow> SubscriptionUpgrade \<Rightarrow> json \<Rightarrow> bool sess" where
  "attach_invoice s c u latest =
     (if up_invoice_id u \<notin> {None, Some []} \<or> \<not> truthy latest \<or> latest = JStr (up_source_invoice_id u) then ret True
      else bind (retrieve s latest) (\<lambda>raw.
        case matches_request c u raw of
          Inl e \<Rightarrow> if is_billing_error e then seq (review_upgrade (up_id u) (exn_message e)) (ret False) else reraise e
        | Inr _ \<Rightarrow>
            bind (query (\<lambda>d. find (\<lambda>x. jtext (up_invoice_id x) = latest) (upgrades d))) (\<lambda>collision.
            if (case collision of None \<Rightarrow> False | Some x \<Rightarrow> up_id x \<noteq> up_id u)
            then seq (review_upgrade (up_id u) ''The invoice is already attached to another upgrade.'') (ret False)
            else seq (set_upgrade (up_id u) (\<lambda>x. x\<lparr>up_invoice_id := Some (price_text latest)\<rparr>))
                (seq flush (seq (evidence s c 16 [] (price_text latest)) (ret True))))))"

definition apply_upgrade :: "Settings \<Rightarrow> Checkout \<Rightarrow> SubscriptionUpgrade \<Rightarrow> json \<Rightarrow> json \<Rightarrow> unit sess" where
  "apply_upgrade s c u value item =
     bind (lift_result (rbind (item_field value item ''current_period_start'') (invoice_stamp True))) (\<lambda>begins.
     bind (lift_result (rbind (item_field value item ''current_period_end'') (invoice_stamp True))) (\<lambda>ends.
     bind now (\<lambda>stamp.
     bind (query (\<lambda>d. assessment d c stamp (set_subscription_grace_days s) (Some (up_source_invoice_id u)) 0)) (\<lambda>base.
     if begins \<noteq> Some (up_period_start u) \<or> ends \<noteq> Some (up_period_end u) \<or> \<not> py_covered base \<or> py_issue base \<notin> {None, Some []}
     then review_upgrade (up_id u) ''The original paid coverage or unchanged billing period could not be verified.''
     else bind now (\<lambda>t.
       seq (set_checkout (co_id c) (\<lambda>r. r\<lparr>co_plan_revision_id := up_target_revision_id u,
              co_price_id := up_target_price_id u\<rparr>))
       (seq (set_upgrade (up_id u) (\<lambda>x. x\<lparr>up_state := ''applied'', up_applied_at := Some t, up_last_error := None\<rparr>))
       (seq (upgrade_notice u ''completed'' ''The prorated upgrade payment was verified. Your upgraded benefits are now active. Paused schedules still require explicit review and resumption.'')
        flush)))))))"

definition await_payment :: "SubscriptionUpgrade \<Rightarrow> json \<Rightarrow> unit sess" where
  "await_payment u pending =
     bind (lift_result (rbind (jget pending ''subscription_items'') (\<lambda>v. let data = jor v (JList []) in
        any_of [map_sum id (\<lambda>xs. length xs \<noteq> 1) (jiter data),
          test (\<lambda>v. v \<noteq> JStr (up_item_id u)) (rbind (jfirst data) (\<lambda>i. jget i ''id'')),
          test (\<lambda>v. ref v \<noteq> JStr (up_target_price_id u)) (rbind (jfirst data) (\<lambda>i. jget i ''price''))]))) (\<lambda>other.
     if other then review_upgrade (up_id u) ''Stripe has a different pending subscription update.''
     else bind (lift_result (rbind (jget pending ''expires_at'') (invoice_stamp False))) (\<lambda>until.
       seq (set_upgrade (up_id u) (\<lambda>x. x\<lparr>up_pending_until := until, up_state := ''pending_payment'', up_last_error := None\<rparr>))
       (seq (upgrade_notice u ''payment pending'' ''Complete payment or authentication on the secure invoice page. Until payment is verified, your previous paid plan remains in effect; no upgrade allowance is granted.'')
        flush)))"

definition settle_upgrade :: "Settings \<Rightarrow> Checkout \<Rightarrow> SubscriptionUpgrade \<Rightarrow> json \<Rightarrow> json \<Rightarrow> json \<Rightarrow> BillingInvoice \<Rightarrow> unit sess" where
  "settle_upgrade s c u value item price i =
     bind (lift_result (jget value ''pending_update'')) (\<lambda>pending.
     if iv_issue i \<notin> {None, Some []}
     then review_upgrade (up_id u) (text_or_none (iv_issue i))
     else if iv_status i = ''paid'' \<and> \<not> truthy pending \<and> price = JStr (up_target_price_id u)
          \<and> jget value ''status'' = Inr (JStr ''active'')
     then apply_upgrade s c u value item
     else if iv_status i = ''void'' \<and> \<not> truthy pending \<and> price = JStr (up_source_price_id u)
     then seq (set_upgrade (up_id u) (\<lambda>x. x\<lparr>up_state := ''expired'', up_last_error := None\<rparr>))
         (seq (upgrade_notice u ''expired'' ''The pending upgrade expired or its invoice was voided. Your previous plan continues under its existing payment terms.'')
          flush)
     else if iv_status i = ''open'' \<and> truthy pending \<and> price = JStr (up_source_price_id u)
     then await_payment u pending
     else seq (review_upgrade (up_id u) ''The upgrade payment and subscription state do not agree. Refresh or ask an operator to review billing.'')
          flush)"

definition observe_upgrade :: "Settings \<Rightarrow> uuid \<Rightarrow> json \<Rightarrow> unit sess" where
  "observe_upgrade s checkout value =
     bind (load_checkout checkout) (\<lambda>c.
     bind (query (submitted_upgrade checkout)) (\<lambda>found.
     case found of
       None \<Rightarrow> ret ()
     | Some u \<Rightarrow>
         seq (case up_invoice_id u of None \<Rightarrow> ret ()
              | Some i \<Rightarrow> if i = [] then ret () else evidence s c 16 [] i)
        (if up_state u \<in> {''applied'', ''expired''} then ret ()
         else bind (lift_result (items_of value)) (\<lambda>items.
           let moved = review_upgrade (up_id u) ''The subscription item changed unexpectedly.'' in
           case items of
             [item] \<Rightarrow>
               bind (lift_result (any_of [test (\<lambda>v. v \<noteq> JStr (up_item_id u)) (jget item ''id''),
                  test (\<lambda>v. \<not> jis_num v 1) (jget item ''quantity'')])) (\<lambda>other.
               if other then moved
               else bind (lift_result (map_sum id ref (jget item ''price''))) (\<lambda>price.
                 bind (lift_result (map_sum id ref (jget value ''latest_invoice''))) (\<lambda>latest.
                 bind (attach_invoice s c u latest) (\<lambda>go.
                 if \<not> go then ret ()
                 else bind (load upgrades up_id (up_id u)) (\<lambda>u.
                   case up_invoice_id u of
                     None \<Rightarrow> ret ()
                   | Some k \<Rightarrow> bind (load invoices iv_id k) (settle_upgrade s c u value item price))))))
           | _ \<Rightarrow> moved))))"

end
