(* ===== verification/Checkouts.thy ===== *)
theory Checkouts
  imports Transitions
begin

section \<open>Checkouts (stripe_sandbox_service.py)\<close>

text \<open>
  The commands that start and observe a subscription.  An attempt with its exact parameters is
  committed before Stripe is asked to create the session, so that an ambiguous failure can only
  resume the same idempotent request.  The row of a checkout is read again after every call
  that may change it, as the object of the session would show.
\<close>

subsection \<open>Observing a subscription\<close>

text \<open>\<open>datetime.fromtimestamp(value, utc)\<close> of a value that is not \<open>None\<close>.\<close>

definition MIN_TIMESTAMP :: int where "MIN_TIMESTAMP = -62135596800"

definition observed_time :: "string \<Rightarrow> json \<Rightarrow> exn + datetime option" where
  "observed_time m value =
     (if value = JNull then Inr None
      else case jnum value of
        None \<Rightarrow> Inl (billing 502 m)
      | Some r \<Rightarrow>
          (let us = \<lfloor>r * 1000000 + 1 / 2\<rfloor>
           in if MIN_TIMESTAMP * 1000000 \<le> us \<and> us < (MAX_TIMESTAMP + 1) * 1000000
              then Inr (Some (epoch_us + us)) else Inl (billing 502 m)))"

definition msg_period :: string where
  "msg_period = ''Stripe returned an unexpected subscription period.''"

definition msg_anchor :: string where
  "msg_anchor = ''Stripe returned an unexpected subscription anchor.''"

definition period_field :: "json \<Rightarrow> json list \<Rightarrow> string \<Rightarrow> exn + json" where
  "period_field value items k =
     (case items of [] \<Rightarrow> jget value k | item # rest \<Rightarrow> item_field value item k)"

definition observed_price :: "json list \<Rightarrow> string \<Rightarrow> exn + bool" where
  "observed_price items price =
     (case items of
        [item] \<Rightarrow> all_of [test (\<lambda>v. v = JStr price) (dig item [''price'', ''id'']),
                        test (\<lambda>v. jis_num v 1) (jget item ''quantity'')]
      | _ \<Rightarrow> Inr False)"

text \<open>The ownership of the answer, its customer and its status.\<close>

definition verify_subscription :: "Checkout \<Rightarrow> string \<Rightarrow> json \<Rightarrow> exn + (string \<times> string)" where
  "verify_subscription c sid value =
     rseq (tagged value c)
     (rseq (refuse_if [test (\<lambda>v. v \<noteq> JStr sid) (jget value ''id''),
          test (\<lambda>v. v \<noteq> JStr ''subscription'') (jget value ''object'')]
        (billing 502 ''Stripe returned an unexpected subscription.''))
     (rbind (rbind (jget value ''customer'') (stripe_id ''cus_'')) (\<lambda>customer.
      rseq (require (co_subscription_id c \<in> {None, Some [], Some sid} \<and> co_customer_id c \<in> {None, Some [], Some customer})
          (BillingError 502) ''Stripe subscription ownership changed unexpectedly.'')
     (rbind (rbind (jget value ''status'') hashed) (\<lambda>status.
      case status of
        None \<Rightarrow> Inl (billing 502 ''Stripe returned an unknown subscription status.'')
      | Some st \<Rightarrow> if st \<in> STATUSES then Inr (customer, st)
          else Inl (billing 502 ''Stripe returned an unknown subscription status.''))))))"

text \<open>What the checkout is told by the subscription, in the order of the code.\<close>

definition record_period :: "uuid \<Rightarrow> json \<Rightarrow> string \<Rightarrow> unit sess" where
  "record_period checkout value status =
     bind (lift_result (items_of value)) (\<lambda>items.
     bind (load_checkout checkout) (\<lambda>c.
     bind (lift_result (observed_price items (co_price_id c))) (\<lambda>matches.
     seq (set_checkout checkout (\<lambda>r. r\<lparr>co_price_matches := matches\<rparr>))
    (bind (lift_result (rbind (period_field value items ''current_period_end'') (observed_time msg_period))) (\<lambda>ends.
     seq (set_checkout checkout (\<lambda>r. r\<lparr>co_period_end := ends\<rparr>))
    (bind now (\<lambda>stamp.
     bind (lift_result (rbind (period_field value items ''current_period_start'') (observed_time msg_anchor))) (\<lambda>begins.
     seq (set_checkout checkout (\<lambda>r. r\<lparr>co_period_start := begins\<rparr>))
    (bind (lift_result (rbind (jget value ''billing_cycle_anchor'') (observed_time msg_anchor))) (\<lambda>anchor.
     seq (set_checkout checkout (\<lambda>r. r\<lparr>co_billing_anchor := anchor\<rparr>))
      (set_checkout checkout (\<lambda>r.
        if status = ''active'' \<and> co_price_matches r
        then r\<lparr>co_active_through := co_period_end r, co_delinquent_since := None\<rparr>
        else if status = ''past_due'' \<and> co_delinquent_since r = None
        then r\<lparr>co_delinquent_since := Some (case co_period_start r of None \<Rightarrow> stamp | Some b \<Rightarrow> min stamp b)\<rparr>
        else r))))))))))))"

definition observe_subscription :: "Settings \<Rightarrow> uuid \<Rightarrow> json \<Rightarrow> unit sess" where
  "observe_subscription s checkout sub =
     bind (load_checkout checkout) (\<lambda>c0.
     bind (resolve (co_user_id c0) s) (\<lambda>_.
     bind (lift_result (stripe_id ''sub_'' sub)) (\<lambda>sid.
     bind (get_object s (''subscriptions/'' @ sid)) (\<lambda>value.
     bind (load_checkout checkout) (\<lambda>c.
     bind (lift_result (verify_subscription c sid value)) (\<lambda>(customer, status).
     seq (observe_change s checkout value)
    (seq (observe_upgrade s checkout value)
    (seq (record_period checkout value status)
    (bind (lift_result (jget value ''cancel_at_period_end'')) (\<lambda>cancel.
     seq (set_checkout checkout (\<lambda>r. r\<lparr>co_subscription_id := Some sid, co_customer_id := Some customer,
            co_subscription_status := Some status, co_cancel_at_period_end := (cancel = JBool True)\<rparr>))
    (bind (lift_result (jget value ''latest_invoice'')) (\<lambda>latest.
     seq (reconcile s checkout latest)
    (bind now (\<lambda>observed.
     seq (set_checkout checkout (\<lambda>r. r\<lparr>co_observed_at := Some observed\<rparr>))
    (seq (settle_change s checkout)
    (bind now (\<lambda>stamp.
     bind (load_checkout checkout) (\<lambda>c.
     bind (query (\<lambda>d. assessment d c stamp (set_subscription_grace_days s) None 0)) (\<lambda>payment.
     seq (capture checkout payment)
    (seq flush
    (bind (resolve (co_user_id c) s) (\<lambda>_. ret ()))))))))))))))))))))))"

subsection \<open>Observing a checkout session\<close>

definition observe_checkout :: "Settings \<Rightarrow> uuid \<Rightarrow> json \<Rightarrow> unit sess" where
  "observe_checkout s checkout value =
     bind (load_checkout checkout) (\<lambda>c.
     bind (lift_result (rseq (tagged value c)
        (rbind (rbind (jget value ''id'') (stripe_id (session_prefix (co_livemode c)))) (\<lambda>session_id.
         rseq (refuse_if [Inr (co_checkout_id c \<notin> {None, Some [], Some session_id}),
              test (\<lambda>v. v \<noteq> JStr ''subscription'') (jget value ''mode''),
              test (\<lambda>v. v \<noteq> JStr (uuid_text checkout)) (jget value ''client_reference_id'')]
            (billing 502 ''Stripe returned an unexpected checkout.''))
         (rbind (rbind (jget value ''status'') hashed) (\<lambda>st.
          if st \<in> Some ` {''open'', ''complete'', ''expired''} then Inr (session_id, text_or_none st)
          else Inl (billing 502 ''Stripe returned an unknown checkout status.'')))))))
       (\<lambda>(session_id, status).
     seq (set_checkout checkout (\<lambda>r. r\<lparr>co_checkout_id := Some session_id, co_checkout_status := status\<rparr>))
    (bind (lift_result (jget value ''subscription'')) (\<lambda>sub.
     seq (if truthy sub
          then seq (observe_subscription s checkout sub)
            (bind (load_checkout checkout) (\<lambda>c.
             bind (lift_result (jget value ''customer'')) (\<lambda>customer.
             guard (customer = jtext (co_customer_id c)) (BillingError 502)
               ''Stripe checkout customer does not match its subscription.'')))
          else guard (status \<noteq> ''complete'') (BillingError 503)
            ''The completed checkout has no subscription yet. Refresh shortly.'')
    (bind now (\<lambda>observed. set_checkout checkout (\<lambda>r. r\<lparr>co_observed_at := Some observed\<rparr>)))))))"

definition has_text :: "string option \<Rightarrow> bool" where
  "has_text v \<longleftrightarrow> v \<notin> {None, Some []}"

definition get_session :: "Settings \<Rightarrow> Checkout \<Rightarrow> json \<Rightarrow> json sess" where
  "get_session s c session =
     bind (lift_result (stripe_id (session_prefix (co_livemode c)) session)) (\<lambda>i.
     get_object s (''checkout/sessions/'' @ i))"

definition sync_attempt :: "Settings \<Rightarrow> uuid \<Rightarrow> json option sess" where
  "sync_attempt s checkout =
     bind (load_checkout checkout) (\<lambda>c.
     seq (guard (co_livemode c = set_stripe_livemode s) (BillingError 409)
        ''Saved checkout belongs to a different Stripe mode.'')
    (if has_text (co_checkout_id c)
     then bind (get_session s c (jtext (co_checkout_id c))) (\<lambda>value.
          seq (observe_checkout s checkout value)
         (bind (load_checkout checkout) (\<lambda>c.
          bind (lift_result (jget value ''subscription'')) (\<lambda>sub.
          seq (if has_text (co_subscription_id c) \<and> \<not> truthy sub
               then observe_subscription s checkout (jtext (co_subscription_id c)) else ret ())
            (ret (Some value))))))
     else seq (if has_text (co_subscription_id c) then observe_subscription s checkout (jtext (co_subscription_id c)) else ret ())
            (ret None)))"

subsection \<open>Starting a checkout\<close>

definition latest_plan :: "string \<Rightarrow> db \<Rightarrow> PlanRevision option" where
  "latest_plan code d = first_by (\<lambda>p. - int (pl_revision p)) (filter (\<lambda>p. pl_code p = code) (plans d))"

definition plan_price :: "string \<Rightarrow> PlanConfiguration \<Rightarrow> nat option" where
  "plan_price interval c = (if interval = ''monthly'' then Some (pc_monthly_price c) else pc_annual_price c)"

definition price_mapping :: "string \<Rightarrow> PlanConfiguration \<Rightarrow> string option" where
  "price_mapping interval c = (case pc_stripe_sandbox c of None \<Rightarrow> None
     | Some m \<Rightarrow> if interval = ''monthly'' then Some (map_monthly_price_id m) else map_annual_price_id m)"

fun joined :: "string \<Rightarrow> string list \<Rightarrow> string" where
  "joined sep [] = []"
| "joined sep [x] = x"
| "joined sep (x # y # zs) = x @ sep @ joined sep (y # zs)"

definition checkout_plan :: "Settings \<Rightarrow> string \<Rightarrow> nat \<Rightarrow> string \<Rightarrow> bool \<Rightarrow> (PlanRevision \<times> string) sess" where
  "checkout_plan s code revision interval subscriber =
     seq (guard (interval \<in> {''monthly'', ''annual''}) (BillingError 422) ''Choose Monthly or Yearly billing.'')
    (bind (query (latest_plan code)) (\<lambda>found.
     case found of
       None \<Rightarrow> raise (BillingError 409) ''The plan changed. Reload and review its latest revision.''
     | Some p \<Rightarrow> (let c = pl_configuration p in
         seq (guard (pl_revision p = revision) (BillingError 409) ''The plan changed. Reload and review its latest revision.'')
        (seq (guard (\<not> subscriber \<or> plan_available p) (BillingError 409)
            ''This plan is not available for subscriber checkout. Review the current plans.'')
        (seq (guard (pc_billing_type c \<noteq> Some BillingFree) (BillingError 422)
            ''The Free tier is managed in Radar and does not use Stripe Checkout.'')
        (seq (guard (pc_state c \<noteq> Archived) (BillingError 422) ''Archived plans cannot be tested.'')
        (seq (guard (pc_trial_days c = 0) (BillingError 422) ''Checkout requires a plan revision with no trial.'')
        (seq (guard (plan_price interval c \<noteq> None \<and> has_text (price_mapping interval c)) (BillingError 422)
            ''This interval has no mapped price.'')
        (bind (check_mapping c s) (\<lambda>report.
         seq (guard (mr_matches report) (BillingError 422)
            (''The saved plan revision no longer matches Stripe: '' @ joined ''; '' (mr_issues report)))
           (ret (p, text_or_none (price_mapping interval c)))))))))))))"

definition replacement_pending :: "Checkout option \<Rightarrow> bool" where
  "replacement_pending row \<longleftrightarrow> (case row of None \<Rightarrow> False
     | Some c \<Rightarrow> (case co_replacement_intent c of None \<Rightarrow> False | Some i \<Rightarrow> ri_state i = ''pending''))"

definition change_pending :: "uuid \<Rightarrow> db \<Rightarrow> bool" where
  "change_pending user d \<longleftrightarrow> blocking_change d user \<noteq> None \<or> blocking_upgrade d user \<noteq> None"

text \<open>What became of the latest attempt: its session is open, it can be resumed with its own
  request, or a new attempt may be made.\<close>

datatype attempt = OpenAt string | Resume uuid | Fresh

definition too_old :: "Checkout \<Rightarrow> datetime \<Rightarrow> bool" where
  "too_old c stamp \<longleftrightarrow> stamp - co_created_at c > seconds (23 * 3600)"

definition earlier_attempt ::
  "Settings \<Rightarrow> uuid \<Rightarrow> string \<Rightarrow> nat \<Rightarrow> string \<Rightarrow> bool \<Rightarrow> attempt sess" where
  "earlier_attempt s checkout code revision interval must_resume =
     bind (sync_attempt s checkout) (\<lambda>value.
     bind (load_checkout checkout) (\<lambda>c.
     if has_text (co_subscription_id c) \<and> \<not> ended c
     then seq commit (raise (BillingError 409)
        ''You already have a subscription. Manage it in the billing portal before starting another.'')
     else if co_checkout_status c \<in> {''creating'', ''open''}
     then bind (load_plan (co_plan_revision_id c)) (\<lambda>saved.
        if pl_code saved \<noteq> code \<or> pl_revision saved \<noteq> revision \<or> co_interval c \<noteq> interval
        then seq commit (raise (BillingError 409)
          ''An earlier checkout is pending. Resume its original plan revision and interval, or wait for its expiry and refresh.'')
        else (case value of
            Some v \<Rightarrow>
              if truthy v \<and> co_checkout_status c = ''open''
              then bind (lift_result (rbind (jget v ''url'') (\<lambda>u. redirect_url u ''checkout.stripe.com''))) (\<lambda>url.
                   seq commit (ret (OpenAt url)))
              else bind now (\<lambda>stamp. if too_old c stamp then seq commit (raise (BillingError 409)
                  ''This unresolved checkout is too old to retry safely. An operator must reconcile it in Stripe before another checkout can start.'')
                else ret (Resume checkout))
          | None \<Rightarrow> bind now (\<lambda>stamp. if too_old c stamp then seq commit (raise (BillingError 409)
                  ''This unresolved checkout is too old to retry safely. An operator must reconcile it in Stripe before another checkout can start.'')
                else ret (Resume checkout))))
     else if must_resume
     then seq commit (raise (BillingError 409) ''The saved checkout has finished. Refresh before choosing again.'')
     else ret Fresh))"

definition checkout_parameters ::
  "Settings \<Rightarrow> uuid \<Rightarrow> string \<Rightarrow> bool \<Rightarrow> datetime \<Rightarrow> parameters" where
  "checkout_parameters s attempt price subscriber stamp =
     (let base = set_frontend_base_url s @ (if subscriber then ''/radar/subscription'' else ''/admin/subscription-testing'');
          i = uuid_text attempt;
          sandbox = (\<lambda>k. if set_stripe_livemode s then [] else [(k, ''1'')])
      in [(''mode'', ''subscription''), (''payment_method_types[0]'', ''card''),
          (''line_items[0][price]'', price), (''line_items[0][quantity]'', ''1''),
          (''client_reference_id'', i), (''metadata[radar_attempt_id]'', i)]
         @ sandbox ''metadata[radar_sandbox]''
         @ [(''subscription_data[metadata][radar_attempt_id]'', i)]
         @ sandbox ''subscription_data[metadata][radar_sandbox]''
         @ [(''automatic_tax[enabled]'', ''false''),
            (''success_url'', base @ ''?stripe_return=checkout''), (''cancel_url'', base @ ''?stripe_return=cancel''),
            (''expires_at'', int_str (timestamp stamp + 3600)),
            (''metadata[radar_mode]'', mode_name s), (''subscription_data[metadata][radar_mode]'', mode_name s)])"

definition new_checkout :: "uuid \<Rightarrow> uuid \<Rightarrow> nat \<Rightarrow> string \<Rightarrow> string \<Rightarrow> parameters \<Rightarrow> datetime \<Rightarrow> Checkout" where
  "new_checkout i user plan interval price params stamp =
     \<lparr>co_id = i, co_user_id = user, co_plan_revision_id = plan, co_interval = interval, co_price_id = price,
      co_parameters = params, co_checkout_id = None, co_checkout_status = ''creating'', co_subscription_id = None,
      co_subscription_status = None, co_customer_id = None, co_notification_state = None,
      co_replacement_intent = None, co_cancel_at_period_end = False, co_price_matches = True,
      co_latest_invoice_id = None, co_invoices_checked_at = None, co_invoice_history_cursor = None,
      co_invoice_history_complete = False, co_period_start = None, co_billing_anchor = None,
      co_delinquent_since = None, co_active_through = None, co_period_end = None, co_observed_at = None,
      co_created_at = stamp\<rparr>"

text \<open>The creating request of an attempt, the same however often it is repeated.\<close>

definition session_url :: "Settings \<Rightarrow> uuid \<Rightarrow> json \<Rightarrow> string sess" where
  "session_url s checkout value =
     bind (load_checkout checkout) (\<lambda>c.
     seq (guard (co_checkout_status c = ''open'') (BillingError 409) ''Checkout has finished. Refresh its saved status.'')
       (lift_result (rbind (jget value ''url'') (\<lambda>u. redirect_url u ''checkout.stripe.com''))))"

definition create_request :: "Settings \<Rightarrow> Checkout \<Rightarrow> json sess" where
  "create_request s c = request s ''POST'' ''checkout/sessions'' (co_parameters c)
     (Some (''radar-sandbox-checkout-'' @ uuid_text (co_id c)))"

definition create_session :: "Settings \<Rightarrow> uuid \<Rightarrow> string sess" where
  "create_session s checkout =
     bind (load_checkout checkout) (\<lambda>c.
     bind (create_request s c) (\<lambda>value.
     seq (observe_checkout s checkout value)
    (seq commit (session_url s checkout value))))"

definition link_successor :: "uuid option \<Rightarrow> uuid \<Rightarrow> unit sess" where
  "link_successor source successor =
     (case source of
        None \<Rightarrow> ret ()
      | Some k \<Rightarrow> set_checkout k (\<lambda>r. r\<lparr>co_replacement_intent :=
          map_option (\<lambda>i. i\<lparr>ri_state := ''replaced'', ri_successor_id := Some (uuid_text successor)\<rparr>)
            (co_replacement_intent r)\<rparr>))"

definition new_attempt ::
  "Settings \<Rightarrow> uuid \<Rightarrow> string \<Rightarrow> nat \<Rightarrow> string \<Rightarrow> bool \<Rightarrow> uuid option \<Rightarrow> string sess" where
  "new_attempt s user code revision interval subscriber source =
     bind (checkout_plan s code revision interval subscriber) (\<lambda>(plan, price).
     bind uuid4 (\<lambda>i.
     bind now (\<lambda>t.
     bind now (\<lambda>created.
     let row = new_checkout i user (pl_id plan) interval price (checkout_parameters s i price subscriber t) created in
     seq (change (\<lambda>d. d\<lparr>checkouts := checkouts d @ [row]\<rparr>))
    (seq (link_successor source i)
    (seq commit
    (seq (lock_billing user False)
    (bind (load_checkout i) (\<lambda>c.
     bind (query (\<lambda>d. latest_checkout d user)) (\<lambda>current.
     seq (guard (map_option co_id current = Some i \<and> \<not> replacement_pending current) (BillingError 409)
        ''Checkout changed in another window. Refresh and review it.'')
    (if has_text (co_subscription_id c) \<and> \<not> ended c
     then seq commit (raise (BillingError 409) ''You already have a subscription. Review billing before choosing another.'')
     else if has_text (co_checkout_id c)
     then bind (sync_attempt s i) (\<lambda>value.
          seq commit (bind (lift_result (the_value AttributeErrorPy value)) (session_url s i)))
     else create_session s i)))))))))))"

definition replacement_ready ::
  "Checkout option \<Rightarrow> uuid \<Rightarrow> string \<Rightarrow> nat \<Rightarrow> string \<Rightarrow> bool" where
  "replacement_ready row source code revision interval \<longleftrightarrow>
     (case row of None \<Rightarrow> False
      | Some c \<Rightarrow> co_id c = source \<and> co_checkout_status c = ''expired'' \<and> \<not> has_text (co_subscription_id c)
          \<and> (case co_replacement_intent c of None \<Rightarrow> False
             | Some i \<Rightarrow> ri_state i = ''pending'' \<and> (ri_code i, ri_revision i, ri_interval i) = (code, revision, interval)))"

definition start_checkout ::
  "Settings \<Rightarrow> uuid \<Rightarrow> string \<Rightarrow> nat \<Rightarrow> string \<Rightarrow> bool \<Rightarrow> uuid option \<Rightarrow> uuid option \<Rightarrow> string sess" where
  "start_checkout s user code revision interval subscriber expected source =
     seq (ensure_database_mode s)
    (seq (enabled s)
    (seq (stripe_client s)
    (seq (lock_billing user False)
    (bind (query (change_pending user)) (\<lambda>pending.
     seq (guard (\<not> pending) (BillingError 409) ''Resolve the pending subscription change before starting another checkout.'')
    (seq (if subscriber then require_opt_in user else ret ())
    (bind (query (\<lambda>d. latest_checkout d user)) (\<lambda>row.
     seq (guard (expected = None \<or> map_option co_id row = expected) (BillingError 409)
        ''Checkout changed in another window. Refresh and review it.'')
    (seq (case source of
            Some k \<Rightarrow> guard (replacement_ready row k code revision interval) (BillingError 409)
              ''The checkout replacement is no longer available. Refresh billing.''
          | None \<Rightarrow> guard (\<not> replacement_pending row) (BillingError 409)
              ''Checkout replacement is being verified. Resume the saved replacement first.'')
    (bind (case row of None \<Rightarrow> ret Fresh
           | Some c \<Rightarrow> earlier_attempt s (co_id c) code revision interval (expected \<noteq> None \<and> source = None)) (\<lambda>a.
     case a of
       OpenAt url \<Rightarrow> ret url
     | Resume i \<Rightarrow> create_session s i
     | Fresh \<Rightarrow> new_attempt s user code revision interval subscriber source)))))))))))"

definition refresh :: "Settings \<Rightarrow> uuid \<Rightarrow> unit sess" where
  "refresh s user =
     seq (stripe_client s)
    (seq (lock_billing user False)
    (bind (query (\<lambda>d. latest_checkout d user)) (\<lambda>row.
     seq (case row of None \<Rightarrow> ret () | Some c \<Rightarrow> bind (sync_attempt s (co_id c)) (\<lambda>_. ret ()))
       commit)))"

end
