(* ===== verification/Webhooks.thy ===== *)
theory Webhooks
  imports Checkouts
begin

section \<open>Portal and webhook events (stripe_sandbox_service.py)\<close>

text \<open>
  The customer portal, the verification of a signed event and what an event makes the service
  read again.  HMAC-SHA256 in hexadecimal (\<open>hmac\<close>) and the JSON parser (\<open>parse\<close>) are
  parameters.  An event only says where to look: the state is always fetched from Stripe.
\<close>

definition INVOICE_EVENTS :: "string set" where
  "INVOICE_EVENTS = {''invoice.paid'', ''invoice.payment_failed'', ''invoice.payment_action_required'',
     ''invoice.finalized'', ''invoice.finalization_failed'', ''invoice.voided'',
     ''invoice.marked_uncollectible'', ''invoice.updated''}"

definition EVENTS :: "string set" where
  "EVENTS = {''checkout.session.completed'', ''checkout.session.expired'', ''customer.subscription.created'',
     ''customer.subscription.updated'', ''customer.subscription.deleted'',
     ''customer.subscription.pending_update_applied'', ''customer.subscription.pending_update_expired''}
     \<union> INVOICE_EVENTS"

subsection \<open>The overview of an account\<close>

record CheckoutAttempt =
  ca_checkout :: Checkout
  ca_revision :: nat

record CheckoutOverview =
  ov_mode :: string
  ov_enabled :: bool
  ov_plan :: "PlanRevision option"
  ov_attempts :: "CheckoutAttempt list"
  ov_portal_available :: bool

definition recent_checkouts :: "uuid \<Rightarrow> db \<Rightarrow> Checkout list" where
  "recent_checkouts user d = take 20 (sort_key (\<lambda>c. (- co_created_at c, - int (co_id c)))
     (filter (\<lambda>c. co_user_id c = user) (checkouts d)))"

definition checkout_overview :: "Settings \<Rightarrow> uuid \<Rightarrow> db \<Rightarrow> exn + CheckoutOverview" where
  "checkout_overview s user d =
     (let rows = recent_checkouts user d
      in map_sum id (\<lambda>attempts. \<lparr>ov_mode = mode_name s, ov_enabled = set_stripe_checkout_enabled s,
            ov_plan = latest_plan ''explorer'' d, ov_attempts = attempts,
            ov_portal_available = (case rows of [] \<Rightarrow> False
              | c # cs \<Rightarrow> has_text (co_customer_id c) \<and> set_stripe_portal_configuration_id s \<noteq> [])\<rparr>)
          (each_ok (\<lambda>c. map_sum id (\<lambda>p. \<lparr>ca_checkout = c, ca_revision = pl_revision p\<rparr>)
             (the_value AttributeErrorPy (get_row pl_id (co_plan_revision_id c) (plans d)))) rows))"

subsection \<open>The portal\<close>

definition portal_configured :: "string \<Rightarrow> json \<Rightarrow> exn + unit" where
  "portal_configured config_id config =
     rbind (jget config ''features'') (\<lambda>f. let features = jor f (JObj []) in
     refuse_if [test (\<lambda>v. v \<noteq> JStr config_id) (jget config ''id''),
       test (\<lambda>v. v \<noteq> JBool True) (jget config ''active''),
       test (\<lambda>v. v \<noteq> JBool False) (dig features [''subscription_update'', ''enabled'']),
       test (\<lambda>v. v \<noteq> JBool True) (dig features [''subscription_cancel'', ''enabled'']),
       test (\<lambda>v. v \<noteq> JStr ''at_period_end'') (dig features [''subscription_cancel'', ''mode''])]
       (billing 422 ''The Stripe portal must be active, allow cancellation at period end, and disable subscription plan updates.''))"

definition cancel_flow :: "Checkout \<Rightarrow> exn + parameters" where
  "cancel_flow c =
     (if \<not> has_text (co_subscription_id c) \<or> ended c \<or> co_cancel_at_period_end c
      then Inl (billing 409 ''No renewable subscription is available to cancel. Refresh billing status.'')
      else map_sum id (\<lambda>i. [(''flow_data[type]'', ''subscription_cancel''),
             (''flow_data[subscription_cancel][subscription]'', i)]) (stripe_id ''sub_'' (jtext (co_subscription_id c))))"

definition portal :: "Settings \<Rightarrow> uuid \<Rightarrow> bool \<Rightarrow> bool \<Rightarrow> string sess" where
  "portal s user subscriber cancel =
     seq (ensure_database_mode s)
    (seq (enabled s)
    (seq (stripe_client s)
    (seq (guard (set_stripe_portal_configuration_id s \<noteq> []) (BillingError 503)
        ''Configure a Stripe customer portal first. See the setup guide.'')
    (bind (lift_result (stripe_id ''bpc_'' (JStr (set_stripe_portal_configuration_id s)))) (\<lambda>config_id.
     seq (lock_billing user False)
    (bind (query (\<lambda>d. latest_checkout d user)) (\<lambda>row.
     case row of
       None \<Rightarrow> raise (BillingError 409) ''Complete a checkout before opening the portal.''
     | Some c \<Rightarrow>
         seq (guard (has_text (co_customer_id c)) (BillingError 409) ''Complete a checkout before opening the portal.'')
        (bind (query (change_pending user)) (\<lambda>pending.
         seq (guard (\<not> (pending \<and> cancel)) (BillingError 409)
            ''Resolve the pending subscription change before cancelling renewal.'')
        (bind (get_object s (''billing_portal/configurations/'' @ config_id)) (\<lambda>config.
         bind (lift_result (portal_configured config_id config)) (\<lambda>_.
         bind (lift_result (if cancel then cancel_flow c
               else Inr (if pending then [(''flow_data[type]'', ''payment_method_update'')] else []))) (\<lambda>flow.
         bind (request s ''POST'' ''billing_portal/sessions''
            ([(''customer'', text_or_none (co_customer_id c)), (''configuration'', config_id),
              (''return_url'', set_frontend_base_url s @ (if subscriber
                 then ''/radar/subscription?stripe_return=portal'' else ''/admin/subscription-testing?stripe_return=portal''))]
             @ flow) None) (\<lambda>value.
         bind (lift_result (refuse_if [test (\<lambda>v. v \<noteq> JStr ''billing_portal.session'') (jget value ''object''),
              test (\<lambda>v. v \<noteq> jtext (co_customer_id c)) (jget value ''customer'')]
            (billing 502 ''Stripe returned an unexpected portal customer.''))) (\<lambda>_.
         bind (lift_result (rbind (jget value ''url'') (\<lambda>u. redirect_url u ''billing.stripe.com''))) (\<lambda>url.
         seq commit (ret url)))))))))))))))))"

subsection \<open>Signed events\<close>

text \<open>The pieces between the separators.\<close>

fun split_at :: "char \<Rightarrow> string \<Rightarrow> string list" where
  "split_at sep [] = [[]]"
| "split_at sep (c # cs) = (if c = sep then [] # split_at sep cs
     else (case split_at sep cs of [] \<Rightarrow> [[c]] | p # ps \<Rightarrow> (c # p) # ps))"

definition header_part :: "string \<Rightarrow> (string \<times> string) option" where
  "header_part item = (if CHR ''='' \<in> set item
     then Some (takeWhile (\<lambda>c. c \<noteq> CHR ''='') item, drop 1 (dropWhile (\<lambda>c. c \<noteq> CHR ''='') item)) else None)"

fun header_parts :: "string list \<Rightarrow> (string \<times> string) list option" where
  "header_parts [] = Some []"
| "header_parts (i # is) = (case (header_part i, header_parts is) of
     (Some p, Some ps) \<Rightarrow> Some (p # ps) | _ \<Rightarrow> None)"

definition int_of_text :: "string \<Rightarrow> int option" where
  "int_of_text t = (let (negative, ds) = split_sign (strip t)
     in if ds \<noteq> [] \<and> list_all is_digit ds then Some ((if negative then -1 else 1) * int (digits_value ds)) else None)"

definition valid_signature :: "(string \<Rightarrow> string \<Rightarrow> string) \<Rightarrow> Settings \<Rightarrow> string \<Rightarrow> string \<Rightarrow> datetime \<Rightarrow> bool" where
  "valid_signature hmac s body signature stamp \<longleftrightarrow>
     (case header_parts (split_at (CHR '','') signature) of
        None \<Rightarrow> False
      | Some parts \<Rightarrow>
          (case map snd (filter (\<lambda>p. fst p = ''t'') parts) of
             [t] \<Rightarrow> (case int_of_text t of
                 None \<Rightarrow> False
               | Some n \<Rightarrow> \<bar>stamp - from_timestamp n\<bar> \<le> seconds 300
                   \<and> list_ex (\<lambda>p. fst p = ''v1'' \<and> snd p = hmac (set_stripe_webhook_secret s) (t @ ''.'' @ body)) parts)
           | _ \<Rightarrow> False))"

definition proper_event :: "Settings \<Rightarrow> json \<Rightarrow> bool" where
  "proper_event s event \<longleftrightarrow>
     (case event of
        JObj kvs \<Rightarrow> lookup_or JNull kvs ''livemode'' = JBool (set_stripe_livemode s)
          \<and> lookup_or JNull kvs ''object'' = JStr ''event'' \<and> jstring (lookup_or JNull kvs ''type'') \<noteq> None
          \<and> (case stripe_id ''evt_'' (lookup_or JNull kvs ''id'') of Inl e \<Rightarrow> False | Inr i \<Rightarrow> True)
      | _ \<Rightarrow> False)"

definition verify_event ::
  "(string \<Rightarrow> string \<Rightarrow> string) \<Rightarrow> (string \<Rightarrow> json option) \<Rightarrow> Settings \<Rightarrow> string \<Rightarrow> string \<Rightarrow> datetime \<Rightarrow> exn + json" where
  "verify_event hmac parse s body signature stamp =
     (if \<not> startswith (set_stripe_webhook_secret s) ''whsec_''
      then Inl (billing 503 ''Stripe webhook is not configured.'')
      else if \<not> valid_signature hmac s body signature stamp
      then Inl (billing 400 ''Invalid Stripe webhook signature or payload.'')
      else (case parse body of
          None \<Rightarrow> Inl (billing 400 ''Invalid Stripe webhook signature or payload.'')
        | Some event \<Rightarrow> if proper_event s event then Inr event
            else Inl (billing 400 ''Invalid Stripe webhook signature or payload.'')))"

subsection \<open>Handling\<close>

text \<open>\<open>UUID(text)\<close>: thirty-two hexadecimal digits after the decoration is dropped.\<close>

definition hex_value :: "char \<Rightarrow> nat option" where
  "hex_value c = (let n = of_char (to_lower c) :: nat in
     if 48 \<le> n \<and> n \<le> 57 then Some (n - 48) else if 97 \<le> n \<and> n \<le> 102 then Some (n - 87) else None)"

definition uuid_of :: "string \<Rightarrow> uuid option" where
  "uuid_of t =
     (let s = filter (\<lambda>c. c \<noteq> CHR ''-'') (rstrip_by (\<lambda>c. c \<in> set ''{}'') (lstrip_by (\<lambda>c. c \<in> set ''{}'')
                (removeprefix (removeprefix t ''urn:'') ''uuid:'')));
          ds = map hex_value s
      in if length s = 32 \<and> None \<notin> set ds then Some (foldl (\<lambda>n v. 16 * n + the v) 0 ds) else None)"

definition attempt_of :: "json \<Rightarrow> string \<Rightarrow> exn + uuid" where
  "attempt_of data m =
     rbind (jget_or (JStr []) data ''radar_attempt_id'') (\<lambda>v.
     case Option.bind (jstring v) uuid_of of None \<Rightarrow> Inl (billing 400 m) | Some i \<Rightarrow> Inr i)"

definition event_type :: "json \<Rightarrow> exn + string" where
  "event_type event = (case event of
     JObj kvs \<Rightarrow> rbind (the_value KeyErrorPy (map_of kvs ''type'')) (\<lambda>v. rbind (hashed v) (\<lambda>s. Inr (text_or_none s)))
   | _ \<Rightarrow> Inl (Exn TypeErrorPy ''subscript''))"

definition event_id :: "json \<Rightarrow> exn + string" where
  "event_id event = (case event of
     JObj kvs \<Rightarrow> rbind (the_value KeyErrorPy (map_of kvs ''id'')) (\<lambda>v. the_value TypeErrorPy (jstring v))
   | _ \<Rightarrow> Inl (Exn TypeErrorPy ''subscript''))"

text \<open>The read that answers an event, by its type.\<close>

definition reread :: "Settings \<Rightarrow> uuid \<Rightarrow> string \<Rightarrow> json \<Rightarrow> unit sess" where
  "reread s checkout type obj =
     (if type \<in> INVOICE_EVENTS
      then bind (lift_result (jget obj ''id'')) (\<lambda>i.
           bind (retrieve s i) (\<lambda>invoice.
           bind (lift_result (subscription_id invoice)) (\<lambda>sub.
           seq (observe_subscription s checkout sub)
          (bind (load_checkout checkout) (\<lambda>c.
           bind (retrieve s (JStr (id_of invoice))) (observe_invoice c))))))
      else if startswith type ''customer.subscription.''
      then bind (lift_result (jget obj ''id'')) (observe_subscription s checkout)
      else bind (load_checkout checkout) (\<lambda>c.
           bind (lift_result (jget obj ''id'')) (\<lambda>i.
           bind (get_session s c i) (observe_checkout s checkout))))"

definition handle_event :: "Settings \<Rightarrow> json \<Rightarrow> bool \<Rightarrow> unit sess" where
  "handle_event s event commits =
     bind (lift_result (event_type event)) (\<lambda>type.
     if type \<notin> EVENTS then ret ()
     else bind (lift_result (dig event [''data'', ''object''])) (\<lambda>obj.
       case obj of
         JObj kvs \<Rightarrow>
           (let data = jor (lookup_or JNull kvs ''metadata'') (JObj []) in
            bind (lift_result (matches_metadata data (set_stripe_livemode s))) (\<lambda>ours.
            if \<not> ours then ret ()
            else bind (lift_result (attempt_of data ''Invalid sandbox attempt identifier.'')) (\<lambda>attempt.
              bind (query (\<lambda>d. get_row co_id attempt (checkouts d))) (\<lambda>row.
              case row of
                None \<Rightarrow> ret ()
              | Some c \<Rightarrow>
                  seq (guard (co_livemode c = set_stripe_livemode s) (BillingError 409)
                     ''Saved checkout belongs to a different Stripe mode.'')
                 (seq (lock_billing (co_user_id c) False)
                 (bind (lift_result (event_id event)) (\<lambda>i.
                  bind (query (\<lambda>d. i \<in> se_id ` set (stripe_events d))) (\<lambda>processed.
                  if processed then (if commits then commit else ret ())
                  else seq (stripe_client s)
                   (seq (reread s attempt type obj)
                   (seq (change (\<lambda>d. d\<lparr>stripe_events := stripe_events d
                       @ [\<lparr>se_id = i, se_checkout_id = attempt, se_event_type = type\<rparr>]\<rparr>))
                     (if commits then commit else ret ())))))))))))
       | _ \<Rightarrow> raise (BillingError 400) ''Invalid sandbox event object.''))"

end
