(* ===== verification/Lifecycle.thy ===== *)
theory Lifecycle
  imports Execution AdmissionFacts
begin

section \<open>Checkpoints and terminal transactions of a run
  (backend/app/radar/lifecycle.py, prepare_content and stored_documents of
  backend/app/services/source_content_service.py, verify_automatically of
  source_verification_service.py)\<close>

text \<open>
  Every operation that commits on behalf of a running stage: beginning it, saving accepted
  output, preparing source documents, completing the run with its quality decision and its
  usage settled, and recording a failure.  A run or stage is passed by its identifier, as
  the object the code holds is reloaded from the database after every commit.

  Where a document comes from and how its metadata is compared is behind \<open>Sources\<close>: a record
  of session programs for the batched lookup before the loop, the document of one paper
  (given the fallback document), and the automatic verification of a run.
\<close>

record 'l Sources =
  src_lookup :: "SearchPaper list \<Rightarrow> 'l sess"
  src_document :: "'l \<Rightarrow> SearchPaper \<Rightarrow> SourceDocument \<Rightarrow> SourceDocument sess"
  src_verify :: "DigestRun \<Rightarrow> QualitySnapshot \<Rightarrow> QualityFinding list sess"

subsection \<open>Loading\<close>

definition running :: "uuid \<Rightarrow> db \<Rightarrow> DigestRun option" where
  "running run d = (case get_run run d of None \<Rightarrow> None
     | Some r \<Rightarrow> if rn_status r = RUNNING then Some r else None)"

definition reload :: "uuid \<Rightarrow> DigestRun sess" where
  "reload run = bind (query (get_run run)) (\<lambda>found. case found of
     None \<Rightarrow> client_error ''The radar run could not be reloaded'' | Some r \<Rightarrow> ret r)"

definition lifecycle_stage :: "uuid \<Rightarrow> DigestRunStageType \<Rightarrow> DigestRunStage sess" where
  "lifecycle_stage run type =
     bind (query (\<lambda>d. find (\<lambda>s. sg_stage s = type) (stages_of run d))) (\<lambda>found. case found of
       None \<Rightarrow> client_error (''Missing persisted stage: '' @ stage_value type) | Some s \<Rightarrow> ret s)"

subsection \<open>Beginning a stage\<close>

definition begin_stage :: "uuid \<Rightarrow> nat \<Rightarrow> unit sess" where
  "begin_stage stage progress_total = seq (mark_stage_running stage progress_total) commit"

definition begin_summaries :: "uuid \<Rightarrow> PaperSummary list \<Rightarrow> nat \<Rightarrow> unit sess" where
  "begin_summaries stage existing progress_total =
     seq (mark_stage_running stage progress_total)
     (seq (set_stage stage (\<lambda>s. s\<lparr>sg_result_data := Some (SummariesData \<lparr>paper_summaries = existing\<rparr>),
            sg_progress_current := length existing\<rparr>))
     commit)"

subsection \<open>Source documents\<close>

definition unavailable :: "SearchPaper \<Rightarrow> string \<Rightarrow> SourceDocument sess" where
  "unavailable p reason = bind now (\<lambda>stamp.
     ret \<lparr>doc_external_id = sp_external_id p, doc_title = sp_title p, doc_authors = sp_authors p,
          doc_status = Unavailable, doc_basis = DocMetadataOnly, doc_source_url = None,
          doc_request_url = None, doc_retrieved_at = stamp, doc_source_version = None,
          doc_content_sha256 = None, doc_license_url = None, doc_permission_source = None,
          doc_rights_notice = None, doc_policy_version = ''1'', doc_cached = False,
          doc_passages = [], doc_notes = [reason]\<rparr>)"

definition legacy_reason :: string where
  "legacy_reason = ''This run predates saved evidence; unfinished summaries use metadata-only fallback.''"
definition fallback_reason :: string where
  "fallback_reason = ''No approved reusable content source was identified. Discovery text and model-reported licences are not permission evidence.''"

fun unavailable_all :: "SearchPaper list \<Rightarrow> documents sess" where
  "unavailable_all [] = ret []"
| "unavailable_all (p # ps) =
     bind (unavailable p legacy_reason) (\<lambda>doc.
     bind (unavailable_all ps) (\<lambda>rest. ret ((sp_external_id p, doc) # rest)))"

text \<open>\<open>documents[key] = document\<close>.\<close>

definition dict_set :: "'k \<Rightarrow> 'v \<Rightarrow> ('k \<times> 'v) list \<Rightarrow> ('k \<times> 'v) list" where
  "dict_set k v xs = (if k \<in> fst ` set xs then map (\<lambda>(k', v'). (k', if k' = k then v else v')) xs
     else xs @ [(k, v)])"

text \<open>Recording the input of one paper; another worker's earlier record of it wins.\<close>

definition record_document :: "uuid \<Rightarrow> SearchPaper \<Rightarrow> SourceDocument \<Rightarrow> SourceDocument sess" where
  "record_document run p doc =
     bind uuid4 (\<lambda>i.
     seq (change (\<lambda>d. d\<lparr>source_contents := source_contents d @ [\<lparr>sc_id = i, sc_run_id = run,
            sc_external_id = sp_external_id p, sc_document = doc\<rparr>]\<rparr>))
     (catch (seq commit (ret doc))
        (\<lambda>e. if exn_class e = IntegrityError
             then seq rollback
               (bind (query (\<lambda>d. map_of (stored_documents run d) (sp_external_id p))) (\<lambda>existing.
                case existing of None \<Rightarrow> reraise e | Some old \<Rightarrow> ret old))
             else reraise e)))"

fun prepare_loop ::
  "'l Sources \<Rightarrow> RunLease \<Rightarrow> DigestRun \<Rightarrow> 'l \<Rightarrow> SearchPaper list \<Rightarrow> documents \<Rightarrow> documents sess" where
  "prepare_loop srcs lease run lookups [] docs = ret docs"
| "prepare_loop srcs lease run lookups (p # ps) docs =
     seq (lease_poll lease (rn_id run) (rn_owner_id run))
     (bind (unavailable p fallback_reason) (\<lambda>fallback.
      bind (src_document srcs lookups p fallback) (\<lambda>found.
      seq (lease_poll lease (rn_id run) (rn_owner_id run))
      (bind (record_document (rn_id run) p found) (\<lambda>doc.
       prepare_loop srcs lease run lookups ps (dict_set (sp_external_id p) doc docs))))))"

definition selected_papers :: "DiscoveryRelevanceOutput \<Rightarrow> SearchPaper list" where
  "selected_papers discovery =
     filter (\<lambda>p. sp_external_id p \<in> selected_ids discovery) (ss_papers (dr_search discovery))"

definition evidence_version :: string where
  "evidence_version = ''2026-09-25.1''"

definition prepare_content ::
  "'l Sources \<Rightarrow> RunLease \<Rightarrow> DigestRun \<Rightarrow> DiscoveryRelevanceOutput \<Rightarrow> documents sess" where
  "prepare_content srcs lease run discovery =
     (if rn_prompt_version run < evidence_version
      then unavailable_all (selected_papers discovery)
      else bind (query (stored_documents (rn_id run))) (\<lambda>docs.
        let missing = filter (\<lambda>p. sp_external_id p \<notin> fst ` set docs) (selected_papers discovery)
        in seq (lease_poll lease (rn_id run) (rn_owner_id run))
          (bind (src_lookup srcs missing) (\<lambda>lookups.
           prepare_loop srcs lease run lookups missing docs))))"

subsection \<open>Completing\<close>

definition verify_automatically ::
  "'l Sources \<Rightarrow> DigestRun \<Rightarrow> QualityFinding list option sess" where
  "verify_automatically srcs run =
     (case rn_quality_config run of
        Some (SavedSnapshot q) \<Rightarrow>
          if qs_engine_version q \<noteq> ENGINE_VERSION then ret None
          else if qc_mode (qs_config q) = ModeOff \<or> qc_source_verification_mode (qs_config q) = ModeOff
          then ret None
          else bind (src_verify srcs run q) (\<lambda>fs. ret (Some fs))
      | _ \<Rightarrow> ret None)"

definition links_checked :: "DigestRun \<Rightarrow> bool" where
  "links_checked run = (case rn_quality_config run of
     Some (SavedSnapshot q) \<Rightarrow> qc_check_evidence_links (qs_config q) | _ \<Rightarrow> False)"

definition link_findings :: "DigestRun \<Rightarrow> QualityFinding list sess" where
  "link_findings run =
     (if links_checked run
      then bind (lifecycle_stage (rn_id run) PAPER_SUMMARIES) (\<lambda>stage.
           bind (lift_result (parse_summaries (sg_result_data stage))) (\<lambda>summaries.
           query (\<lambda>d. evidence_findings (stored_documents (rn_id run) d) summaries)))
      else ret [])"

definition complete_run :: "'l Sources \<Rightarrow> RunLease \<Rightarrow> uuid \<Rightarrow> unit sess" where
  "complete_run srcs lease run_id =
     bind (reload run_id) (\<lambda>run.
     seq (lease_poll lease (rn_id run) (rn_owner_id run))
     (bind (verify_automatically srcs run) (\<lambda>sources.
     bind (reload run_id) (\<lambda>run.
     seq (lease_renew lease (rn_id run) (rn_owner_id run))
     (bind (link_findings run) (\<lambda>links.
     seq (assess_run (rn_id run) ((case sources of None \<Rightarrow> [] | Some fs \<Rightarrow> fs) @ links))
     (seq (settle run True)
     (seq (obs_settle run True)
     (seq (mark_completed (rn_id run)) commit)))))))))"

subsection \<open>Failing\<close>

fun stage_title :: "DigestRunStageType \<Rightarrow> string" where
  "stage_title DISCOVERY_RELEVANCE = ''Discovery relevance''"
| "stage_title PAPER_SUMMARIES = ''Paper summaries''"
| "stage_title TREND_ANALYSIS = ''Trend analysis''"
| "stage_title DIGEST_BRIEFING = ''Digest briefing''"

definition mark_failed :: "DigestRun \<Rightarrow> uuid \<Rightarrow> string \<Rightarrow> unit sess" where
  "mark_failed run stage message =
     bind now (\<lambda>stamp.
     seq (fail_stage stage message stamp)
     (seq (settle run False)
     (seq (obs_settle run False)
     (fail_run (rn_id run) message stamp))))"

definition still_owner :: "RunLease \<Rightarrow> DigestRun \<Rightarrow> bool" where
  "still_owner lease run \<longleftrightarrow>
     (case le_worker_id lease of None \<Rightarrow> True | Some w \<Rightarrow> rn_worker_id run = Some w)"

definition lifecycle_fail :: "RunLease \<Rightarrow> uuid \<Rightarrow> DigestRunStageType option \<Rightarrow> exn \<Rightarrow> unit sess" where
  "lifecycle_fail lease run_id active_stage e =
     seq rollback
     (bind (query (get_run run_id)) (\<lambda>found.
      case (found, active_stage) of
        (Some run, Some type) \<Rightarrow>
          if \<not> still_owner lease run then ret ()
          else bind (lifecycle_stage run_id type) (\<lambda>stage.
            seq (reject_latest run_id (sg_id stage))
            (seq (if exn_class e = RadarOutputValidationError
                  then clear_active_response (sg_id stage) else ret ())
            (seq (mark_failed run (sg_id stage) (stage_title type @ '' failed: '' @ exn_message e))
            commit)))
      | _ \<Rightarrow> ret ()))"

subsection \<open>Saving accepted output\<close>

definition commit_discovery_relevance ::
  "uuid \<Rightarrow> uuid \<Rightarrow> DiscoveryRelevanceOutput RadarClientResult \<Rightarrow> unit sess" where
  "commit_discovery_relevance run stage result = seq (save_discovery_relevance run stage result) commit"

definition commit_summary_batch ::
  "uuid \<Rightarrow> uuid \<Rightarrow> PaperSummariesOutput RadarClientResult \<Rightarrow> nat \<Rightarrow> unit sess" where
  "commit_summary_batch run stage result progress_total =
     seq (save_summary_batch run stage result progress_total) commit"

definition commit_summary_stage :: "uuid \<Rightarrow> nat \<Rightarrow> unit sess" where
  "commit_summary_stage stage progress_total =
     seq (complete_summary_stage stage progress_total) commit"

definition commit_trend_analysis ::
  "uuid \<Rightarrow> uuid \<Rightarrow> TrendAnalysisOutput RadarClientResult \<Rightarrow> unit sess" where
  "commit_trend_analysis run stage result = seq (save_trend_analysis run stage result) commit"

definition commit_digest_briefing ::
  "uuid \<Rightarrow> uuid \<Rightarrow> DigestBriefingOutput RadarClientResult \<Rightarrow> unit sess" where
  "commit_digest_briefing run stage result = seq (save_digest_briefing run stage result) commit"

end
