(* ===== verification/Submission.thy ===== *)
theory Submission
  imports RateLimit Recurrence Lifecycle
begin

section \<open>Admitting runs (backend/app/radar/submission.py, digest_snapshot of
  backend/app/radar/stage_inputs.py)\<close>

text \<open>
  \<open>start_digest\<close> and \<open>retry_digest\<close> check that the owner has no active run, spend one unit of
  the hourly and of the daily budget, create or requeue the run, book it against the plan and
  in the observation ledger, and commit all of it at once.  \<open>zones\<close> is the time zone database
  by name, \<open>version\<close> the version of the discovery prompt.
\<close>

type_synonym zones = "string \<Rightarrow> zone option"

record SubmissionConfig =
  sm_settings :: Settings
  sm_model_name :: string
  sm_prompt_version :: string
  sm_history_limit :: nat

definition get_for_owner :: "uuid \<Rightarrow> uuid \<Rightarrow> db \<Rightarrow> Digest option" where
  "get_for_owner digest owner d = find (\<lambda>g. dg_id g = digest \<and> dg_owner_id g = owner) (digests d)"

definition settings_snapshot :: "Digest \<Rightarrow> DigestSnapshot" where
  "settings_snapshot g = \<lparr>ds_topic = dg_topic g, ds_description = dg_description g,
     ds_include_keywords = dg_include_keywords g, ds_exclude_keywords = dg_exclude_keywords g,
     ds_target_audience = dg_target_audience g, ds_reporting_from = dg_reporting_from g,
     ds_reporting_to = dg_reporting_to g, ds_frequency = dg_frequency g,
     ds_maximum_papers = dg_maximum_papers g\<rparr>"

definition digest_snapshot ::
  "zones \<Rightarrow> Digest \<Rightarrow> datetime option \<Rightarrow> string \<Rightarrow> exn + DigestSnapshot" where
  "digest_snapshot zs g scheduled_for time_zone =
     (case scheduled_for of
        None \<Rightarrow> Inr (settings_snapshot g)
      | Some stamp \<Rightarrow>
          (case zs time_zone of
             None \<Rightarrow> Inl (Exn ValueErrorPy time_zone)
           | Some z \<Rightarrow>
               (let stop = dt_date (stamp + utc_offset z stamp);
                    start = stop - (dg_reporting_to g - dg_reporting_from g)
                in Inr ((settings_snapshot g)\<lparr>ds_reporting_from := start, ds_reporting_to := stop\<rparr>))))"

definition msg_active_start :: string where
  "msg_active_start = ''Another digest run is already in progress for your account. Wait for it to finish before starting a new run.''"
definition msg_active_retry :: string where
  "msg_active_retry = ''Another digest run is already in progress for your account. Wait for it to finish before retrying this run.''"
definition msg_active_other :: string where
  "msg_active_other = ''Another digest run is already in progress for your account.''"

definition reserve_run_budget :: "hmac \<Rightarrow> Settings \<Rightarrow> uuid \<Rightarrow> unit sess" where
  "reserve_run_budget hmac settings owner =
     seq (enforce hmac settings ''radar-hour'' (uuid_text owner) (set_radar_runs_per_hour settings) 3600 False)
         (enforce hmac settings ''radar-day'' (uuid_text owner) (set_radar_runs_per_day settings) 86400 False)"

definition digest_schedule_of :: "uuid \<Rightarrow> db \<Rightarrow> DigestSchedule option" where
  "digest_schedule_of digest d = (case get_row dg_id digest (digests d) of
     None \<Rightarrow> None | Some g \<Rightarrow> dg_schedule g)"

text \<open>Booking a queued run with the plan and with the observation ledger.\<close>

definition book_run :: "Settings \<Rightarrow> uuid \<Rightarrow> unit sess" where
  "book_run settings run_id =
     bind (query (get_run run_id)) (\<lambda>found.
     case found of
       None \<Rightarrow> raise AttributeErrorPy []
     | Some run \<Rightarrow>
         bind (query (digest_schedule_of (rn_digest_id run))) (\<lambda>schedule.
         seq (reserve run schedule settings)
         (bind (query (digest_schedule_of (rn_digest_id run))) (\<lambda>schedule.
          obs_reserve run schedule))))"

text \<open>The commit that ends an admission, and what an integrity error of it becomes.\<close>

definition commit_start :: "uuid \<Rightarrow> unit sess" where
  "commit_start owner =
     catch commit (\<lambda>e.
       if exn_class e = IntegrityError
       then seq rollback
         (bind (has_running_for_owner owner) (\<lambda>active.
          if active then raise RadarRunAlreadyActiveError msg_active_start else reraise e))
       else reraise e)"

definition commit_retry :: "unit sess" where
  "commit_retry =
     catch commit (\<lambda>e.
       if exn_class e = IntegrityError
       then seq rollback (raise RadarRunAlreadyActiveError msg_active_other)
       else reraise e)"

definition create_queued ::
  "zones \<Rightarrow> SubmissionConfig \<Rightarrow> Digest \<Rightarrow> uuid \<Rightarrow> datetime option \<Rightarrow> string \<Rightarrow> uuid sess" where
  "create_queued zs c g owner scheduled_for time_zone =
     bind (lift_result (digest_snapshot zs g scheduled_for time_zone)) (\<lambda>snapshot.
     bind (query (build_history_context (dg_id g) (sm_history_limit c))) (\<lambda>history.
     bind (query (build_feedback_context (dg_id g) 3)) (\<lambda>feedback.
     bind (create_running (dg_id g) owner snapshot history feedback (sm_model_name c)
             (sm_prompt_version c)) (\<lambda>run.
     bind (query snapshot_settings) (\<lambda>config.
     seq (set_run run (\<lambda>r. r\<lparr>rn_quality_config := Some config\<rparr>))
     (seq (case scheduled_for of None \<Rightarrow> ret ()
           | Some stamp \<Rightarrow> set_run run (\<lambda>r. r\<lparr>rn_trigger := SCHEDULED, rn_scheduled_for := Some stamp\<rparr>))
      (ret run)))))))"

definition start_digest ::
  "hmac \<Rightarrow> zones \<Rightarrow> SubmissionConfig \<Rightarrow> uuid \<Rightarrow> uuid \<Rightarrow> datetime option \<Rightarrow> string \<Rightarrow> bool \<Rightarrow> uuid sess" where
  "start_digest hmac zs c digest owner scheduled_for time_zone do_commit =
     bind (query (get_for_owner digest owner)) (\<lambda>found.
     case found of
       None \<Rightarrow> raise RadarDigestNotFoundError ''Digest not found''
     | Some g0 \<Rightarrow>
         seq (lock_account owner)
         (bind (query (\<lambda>d. case get_row dg_id digest (digests d) of None \<Rightarrow> g0 | Some g \<Rightarrow> g)) (\<lambda>g.
          bind (has_running_for_owner owner) (\<lambda>active.
          if active then raise RadarRunAlreadyActiveError msg_active_start
          else seq (reserve_run_budget hmac (sm_settings c) owner)
            (bind (create_queued zs c g owner scheduled_for time_zone) (\<lambda>run.
             seq (book_run (sm_settings c) run)
             (seq (if do_commit then commit_start owner else ret ())
              (ret run))))))))"

definition retry_digest :: "hmac \<Rightarrow> SubmissionConfig \<Rightarrow> uuid \<Rightarrow> uuid \<Rightarrow> uuid \<Rightarrow> uuid sess" where
  "retry_digest hmac c digest run_id owner =
     seq (lock_account owner)
     (bind (query (get_owned digest run_id owner)) (\<lambda>found.
      case found of
        None \<Rightarrow> raise RadarDigestNotFoundError ''Digest run not found''
      | Some run \<Rightarrow>
          if rn_status run \<noteq> FAILED
          then raise RadarRunNotRetryableError ''Only a failed radar run can be retried''
          else bind (has_running_for_owner owner) (\<lambda>active.
            if active then raise RadarRunAlreadyActiveError msg_active_retry
            else seq (reserve_run_budget hmac (sm_settings c) owner)
              (bind (claim_failed_retry run_id) (\<lambda>claimed.
               if \<not> claimed
               then seq rollback (raise RadarRunNotRetryableError
                 ''This run was already retried. Refresh its progress.'')
               else seq (requeue_failed run_id)
                 (seq (book_run (sm_settings c) run_id)
                 (seq commit_retry (ret run_id))))))))"

end
