(* ===== verification/Dispatch.thy ===== *)
theory Dispatch
  imports Submission
begin

section \<open>The schedule dispatcher (backend/app/scheduler/dispatch.py) and the schedule preview
  (backend/app/services/schedule_preview_service.py)\<close>

text \<open>
  \<open>tick\<close> looks up the digests that are due, oldest first, and gives each a session of its
  own: it locks the account, moves the cursor to the next occurrence and starts the run,
  all in one transaction.  A refused run leaves the occurrence due.  \<open>schedule_preview\<close> tells
  an account what the dispatcher would do next.

  A session of a \<open>with\<close> block ends with a rollback of what was not committed, also when an
  exception leaves it (\<open>with_session\<close>).  A zone of the time zone database has offsets less
  than a day apart, where \<open>around\<close> always returns (Recurrence); \<open>occurrences_at\<close> raises in
  the branch that is never taken there.
\<close>

subsection \<open>Schedules (backend/app/schemas/digest_schedule.py)\<close>

definition validate_schedule :: "zones \<Rightarrow> DigestSchedule \<Rightarrow> exn + DigestSchedule" where
  "validate_schedule zs s =
     (if \<not> (1 \<le> length (sch_time_zone s) \<and> length (sch_time_zone s) \<le> 100)
      then validation_error ''String length''
      else if zs (sch_time_zone s) = None then validation_error ''Choose a valid IANA time zone''
      else (case sch_ends_at s of
          None \<Rightarrow> Inr s
        | Some e \<Rightarrow> if e \<le> sch_starts_at s
            then validation_error ''Schedule end must be after the first digest date and time''
            else Inr s))"

definition occurrences_at ::
  "zones \<Rightarrow> DigestSchedule \<Rightarrow> datetime \<Rightarrow> exn + datetime option \<times> datetime option" where
  "occurrences_at zs s stamp =
     (case zs (sch_time_zone s) of
        None \<Rightarrow> Inl (Exn ValueErrorPy (sch_time_zone s))
      | Some z \<Rightarrow> (case around (utc_offset z) (wall_offset z) s stamp of
            None \<Rightarrow> Inl (Exn AssertionErrorPy ''around does not return'')
          | Some r \<Rightarrow> Inr r))"

subsection \<open>One digest\<close>

definition with_session :: "'a sess \<Rightarrow> 'a sess" where
  "with_session m s = (case m s of (r, s') \<Rightarrow> (r, snd (rollback s')))"

definition active_user :: "uuid \<Rightarrow> db \<Rightarrow> bool" where
  "active_user user d = (case get_row usr_id user (users d) of None \<Rightarrow> False | Some u \<Rightarrow> usr_is_active u)"

definition at_or_before :: "datetime option \<Rightarrow> datetime \<Rightarrow> bool" where
  "at_or_before t stamp = (case t of None \<Rightarrow> False | Some u \<Rightarrow> u \<le> stamp)"

definition due_digest :: "datetime \<Rightarrow> db \<Rightarrow> Digest \<Rightarrow> bool" where
  "due_digest stamp d g \<longleftrightarrow> at_or_before (dg_schedule_next_at g) stamp \<and> \<not> dg_schedule_paused g
     \<and> active_user (dg_owner_id g) d
     \<and> (dg_subscription_retry_at g = None \<or> at_or_before (dg_subscription_retry_at g) stamp)"

definition due_digests :: "datetime \<Rightarrow> db \<Rightarrow> uuid list" where
  "due_digests stamp d =
     map dg_id (take 100 (sort_key (\<lambda>g. case dg_schedule_next_at g of None \<Rightarrow> 0 | Some t \<Rightarrow> t)
       (sort_key dg_id (filter (due_digest stamp d) (digests d)))))"

definition still_due :: "datetime \<Rightarrow> Digest \<Rightarrow> bool" where
  "still_due stamp g \<longleftrightarrow> dg_schedule g \<noteq> None \<and> at_or_before (dg_schedule_next_at g) stamp"

definition get_digest :: "uuid \<Rightarrow> db \<Rightarrow> Digest option" where
  "get_digest i d = get_row dg_id i (digests d)"

text \<open>The compare-and-swap of the cursor: how many rows it changed.\<close>

definition swap_cursor :: "uuid \<Rightarrow> datetime option \<Rightarrow> datetime option \<Rightarrow> nat sess" where
  "swap_cursor i old following =
     (let p = (\<lambda>g. dg_id g = i \<and> dg_schedule_next_at g = old)
      in bind (query (\<lambda>d. rowcount p (digests d))) (\<lambda>n.
         seq (change (\<lambda>d. d\<lparr>digests := update_where p (\<lambda>g. g\<lparr>dg_schedule_next_at := following\<rparr>) (digests d)\<rparr>))
             (ret n)))"

definition new_delivery :: "uuid \<Rightarrow> datetime \<Rightarrow> DigestEmailDelivery" where
  "new_delivery run stamp = \<lparr>dl_run_id = run, dl_status = DeliveryPending, dl_attempts = 0,
     dl_next_attempt_at = stamp, dl_claim_token = None, dl_claimed_until = None, dl_sent_at = None,
     dl_last_error = None\<rparr>"

definition start_scheduled ::
  "hmac \<Rightarrow> zones \<Rightarrow> SubmissionConfig \<Rightarrow> datetime \<Rightarrow> uuid \<Rightarrow> uuid \<Rightarrow> datetime \<Rightarrow> DigestSchedule \<Rightarrow> bool sess" where
  "start_scheduled hmac zs c stamp digest owner due schedule =
     bind (start_digest hmac zs c digest owner (Some due) (sch_time_zone schedule) False) (\<lambda>run.
     seq (set_digest digest (\<lambda>g. g\<lparr>dg_subscription_retry_at := None\<rparr>))
     (seq (if sch_send_email schedule
           then change (\<lambda>d. d\<lparr>deliveries := deliveries d @ [new_delivery run stamp]\<rparr>) else ret ())
     (seq commit (ret True))))"

text \<open>The \<open>except\<close> clauses.\<close>

definition refused_dispatch :: "uuid \<Rightarrow> datetime option \<Rightarrow> datetime \<Rightarrow> exn \<Rightarrow> bool sess" where
  "refused_dispatch digest cursor stamp e =
     (case exn_class e of
        AccessDenied n \<Rightarrow>
          seq rollback
          (seq (change (\<lambda>d. d\<lparr>digests := update_where
                  (\<lambda>g. dg_id g = digest \<and> dg_schedule_next_at g = cursor)
                  (\<lambda>g. g\<lparr>dg_subscription_retry_at := Some (stamp + seconds 60)\<rparr>) (digests d)\<rparr>))
          (seq commit (ret False)))
      | RadarRunAlreadyActiveError \<Rightarrow> seq rollback (ret False)
      | RateLimitExceeded n \<Rightarrow> seq rollback (ret False)
      | IntegrityError \<Rightarrow> seq rollback (ret False)
      | _ \<Rightarrow> reraise e)"

text \<open>From the compare-and-swap on; \<open>g\<close> is the digest as it was read before it.\<close>

definition dispatch_occurrence ::
  "hmac \<Rightarrow> zones \<Rightarrow> SubmissionConfig \<Rightarrow> datetime \<Rightarrow> Digest \<Rightarrow> DigestSchedule \<Rightarrow> bool sess" where
  "dispatch_occurrence hmac zs c stamp g schedule =
     bind (lift_result (occurrences_at zs schedule stamp)) (\<lambda>(due, following).
     bind (swap_cursor (dg_id g) (dg_schedule_next_at g) following) (\<lambda>n.
     if n \<noteq> 1 then seq rollback (ret False)
     else seq (set_digest (dg_id g) (\<lambda>x. x\<lparr>dg_schedule_next_at := following\<rparr>))
       (bind (query (active_user (dg_owner_id g))) (\<lambda>active.
        if \<not> active then seq rollback (ret False)
        else (case due of
            None \<Rightarrow> seq commit (ret False)
          | Some t \<Rightarrow> catch (start_scheduled hmac zs c stamp (dg_id g) (dg_owner_id g) t schedule)
              (refused_dispatch (dg_id g) (dg_schedule_next_at g) stamp))))))"

definition dispatch_digest ::
  "hmac \<Rightarrow> zones \<Rightarrow> SubmissionConfig \<Rightarrow> datetime \<Rightarrow> uuid \<Rightarrow> bool sess" where
  "dispatch_digest hmac zs c stamp i =
     bind (query (get_digest i)) (\<lambda>found.
     case found of None \<Rightarrow> ret False
     | Some g0 \<Rightarrow>
         if \<not> still_due stamp g0 then ret False
         else seq (lock_account (dg_owner_id g0))
           (bind (query (get_digest i)) (\<lambda>fresh.
            if \<not> (case fresh of None \<Rightarrow> False | Some g \<Rightarrow> still_due stamp g)
            then seq rollback (ret False)
            else bind (resolve (dg_owner_id g0) (sm_settings c)) (\<lambda>access.
              bind (query (get_digest i)) (\<lambda>current.
              case current of None \<Rightarrow> raise AttributeErrorPy []
              | Some g \<Rightarrow>
                  if dg_schedule_paused g then seq commit (ret False)
                  else (case dg_schedule g of
                      None \<Rightarrow> raise ValidationError []
                    | Some stored \<Rightarrow>
                        bind (lift_result (validate_schedule zs stored))
                          (dispatch_occurrence hmac zs c stamp g)))))))"

subsection \<open>A tick\<close>

fun tick_loop ::
  "hmac \<Rightarrow> zones \<Rightarrow> SubmissionConfig \<Rightarrow> datetime \<Rightarrow> uuid list \<Rightarrow> nat \<Rightarrow> nat sess" where
  "tick_loop hmac zs c stamp [] queued = ret queued"
| "tick_loop hmac zs c stamp (i # ids) queued =
     bind (with_session (dispatch_digest hmac zs c stamp i)) (\<lambda>started.
       tick_loop hmac zs c stamp ids (if started then queued + 1 else queued))"

definition tick :: "hmac \<Rightarrow> zones \<Rightarrow> SubmissionConfig \<Rightarrow> nat sess" where
  "tick hmac zs c =
     bind now (\<lambda>stamp.
     bind (with_session (query (due_digests stamp))) (\<lambda>ids. tick_loop hmac zs c stamp ids 0))"

subsection \<open>The preview\<close>

datatype preview_state = NotScheduled | Scheduled | Due | WaitingForRun | WaitingForAllowance
  | WaitingForSubscription | PreviewQueued | PreviewRunning | Ended

record SchedulePreviewRead =
  pv_state :: preview_state
  pv_as_of :: datetime
  pv_next_scheduled_at :: "datetime option"
  pv_upcoming_runs :: "datetime list"
  pv_time_zone :: "string option"
  pv_send_email :: bool
  pv_active_run_id :: "uuid option"
  pv_waiting_digest_id :: "uuid option"
  pv_allowance_available_at :: "datetime option"
  pv_subscription_message :: "string option"
  pv_exhausted :: bool

definition empty_preview :: "preview_state \<Rightarrow> datetime \<Rightarrow> SchedulePreviewRead" where
  "empty_preview st stamp = \<lparr>pv_state = st, pv_as_of = stamp, pv_next_scheduled_at = None,
     pv_upcoming_runs = [], pv_time_zone = None, pv_send_email = False, pv_active_run_id = None,
     pv_waiting_digest_id = None, pv_allowance_available_at = None, pv_subscription_message = None,
     pv_exhausted = False\<rparr>"

definition ended_by :: "DigestSchedule \<Rightarrow> datetime \<Rightarrow> bool" where
  "ended_by s stamp = (case sch_ends_at s of None \<Rightarrow> False | Some e \<Rightarrow> stamp \<ge> e)"

text \<open>\<open>while len(dates) < 3 and candidate is not None\<close>; the first argument is what is left of
  the three.\<close>

fun upcoming_dates :: "nat \<Rightarrow> zones \<Rightarrow> DigestSchedule \<Rightarrow> datetime option \<Rightarrow> exn + datetime list" where
  "upcoming_dates 0 zs s candidate = Inr []"
| "upcoming_dates (Suc n) zs s None = Inr []"
| "upcoming_dates (Suc n) zs s (Some t) =
     (if ended_by s t then Inr []
      else (case occurrences_at zs s t of
          Inl e \<Rightarrow> Inl e
        | Inr r \<Rightarrow> map_sum id (Cons t) (upcoming_dates n zs s (snd r))))"

definition preview_dates :: "zones \<Rightarrow> DigestSchedule \<Rightarrow> datetime option \<Rightarrow> datetime \<Rightarrow> exn + datetime list" where
  "preview_dates zs s cursor stamp =
     (case cursor of
        None \<Rightarrow> Inr []
      | Some c \<Rightarrow>
          if ended_by s stamp then Inr []
          else (case (if c \<le> stamp then map_sum id fst (occurrences_at zs s stamp) else Inr (Some c)) of
              Inl e \<Rightarrow> Inl e
            | Inr candidate \<Rightarrow>
                if (case candidate of None \<Rightarrow> False | Some t \<Rightarrow> t \<ge> c)
                then upcoming_dates 3 zs s candidate else Inr []))"

definition active_run_of :: "uuid \<Rightarrow> db \<Rightarrow> DigestRun option" where
  "active_run_of owner d = find (\<lambda>r. rn_owner_id r = owner \<and> is_active_status (rn_status r)) (digest_runs d)"

definition preview_position ::
  "hmac \<Rightarrow> Settings \<Rightarrow> Digest \<Rightarrow> datetime \<Rightarrow> DigestRun option \<Rightarrow> datetime list \<Rightarrow> db
     \<Rightarrow> SchedulePreviewRead \<Rightarrow> SchedulePreviewRead" where
  "preview_position hmac settings g stamp active dates d result =
     (if (case active of None \<Rightarrow> False | Some r \<Rightarrow> rn_digest_id r = dg_id g \<and> rn_trigger r = SCHEDULED)
      then result\<lparr>pv_state := (if rn_status (the active) = QUEUED then PreviewQueued else PreviewRunning),
             pv_active_run_id := map_option rn_id active\<rparr>
      else (case dates of
          [] \<Rightarrow> result
        | t # _ \<Rightarrow>
            if t > stamp then result
            else (let available = run_allowance_available_at hmac settings (dg_owner_id g) stamp d;
                      result = result\<lparr>pv_allowance_available_at := available\<rparr>
                  in (case active of
                        Some r \<Rightarrow> result\<lparr>pv_state := WaitingForRun, pv_waiting_digest_id := Some (rn_digest_id r)\<rparr>
                      | None \<Rightarrow> if available \<noteq> None then result\<lparr>pv_state := WaitingForAllowance\<rparr>
                                else result\<lparr>pv_state := Due\<rparr>))))"

definition msg_paused :: string where
  "msg_paused = ''Schedule paused after a subscription change. Its settings are retained. Review and save it when your plan permits scheduling to resume from the next future occurrence.''"

definition schedule_preview :: "hmac \<Rightarrow> zones \<Rightarrow> Settings \<Rightarrow> uuid \<Rightarrow> datetime \<Rightarrow> SchedulePreviewRead sess" where
  "schedule_preview hmac zs settings digest stamp =
     bind (query (get_digest digest)) (\<lambda>found.
     case found of None \<Rightarrow> raise AttributeErrorPy []
     | Some g0 \<Rightarrow>
         if dg_schedule g0 = None then ret (empty_preview NotScheduled stamp)
         else bind (resolve (dg_owner_id g0) settings) (\<lambda>_.
           bind (query (\<lambda>d. case get_digest digest d of None \<Rightarrow> g0 | Some g \<Rightarrow> g)) (\<lambda>g.
           if dg_schedule_paused g
           then ret ((empty_preview WaitingForSubscription stamp)\<lparr>pv_subscription_message := Some msg_paused\<rparr>)
           else (case dg_schedule g of None \<Rightarrow> raise ValidationError []
             | Some stored \<Rightarrow>
                 bind (lift_result (validate_schedule zs stored)) (\<lambda>s.
                 bind (lift_result (preview_dates zs s (dg_schedule_next_at g) stamp)) (\<lambda>dates.
                 bind (query (active_run_of (dg_owner_id g))) (\<lambda>active.
                 bind (query (\<lambda>d. preview_position hmac settings g stamp active dates d
                   ((empty_preview (if dates \<noteq> [] then Scheduled else Ended) stamp)
                      \<lparr>pv_time_zone := Some (sch_time_zone s), pv_send_email := sch_send_email s,
                       pv_upcoming_runs := dates,
                       pv_next_scheduled_at := (case dates of [] \<Rightarrow> None | t # _ \<Rightarrow> Some t),
                       pv_exhausted := (dates = [])\<rparr>))) (\<lambda>result.
                 if dates \<noteq> [] \<and> active = None
                 then bind (assess (dg_owner_id g) (dg_maximum_papers g) SCHEDULED
                       \<lparr>cx_frequency = Some (sch_frequency stored), cx_send_email = sch_send_email stored\<rparr>
                       settings (Some (dg_id g))) (\<lambda>(access, issues).
                     ret (if issues \<noteq> []
                          then result\<lparr>pv_state := WaitingForSubscription,
                                 pv_subscription_message := Some (join '' '' issues)\<rparr>
                          else result))
                 else ret result))))))))"

end
