(* ===== verification/Identity.thy ===== *)
theory Identity
  imports Webhooks RateLimit Dispatch
begin

section \<open>Tokens and sign-in (core/security.py, auth_service.py, api/dependencies.py, api/security.py)\<close>

text \<open>
  Signed tokens, the sessions they belong to, and the guards of a request.  What hashes
  passwords (pwdlib) and what signs and checks tokens (PyJWT) are parameters; so are SHA-256 and
  HMAC.  \<open>pm_encode\<close> signs a payload, \<open>pm_decode t\<close> gives back the payload of a token that is
  valid at time \<open>t\<close>, and \<open>None\<close> for every \<open>InvalidTokenError\<close>.  A salt, a code and a token
  are random draws, from the same source as the identifiers.
\<close>

record primitives =
  pm_hash :: "nat \<Rightarrow> string \<Rightarrow> string"
  pm_verify :: "string \<Rightarrow> string \<Rightarrow> bool"
  pm_digest :: "string \<Rightarrow> string"
  pm_hmac :: "string \<Rightarrow> string \<Rightarrow> string"
  pm_encode :: "json \<Rightarrow> string"
  pm_decode :: "datetime \<Rightarrow> string \<Rightarrow> json option"

record AuthSettings =
  aus_access_token_minutes :: int
  aus_refresh_token_days :: int
  aus_session_absolute_days :: int
  aus_refresh_race_grace_seconds :: int
  aus_jwt_secret :: string
  aus_jwt_issuer :: string
  aus_jwt_audience :: string
  aus_frontend_base_url :: string
  aus_cors_origins :: "string list"
  aus_production :: bool

subsection \<open>The tables\<close>

definition on_accounts :: "(AccountTables \<Rightarrow> AccountTables) \<Rightarrow> db \<Rightarrow> db" where
  "on_accounts f d = d\<lparr>account_tables := f (account_tables d)\<rparr>"

definition set_user :: "uuid \<Rightarrow> (User \<Rightarrow> User) \<Rightarrow> unit sess" where
  "set_user i f = change (\<lambda>d. d\<lparr>users := update_where (\<lambda>u. usr_id u = i) f (users d)\<rparr>)"

definition set_sessions :: "(AuthSession \<Rightarrow> bool) \<Rightarrow> (AuthSession \<Rightarrow> AuthSession) \<Rightarrow> unit sess" where
  "set_sessions p f = change (on_accounts (\<lambda>a. a\<lparr>auth_sessions := update_where p f (auth_sessions a)\<rparr>))"

definition find_user :: "uuid \<Rightarrow> db \<Rightarrow> User option" where
  "find_user i d = get_row usr_id i (users d)"

definition user_by_email :: "string \<Rightarrow> db \<Rightarrow> User option" where
  "user_by_email email d = find (\<lambda>u. usr_email u = email) (users d)"

definition find_session :: "uuid \<Rightarrow> db \<Rightarrow> AuthSession option" where
  "find_session i d = get_row ses_id i (auth_sessions (account_tables d))"

subsection \<open>Passwords and tokens (core/security.py)\<close>

definition hash_password :: "primitives \<Rightarrow> string \<Rightarrow> string sess" where
  "hash_password k p = bind uuid4 (\<lambda>salt. ret (pm_hash k salt p))"

text \<open>The claims; \<open>jwt.encode\<close> writes times as whole seconds.\<close>

definition token_payload ::
  "AuthSettings \<Rightarrow> uuid \<Rightarrow> string \<Rightarrow> int \<Rightarrow> uuid \<Rightarrow> datetime \<Rightarrow> datetime \<Rightarrow> uuid option \<Rightarrow> json" where
  "token_payload s user kind version jti issued expires ses =
     JObj ([(''sub'', JStr (uuid_text user)), (''av'', JInt version), (''typ'', JStr kind),
        (''jti'', JStr (uuid_text jti)), (''iat'', JInt (timestamp issued)), (''nbf'', JInt (timestamp issued)),
        (''exp'', JInt (timestamp expires)), (''iss'', JStr (aus_jwt_issuer s)), (''aud'', JStr (aus_jwt_audience s))]
      @ (case ses of None \<Rightarrow> [] | Some i \<Rightarrow> [(''sid'', JStr (uuid_text i))]))"

definition encode_token ::
  "primitives \<Rightarrow> AuthSettings \<Rightarrow> uuid \<Rightarrow> string \<Rightarrow> int \<Rightarrow> datetime \<Rightarrow> uuid option \<Rightarrow> string sess" where
  "encode_token k s user kind version expires ses =
     bind now (\<lambda>t. bind uuid4 (\<lambda>jti. ret (pm_encode k (token_payload s user kind version jti t expires ses))))"

definition create_access_token ::
  "primitives \<Rightarrow> AuthSettings \<Rightarrow> uuid \<Rightarrow> int \<Rightarrow> uuid option \<Rightarrow> (string \<times> datetime) sess" where
  "create_access_token k s user version ses =
     bind now (\<lambda>t. let expires = t + minutes (aus_access_token_minutes s) in
     bind (encode_token k s user ''access'' version expires ses) (\<lambda>token. ret (token, expires)))"

definition create_refresh_token ::
  "primitives \<Rightarrow> AuthSettings \<Rightarrow> uuid \<Rightarrow> uuid \<Rightarrow> int \<Rightarrow> datetime option \<Rightarrow> (string \<times> datetime) sess" where
  "create_refresh_token k s user ses version expires =
     bind (case expires of Some e \<Rightarrow> ret e | None \<Rightarrow> bind now (\<lambda>t. ret (t + days (aus_refresh_token_days s)))) (\<lambda>e.
     bind (encode_token k s user ''refresh'' version e (Some ses)) (\<lambda>token. ret (token, e)))"

record TokenClaims =
  tc_subject :: uuid
  tc_jwt_id :: uuid
  tc_session_id :: "uuid option"
  tc_expires_at :: datetime
  tc_auth_version :: int

text \<open>\<open>UUID(value)\<close>, \<open>int(value)\<close> and \<open>datetime.fromtimestamp(value)\<close> of a claim.\<close>

definition uuid_claim :: "json \<Rightarrow> exn + uuid" where
  "uuid_claim v = (case v of
     JStr t \<Rightarrow> the_value ValueErrorPy (uuid_of t)
   | JNull \<Rightarrow> Inl (Exn TypeErrorPy ''one of the hex arguments must be given'')
   | _ \<Rightarrow> Inl (Exn AttributeErrorPy ''replace''))"

definition int_claim :: "json \<Rightarrow> exn + int" where
  "int_claim v = (case v of
     JInt i \<Rightarrow> Inr i
   | JBool b \<Rightarrow> Inr (if b then 1 else 0)
   | JReal r \<Rightarrow> Inr (if r < 0 then - \<lfloor>- r\<rfloor> else \<lfloor>r\<rfloor>)
   | JStr t \<Rightarrow> the_value ValueErrorPy (int_of_text t)
   | _ \<Rightarrow> Inl (Exn TypeErrorPy ''int''))"

definition time_claim :: "json \<Rightarrow> exn + datetime" where
  "time_claim v = (case jint v of
     None \<Rightarrow> Inl (Exn TypeErrorPy ''fromtimestamp'')
   | Some i \<Rightarrow> if i \<le> MAX_TIMESTAMP then Inr (from_timestamp i) else Inl (Exn ValueErrorPy ''year is out of range''))"

definition jitem :: "json \<Rightarrow> string \<Rightarrow> exn + json" where
  "jitem v key = (case v of JObj kvs \<Rightarrow> the_value KeyErrorPy (map_of kvs key) | _ \<Rightarrow> Inl (Exn TypeErrorPy key))"

definition claims_of :: "string \<Rightarrow> json \<Rightarrow> exn + TokenClaims" where
  "claims_of expected payload =
     rbind (jitem payload ''typ'') (\<lambda>kind.
     rseq (require (kind = JStr expected) TokenError ''Unexpected token type'')
    (rbind (jget payload ''sid'') (\<lambda>sid.
     rbind (if truthy sid then map_sum id Some (uuid_claim sid) else Inr None) (\<lambda>ses.
     rseq (require (\<not> (expected = ''refresh'' \<and> ses = None)) TokenError ''Refresh token has no session'')
    (rbind (rbind (jitem payload ''sub'') uuid_claim) (\<lambda>subject.
     rbind (rbind (jitem payload ''jti'') uuid_claim) (\<lambda>jti.
     rbind (rbind (jitem payload ''exp'') time_claim) (\<lambda>expires.
     rbind (rbind (jget_or (JInt 0) payload ''av'') int_claim) (\<lambda>version.
       Inr \<lparr>tc_subject = subject, tc_jwt_id = jti, tc_session_id = ses, tc_expires_at = expires,
             tc_auth_version = version\<rparr>)))))))))"

definition token_error :: exn where
  "token_error = Exn TokenError ''Invalid or expired token''"

definition decode_at :: "primitives \<Rightarrow> datetime \<Rightarrow> string \<Rightarrow> string \<Rightarrow> exn + TokenClaims" where
  "decode_at k t expected token =
     (case pm_decode k t token of
        None \<Rightarrow> Inl token_error
      | Some payload \<Rightarrow> rcatch (claims_of expected payload)
          (\<lambda>e. if exn_class e \<in> {TokenError, KeyErrorPy, TypeErrorPy, ValueErrorPy} then Inl token_error else Inl e))"

definition decode_token :: "primitives \<Rightarrow> string \<Rightarrow> string \<Rightarrow> TokenClaims sess" where
  "decode_token k expected token = bind now (\<lambda>t. lift_result (decode_at k t expected token))"

subsection \<open>Sessions (auth_session_repository.py)\<close>

definition revoke :: "AuthSession \<Rightarrow> unit sess" where
  "revoke x = (if ses_revoked_at x = None
     then bind now (\<lambda>t. set_sessions (\<lambda>y. ses_id y = ses_id x) (\<lambda>y. y\<lparr>ses_revoked_at := Some t\<rparr>)) else ret ())"

definition revoke_all_for_user :: "uuid \<Rightarrow> unit sess" where
  "revoke_all_for_user user =
     bind now (\<lambda>t. set_sessions (\<lambda>y. ses_user_id y = user \<and> ses_revoked_at y = None)
       (\<lambda>y. y\<lparr>ses_revoked_at := Some t\<rparr>))"

definition create_auth_session :: "uuid \<Rightarrow> uuid \<Rightarrow> string \<Rightarrow> datetime \<Rightarrow> unit sess" where
  "create_auth_session i user digest expires =
     bind now (\<lambda>t. change (on_accounts (\<lambda>a. a\<lparr>auth_sessions := auth_sessions a
       @ [\<lparr>ses_id = i, ses_user_id = user, ses_token_hash = digest, ses_previous_token_hash = None,
           ses_rotated_at = None, ses_expires_at = expires, ses_revoked_at = None, ses_created_at = t\<rparr>]\<rparr>)))"

subsection \<open>Sign-in (auth_service.py)\<close>

record IssuedTokens =
  it_access_token :: string
  it_access_expires_in :: int
  it_refresh_token :: string
  it_refresh_expires_at :: datetime
  it_user :: User

definition issued_tokens :: "AuthSettings \<Rightarrow> User \<Rightarrow> string \<Rightarrow> string \<Rightarrow> datetime \<Rightarrow> IssuedTokens" where
  "issued_tokens s u access fresh expires =
     \<lparr>it_access_token = access, it_access_expires_in = aus_access_token_minutes s * 60, it_refresh_token = fresh,
      it_refresh_expires_at = expires, it_user = u\<rparr>"

definition start_session :: "primitives \<Rightarrow> AuthSettings \<Rightarrow> User \<Rightarrow> IssuedTokens sess" where
  "start_session k s u =
     bind uuid4 (\<lambda>i.
     bind (create_access_token k s (usr_id u) (usr_auth_version u) (Some i)) (\<lambda>(access, _).
     bind now (\<lambda>t.
     bind (create_refresh_token k s (usr_id u) i (usr_auth_version u)
        (Some (t + days (min (aus_refresh_token_days s) (aus_session_absolute_days s))))) (\<lambda>(fresh, expires).
     seq (create_auth_session i (usr_id u) (pm_digest k fresh) expires)
       (ret (issued_tokens s u access fresh expires))))))"

text \<open>\<open>with db.begin()\<close>.\<close>

definition atomic :: "'a sess \<Rightarrow> 'a sess" where
  "atomic m = catch (bind m (\<lambda>v. seq commit (ret v))) (\<lambda>e. seq rollback (reraise e))"

definition login :: "primitives \<Rightarrow> AuthSettings \<Rightarrow> string \<Rightarrow> string \<Rightarrow> IssuedTokens sess" where
  "login k s email secret =
     atomic (bind (query (user_by_email email)) (\<lambda>found.
       case found of
         None \<Rightarrow> raise AuthenticationError ''Email or password is incorrect''
       | Some u \<Rightarrow>
           seq (guard (pm_verify k secret (usr_password_hash u)) AuthenticationError ''Email or password is incorrect'')
          (seq (guard (usr_is_active u) AuthenticationError ''This account is inactive'')
            (start_session k s u))))"

definition msg_expired :: string where
  "msg_expired = ''Your session has expired. Please sign in again.''"

definition msg_racing :: string where
  "msg_racing = ''Your session is being renewed in another tab. Please retry.''"

text \<open>The conditions under which a refresh token may still be used.\<close>

definition session_usable :: "AuthSettings \<Rightarrow> datetime \<Rightarrow> TokenClaims \<Rightarrow> AuthSession \<Rightarrow> User \<Rightarrow> bool" where
  "session_usable s t c x u \<longleftrightarrow>
     ses_revoked_at x = None \<and> ses_expires_at x > t \<and> ses_created_at x + days (aus_session_absolute_days s) > t
     \<and> usr_is_active u \<and> usr_id u = ses_user_id x \<and> usr_auth_version u = tc_auth_version c"

definition racing :: "primitives \<Rightarrow> AuthSettings \<Rightarrow> datetime \<Rightarrow> string \<Rightarrow> AuthSession \<Rightarrow> bool" where
  "racing k s t raw x \<longleftrightarrow>
     (case ses_previous_token_hash x of None \<Rightarrow> False | Some h \<Rightarrow> h \<noteq> [] \<and> pm_digest k raw = h)
     \<and> (case ses_rotated_at x of None \<Rightarrow> False | Some r \<Rightarrow> t < r + seconds (aus_refresh_race_grace_seconds s))"

definition drop_session :: "AuthSession \<Rightarrow> 'a sess" where
  "drop_session x = seq (revoke x) (seq commit (raise AuthenticationError msg_expired))"

definition swap_token :: "primitives \<Rightarrow> datetime \<Rightarrow> string \<Rightarrow> string \<Rightarrow> datetime \<Rightarrow> uuid \<Rightarrow> bool sess" where
  "swap_token k t raw fresh expires i =
     (let p = (\<lambda>y. ses_id y = i \<and> ses_token_hash y = pm_digest k raw \<and> ses_revoked_at y = None \<and> ses_expires_at y > t)
      in bind (query (\<lambda>d. rowcount p (auth_sessions (account_tables d)))) (\<lambda>n.
         seq (set_sessions p (\<lambda>y. y\<lparr>ses_token_hash := pm_digest k fresh, ses_previous_token_hash := Some (pm_digest k raw),
                ses_rotated_at := Some t, ses_expires_at := expires\<rparr>))
           (ret (n = 1))))"

definition rotate :: "primitives \<Rightarrow> AuthSettings \<Rightarrow> datetime \<Rightarrow> string \<Rightarrow> AuthSession \<Rightarrow> User \<Rightarrow> IssuedTokens sess" where
  "rotate k s t raw x u =
     (let expires = min (t + days (aus_refresh_token_days s)) (ses_created_at x + days (aus_session_absolute_days s))
      in bind (create_access_token k s (usr_id u) (usr_auth_version u) (Some (ses_id x))) (\<lambda>(access, _).
         bind (create_refresh_token k s (usr_id u) (ses_id x) (usr_auth_version u) (Some expires)) (\<lambda>(fresh, e).
         bind (swap_token k t raw fresh e (ses_id x)) (\<lambda>swapped.
         if \<not> swapped then seq rollback (raise RefreshConflict msg_racing)
         else seq commit (ret (issued_tokens s u access fresh e))))))"

definition refresh_tokens :: "primitives \<Rightarrow> AuthSettings \<Rightarrow> string \<Rightarrow> IssuedTokens sess" where
  "refresh_tokens k s raw =
     bind (catch (decode_token k ''refresh'' raw)
       (\<lambda>e. if exn_class e = TokenError then raise AuthenticationError msg_expired else reraise e)) (\<lambda>c.
     bind now (\<lambda>t.
     bind (query (\<lambda>d. Option.bind (tc_session_id c) (\<lambda>i. find_session i d))) (\<lambda>found.
     bind (query (find_user (tc_subject c))) (\<lambda>user.
     case (found, user) of
       (Some x, Some u) \<Rightarrow>
         if \<not> session_usable s t c x u then drop_session x
         else if pm_digest k raw \<noteq> ses_token_hash x
         then (if racing k s t raw x then seq rollback (raise RefreshConflict msg_racing) else drop_session x)
         else rotate k s t raw x u
     | (Some x, None) \<Rightarrow> drop_session x
     | (None, _) \<Rightarrow> seq commit (raise AuthenticationError msg_expired)))))"

definition logout :: "primitives \<Rightarrow> string option \<Rightarrow> unit sess" where
  "logout k raw = (case raw of
     None \<Rightarrow> ret ()
   | Some token \<Rightarrow>
       bind (catch (bind (decode_token k ''refresh'' token) (\<lambda>c. ret (Some c)))
         (\<lambda>e. if exn_class e = TokenError then ret None else reraise e)) (\<lambda>claims.
       case claims of
         None \<Rightarrow> ret ()
       | Some c \<Rightarrow>
           atomic (bind (query (\<lambda>d. Option.bind (tc_session_id c) (\<lambda>i. find_session i d))) (\<lambda>found.
             case found of None \<Rightarrow> ret () | Some x \<Rightarrow> revoke x))))"

subsection \<open>The user of a request (api/dependencies.py)\<close>

definition unauthorized :: "'a sess" where
  "unauthorized = raise (HttpError 401) ''Authentication required''"

definition current_user :: "primitives \<Rightarrow> AuthSettings \<Rightarrow> (string \<times> string) option \<Rightarrow> User sess" where
  "current_user k s credentials = (case credentials of
     None \<Rightarrow> unauthorized
   | Some (kind, token) \<Rightarrow>
       if lower kind \<noteq> ''bearer'' then unauthorized
       else bind (catch (decode_token k ''access'' token)
           (\<lambda>e. if exn_class e = TokenError then unauthorized else reraise e)) (\<lambda>c.
         bind (query (find_user (tc_subject c))) (\<lambda>user.
         case user of
           None \<Rightarrow> unauthorized
         | Some u \<Rightarrow>
             if \<not> usr_is_active u \<or> usr_auth_version u \<noteq> tc_auth_version c then unauthorized
             else bind (query (\<lambda>d. Option.bind (tc_session_id c) (\<lambda>i. find_session i d))) (\<lambda>ses.
               case ses of
                 None \<Rightarrow> unauthorized
               | Some x \<Rightarrow>
                   if ses_user_id x \<noteq> usr_id u \<or> ses_revoked_at x \<noteq> None then unauthorized
                   else bind now (\<lambda>t. if ses_expires_at x \<le> t then unauthorized
                     else bind now (\<lambda>t'. if ses_created_at x + days (aus_session_absolute_days s) \<le> t' then unauthorized
                       else ret u))))))"

definition optional_user :: "primitives \<Rightarrow> AuthSettings \<Rightarrow> (string \<times> string) option \<Rightarrow> User option sess" where
  "optional_user k s credentials = (case credentials of
     None \<Rightarrow> ret None | Some c \<Rightarrow> bind (current_user k s (Some c)) (\<lambda>u. ret (Some u)))"

definition require_admin :: "User \<Rightarrow> User sess" where
  "require_admin u = (if usr_role u \<noteq> RoleAdmin then raise (HttpError 403) ''Administrator access required'' else ret u)"

definition require_super_admin :: "User \<Rightarrow> User sess" where
  "require_super_admin u =
     (if \<not> usr_is_super_admin u then raise (HttpError 403) ''Super-administrator access required'' else ret u)"

subsection \<open>The guards of a request (api/security.py)\<close>

record HttpRequest =
  hr_method :: string
  hr_path :: string
  hr_origin :: "string option"
  hr_sec_fetch_site :: "string option"
  hr_radar_request :: "string option"
  hr_authorization :: string
  hr_client :: "string option"
  hr_body :: "json option"
  hr_challenge_id :: "string option"

definition ends_with :: "string \<Rightarrow> string \<Rightarrow> bool" where
  "ends_with t suffix \<longleftrightarrow> startswith (rev t) (rev suffix)"

definition origin_of :: "string \<Rightarrow> exn + string" where
  "origin_of url = map_sum id (\<lambda>p. scheme p @ ''://'' @ netloc p) (urlsplit url)"

definition request_path :: "HttpRequest \<Rightarrow> string" where
  "request_path r = rstrip_by (\<lambda>c. c = CHR ''/'') (hr_path r)"

definition header_set :: "string option \<Rightarrow> bool" where
  "header_set h \<longleftrightarrow> h \<noteq> None \<and> h \<noteq> Some []"

definition check_origin :: "AuthSettings \<Rightarrow> HttpRequest \<Rightarrow> exn + unit" where
  "check_origin s r =
     (if hr_method r \<in> {''GET'', ''HEAD'', ''OPTIONS''} then Inr ()
      else rbind (origin_of (aus_frontend_base_url s)) (\<lambda>own.
        checks
         [require (\<not> (header_set (hr_origin r) \<and> hr_origin r \<notin> Some ` set (own # aus_cors_origins s))) (HttpError 403)
            ''This request origin is not allowed.'',
          require (header_set (hr_origin r) \<or> hr_sec_fetch_site r \<noteq> Some ''cross-site'') (HttpError 403)
            ''Cross-site requests require a trusted origin.'',
          require (request_path r \<in> {''/api/v1/auth/refresh'', ''/api/v1/auth/logout''}
              \<longrightarrow> hr_radar_request r = Some ''1'') (HttpError 403)
            ''X-Radar-Request: 1 is required for this endpoint.'']))"

definition request_subject :: "primitives \<Rightarrow> HttpRequest \<Rightarrow> uuid option sess" where
  "request_subject k r =
     (if startswith (lower (hr_authorization r)) ''bearer ''
      then catch (bind (decode_token k ''access'' (drop 7 (hr_authorization r))) (\<lambda>c. ret (Some (tc_subject c))))
        (\<lambda>e. if exn_class e = TokenError then ret None else reraise e)
      else ret None)"

definition peer :: "HttpRequest \<Rightarrow> string" where
  "peer r = (case hr_client r of None \<Rightarrow> ''unknown'' | Some h \<Rightarrow> h)"

definition email_rule :: "string \<Rightarrow> HttpRequest \<Rightarrow> (string \<times> string) list" where
  "email_rule prefix r = (case hr_body r of
     Some (JObj kvs) \<Rightarrow> (case lookup_or JNull kvs ''email'' of
        JStr email \<Rightarrow> [(prefix @ ''-email'', lower (strip email))] | _ \<Rightarrow> [])
   | _ \<Rightarrow> [])"

definition request_rules :: "uuid option \<Rightarrow> HttpRequest \<Rightarrow> (string \<times> string) list" where
  "request_rules subject r =
     (let path = request_path r; post = (hr_method r = ''POST'');
          who = (case subject of None \<Rightarrow> [] | Some u \<Rightarrow> uuid_text u)
      in [(''api-ip'', peer r)]
       @ (if subject \<noteq> None then [(''api-user'', who)] else [])
       @ (if post \<and> path \<in> {''/api/v1/auth/login'', ''/api/v1/auth/register''}
          then (let prefix = (if ends_with path ''/login'' then ''login'' else ''registration'')
                in (prefix @ ''-ip'', peer r) # email_rule prefix r) else [])
       @ (if post \<and> (ends_with path ''/confirm'' \<or> ends_with path ''/resend'')
          then (let prefix = (if ends_with path ''/confirm'' then ''verify'' else ''resend'')
                in [(prefix @ ''-ip'', peer r),
                    (prefix @ ''-challenge'', case hr_challenge_id r of None \<Rightarrow> ''unknown'' | Some c \<Rightarrow> c)]) else [])
       @ (if subject \<noteq> None \<and> path = ''/api/v1/users/me/email-verification'' \<and> post then [(''email-change-user'', who)] else [])
       @ (if subject \<noteq> None \<and> path = ''/api/v1/users/me/password'' \<and> hr_method r = ''PUT'' then [(''password-change-user'', who)] else [])
       @ (if subject \<noteq> None \<and> ends_with path ''/closure'' \<and> post then [(''password-change-user'', who)] else [])
       @ (if post \<and> path = ''/api/v1/contact'' then [(''contact-ip'', peer r)] else [])
       @ (if path = ''/api/v1/auth/refresh'' then [(''refresh-ip'', peer r)] else []))"

definition guard_request :: "primitives \<Rightarrow> Settings \<Rightarrow> AuthSettings \<Rightarrow> HttpRequest \<Rightarrow> unit sess" where
  "guard_request k settings s r =
     seq (lift_result (check_origin s r))
    (bind (request_subject k r) (\<lambda>subject.
     for_each (request_rules subject r) (\<lambda>(scope, who).
       case map_of policies_table scope of
         None \<Rightarrow> raise KeyErrorPy scope
       | Some (limit, secs) \<Rightarrow> enforce (pm_hmac k) settings scope who limit (int secs) True)))"

end
