(* ===== verification/Registration.thy ===== *)
theory Registration
  imports Identity
begin

section \<open>Verified addresses (email_verification_service.py, public_content_service.py)\<close>

text \<open>
  A registration or a change of address is a challenge: a row with the HMAC of the newest
  code, limits on time and attempts, and the data of the account to be.  The mail is sent by a
  parameter that may raise; the code is the only thing it needs to know.
\<close>

subsection \<open>Public documents\<close>

definition current_content :: "string \<Rightarrow> db \<Rightarrow> PublicContentRevision option" where
  "current_content slug d =
     first_by (\<lambda>p. - int (pub_revision p)) (filter (\<lambda>p. pub_slug p = slug) (public_contents (account_tables d)))"

definition BUILTIN_LEGAL_VERSION :: string where
  "BUILTIN_LEGAL_VERSION = ''builtin:2026-10-05''"

definition legal_document_version :: "string \<Rightarrow> db \<Rightarrow> exn + string" where
  "legal_document_version slug d =
     (if slug \<notin> {''terms'', ''privacy''}
      then Inl (Exn ValueErrorPy ''Only Terms and Privacy have registration agreement versions.'')
      else Inr (case current_content slug d of
          None \<Rightarrow> BUILTIN_LEGAL_VERSION | Some p \<Rightarrow> ''published:'' @ int_str (int (pub_revision p))))"

record PublicContentUpdate =
  pcu_expected_revision :: nat
  pcu_title :: string
  pcu_body_markdown :: string
  pcu_change_note :: string

definition content_row :: "string \<Rightarrow> nat \<Rightarrow> PublicContentUpdate \<Rightarrow> User \<Rightarrow> datetime \<Rightarrow> PublicContentRevision" where
  "content_row slug revision p actor t = \<lparr>pub_slug = slug, pub_revision = revision, pub_title = pcu_title p,
     pub_body_markdown = pcu_body_markdown p, pub_change_note = pcu_change_note p,
     pub_created_by = Some (usr_id actor), pub_created_by_name = usr_full_name actor, pub_created_at = t\<rparr>"

definition is_integrity_error :: "exn \<Rightarrow> bool" where
  "is_integrity_error e \<longleftrightarrow> exn_class e = IntegrityError"

definition publish_content :: "string \<Rightarrow> PublicContentUpdate \<Rightarrow> User \<Rightarrow> PublicContentRevision sess" where
  "publish_content slug p actor =
     bind (query (current_content slug)) (\<lambda>current.
     let revision = (case current of None \<Rightarrow> 0 | Some c \<Rightarrow> pub_revision c) in
     seq (guard (revision = pcu_expected_revision p) ValueErrorPy ''Content changed. Reload before publishing.'')
    (bind now (\<lambda>t. let row = content_row slug (Suc revision) p actor t in
     seq (change (on_accounts (\<lambda>a. a\<lparr>public_contents := public_contents a @ [row]\<rparr>)))
    (seq (catch commit (\<lambda>e. if is_integrity_error e
        then seq rollback (raise ValueErrorPy ''Content changed. Reload before publishing.'') else reraise e))
       (ret row)))))"

definition content_history :: "string \<Rightarrow> nat \<Rightarrow> nat \<Rightarrow> db \<Rightarrow> PublicContentRevision list \<times> nat" where
  "content_history slug offset limit d =
     (let rows = filter (\<lambda>p. pub_slug p = slug) (public_contents (account_tables d))
      in (take limit (drop offset (sort_key (\<lambda>p. - int (pub_revision p)) rows)), length rows))"

subsection \<open>Challenges\<close>

abbreviation verification_error :: "int \<Rightarrow> string \<Rightarrow> 'a sess" where
  "verification_error status m \<equiv> raise (EmailVerificationError status) m"

definition set_verifications ::
  "(EmailVerification \<Rightarrow> bool) \<Rightarrow> (EmailVerification \<Rightarrow> EmailVerification) \<Rightarrow> unit sess" where
  "set_verifications p f =
     change (on_accounts (\<lambda>a. a\<lparr>email_verifications := update_where p f (email_verifications a)\<rparr>))"

definition drop_verifications :: "(EmailVerification \<Rightarrow> bool) \<Rightarrow> unit sess" where
  "drop_verifications p =
     change (on_accounts (\<lambda>a. a\<lparr>email_verifications := filter (\<lambda>v. \<not> p v) (email_verifications a)\<rparr>))"

definition find_verification :: "(EmailVerification \<Rightarrow> bool) \<Rightarrow> db \<Rightarrow> EmailVerification option" where
  "find_verification p d = find p (email_verifications (account_tables d))"

definition cleanup_expired :: "unit sess" where
  "cleanup_expired = bind now (\<lambda>t. seq (drop_verifications (\<lambda>v. emv_expires_at v \<le> t)) commit)"

text \<open>Six decimal digits.\<close>

fun dec_digits :: "nat \<Rightarrow> nat \<Rightarrow> string" where
  "dec_digits 0 n = []"
| "dec_digits (Suc w) n = dec_digits w (n div 10) @ [digit_char (n mod 10)]"

definition code_text :: "nat \<Rightarrow> string" where
  "code_text n = dec_digits 6 (n mod 1000000)"

definition code_hash :: "primitives \<Rightarrow> AuthSettings \<Rightarrow> uuid \<Rightarrow> string \<Rightarrow> string" where
  "code_hash k s i code = pm_hmac k (aus_jwt_secret s) (uuid_text i @ '':'' @ code)"

text \<open>What sends the mail with a code: recipient, code and deadline.\<close>

type_synonym code_mail = "string \<Rightarrow> string \<Rightarrow> datetime \<Rightarrow> unit sess"

definition send_code :: "primitives \<Rightarrow> AuthSettings \<Rightarrow> code_mail \<Rightarrow> EmailVerification \<Rightarrow> unit sess" where
  "send_code k s mail v =
     bind now (\<lambda>t.
     bind uuid4 (\<lambda>r. let code = code_text r in
     seq (set_verifications (\<lambda>x. emv_id x = emv_id v) (\<lambda>x. x\<lparr>emv_code_hash := code_hash k s (emv_id v) code,
        emv_sent_at := t, emv_code_expires_at := t + minutes (24 * 60)\<rparr>))
    (seq flush (mail (emv_email v) code (emv_expires_at v)))))"

definition too_soon :: "datetime \<Rightarrow> EmailVerification \<Rightarrow> bool" where
  "too_soon t v \<longleftrightarrow> t < emv_sent_at v + minutes 1"

definition msg_wait :: string where
  "msg_wait = ''Please wait 1 minute before requesting another code.''"

definition require_open_user :: "uuid option \<Rightarrow> unit sess" where
  "require_open_user user = (case user of
     None \<Rightarrow> ret ()
   | Some i \<Rightarrow> bind (query (closing i)) (\<lambda>c. guard (\<not> c) (EmailVerificationError 409) ''This account is closing.''))"

text \<open>The data of a registration: name, password, time of the agreement, document versions.\<close>

record Registration =
  reg_full_name :: "string option"
  reg_password :: "string option"
  reg_legal_agreement_at :: "datetime option"
  reg_terms_version :: "string option"
  reg_privacy_version :: "string option"

definition same_registration :: "primitives \<Rightarrow> Registration \<Rightarrow> EmailVerification \<Rightarrow> bool" where
  "same_registration k r v \<longleftrightarrow> emv_user_id v = None \<and>
     (case (reg_password r, emv_password_hash v) of (Some p, Some h) \<Rightarrow> pm_verify k p h | _ \<Rightarrow> False)"

definition msg_pending :: string where
  "msg_pending = ''This email has a pending verification. Complete it or try again after 24 hours.''"

text \<open>The pending challenge of the address that is answered again, if there is one.\<close>

definition pending_challenge ::
  "primitives \<Rightarrow> string \<Rightarrow> uuid option \<Rightarrow> Registration \<Rightarrow> EmailVerification option sess" where
  "pending_challenge k email user r =
     bind (query (find_verification (\<lambda>v. emv_email v = email))) (\<lambda>pending.
     case pending of
       None \<Rightarrow> ret None
     | Some v \<Rightarrow>
         if user \<noteq> None \<and> emv_user_id v = user then ret (Some v)
         else if user = None \<and> same_registration k r v
         then (if emv_terms_version v = reg_terms_version r \<and> emv_privacy_version v = reg_privacy_version r
               then ret (Some v)
               else seq (drop_verifications (\<lambda>x. emv_id x = emv_id v)) (seq flush (ret None)))
         else verification_error 409 msg_pending)"

definition replace_previous :: "uuid option \<Rightarrow> datetime \<Rightarrow> unit sess" where
  "replace_previous user t = (case user of
     None \<Rightarrow> ret ()
   | Some i \<Rightarrow>
       bind (query (find_verification (\<lambda>v. emv_user_id v = Some i))) (\<lambda>previous.
       case previous of
         None \<Rightarrow> ret ()
       | Some v \<Rightarrow> seq (guard (\<not> too_soon t v) (EmailVerificationError 429) msg_wait)
           (seq (drop_verifications (\<lambda>x. emv_id x = emv_id v)) flush)))"

definition new_challenge ::
  "uuid \<Rightarrow> string \<Rightarrow> uuid option \<Rightarrow> Registration \<Rightarrow> string option \<Rightarrow> datetime \<Rightarrow> EmailVerification" where
  "new_challenge i email user r password_hash t = \<lparr>emv_id = i, emv_email = email, emv_user_id = user,
     emv_full_name = reg_full_name r, emv_password_hash = password_hash, emv_code_hash = [], emv_sent_at = t,
     emv_code_expires_at = t + minutes (24 * 60), emv_expires_at = t + minutes (24 * 60), emv_attempts = 0,
     emv_legal_agreement_at = reg_legal_agreement_at r, emv_terms_version = reg_terms_version r,
     emv_privacy_version = reg_privacy_version r\<rparr>"

definition add_challenge :: "EmailVerification \<Rightarrow> unit sess" where
  "add_challenge v = change (on_accounts (\<lambda>a. a\<lparr>email_verifications := email_verifications a @ [v]\<rparr>))"

definition undo_on_error :: "string \<Rightarrow> 'a sess \<Rightarrow> 'a sess" where
  "undo_on_error m body = catch body (\<lambda>e. seq rollback
     (if is_integrity_error e then verification_error 409 m else reraise e))"

definition start_verification ::
  "primitives \<Rightarrow> AuthSettings \<Rightarrow> code_mail \<Rightarrow> string \<Rightarrow> uuid option \<Rightarrow> Registration \<Rightarrow> uuid sess" where
  "start_verification k s mail email user r =
     seq cleanup_expired
    (seq (require_open_user user)
    (bind (query (user_by_email email)) (\<lambda>existing.
     seq (guard (existing = None) (EmailVerificationError 409) ''An account with this email already exists'')
    (bind (pending_challenge k email user r) (\<lambda>pending.
     case pending of
       Some v \<Rightarrow> ret (emv_id v)
     | None \<Rightarrow>
         bind now (\<lambda>t.
         seq (replace_previous user t)
        (bind uuid4 (\<lambda>i.
         bind (case reg_password r of None \<Rightarrow> ret None
               | Some p \<Rightarrow> if p = [] then ret None else bind (hash_password k p) (\<lambda>h. ret (Some h))) (\<lambda>h.
         let v = new_challenge i email user r h t in
         seq (add_challenge v)
        (seq (undo_on_error ''This email already has an account or pending verification.''
           (seq (send_code k s mail v) commit)) (ret i)))))))))))"

text \<open>\<open>/register\<close>: the versions of the documents that are current now.\<close>

definition register :: "primitives \<Rightarrow> AuthSettings \<Rightarrow> code_mail \<Rightarrow> string \<Rightarrow> string \<Rightarrow> string \<Rightarrow> uuid sess" where
  "register k s mail email name secret =
     bind now (\<lambda>t.
     bind (query (legal_document_version ''terms'')) (\<lambda>terms.
     bind (lift_result terms) (\<lambda>terms.
     bind (query (legal_document_version ''privacy'')) (\<lambda>privacy.
     bind (lift_result privacy) (\<lambda>privacy.
       start_verification k s mail email None
         \<lparr>reg_full_name = Some name, reg_password = Some secret, reg_legal_agreement_at = Some t,
          reg_terms_version = Some terms, reg_privacy_version = Some privacy\<rparr>)))))"

definition no_registration :: Registration where
  "no_registration = \<lparr>reg_full_name = None, reg_password = None, reg_legal_agreement_at = None,
     reg_terms_version = None, reg_privacy_version = None\<rparr>"

definition MAX_CODE_ATTEMPTS :: nat where "MAX_CODE_ATTEMPTS = 50"

definition live_challenge :: "uuid \<Rightarrow> uuid option \<Rightarrow> datetime \<Rightarrow> bool \<Rightarrow> EmailVerification \<Rightarrow> bool" where
  "live_challenge i user t counted v \<longleftrightarrow> emv_id v = i \<and> emv_user_id v = user \<and> emv_expires_at v > t
     \<and> (counted \<longrightarrow> emv_attempts v < MAX_CODE_ATTEMPTS)"

definition lock_challenge :: "uuid \<Rightarrow> uuid option \<Rightarrow> bool \<Rightarrow> EmailVerification sess" where
  "lock_challenge i user counted =
     seq (require_open_user user)
    (bind now (\<lambda>t.
     bind (query (\<lambda>d. rowcount (live_challenge i user t counted) (email_verifications (account_tables d)))) (\<lambda>n.
     seq (set_verifications (live_challenge i user t counted)
        (\<lambda>v. v\<lparr>emv_attempts := emv_attempts v + (if counted then 1 else 0)\<rparr>))
    (if n \<noteq> 1
     then seq rollback (seq cleanup_expired (verification_error 410
        ''Verification expired, was completed, or has too many attempts. Start again after expiry.''))
     else bind (query (find_verification (\<lambda>v. emv_id v = i))) (\<lambda>v. lift_result (the_value AttributeErrorPy v))))))"

definition resend_code :: "primitives \<Rightarrow> AuthSettings \<Rightarrow> code_mail \<Rightarrow> uuid \<Rightarrow> uuid option \<Rightarrow> unit sess" where
  "resend_code k s mail i user =
     bind (lock_challenge i user False) (\<lambda>v.
     catch
      (seq (guard (emv_attempts v < MAX_CODE_ATTEMPTS) (EmailVerificationError 429)
          ''Too many incorrect codes. Start again after this attempt expires.'')
      (bind now (\<lambda>t.
       seq (guard (\<not> too_soon t v) (EmailVerificationError 429) msg_wait)
      (seq (send_code k s mail v) commit))))
      (\<lambda>e. seq rollback (reraise e)))"

definition new_user :: "uuid \<Rightarrow> string \<Rightarrow> string \<Rightarrow> string \<Rightarrow> UserRole \<Rightarrow> bool \<Rightarrow> datetime \<Rightarrow> User" where
  "new_user i email name password_hash role super created = \<lparr>usr_id = i, usr_email = email, usr_full_name = name,
     usr_auth_version = 0, usr_is_active = True, usr_closure_requested_at = None, usr_role = role,
     usr_is_super_admin = super, usr_created_at = created, usr_password_hash = password_hash,
     usr_legal_agreement_at = None, usr_terms_version = None, usr_privacy_version = None\<rparr>"

definition create_user :: "User \<Rightarrow> User sess" where
  "create_user u = seq (change (\<lambda>d. d\<lparr>users := users d @ [u]\<rparr>)) (seq flush (ret u))"

text \<open>The account of a verified registration; its columns may not be NULL.\<close>

definition registered_user :: "EmailVerification \<Rightarrow> User sess" where
  "registered_user v =
     bind uuid4 (\<lambda>i. bind now (\<lambda>t.
     bind (lift_result (the_value IntegrityError (emv_full_name v))) (\<lambda>name.
     bind (lift_result (the_value IntegrityError (emv_password_hash v))) (\<lambda>h.
       create_user ((new_user i (emv_email v) name h RoleUser False t)
         \<lparr>usr_legal_agreement_at := emv_legal_agreement_at v, usr_terms_version := emv_terms_version v,
          usr_privacy_version := emv_privacy_version v\<rparr>)))))"

definition msg_code :: string where
  "msg_code = ''The code is incorrect or expired. Use the latest code sent to your email.''"

definition msg_documents :: string where
  "msg_documents = ''Terms or Privacy Notice changed during registration. Start again to review the current documents.''"

datatype confirmation = AddressChanged uuid | Registered IssuedTokens

text \<open>The documents a registration agreed to are still the current ones.\<close>

definition check_documents :: "EmailVerification \<Rightarrow> unit sess" where
  "check_documents v =
     bind (query (legal_document_version ''terms'')) (\<lambda>terms.
     bind (lift_result terms) (\<lambda>terms.
     bind (query (legal_document_version ''privacy'')) (\<lambda>privacy.
     bind (lift_result privacy) (\<lambda>privacy.
     if emv_legal_agreement_at v = None \<or> emv_terms_version v \<noteq> Some terms \<or> emv_privacy_version v \<noteq> Some privacy
     then seq (drop_verifications (\<lambda>x. emv_id x = emv_id v)) (seq commit (verification_error 409 msg_documents))
     else ret ()))))"

definition complete_challenge :: "primitives \<Rightarrow> AuthSettings \<Rightarrow> uuid option \<Rightarrow> EmailVerification \<Rightarrow> confirmation sess" where
  "complete_challenge k s user v =
     bind (query (user_by_email (emv_email v))) (\<lambda>existing.
     seq (guard (existing = None) (EmailVerificationError 409) ''An account with this email already exists'')
    (bind (case user of
         Some i \<Rightarrow> seq (set_user i (\<lambda>u. u\<lparr>usr_email := emv_email v\<rparr>)) (ret (AddressChanged i))
       | None \<Rightarrow>
           bind (registered_user v) (\<lambda>u.
           seq (enroll_registration u)
          (bind (start_session k s u) (\<lambda>tokens. ret (Registered tokens))))) (\<lambda>result.
     seq (drop_verifications (\<lambda>x. emv_id x = emv_id v))
    (seq commit (ret result)))))"

definition confirm_code :: "primitives \<Rightarrow> AuthSettings \<Rightarrow> uuid \<Rightarrow> string \<Rightarrow> uuid option \<Rightarrow> confirmation sess" where
  "confirm_code k s i code user =
     seq (require_open_user user)
    (bind (lock_challenge i user True) (\<lambda>v.
     bind now (\<lambda>t.
     if t \<ge> emv_code_expires_at v \<or> emv_code_hash v \<noteq> code_hash k s i code
     then seq commit (verification_error 400 msg_code)
     else seq (if user = None then check_documents v else ret ())
       (undo_on_error ''An account with this email already exists'' (complete_challenge k s user v)))))"

end
