(* ===== verification/Credentials.thy ===== *)
theory Credentials
  imports Registration
begin

section \<open>Passwords and profiles (password_recovery_service.py, user_profile_service.py)\<close>

text \<open>
  A reset link works once, for half an hour, and only while the account still has the password
  and address it had when the link was made.  Every change of the password raises the version
  that tokens carry, revokes the sessions and drops the pending challenges, in one transaction.
\<close>

subsection \<open>Recovery\<close>

text \<open>\<open>secrets.token_urlsafe\<close>: the digits of a random number to the base 64.\<close>

definition urlsafe_alphabet :: string where
  "urlsafe_alphabet = ''ABCDEFGHIJKLMNOPQRSTUVWXYZabcdefghijklmnopqrstuvwxyz0123456789-_''"

fun urlsafe_digits :: "nat \<Rightarrow> nat \<Rightarrow> string" where
  "urlsafe_digits 0 n = []"
| "urlsafe_digits (Suc w) n = urlsafe_digits w (n div 64) @ [urlsafe_alphabet ! (n mod 64)]"

definition token_urlsafe :: "nat \<Rightarrow> string sess" where
  "token_urlsafe bytes = bind uuid4 (\<lambda>r. ret (urlsafe_digits ((4 * bytes + 2) div 3) r))"

definition fingerprint :: "primitives \<Rightarrow> User \<Rightarrow> string" where
  "fingerprint k u = pm_digest k (usr_password_hash u @ '':'' @ usr_email u)"

definition set_resets :: "(PasswordReset list \<Rightarrow> PasswordReset list) \<Rightarrow> unit sess" where
  "set_resets f = change (on_accounts (\<lambda>a. a\<lparr>password_resets := f (password_resets a)\<rparr>))"

definition new_reset :: "primitives \<Rightarrow> User \<Rightarrow> string \<Rightarrow> datetime \<Rightarrow> PasswordReset" where
  "new_reset k u token t = \<lparr>prs_user_id = usr_id u, prs_token_hash = pm_digest k token, prs_email = usr_email u,
     prs_credential_fingerprint = fingerprint k u, prs_expires_at = t + minutes 30, prs_consumed_at = None\<rparr>"

definition public_base :: "AuthSettings \<Rightarrow> exn + unit" where
  "public_base s = (if \<not> aus_production s then Inr ()
     else rbind (urlsplit (aus_frontend_base_url s)) (\<lambda>p.
       require (scheme p = ''https'' \<and> hostname p \<notin> {''localhost'', ''127.0.0.1'', ''::1''}) ValueErrorPy
         ''A public HTTPS FRONTEND_BASE_URL is required''))"

definition recovery_link :: "AuthSettings \<Rightarrow> string \<Rightarrow> string" where
  "recovery_link s token = aus_frontend_base_url s @ ''/radar/reset-password#token='' @ token"

text \<open>The mail with a link; every failure is swallowed.\<close>

definition send_recovery ::
  "primitives \<Rightarrow> AuthSettings \<Rightarrow> (string \<Rightarrow> string \<Rightarrow> unit sess) \<Rightarrow> string \<Rightarrow> unit sess" where
  "send_recovery k s mail email =
     catch (with_session
      (bind (query (\<lambda>d. find (\<lambda>u. usr_email u = email \<and> usr_is_active u) (users d))) (\<lambda>found.
       case found of
         None \<Rightarrow> ret ()
       | Some u \<Rightarrow>
           bind now (\<lambda>t.
           bind (token_urlsafe 32) (\<lambda>token.
           seq (set_resets (\<lambda>rs. filter (\<lambda>r. prs_user_id r \<noteq> usr_id u) rs @ [new_reset k u token t]))
          (seq commit
          (seq (lift_result (public_base s))
            (mail email (recovery_link s token)))))))))
      (\<lambda>e. ret ())"

definition msg_invalid_link :: string where
  "msg_invalid_link = ''This reset link is invalid or expired. Please request a new one.''"

definition invalid_link :: "'a sess" where
  "invalid_link = seq rollback (raise (HttpError 400) msg_invalid_link)"

definition open_reset :: "string \<Rightarrow> datetime \<Rightarrow> PasswordReset \<Rightarrow> bool" where
  "open_reset digest t r \<longleftrightarrow> prs_token_hash r = digest \<and> prs_consumed_at r = None \<and> prs_expires_at r > t"

definition consume_reset :: "string \<Rightarrow> datetime \<Rightarrow> bool sess" where
  "consume_reset digest t =
     bind (query (\<lambda>d. rowcount (open_reset digest t) (password_resets (account_tables d)))) (\<lambda>n.
     seq (set_resets (update_where (open_reset digest t) (\<lambda>r. r\<lparr>prs_consumed_at := Some t\<rparr>))) (ret (n = 1)))"

text \<open>The password is replaced where the account still is as it was read; the other services
  do the same with their own conditions.\<close>

definition replace_password :: "(User \<Rightarrow> bool) \<Rightarrow> string \<Rightarrow> bool sess" where
  "replace_password p h =
     bind (query (\<lambda>d. rowcount p (users d))) (\<lambda>n.
     seq (change (\<lambda>d. d\<lparr>users := update_where p
        (\<lambda>u. u\<lparr>usr_password_hash := h, usr_auth_version := usr_auth_version u + 1\<rparr>) (users d)\<rparr>))
       (ret (n = 1)))"

definition unchanged_user :: "User \<Rightarrow> User \<Rightarrow> bool" where
  "unchanged_user u x \<longleftrightarrow> usr_id x = usr_id u \<and> usr_is_active x \<and> usr_password_hash x = usr_password_hash u
     \<and> usr_auth_version x = usr_auth_version u"

definition reset_password :: "primitives \<Rightarrow> string \<Rightarrow> string \<Rightarrow> string sess" where
  "reset_password k token secret =
     bind now (\<lambda>t. let digest = pm_digest k token in
     bind (query (\<lambda>d. find (\<lambda>r. prs_token_hash r = digest) (password_resets (account_tables d)))) (\<lambda>found.
     bind (query (\<lambda>d. Option.bind found (\<lambda>r. find_user (prs_user_id r) d))) (\<lambda>user.
     case (found, user) of
       (Some r, Some u) \<Rightarrow>
         if \<not> usr_is_active u \<or> fingerprint k u \<noteq> prs_credential_fingerprint r then invalid_link
         else bind (hash_password k secret) (\<lambda>h.
           bind (consume_reset digest t) (\<lambda>consumed.
           if \<not> consumed then invalid_link
           else bind (replace_password (\<lambda>x. unchanged_user u x \<and> usr_email x = prs_email r) h) (\<lambda>changed.
             if \<not> changed then invalid_link
             else seq (revoke_all_for_user (usr_id u))
              (seq (drop_verifications (\<lambda>v. emv_user_id v = Some (usr_id u)))
              (seq commit (ret (prs_email r)))))))
     | _ \<Rightarrow> invalid_link)))"

definition cleanup_recovery :: "unit sess" where
  "cleanup_recovery = bind now (\<lambda>t. seq (set_resets (filter (\<lambda>r. \<not> prs_expires_at r \<le> t))) commit)"

subsection \<open>The own profile\<close>

record ProfileUpdate =
  upd_email :: "string option"
  upd_full_name :: "string option"

definition loaded_user :: "uuid \<Rightarrow> User sess" where
  "loaded_user i = bind (query (find_user i)) (\<lambda>u. lift_result (the_value AttributeErrorPy u))"

definition conflict_on_commit :: "exn_class \<Rightarrow> unit sess" where
  "conflict_on_commit c = catch commit (\<lambda>e. if is_integrity_error e
     then seq rollback (raise c ''An account with this email already exists'') else reraise e)"

definition named :: "string option \<Rightarrow> User \<Rightarrow> User" where
  "named name u = (case name of None \<Rightarrow> u | Some n \<Rightarrow> u\<lparr>usr_full_name := n\<rparr>)"

definition update_profile :: "uuid \<Rightarrow> ProfileUpdate \<Rightarrow> User sess" where
  "update_profile i c =
     bind (loaded_user i) (\<lambda>u.
     seq (guard (usr_closure_requested_at u = None) ProfileEmailConflictError
        ''This account is closing and cannot be edited.'')
    (seq (guard (upd_email c = None \<or> upd_email c = Some (usr_email u)) ProfileEmailConflictError
        ''Verify your new email address before changing it.'')
    (seq (set_user i (named (upd_full_name c)))
    (seq (conflict_on_commit ProfileEmailConflictError) (loaded_user i)))))"

definition change_password :: "primitives \<Rightarrow> User \<Rightarrow> string \<Rightarrow> string \<Rightarrow> unit sess" where
  "change_password k u current secret =
     seq (guard (pm_verify k current (usr_password_hash u)) CurrentPasswordInvalidError ''Current password is incorrect'')
    (seq (guard (\<not> pm_verify k secret (usr_password_hash u)) PasswordReuseError
        ''New password must be different from the current password'')
    (bind (hash_password k secret) (\<lambda>h.
     bind (replace_password (unchanged_user u) h) (\<lambda>changed.
     if \<not> changed
     then seq rollback (raise CurrentPasswordInvalidError ''Your account changed. Please sign in again.'')
     else seq (drop_verifications (\<lambda>v. emv_user_id v = Some (usr_id u)))
       (seq (revoke_all_for_user (usr_id u)) commit)))))"

subsection \<open>Administration of accounts (admin_user_service.py, super_admin_service.py)\<close>

record AdminUserUpdate =
  adu_email :: "string option"
  adu_full_name :: "string option"
  adu_is_active :: "bool option"

abbreviation forbidden :: "string \<Rightarrow> 'a sess" where
  "forbidden m \<equiv> raise AdminActionForbiddenError m"

text \<open>The account an administrator may manage.\<close>

definition managed_user :: "User \<Rightarrow> uuid \<Rightarrow> User sess" where
  "managed_user actor i =
     bind (query (find_user i)) (\<lambda>found.
     case found of
       None \<Rightarrow> raise UserNotFoundError ''User not found''
     | Some u \<Rightarrow>
         if usr_is_super_admin u \<and> \<not> usr_is_super_admin actor
         then forbidden ''Only the super-admin can manage the super-admin account'' else ret u)"

definition require_open_target :: "User \<Rightarrow> unit sess" where
  "require_open_target u = guard (usr_closure_requested_at u = None) AdminActionForbiddenError
     ''Account closure is irreversible. This account cannot be edited or reactivated.''"

definition outdate_sessions :: "uuid \<Rightarrow> unit sess" where
  "outdate_sessions i =
     seq (set_user i (\<lambda>u. u\<lparr>usr_auth_version := usr_auth_version u + 1\<rparr>)) (revoke_all_for_user i)"

definition apply_admin_update :: "AdminUserUpdate \<Rightarrow> User \<Rightarrow> User" where
  "apply_admin_update c u =
     (let u = (case adu_email c of None \<Rightarrow> u | Some e \<Rightarrow> u\<lparr>usr_email := e\<rparr>); u = named (adu_full_name c) u
      in case adu_is_active c of None \<Rightarrow> u | Some b \<Rightarrow> u\<lparr>usr_is_active := b\<rparr>)"

definition changes_address :: "AdminUserUpdate \<Rightarrow> User \<Rightarrow> bool" where
  "changes_address c u \<longleftrightarrow> adu_email c \<noteq> None \<and> adu_email c \<noteq> Some (usr_email u)"

definition update_user :: "User \<Rightarrow> uuid \<Rightarrow> AdminUserUpdate \<Rightarrow> User sess" where
  "update_user actor i c =
     bind (managed_user actor i) (\<lambda>u.
     seq (require_open_target u)
    (seq (if adu_is_active c = Some False
          then seq (guard (\<not> usr_is_super_admin u) AdminActionForbiddenError ''The super-admin cannot be deactivated'')
            (guard (usr_id u \<noteq> usr_id actor) AdminActionForbiddenError
               ''Administrators cannot deactivate their own account'')
          else ret ())
    (bind (query (\<lambda>d. case adu_email c of None \<Rightarrow> None | Some e \<Rightarrow> user_by_email e d)) (\<lambda>existing.
     seq (guard (\<not> (changes_address c u \<and> (case existing of None \<Rightarrow> False | Some x \<Rightarrow> usr_id x \<noteq> usr_id u)))
        UserEmailConflictError ''An account with this email already exists'')
    (seq (set_user i (apply_admin_update c))
    (seq (if adu_is_active c = Some False \<or> changes_address c u then outdate_sessions i else ret ())
    (seq (conflict_on_commit UserEmailConflictError) (loaded_user i))))))))"

text \<open>The pending attributes of the row are written together, at the commit.\<close>

definition with_role :: "UserRole \<Rightarrow> User \<Rightarrow> User" where
  "with_role r u = u\<lparr>usr_auth_version := usr_auth_version u + (if usr_role u \<noteq> r then 1 else 0), usr_role := r\<rparr>"

definition set_role :: "User \<Rightarrow> uuid \<Rightarrow> UserRole \<Rightarrow> User sess" where
  "set_role actor i r =
     bind (managed_user actor i) (\<lambda>u.
     seq (require_open_target u)
    (seq (guard (r = RoleAdmin \<or> \<not> usr_is_super_admin u) AdminActionForbiddenError ''The super-admin cannot be demoted'')
    (seq (guard (r = RoleAdmin \<or> usr_id u \<noteq> usr_id actor) AdminActionForbiddenError
        ''Administrators cannot demote their own account'')
    (seq (if usr_role u \<noteq> r then revoke_all_for_user i else ret ())
    (seq (set_user i (with_role r))
    (seq (conflict_on_commit UserEmailConflictError) (loaded_user i)))))))"

definition delete_user :: "User \<Rightarrow> uuid \<Rightarrow> unit sess" where
  "delete_user actor i =
     bind (managed_user actor i) (\<lambda>u.
     if usr_is_super_admin u then forbidden ''The super-admin cannot be deleted''
     else if usr_id u = usr_id actor then forbidden ''Administrators cannot delete their own account''
     else forbidden ''Use Close account with password confirmation. Direct deletion is unavailable.'')"

text \<open>The settings of the system account.\<close>

record SuperAdminSettings =
  sup_email :: string
  sup_full_name :: string
  sup_password :: string

definition super_admin_of :: "db \<Rightarrow> User option" where
  "super_admin_of d = find usr_is_super_admin (users d)"

definition bootstrap_super_admin :: "primitives \<Rightarrow> SuperAdminSettings \<Rightarrow> bool \<Rightarrow> uuid sess" where
  "bootstrap_super_admin k s create =
     bind (query super_admin_of) (\<lambda>found.
     bind (case found of
         Some u \<Rightarrow> ret (usr_id u)
       | None \<Rightarrow>
           bind (query (user_by_email (lower (sup_email s)))) (\<lambda>configured.
           case configured of
             Some u \<Rightarrow> bind (hash_password k (sup_password s)) (\<lambda>h.
               seq (set_user (usr_id u) (\<lambda>x. x\<lparr>usr_password_hash := h\<rparr>)) (ret (usr_id u)))
           | None \<Rightarrow>
               if \<not> create then raise RuntimeErrorPy ''Super-admin bootstrap did not produce an account''
               else bind (hash_password k (sup_password s)) (\<lambda>h.
                 bind uuid4 (\<lambda>i. bind now (\<lambda>t.
                 bind (create_user (new_user i (lower (sup_email s)) (sup_full_name s) h RoleAdmin True t)) (\<lambda>u.
                   ret (usr_id u))))))) (\<lambda>i.
     seq (set_user i (\<lambda>x. x\<lparr>usr_role := RoleAdmin, usr_is_active := True, usr_is_super_admin := True\<rparr>))
    (seq commit (ret i))))"

definition ensure_super_admin :: "primitives \<Rightarrow> SuperAdminSettings \<Rightarrow> uuid sess" where
  "ensure_super_admin k s =
     catch (bootstrap_super_admin k s True) (\<lambda>e. seq rollback
       (if is_integrity_error e then bootstrap_super_admin k s False else reraise e))"

end
