(* ===== verification/ClosureBilling.thy ===== *)
theory ClosureBilling
  imports Credentials Checkouts
begin

section \<open>Ending the billing of a closing account (account_closure_billing.py)\<close>

text \<open>
  A closing account must not leave a subscription behind.  Each checkout attempt is read from
  Stripe, expired or cancelled, and read again; whatever cannot be settled automatically is
  returned as an issue for an operator.  Nothing is charged, refunded or replayed, and a list
  is never taken for complete unless Stripe says so.
\<close>

subsection \<open>Lists\<close>

definition is_unreserved :: "char \<Rightarrow> bool" where
  "is_unreserved c \<longleftrightarrow> is_alpha c \<or> is_digit c \<or> c \<in> set ''_.-~''"

definition quote_char :: "char \<Rightarrow> string" where
  "quote_char c = (if is_unreserved c then [c] else if c = CHR '' '' then ''+''
     else ''%'' @ [''0123456789ABCDEF'' ! (of_char c div 16), ''0123456789ABCDEF'' ! (of_char c mod 16)])"

definition quote_plus :: "string \<Rightarrow> string" where
  "quote_plus t = concat (map quote_char t)"

fun urlencode :: "parameters \<Rightarrow> string" where
  "urlencode [] = []"
| "urlencode [(k, v)] = quote_plus k @ ''='' @ quote_plus v"
| "urlencode ((k, v) # p # ps) = quote_plus k @ ''='' @ quote_plus v @ ''&'' @ urlencode (p # ps)"

definition msg_inventory :: string where
  "msg_inventory = ''Stripe returned an invalid billing inventory.''"

definition inventory_page :: "json \<Rightarrow> exn + json list" where
  "inventory_page result =
     rbind (jget result ''data'') (\<lambda>items. rbind (jget result ''object'') (\<lambda>kind.
     if kind \<noteq> JStr ''list'' then Inl (billing 502 msg_inventory)
     else case items of JList js \<Rightarrow> Inr js | _ \<Rightarrow> Inl (billing 502 msg_inventory)))"

definition inventory_item :: "Settings \<Rightarrow> json \<Rightarrow> exn + unit" where
  "inventory_item s item = (case item of
     JObj kvs \<Rightarrow> require (lookup_or JNull kvs ''livemode'' = JBool (set_stripe_livemode s)) (BillingError 502)
       ''Stripe billing inventory has an unexpected mode.''
   | _ \<Rightarrow> Inl (billing 502 ''Stripe billing inventory has an unexpected mode.''))"

text \<open>The items are handed out one by one, each before the next one is looked at.\<close>

fun each_item :: "Settings \<Rightarrow> (json \<Rightarrow> 'a list sess) \<Rightarrow> json list \<Rightarrow> 'a list sess" where
  "each_item s f [] = ret []"
| "each_item s f (item # rest) =
     seq (lift_result (inventory_item s item))
    (bind (f item) (\<lambda>xs. bind (each_item s f rest) (\<lambda>ys. ret (xs @ ys))))"

definition next_cursor :: "json list \<Rightarrow> string option \<Rightarrow> exn + string" where
  "next_cursor items cursor =
     (case rev items of
        [] \<Rightarrow> Inl (billing 502 ''Stripe billing inventory pagination is incomplete.'')
      | item # _ \<Rightarrow> rbind (jget item ''id'') (\<lambda>i. case jstring i of
            None \<Rightarrow> Inl (billing 502 ''Stripe billing inventory pagination is incomplete.'')
          | Some c \<Rightarrow> if Some c = cursor then Inl (billing 502 ''Stripe billing inventory pagination is incomplete.'')
              else Inr c))"

fun listed_pages :: "nat \<Rightarrow> Settings \<Rightarrow> string \<Rightarrow> parameters \<Rightarrow> (json \<Rightarrow> 'a list sess) \<Rightarrow> string option \<Rightarrow> 'a list sess" where
  "listed_pages 0 s p params f cursor =
     raise (BillingError 502) ''Billing history exceeds automatic closure limits. Contact support.''"
| "listed_pages (Suc n) s p params f cursor =
     bind (get_object s (p @ ''?'' @ urlencode (params @ [(''limit'', ''100'')]
        @ (case cursor of Some c \<Rightarrow> if c = [] then [] else [(''starting_after'', c)] | None \<Rightarrow> [])))) (\<lambda>result.
     bind (lift_result (inventory_page result)) (\<lambda>items.
     bind (each_item s f items) (\<lambda>xs.
     bind (lift_result (jget result ''has_more'')) (\<lambda>more.
     if more = JBool False then ret xs
     else bind (lift_result (next_cursor items cursor)) (\<lambda>c.
       bind (listed_pages n s p params f (Some c)) (\<lambda>ys. ret (xs @ ys)))))))"

definition listed :: "Settings \<Rightarrow> string \<Rightarrow> parameters \<Rightarrow> (json \<Rightarrow> 'a list sess) \<Rightarrow> 'a list sess" where
  "listed s p params f = listed_pages 20 s p params f None"

subsection \<open>One checkout attempt\<close>

definition verify_closing_checkout :: "json \<Rightarrow> Checkout \<Rightarrow> exn + unit" where
  "verify_closing_checkout value row =
     rseq (tagged value row)
       (refuse_if
         [test (\<lambda>v. v \<noteq> JStr ''checkout.session'') (jget value ''object''),
          test (\<lambda>v. v \<noteq> JStr ''subscription'') (jget value ''mode''),
          test (\<lambda>v. v \<noteq> JStr (uuid_text (co_id row))) (jget value ''client_reference_id''),
          test (\<lambda>v. has_text (co_checkout_id row) \<and> v \<noteq> jtext (co_checkout_id row)) (jget value ''id'')]
         (billing 502 ''Stripe checkout does not match this account.''))"

definition closure_key :: "uuid \<Rightarrow> string \<Rightarrow> string" where
  "closure_key i suffix = ''radar-close-'' @ uuid_text i @ ''-'' @ suffix"

definition verified_session :: "Settings \<Rightarrow> string \<Rightarrow> uuid \<Rightarrow> json sess" where
  "verified_session s p i =
     bind (get_object s p) (\<lambda>value.
     bind (load_checkout i) (\<lambda>row.
     seq (lift_result (verify_closing_checkout value row)) (ret value)))"

definition expired_session :: "Settings \<Rightarrow> string \<Rightarrow> uuid \<Rightarrow> json sess" where
  "expired_session s p i =
     bind (verified_session s p i) (\<lambda>value.
     bind (lift_result (jget value ''status'')) (\<lambda>status.
     if status = JStr ''open''
     then seq (bind (request s ''POST'' (p @ ''/expire'') [] (Some (closure_key i ''expire''))) (\<lambda>_. ret ()))
       (verified_session s p i)
     else ret value))"

definition link_subscription :: "uuid \<Rightarrow> json \<Rightarrow> unit sess" where
  "link_subscription i linked =
     (if \<not> truthy linked then ret ()
      else bind (load_checkout i) (\<lambda>row.
        seq (guard (\<not> (has_text (co_subscription_id row) \<and> jtext (co_subscription_id row) \<noteq> linked)) (BillingError 502)
           ''Checkout subscription changed unexpectedly.'')
       (bind (lift_result (stripe_id ''sub_'' linked)) (\<lambda>sub.
          set_checkout i (\<lambda>c. c\<lparr>co_subscription_id := Some sub\<rparr>)))))"

definition close_session :: "Settings \<Rightarrow> uuid \<Rightarrow> unit sess" where
  "close_session s i =
     bind (load_checkout i) (\<lambda>row.
     bind (lift_result (stripe_id (session_prefix (co_livemode row)) (jtext (co_checkout_id row)))) (\<lambda>cid.
     bind (expired_session s (''checkout/sessions/'' @ cid) i) (\<lambda>value.
     bind (lift_result (jget value ''status'')) (\<lambda>status.
     seq (guard (status \<in> {JStr ''expired'', JStr ''complete''}) (BillingError 502)
        ''Stripe has not confirmed checkout expiry.'')
    (seq (set_checkout i (\<lambda>c. c\<lparr>co_checkout_status := price_text status\<rparr>))
    (bind (lift_result (map_sum id ref (jget value ''subscription''))) (\<lambda>linked.
     seq (link_subscription i linked)
       (guard (\<not> (status = JStr ''complete'' \<and> \<not> truthy linked)) (BillingError 502)
          ''A completed checkout is still awaiting its subscription.''))))))))"

subsection \<open>The subscription\<close>

definition own_subscription :: "Settings \<Rightarrow> string \<Rightarrow> Checkout \<Rightarrow> json sess" where
  "own_subscription s p row =
     bind (get_object s p) (\<lambda>value. seq (lift_result (tagged value row)) (ret value))"

definition status_of :: "json \<Rightarrow> exn + json" where
  "status_of value = jget value ''status''"

definition is_terminal :: "json \<Rightarrow> bool" where
  "is_terminal status \<longleftrightarrow> status \<in> JStr ` TERMINAL"

definition cancel_parameters :: parameters where
  "cancel_parameters = [(''invoice_now'', ''false''), (''prorate'', ''false'')]"

definition live_schedule :: "json \<Rightarrow> bool" where
  "live_schedule status \<longleftrightarrow> status \<in> {JStr ''active'', JStr ''not_started''}"

definition schedule_is_foreign :: "json \<Rightarrow> json \<Rightarrow> string \<Rightarrow> Checkout \<Rightarrow> exn + bool" where
  "schedule_is_foreign schedule sid customer row =
     any_of [test (\<lambda>v. v \<noteq> sid) (jget schedule ''id''),
       test (\<lambda>v. ref v \<noteq> JStr customer) (jget schedule ''customer''),
       rbind (status_of schedule) (\<lambda>st. if live_schedule st
         then test (\<lambda>v. ref v \<noteq> jtext (co_subscription_id row)) (jget schedule ''subscription'') else Inr False)]"

definition cancel_schedule :: "Settings \<Rightarrow> Checkout \<Rightarrow> string \<Rightarrow> json \<Rightarrow> unit sess" where
  "cancel_schedule s row customer sid =
     bind (lift_result (stripe_id ''sub_sched_'' sid)) (\<lambda>sched.
     bind (get_object s (''subscription_schedules/'' @ sched)) (\<lambda>schedule.
     bind (lift_result (schedule_is_foreign schedule sid customer row)) (\<lambda>foreign.
     seq (guard (\<not> foreign) (BillingError 502) ''Stripe schedule ownership could not be verified.'')
    (bind (lift_result (status_of schedule)) (\<lambda>st.
     only_if (live_schedule st)
       (bind (request s ''POST'' (''subscription_schedules/'' @ sched @ ''/cancel'') cancel_parameters
          (Some (closure_key (co_id row) sched))) (\<lambda>_. ret ())))))))"

definition cancelled_subscription :: "Settings \<Rightarrow> string \<Rightarrow> Checkout \<Rightarrow> json \<Rightarrow> json sess" where
  "cancelled_subscription s p row value =
     bind (lift_result (status_of value)) (\<lambda>st.
     if is_terminal st then ret value
     else seq (bind (request s ''DELETE'' p cancel_parameters None) (\<lambda>_. ret ())) (own_subscription s p row))"

definition check_ended :: "Settings \<Rightarrow> json \<Rightarrow> unit sess" where
  "check_ended s value =
     bind (lift_result (status_of value)) (\<lambda>st.
     seq (guard (is_terminal st) (BillingError 502) ''Stripe has not confirmed final subscription cancellation.'')
    (bind (lift_result (jget value ''schedule'')) (\<lambda>schedule.
     if \<not> truthy schedule then ret ()
     else bind (lift_result (stripe_id ''sub_sched_'' (ref schedule))) (\<lambda>sched.
       bind (get_object s (''subscription_schedules/'' @ sched)) (\<lambda>found.
       bind (lift_result (status_of found)) (\<lambda>st.
       guard (st \<in> {JStr ''canceled'', JStr ''completed'', JStr ''released''}) (BillingError 502)
         ''Stripe has not confirmed schedule cancellation.''))))))"

definition issue :: "string \<Rightarrow> string \<Rightarrow> ClosureIssue" where
  "issue kind reference = \<lparr>iss_kind = kind, iss_reference = reference, iss_attempt_id = None\<rparr>"

definition unsettled_invoice :: "Settings \<Rightarrow> Checkout \<Rightarrow> string \<Rightarrow> json \<Rightarrow> ClosureIssue list sess" where
  "unsettled_invoice s row customer invoice =
     bind (lift_result (map_sum id ref (jget invoice ''customer''))) (\<lambda>owner.
     seq (guard (owner = JStr customer) (BillingError 502) ''Stripe returned an invoice for a different customer.'')
    (bind (lift_result (status_of invoice)) (\<lambda>st.
     if st \<notin> {JStr ''open'', JStr ''draft''} then ret []
     else bind (lift_result (rbind (jget invoice ''id'') (stripe_id ''in_''))) (\<lambda>i.
       bind (lift_result (jget invoice ''auto_advance'')) (\<lambda>auto.
       seq (only_if (auto \<noteq> JBool False)
          (bind (request s ''POST'' (''invoices/'' @ i) [(''auto_advance'', ''false'')]
             (Some (closure_key (co_id row) (i @ ''-pause'')))) (\<lambda>_. ret ())))
         (ret [issue ''invoice'' i]))))))"

definition pending_item :: "json \<Rightarrow> ClosureIssue list sess" where
  "pending_item item =
     bind (lift_result (rbind (jget item ''id'') (stripe_id ''ii_''))) (\<lambda>i. ret [issue ''pending_invoice_item'' i])"

text \<open>The customer the subscription belongs to.\<close>

definition bind_customer :: "uuid \<Rightarrow> json \<Rightarrow> string sess" where
  "bind_customer i value =
     bind (load_checkout i) (\<lambda>row.
     bind (lift_result (rbind (jget value ''customer'') (\<lambda>v. stripe_id ''cus_'' (ref v)))) (\<lambda>customer.
     seq (guard (\<not> (has_text (co_customer_id row) \<and> co_customer_id row \<noteq> Some customer)) (BillingError 502)
        ''Stripe customer changed unexpectedly.'')
    (seq (set_checkout i (\<lambda>c. c\<lparr>co_customer_id := Some customer\<rparr>)) (ret customer))))"

definition is_own_object :: "json \<Rightarrow> Checkout \<Rightarrow> exn + unit" where
  "is_own_object value row = refuse_if
     [test (\<lambda>v. v \<noteq> jtext (co_subscription_id row)) (jget value ''id''),
      test (\<lambda>v. v \<noteq> JStr ''subscription'') (jget value ''object'')]
     (billing 502 ''Stripe subscription does not match this account.'')"

definition close_subscription :: "Settings \<Rightarrow> uuid \<Rightarrow> ClosureIssue list sess" where
  "close_subscription s i =
     bind (load_checkout i) (\<lambda>row.
     if \<not> has_text (co_subscription_id row) then ret []
     else bind (lift_result (stripe_id ''sub_'' (jtext (co_subscription_id row)))) (\<lambda>sub.
       let p = ''subscriptions/'' @ sub in
       bind (own_subscription s p row) (\<lambda>value.
       seq (lift_result (is_own_object value row))
      (bind (bind_customer i value) (\<lambda>customer.
       bind (lift_result (map_sum id ref (jget value ''schedule''))) (\<lambda>sid.
       bind (if truthy sid then seq (cancel_schedule s row customer sid) (own_subscription s p row) else ret value) (\<lambda>value.
       bind (cancelled_subscription s p row value) (\<lambda>value.
       seq (check_ended s value)
      (bind (lift_result (status_of value)) (\<lambda>st.
       seq (set_checkout i (\<lambda>c. c\<lparr>co_subscription_status := Some (price_text st), co_cancel_at_period_end := False\<rparr>))
      (bind (listed s ''invoices'' [(''subscription'', sub)] (unsettled_invoice s row customer)) (\<lambda>invoices.
       bind (listed s ''invoiceitems'' [(''customer'', customer), (''pending'', ''true'')] pending_item) (\<lambda>items.
         ret (invoices @ items))))))))))))))"

text \<open>An attempt whose request may never have reached Stripe is looked for, never repeated.\<close>

definition is_attempt :: "uuid \<Rightarrow> json \<Rightarrow> json list sess" where
  "is_attempt i value =
     bind (lift_result (dig value [''metadata'', ''radar_attempt_id''])) (\<lambda>v.
       ret (if v = JStr (uuid_text i) then [value] else []))"

definition unknown_checkout :: "uuid \<Rightarrow> ClosureIssue" where
  "unknown_checkout i = \<lparr>iss_kind = ''unknown_checkout'', iss_reference = uuid_text i, iss_attempt_id = Some (uuid_text i)\<rparr>"

definition long_expired :: "Checkout \<Rightarrow> datetime \<Rightarrow> exn + string option" where
  "long_expired row t = (case map_of (co_parameters row) ''expires_at'' of
     None \<Rightarrow> Inr None
   | Some e \<Rightarrow> if e = [] then Inr None
       else map_sum id (\<lambda>n. if n < timestamp t - 60 then Some (int_str n) else None) (the_value ValueErrorPy (int_of_text e)))"

definition close_attempt :: "Settings \<Rightarrow> uuid \<Rightarrow> ClosureIssue list sess" where
  "close_attempt s i =
     bind (load_checkout i) (\<lambda>row.
     seq (guard (co_livemode row = set_stripe_livemode s) (BillingError 502) ''Saved checkout belongs to a different Stripe mode.'')
    (if has_text (co_checkout_id row) then seq (close_session s i) (close_subscription s i)
     else if has_text (co_subscription_id row) then close_subscription s i
     else bind now (\<lambda>t.
       bind (lift_result (long_expired row t)) (\<lambda>expiry.
       case expiry of
         None \<Rightarrow> ret [unknown_checkout i]
       | Some e \<Rightarrow>
           bind (listed s ''checkout/sessions'' [(''created[gte]'', int_str (timestamp (co_created_at row) - 60)),
              (''created[lte]'', e)] (is_attempt i)) (\<lambda>found.
           case found of
             [] \<Rightarrow> seq (set_checkout i (\<lambda>c. c\<lparr>co_checkout_status := ''expired''\<rparr>)) (ret [])
           | [value] \<Rightarrow>
               seq (lift_result (verify_closing_checkout value row))
              (bind (lift_result (rbind (jget value ''id'') (stripe_id (session_prefix (co_livemode row))))) (\<lambda>cid.
               seq (set_checkout i (\<lambda>c. c\<lparr>co_checkout_id := Some cid\<rparr>))
              (seq (close_session s i) (close_subscription s i))))
           | _ \<Rightarrow> ret [unknown_checkout i])))))"

end
