(* ===== verification/Closure.thy ===== *)
theory Closure
  imports ClosureBilling
begin

section \<open>Closing an account (account_closure_service.py, account_closure_redaction.py)\<close>

text \<open>
  A closure is requested with the password, is irreversible, and is worked off by a queue: the
  personal data is erased as soon as no work of the account is under way, its billing is ended,
  and what remains is a tombstone that cannot sign in.  Columns of attribution that no modelled
  code reads (those of plans, prices, quality settings and source verifications) are left out;
  \<open>others\<close> are the names recorded in the tables left out.
\<close>

definition set_closures :: "(AccountClosure \<Rightarrow> bool) \<Rightarrow> (AccountClosure \<Rightarrow> AccountClosure) \<Rightarrow> unit sess" where
  "set_closures p f = change (on_accounts (\<lambda>a. a\<lparr>account_closures := update_where p f (account_closures a)\<rparr>))"

definition set_closure :: "uuid \<Rightarrow> (AccountClosure \<Rightarrow> AccountClosure) \<Rightarrow> unit sess" where
  "set_closure i f = set_closures (\<lambda>c. clo_user_id c = i) f"

definition find_closure :: "uuid \<Rightarrow> db \<Rightarrow> AccountClosure option" where
  "find_closure i d = get_row clo_user_id i (account_closures (account_tables d))"

definition set_contacts :: "(ContactMessage list \<Rightarrow> ContactMessage list) \<Rightarrow> unit sess" where
  "set_contacts f = change (on_accounts (\<lambda>a. a\<lparr>contact_messages := f (contact_messages a)\<rparr>))"

definition on_reviews :: "(ReviewTables \<Rightarrow> ReviewTables) \<Rightarrow> db \<Rightarrow> db" where
  "on_reviews f d = d\<lparr>review_tables := f (review_tables d)\<rparr>"

subsection \<open>The request\<close>

definition contact_issue :: "ContactMessage \<Rightarrow> ClosureIssue" where
  "contact_issue m = issue ''contact_review'' (uuid_text (cme_id m))"

definition is_contact_issue :: "ClosureIssue \<Rightarrow> bool" where
  "is_contact_issue x \<longleftrightarrow> iss_kind x = ''contact_review''"

text \<open>Messages nobody is known to have written, of the address, before the request.\<close>

definition anonymous_message :: "datetime \<Rightarrow> ContactMessage \<Rightarrow> bool" where
  "anonymous_message t m \<longleftrightarrow> cme_user_id m = None \<and> \<not> cme_retention_hold m \<and> cme_created_at m \<le> t"

definition new_closure :: "uuid \<Rightarrow> uuid \<Rightarrow> string \<Rightarrow> ContactMessage list \<Rightarrow> datetime \<Rightarrow> AccountClosure" where
  "new_closure i actor email messages t = \<lparr>clo_user_id = i, clo_requested_by = Some actor, clo_requested_at = t,
     clo_state = ClosurePending, clo_attempts = 0, clo_next_attempt_at = Some t, clo_last_error = None,
     clo_billing_resolved_at = None, clo_data_removed_at = None, clo_completed_at = None,
     clo_billing_issues = map contact_issue (filter (\<lambda>m. anonymous_message t m \<and> cme_email m = email) messages),
     clo_unrelated_contact_ids = [], clo_notification_email = Some email, clo_notification_deadline = t + days 7,
     clo_notice_state = NoticePending, clo_notice_attempts = 0, clo_notice_next_at = Some t,
     clo_acknowledgement_sent_at = None, clo_completion_sent_at = None\<rparr>"

definition closed_user :: "datetime \<Rightarrow> User \<Rightarrow> User" where
  "closed_user t u = u\<lparr>usr_closure_requested_at := Some t, usr_is_active := False,
     usr_auth_version := usr_auth_version u + 1\<rparr>"

definition paused_digest :: "Digest \<Rightarrow> Digest" where
  "paused_digest g = g\<lparr>dg_schedule_paused := True, dg_schedule_next_at := None, dg_subscription_retry_at := None\<rparr>"

text \<open>What the request writes, in one transaction.\<close>

definition shut_account :: "uuid \<Rightarrow> AccountClosure \<Rightarrow> datetime \<Rightarrow> unit sess" where
  "shut_account i closure t =
     seq (set_user i (closed_user t))
    (seq (change (on_accounts (\<lambda>a. a\<lparr>account_closures := account_closures a @ [closure]\<rparr>)))
    (seq (set_sessions (\<lambda>x. ses_user_id x = i) (\<lambda>x. x\<lparr>ses_revoked_at := Some t\<rparr>))
    (seq (drop_verifications (\<lambda>v. emv_user_id v = Some i))
    (seq (set_resets (filter (\<lambda>r. prs_user_id r \<noteq> i)))
    (seq (change (\<lambda>d. d\<lparr>digests := update_where (\<lambda>g. dg_owner_id g = i) paused_digest (digests d)\<rparr>))
     commit)))))"

definition is_admin_or_self :: "User \<Rightarrow> uuid \<Rightarrow> bool" where
  "is_admin_or_self actor i \<longleftrightarrow> usr_id actor = i \<or> usr_role actor = RoleAdmin"

text \<open>The acting user is read again after the locks.\<close>

definition authorised_actor :: "primitives \<Rightarrow> User \<Rightarrow> string \<Rightarrow> User sess" where
  "authorised_actor k actor secret =
     bind (query (find_user (usr_id actor))) (\<lambda>found.
     case found of
       None \<Rightarrow> raise (HttpError 400) ''Current password is incorrect or the account is inactive.''
     | Some x \<Rightarrow> seq (guard (usr_is_active x \<and> pm_verify k secret (usr_password_hash x)) (HttpError 400)
          ''Current password is incorrect or the account is inactive.'') (ret x))"

definition begin_closure :: "uuid \<Rightarrow> uuid \<Rightarrow> string \<Rightarrow> AccountClosure sess" where
  "begin_closure i actor email =
     bind (query (find_closure i)) (\<lambda>existing.
     case existing of
       Some c \<Rightarrow> ret c
     | None \<Rightarrow>
         bind now (\<lambda>t.
         bind (query (\<lambda>d. contact_messages (account_tables d))) (\<lambda>messages.
         let c = new_closure i actor email messages t in
         seq (shut_account i c t) (ret c))))"

definition close_target :: "primitives \<Rightarrow> uuid \<Rightarrow> User \<Rightarrow> string \<Rightarrow> User \<Rightarrow> AccountClosure sess" where
  "close_target k i actor secret u =
     seq (guard (\<not> usr_is_super_admin u) (HttpError 403) ''The protected super-admin account cannot be closed.'')
    (seq (guard (is_admin_or_self actor i) (HttpError 403) ''Administrator access required.'')
    (bind (authorised_actor k actor secret) (\<lambda>actor.
     seq (guard (is_admin_or_self actor i) (HttpError 403) ''Administrator access required.'')
       (begin_closure i (usr_id actor) (usr_email u)))))"

definition request_closure :: "primitives \<Rightarrow> uuid \<Rightarrow> User \<Rightarrow> string \<Rightarrow> AccountClosure sess" where
  "request_closure k i actor secret =
     bind (query (find_user i)) (\<lambda>early.
     seq (guard (early \<noteq> None) (HttpError 404) ''Account not found.'')
    (seq (lock_billing i True)
    (seq (Observation.lock_account i)
    (bind (query (find_user i)) (\<lambda>target.
     case target of
       None \<Rightarrow> raise (HttpError 404) ''Account not found.''
     | Some u \<Rightarrow> close_target k i actor secret u)))))"

subsection \<open>Retries and contact reviews\<close>

definition require_closure :: "uuid \<Rightarrow> AccountClosure sess" where
  "require_closure i =
     bind (query (find_closure i)) (\<lambda>found.
     case found of None \<Rightarrow> raise (HttpError 404) ''No account closure was requested.'' | Some c \<Rightarrow> ret c)"

definition retried_closure :: "datetime \<Rightarrow> AccountClosure \<Rightarrow> AccountClosure" where
  "retried_closure t c = c\<lparr>clo_state := ClosurePending, clo_next_attempt_at := Some t, clo_attempts := 0,
     clo_last_error := None\<rparr>"

definition retry_closure :: "uuid \<Rightarrow> unit sess" where
  "retry_closure i =
     bind (require_closure i) (\<lambda>c.
     seq (if clo_state c = ClosureCompleted then ret () else bind now (\<lambda>t. set_closure i (retried_closure t))) commit)"

definition recover_checkout :: "Settings \<Rightarrow> uuid \<Rightarrow> uuid \<Rightarrow> string \<Rightarrow> unit sess" where
  "recover_checkout s i attempt cid =
     seq (lock_billing i True)
    (bind (require_closure i) (\<lambda>c.
     seq (guard (clo_state c \<noteq> ClosureCompleted) (HttpError 409) ''This closure is already complete.'')
    (bind (query (\<lambda>d. get_row co_id attempt (checkouts d))) (\<lambda>found.
     case found of
       None \<Rightarrow> raise (HttpError 409) ''This is not an unresolved checkout for this account.''
     | Some row \<Rightarrow>
         seq (guard (co_user_id row = i \<and> \<not> has_text (co_checkout_id row)) (HttpError 409)
            ''This is not an unresolved checkout for this account.'')
        (seq (stripe_client s)
        (bind (get_object s (''checkout/sessions/'' @ cid)) (\<lambda>value.
         seq (lift_result (verify_closing_checkout value row))
        (bind (lift_result (jget value ''id'')) (\<lambda>v.
         seq (guard (v = JStr cid) (HttpError 409) ''Stripe returned a different checkout.'')
        (seq (set_checkout attempt (\<lambda>x. x\<lparr>co_checkout_id := Some cid\<rparr>))
        (seq flush (retry_closure i))))))))))))"

definition leased_run_of :: "uuid \<Rightarrow> datetime \<Rightarrow> db \<Rightarrow> bool" where
  "leased_run_of i t d \<longleftrightarrow> list_ex (\<lambda>r. rn_owner_id r = i \<and> rn_status r = RUNNING
     \<and> (case rn_lease_expires_at r of None \<Rightarrow> False | Some e \<Rightarrow> e > t)) (digest_runs d)"

definition runs_of :: "uuid \<Rightarrow> db \<Rightarrow> uuid list" where
  "runs_of i d = map rn_id (filter (\<lambda>r. rn_owner_id r = i) (digest_runs d))"

definition active_review_of :: "uuid \<Rightarrow> datetime \<Rightarrow> db \<Rightarrow> bool" where
  "active_review_of i t d \<longleftrightarrow> list_ex (\<lambda>c. (clr_run_id c \<in> Some ` set (runs_of i d) \<or> clr_created_by c = Some i)
     \<and> clr_active_key c \<noteq> None \<and> (case clr_lease_until c of None \<Rightarrow> False | Some e \<Rightarrow> e > t)) (claim_reviews (review_tables d))"

definition active_work :: "uuid \<Rightarrow> bool sess" where
  "active_work i =
     bind now (\<lambda>t. bind (query (leased_run_of i t)) (\<lambda>running.
     bind now (\<lambda>t. bind (query (active_review_of i t)) (\<lambda>reviewing. ret (running \<or> reviewing)))))"

definition contact_to_review :: "AccountClosure \<Rightarrow> ContactMessage \<Rightarrow> bool" where
  "contact_to_review c m \<longleftrightarrow> anonymous_message (clo_requested_at c) m
     \<and> uuid_text (cme_id m) \<notin> set (clo_unrelated_contact_ids c)
     \<and> (clo_notification_email c \<noteq> None \<and> clo_notification_email c = Some (cme_email m)
        \<or> uuid_text (cme_id m) \<in> iss_reference ` set (filter is_contact_issue (clo_billing_issues c)))"

definition contacts_to_review :: "AccountClosure \<Rightarrow> db \<Rightarrow> ContactMessage list" where
  "contacts_to_review c d = sort_key (\<lambda>m. (cme_created_at m, cme_id m))
     (filter (contact_to_review c) (contact_messages (account_tables d)))"

definition anonymous_contacts :: "uuid \<Rightarrow> ContactMessage list sess" where
  "anonymous_contacts i = bind (require_closure i) (\<lambda>c. query (contacts_to_review c))"

datatype contact_decision = DeleteMessage | UnrelatedMessage

definition review_contact_message :: "uuid \<Rightarrow> uuid \<Rightarrow> contact_decision \<Rightarrow> unit sess" where
  "review_contact_message i message decision =
     bind (anonymous_contacts i) (\<lambda>ms.
     seq (guard (message \<in> cme_id ` set ms) (HttpError 404) ''This message is not part of the closure review.'')
    (seq (case decision of
        DeleteMessage \<Rightarrow> set_contacts (filter (\<lambda>m. cme_id m \<noteq> message))
      | UnrelatedMessage \<Rightarrow> seq (bind (require_closure i) (\<lambda>_. ret ())) (set_closure i (\<lambda>c. c\<lparr>clo_unrelated_contact_ids :=
            clo_unrelated_contact_ids c @ [uuid_text message]\<rparr>)))
    (seq flush (retry_closure i))))"

section \<open>Erasing the data of a closing account (account_closure_service.py, account_closure_redaction.py)\<close>

text \<open>
  Deleting the rows that belong to the account, detaching the rows that only name it, replacing
  the name in shared reviews, and the worker that does it.  The foreign keys to
  \<open>users.id\<close> are the inventory: \<open>erase_rows\<close> lists what each of them does, children included.
\<close>

subsection \<open>Names in shared reviews\<close>

definition former :: string where
  "former = ''Former administrator''"

definition redact_name :: "string list \<Rightarrow> string option \<Rightarrow> string option" where
  "redact_name names n = (case n of Some t \<Rightarrow> if t \<in> set names then Some former else n | None \<Rightarrow> None)"

definition redact_criteria :: "string list \<Rightarrow> Criteria \<Rightarrow> Criteria" where
  "redact_criteria names c = c\<lparr>cr_reviewer := redact_name names (cr_reviewer c)\<rparr>"

definition redact_reviews :: "string list \<Rightarrow> Reviews \<Rightarrow> Reviews" where
  "redact_reviews names r = r\<lparr>rvs_records := map (\<lambda>x. x\<lparr>rv_reviewer := redact_name names (rv_reviewer x)\<rparr>) (rvs_records r)\<rparr>"

definition names_by :: "uuid \<Rightarrow> ('a \<Rightarrow> uuid option) \<Rightarrow> ('a \<Rightarrow> string) \<Rightarrow> 'a list \<Rightarrow> string list" where
  "names_by i creator name rows = map name (filter (\<lambda>r. creator r = Some i) rows)"

definition recorded_names :: "uuid \<Rightarrow> string list \<Rightarrow> db \<Rightarrow> string list" where
  "recorded_names i others d = others
     @ names_by i pub_created_by pub_created_by_name (public_contents (account_tables d))
     @ names_by i ev_created_by ev_created_by_name (quality_evaluations d)
     @ names_by i clr_created_by clr_created_by_name (claim_reviews (review_tables d))
     @ names_by i rbm_created_by rbm_created_by_name (benchmarks (review_tables d))
     @ names_by i bcr_created_by bcr_created_by_name (case_reviews (review_tables d))
     @ names_by i bch_created_by bch_created_by_name (criteria_history (review_tables d))
     @ names_by i bpu_created_by bpu_created_by_name (publications (review_tables d))"

definition unname_accounts :: "uuid \<Rightarrow> AccountTables \<Rightarrow> AccountTables" where
  "unname_accounts i a = a\<lparr>public_contents :=
     update_where (\<lambda>p. pub_created_by p = Some i) (\<lambda>p. p\<lparr>pub_created_by_name := former\<rparr>) (public_contents a)\<rparr>"

definition unname_reviews :: "uuid \<Rightarrow> ReviewTables \<Rightarrow> ReviewTables" where
  "unname_reviews i t = t\<lparr>
     claim_reviews := update_where (\<lambda>r. clr_created_by r = Some i) (\<lambda>r. r\<lparr>clr_created_by_name := former\<rparr>) (claim_reviews t),
     benchmarks := update_where (\<lambda>r. rbm_created_by r = Some i) (\<lambda>r. r\<lparr>rbm_created_by_name := former\<rparr>) (benchmarks t),
     case_reviews := update_where (\<lambda>r. bcr_created_by r = Some i) (\<lambda>r. r\<lparr>bcr_created_by_name := former\<rparr>) (case_reviews t),
     criteria_history := update_where (\<lambda>r. bch_created_by r = Some i) (\<lambda>r. r\<lparr>bch_created_by_name := former\<rparr>) (criteria_history t),
     publications := update_where (\<lambda>r. bpu_created_by r = Some i) (\<lambda>r. r\<lparr>bpu_created_by_name := former\<rparr>) (publications t)\<rparr>"

definition unname :: "uuid \<Rightarrow> db \<Rightarrow> db" where
  "unname i d = d\<lparr>quality_evaluations :=
       update_where (\<lambda>e. ev_created_by e = Some i) (\<lambda>e. e\<lparr>ev_created_by_name := former\<rparr>) (quality_evaluations d),
     account_tables := unname_accounts i (account_tables d), review_tables := unname_reviews i (review_tables d)\<rparr>"

definition redact_criteria_rows :: "string list \<Rightarrow> ReviewTables \<Rightarrow> ReviewTables" where
  "redact_criteria_rows names t = t\<lparr>
     benchmarks := map (\<lambda>b. b\<lparr>rbm_criteria := redact_criteria names (rbm_criteria b)\<rparr>) (benchmarks t),
     criteria_history := map (\<lambda>h. h\<lparr>bch_criteria := redact_criteria names (bch_criteria h)\<rparr>) (criteria_history t)\<rparr>"

definition set_claim_reviews :: "(ClaimReview \<Rightarrow> bool) \<Rightarrow> (ClaimReview \<Rightarrow> ClaimReview) \<Rightarrow> unit sess" where
  "set_claim_reviews p f = change (on_reviews (\<lambda>t. t\<lparr>claim_reviews := update_where p f (claim_reviews t)\<rparr>))"

text \<open>The fingerprint of a publication: SHA-256 of the benchmark's fingerprint, reviews and criteria.\<close>

type_synonym publication_hash = "string \<times> Reviews \<times> Criteria \<Rightarrow> string"

definition outdated_comparison :: "datetime \<Rightarrow> ClaimReview \<Rightarrow> ClaimReview" where
  "outdated_comparison t c = c\<lparr>clr_status := ReviewFailed, clr_report := None, clr_active_key := None,
     clr_lease_token := None, clr_error := Some ''Benchmark attribution was redacted for account closure. Run a new comparison against the updated publication.'',
     clr_finished_at := Some t\<rparr>"

definition redacted_publication :: "publication_hash \<Rightarrow> string list \<Rightarrow> string \<Rightarrow> BenchmarkPublication \<Rightarrow> BenchmarkPublication" where
  "redacted_publication h names benchmark p =
     (let reviews = redact_reviews names (bpu_reviews p); criteria = redact_criteria names (bpu_criteria p)
      in p\<lparr>bpu_reviews := reviews, bpu_criteria := criteria, bpu_fingerprint := h (benchmark, reviews, criteria)\<rparr>)"

definition names_someone :: "string list \<Rightarrow> BenchmarkPublication \<Rightarrow> bool" where
  "names_someone names p \<longleftrightarrow> redact_reviews names (bpu_reviews p) \<noteq> bpu_reviews p
     \<or> redact_criteria names (bpu_criteria p) \<noteq> bpu_criteria p"

definition redact_publication :: "publication_hash \<Rightarrow> string list \<Rightarrow> BenchmarkPublication \<Rightarrow> unit sess" where
  "redact_publication h names p =
     (if \<not> names_someone names p then ret ()
      else bind (query (\<lambda>d. get_row rbm_id (bpu_benchmark_id p) (benchmarks (review_tables d)))) (\<lambda>found.
        bind (lift_result (the_value AttributeErrorPy found)) (\<lambda>b.
        seq (change (on_reviews (\<lambda>t. t\<lparr>publications := update_where (\<lambda>x. bpu_id x = bpu_id p)
               (redacted_publication h names (rbm_fingerprint b)) (publications t)\<rparr>)))
          (bind now (\<lambda>t. set_claim_reviews (\<lambda>c. clr_publication_id c = Some (bpu_id p)) (outdated_comparison t))))))"

definition stopped_review :: "datetime \<Rightarrow> ClaimReview \<Rightarrow> ClaimReview" where
  "stopped_review t c = c\<lparr>clr_status := ReviewFailed, clr_active_key := None, clr_lease_token := None,
     clr_finished_at := Some t, clr_error := Some ''The requesting administrator closed their account.''\<rparr>"

definition redact_admin_history :: "publication_hash \<Rightarrow> string list \<Rightarrow> uuid \<Rightarrow> unit sess" where
  "redact_admin_history h others i =
     bind (query (recorded_names i others)) (\<lambda>names.
     seq (change (unname i))
    (if names = [] then ret ()
     else seq (change (on_reviews (redact_criteria_rows names)))
      (bind (query (\<lambda>d. publications (review_tables d))) (\<lambda>ps.
       seq (for_each ps (redact_publication h names))
         (bind now (\<lambda>t. set_claim_reviews (\<lambda>c. clr_created_by c = Some i \<and> clr_active_key c \<noteq> None) (stopped_review t)))))))"

subsection \<open>Rows\<close>

definition erased_digests :: "uuid \<Rightarrow> db \<Rightarrow> uuid list" where
  "erased_digests i d = map dg_id (filter (\<lambda>g. dg_owner_id g = i) (digests d))"

text \<open>The runs that go with the account or with one of its digests.\<close>

definition erased_runs :: "uuid \<Rightarrow> db \<Rightarrow> uuid list" where
  "erased_runs i d = map rn_id (filter (\<lambda>r. rn_owner_id r = i \<or> rn_digest_id r \<in> set (erased_digests i d)) (digest_runs d))"

definition detached :: "uuid \<Rightarrow> uuid option \<Rightarrow> uuid option" where
  "detached i creator = (if creator = Some i then None else creator)"

definition erase_run_rows :: "uuid list \<Rightarrow> db \<Rightarrow> db" where
  "erase_run_rows rs d = d\<lparr>digest_runs := filter (\<lambda>r. rn_id r \<notin> set rs) (digest_runs d),
     run_stages := filter (\<lambda>x. sg_run_id x \<notin> set rs) (run_stages d),
     run_papers := filter (\<lambda>x. dp_run_id x \<notin> set rs) (run_papers d),
     trend_analyses := filter (\<lambda>x. rt_run_id x \<notin> set rs) (trend_analyses d),
     briefings := filter (\<lambda>x. rb_run_id x \<notin> set rs) (briefings d),
     radar_requests := filter (\<lambda>x. rq_run_id x \<notin> set rs) (radar_requests d),
     deliveries := filter (\<lambda>x. dl_run_id x \<notin> set rs) (deliveries d),
     quality_evaluations := filter (\<lambda>x. ev_run_id x \<notin> set rs) (quality_evaluations d),
     source_contents := filter (\<lambda>x. sc_run_id x \<notin> set rs) (source_contents d)\<rparr>"

definition erase_billing_rows :: "uuid \<Rightarrow> db \<Rightarrow> db" where
  "erase_billing_rows i d = d\<lparr>
     sync_jobs := map (\<lambda>j. j\<lparr>sj_retried_by := detached i (sj_retried_by j)\<rparr>) (filter (\<lambda>j. sj_user_id j \<noteq> i) (sync_jobs d)),
     upgrades := filter (\<lambda>u. up_user_id u \<noteq> i) (upgrades d), changes := filter (\<lambda>c. ch_user_id c \<noteq> i) (changes d),
     notices := filter (\<lambda>n. bn_user_id n \<noteq> i) (notices d),
     policies := map (\<lambda>p. p\<lparr>pol_created_by := detached i (pol_created_by p)\<rparr>) (filter (\<lambda>p. pol_user_id p \<noteq> i) (policies d)),
     usages := filter (\<lambda>u. us_user_id u \<noteq> i) (usages d), free_subs := filter (\<lambda>f. fs_user_id f \<noteq> i) (free_subs d),
     account_states := filter (\<lambda>a. as_user_id a \<noteq> i) (account_states d),
     assignments := map (\<lambda>a. a\<lparr>om_created_by := detached i (om_created_by a)\<rparr>) (filter (\<lambda>a. om_user_id a \<noteq> i) (assignments d)),
     observed_runs := filter (\<lambda>u. ob_user_id u \<noteq> i) (observed_runs d)\<rparr>"

definition erase_account_rows :: "uuid \<Rightarrow> AccountTables \<Rightarrow> AccountTables" where
  "erase_account_rows i a = a\<lparr>auth_sessions := filter (\<lambda>x. ses_user_id x \<noteq> i) (auth_sessions a),
     email_verifications := filter (\<lambda>v. emv_user_id v \<noteq> Some i) (email_verifications a),
     password_resets := filter (\<lambda>r. prs_user_id r \<noteq> i) (password_resets a),
     contact_messages := filter (\<lambda>m. cme_user_id m \<noteq> Some i) (contact_messages a),
     public_contents := map (\<lambda>p. p\<lparr>pub_created_by := detached i (pub_created_by p)\<rparr>) (public_contents a)\<rparr>"

definition erase_review_rows :: "uuid \<Rightarrow> uuid list \<Rightarrow> ReviewTables \<Rightarrow> ReviewTables" where
  "erase_review_rows i rs t =
     (let gone = map clr_id (filter (\<lambda>c. clr_run_id c \<in> Some ` set rs) (claim_reviews t))
      in t\<lparr>claim_reviews := map (\<lambda>c. c\<lparr>clr_created_by := detached i (clr_created_by c)\<rparr>)
             (filter (\<lambda>c. clr_run_id c \<notin> Some ` set rs) (claim_reviews t)),
           claim_requests := filter (\<lambda>q. crq_review_id q \<notin> set gone) (claim_requests t),
           benchmarks := map (\<lambda>b. b\<lparr>rbm_created_by := detached i (rbm_created_by b)\<rparr>) (benchmarks t),
           case_reviews := map (\<lambda>b. b\<lparr>bcr_created_by := detached i (bcr_created_by b)\<rparr>) (case_reviews t),
           criteria_history := map (\<lambda>b. b\<lparr>bch_created_by := detached i (bch_created_by b)\<rparr>) (criteria_history t),
           publications := map (\<lambda>b. b\<lparr>bpu_created_by := detached i (bpu_created_by b)\<rparr>) (publications t)\<rparr>)"

definition erase_rows :: "uuid \<Rightarrow> db \<Rightarrow> db" where
  "erase_rows i d =
     (let rs = erased_runs i d; d1 = erase_billing_rows i (erase_run_rows rs d)
      in d1\<lparr>digests := filter (\<lambda>g. dg_owner_id g \<noteq> i) (digests d),
           quality_evaluations := map (\<lambda>e. e\<lparr>ev_created_by := detached i (ev_created_by e)\<rparr>) (quality_evaluations d1),
           account_tables := erase_account_rows i (account_tables d),
           review_tables := erase_review_rows i rs (review_tables d)\<rparr>)"

text \<open>Messages under a retention hold are kept, without their owner.\<close>

definition keep_held_messages :: "uuid \<Rightarrow> db \<Rightarrow> db" where
  "keep_held_messages i = on_accounts (\<lambda>a. a\<lparr>contact_messages :=
     update_where (\<lambda>m. cme_user_id m = Some i \<and> cme_retention_hold m) (\<lambda>m. m\<lparr>cme_user_id := None\<rparr>) (contact_messages a)\<rparr>)"

definition tombstone :: "string \<Rightarrow> User \<Rightarrow> User" where
  "tombstone h u = u\<lparr>usr_full_name := ''Closed account'',
     usr_email := ''closed-'' @ hex_digits 32 (usr_id u) @ ''@accounts.example.com'', usr_password_hash := h,
     usr_legal_agreement_at := None, usr_terms_version := None, usr_privacy_version := None, usr_role := RoleUser\<rparr>"

definition bare_checkout :: "Checkout \<Rightarrow> Checkout" where
  "bare_checkout c = c\<lparr>co_parameters := filter (\<lambda>p. startswith (fst p) ''metadata['' \<or> fst p = ''expires_at'') (co_parameters c),
     co_notification_state := None\<rparr>"

definition erase_personal_data :: "primitives \<Rightarrow> publication_hash \<Rightarrow> string list \<Rightarrow> uuid \<Rightarrow> unit sess" where
  "erase_personal_data k h others i =
     bind (query (find_user i)) (\<lambda>user.
     seq (guard (user \<noteq> None) AssertionErrorPy [])
    (seq (redact_admin_history h others i)
    (seq (change (keep_held_messages i))
    (seq (change (erase_rows i))
    (bind (token_urlsafe 48) (\<lambda>secret.
     bind (hash_password k secret) (\<lambda>digest.
     seq (set_user i (tombstone digest))
    (seq (change (\<lambda>d. d\<lparr>checkouts := update_where (\<lambda>c. co_user_id c = i) bare_checkout (checkouts d)\<rparr>))
    (bind now (\<lambda>t.
     seq (set_closure i (\<lambda>c. c\<lparr>clo_data_removed_at := Some t\<rparr>)) flush))))))))))"

end
