(* ===== verification/ClosureWorker.thy ===== *)
theory ClosureWorker
  imports Closure Briefing
begin

section \<open>The worker of account closures (account_closure_service.py)\<close>

text \<open>
  One turn takes the closure due longest, erases the data as soon as nothing of the account is
  under way, ends the billing, and completes, waits, or leaves the rest to an operator.  Erasure
  is committed before Stripe is asked anything, so that an outage cannot put it off.  The notices
  are sent by another step of the same worker.
\<close>

subsection \<open>One turn\<close>

definition closure_due :: "datetime \<Rightarrow> AccountClosure \<Rightarrow> bool" where
  "closure_due t c \<longleftrightarrow> clo_state c \<in> {ClosurePending, ClosureWaiting} \<and> at_or_before (clo_next_attempt_at c) t"

definition due_closure :: "datetime \<Rightarrow> db \<Rightarrow> AccountClosure option" where
  "due_closure t d = first_by (\<lambda>c. case clo_next_attempt_at c of None \<Rightarrow> 0 | Some n \<Rightarrow> n) (filter (closure_due t) (account_closures (account_tables d)))"

text \<open>\<open>with db.begin_nested()\<close>.\<close>

definition nested :: "'a sess \<Rightarrow> 'a sess" where
  "nested m = seq flush (\<lambda>s. case m s of (Inl e, s') \<Rightarrow> (Inl e, s'\<lparr>working := working s\<rparr>) | r \<Rightarrow> r)"

definition msg_removal :: string where
  "msg_removal = ''Data removal could not complete. An operator must inspect the closure worker before retrying.''"

definition needs_review :: "string \<Rightarrow> AccountClosure \<Rightarrow> AccountClosure" where
  "needs_review m c = c\<lparr>clo_state := ClosureNeedsReview, clo_next_attempt_at := None, clo_last_error := Some m\<rparr>"

definition refresh_contacts :: "ContactMessage list \<Rightarrow> AccountClosure \<Rightarrow> AccountClosure" where
  "refresh_contacts ms c = c\<lparr>clo_billing_issues :=
     filter (\<lambda>x. \<not> is_contact_issue x) (clo_billing_issues c) @ map contact_issue ms\<rparr>"

text \<open>Whether the turn goes on after the early erasure.\<close>

definition early_erasure :: "primitives \<Rightarrow> publication_hash \<Rightarrow> string list \<Rightarrow> uuid \<Rightarrow> AccountClosure \<Rightarrow> bool sess" where
  "early_erasure k h others i c =
     (if clo_data_removed_at c \<noteq> None then ret True
      else bind (active_work i) (\<lambda>busy.
        if busy then ret True
        else catch (seq (nested (erase_personal_data k h others i)) (ret True))
          (\<lambda>e. seq (set_closure i (needs_review msg_removal)) (seq commit (ret False)))))"

fun collect_each :: "'x list \<Rightarrow> ('x \<Rightarrow> 'a list sess) \<Rightarrow> 'a list sess" where
  "collect_each [] f = ret []"
| "collect_each (x # xs) f = bind (f x) (\<lambda>ys. bind (collect_each xs f) (\<lambda>zs. ret (ys @ zs)))"

definition billing_issues_of :: "Settings \<Rightarrow> uuid \<Rightarrow> ClosureIssue list sess" where
  "billing_issues_of s i =
     bind (query (\<lambda>d. map co_id (filter (\<lambda>c. co_user_id c = i) (checkouts d)))) (\<lambda>attempts.
     if attempts = [] then ret [] else seq (stripe_client s) (collect_each attempts (close_attempt s)))"

definition record_issues :: "uuid \<Rightarrow> ClosureIssue list \<Rightarrow> unit sess" where
  "record_issues i issues =
     seq (set_closure i (\<lambda>c. c\<lparr>clo_billing_issues := issues\<rparr>))
    (if \<not> list_all is_contact_issue issues then set_closure i (\<lambda>c. c\<lparr>clo_billing_resolved_at := None\<rparr>)
     else bind (require_closure i) (\<lambda>c.
       if clo_billing_resolved_at c \<noteq> None then ret ()
       else bind now (\<lambda>t. set_closure i (\<lambda>c. c\<lparr>clo_billing_resolved_at := Some t\<rparr>))))"

definition put_off :: "datetime \<Rightarrow> AccountClosure \<Rightarrow> AccountClosure" where
  "put_off t c = c\<lparr>clo_state := ClosureWaiting, clo_next_attempt_at := Some (t + seconds 30), clo_last_error := Some
     ''Waiting for an already-started research request to finish or its worker lease to expire.''\<rparr>"

definition msg_resolve :: string where
  "msg_resolve = ''Resolve the listed items, then retry. Access is disabled; no new subscription requests will be submitted.''"

text \<open>The rows that go with the checkouts of the account.\<close>

definition drop_checkouts :: "uuid \<Rightarrow> db \<Rightarrow> db" where
  "drop_checkouts i d =
     (let own = set (map co_id (filter (\<lambda>c. co_user_id c = i) (checkouts d)))
      in d\<lparr>checkouts := filter (\<lambda>c. co_user_id c \<noteq> i) (checkouts d),
           stripe_events := filter (\<lambda>e. se_checkout_id e \<notin> own) (stripe_events d),
           sync_jobs := filter (\<lambda>j. sj_checkout_id j \<notin> own) (sync_jobs d),
           invoices := filter (\<lambda>v. iv_checkout_id v \<notin> own) (invoices d),
           upgrades := filter (\<lambda>u. up_checkout_id u \<notin> own) (upgrades d),
           changes := filter (\<lambda>c. ch_checkout_id c \<notin> own) (changes d),
           usages := filter (\<lambda>u. us_checkout_id u \<notin> Some ` own) (usages d)\<rparr>)"

definition completed_closure :: "datetime \<Rightarrow> AccountClosure \<Rightarrow> AccountClosure" where
  "completed_closure t c = c\<lparr>clo_state := ClosureCompleted, clo_completed_at := Some t, clo_next_attempt_at := None,
     clo_last_error := None, clo_billing_issues := [], clo_unrelated_contact_ids := []\<rparr>"

definition announce :: "datetime \<Rightarrow> AccountClosure \<Rightarrow> AccountClosure" where
  "announce t c = c\<lparr>clo_notice_state := NoticePending, clo_notice_attempts := 0, clo_notice_next_at := Some t\<rparr>"

definition finish_closure :: "uuid \<Rightarrow> unit sess" where
  "finish_closure i =
     seq (change (drop_checkouts i))
    (bind now (\<lambda>t.
     seq (set_closure i (completed_closure t))
    (bind (require_closure i) (\<lambda>c. if header_set (clo_notification_email c)
       then bind now (\<lambda>t. set_closure i (announce t)) else ret ()))))"

definition conclude_closure :: "primitives \<Rightarrow> publication_hash \<Rightarrow> string list \<Rightarrow> uuid \<Rightarrow> ClosureIssue list \<Rightarrow> unit sess" where
  "conclude_closure k h others i issues =
     bind (active_work i) (\<lambda>busy.
     if busy then bind now (\<lambda>t. seq (set_closure i (put_off t)) commit)
     else bind (require_closure i) (\<lambda>c.
       seq (if clo_data_removed_at c = None then erase_personal_data k h others i else ret ())
      (seq (if issues \<noteq> [] then set_closure i (needs_review msg_resolve) else finish_closure i)
        commit)))"

definition settle_closure :: "primitives \<Rightarrow> publication_hash \<Rightarrow> string list \<Rightarrow> Settings \<Rightarrow> uuid \<Rightarrow> unit sess" where
  "settle_closure k h others s i =
     bind (billing_issues_of s i) (\<lambda>found.
     bind (anonymous_contacts i) (\<lambda>ms. let issues = found @ map contact_issue ms in
     seq (record_issues i issues) (conclude_closure k h others i issues)))"

definition backoff_seconds :: "nat \<Rightarrow> int" where
  "backoff_seconds n = min 3600 (30 * 2 ^ n)"

definition billing_retry :: "datetime \<Rightarrow> AccountClosure \<Rightarrow> AccountClosure" where
  "billing_retry t c = (let c = c\<lparr>clo_last_error := Some
        ''Billing verification failed. Check Stripe connectivity and permissions, then retry.''\<rparr>
     in if clo_attempts c \<ge> 8 then c\<lparr>clo_state := ClosureNeedsReview, clo_next_attempt_at := None\<rparr>
        else c\<lparr>clo_state := ClosureWaiting, clo_next_attempt_at := Some (t + seconds (backoff_seconds (clo_attempts c)))\<rparr>)"

text \<open>\<open>now()\<close> is asked only where another attempt is due.\<close>

definition retry_later :: "uuid \<Rightarrow> unit sess" where
  "retry_later i =
     seq rollback
    (seq (lock_billing i True)
    (bind (query (find_closure i)) (\<lambda>found.
     bind (lift_result (the_value AttributeErrorPy found)) (\<lambda>c.
     seq (if clo_attempts c \<ge> 8 then set_closure i (billing_retry (clo_requested_at c))
          else bind now (\<lambda>t. set_closure i (billing_retry t)))
       commit))))"

definition work_closure :: "primitives \<Rightarrow> publication_hash \<Rightarrow> string list \<Rightarrow> Settings \<Rightarrow> uuid \<Rightarrow> bool sess" where
  "work_closure k h others s i =
     seq (lock_billing i True)
    (seq (Observation.lock_account i)
    (bind (query (find_closure i)) (\<lambda>found.
     bind (lift_result (the_value AttributeErrorPy found)) (\<lambda>c.
     if clo_state c \<notin> {ClosurePending, ClosureWaiting} then ret True
     else seq (catch (settle_closure k h others s i) (\<lambda>e. retry_later i)) (ret True)))))"

definition process_one :: "primitives \<Rightarrow> publication_hash \<Rightarrow> string list \<Rightarrow> Settings \<Rightarrow> bool sess" where
  "process_one k h others s = with_session
    (bind now (\<lambda>t.
     bind (query (due_closure t)) (\<lambda>due.
     case due of
       None \<Rightarrow> ret False
     | Some d \<Rightarrow>
         let i = clo_user_id d in
         seq (lock_billing i True)
        (seq (Observation.lock_account i)
        (bind now (\<lambda>t.
         bind (query (\<lambda>d. find (\<lambda>c. clo_user_id c = i \<and> closure_due t c) (account_closures (account_tables d)))) (\<lambda>found.
         case found of
           None \<Rightarrow> ret False
         | Some _ \<Rightarrow>
             seq (ensure_database_mode s)
            (seq (set_closure i (\<lambda>c. c\<lparr>clo_attempts := Suc (clo_attempts c)\<rparr>))
            (bind (anonymous_contacts i) (\<lambda>ms.
             seq (set_closure i (refresh_contacts ms))
            (bind (require_closure i) (\<lambda>c.
             bind (early_erasure k h others i c) (\<lambda>go_on.
             if \<not> go_on then ret True
             else seq commit (work_closure k h others s i))))))))))))))"

subsection \<open>Notices\<close>

definition notice_due :: "datetime \<Rightarrow> datetime \<Rightarrow> AccountClosure \<Rightarrow> bool" where
  "notice_due t t' c \<longleftrightarrow> clo_notification_email c \<noteq> None
     \<and> (at_or_before (clo_notice_next_at c) t \<or> clo_notification_deadline c \<le> t')"

definition expired_notice :: "AccountClosure \<Rightarrow> AccountClosure" where
  "expired_notice c = c\<lparr>clo_notification_email := None, clo_notice_next_at := None,
     clo_notice_state := (if clo_notice_state c \<noteq> NoticeSent then NoticeExpired else clo_notice_state c)\<rparr>"

definition closure_text :: "AuthSettings \<Rightarrow> AccountClosure \<Rightarrow> string" where
  "closure_text a c =
     (if clo_state c = ClosureCompleted
      then ''Your Radar account is closed. Your saved digests and personal profile have been removed, and any known Radar subscriptions have ended. ''
        @ ''Payment records may remain with Stripe for billing and legal purposes.''
      else ''Your Radar account closure has been requested. Access and scheduled research are disabled. ''
        @ ''We are resolving billing and removing your data. We will notify you when this is complete.'')
     @ nl @ nl @ ''Closing an account does not automatically issue a refund. For a refund request or help, use ''
     @ aus_frontend_base_url a @ ''/contact'' @ nl @ ''Closure reference: '' @ uuid_text (clo_user_id c)"

definition closure_notice :: "AuthSettings \<Rightarrow> string \<Rightarrow> AccountClosure \<Rightarrow> OutgoingEmail" where
  "closure_notice a email c =
     (let completed = (clo_state c = ClosureCompleted)
      in \<lparr>em_recipient = email,
          em_subject = ''Research Radar'' @ dash @ (if completed then ''Account closed'' else ''Account closure requested''),
          em_text = closure_text a c, em_html = None,
          em_message_id = Some (''<closure-'' @ uuid_text (clo_user_id c) @ ''-''
            @ (if completed then ''completion'' else ''acknowledgement'') @ ''@research-radar>'')\<rparr>)"

definition sent_notice :: "datetime \<Rightarrow> AccountClosure \<Rightarrow> AccountClosure" where
  "sent_notice t c = (let c' = c\<lparr>clo_notice_state := NoticeSent, clo_notice_next_at := None\<rparr>
     in if clo_state c = ClosureCompleted then c'\<lparr>clo_completion_sent_at := Some t, clo_notification_email := None\<rparr>
        else c'\<lparr>clo_acknowledgement_sent_at := Some t\<rparr>)"

definition unsent_notice :: "datetime option \<Rightarrow> AccountClosure \<Rightarrow> AccountClosure" where
  "unsent_notice next c = c\<lparr>clo_notice_state := (if clo_notice_attempts c \<ge> 8 then NoticeFailed else NoticeRetry),
     clo_notice_next_at := next\<rparr>"

definition unsent :: "AccountClosure \<Rightarrow> unit sess" where
  "unsent c = (if clo_notice_attempts c \<ge> 8 then set_closure (clo_user_id c) (unsent_notice None)
     else bind now (\<lambda>t. set_closure (clo_user_id c) (unsent_notice (Some (t + minutes (2 ^ clo_notice_attempts c))))))"

definition send_notice ::
  "AuthSettings \<Rightarrow> (OutgoingEmail \<Rightarrow> unit sess) \<Rightarrow> string \<Rightarrow> AccountClosure \<Rightarrow> unit sess" where
  "send_notice a sender email c =
     (let i = clo_user_id c in
      seq (set_closure i (\<lambda>x. x\<lparr>clo_notice_attempts := Suc (clo_notice_attempts x)\<rparr>))
     (catch (seq (sender (closure_notice a email c)) (bind now (\<lambda>t. set_closure i (sent_notice t))))
        (\<lambda>e. unsent (c\<lparr>clo_notice_attempts := Suc (clo_notice_attempts c)\<rparr>))))"

definition notify_one :: "AuthSettings \<Rightarrow> (OutgoingEmail \<Rightarrow> unit sess) \<Rightarrow> bool sess" where
  "notify_one a sender = with_session
    (bind now (\<lambda>t. bind now (\<lambda>t'.
     bind (query (\<lambda>d. first_by clo_requested_at (filter (notice_due t t') (account_closures (account_tables d))))) (\<lambda>due.
     case due of
       None \<Rightarrow> ret False
     | Some c \<Rightarrow>
         bind now (\<lambda>t.
         if clo_notification_deadline c \<le> t
         then seq (set_closure (clo_user_id c) expired_notice) (seq commit (ret True))
         else seq (send_notice a sender (case clo_notification_email c of Some e \<Rightarrow> e | None \<Rightarrow> []) c)
           (seq commit (ret True)))))))"

end
