(* ===== verification/AccountFacts.thy ===== *)
theory AccountFacts
  imports ClosureWorker
begin

section \<open>What the account services do to users and closures\<close>

text \<open>
  Two interfaces: \<open>beside_accounts\<close>, for session invariants that every write outside the rows of users
  and closures keeps, and \<open>account_invariant\<close>, which adds the writes the account services make
  to those rows.  The programs are walked through once, inside the locales.
\<close>

subsection \<open>Relations between the rows of two moments\<close>

abbreviation is_closing :: "User \<Rightarrow> bool" where
  "is_closing u \<equiv> usr_closure_requested_at u \<noteq> None"

text \<open>How a row of a user may develop: versions grow, a closure is never taken back, and
  credentials, role and access are only changed together with the version.\<close>

definition outlives :: "User \<Rightarrow> User \<Rightarrow> bool" where
  "outlives u u' \<longleftrightarrow> usr_is_super_admin u' = usr_is_super_admin u \<and> usr_auth_version u \<le> usr_auth_version u'
     \<and> (is_closing u \<longrightarrow> is_closing u')
     \<and> (\<not> is_closing u \<and> (is_closing u' \<or> usr_password_hash u' \<noteq> usr_password_hash u \<or> usr_role u' \<noteq> usr_role u
          \<or> usr_is_active u \<and> \<not> usr_is_active u') \<longrightarrow> usr_auth_version u < usr_auth_version u')"

lemma outlives_refl [simp]: "outlives u u"
  by (cases "is_closing u") (simp_all add: outlives_def)

lemma outlives_same:
  "usr_is_super_admin u' = usr_is_super_admin u \<Longrightarrow> usr_auth_version u' = usr_auth_version u
    \<Longrightarrow> usr_closure_requested_at u' = usr_closure_requested_at u \<Longrightarrow> usr_password_hash u' = usr_password_hash u
    \<Longrightarrow> usr_role u' = usr_role u \<Longrightarrow> usr_is_active u' = usr_is_active u \<Longrightarrow> outlives u u'"
  by (auto simp: outlives_def)

lemma outlives_trans: "outlives u v \<Longrightarrow> outlives v w \<Longrightarrow> outlives u w"
  unfolding outlives_def by (smt (verit))

text \<open>How a closure may develop: it is never un-completed, and the removal of data is final.\<close>

definition advances :: "AccountClosure \<Rightarrow> AccountClosure \<Rightarrow> bool" where
  "advances c c' \<longleftrightarrow> clo_user_id c' = clo_user_id c \<and> clo_requested_at c' = clo_requested_at c
     \<and> (clo_data_removed_at c \<noteq> None \<longrightarrow> clo_data_removed_at c' \<noteq> None)
     \<and> (clo_state c = ClosureCompleted \<longrightarrow> clo_state c' = ClosureCompleted \<and> clo_completed_at c' = clo_completed_at c)"

lemma advances_refl [simp]: "advances c c"
  by (simp add: advances_def)

lemma advances_trans: "advances a b \<Longrightarrow> advances b c \<Longrightarrow> advances a c"
  by (auto simp: advances_def)

text \<open>What a completed closure has behind it.\<close>

definition settled_closure :: "AccountClosure \<Rightarrow> bool" where
  "settled_closure c \<longleftrightarrow> clo_state c = ClosureCompleted \<longrightarrow>
     clo_data_removed_at c \<noteq> None \<and> clo_billing_resolved_at c \<noteq> None \<and> clo_completed_at c \<noteq> None"

definition closures_of :: "db \<Rightarrow> AccountClosure list" where
  "closures_of d = account_closures (account_tables d)"

definition accounts_ok :: "db \<Rightarrow> bool" where
  "accounts_ok d \<longleftrightarrow> list_all settled_closure (closures_of d) \<and> distinct (map clo_user_id (closures_of d))
     \<and> (\<forall>c \<in> set (closures_of d). \<exists>u. find_user (clo_user_id c) d = Some u \<and> is_closing u)"

definition since :: "db \<Rightarrow> db \<Rightarrow> bool" where
  "since d d' \<longleftrightarrow> accounts_ok d'
     \<and> (\<forall>i u. find_user i d = Some u \<longrightarrow> (\<exists>u'. find_user i d' = Some u' \<and> outlives u u'))
     \<and> (\<forall>i c. find_closure i d = Some c \<longrightarrow> (\<exists>c'. find_closure i d' = Some c' \<and> advances c c'))"

lemma since_refl: "accounts_ok d \<Longrightarrow> since d d"
  by (auto simp: since_def)

lemma since_trans: "since a b \<Longrightarrow> since b c \<Longrightarrow> since a c"
  unfolding since_def by (meson outlives_trans advances_trans)

lemma since_ok: "since d d' \<Longrightarrow> accounts_ok d'"
  by (simp add: since_def)

subsection \<open>Writes that keep the relation\<close>

lemma find_user_update:
  assumes "\<And>u. p u \<Longrightarrow> usr_id (f u) = usr_id u"
  shows "get_row usr_id i (update_where p f us) = map_option (\<lambda>u. if p u then f u else u) (get_row usr_id i us)"
  using assms by (induction us) (auto simp: get_row_def update_where_def)

lemma find_closure_update:
  assumes "\<And>c. p c \<Longrightarrow> clo_user_id (f c) = clo_user_id c"
  shows "get_row clo_user_id i (update_where p f cs) = map_option (\<lambda>c. if p c then f c else c) (get_row clo_user_id i cs)"
  using assms by (induction cs) (auto simp: get_row_def update_where_def)

lemma get_row_append: "get_row key k (xs @ ys) = (case get_row key k xs of None \<Rightarrow> get_row key k ys | r \<Rightarrow> r)"
  by (induction xs) (auto simp: get_row_def)

lemma since_other:
  assumes "users d' = users d" and "closures_of d' = closures_of d" and "accounts_ok d"
  shows "since d d'"
proof -
  have same: "find_user i d' = find_user i d" "find_closure i d' = find_closure i d" for i
    using assms by (simp_all add: find_user_def find_closure_def closures_of_def)
  then have "accounts_ok d'" using assms by (simp add: accounts_ok_def)
  with same show ?thesis by (auto simp: since_def)
qed

lemma since_users:
  assumes ok: "accounts_ok d"
    and rel: "\<And>i u. find_user i d = Some u \<Longrightarrow> \<exists>u'. find_user i d' = Some u' \<and> outlives u u'"
    and same: "account_tables d' = account_tables d"
  shows "since d d'"
proof -
  have "\<exists>u. find_user (clo_user_id c) d' = Some u \<and> is_closing u" if "c \<in> set (closures_of d)" for c
    using ok that rel by (fastforce simp: accounts_ok_def outlives_def)
  then have "accounts_ok d'" using ok same by (auto simp: accounts_ok_def closures_of_def)
  with rel same show ?thesis by (auto simp: since_def find_closure_def)
qed

lemma since_update_users:
  assumes ok: "accounts_ok d" and id: "\<And>u. p u \<Longrightarrow> usr_id (f u) = usr_id u"
    and rel: "\<And>i u. find_user i d = Some u \<Longrightarrow> p u \<Longrightarrow> outlives u (f u)"
  shows "since d (d\<lparr>users := update_where p f (users d)\<rparr>)"
proof (rule since_users [OF ok])
  fix i u assume "find_user i d = Some u"
  then show "\<exists>u'. find_user i (d\<lparr>users := update_where p f (users d)\<rparr>) = Some u' \<and> outlives u u'"
    using rel [of i u] by (auto simp: find_user_def find_user_update [OF id])
qed simp

lemma since_new_user: "accounts_ok d \<Longrightarrow> since d (d\<lparr>users := users d @ [u]\<rparr>)"
  by (rule since_users) (auto simp: find_user_def get_row_append)

lemma since_update_closures:
  assumes ok: "accounts_ok d"
    and rel: "\<And>c. c \<in> set (closures_of d) \<Longrightarrow> p c \<Longrightarrow> advances c (f c) \<and> settled_closure (f c)"
  shows "since d (on_accounts (\<lambda>a. a\<lparr>account_closures := update_where p f (account_closures a)\<rparr>) d)"
    (is "since d ?d")
proof -
  let ?up = "\<lambda>c. if p c then f c else c"
  have up: "advances c (?up c) \<and> settled_closure (?up c)" if "c \<in> set (closures_of d)" for c
    using rel that ok by (auto simp: accounts_ok_def list_all_iff)
  have rows: "closures_of ?d = map ?up (closures_of d)"
    by (simp add: closures_of_def on_accounts_def update_where_def)
  have users: "find_user i ?d = find_user i d" for i by (simp add: find_user_def on_accounts_def)
  have "map clo_user_id (closures_of ?d) = map clo_user_id (closures_of d)"
    using up by (simp add: rows advances_def)
  moreover have "list_all settled_closure (closures_of ?d)" unfolding rows list_all_iff set_map using up by blast
  moreover have "\<exists>u. find_user (clo_user_id c) ?d = Some u \<and> is_closing u" if "c \<in> set (closures_of ?d)" for c
  proof -
    from that obtain x where "x \<in> set (closures_of d)" "c = ?up x" by (auto simp: rows)
    with up [of x] have "x \<in> set (closures_of d)" "clo_user_id c = clo_user_id x" by (auto simp: advances_def)
    with ok show ?thesis by (simp add: accounts_ok_def users)
  qed
  ultimately have "accounts_ok ?d" using ok by (simp add: accounts_ok_def)
  moreover have "find_closure i ?d = map_option ?up (find_closure i d)" for i
  proof -
    have "find (\<lambda>c. clo_user_id c = i) (map ?up cs) = map_option ?up (find (\<lambda>c. clo_user_id c = i) cs)"
      if "set cs \<subseteq> set (closures_of d)" for cs
      using that by (induction cs) (use up in \<open>auto simp: advances_def\<close>)
    then show ?thesis
      using rows by (simp add: find_closure_def get_row_def closures_of_def)
  qed
  moreover have "advances c (?up c)" if "find_closure i d = Some c" for i c
  proof -
    from that have "c \<in> set (closures_of d)" by (auto simp: find_closure_def closures_of_def dest: get_row_Some)
    then show ?thesis using up by blast
  qed
  ultimately show ?thesis using users by (auto simp: since_def)
qed

lemma since_new_closure:
  assumes ok: "accounts_ok d" and new: "settled_closure c" "find_closure (clo_user_id c) d = None"
    and closing: "\<exists>u. find_user (clo_user_id c) d = Some u \<and> is_closing u"
  shows "since d (on_accounts (\<lambda>a. a\<lparr>account_closures := account_closures a @ [c]\<rparr>) d)"
  using assms
  by (auto simp: since_def accounts_ok_def closures_of_def on_accounts_def find_user_def find_closure_def get_row_append
      get_row_None)

subsection \<open>Programs that leave users and closures alone\<close>

locale beside_accounts =
  fixes I :: "session \<Rightarrow> bool"
  assumes draws: "keeps I now" "keeps I uuid4" "keeps I flush" "keeps I (ask_stripe c)"
    and other: "(\<And>d. users (f d) = users d) \<Longrightarrow> (\<And>d. closures_of (f d) = closures_of d) \<Longrightarrow> keeps I (change f)"
begin

lemmas q_basic [keeps_intros] = draws

lemma q_query [keeps_intros]: "keeps I (query f)"
  by (simp add: query_def keeps_intros)

lemma q_writes [keeps_intros]:
  "keeps I (set_sessions p g)" "keeps I (set_verifications p' g')" "keeps I (drop_verifications p')"
  "keeps I (add_challenge v)" "keeps I (set_resets h)" "keeps I (set_contacts h')" "keeps I (change (on_reviews r))"
  "keeps I (set_checkout i k)" "keeps I (set_claim_reviews p'' g'')"
  unfolding set_sessions_def set_verifications_def drop_verifications_def set_resets_def set_contacts_def
    add_challenge_def set_checkout_def set_claim_reviews_def
  by (intro other; simp add: on_accounts_def on_reviews_def closures_of_def)+

lemma q_sessions [keeps_intros]:
  "keeps I (revoke x)" "keeps I (revoke_all_for_user i)" "keeps I (create_auth_session i u h t)"
  unfolding revoke_def revoke_all_for_user_def create_auth_session_def
  by (intro keeps_intros other; simp add: on_accounts_def closures_of_def)+

lemma q_tokens [keeps_intros]:
  "keeps I (hash_password k p)" "keeps I (encode_token k a u kind v e x)" "keeps I (token_urlsafe n)"
  unfolding hash_password_def encode_token_def token_urlsafe_def by (intro keeps_intros)+

lemma q_new_tokens [keeps_intros]:
  "keeps I (create_access_token k a u v x)" "keeps I (create_refresh_token k a u i v e)"
  unfolding create_access_token_def create_refresh_token_def Let_def by (intro keeps_intros)+

lemma q_start_session [keeps_intros]: "keeps I (start_session k a u)"
  unfolding start_session_def by (intro keeps_intros)

lemma q_decode [keeps_intros]: "keeps I (decode_token k e t)"
  unfolding decode_token_def by (intro keeps_intros)

lemma q_current_user [keeps_intros]: "keeps I (current_user k a c)"
  unfolding current_user_def unauthorized_def by (intro keeps_intros)

lemma q_locks [keeps_intros]:
  "keeps I (lock_billing i b)" "keeps I (Observation.lock_account i)" "keeps I (ensure_database_mode s)"
  unfolding lock_billing_def Observation.lock_account_def ensure_database_mode_def
  by (intro keeps_intros other; simp add: closures_of_def Let_def)+

lemma q_reads [keeps_intros]:
  "keeps I (require_closure i)" "keeps I (loaded_user i)" "keeps I (require_open_user u)" "keeps I (managed_user actor i)"
  "keeps I (require_open_target t)" "keeps I (stripe_client s)" "keeps I (load_checkout i)"
  unfolding require_closure_def loaded_user_def require_open_user_def managed_user_def require_open_target_def
    stripe_client_def load_checkout_def load_def
  by (intro keeps_intros)+

lemma q_closure_reads [keeps_intros]: "keeps I (anonymous_contacts i)" "keeps I (active_work i)"
  unfolding anonymous_contacts_def active_work_def by (intro keeps_intros)+

lemma q_enroll [keeps_intros]: "keeps I (enroll_registration u)"
  unfolding enroll_registration_def assign_free_def default_plan_def Let_def
  by (intro keeps_intros other; simp add: closures_of_def)

text \<open>Ending the billing writes checkouts only.\<close>

lemma q_request [keeps_intros]: "keeps I (request s m p data key)" "keeps I (get_object s p)"
  unfolding get_object_def request_def by (intro keeps_intros)+

lemma q_each_item: "(\<And>x. keeps I (f x)) \<Longrightarrow> keeps I (each_item s f xs)"
  by (induction xs) (auto intro!: keeps_intros)

lemma q_listed: assumes "\<And>x. keeps I (f x)" shows "keeps I (listed s p params f)"
proof -
  have "keeps I (listed_pages n s p params f cursor)" for n cursor
    by (induction n arbitrary: cursor) (auto intro!: keeps_intros q_each_item assms)
  then show ?thesis by (simp add: listed_def)
qed

lemma q_session_steps [keeps_intros]: "keeps I (verified_session s p i)" "keeps I (link_subscription i v)"
  unfolding verified_session_def link_subscription_def by (intro keeps_intros)+

lemma q_close_session [keeps_intros]: "keeps I (close_session s i)"
  unfolding close_session_def expired_session_def by (intro keeps_intros)

lemma q_subscription_steps [keeps_intros]:
  "keeps I (own_subscription s p row)" "keeps I (cancel_schedule s row c j)" "keeps I (check_ended s v)"
  "keeps I (unsettled_invoice s row c v)" "keeps I (pending_item v)" "keeps I (bind_customer i v)"
  unfolding own_subscription_def cancel_schedule_def check_ended_def unsettled_invoice_def pending_item_def
    bind_customer_def only_if_def
  by (intro keeps_intros)+

lemma q_cancelled [keeps_intros]: "keeps I (cancelled_subscription s p row v)"
  unfolding cancelled_subscription_def by (intro keeps_intros)

lemma q_close_subscription [keeps_intros]: "keeps I (close_subscription s i)"
  unfolding close_subscription_def Let_def by (intro keeps_intros q_listed)

lemma q_close_attempt [keeps_intros]: "keeps I (close_attempt s i)"
proof -
  have "keeps I (is_attempt i v)" for v unfolding is_attempt_def by (intro keeps_intros)
  then have found: "keeps I (listed s p params (is_attempt i))" for p params by (rule q_listed)
  show ?thesis
    unfolding close_attempt_def
    by (intro keeps_intros found) (auto split: list.split intro!: keeps_intros)
qed

lemma q_billing_issues [keeps_intros]: "keeps I (billing_issues_of s i)"
proof -
  have "keeps I (collect_each xs (close_attempt s))" for xs by (induction xs) (auto intro!: keeps_intros)
  then show ?thesis unfolding billing_issues_of_def by (intro keeps_intros)
qed

text \<open>Erasure touches users and closures only in its last steps.\<close>

lemma q_redact [keeps_intros]: "keeps I (redact_admin_history h others i)"
  unfolding redact_admin_history_def redact_publication_def
  by (intro keeps_intros other; simp add: unname_def unname_accounts_def closures_of_def)

lemma q_erase_rows [keeps_intros]: "keeps I (change (erase_rows i))" "keeps I (change (keep_held_messages i))"
  by (intro other; simp add: erase_rows_def Let_def erase_billing_rows_def erase_run_rows_def erase_account_rows_def
      keep_held_messages_def on_accounts_def closures_of_def)+

lemma q_erase:
  assumes "\<And>x. keeps I (set_user i (tombstone x))"
    and "\<And>t. keeps I (set_closure i (\<lambda>c. c\<lparr>clo_data_removed_at := Some t\<rparr>))"
  shows "keeps I (erase_personal_data k h others i)"
proof -
  have "keeps I (change (\<lambda>d. d\<lparr>checkouts := update_where p f (checkouts d)\<rparr>))" for p f
    by (intro other) (simp_all add: closures_of_def)
  with assms show ?thesis unfolding erase_personal_data_def by (intro keeps_intros)
qed

end

subsection \<open>Programs that write users and closures\<close>

locale account_invariant = beside_accounts +
  assumes ends: "keeps I commit" "keeps I rollback"
    and user_write: "(\<And>u. p u \<Longrightarrow> usr_id (f u) = usr_id u) \<Longrightarrow> (\<And>u. p u \<Longrightarrow> outlives u (f u))
        \<Longrightarrow> keeps I (change (\<lambda>d. d\<lparr>users := update_where p f (users d)\<rparr>))"
    and new_user: "keeps I (change (\<lambda>d. d\<lparr>users := users d @ [u]\<rparr>))"
    and closure_write: "(\<And>c. advances c (g c)) \<Longrightarrow> (\<And>c. settled_closure c \<Longrightarrow> settled_closure (g c))
        \<Longrightarrow> keeps I (set_closure i g)"
begin

lemmas a_basic [keeps_intros] = ends new_user

lemma a_set_user: "(\<And>u. usr_id (f u) = usr_id u) \<Longrightarrow> (\<And>u. outlives u (f u)) \<Longrightarrow> keeps I (set_user i f)"
  unfolding set_user_def by (rule user_write)

lemma a_with_session: "keeps I m \<Longrightarrow> keeps I (with_session m)"
  by (metis (mono_tags, lifting) case_prod_beta ends(2) keeps_def snd_conv with_session_def)

lemma a_atomic: "keeps I m \<Longrightarrow> keeps I (atomic m)"
  unfolding atomic_def by (intro keeps_intros)

lemma a_cleanup [keeps_intros]: "keeps I cleanup_expired" "keeps I cleanup_recovery"
  unfolding cleanup_expired_def cleanup_recovery_def by (intro keeps_intros)+

subsection \<open>Sign-in\<close>

lemma a_login: "keeps I (login k a email secret)"
  unfolding login_def by (intro keeps_intros a_atomic)

lemma a_drop_session [keeps_intros]: "keeps I (drop_session x)"
  unfolding drop_session_def by (intro keeps_intros)

lemma a_rotate [keeps_intros]: "keeps I (rotate k a t raw x u)"
  unfolding rotate_def swap_token_def Let_def by (intro keeps_intros)

lemma a_refresh: "keeps I (refresh_tokens k a raw)"
  unfolding refresh_tokens_def by (intro keeps_intros)

lemma a_logout: "keeps I (logout k raw)"
  unfolding logout_def by (intro keeps_intros a_atomic)

subsection \<open>Addresses and documents\<close>

lemma a_publish: "keeps I (publish_content slug p actor)"
  unfolding publish_content_def Let_def
  by (intro keeps_intros other; simp add: on_accounts_def closures_of_def)

lemma a_send_code: "(\<And>x y z. keeps I (mail x y z)) \<Longrightarrow> keeps I (send_code k a mail v)"
  unfolding send_code_def Let_def by (intro keeps_intros)

lemma a_start_parts [keeps_intros]: "keeps I (pending_challenge k email user r)" "keeps I (replace_previous user t)"
  unfolding pending_challenge_def replace_previous_def by (intro keeps_intros)+

lemma a_undo: "keeps I m \<Longrightarrow> keeps I (undo_on_error msg m)"
  unfolding undo_on_error_def by (intro keeps_intros)

lemma a_start: "(\<And>x y z. keeps I (mail x y z)) \<Longrightarrow> keeps I (start_verification k a mail email user r)"
  unfolding start_verification_def Let_def by (intro keeps_intros a_undo a_send_code)

lemma a_register: "(\<And>x y z. keeps I (mail x y z)) \<Longrightarrow> keeps I (register k a mail email name secret)"
  unfolding register_def by (intro keeps_intros a_start)

lemma a_lock_challenge [keeps_intros]: "keeps I (lock_challenge i user counted)"
  unfolding lock_challenge_def by (intro keeps_intros)

lemma a_resend: "(\<And>x y z. keeps I (mail x y z)) \<Longrightarrow> keeps I (resend_code k a mail i user)"
  unfolding resend_code_def by (intro keeps_intros a_send_code)

lemma a_new_account [keeps_intros]: "keeps I (registered_user v)" "keeps I (create_user u)"
  unfolding registered_user_def create_user_def by (intro keeps_intros)+

lemma a_complete [keeps_intros]: "keeps I (complete_challenge k a user v)"
  unfolding complete_challenge_def by (intro keeps_intros a_set_user outlives_same) simp_all

lemma a_confirm: "keeps I (confirm_code k a i code user)"
  unfolding confirm_code_def check_documents_def by (intro keeps_intros a_undo)

subsection \<open>Credentials\<close>

lemma a_recovery: "(\<And>x y. keeps I (mail x y)) \<Longrightarrow> keeps I (send_recovery k a mail email)"
  unfolding send_recovery_def by (intro keeps_intros a_with_session)

lemma a_replace_password [keeps_intros]: "keeps I (replace_password p h)"
  unfolding replace_password_def by (intro keeps_intros user_write; simp add: outlives_def)

lemma a_reset: "keeps I (reset_password k token secret)"
  unfolding reset_password_def consume_reset_def invalid_link_def Let_def by (intro keeps_intros)

lemma a_profile: "keeps I (update_profile i c)"
  unfolding update_profile_def conflict_on_commit_def
  by (intro keeps_intros a_set_user outlives_same) (simp_all add: named_def split: option.split)

lemma a_change_password: "keeps I (change_password k u current secret)"
  unfolding change_password_def by (intro keeps_intros)

subsection \<open>Administration\<close>

lemma a_update_user: "keeps I (update_user actor i c)"
proof -
  have two: "seq (set_user i f) (seq (set_user i g) m) = seq (set_user i (\<lambda>u. g (f u))) m"
    if "\<And>u. usr_id (f u) = usr_id u" for f g and m :: "'b sess"
    using that by (simp add: set_user_def fun_eq_iff run_simps update_where_def comp_def if_distrib cong: if_cong)
  have assoc: "seq (seq x y) z = seq x (seq y z)" for x y :: "unit sess" and z :: "'b sess"
    by (simp add: seq_def bind_assoc)
  have id: "usr_id (apply_admin_update c u) = usr_id u" for u
    by (simp add: apply_admin_update_def named_def Let_def split: option.splits)
  have off: "outlives u (apply_admin_update c u\<lparr>usr_auth_version := usr_auth_version (apply_admin_update c u) + 1\<rparr>)" for u
    by (simp add: apply_admin_update_def named_def Let_def outlives_def split: option.splits)
  have on: "outlives u (apply_admin_update c u)" if "adu_is_active c \<noteq> Some False" for u
    using that by (auto simp: apply_admin_update_def named_def Let_def outlives_def split: option.splits)
  have writes: "keeps I (seq (set_user i (apply_admin_update c)) (seq (if adu_is_active c = Some False \<or> b then outdate_sessions i else ret ()) m))"
    if m: "keeps I m" for b and m :: "User sess"
  proof (cases "adu_is_active c = Some False \<or> b")
    case True
    then have eq: "seq (set_user i (apply_admin_update c)) (seq (if adu_is_active c = Some False \<or> b then outdate_sessions i else ret ()) m)
        = seq (set_user i (\<lambda>u. apply_admin_update c u\<lparr>usr_auth_version := usr_auth_version (apply_admin_update c u) + 1\<rparr>))
           (seq (revoke_all_for_user i) m)"
      by (simp add: outdate_sessions_def assoc two id)
    show ?thesis unfolding eq by (intro keeps_intros a_set_user m off) (simp add: id)
  next
    case False
    then have "keeps I (set_user i (apply_admin_update c))" by (intro a_set_user on) (simp_all add: id)
    with False m show ?thesis by (simp add: keeps_intros)
  qed
  show ?thesis
    unfolding update_user_def conflict_on_commit_def by (intro keeps_intros writes)
qed

lemma a_set_role: "keeps I (set_role actor i r)"
  unfolding set_role_def conflict_on_commit_def
  by (intro keeps_intros a_set_user) (auto simp: with_role_def outlives_def)

lemma a_delete_user: "keeps I (delete_user actor i)"
  unfolding delete_user_def by (intro keeps_intros)

end

end
