(* ===== verification/Replacement.thy ===== *)
theory Replacement
  imports Checkouts
begin

section \<open>Replacing an unfinished checkout (checkout_replacement_service.py)\<close>

text \<open>
  The owner chooses another plan while the first checkout is unfinished.  The intent with its
  exact target is committed on the old attempt, the old session is expired and verified to be
  expired and unpaid, and only then the successor is created, in one transaction with its link
  from the predecessor.  A purchase that won the race blocks the replacement.
\<close>

record ReplacementSummary =
  rs_id :: string
  rs_source_attempt_id :: uuid
  rs_code :: string
  rs_revision :: nat
  rs_plan_name :: string
  rs_interval :: string
  rs_price :: "nat option"
  rs_currency :: string

definition pending_summary :: "Checkout option \<Rightarrow> db \<Rightarrow> exn + ReplacementSummary option" where
  "pending_summary row d =
     (case row of
        None \<Rightarrow> Inr None
      | Some c \<Rightarrow> (case co_replacement_intent c of
            None \<Rightarrow> Inr None
          | Some i \<Rightarrow>
              if ri_state i \<noteq> ''pending'' then Inr None
              else map_sum id (\<lambda>p. Some \<lparr>rs_id = ri_id i, rs_source_attempt_id = co_id c, rs_code = pl_code p,
                  rs_revision = pl_revision p, rs_plan_name = pc_name (pl_configuration p), rs_interval = ri_interval i,
                  rs_price = plan_price (ri_interval i) (pl_configuration p),
                  rs_currency = pc_currency (pl_configuration p)\<rparr>)
                (the_value AttributeErrorPy (get_row pl_id (ri_plan_id i) (plans d)))))"

definition block_intent :: "uuid \<Rightarrow> unit sess" where
  "block_intent i = set_checkout i (\<lambda>r. r\<lparr>co_replacement_intent :=
     map_option (\<lambda>x. x\<lparr>ri_state := ''blocked''\<rparr>) (co_replacement_intent r)\<rparr>)"

text \<open>\<open>_stop\<close>: what was observed is kept, the replacement is not made.\<close>

definition stop_replacement :: "uuid \<Rightarrow> string \<Rightarrow> 'a sess" where
  "stop_replacement i message = seq (block_intent i) (seq commit (raise (BillingError 409) message))"

text \<open>The original session, recovered by its own request when its answer was lost.\<close>

definition original_session :: "Settings \<Rightarrow> uuid \<Rightarrow> json option sess" where
  "original_session s i =
     bind (sync_attempt s i) (\<lambda>value.
     bind (load_checkout i) (\<lambda>c.
     if value \<noteq> None \<or> has_text (co_subscription_id c) then ret value
     else bind now (\<lambda>stamp.
       if too_old c stamp
       then raise (BillingError 409) ''The original checkout result is too old to recover safely. Ask support to reconcile it.''
       else bind (create_request s c) (\<lambda>v.
         seq (observe_checkout s i v) (sync_attempt s i)))))"

text \<open>\<open>_canonical\<close>: an unpaid session that is open or expired.\<close>

definition canonical :: "Settings \<Rightarrow> uuid \<Rightarrow> json sess" where
  "canonical s i =
     bind (original_session s i) (\<lambda>value.
     bind (load_checkout i) (\<lambda>c.
     case value of
       None \<Rightarrow> stop_replacement i
         ''The original checkout has progressed to a subscription or payment. Refresh billing; it was not replaced.''
     | Some v \<Rightarrow>
         bind (lift_result (any_of [Inr (has_text (co_subscription_id c)), Inr (\<not> truthy v),
             test (\<lambda>x. x = JStr ''complete'') (jget v ''status'')])) (\<lambda>progressed.
         if progressed then stop_replacement i
           ''The original checkout has progressed to a subscription or payment. Refresh billing; it was not replaced.''
         else bind (lift_result (any_of [test (\<lambda>x. x \<noteq> JStr ''checkout.session'') (jget v ''object''),
             map_sum id Not (status_in v {''open'', ''expired''}),
             test (\<lambda>x. x \<noteq> JStr ''unpaid'') (jget v ''payment_status'')])) (\<lambda>other.
         if other then stop_replacement i
           ''This checkout is not verified as an unpaid open or expired session. Refresh billing before choosing again.''
         else bind (lift_result (test truthy (dig v [''after_expiration'', ''recovery'', ''enabled'']))) (\<lambda>recovers.
         if recovers then stop_replacement i
           ''This checkout has recovery enabled and cannot be replaced safely. Ask support to review it.''
         else seq flush (ret v))))))"

definition session_status :: "json \<Rightarrow> string" where
  "session_status v = (case jget v ''status'' of Inl e \<Rightarrow> [] | Inr st \<Rightarrow> price_text st)"

definition msg_unconfirmed :: string where
  "msg_unconfirmed = ''Checkout expiration is not confirmed. Resume the saved replacement to retry safely.''"

text \<open>Expiring the session; a failure of the request says nothing, the session is read again.\<close>

definition expire_session :: "Settings \<Rightarrow> uuid \<Rightarrow> json sess" where
  "expire_session s i =
     bind (load_checkout i) (\<lambda>c.
     bind (catch
        (bind (lift_result (stripe_id (session_prefix (co_livemode c)) (jtext (co_checkout_id c)))) (\<lambda>k.
         bind (request s ''POST'' (''checkout/sessions/'' @ k @ ''/expire'') []
            (Some (''radar-checkout-expire-'' @ uuid_text i))) (\<lambda>_. ret True)))
        (\<lambda>e. if is_billing_error e then ret False else reraise e)) (\<lambda>answered.
     bind (canonical s i) (\<lambda>value.
     if \<not> answered \<and> session_status value \<noteq> ''expired'' then raise (BillingError 503) msg_unconfirmed
     else ret value)))"

definition hand_over ::
  "Settings \<Rightarrow> uuid \<Rightarrow> uuid \<Rightarrow> string \<Rightarrow> nat \<Rightarrow> string \<Rightarrow> string sess" where
  "hand_over s user i code revision interval =
     bind (canonical s i) (\<lambda>value.
     bind (if session_status value = ''open'' then expire_session s i else ret value) (\<lambda>value.
     if session_status value \<noteq> ''expired'' then raise (BillingError 503) msg_unconfirmed
     else start_checkout s user code revision interval True None (Some i)))"

text \<open>An expired session whose target was withdrawn must not trap the account.\<close>

definition release_intent :: "uuid \<Rightarrow> uuid \<Rightarrow> string \<Rightarrow> unit sess" where
  "release_intent user i intent_id =
     seq (lock_billing user False)
    (bind (query (\<lambda>d. latest_checkout d user)) (\<lambda>current.
     case current of
       None \<Rightarrow> ret ()
     | Some c \<Rightarrow>
         if co_id c = i \<and> co_checkout_status c = ''expired''
            \<and> (case co_replacement_intent c of None \<Rightarrow> False
               | Some x \<Rightarrow> ri_id x = intent_id \<and> ri_state x = ''pending'')
         then seq (block_intent i) commit else ret ()))"

definition intent_of :: "Checkout \<Rightarrow> string" where
  "intent_of c = (case co_replacement_intent c of None \<Rightarrow> [] | Some x \<Rightarrow> ri_id x)"

definition run_replacement ::
  "Settings \<Rightarrow> uuid \<Rightarrow> uuid \<Rightarrow> string \<Rightarrow> nat \<Rightarrow> string \<Rightarrow> string sess" where
  "run_replacement s user i code revision interval =
     bind (load_checkout i) (\<lambda>c. let intent_id = intent_of c in
     catch (hand_over s user i code revision interval)
       (\<lambda>e. if is_billing_error e then seq (release_intent user i intent_id) (reraise e) else reraise e))"

definition saved_target :: "Checkout \<Rightarrow> (string \<times> nat \<times> string) option" where
  "saved_target c = map_option (\<lambda>x. (ri_code x, ri_revision x, ri_interval x)) (co_replacement_intent c)"

text \<open>What to do with the selected checkout: it already has its successor, its saved intent is
  resumed, the target is the original plan, or a new intent is saved.\<close>

datatype replacing = Successor uuid | Original | Proceed | Again

definition save_replacement ::
  "Settings \<Rightarrow> uuid \<Rightarrow> Checkout \<Rightarrow> string \<Rightarrow> nat \<Rightarrow> string \<Rightarrow> replacing sess" where
  "save_replacement s user c code revision interval =
     bind (checkout_plan s code revision interval True) (\<lambda>(plan, price).
     bind (load_plan (co_plan_revision_id c)) (\<lambda>original.
     if (pl_code original, pl_revision original, co_interval c) = (code, revision, interval) then ret Original
     else seq (guard (\<not> has_text (co_subscription_id c) \<and> co_checkout_status c \<in> {''creating'', ''open'', ''expired''})
         (BillingError 409) ''Only unfinished initial checkouts can be replaced. Review billing.'')
       (bind uuid4 (\<lambda>k.
        seq (set_checkout (co_id c) (\<lambda>r. r\<lparr>co_replacement_intent := Some \<lparr>ri_id = uuid_text k, ri_state = ''pending'',
               ri_code = code, ri_revision = revision, ri_interval = interval, ri_plan_id = pl_id plan,
               ri_successor_id = None\<rparr>\<rparr>))
       (seq commit
       (seq (lock_billing user False)
       (bind (query (\<lambda>d. latest_checkout d user)) (\<lambda>current.
        if map_option co_id current \<noteq> Some (co_id c) then ret Again
        else seq (guard (replacement_pending current) (BillingError 409)
             ''The replacement status changed. Refresh billing before retrying.'')
           (ret Proceed)))))))))"

definition choose_replacement ::
  "Settings \<Rightarrow> uuid \<Rightarrow> uuid \<Rightarrow> string \<Rightarrow> nat \<Rightarrow> string \<Rightarrow> replacing sess" where
  "choose_replacement s user expected code revision interval =
     seq (ensure_database_mode s)
    (seq (enabled s)
    (seq (stripe_client s)
    (seq (lock_billing user False)
    (seq (require_opt_in user)
    (bind (query (change_pending user)) (\<lambda>pending.
     seq (guard (\<not> pending) (BillingError 409) ''Resolve the pending subscription change before replacing a checkout.'')
    (bind (query (\<lambda>d. get_row co_id expected (checkouts d))) (\<lambda>found.
     case found of
       None \<Rightarrow> raise (BillingError 404) ''The selected checkout was not found for this account.''
     | Some c \<Rightarrow>
         seq (guard (co_user_id c = user) (BillingError 404) ''The selected checkout was not found for this account.'')
        (seq (guard (co_livemode c = set_stripe_livemode s) (BillingError 409)
            ''Saved checkout belongs to a different Stripe mode.'')
        (bind (query (\<lambda>d. latest_checkout d user)) (\<lambda>current.
         case current of
           None \<Rightarrow> raise (BillingError 409) ''Checkout changed in another window. Refresh and review the latest selection.''
         | Some l \<Rightarrow>
             if co_id l \<noteq> co_id c
             then (case co_replacement_intent c of
                     Some x \<Rightarrow>
                       if ri_state x = ''replaced'' \<and> saved_target c = Some (code, revision, interval)
                          \<and> ri_successor_id x = Some (uuid_text (co_id l))
                       then ret (Successor (co_id l))
                       else raise (BillingError 409) ''Checkout changed in another window. Refresh and review the latest selection.''
                   | None \<Rightarrow> raise (BillingError 409) ''Checkout changed in another window. Refresh and review the latest selection.'')
             else if replacement_pending (Some c)
             then seq (guard (saved_target c = Some (code, revision, interval)) (BillingError 409)
                    ''Another checkout replacement is being verified. Resume it before choosing again.'')
                  (ret Proceed)
             else save_replacement s user c code revision interval)))))))))))"

text \<open>A repeated call after a concurrent handoff finds another latest checkout, so that it does
  not repeat itself; the first argument bounds the repetitions.\<close>

fun replace_checkout ::
  "nat \<Rightarrow> Settings \<Rightarrow> uuid \<Rightarrow> uuid \<Rightarrow> string \<Rightarrow> nat \<Rightarrow> string \<Rightarrow> string sess" where
  "replace_checkout 0 s user expected code revision interval = raise ValueErrorPy ''recursion''"
| "replace_checkout (Suc n) s user expected code revision interval =
     bind (choose_replacement s user expected code revision interval) (\<lambda>r.
     case r of
       Successor i \<Rightarrow> start_checkout s user code revision interval True (Some i) None
     | Original \<Rightarrow> start_checkout s user code revision interval True (Some expected) None
     | Again \<Rightarrow> replace_checkout n s user expected code revision interval
     | Proceed \<Rightarrow> run_replacement s user expected code revision interval)"

definition resume_checkout :: "Settings \<Rightarrow> uuid \<Rightarrow> uuid option \<Rightarrow> string option \<Rightarrow> string sess" where
  "resume_checkout s user expected replacement =
     seq (lock_billing user False)
    (bind (query (\<lambda>d. latest_checkout d user)) (\<lambda>row.
     case row of
       None \<Rightarrow> raise (BillingError 409) ''Checkout changed. Refresh and review it before resuming.''
     | Some c \<Rightarrow>
         seq (guard (expected = None \<or> expected = Some (co_id c)) (BillingError 409)
            ''Checkout changed. Refresh and review it before resuming.'')
        (case co_replacement_intent c of
           Some x \<Rightarrow>
             if ri_state x = ''pending''
             then seq (guard (expected = None \<or> (case replacement of None \<Rightarrow> [] | Some k \<Rightarrow> k) = ri_id x) (BillingError 409)
                    ''The saved checkout selection changed. Refresh before resuming.'')
                  (replace_checkout 1000 s user (co_id c) (ri_code x) (ri_revision x) (ri_interval x))
             else seq (guard (replacement = None) (BillingError 409) ''The checkout replacement changed. Refresh before resuming.'')
                 (seq (guard (co_checkout_status c \<in> {''creating'', ''open''}) (BillingError 409)
                      ''There is no pending checkout. Refresh billing status.'')
                 (bind (load_plan (co_plan_revision_id c)) (\<lambda>plan.
                  start_checkout s user (pl_code plan) (pl_revision plan) (co_interval c) True (Some (co_id c)) None)))
         | None \<Rightarrow>
             seq (guard (replacement = None) (BillingError 409) ''The checkout replacement changed. Refresh before resuming.'')
                 (seq (guard (co_checkout_status c \<in> {''creating'', ''open''}) (BillingError 409)
                      ''There is no pending checkout. Refresh billing status.'')
                 (bind (load_plan (co_plan_revision_id c)) (\<lambda>plan.
                  start_checkout s user (pl_code plan) (pl_revision plan) (co_interval c) True (Some (co_id c)) None))))))"

end
