(* ===== verification/BillingSync.thy ===== *)
theory BillingSync
  imports Webhooks Dispatch
begin

section \<open>Durable synchronisation with Stripe (billing_sync_service.py)\<close>

text \<open>
  An inbox of jobs: verified events and periodic reconciliations of every known checkout.  A
  claim with a token and a deadline is committed before the work, and every later write is
  fenced by it.  What the provider said, the marker of the processed event and the completion
  of the job commit together; a failure is recorded in a session of its own.
\<close>

definition LEASE_SECONDS :: int where "LEASE_SECONDS = 120"

definition job_values ::
  "Checkout \<Rightarrow> string \<Rightarrow> string \<Rightarrow> datetime \<Rightarrow> string option \<Rightarrow> json \<Rightarrow> BillingSyncJob" where
  "job_values c i kind stamp type payload =
     \<lparr>sj_id = i, sj_checkout_id = co_id c, sj_user_id = co_user_id c, sj_kind = kind, sj_event_type = type,
      sj_payload = payload, sj_state = ''pending'', sj_attempts = 0, sj_failures = 0, sj_manual_retries = 0,
      sj_retried_by = None, sj_retried_at = None, sj_next_attempt_at = Some stamp, sj_lease_token = None,
      sj_lease_expires_at = None, sj_last_error = None, sj_last_attempt_at = None, sj_last_success_at = None,
      sj_created_at = stamp\<rparr>"

text \<open>\<open>insert ... on_conflict_do_nothing\<close>.\<close>

definition insert_job :: "BillingSyncJob \<Rightarrow> unit sess" where
  "insert_job j = change (\<lambda>d. if sj_id j \<in> sj_id ` set (sync_jobs d) then d
     else d\<lparr>sync_jobs := sync_jobs d @ [j]\<rparr>)"

subsection \<open>The inbox\<close>

datatype received = Ignored | Queued

definition msg_event :: string where "msg_event = ''Invalid sandbox event object.''"

definition checkout_of_subscription :: "db \<Rightarrow> json \<Rightarrow> Checkout option" where
  "checkout_of_subscription d linked = (if \<not> truthy linked then None
     else find (\<lambda>c. co_subscription_id c \<noteq> None \<and> jtext (co_subscription_id c) = linked) (checkouts d))"

text \<open>The attempt an event belongs to, its checkout and the object it speaks of; \<open>None\<close> is an
  event that is not ours.\<close>

definition invoice_target :: "db \<Rightarrow> Settings \<Rightarrow> json \<Rightarrow> exn + (uuid \<times> string) option" where
  "invoice_target d s obj =
     rbind (invoice_metadata obj) (\<lambda>details.
     rbind (subscription_id obj) (\<lambda>linked.
     rbind (case checkout_of_subscription d linked of
              Some c \<Rightarrow> Inr (Some c)
            | None \<Rightarrow> rbind (matches_metadata details (set_stripe_livemode s)) (\<lambda>ours.
                if ours then map_sum id (\<lambda>i. get_row co_id i (checkouts d)) (attempt_of details msg_event)
                else Inr None)) (\<lambda>found.
     case found of
       None \<Rightarrow> Inr None
     | Some c \<Rightarrow> map_sum id (\<lambda>i. Some (co_id c, i)) (rbind (jget obj ''id'') (stripe_id ''in_'')))))"

definition object_target :: "Settings \<Rightarrow> string \<Rightarrow> json \<Rightarrow> exn + (uuid \<times> string) option" where
  "object_target s type obj =
     rbind (jget obj ''metadata'') (\<lambda>m. let data = jor m (JObj []) in
     rbind (matches_metadata data (set_stripe_livemode s)) (\<lambda>ours.
     if \<not> ours then Inr None
     else rbind (attempt_of data msg_event) (\<lambda>attempt.
       map_sum id (\<lambda>i. Some (attempt, i)) (rbind (jget obj ''id'')
         (stripe_id (if startswith type ''customer.subscription.'' then ''sub_''
                     else session_prefix (set_stripe_livemode s)))))))"

definition event_target :: "db \<Rightarrow> Settings \<Rightarrow> string \<Rightarrow> json \<Rightarrow> exn + (uuid \<times> string) option" where
  "event_target d s type event =
     rcatch
      (rbind (case event of JObj kvs \<Rightarrow> the_value KeyErrorPy (map_of kvs ''data'') | _ \<Rightarrow> Inl (Exn TypeErrorPy [])) (\<lambda>data.
       rbind (case data of JObj kvs \<Rightarrow> the_value KeyErrorPy (map_of kvs ''object'') | _ \<Rightarrow> Inl (Exn TypeErrorPy [])) (\<lambda>obj.
       if type \<in> INVOICE_EVENTS then invoice_target d s obj else object_target s type obj)))
      (\<lambda>e. Inl (billing 400 msg_event))"

text \<open>Only identifiers are stored: no card, customer or other field of the provider.\<close>

definition minimal_event :: "Settings \<Rightarrow> string \<Rightarrow> string \<Rightarrow> string \<Rightarrow> uuid \<Rightarrow> json" where
  "minimal_event s i type object_id attempt =
     JObj [(''id'', JStr i), (''type'', JStr type), (''data'', JObj [(''object'', JObj [(''id'', JStr object_id),
       (''metadata'', JObj [(''radar_attempt_id'', JStr (uuid_text attempt)),
          (''radar_sandbox'', JStr (if set_stripe_livemode s then ''0'' else ''1'')),
          (''radar_mode'', JStr (mode_name s))])])])]"

definition receive :: "Settings \<Rightarrow> json \<Rightarrow> received sess" where
  "receive s event =
     bind (lift_result (event_type event)) (\<lambda>type.
     if type \<notin> EVENTS then ret Ignored
     else bind (query (\<lambda>d. event_target d s type event)) (\<lambda>r.
       bind (lift_result r) (\<lambda>target.
       case target of
         None \<Rightarrow> ret Ignored
       | Some (attempt, object_id) \<Rightarrow>
           bind (query (\<lambda>d. get_row co_id attempt (checkouts d))) (\<lambda>row.
           case row of
             None \<Rightarrow> ret Ignored
           | Some c \<Rightarrow>
               bind (query (closing (co_user_id c))) (\<lambda>closed.
               if closed then ret Ignored
               else seq (guard (co_livemode c = set_stripe_livemode s) (BillingError 400)
                    ''Event checkout belongs to a different Stripe mode.'')
                  (bind (lift_result (event_id event)) (\<lambda>i.
                   bind now (\<lambda>stamp.
                   seq (insert_job (job_values c i ''webhook'' stamp (Some type) (minimal_event s i type object_id attempt)))
                  (seq commit (ret Queued))))))))))"

subsection \<open>Periodic reconciliation\<close>

definition unseeded :: "db \<Rightarrow> Checkout list" where
  "unseeded d = take 25 (sort_key (\<lambda>c. (co_created_at c, co_id c))
     (filter (\<lambda>c. \<not> list_ex (\<lambda>j. sj_checkout_id j = co_id c \<and> sj_kind j = ''reconcile'') (sync_jobs d)
        \<and> (case get_row usr_id (co_user_id c) (users d) of None \<Rightarrow> False
           | Some u \<Rightarrow> usr_closure_requested_at u = None)) (checkouts d)))"

definition seed_reconciliation :: "unit sess" where
  "seed_reconciliation =
     bind now (\<lambda>stamp.
     bind (query unseeded) (\<lambda>cs.
     seq (for_each cs (\<lambda>c. insert_job
        (job_values c (''reconcile:'' @ uuid_text (co_id c)) ''reconcile'' stamp None (JObj []))))
    (seq (change (\<lambda>d. d\<lparr>sync_seen_at := Some stamp\<rparr>)) commit)))"

subsection \<open>Claiming\<close>

definition reached :: "datetime option \<Rightarrow> datetime \<Rightarrow> bool" where
  "reached t stamp \<longleftrightarrow> (case t of None \<Rightarrow> False | Some u \<Rightarrow> u \<le> stamp)"

definition sync_due :: "datetime \<Rightarrow> BillingSyncJob \<Rightarrow> bool" where
  "sync_due stamp j \<longleftrightarrow>
     sj_state j \<in> {''pending'', ''retry'', ''processed''} \<and> reached (sj_next_attempt_at j) stamp
     \<or> sj_state j = ''processing'' \<and> reached (sj_lease_expires_at j) stamp"

definition claim_order :: "BillingSyncJob \<Rightarrow> datetime \<times> datetime \<times> string" where
  "claim_order j = (case (sj_next_attempt_at j, sj_lease_expires_at j) of
       (Some t, _) \<Rightarrow> t | (None, Some t) \<Rightarrow> t | _ \<Rightarrow> 0, sj_created_at j, sj_id j)"

definition set_jobs :: "(BillingSyncJob \<Rightarrow> bool) \<Rightarrow> (BillingSyncJob \<Rightarrow> BillingSyncJob) \<Rightarrow> nat sess" where
  "set_jobs p f =
     bind (query (\<lambda>d. rowcount p (sync_jobs d))) (\<lambda>n.
     seq (change (\<lambda>d. d\<lparr>sync_jobs := update_where p f (sync_jobs d)\<rparr>)) (ret n))"

definition claimed_job :: "datetime \<Rightarrow> string \<Rightarrow> BillingSyncJob \<Rightarrow> BillingSyncJob" where
  "claimed_job stamp token j = j\<lparr>sj_state := ''processing'', sj_lease_token := Some token,
     sj_lease_expires_at := Some (stamp + seconds LEASE_SECONDS), sj_attempts := Suc (sj_attempts j),
     sj_last_attempt_at := Some stamp\<rparr>"

definition claim_sync :: "(string \<times> string) option sess" where
  "claim_sync =
     bind now (\<lambda>stamp. bind uuid4 (\<lambda>u. let token = uuid_text u in
     bind (query (\<lambda>d. first_by claim_order (filter (sync_due stamp) (sync_jobs d)))) (\<lambda>candidate.
     case candidate of
       None \<Rightarrow> ret None
     | Some j \<Rightarrow>
         bind (set_jobs (\<lambda>x. sj_id x = sj_id j \<and> sync_due stamp x) (claimed_job stamp token)) (\<lambda>n.
         seq commit (ret (if n = 1 then Some (sj_id j, token) else None))))))"

definition owned_job :: "string \<Rightarrow> string \<Rightarrow> datetime \<Rightarrow> BillingSyncJob \<Rightarrow> bool" where
  "owned_job i token stamp j \<longleftrightarrow> sj_id j = i \<and> sj_state j = ''processing'' \<and> sj_lease_token j = Some token
     \<and> (case sj_lease_expires_at j of None \<Rightarrow> False | Some e \<Rightarrow> e > stamp)"

text \<open>An update of the job that counts only while the claim is owned.\<close>

definition hold_claim :: "string \<Rightarrow> string \<Rightarrow> bool sess" where
  "hold_claim i token =
     bind now (\<lambda>stamp. bind (set_jobs (owned_job i token stamp) (\<lambda>j. j\<lparr>sj_lease_token := Some token\<rparr>))
       (\<lambda>n. ret (n = 1)))"

definition if_owned :: "string \<Rightarrow> string \<Rightarrow> (datetime \<Rightarrow> BillingSyncJob \<Rightarrow> BillingSyncJob) \<Rightarrow> bool sess" where
  "if_owned i token f =
     bind now (\<lambda>stamp. bind now (\<lambda>t. bind (set_jobs (owned_job i token stamp) (f t)) (\<lambda>n. ret (n = 1))))"

subsection \<open>Processing\<close>

definition reconcile_checkout :: "Settings \<Rightarrow> uuid \<Rightarrow> datetime option sess" where
  "reconcile_checkout s checkout =
     bind (load_checkout checkout) (\<lambda>c.
     seq (lock_billing (co_user_id c) False)
    (seq (guard (has_text (co_checkout_id c) \<or> has_text (co_subscription_id c)) (BillingError 409)
        ''No Stripe identifier is saved. Resume the original checkout from Billing; do not create another attempt.'')
    (seq (stripe_client s)
    (bind (sync_attempt s checkout) (\<lambda>_.
     bind (load_checkout checkout) (\<lambda>c.
     let over = (ended c \<or> co_checkout_status c = ''expired'' \<and> \<not> has_text (co_subscription_id c))
     in if over \<and> (\<not> has_text (co_subscription_id c) \<or> co_invoice_history_complete c) then ret None
        else bind now (\<lambda>stamp. ret (Some (stamp + seconds (set_stripe_sync_reconcile_seconds s))))))))))"

definition finish_job :: "datetime option \<Rightarrow> datetime \<Rightarrow> BillingSyncJob \<Rightarrow> BillingSyncJob" where
  "finish_job following stamp j = j\<lparr>sj_state := ''processed'', sj_failures := 0, sj_last_error := None,
     sj_last_success_at := Some stamp, sj_next_attempt_at := following, sj_lease_token := None,
     sj_lease_expires_at := None\<rparr>"

definition drop_job :: "BillingSyncJob \<Rightarrow> BillingSyncJob" where
  "drop_job j = j\<lparr>sj_state := ''processed'', sj_next_attempt_at := None, sj_lease_token := None,
     sj_lease_expires_at := None\<rparr>"

definition set_job :: "string \<Rightarrow> (BillingSyncJob \<Rightarrow> BillingSyncJob) \<Rightarrow> unit sess" where
  "set_job i f = change (\<lambda>d. d\<lparr>sync_jobs := update_where (\<lambda>j. sj_id j = i) f (sync_jobs d)\<rparr>)"

definition process_claimed :: "Settings \<Rightarrow> string \<Rightarrow> string \<Rightarrow> bool sess" where
  "process_claimed s i token =
     bind (hold_claim i token) (\<lambda>mine.
     if \<not> mine then seq rollback (ret False)
     else bind (load sync_jobs sj_id i) (\<lambda>j.
       bind (query (closing (sj_user_id j))) (\<lambda>closed.
       if closed then seq (set_job i drop_job) (seq commit (ret True))
       else bind (if sj_kind j = ''webhook''
                  then seq (handle_event s (sj_payload j) False) (ret None)
                  else reconcile_checkout s (sj_checkout_id j)) (\<lambda>following.
         seq flush
        (bind (if_owned i token (finish_job following)) (\<lambda>still.
         if still then seq commit (ret True) else seq rollback (ret False)))))))"

definition retry_delay :: "nat \<Rightarrow> int" where
  "retry_delay failures = seconds (min 3600 (30 * 2 ^ (failures - 1)))"

definition failed_job :: "Settings \<Rightarrow> nat \<Rightarrow> string \<Rightarrow> datetime \<Rightarrow> BillingSyncJob \<Rightarrow> BillingSyncJob" where
  "failed_job s failures message stamp j =
     (let exhausted = failures \<ge> set_stripe_sync_max_failures s
      in j\<lparr>sj_failures := failures, sj_state := (if exhausted then ''failed'' else ''retry''),
           sj_last_error := Some message,
           sj_next_attempt_at := (if exhausted then None else Some (stamp + retry_delay failures)),
           sj_lease_token := None, sj_lease_expires_at := None\<rparr>)"

definition failure_message :: "exn \<Rightarrow> string" where
  "failure_message e = (if is_billing_error e then take 500 (exn_message e)
     else ''Synchronization failed internally. Retry or check the API service logs.'')"

definition record_failure :: "Settings \<Rightarrow> string \<Rightarrow> string \<Rightarrow> exn \<Rightarrow> bool sess" where
  "record_failure s i token e =
     bind (hold_claim i token) (\<lambda>mine.
     if \<not> mine then seq rollback (ret False)
     else bind (load sync_jobs sj_id i) (\<lambda>j.
       bind (if_owned i token (failed_job s (Suc (sj_failures j)) (failure_message e))) (\<lambda>_.
       seq commit (ret False))))"

definition process :: "Settings \<Rightarrow> string \<Rightarrow> string \<Rightarrow> bool sess" where
  "process s i token =
     catch (with_session (process_claimed s i token)) (\<lambda>e. with_session (record_failure s i token e))"

text \<open>The part of a tick that handles one job.\<close>

definition sync_once :: "Settings \<Rightarrow> bool sess" where
  "sync_once s =
     bind (with_session (seq (ensure_database_mode s) (seq seed_reconciliation claim_sync))) (\<lambda>claimed.
     case claimed of None \<Rightarrow> ret False
     | Some (i, token) \<Rightarrow> bind (process s i token) (\<lambda>_. ret True))"

subsection \<open>Operators\<close>

definition visible_to :: "User \<Rightarrow> db \<Rightarrow> BillingSyncJob \<Rightarrow> bool" where
  "visible_to actor d j \<longleftrightarrow> (case get_row usr_id (sj_user_id j) (users d) of None \<Rightarrow> False
     | Some u \<Rightarrow> usr_is_super_admin actor \<or> \<not> usr_is_super_admin u)"

definition retriable :: "datetime \<Rightarrow> BillingSyncJob \<Rightarrow> bool" where
  "retriable stamp j \<longleftrightarrow> sj_state j \<in> {''failed'', ''retry''} \<or> sj_kind j = ''reconcile'' \<and> sj_state j = ''processed''
     \<or> sj_state j = ''processing'' \<and> reached (sj_lease_expires_at j) stamp"

definition retry_sync :: "User \<Rightarrow> string \<Rightarrow> unit sess" where
  "retry_sync actor i =
     bind (query (\<lambda>d. find (\<lambda>j. sj_id j = i \<and> visible_to actor d j) (sync_jobs d))) (\<lambda>found.
     seq (guard (found \<noteq> None) (BillingError 404) ''Synchronization job not found.'')
    (bind now (\<lambda>stamp.
     bind (set_jobs (\<lambda>j. sj_id j = i \<and> retriable stamp j) (\<lambda>j. j\<lparr>sj_state := ''pending'', sj_failures := 0,
        sj_next_attempt_at := Some stamp, sj_lease_token := None, sj_lease_expires_at := None,
        sj_manual_retries := Suc (sj_manual_retries j), sj_retried_by := Some (usr_id actor),
        sj_retried_at := Some stamp\<rparr>)) (\<lambda>n.
     seq (guard (n = 1) (BillingError 409)
        ''This job is already pending or processing, or this event has already completed.'') commit))))"

end
