(* ===== verification/Changes.thy ===== *)
theory Changes
  imports Checkouts
begin

section \<open>Renewal changes (subscription_change_service.py)\<close>

text \<open>
  A change of plan or interval at the next renewal.  The intent is committed before Stripe is
  asked for a schedule, the schedule's identifier before it is configured, and its parameters
  before they are sent; every request of a change has an idempotency key of its own, so that a
  retry repeats the same request.  \<open>advance\<close> is one attempt, \<open>retry\<close> wraps it in a transaction
  and records what went wrong.
\<close>

definition WORK :: "string set" where
  "WORK = {''preparing'', ''undoing'', ''finalizing''}"

definition latest_change :: "uuid \<Rightarrow> db \<Rightarrow> SubscriptionChange option" where
  "latest_change user d = first_by (\<lambda>x. (- ch_created_at x, - int (ch_id x)))
     (filter (\<lambda>x. ch_user_id x = user) (changes d))"

record SerializedChange =
  zc_id :: string
  zc_state :: string
  zc_plan_name :: string
  zc_interval :: string
  zc_price :: "nat option"
  zc_currency :: string
  zc_effective_at :: datetime
  zc_error :: "string option"
  zc_undo_allowed :: bool
  zc_retry_allowed :: bool

definition serialized_change :: "SubscriptionChange \<Rightarrow> SerializedChange sess" where
  "serialized_change ch =
     bind (load_plan (ch_target_revision_id ch)) (\<lambda>p.
     bind (if ch_state ch \<noteq> ''scheduled'' then ret False
           else bind now (\<lambda>stamp. ret (ch_effective_at ch > stamp + seconds 30))) (\<lambda>undo.
     ret \<lparr>zc_id = uuid_text (ch_id ch), zc_state = ch_state ch, zc_plan_name = pc_name (pl_configuration p),
       zc_interval = ch_target_interval ch, zc_price = plan_price (ch_target_interval ch) (pl_configuration p),
       zc_currency = pc_currency (pl_configuration p), zc_effective_at = ch_effective_at ch,
       zc_error = ch_last_error ch, zc_undo_allowed = undo,
       zc_retry_allowed = (ch_state ch \<in> WORK \<or> ch_state ch = ''needs_review'')\<rparr>))"

subsection \<open>What may be chosen\<close>

definition is_downgrade :: "PlanRevision \<Rightarrow> PlanRevision \<Rightarrow> bool" where
  "is_downgrade source target =
     (let before = pl_configuration source; after = pl_configuration target
      in if pl_code source = pl_code target \<or> billing_type_of after \<noteq> BillingStripe
            \<or> pc_currency after \<noteq> pc_currency before \<or> pc_monthly_price after \<ge> pc_monthly_price before
         then False
         else plan_includes (from_configuration before) (from_configuration after))"

definition latest_plans :: "db \<Rightarrow> PlanRevision list" where
  "latest_plans d = filter (\<lambda>p. list_all (\<lambda>q. pl_code q = pl_code p \<longrightarrow> pl_revision q \<le> pl_revision p) (plans d)) (plans d)"

record ChangeOffer =
  of_code :: string
  of_revision :: nat
  of_interval :: string
  of_price :: nat
  of_configuration :: PlanConfiguration

text \<open>The price per month; the purchased interval has a price.\<close>

definition monthly_equivalent :: "string \<Rightarrow> nat \<Rightarrow> rat" where
  "monthly_equivalent interval price = of_nat price / (if interval = ''annual'' then 12 else 1)"

definition offer ::
  "Checkout \<Rightarrow> PlanRevision \<Rightarrow> PlanRevision \<Rightarrow> string \<Rightarrow> ChangeOffer list" where
  "offer c source p interval =
     (let cfg = pl_configuration p;
          old_price = (case plan_price (co_interval c) (pl_configuration source) of None \<Rightarrow> 0
            | Some v \<Rightarrow> monthly_equivalent (co_interval c) v)
      in case plan_price interval cfg of
           None \<Rightarrow> []
         | Some price \<Rightarrow>
             if \<not> has_text (price_mapping interval cfg) \<or> pl_id p = pl_id source \<and> interval = co_interval c then []
             else if is_downgrade source p \<and> monthly_equivalent interval price > old_price then []
             else [\<lparr>of_code = pl_code p, of_revision = pl_revision p, of_interval = interval, of_price = price,
                    of_configuration = cfg\<rparr>])"

definition offer_reason :: "Settings \<Rightarrow> uuid \<Rightarrow> db \<Rightarrow> string" where
  "offer_reason s user d =
     (case latest_checkout d user of
        None \<Rightarrow> ''An active paid subscription with no pending cancellation is required.''
      | Some c \<Rightarrow>
          if \<not> has_text (co_subscription_id c) \<or> co_subscription_status c \<noteq> Some ''active'' \<or> co_cancel_at_period_end c
          then ''An active paid subscription with no pending cancellation is required.''
          else if \<not> set_stripe_checkout_enabled s \<or> \<not> opted_in d user
          then ''Subscription changes are unavailable for this account.''
          else if change_pending user d
          then ''Complete or undo the existing change before choosing another.''
          else [])"

definition offers :: "Settings \<Rightarrow> uuid \<Rightarrow> db \<Rightarrow> exn + ChangeOffer list" where
  "offers s user d =
     (case latest_checkout d user of
        None \<Rightarrow> Inr []
      | Some c \<Rightarrow>
          if offer_reason s user d \<noteq> [] then Inr []
          else rbind (the_value AttributeErrorPy (get_row pl_id (co_plan_revision_id c) (plans d))) (\<lambda>source.
            Inr (concat (map (\<lambda>p. concat (map (offer c source p) [''monthly'', ''annual'']))
              (source # filter (\<lambda>p. plan_available p \<and> (is_downgrade source p \<or> is_renewal_upgrade source p))
                 (latest_plans d))))))"

record ChangeOptions =
  op_items :: "ChangeOffer list"
  op_change :: "SerializedChange option"
  op_digests :: "(uuid \<times> string) list"
  op_reason :: string
  op_effective_at :: "datetime option"

definition own_digests :: "uuid \<Rightarrow> db \<Rightarrow> Digest list" where
  "own_digests user d = filter (\<lambda>g. dg_owner_id g = user) (digests d)"

definition change_options :: "Settings \<Rightarrow> uuid \<Rightarrow> ChangeOptions sess" where
  "change_options s user =
     bind (query (latest_change user)) (\<lambda>ch.
     bind (case ch of None \<Rightarrow> ret None | Some x \<Rightarrow> bind (serialized_change x) (\<lambda>z. ret (Some z))) (\<lambda>shown.
     bind (query (offer_reason s user)) (\<lambda>reason.
     bind (query (offers s user)) (\<lambda>r.
     bind (lift_result r) (\<lambda>items.
     bind (query (\<lambda>d. map (\<lambda>g. (dg_id g, dg_topic g)) (sort_key (\<lambda>g. (dg_created_at g, dg_id g)) (own_digests user d)))) (\<lambda>ds.
     bind (query (\<lambda>d. Option.bind (latest_checkout d user) co_period_end)) (\<lambda>ends.
     ret \<lparr>op_items = items, op_change = shown, op_digests = (if reason = [] then ds else []), op_reason = reason,
          op_effective_at = (if reason = [] then ends else None)\<rparr>)))))))"

definition choose_ids :: "uuid \<Rightarrow> uuid list \<Rightarrow> nat \<Rightarrow> db \<Rightarrow> exn + uuid list" where
  "choose_ids user ids maximum d =
     (let available = set (map dg_id (own_digests user d)); n = min maximum (card available)
      in rseq (require (set ids \<subseteq> available) (BillingError 404) ''A selected digest does not belong to your account.'')
        (rseq (require (distinct ids \<and> length ids = n) (BillingError 422)
            (''Choose '' @ nat_str n @ '' distinct active digests for the target plan.''))
         (Inr ids)))"

subsection \<open>One attempt\<close>

definition review_change :: "uuid \<Rightarrow> string \<Rightarrow> unit sess" where
  "review_change i m = set_change i (\<lambda>x. x\<lparr>ch_state := ''needs_review'', ch_last_error := Some m\<rparr>)"

definition load_change :: "uuid \<Rightarrow> SubscriptionChange sess" where
  "load_change = load changes ch_id"

text \<open>\<open>((value.get('items') or {}).get('data') or [{}])[0]\<close>.\<close>

definition first_of_items :: "json \<Rightarrow> exn + json" where
  "first_of_items value = rbind (dig value [''items'', ''data'']) (\<lambda>v. jfirst (jor v (JList [JObj []])))"

definition change_key :: "SubscriptionChange \<Rightarrow> string \<Rightarrow> string option" where
  "change_key ch step = Some (''radar-change-'' @ uuid_text (ch_id ch) @ ''-'' @ step)"

definition scheduled_notice :: "SubscriptionChange \<Rightarrow> unit sess" where
  "scheduled_notice ch =
     seq (set_change (ch_id ch) (\<lambda>x. x\<lparr>ch_state := ''scheduled''\<rparr>))
       (change_notice ch ''scheduled'' ''Your requested change is scheduled. No immediate charge or proration is made. You can undo it before renewal.'')"

definition source_moved :: "SubscriptionChange \<Rightarrow> json \<Rightarrow> exn + bool" where
  "source_moved ch value =
     rbind (first_of_items value) (\<lambda>item.
     any_of [test (\<lambda>v. v \<noteq> JStr ''active'') (jget value ''status''), flag value ''cancel_at_period_end'',
       test (\<lambda>v. ref v \<noteq> JStr (ch_source_price_id ch)) (jget item ''price''),
       test (\<lambda>v. \<not> jis_num v (boundary ch)) (item_field value item ''current_period_end'')])"

definition too_old_change :: "SubscriptionChange \<Rightarrow> datetime \<Rightarrow> bool" where
  "too_old_change ch stamp \<longleftrightarrow> stamp - ch_created_at ch > seconds (23 * 3600)"

text \<open>Creating the schedule, or replaying the request that created it; the result says whether
  the change is still being prepared.\<close>

definition create_schedule :: "Settings \<Rightarrow> Checkout \<Rightarrow> SubscriptionChange \<Rightarrow> json \<Rightarrow> bool sess" where
  "create_schedule s c ch value =
     bind (lift_result (source_moved ch value)) (\<lambda>moved.
     if moved then seq (review_change (ch_id ch)
        ''The source subscription changed before scheduling. Operator review is required.'') (ret False)
     else bind now (\<lambda>stamp.
     if too_old_change ch stamp then seq (review_change (ch_id ch)
        ''The unresolved request is too old to replay safely. Ask an operator to reconcile its Stripe schedule.'') (ret False)
     else bind (lift_result (jget value ''schedule'')) (\<lambda>schedule.
     bind (lift_result (simple_subscription value)) (\<lambda>_.
     bind (request s ''POST'' ''subscription_schedules'' [(''from_subscription'', text_or_none (co_subscription_id c))]
        (change_key ch ''create'')) (\<lambda>created.
     bind (lift_result (rbind (jget created ''id'') (stripe_id ''sub_sched_''))) (\<lambda>sid.
     seq (guard (\<not> (truthy schedule \<and> truthy (ref schedule) \<and> ref schedule \<noteq> JStr sid)) (BillingError 409)
        ''A different Stripe schedule is attached. Operator review is required.'')
    (seq (set_change (ch_id ch) (\<lambda>x. x\<lparr>ch_schedule_id := Some sid\<rparr>))
    (seq commit
    (seq (lock_billing (ch_user_id ch) False)
    (bind (load_change (ch_id ch)) (\<lambda>x. ret (ch_state x = ''preparing''))))))))))))"

definition configuration ::
  "SubscriptionChange \<Rightarrow> int \<Rightarrow> parameters" where
  "configuration ch begins =
     [(''end_behavior'', ''release''), (''proration_behavior'', ''none''),
      (''metadata[radar_change_id]'', uuid_text (ch_id ch)),
      (''phases[0][start_date]'', int_str begins), (''phases[0][end_date]'', int_str (boundary ch)),
      (''phases[0][items][0][price]'', ch_source_price_id ch), (''phases[0][items][0][quantity]'', ''1''),
      (''phases[0][proration_behavior]'', ''none''), (''phases[1][start_date]'', int_str (boundary ch)),
      (''phases[1][duration][interval]'', if ch_target_interval ch = ''monthly'' then ''month'' else ''year''),
      (''phases[1][duration][interval_count]'', ''1''), (''phases[1][items][0][price]'', ch_target_price_id ch),
      (''phases[1][items][0][quantity]'', ''1''), (''phases[1][proration_behavior]'', ''none''),
      (''phases[1][billing_cycle_anchor]'', ''phase_start'')]"

text \<open>The source schedule has one phase of the old price, begun before the renewal.\<close>

definition source_phase :: "SubscriptionChange \<Rightarrow> json \<Rightarrow> exn + int" where
  "source_phase ch current =
     rbind (jget current ''phases'') (\<lambda>p. let phases = jor p (JList []) in
     rseq (refuse_if [map_sum id (\<lambda>xs. length xs \<noteq> 1) (jiter phases),
         rbind (jfirst phases) (\<lambda>ph. map_sum id (\<lambda>xs. length xs \<noteq> 1) (phase_items ph)),
         test (\<lambda>v. ref v \<noteq> JStr (ch_source_price_id ch))
           (rbind (jfirst phases) (\<lambda>ph. rbind (first_item ph) (\<lambda>i. jget i ''price'')))]
       (billing 409 ''The source schedule was customized. Operator review is required.''))
     (rbind (dig current [''current_phase'', ''start_date'']) (\<lambda>v.
      case jint v of
        None \<Rightarrow> Inl (billing 409 ''The current schedule phase could not be verified.'')
      | Some i \<Rightarrow> if i \<ge> boundary ch then Inl (billing 409 ''The current schedule phase could not be verified.'')
          else Inr i)))"

text \<open>The parameters are saved once and never changed; the result says whether to go on.\<close>

definition prepare_parameters :: "SubscriptionChange \<Rightarrow> json \<Rightarrow> bool sess" where
  "prepare_parameters ch current =
     (if ch_parameters ch \<noteq> [] then ret True
      else bind (lift_result (source_phase ch current)) (\<lambda>begins.
        seq (set_change (ch_id ch) (\<lambda>x. x\<lparr>ch_parameters := configuration ch begins\<rparr>))
       (seq commit
       (seq (lock_billing (ch_user_id ch) False)
       (bind (load_change (ch_id ch)) (\<lambda>x. ret (ch_state x = ''preparing'')))))))"

definition confirm_source :: "Settings \<Rightarrow> Checkout \<Rightarrow> SubscriptionChange \<Rightarrow> unit sess" where
  "confirm_source s c ch =
     bind (subscription s c) (\<lambda>value.
     bind (lift_result (rseq (rbind (first_of_items value) (\<lambda>item.
        refuse_if [test (\<lambda>v. v \<noteq> JStr ''active'') (jget value ''status''), flag value ''cancel_at_period_end'',
          test (\<lambda>v. ref v \<noteq> jtext (ch_schedule_id ch)) (jget value ''schedule''),
          test (\<lambda>v. ref v \<noteq> JStr (ch_source_price_id ch)) (jget item ''price''),
          test (\<lambda>v. \<not> jis_num v (boundary ch)) (item_field value item ''current_period_end'')]
          (billing 409 ''The source subscription changed before confirmation. Operator review is required.'')))
       (simple_subscription value))) (\<lambda>_. ret ()))"

definition configure_schedule :: "Settings \<Rightarrow> Checkout \<Rightarrow> uuid \<Rightarrow> unit sess" where
  "configure_schedule s c i =
     bind (load_change i) (\<lambda>ch.
     bind (verified_schedule s c ch) (\<lambda>current.
     bind (lift_result (jget current ''status'')) (\<lambda>status.
     if status \<noteq> JStr ''active''
     then stop_change ch ''Stripe no longer has an active schedule. Review your billing status.''
     else bind (lift_result (has_target current ch)) (\<lambda>ours.
     if ours then scheduled_notice ch
     else bind now (\<lambda>stamp.
     if ch_effective_at ch \<le> stamp + seconds 30
     then review_change i ''Renewal arrived before the schedule could be confirmed. Operator review is required.''
     else seq (confirm_source s c ch)
       (bind (prepare_parameters ch current) (\<lambda>go.
        if \<not> go then ret ()
        else bind (load_change i) (\<lambda>ch.
          bind (request s ''POST'' (''subscription_schedules/'' @ text_or_none (ch_schedule_id ch)) (ch_parameters ch)
             (change_key ch ''configure'')) (\<lambda>_.
          bind (verified_schedule s c ch) (\<lambda>confirmed.
          bind (lift_result (has_target confirmed ch)) (\<lambda>ours.
          seq (guard ours (BillingError 503) ''Stripe has not confirmed the requested future phase.'')
            (scheduled_notice ch))))))))))))"

definition advance_preparing :: "Settings \<Rightarrow> Checkout \<Rightarrow> SubscriptionChange \<Rightarrow> unit sess" where
  "advance_preparing s c ch =
     bind (subscription s c) (\<lambda>value.
     bind (if has_text (ch_schedule_id ch) then ret True else create_schedule s c ch value) (\<lambda>go.
     if go then configure_schedule s c (ch_id ch) else ret ()))"

text \<open>Releasing the schedule, of a change that is undone or in effect.\<close>

definition settle_release :: "Settings \<Rightarrow> Checkout \<Rightarrow> uuid \<Rightarrow> json \<Rightarrow> unit sess" where
  "settle_release s c i value =
     bind (lift_result (status_in value {''released'', ''completed'', ''canceled''})) (\<lambda>released.
     seq (guard released (BillingError 503) ''Stripe has not confirmed release of this schedule.'')
    (bind (load_change i) (\<lambda>ch.
     seq (observe_subscription s (co_id c) (jtext (co_subscription_id c)))
    (bind (load_change i) (\<lambda>x.
     bind (load_checkout (co_id c)) (\<lambda>r.
     if ch_state ch = ''undoing'' \<and> ch_applied_at x = None
     then (if \<not> co_price_matches r \<or> ended r
           then review_change i ''The schedule was released, but the original subscription is no longer active at its saved price. Review billing.''
           else seq (set_change i (\<lambda>x. x\<lparr>ch_state := ''undone''\<rparr>))
             (change_notice x ''undone'' ''The scheduled change was undone. Your current plan and billing interval continue.''))
     else if ch_state x = ''finalizing'' then set_change i (\<lambda>x. x\<lparr>ch_state := ''applied''\<rparr>)
     else ret ()))))))"

definition advance_release :: "Settings \<Rightarrow> Checkout \<Rightarrow> SubscriptionChange \<Rightarrow> unit sess" where
  "advance_release s c ch =
     bind (verified_schedule s c ch) (\<lambda>value.
     bind (lift_result (jget value ''status'')) (\<lambda>status.
     if status \<noteq> JStr ''active'' then settle_release s c (ch_id ch) value
     else bind (if ch_state ch \<noteq> ''undoing'' then ret False
                else bind now (\<lambda>stamp. ret (ch_effective_at ch \<le> stamp + seconds 30))) (\<lambda>late.
       if late
       then seq (observe_subscription s (co_id c) (jtext (co_subscription_id c)))
           (set_change (ch_id ch) (\<lambda>x. if ch_state x = ''undoing'' then x\<lparr>ch_state := ''scheduled''\<rparr> else x))
       else bind (request s ''POST'' (''subscription_schedules/'' @ text_or_none (ch_schedule_id ch) @ ''/release'')
              [(''preserve_cancel_date'', ''true'')] (change_key ch ''release'')) (\<lambda>_.
            bind (verified_schedule s c ch) (settle_release s c (ch_id ch))))))"

definition advance_review :: "Settings \<Rightarrow> Checkout \<Rightarrow> SubscriptionChange \<Rightarrow> unit sess" where
  "advance_review s c ch =
     bind (subscription s c) (\<lambda>value.
     if has_text (ch_schedule_id ch) then observe_change s (co_id c) value
     else bind (lift_result (flag value ''schedule'')) (\<lambda>attached.
       if attached then ret ()
       else bind now (\<lambda>stamp.
         if too_old_change ch stamp
         then stop_change ch ''No Stripe schedule remains. Review your subscription before choosing another change.''
         else ret ())))"

definition advance :: "Settings \<Rightarrow> SubscriptionChange \<Rightarrow> unit sess" where
  "advance s ch =
     bind (load_checkout (ch_checkout_id ch)) (\<lambda>c.
     if ch_state ch = ''needs_review'' then advance_review s c ch
     else if ch_state ch = ''preparing'' then advance_preparing s c ch
     else if ch_state ch \<in> {''undoing'', ''finalizing''} then advance_release s c ch
     else ret ())"

subsection \<open>Commands\<close>

definition owned_change :: "uuid \<Rightarrow> uuid \<Rightarrow> SubscriptionChange sess" where
  "owned_change user i =
     bind (query (\<lambda>d. get_row ch_id i (changes d))) (\<lambda>found.
     case found of
       None \<Rightarrow> raise (BillingError 404) ''Subscription change not found.''
     | Some ch \<Rightarrow> if ch_user_id ch \<noteq> user then raise (BillingError 404) ''Subscription change not found.'' else ret ch)"

definition retry_pause :: "nat \<Rightarrow> int" where
  "retry_pause attempts = seconds (min 3600 (30 * 2 ^ min attempts 7))"

definition failed_change :: "string \<Rightarrow> datetime \<Rightarrow> SubscriptionChange \<Rightarrow> SubscriptionChange" where
  "failed_change message stamp x =
     (let n = Suc (ch_attempts x)
      in x\<lparr>ch_attempts := n, ch_last_error := Some (take 500 message),
           ch_next_attempt_at := Some (stamp + retry_pause n),
           ch_state := (if n \<ge> 10 then ''needs_review'' else ch_state x)\<rparr>)"

definition retry_change :: "Settings \<Rightarrow> uuid \<Rightarrow> uuid \<Rightarrow> SerializedChange sess" where
  "retry_change s user i =
     seq (enabled s)
    (seq (lock_billing user False)
    (bind (owned_change user i) (\<lambda>ch.
     seq (catch
        (seq (stripe_client s)
        (seq (advance s ch)
        (bind now (\<lambda>stamp.
         seq (set_change i (\<lambda>x. x\<lparr>ch_last_error := (if ch_state x \<noteq> ''needs_review'' then None else ch_last_error x),
                ch_next_attempt_at := Some (stamp + seconds 30)\<rparr>)) commit))))
        (\<lambda>e. if \<not> is_billing_error e then reraise e
             else seq rollback
              (seq (lock_billing user False)
              (bind now (\<lambda>stamp. seq (set_change i (failed_change (exn_message e) stamp)) commit)))))
       (bind (load_change i) serialized_change))))"

definition wanted_offer :: "string \<Rightarrow> nat \<Rightarrow> string \<Rightarrow> ChangeOffer list \<Rightarrow> bool" where
  "wanted_offer code revision interval items \<longleftrightarrow>
     list_ex (\<lambda>x. (of_code x, of_revision x, of_interval x) = (code, revision, interval)) items"

text \<open>The paid coverage, the subscription and the target are verified before the intent is saved.\<close>

definition require_coverage :: "Settings \<Rightarrow> Checkout \<Rightarrow> int \<Rightarrow> string \<Rightarrow> unit sess" where
  "require_coverage s c status message =
     bind now (\<lambda>stamp. bind (query (\<lambda>d. assessment d c stamp (set_subscription_grace_days s) None 0)) (\<lambda>payment.
     guard (py_covered payment \<and> \<not> has_text (py_issue payment)) (BillingError status) message))"

definition verify_schedulable :: "Settings \<Rightarrow> Checkout \<Rightarrow> datetime \<Rightarrow> unit sess" where
  "verify_schedulable s c expected_end =
     seq (bind now (\<lambda>stamp. guard (co_period_end c = Some expected_end
            \<and> (case co_period_end c of None \<Rightarrow> False | Some e \<Rightarrow> e > stamp + seconds 300)) (BillingError 409)
          ''The renewal date changed or is too close. Refresh and review after renewal.''))
    (seq (guard (co_price_matches c) (BillingError 409)
        ''Resolve payment and verify current paid coverage before changing a subscription.'')
    (seq (require_coverage s c 409 ''Resolve payment and verify current paid coverage before changing a subscription.'')
    (bind (subscription s c) (\<lambda>value.
     bind (lift_result (rseq (simple_subscription value)
        (refuse_if [flag value ''schedule'', flag value ''cancel_at_period_end'',
            test (\<lambda>v. v \<noteq> JStr ''active'') (jget value ''status'')]
          (billing 409 ''Stripe already has a schedule or cancellation, or payment is not active. Refresh billing.'')))) (\<lambda>_.
     ret ())))))"

definition new_change ::
  "uuid \<Rightarrow> uuid \<Rightarrow> Checkout \<Rightarrow> PlanRevision \<Rightarrow> string \<Rightarrow> datetime \<Rightarrow> uuid list \<Rightarrow> datetime \<Rightarrow> datetime \<Rightarrow> SubscriptionChange" where
  "new_change i user c target interval ends chosen due created =
     \<lparr>ch_id = i, ch_user_id = user, ch_checkout_id = co_id c, ch_source_revision_id = co_plan_revision_id c,
      ch_target_revision_id = pl_id target, ch_source_price_id = co_price_id c,
      ch_target_price_id = text_or_none (price_mapping interval (pl_configuration target)),
      ch_source_interval = co_interval c, ch_target_interval = interval, ch_effective_at = ends,
      ch_state = ''preparing'', ch_schedule_id = None, ch_parameters = [], ch_digest_ids = chosen,
      ch_applied_at = None, ch_last_error = None, ch_attempts = 0, ch_next_attempt_at = Some due,
      ch_created_at = created\<rparr>"

definition save_intent ::
  "Settings \<Rightarrow> uuid \<Rightarrow> Checkout \<Rightarrow> string \<Rightarrow> nat \<Rightarrow> string \<Rightarrow> datetime \<Rightarrow> uuid list \<Rightarrow> uuid sess" where
  "save_intent s user c code revision interval ends ids =
     bind (query (\<lambda>d. find (\<lambda>p. pl_code p = code \<and> pl_revision p = revision) (plans d))) (\<lambda>found.
     bind (lift_result (the_value AttributeErrorPy found)) (\<lambda>target.
     bind (check_mapping (pl_configuration target) s) (\<lambda>report.
     seq (guard (mr_matches report) (BillingError 409) ''The target plan no longer matches Stripe. Ask an administrator to review it.'')
    (bind (query (choose_ids user ids (pc_max_digests (pl_configuration target)))) (\<lambda>r.
     bind (lift_result r) (\<lambda>chosen.
     bind now (\<lambda>due. bind now (\<lambda>created. bind uuid4 (\<lambda>i.
     seq (change (\<lambda>d. d\<lparr>changes := changes d @ [new_change i user c target interval ends chosen due created]\<rparr>))
    (seq commit (ret i)))))))))))"

definition schedule_change ::
  "Settings \<Rightarrow> uuid \<Rightarrow> string \<Rightarrow> nat \<Rightarrow> string \<Rightarrow> datetime \<Rightarrow> uuid list \<Rightarrow> SerializedChange sess" where
  "schedule_change s user code revision interval expected_end ids =
     seq (enabled s)
    (seq (stripe_client s)
    (seq (lock_billing user False)
    (seq (require_opt_in user)
    (bind (query (\<lambda>d. blocking_upgrade d user)) (\<lambda>upgrade.
     seq (guard (upgrade = None) (BillingError 409) ''Resolve the pending upgrade before scheduling another change.'')
    (bind (query (\<lambda>d. blocking_change d user)) (\<lambda>existing.
     case existing of
       Some x \<Rightarrow>
         bind (load_plan (ch_target_revision_id x)) (\<lambda>target.
         if (pl_code target, pl_revision target, ch_target_interval x) = (code, revision, interval)
         then seq commit (retry_change s user (ch_id x))
         else raise (BillingError 409) ''Another subscription change is pending. Undo it first.'')
     | None \<Rightarrow>
         bind (query (\<lambda>d. latest_checkout d user)) (\<lambda>row.
         case row of
           None \<Rightarrow> raise (BillingError 409) ''No subscription is available to change.''
         | Some c \<Rightarrow>
             seq (guard (has_text (co_subscription_id c)) (BillingError 409) ''No subscription is available to change.'')
            (seq (observe_subscription s (co_id c) (jtext (co_subscription_id c)))
            (bind (change_options s user) (\<lambda>choices.
             seq (guard (wanted_offer code revision interval (op_items choices)) (BillingError 409)
                ''This change is no longer available. Reload and review the plans.'')
            (bind (load_checkout (co_id c)) (\<lambda>c.
             seq (verify_schedulable s c expected_end)
            (bind (save_intent s user c code revision interval expected_end ids) (\<lambda>i.
             retry_change s user i)))))))))))))))"

definition undo_change :: "Settings \<Rightarrow> uuid \<Rightarrow> uuid \<Rightarrow> SerializedChange sess" where
  "undo_change s user i =
     seq (enabled s)
    (seq (lock_billing user False)
    (bind (owned_change user i) (\<lambda>ch.
     if ch_state ch = ''undone'' then serialized_change ch
     else if ch_state ch = ''undoing'' then seq commit (retry_change s user i)
     else seq (if ch_state ch \<noteq> ''scheduled''
               then raise (BillingError 409) ''This change is already starting or cannot be undone. Refresh billing status.''
               else bind now (\<lambda>stamp. guard (ch_effective_at ch > stamp + seconds 30) (BillingError 409)
                 ''This change is already starting or cannot be undone. Refresh billing status.''))
       (bind now (\<lambda>stamp.
        seq (set_change i (\<lambda>x. x\<lparr>ch_state := ''undoing'', ch_next_attempt_at := Some stamp\<rparr>))
       (seq commit (retry_change s user i)))))))"

definition open_account :: "uuid \<Rightarrow> db \<Rightarrow> bool" where
  "open_account user d \<longleftrightarrow> (case get_row usr_id user (users d) of None \<Rightarrow> False
     | Some u \<Rightarrow> usr_closure_requested_at u = None)"

definition due_at :: "datetime option \<Rightarrow> datetime \<Rightarrow> bool" where
  "due_at t stamp \<longleftrightarrow> (case t of None \<Rightarrow> False | Some u \<Rightarrow> u \<le> stamp)"

definition due_change :: "datetime \<Rightarrow> db \<Rightarrow> SubscriptionChange option" where
  "due_change stamp d = first_by (\<lambda>x. (case ch_next_attempt_at x of None \<Rightarrow> 0 | Some t \<Rightarrow> t, ch_id x))
     (filter (\<lambda>x. open_account (ch_user_id x) d \<and> ch_state x \<in> WORK \<and> due_at (ch_next_attempt_at x) stamp) (changes d))"

definition tick_changes :: "Settings \<Rightarrow> bool sess" where
  "tick_changes s =
     (if \<not> set_stripe_checkout_enabled s then ret False
      else bind now (\<lambda>stamp.
        bind (query (due_change stamp)) (\<lambda>row.
        case row of None \<Rightarrow> ret False
        | Some x \<Rightarrow> bind (retry_change s (ch_user_id x) (ch_id x)) (\<lambda>_. ret True))))"

end
