(* ===== verification/Upgrades.thy ===== *)
theory Upgrades
  imports Changes
begin

section \<open>Paid upgrades (subscription_upgrade_service.py)\<close>

text \<open>
  A quoted upgrade within the billing period: preview, confirmation of exactly the quoted
  charge, one idempotent request with the saved parameters, and the payment page.  The charge
  of a confirmation is previewed again and must equal the saved quote.
\<close>

definition latest_upgrade :: "uuid \<Rightarrow> db \<Rightarrow> SubscriptionUpgrade option" where
  "latest_upgrade user d = first_by (\<lambda>u. (- up_created_at u, - int (up_id u)))
     (filter (\<lambda>u. up_user_id u = user) (upgrades d))"

record SerializedUpgrade =
  zu_id :: string
  zu_state :: string
  zu_plan_name :: string
  zu_interval :: string
  zu_recurring_price :: "nat option"
  zu_currency :: string
  zu_amount_due :: int
  zu_credit :: int
  zu_charge :: int
  zu_proration_at :: datetime
  zu_period_end :: datetime
  zu_expires_at :: datetime
  zu_pending_until :: "datetime option"
  zu_error :: "string option"
  zu_confirm_allowed :: bool
  zu_retry_allowed :: bool
  zu_payment_allowed :: bool

definition quoted_amount :: "UpgradeQuoteRecord \<Rightarrow> string \<Rightarrow> exn + int" where
  "quoted_amount q price = map_sum id ln_amount
     (the_value ValueErrorPy (find (\<lambda>l. ln_price l = price) (uq_lines q)))"

definition serialized_upgrade :: "SubscriptionUpgrade \<Rightarrow> SerializedUpgrade sess" where
  "serialized_upgrade u =
     bind (load_plan (up_target_revision_id u)) (\<lambda>p.
     bind (if up_state u \<noteq> ''preview'' then ret (up_state u)
           else bind now (\<lambda>stamp. ret (if up_expires_at u \<le> stamp then ''expired'' else up_state u))) (\<lambda>st.
     bind (lift_result (quoted_amount (up_quote u) (up_source_price_id u))) (\<lambda>credit.
     bind (lift_result (quoted_amount (up_quote u) (up_target_price_id u))) (\<lambda>charge.
     ret \<lparr>zu_id = uuid_text (up_id u), zu_state = st, zu_plan_name = pc_name (pl_configuration p),
       zu_interval = up_interval u, zu_recurring_price = plan_price (up_interval u) (pl_configuration p),
       zu_currency = uq_currency (up_quote u), zu_amount_due = uq_amount_due (up_quote u), zu_credit = - credit,
       zu_charge = charge, zu_proration_at = up_proration_at u, zu_period_end = up_period_end u,
       zu_expires_at = up_expires_at u, zu_pending_until = up_pending_until u, zu_error = up_last_error u,
       zu_confirm_allowed = (st = ''preview''), zu_retry_allowed = (st \<in> upgrade_open),
       zu_payment_allowed = (st = ''pending_payment'')\<rparr>))))"

subsection \<open>Eligibility\<close>

definition eligible_upgrade :: "PlanRevision \<Rightarrow> PlanRevision \<Rightarrow> string \<Rightarrow> bool" where
  "eligible_upgrade source target interval =
     (let before = pl_configuration source; after = pl_configuration target
      in if pl_id source = pl_id target \<or> \<not> plan_available target \<or> billing_type_of after \<noteq> BillingStripe
            \<or> pc_currency before \<noteq> pc_currency after
         then False
         else (case (plan_price interval before, plan_price interval after) of
             (Some a, Some b) \<Rightarrow> b > a \<and> improves (from_configuration after) (from_configuration before)
           | _ \<Rightarrow> False))"

record UpgradeOffer =
  uo_code :: string
  uo_revision :: nat
  uo_name :: string
  uo_interval :: string
  uo_currency :: string
  uo_price :: "nat option"

definition upgrade_reason :: "Settings \<Rightarrow> uuid \<Rightarrow> db \<Rightarrow> string" where
  "upgrade_reason s user d =
     (if \<not> set_stripe_checkout_enabled s \<or> \<not> opted_in d user
      then ''Paid upgrades are unavailable for this account.''
      else case latest_checkout d user of
          None \<Rightarrow> ''An active paid subscription without cancellation is required.''
        | Some c \<Rightarrow>
            if co_subscription_status c \<noteq> Some ''active'' \<or> co_cancel_at_period_end c
            then ''An active paid subscription without cancellation is required.''
            else if change_pending user d then ''Resolve the existing subscription change before requesting an upgrade.''
            else [])"

definition upgrade_offers :: "Settings \<Rightarrow> uuid \<Rightarrow> db \<Rightarrow> exn + UpgradeOffer list" where
  "upgrade_offers s user d =
     (case latest_checkout d user of
        None \<Rightarrow> Inr []
      | Some c \<Rightarrow>
          if upgrade_reason s user d \<noteq> [] then Inr []
          else rbind (the_value AttributeErrorPy (get_row pl_id (co_plan_revision_id c) (plans d))) (\<lambda>source.
            Inr (map (\<lambda>p. \<lparr>uo_code = pl_code p, uo_revision = pl_revision p, uo_name = pc_name (pl_configuration p),
                uo_interval = co_interval c, uo_currency = pc_currency (pl_configuration p),
                uo_price = plan_price (co_interval c) (pl_configuration p)\<rparr>)
              (filter (\<lambda>p. eligible_upgrade source p (co_interval c)) (sort_key pl_code (latest_plans d))))))"

subsection \<open>The verified subscription\<close>

definition preview_params :: "SubscriptionUpgrade \<Rightarrow> Checkout \<Rightarrow> parameters" where
  "preview_params u c =
     [(''subscription'', text_or_none (co_subscription_id c)),
      (''subscription_details[items][0][id]'', up_item_id u),
      (''subscription_details[items][0][price]'', up_target_price_id u),
      (''subscription_details[items][0][quantity]'', ''1''),
      (''subscription_details[proration_behavior]'', ''always_invoice''),
      (''subscription_details[proration_date]'', int_str (timestamp (up_proration_at u)))]"

definition at_time :: "datetime option \<Rightarrow> exn + int" where
  "at_time t = map_sum id timestamp (the_value AttributeErrorPy t)"

definition unmoved_item :: "Checkout \<Rightarrow> json \<Rightarrow> exn + string" where
  "unmoved_item c value =
     rbind (rbind (dig value [''items'', ''data'']) jfirst) (\<lambda>item.
     rseq (refuse_if
       [test (\<lambda>v. ref v \<noteq> JStr (co_price_id c)) (jget item ''price''),
        rbind (item_field value item ''current_period_end'') (\<lambda>v. map_sum id (\<lambda>t. \<not> jis_num v t) (at_time (co_period_end c))),
        rbind (item_field value item ''current_period_start'') (\<lambda>v. map_sum id (\<lambda>t. \<not> jis_num v t) (at_time (co_period_start c)))]
       (billing 409 ''The subscription changed during verification. Refresh billing.''))
     (rbind (jget item ''id'') (stripe_id ''si_'')))"

definition msg_close_to_renewal :: string where
  "msg_close_to_renewal = ''Resolve billing changes or payment issues first; upgrades are unavailable close to renewal.''"

definition preflight :: "Settings \<Rightarrow> uuid \<Rightarrow> (Checkout \<times> string) sess" where
  "preflight s user =
     seq (enabled s)
    (seq (require_opt_in user)
    (bind (query (\<lambda>d. latest_checkout d user)) (\<lambda>row.
     case row of
       None \<Rightarrow> raise (BillingError 409) ''An active paid subscription is required.''
     | Some c \<Rightarrow>
         seq (guard (has_text (co_subscription_id c)) (BillingError 409) ''An active paid subscription is required.'')
        (seq (observe_subscription s (co_id c) (jtext (co_subscription_id c)))
        (bind (load_checkout (co_id c)) (\<lambda>c.
         bind (subscription s c) (\<lambda>value.
         bind (lift_result (rseq (simple_subscription value)
           (refuse_if [test (\<lambda>v. v \<noteq> JStr ''active'') (jget value ''status''), flag value ''cancel_at_period_end'',
              flag value ''schedule'', Inr (\<not> co_price_matches c), Inr (co_period_end c = None)]
             (billing 409 msg_close_to_renewal)))) (\<lambda>_.
         seq (bind now (\<lambda>stamp. guard (case co_period_end c of None \<Rightarrow> False | Some e \<Rightarrow> e > stamp + seconds 900)
              (BillingError 409) msg_close_to_renewal))
        (seq (require_coverage s c 409 ''Verified current paid coverage is required before previewing an upgrade.'')
        (bind (lift_result (unmoved_item c value)) (\<lambda>item. ret (c, item))))))))))))"

text \<open>The chain of supplementary invoices that a further upgrade would lengthen.\<close>

fun chain_allows :: "db \<Rightarrow> uuid \<Rightarrow> nat \<Rightarrow> string list \<Rightarrow> string \<Rightarrow> bool" where
  "chain_allows d checkout 0 seen invoice = (invoice = [])"
| "chain_allows d checkout (Suc n) seen invoice =
     (if invoice = [] then True
      else if invoice \<in> set seen then False
      else (case find (\<lambda>u. up_checkout_id u = checkout \<and> up_invoice_id u = Some invoice) (upgrades d) of
          None \<Rightarrow> True
        | Some u \<Rightarrow> chain_allows d checkout n (invoice # seen) (up_source_invoice_id u)))"

subsection \<open>Preview\<close>

definition previewed_upgrade ::
  "uuid \<Rightarrow> uuid \<Rightarrow> Checkout \<Rightarrow> PlanRevision \<Rightarrow> PlanRevision \<Rightarrow> string \<Rightarrow> string \<Rightarrow> datetime \<times> datetime \<Rightarrow> datetime \<Rightarrow> datetime \<Rightarrow> SubscriptionUpgrade" where
  "previewed_upgrade i user c source target item invoice period stamp created =
     \<lparr>up_id = i, up_user_id = user, up_checkout_id = co_id c, up_source_revision_id = pl_id source,
      up_target_revision_id = pl_id target, up_source_price_id = co_price_id c,
      up_target_price_id = text_or_none (price_mapping (co_interval c) (pl_configuration target)),
      up_item_id = item, up_interval = co_interval c, up_source_invoice_id = invoice, up_invoice_id = None,
      up_period_start = fst period, up_period_end = snd period, up_proration_at = stamp,
      up_expires_at = stamp + seconds 600, up_created_at = created, up_submitted_at = None, up_applied_at = None,
      up_pending_until = None, up_state = ''preview'',
      up_quote = \<lparr>uq_currency = lower (pc_currency (pl_configuration target)), uq_amount_due = 0, uq_total = 0, uq_lines = []\<rparr>,
      up_parameters = [], up_attempts = 0, up_next_attempt_at = None, up_last_error = None\<rparr>"

definition upgrade_parameters :: "SubscriptionUpgrade \<Rightarrow> parameters" where
  "upgrade_parameters u =
     [(''items[0][id]'', up_item_id u), (''items[0][price]'', up_target_price_id u), (''items[0][quantity]'', ''1''),
      (''payment_behavior'', ''pending_if_incomplete''), (''proration_behavior'', ''always_invoice''),
      (''proration_date'', int_str (timestamp (up_proration_at u)))]"

definition quote_charge :: "Settings \<Rightarrow> Checkout \<Rightarrow> SubscriptionUpgrade \<Rightarrow> UpgradeQuoteRecord sess" where
  "quote_charge s c u =
     bind (request s ''POST'' ''invoices/create_preview'' (preview_params u c) None) (\<lambda>value.
     lift_result (snapshot value c u True))"

definition previewable :: "uuid \<Rightarrow> datetime \<Rightarrow> Checkout \<Rightarrow> db \<Rightarrow> exn + unit" where
  "previewable user stamp c d =
     checks
      [require (case co_period_start c of None \<Rightarrow> False | Some b \<Rightarrow> stamp > b) (BillingError 409)
         ''The billing period just started. Request a preview in a moment.'',
       require (\<not> list_ex (\<lambda>u. up_checkout_id u = co_id c \<and> up_applied_at u \<noteq> None \<and> up_proration_at u \<ge> stamp) (upgrades d))
         (BillingError 409) ''The preceding upgrade just completed. Request another preview in a moment.'',
       require (chain_allows d (co_id c) 15 [] (case co_latest_invoice_id c of None \<Rightarrow> [] | Some i \<Rightarrow> i)) (BillingError 409)
         ''Further upgrades require renewal or operator review of the payment evidence chain.'']"

definition find_target :: "uuid \<Rightarrow> Checkout \<Rightarrow> string \<Rightarrow> nat \<Rightarrow> (PlanRevision \<times> PlanRevision) sess" where
  "find_target user c code revision =
     bind (load_plan (co_plan_revision_id c)) (\<lambda>source.
     bind (query (latest_plan code)) (\<lambda>found.
     case found of
       None \<Rightarrow> raise (BillingError 409) ''This upgrade is no longer available. Review current plans.''
     | Some target \<Rightarrow>
         seq (guard (pl_revision target = revision \<and> eligible_upgrade source target (co_interval c)) (BillingError 409)
            ''This upgrade is no longer available. Review current plans.'')
           (ret (source, target))))"

definition whole_seconds :: "datetime \<Rightarrow> datetime" where
  "whole_seconds t = t - t mod 1000000"

definition preview_upgrade :: "Settings \<Rightarrow> uuid \<Rightarrow> string \<Rightarrow> nat \<Rightarrow> SerializedUpgrade sess" where
  "preview_upgrade s user code revision =
     seq (lock_billing user False)
    (bind (query (change_pending user)) (\<lambda>pending.
     seq (guard (\<not> pending) (BillingError 409) ''Resolve the existing subscription change first.'')
    (seq (stripe_client s)
    (bind (preflight s user) (\<lambda>(c, item).
     bind (find_target user c code revision) (\<lambda>(source, target).
     bind (check_mapping (pl_configuration target) s) (\<lambda>report.
     seq (guard (mr_matches report) (BillingError 409) ''The target plan no longer matches Stripe. Ask an administrator to review it.'')
    (bind now (\<lambda>t. let stamp = whole_seconds t in
     bind (query (previewable user stamp c)) (\<lambda>r.
     bind (lift_result r) (\<lambda>_.
     bind now (\<lambda>created.
     bind (lift_result (rbind (the_value TypeErrorPy (co_latest_invoice_id c)) (\<lambda>i.
        rbind (the_value TypeErrorPy (co_period_start c)) (\<lambda>b. rbind (the_value TypeErrorPy (co_period_end c)) (\<lambda>e.
        Inr (i, b, e)))))) (\<lambda>(invoice, period).
     bind uuid4 (\<lambda>i.
     let u = previewed_upgrade i user c source target item invoice period stamp created in
     bind (quote_charge s c u) (\<lambda>quote.
     let u = u\<lparr>up_quote := quote, up_parameters := upgrade_parameters u\<rparr> in
     seq (change (\<lambda>d. d\<lparr>upgrades := update_where (\<lambda>x. up_user_id x = user \<and> up_state x = ''preview'')
            (\<lambda>x. x\<lparr>up_state := ''expired''\<rparr>) (upgrades d) @ [u]\<rparr>))
    (seq commit (serialized_upgrade u)))))))))))))))))"

subsection \<open>Confirmation and retries\<close>

definition owned_upgrade :: "uuid \<Rightarrow> uuid \<Rightarrow> SubscriptionUpgrade sess" where
  "owned_upgrade user i =
     bind (query (\<lambda>d. get_row up_id i (upgrades d))) (\<lambda>found.
     case found of
       None \<Rightarrow> raise (BillingError 404) ''Upgrade preview not found.''
     | Some u \<Rightarrow> if up_user_id u \<noteq> user then raise (BillingError 404) ''Upgrade preview not found.'' else ret u)"

definition source_unchanged :: "SubscriptionUpgrade \<Rightarrow> json \<Rightarrow> exn + bool" where
  "source_unchanged u value =
     map_sum id Not (rbind (first_of_items value) (\<lambda>item.
     any_of [flag value ''pending_update'', flag value ''schedule'', flag value ''cancel_at_period_end'',
       test (\<lambda>v. v \<noteq> JStr ''active'') (jget value ''status''),
       test (\<lambda>v. ref v \<noteq> JStr (up_source_price_id u)) (jget item ''price''),
       test (\<lambda>v. v \<noteq> JStr (up_item_id u)) (jget item ''id''),
       test (\<lambda>v. \<not> jis_num v 1) (jget item ''quantity''),
       test (\<lambda>v. ref v \<noteq> JStr (up_source_invoice_id u)) (jget value ''latest_invoice''),
       test (\<lambda>v. \<not> jis_num v (timestamp (up_period_start u))) (item_field value item ''current_period_start''),
       test (\<lambda>v. \<not> jis_num v (timestamp (up_period_end u))) (item_field value item ''current_period_end'')]))"

text \<open>The one request of an upgrade: always the saved parameters under the same key.\<close>

definition upgrade_request :: "Settings \<Rightarrow> Checkout \<Rightarrow> SubscriptionUpgrade \<Rightarrow> json sess" where
  "upgrade_request s c u = request s ''POST'' (''subscriptions/'' @ text_or_none (co_subscription_id c))
     (up_parameters u) (Some (''radar-upgrade-'' @ uuid_text (up_id u)))"

definition submit_upgrade :: "Settings \<Rightarrow> Checkout \<Rightarrow> SubscriptionUpgrade \<Rightarrow> unit sess" where
  "submit_upgrade s c u =
     bind (subscription s c) (\<lambda>value.
     bind now (\<lambda>stamp. bind (query (\<lambda>d. assessment d c stamp (set_subscription_grace_days s) None 0)) (\<lambda>coverage.
     bind (if \<not> py_covered coverage \<or> has_text (py_issue coverage) then ret False
           else lift_result (source_unchanged u value)) (\<lambda>same.
     if \<not> same then review_upgrade (up_id u) ''The source subscription changed before the upgrade was confirmed.''
     else bind (lift_result (simple_subscription value)) (\<lambda>_.
       bind (upgrade_request s c u) (\<lambda>_.
       observe_subscription s (co_id c) (jtext (co_subscription_id c))))))))"

definition submitted_too_long :: "SubscriptionUpgrade \<Rightarrow> datetime \<Rightarrow> bool" where
  "submitted_too_long u stamp \<longleftrightarrow> (case up_submitted_at u of None \<Rightarrow> True | Some t \<Rightarrow> stamp - t \<ge> seconds (23 * 3600))"

definition advance_upgrade :: "Settings \<Rightarrow> Checkout \<Rightarrow> uuid \<Rightarrow> unit sess" where
  "advance_upgrade s c0 i =
     seq (observe_subscription s (co_id c0) (jtext (co_subscription_id c0)))
    (bind (load upgrades up_id i) (\<lambda>u.
     bind (load_checkout (co_id c0)) (\<lambda>c.
     seq (if up_state u = ''submitting'' \<and> \<not> has_text (up_invoice_id u)
          then bind now (\<lambda>stamp.
            if submitted_too_long u stamp
            then review_upgrade i ''The unresolved upgrade is too old to replay. Reconcile it in Stripe before another request.''
            else submit_upgrade s c u)
          else ret ())
    (bind now (\<lambda>stamp.
     seq (set_upgrade i (\<lambda>u. u\<lparr>up_next_attempt_at := Some (stamp + seconds 30)\<rparr>)) commit)))))"

definition failed_upgrade :: "string \<Rightarrow> datetime \<Rightarrow> SubscriptionUpgrade \<Rightarrow> SubscriptionUpgrade" where
  "failed_upgrade message stamp u =
     (let n = Suc (up_attempts u)
      in u\<lparr>up_attempts := n, up_last_error := Some (take 500 message),
           up_next_attempt_at := Some (stamp + retry_pause n),
           up_state := (if n \<ge> 10 then ''needs_review'' else up_state u)\<rparr>)"

definition retry_upgrade :: "Settings \<Rightarrow> uuid \<Rightarrow> uuid \<Rightarrow> SerializedUpgrade sess" where
  "retry_upgrade s user i =
     seq (enabled s)
    (seq (lock_billing user False)
    (bind (owned_upgrade user i) (\<lambda>u.
     if up_state u \<notin> upgrade_open then serialized_upgrade u
     else seq (stripe_client s)
      (bind (query (\<lambda>d. latest_checkout d user)) (\<lambda>row.
       case row of
         None \<Rightarrow> raise (BillingError 409) ''The original upgrade subscription is no longer current.''
       | Some c \<Rightarrow>
           seq (guard (co_id c = up_checkout_id u) (BillingError 409) ''The original upgrade subscription is no longer current.'')
          (seq (catch (advance_upgrade s c i)
              (\<lambda>e. if \<not> is_billing_error e then reraise e
                   else seq rollback
                     (seq (lock_billing user False)
                     (bind (owned_upgrade user i) (\<lambda>_.
                      bind now (\<lambda>stamp. seq (set_upgrade i (failed_upgrade (exn_message e) stamp)) commit))))))
             (bind (load upgrades up_id i) serialized_upgrade)))))))"

definition same_source :: "Checkout \<Rightarrow> string \<Rightarrow> SubscriptionUpgrade \<Rightarrow> bool" where
  "same_source c item u \<longleftrightarrow> co_id c = up_checkout_id u \<and> co_price_id c = up_source_price_id u
     \<and> co_plan_revision_id c = up_source_revision_id u \<and> co_latest_invoice_id c = Some (up_source_invoice_id u)
     \<and> item = up_item_id u \<and> co_period_start c = Some (up_period_start u) \<and> co_period_end c = Some (up_period_end u)"

definition verify_target :: "Settings \<Rightarrow> SubscriptionUpgrade \<Rightarrow> unit sess" where
  "verify_target s u =
     bind (load_plan (up_target_revision_id u)) (\<lambda>target.
     bind (query (latest_plan (pl_code target))) (\<lambda>current.
     bind (load_plan (up_source_revision_id u)) (\<lambda>source.
     seq (guard (map_option pl_id current = Some (pl_id target) \<and> eligible_upgrade source target (up_interval u)) (BillingError 409)
        ''The target plan changed. Request a new preview.'')
    (bind (check_mapping (pl_configuration target) s) (\<lambda>report.
     guard (mr_matches report) (BillingError 409) ''The target plan changed. Request a new preview.'')))))"

definition confirm_upgrade :: "Settings \<Rightarrow> uuid \<Rightarrow> uuid \<Rightarrow> SerializedUpgrade sess" where
  "confirm_upgrade s user i =
     seq (lock_billing user False)
    (bind (owned_upgrade user i) (\<lambda>u.
     if up_state u \<noteq> ''preview'' then seq commit (retry_upgrade s user i)
     else bind now (\<lambda>stamp.
     if up_expires_at u \<le> stamp
     then seq (set_upgrade i (\<lambda>x. x\<lparr>up_state := ''expired''\<rparr>)) (seq commit
       (raise (BillingError 409) ''The preview expired. Request a new charge preview.''))
     else bind (query (change_pending user)) (\<lambda>pending.
       seq (guard (\<not> pending) (BillingError 409) ''Another subscription change is pending.'')
      (seq (stripe_client s)
      (bind (preflight s user) (\<lambda>(c, item).
       seq (guard (same_source c item u) (BillingError 409) ''Your subscription changed. Request a new preview.'')
      (seq (verify_target s u)
      (bind (quote_charge s c u) (\<lambda>quote.
       if quote \<noteq> up_quote u
       then seq (set_upgrade i (\<lambda>x. x\<lparr>up_state := ''expired''\<rparr>)) (seq commit
         (raise (BillingError 409) ''The charge changed. Review a new preview before confirming.''))
       else bind now (\<lambda>submitted. bind now (\<lambda>due.
         seq (set_upgrade i (\<lambda>x. x\<lparr>up_state := ''submitting'', up_submitted_at := Some submitted,
                up_next_attempt_at := Some due\<rparr>))
        (seq commit (retry_upgrade s user i))))))))))))))"

definition pay_upgrade :: "Settings \<Rightarrow> uuid \<Rightarrow> uuid \<Rightarrow> string sess" where
  "pay_upgrade s user i =
     bind (retry_upgrade s user i) (\<lambda>_.
     seq (lock_billing user False)
    (bind (owned_upgrade user i) (\<lambda>u.
     seq (if up_state u \<noteq> ''pending_payment'' \<or> \<not> has_text (up_invoice_id u) \<or> up_pending_until u = None
          then raise (BillingError 409) ''This upgrade has no payable pending invoice. Refresh billing status.''
          else bind now (\<lambda>stamp. guard (case up_pending_until u of None \<Rightarrow> False | Some t \<Rightarrow> t > stamp) (BillingError 409)
            ''This upgrade has no payable pending invoice. Refresh billing status.''))
    (bind (query (\<lambda>d. latest_checkout d user)) (\<lambda>row.
     bind (lift_result (the_value AttributeErrorPy row)) (\<lambda>c.
     seq (stripe_client s)
    (bind (retrieve s (jtext (up_invoice_id u))) (\<lambda>value.
     bind (lift_result (rbind (jget value ''status'') (\<lambda>st.
        rbind (if st \<noteq> JStr ''open'' then Inr True else map_sum id (\<lambda>q. q \<noteq> up_quote u) (snapshot value c u False)) (\<lambda>moved.
        if moved then Inl (billing 409 ''The pending invoice changed. Refresh billing status.'')
        else rbind (jget value ''hosted_invoice_url'') (\<lambda>v. redirect_url v ''invoice.stripe.com''))))) (\<lambda>url.
     seq commit (ret url))))))))))"

definition due_upgrade :: "datetime \<Rightarrow> db \<Rightarrow> SubscriptionUpgrade option" where
  "due_upgrade stamp d = first_by (\<lambda>u. (case up_next_attempt_at u of None \<Rightarrow> 0 | Some t \<Rightarrow> t, up_id u))
     (filter (\<lambda>u. open_account (up_user_id u) d \<and> up_state u \<in> {''submitting'', ''pending_payment''}
        \<and> due_at (up_next_attempt_at u) stamp) (upgrades d))"

definition tick_upgrades :: "Settings \<Rightarrow> bool sess" where
  "tick_upgrades s =
     (if \<not> set_stripe_checkout_enabled s then ret False
      else bind now (\<lambda>stamp.
        bind (query (due_upgrade stamp)) (\<lambda>row.
        case row of None \<Rightarrow> ret False
        | Some u \<Rightarrow> bind (retry_upgrade s (up_user_id u) (up_id u)) (\<lambda>_. ret True))))"

end
