(* ===== verification/Delivery.thy ===== *)
theory Delivery
  imports Briefing RunFacts
begin

section \<open>The delivery worker (backend/app/scheduler/delivery.py)\<close>

text \<open>
  One turn of \<open>BriefingDeliveryWorker.run_once\<close>: a first session fails the deliveries whose
  last attempt was never confirmed and claims the next one due, under a fresh token and for
  five minutes; a second one sends the mail and records the outcome where the token still
  stands.  A session ends with a rollback.  What sends the mail is a parameter: a program of
  the session that may raise.
\<close>

type_synonym sender = "OutgoingEmail \<Rightarrow> unit sess"

definition MAX_ATTEMPTS :: nat where "MAX_ATTEMPTS = 5"

definition due_before :: "datetime \<Rightarrow> datetime option \<Rightarrow> bool" where
  "due_before stamp t = (case t of None \<Rightarrow> False | Some u \<Rightarrow> u \<le> stamp)"

definition eligible :: "datetime \<Rightarrow> DigestEmailDelivery \<Rightarrow> bool" where
  "eligible stamp x \<longleftrightarrow>
     (dl_status x = DeliveryPending \<and> dl_next_attempt_at x \<le> stamp)
     \<or> (dl_status x = Sending \<and> due_before stamp (dl_claimed_until x))"

definition unconfirmed :: "datetime \<Rightarrow> DigestEmailDelivery \<Rightarrow> bool" where
  "unconfirmed stamp x \<longleftrightarrow> dl_status x = Sending \<and> due_before stamp (dl_claimed_until x)
     \<and> dl_attempts x \<ge> MAX_ATTEMPTS"

definition set_deliveries ::
  "(DigestEmailDelivery \<Rightarrow> bool) \<Rightarrow> (DigestEmailDelivery \<Rightarrow> DigestEmailDelivery) \<Rightarrow> unit sess" where
  "set_deliveries p f = change (\<lambda>d. d\<lparr>deliveries := update_where p f (deliveries d)\<rparr>)"

definition msg_unconfirmed :: string where
  "msg_unconfirmed = ''Email delivery could not be confirmed. Automatic retries exhausted.''"

definition abandoned_delivery :: "DigestEmailDelivery \<Rightarrow> DigestEmailDelivery" where
  "abandoned_delivery x = x\<lparr>dl_status := DeliveryFailed, dl_claim_token := None,
     dl_claimed_until := None, dl_last_error := Some msg_unconfirmed\<rparr>"

definition expire_unconfirmed :: "datetime \<Rightarrow> unit sess" where
  "expire_unconfirmed stamp = set_deliveries (unconfirmed stamp) abandoned_delivery"

definition of_completed_run :: "db \<Rightarrow> DigestEmailDelivery \<Rightarrow> bool" where
  "of_completed_run d x =
     (case get_row rn_id (dl_run_id x) (digest_runs d) of
        None \<Rightarrow> False | Some r \<Rightarrow> rn_status r = COMPLETED)"

text \<open>The choice: \<open>ORDER BY next_attempt_at, run_id LIMIT 1\<close>.\<close>

definition next_delivery :: "datetime \<Rightarrow> db \<Rightarrow> uuid option" where
  "next_delivery stamp d =
     (case sort_key dl_next_attempt_at (sort_key dl_run_id
             (filter (\<lambda>x. eligible stamp x \<and> of_completed_run d x) (deliveries d))) of
        [] \<Rightarrow> None | x # _ \<Rightarrow> Some (dl_run_id x))"

definition claimed_delivery :: "datetime \<Rightarrow> string \<Rightarrow> DigestEmailDelivery \<Rightarrow> DigestEmailDelivery" where
  "claimed_delivery stamp token x =
     x\<lparr>dl_status := Sending, dl_claim_token := Some token,
       dl_claimed_until := Some (stamp + minutes 5), dl_attempts := dl_attempts x + 1\<rparr>"

definition claim_delivery :: "datetime \<Rightarrow> string \<Rightarrow> uuid \<Rightarrow> nat sess" where
  "claim_delivery stamp token run =
     (let p = (\<lambda>x. dl_run_id x = run \<and> eligible stamp x)
      in bind (query (\<lambda>d. rowcount p (deliveries d))) (\<lambda>n.
         seq (set_deliveries p (claimed_delivery stamp token)) (ret n)))"

text \<open>The first session: the run to deliver, when one was claimed.\<close>

definition delivery_claim :: "datetime \<Rightarrow> string \<Rightarrow> uuid option sess" where
  "delivery_claim stamp token =
     seq (expire_unconfirmed stamp)
     (seq commit
     (bind (query (next_delivery stamp)) (\<lambda>chosen.
      case chosen of
        None \<Rightarrow> seq rollback (ret None)
      | Some run \<Rightarrow>
          bind (claim_delivery stamp token run) (\<lambda>n.
          if n \<noteq> 1 then seq rollback (ret None)
          else seq commit (seq rollback (ret (Some run)))))))"

definition msg_inactive :: string where
  "msg_inactive = ''Account is inactive.''"

definition msg_undelivered :: "bool \<Rightarrow> string" where
  "msg_undelivered terminal = ''Email could not be delivered.'' @
     (if terminal then '' Automatic retries exhausted.'' else '' A retry is scheduled.'')"

text \<open>The \<open>values\<close> each branch writes.\<close>

definition held_delivery :: "DigestEmailDelivery \<Rightarrow> DigestEmailDelivery" where
  "held_delivery x = x\<lparr>dl_status := Held, dl_last_error := Some held_text\<rparr>"

definition cancelled_delivery :: "DigestEmailDelivery \<Rightarrow> DigestEmailDelivery" where
  "cancelled_delivery x = x\<lparr>dl_status := Cancelled, dl_last_error := Some msg_inactive\<rparr>"

definition sent_delivery :: "datetime \<Rightarrow> DigestEmailDelivery \<Rightarrow> DigestEmailDelivery" where
  "sent_delivery t x = x\<lparr>dl_status := Sent, dl_sent_at := Some t, dl_last_error := None\<rparr>"

definition undelivered :: "datetime \<Rightarrow> nat \<Rightarrow> DigestEmailDelivery \<Rightarrow> DigestEmailDelivery" where
  "undelivered stamp attempts x =
     (let terminal = attempts \<ge> MAX_ATTEMPTS
      in x\<lparr>dl_status := (if terminal then DeliveryFailed else DeliveryPending),
           dl_last_error := Some (msg_undelivered terminal),
           dl_next_attempt_at := stamp + minutes (2 ^ min attempts 6)\<rparr>)"

definition released :: "DigestEmailDelivery \<Rightarrow> DigestEmailDelivery" where
  "released x = x\<lparr>dl_claim_token := None, dl_claimed_until := None\<rparr>"

definition send_mail :: "sender \<Rightarrow> string \<Rightarrow> DigestRun \<Rightarrow> User \<Rightarrow> unit sess" where
  "send_mail send base_url run owner =
     bind (query id) (\<lambda>d.
     bind (lift_result (briefing_email d run (usr_email owner) base_url)) send)"

definition delivery_outcome ::
  "sender \<Rightarrow> string \<Rightarrow> datetime \<Rightarrow> DigestEmailDelivery \<Rightarrow> DigestRun
     \<Rightarrow> (DigestEmailDelivery \<Rightarrow> DigestEmailDelivery) sess" where
  "delivery_outcome send base_url stamp x run =
     bind (query (\<lambda>d. get_row usr_id (rn_owner_id run) (users d))) (\<lambda>owner.
     if \<not> delivery_allowed run then ret held_delivery
     else (case owner of
         None \<Rightarrow> ret cancelled_delivery
       | Some u \<Rightarrow>
           if \<not> usr_is_active u then ret cancelled_delivery
           else catch (seq (send_mail send base_url run u) (bind now (\<lambda>t. ret (sent_delivery t))))
                  (\<lambda>e. ret (undelivered stamp (dl_attempts x)))))"

text \<open>The second session.\<close>

definition delivery_finish :: "sender \<Rightarrow> string \<Rightarrow> datetime \<Rightarrow> string \<Rightarrow> uuid \<Rightarrow> unit sess" where
  "delivery_finish send base_url stamp token run =
     bind (query (\<lambda>d. (get_row dl_run_id run (deliveries d), get_run run d))) (\<lambda>found.
     case found of
       (Some x, Some r) \<Rightarrow>
         bind (delivery_outcome send base_url stamp x r) (\<lambda>f.
         seq (set_deliveries (\<lambda>y. dl_run_id y = run \<and> dl_claim_token y = Some token) (released \<circ> f))
         (seq commit rollback))
     | _ \<Rightarrow> ret ())"

definition deliver_once :: "sender \<Rightarrow> string \<Rightarrow> bool sess" where
  "deliver_once send base_url =
     bind now (\<lambda>stamp.
     bind uuid4 (\<lambda>u.
     let token = uuid_text u
     in bind (delivery_claim stamp token) (\<lambda>chosen.
        case chosen of
          None \<Rightarrow> ret False
        | Some run \<Rightarrow> seq (delivery_finish send base_url stamp token run) (ret True))))"

subsection \<open>The number of attempts\<close>

text \<open>A delivery is attempted at most five times, and one that waits has an attempt left.\<close>

definition delivery_ok :: "DigestEmailDelivery \<Rightarrow> bool" where
  "delivery_ok x \<longleftrightarrow> dl_attempts x \<le> MAX_ATTEMPTS
     \<and> (dl_status x = DeliveryPending \<longrightarrow> dl_attempts x < MAX_ATTEMPTS)"

definition deliveries_ok :: "db \<Rightarrow> bool" where
  "deliveries_ok d \<longleftrightarrow> list_all delivery_ok (deliveries d)"

lemma set_deliveries_keeps:
  assumes "\<And>x. delivery_ok x \<Longrightarrow> p x \<Longrightarrow> delivery_ok (f x)"
  shows "keeps (both deliveries_ok) (set_deliveries p f)"
  unfolding set_deliveries_def
  by (rule both_change) (simp add: deliveries_ok_def list_all_update_where assms)

end
