(* ===== verification/Subscribers.thy ===== *)
theory Subscribers
  imports Upgrades Replacement BillingSync Delivery
begin

section \<open>What subscribers see, and the billing worker
  (subscriber_billing_service.py, subscription_transition_service.py, billing_notification_service.py,
  plan_catalogue_service.py)\<close>

text \<open>
  The catalogue and the state of an account's billing, the choice of its active digests, the
  outbox of notifications with its bounded retries, the warnings on plan prices, and one tick of
  the billing worker.  Sending a mail is the parameter of the delivery worker; the digest of the
  message identifier is a parameter (\<open>sha256\<close>).
\<close>

subsection \<open>Catalogue and status\<close>

definition plan_order :: "PlanRevision \<Rightarrow> nat \<times> string" where
  "plan_order p = (pc_display_order (pl_configuration p), pl_code p)"

definition subscriber_catalogue :: "db \<Rightarrow> PlanRevision list" where
  "subscriber_catalogue d = filter plan_available (sort_key plan_order (latest_plans d))"

definition enrolment_catalogue :: "uuid \<Rightarrow> db \<Rightarrow> exn + PlanRevision list" where
  "enrolment_catalogue user d =
     (let paid = filter (\<lambda>p. billing_type_of (pl_configuration p) \<noteq> BillingFree) (subscriber_catalogue d)
      in case get_row fs_user_id user (free_subs d) of
           None \<Rightarrow> Inr paid
         | Some f \<Rightarrow> map_sum id (\<lambda>p. p # paid)
             (the_value AttributeErrorPy (get_row pl_id (fs_plan_revision_id f) (plans d))))"

record BillingStatus =
  bs_checkout_allowed :: bool
  bs_resume_allowed :: bool
  bs_replace_allowed :: bool
  bs_replacement :: "ReplacementSummary option"
  bs_portal_allowed :: bool
  bs_cancel_allowed :: bool
  bs_cancel_at_period_end :: bool
  bs_period_end :: "datetime option"
  bs_reason :: string
  bs_attempt :: "(Checkout \<times> PlanRevision) option"

definition row_holds :: "(Checkout \<Rightarrow> bool) \<Rightarrow> Checkout option \<Rightarrow> bool" where
  "row_holds p row \<longleftrightarrow> (case row of None \<Rightarrow> False | Some c \<Rightarrow> p c)"

definition status_reason :: "bool \<Rightarrow> bool \<Rightarrow> bool \<Rightarrow> bool \<Rightarrow> bool \<Rightarrow> string" where
  "status_reason checkouts_on enrolled subscribed replacing pending =
     (if \<not> checkouts_on then ''Checkout is disabled.''
      else if \<not> enrolled then ''Contact the administrator to enroll this account in subscription testing.''
      else if subscribed then ''You already have a subscription. Review scheduled changes below, or use Manage billing for payment details.''
      else if replacing then ''Checkout replacement is being verified. Resume the saved replacement to continue safely.''
      else if pending then ''Resume your unfinished checkout, or choose another plan to replace it after confirmation.''
      else [])"

definition subscribed_row :: "Checkout \<Rightarrow> bool" where
  "subscribed_row c \<longleftrightarrow> has_text (co_subscription_id c) \<and> \<not> ended c"

definition attempt_plan :: "Checkout option \<Rightarrow> db \<Rightarrow> exn + (Checkout \<times> PlanRevision) option" where
  "attempt_plan row d = (case row of None \<Rightarrow> Inr None
     | Some c \<Rightarrow> map_sum id (\<lambda>p. Some (c, p)) (the_value AttributeErrorPy (get_row pl_id (co_plan_revision_id c) (plans d))))"

definition billing_status :: "Settings \<Rightarrow> uuid \<Rightarrow> datetime \<Rightarrow> db \<Rightarrow> exn + BillingStatus" where
  "billing_status s user stamp d =
     (let row = latest_checkout d user; blocked = change_pending user d;
          pending = row_holds (\<lambda>c. co_checkout_status c \<in> {''creating'', ''open''}) row;
          replacing = replacement_pending row; subscribed = row_holds subscribed_row row;
          enrolled = opted_in d user; on = set_stripe_checkout_enabled s;
          portal_set = (set_stripe_portal_configuration_id s \<noteq> [])
      in rbind (attempt_plan row d) (\<lambda>attempt.
         rbind (pending_summary row d) (\<lambda>summary.
         Inr \<lparr>bs_checkout_allowed = (on \<and> enrolled \<and> \<not> subscribed \<and> \<not> pending \<and> \<not> replacing \<and> \<not> blocked),
           bs_resume_allowed = (on \<and> enrolled \<and> (pending \<or> replacing) \<and> \<not> subscribed \<and> \<not> blocked),
           bs_replace_allowed = (on \<and> enrolled \<and> pending \<and> \<not> replacing \<and> \<not> blocked
             \<and> row_holds (\<lambda>c. \<not> has_text (co_subscription_id c)
                 \<and> (has_text (co_checkout_id c) \<or> stamp - co_created_at c < seconds (23 * 3600))) row),
           bs_replacement = summary,
           bs_portal_allowed = (on \<and> row_holds (\<lambda>c. has_text (co_customer_id c)) row \<and> portal_set),
           bs_cancel_allowed = (on \<and> subscribed \<and> \<not> blocked \<and> row_holds (\<lambda>c. \<not> co_cancel_at_period_end c) row \<and> portal_set),
           bs_cancel_at_period_end = row_holds co_cancel_at_period_end row,
           bs_period_end = Option.bind row co_period_end,
           bs_reason = status_reason on enrolled subscribed replacing pending, bs_attempt = attempt\<rparr>)))"

subsection \<open>Active digests\<close>

record FreeChoices =
  fc_available :: bool
  fc_limit :: nat
  fc_effective :: bool
  fc_selected_ids :: "uuid list"
  fc_items :: "uuid list"

definition preview_free_ids :: "uuid \<Rightarrow> AccountState \<Rightarrow> nat \<Rightarrow> bool \<Rightarrow> uuid list sess" where
  "preview_free_ids user state limit persist =
     (if persist then free_digest_ids user state limit False
      else query (\<lambda>d. choose_digests (as_preferred_digest_ids state) (available_digests d user) limit))"

definition load_state :: "uuid \<Rightarrow> AccountState sess" where
  "load_state = load account_states as_user_id"

definition free_choices :: "Settings \<Rightarrow> uuid \<Rightarrow> FreeChoices sess" where
  "free_choices s user =
     bind (resolve user s) (\<lambda>current.
     if ac_mode current = Complimentary
     then ret \<lparr>fc_available = False, fc_limit = 0, fc_effective = False, fc_selected_ids = [], fc_items = []\<rparr>
     else bind (load_state user) (\<lambda>state.
       bind (assign_free user (as_allowance_anchor state)) (\<lambda>free.
       bind (load_plan (fs_plan_revision_id free)) (\<lambda>plan.
       let maximum = pc_max_digests (pl_configuration plan); effective = (ac_billing_type current = Some BillingFree)
       in bind (preview_free_ids user state maximum effective) (\<lambda>chosen.
          bind (query (\<lambda>d. map dg_id (sort_key (\<lambda>g. (- dg_created_at g, dg_id g)) (own_digests user d)))) (\<lambda>items.
          ret \<lparr>fc_available = True, fc_limit = maximum, fc_effective = effective, fc_selected_ids = chosen,
               fc_items = items\<rparr>))))))"

definition choose_free_digests :: "Settings \<Rightarrow> uuid \<Rightarrow> uuid list \<Rightarrow> FreeChoices sess" where
  "choose_free_digests s user ids =
     bind (free_choices s user) (\<lambda>options.
     let n = min (fc_limit options) (card (set (fc_items options))) in
     seq (guard (fc_available options) (AccessDenied 409) ''Free digest preferences are unavailable for complimentary access.'')
    (seq (guard (distinct ids \<and> length ids = n) (AccessDenied 422) (''Choose '' @ nat_str n @ '' distinct digest(s) for Free.''))
    (seq (guard (set ids \<subseteq> set (fc_items options)) (AccessDenied 404) ''A selected digest was not found in your account.'')
    (seq (set_state user (\<lambda>a. a\<lparr>as_preferred_digest_ids := ids\<rparr>))
    (seq flush (free_choices s user))))))"

record ActiveDigests =
  ad_available :: bool
  ad_limit :: nat
  ad_selected_ids :: "uuid list"
  ad_items :: "(uuid \<times> string) list"

definition access_error :: "exn \<Rightarrow> exn" where
  "access_error e = (case exn_class e of AccessDenied st \<Rightarrow> billing st (exn_message e) | _ \<Rightarrow> e)"

definition active_digests :: "Settings \<Rightarrow> uuid \<Rightarrow> uuid list option \<Rightarrow> ActiveDigests sess" where
  "active_digests s user ids =
     bind (catch (resolve user s) (\<lambda>e. reraise (access_error e))) (\<lambda>current.
     case ac_plan current of
       None \<Rightarrow> ret \<lparr>ad_available = False, ad_limit = 0, ad_selected_ids = [], ad_items = []\<rparr>
     | Some plan \<Rightarrow>
         if ac_billing_type current \<noteq> Some BillingStripe \<or> \<not> ac_allowed current
         then ret \<lparr>ad_available = False, ad_limit = 0, ad_selected_ids = [], ad_items = []\<rparr>
         else (let maximum = pc_max_digests (pl_configuration plan) in
           seq (case ids of
                  None \<Rightarrow> ret ()
                | Some wanted \<Rightarrow>
                    bind (query (choose_ids user wanted maximum)) (\<lambda>r.
                    bind (lift_result r) (\<lambda>chosen.
                    seq (set_state user (\<lambda>a. a\<lparr>as_paid_digest_ids := chosen\<rparr>))
                   (seq flush (bind (resolve user s) (\<lambda>_. ret ()))))))
          (bind (load_state user) (\<lambda>state.
           bind (query (\<lambda>d. map (\<lambda>g. (dg_id g, dg_topic g)) (sort_key (\<lambda>g. (dg_created_at g, dg_id g)) (own_digests user d)))) (\<lambda>items.
           seq commit (ret \<lparr>ad_available = True, ad_limit = maximum, ad_selected_ids = as_paid_digest_ids state,
             ad_items = items\<rparr>))))))"

subsection \<open>Notifications\<close>

definition pending_notice :: "datetime \<Rightarrow> BillingNotification \<Rightarrow> bool" where
  "pending_notice stamp n \<longleftrightarrow> bn_state n \<in> {''pending'', ''sending''} \<and> bn_next_attempt_at n \<le> stamp"

definition set_notices :: "(BillingNotification \<Rightarrow> bool) \<Rightarrow> (BillingNotification \<Rightarrow> BillingNotification) \<Rightarrow> nat sess" where
  "set_notices p f =
     bind (query (\<lambda>d. rowcount p (notices d))) (\<lambda>n.
     seq (change (\<lambda>d. d\<lparr>notices := update_where p f (notices d)\<rparr>)) (ret n))"

definition notice_lease :: "datetime \<Rightarrow> datetime" where
  "notice_lease stamp = stamp + seconds 300"

definition claim_notice :: "datetime \<Rightarrow> BillingNotification option sess" where
  "claim_notice stamp =
     bind (query (\<lambda>d. first_by (\<lambda>n. (bn_next_attempt_at n, bn_id n)) (filter (pending_notice stamp) (notices d)))) (\<lambda>row.
     case row of
       None \<Rightarrow> ret None
     | Some r \<Rightarrow>
         bind (set_notices (\<lambda>n. bn_id n = bn_id r \<and> pending_notice stamp n)
            (\<lambda>n. n\<lparr>bn_state := ''sending'', bn_next_attempt_at := notice_lease stamp, bn_attempts := Suc (bn_attempts n)\<rparr>)) (\<lambda>k.
         if k \<noteq> 1 then seq rollback (ret None)
         else seq commit (bind (query (\<lambda>d. get_row bn_id (bn_id r) (notices d))) ret)))"

definition notice_message :: "(string \<Rightarrow> string) \<Rightarrow> Settings \<Rightarrow> User \<Rightarrow> BillingNotification \<Rightarrow> OutgoingEmail" where
  "notice_message sha256 s u n =
     \<lparr>em_recipient = usr_email u, em_subject = ''Research Radar'' @ dash @ bn_subject n,
      em_text = bn_text n @ nl @ nl @ ''Review your subscription: '' @ set_frontend_base_url s @ ''/radar/subscription'',
      em_html = None, em_message_id = Some (''<billing-'' @ sha256 (bn_id n) @ ''@research-radar>'')\<rparr>"

text \<open>The first session: the notice that is sent and its recipient; the outer value says whether
  a notice was handled.\<close>

definition take_notice :: "datetime \<Rightarrow> (BillingNotification \<times> User) option option sess" where
  "take_notice stamp =
     bind (claim_notice stamp) (\<lambda>row.
     case row of
       None \<Rightarrow> ret None
     | Some n \<Rightarrow>
         bind (query (\<lambda>d. get_row usr_id (bn_user_id n) (users d))) (\<lambda>user.
         case user of
           None \<Rightarrow> ret None
         | Some u \<Rightarrow>
             if usr_closure_requested_at u \<noteq> None
             then bind (set_notices (\<lambda>x. bn_id x = bn_id n) (\<lambda>x. x\<lparr>bn_state := ''cancelled''\<rparr>)) (\<lambda>_.
                  seq commit (ret (Some None)))
             else ret (Some (Some (n, u)))))"

definition notice_sent :: "datetime \<Rightarrow> BillingNotification \<Rightarrow> BillingNotification" where
  "notice_sent t n = n\<lparr>bn_state := ''sent'', bn_sent_at := Some t\<rparr>"

definition notice_failed :: "nat \<Rightarrow> datetime \<Rightarrow> BillingNotification \<Rightarrow> BillingNotification" where
  "notice_failed tries t n = n\<lparr>bn_state := (if tries \<ge> 8 then ''failed'' else ''pending''),
     bn_next_attempt_at := t + seconds (min 3600 (30 * 2 ^ tries))\<rparr>"

definition settle_notice :: "datetime \<Rightarrow> BillingNotification \<Rightarrow> (BillingNotification \<Rightarrow> BillingNotification) \<Rightarrow> unit sess" where
  "settle_notice stamp n f =
     bind (set_notices (\<lambda>x. bn_id x = bn_id n \<and> bn_state x = ''sending'' \<and> bn_next_attempt_at x = notice_lease stamp) f) (\<lambda>_. commit)"

definition tick_notices :: "sender \<Rightarrow> (string \<Rightarrow> string) \<Rightarrow> Settings \<Rightarrow> bool sess" where
  "tick_notices send sha256 s =
     bind now (\<lambda>stamp.
     bind (with_session (take_notice stamp)) (\<lambda>taken.
     case taken of
       None \<Rightarrow> ret False
     | Some None \<Rightarrow> ret True
     | Some (Some (n, u)) \<Rightarrow>
         bind (catch (seq (send (notice_message sha256 s u n)) (bind now (\<lambda>t. ret (notice_sent t))))
                (\<lambda>e. bind now (\<lambda>t. ret (notice_failed (bn_attempts n) t)))) (\<lambda>f.
         seq (with_session (settle_notice stamp n f)) (ret True))))"

subsection \<open>One tick of the billing worker\<close>

definition billing_tick :: "sender \<Rightarrow> (string \<Rightarrow> string) \<Rightarrow> Settings \<Rightarrow> bool sess" where
  "billing_tick send sha256 s =
     bind (sync_once s) (\<lambda>claimed.
     bind (with_session (tick_upgrades s)) (\<lambda>upgraded.
     bind (with_session (tick_changes s)) (\<lambda>changed.
     bind (tick_notices send sha256 s) (\<lambda>notified.
     ret (claimed \<or> changed \<or> upgraded \<or> notified)))))"

subsection \<open>Prices of a plan (plan_catalogue_service.py)\<close>

text \<open>Two prices are close when they differ by at most a tenth of the higher one.\<close>

definition close_prices :: "nat \<Rightarrow> nat \<Rightarrow> bool" where
  "close_prices a b \<longleftrightarrow> 10 * (max a b - min a b) \<le> max a b"

text \<open>A price in cents with two decimals.\<close>

definition price_display :: "nat \<Rightarrow> string" where
  "price_display cents = nat_str (cents div 100) @ ''.'' @ pad 2 (int (cents mod 100))"

definition price_warning :: "string \<Rightarrow> string \<Rightarrow> nat option \<Rightarrow> nat option \<Rightarrow> PlanRevision \<Rightarrow> string list" where
  "price_warning label currency amount other row =
     (case (amount, other) of
        (Some a, Some b) \<Rightarrow>
          if close_prices a b
          then [label @ '' price '' @ currency @ '' '' @ price_display a @ '' ''
                @ (if a = b then ''equals'' else ''is within 10% of'') @ '' '' @ pc_name (pl_configuration row)
                @ '' ('' @ pl_code row @ ''): '' @ currency @ '' '' @ price_display b
                @ ''. Review the price and allowance differences.'']
          else []
      | _ \<Rightarrow> [])"

definition price_warnings :: "string \<Rightarrow> PlanConfiguration \<Rightarrow> db \<Rightarrow> string list" where
  "price_warnings code c d =
     (if pc_state c = Archived then []
      else concat (map (\<lambda>row. let other = pl_configuration row in
          if pl_code row = code \<or> pc_state other = Archived \<or> pc_currency other \<noteq> pc_currency c then []
          else price_warning ''Monthly'' (pc_currency c) (Some (pc_monthly_price c)) (Some (pc_monthly_price other)) row
             @ price_warning ''Annual'' (pc_currency c) (pc_annual_price c) (pc_annual_price other) row)
        (latest_plans d)))"

end
