(* ===== verification/Runner.thy ===== *)
theory Runner
  imports Lifecycle
begin

section \<open>The four stages of a run and the worker (backend/app/radar/runner.py, worker.py)\<close>

text \<open>
  Every stage resumes its saved checkpoint, or asks the provider, validates what it returned
  and saves it.  \<open>execute_run\<close> chains the stages and turns an exception of any of them into
  a recorded failure of the stage that was active.  The prompts are text built from the
  stage inputs; only the inputs are modelled.
\<close>

record RunnerConfig =
  rc_client :: ClientConfig
  rc_lease :: RunLease
  rc_summary_batch_size :: nat
  rc_reasoning_effort :: "DigestRunStageType \<Rightarrow> string"

text \<open>One provider request, its structured output taken at the type of the stage's format.\<close>

definition typed :: "(StageData \<Rightarrow> 'a option) \<Rightarrow> StageData RadarClientResult \<Rightarrow> 'a RadarClientResult sess" where
  "typed get r = (case get (cr_output r) of
     None \<Rightarrow> raise TypeErrorPy []
   | Some v \<Rightarrow> ret \<lparr>cr_output = v, cr_response_id = cr_response_id r,
                  cr_model_name = cr_model_name r, cr_usage = cr_usage r\<rparr>)"

fun get_discovery :: "StageData \<Rightarrow> DiscoveryRelevanceOutput option" where
  "get_discovery (DiscoveryData d) = Some d" | "get_discovery _ = None"
fun get_summaries :: "StageData \<Rightarrow> PaperSummariesOutput option" where
  "get_summaries (SummariesData d) = Some d" | "get_summaries _ = None"
fun get_trends :: "StageData \<Rightarrow> TrendAnalysisOutput option" where
  "get_trends (TrendData d) = Some d" | "get_trends _ = None"
fun get_briefing :: "StageData \<Rightarrow> DigestBriefingOutput option" where
  "get_briefing (BriefingData d) = Some d" | "get_briefing _ = None"

definition stage_request ::
  "RunnerConfig \<Rightarrow> DigestRun \<Rightarrow> DigestRunStage \<Rightarrow> (StageData \<Rightarrow> 'a option)
     \<Rightarrow> 'a RadarClientResult sess" where
  "stage_request cfg run stage get =
     bind (execute_request (rc_client cfg) (rc_lease cfg) run (sg_id stage) (sg_stage stage)
             (rc_reasoning_effort cfg (sg_stage stage))) (typed get)"

definition has_checkpoint :: "DigestRunStage \<Rightarrow> bool" where
  "has_checkpoint s \<longleftrightarrow> sg_status s = STAGE_COMPLETED \<and> sg_result_data s \<noteq> None"

subsection \<open>Discovery\<close>

definition drop_abstracts :: "DiscoveryRelevanceOutput \<Rightarrow> DiscoveryRelevanceOutput" where
  "drop_abstracts d = d\<lparr>dr_search := (dr_search d)\<lparr>ss_papers :=
     map (\<lambda>p. p\<lparr>sp_abstract := None\<rparr>) (ss_papers (dr_search d))\<rparr>\<rparr>"

definition accept_discovery ::
  "DigestSnapshot \<Rightarrow> DiscoveryRelevanceOutput \<Rightarrow> exn + DiscoveryRelevanceOutput" where
  "accept_discovery snapshot out =
     (case validate_discovery out (int (ds_maximum_papers snapshot)) of
        Inl e \<Rightarrow> Inl e
      | Inr u \<Rightarrow> (case exclude_out_of_period_papers out (ds_reporting_from snapshot)
                      (ds_reporting_to snapshot) of
            Inl e \<Rightarrow> Inl e
          | Inr out' \<Rightarrow> Inr (drop_abstracts out')))"

definition execute_discovery :: "RunnerConfig \<Rightarrow> DigestRun \<Rightarrow> DiscoveryRelevanceOutput sess" where
  "execute_discovery cfg run =
     bind (lifecycle_stage (rn_id run) DISCOVERY_RELEVANCE) (\<lambda>stage.
     if has_checkpoint stage then lift_result (parse_discovery (sg_result_data stage))
     else seq (begin_stage (sg_id stage) 1)
       (bind (stage_request cfg run stage get_discovery) (\<lambda>result.
        bind (lift_result (accept_discovery (rn_digest_snapshot run) (cr_output result))) (\<lambda>out.
        seq (commit_discovery_relevance (rn_id run) (sg_id stage) (result\<lparr>cr_output := out\<rparr>))
            (ret out)))))"

subsection \<open>Summaries\<close>

function batches :: "nat \<Rightarrow> 'a list \<Rightarrow> 'a list list" where
  "batches n xs = (if n = 0 \<or> xs = [] then [] else take n xs # batches n (drop n xs))"
  by pat_completeness auto
termination by (relation "measure (length \<circ> snd)") auto

declare batches.simps [simp del]

definition accept_summaries ::
  "documents \<Rightarrow> SummaryInput list \<Rightarrow> PaperSummariesOutput \<Rightarrow> exn + PaperSummariesOutput" where
  "accept_summaries docs batch out =
     (case validate_summaries out (set (map si_external_id batch)) of
        Inl e \<Rightarrow> Inl e
      | Inr u \<Rightarrow> constrain_summaries out docs)"

definition summary_batch ::
  "RunnerConfig \<Rightarrow> DigestRun \<Rightarrow> DigestRunStage \<Rightarrow> documents \<Rightarrow> nat \<Rightarrow> SummaryInput list \<Rightarrow> unit sess" where
  "summary_batch cfg run stage docs expected_total batch =
     bind (stage_request cfg run stage get_summaries) (\<lambda>result.
     bind (lift_result (accept_summaries docs batch (cr_output result))) (\<lambda>out.
     commit_summary_batch (rn_id run) (sg_id stage) (result\<lparr>cr_output := out\<rparr>) expected_total))"

definition remaining_papers :: "PaperSummary list \<Rightarrow> SummaryInput list \<Rightarrow> SummaryInput list" where
  "remaining_papers existing inputs =
     filter (\<lambda>p. si_external_id p \<notin> set (map ps_external_id existing)) inputs"

definition execute_summaries ::
  "'l Sources \<Rightarrow> RunnerConfig \<Rightarrow> uuid \<Rightarrow> DiscoveryRelevanceOutput \<Rightarrow> PaperSummariesOutput sess" where
  "execute_summaries srcs cfg run_id discovery =
     bind (reload run_id) (\<lambda>run.
     bind (lifecycle_stage run_id PAPER_SUMMARIES) (\<lambda>stage.
     if has_checkpoint stage then lift_result (parse_summaries (sg_result_data stage))
     else
       (let existing = saved_summaries (sg_result_data stage)
        in bind (lift_result (summary_input discovery None)) (\<lambda>inputs.
           seq (begin_summaries (sg_id stage) existing (length inputs))
           (bind (prepare_content srcs (rc_lease cfg) run discovery) (\<lambda>docs.
            bind (lift_result (summary_input discovery (Some docs))) (\<lambda>papers.
            if rc_summary_batch_size cfg = 0 then raise ValueErrorPy ''range() arg 3 must not be zero''
            else seq (for_each (batches (rc_summary_batch_size cfg) (remaining_papers existing papers))
                        (summary_batch cfg run stage docs (length papers)))
              (seq (commit_summary_stage (sg_id stage) (length papers))
              (bind (lifecycle_stage run_id PAPER_SUMMARIES) (\<lambda>stage'.
               lift_result (parse_summaries (sg_result_data stage'))))))))))))"

subsection \<open>Trends\<close>

definition summarised_ids :: "PaperSummariesOutput \<Rightarrow> string set" where
  "summarised_ids s = ps_external_id ` set (paper_summaries s)"

definition execute_trends ::
  "RunnerConfig \<Rightarrow> uuid \<Rightarrow> DiscoveryRelevanceOutput \<Rightarrow> PaperSummariesOutput \<Rightarrow> TrendAnalysisOutput sess" where
  "execute_trends cfg run_id discovery summaries =
     bind (reload run_id) (\<lambda>run.
     bind (lifecycle_stage run_id TREND_ANALYSIS) (\<lambda>stage.
     if has_checkpoint stage then lift_result (parse_trends (sg_result_data stage))
     else seq (begin_stage (sg_id stage) 1)
       (bind (lift_result (trend_input discovery summaries)) (\<lambda>inputs.
        bind (stage_request cfg run stage get_trends) (\<lambda>result.
        seq (lift_result (validate_trends (cr_output result) (summarised_ids summaries)))
        (seq (commit_trend_analysis run_id (sg_id stage) result)
             (ret (cr_output result))))))))"

subsection \<open>Briefing\<close>

definition limits_warning :: string where
  "limits_warning = ''Summary evidence is limited to the saved abstracts or selected sections; no complete full-text review or automated claim verification was performed.''"

definition basis_of_summaries :: "PaperSummary list \<Rightarrow> source_basis" where
  "basis_of_summaries ss =
     (let bases = ps_summary_basis ` set ss
      in if bases = {} \<or> bases = {BasisMetadataOnly} then SBMetadataOnly
         else if bases = {BasisAbstractOnly} then SBAbstractsOnly else SBMixed)"

definition attribute_briefing :: "PaperSummariesOutput \<Rightarrow> DigestBriefingOutput \<Rightarrow> DigestBriefingOutput" where
  "attribute_briefing summaries out =
     out\<lparr>digest_briefing := (digest_briefing out)\<lparr>
       db_source_attributions := List.map_filter ps_source_attribution (paper_summaries summaries),
       db_source_basis := basis_of_summaries (paper_summaries summaries),
       db_quality_warnings := db_quality_warnings (digest_briefing out) @ [limits_warning]\<rparr>\<rparr>"

definition execute_briefing ::
  "RunnerConfig \<Rightarrow> uuid \<Rightarrow> DiscoveryRelevanceOutput \<Rightarrow> PaperSummariesOutput
     \<Rightarrow> DigestBriefingOutput sess" where
  "execute_briefing cfg run_id discovery summaries =
     bind (reload run_id) (\<lambda>run.
     bind (lifecycle_stage run_id DIGEST_BRIEFING) (\<lambda>stage.
     if has_checkpoint stage then lift_result (parse_briefing (sg_result_data stage))
     else seq (begin_stage (sg_id stage) 1)
       (bind (lift_result (briefing_input discovery summaries)) (\<lambda>inputs.
        bind (stage_request cfg run stage get_briefing) (\<lambda>result.
        seq (lift_result (validate_briefing (cr_output result) (summarised_ids summaries)))
        (let out = attribute_briefing summaries (cr_output result)
         in seq (commit_digest_briefing run_id (sg_id stage) (result\<lparr>cr_output := out\<rparr>))
                (ret out)))))))"

subsection \<open>The run\<close>

text \<open>\<open>stage_step\<close> runs one part of the \<open>try\<close> block with its stage active; an exception is
  handed to \<open>lifecycle_fail\<close> and ends the run.\<close>

definition stage_step ::
  "RunLease \<Rightarrow> uuid \<Rightarrow> DigestRunStageType \<Rightarrow> 'a sess \<Rightarrow> ('a \<Rightarrow> unit sess) \<Rightarrow> unit sess" where
  "stage_step lease run_id active m k s =
     (case m s of
        (Inl e, s') \<Rightarrow> lifecycle_fail lease run_id (Some active) e s'
      | (Inr v, s') \<Rightarrow> k v s')"

definition execute_run :: "'l Sources \<Rightarrow> RunnerConfig \<Rightarrow> uuid \<Rightarrow> unit sess" where
  "execute_run srcs cfg run_id =
     bind (query (running run_id)) (\<lambda>found.
     case found of
       None \<Rightarrow> ret ()
     | Some run \<Rightarrow>
         stage_step (rc_lease cfg) run_id DISCOVERY_RELEVANCE (execute_discovery cfg run) (\<lambda>discovery.
             stage_step (rc_lease cfg) run_id PAPER_SUMMARIES (execute_summaries srcs cfg run_id discovery) (\<lambda>summaries.
             stage_step (rc_lease cfg) run_id TREND_ANALYSIS (execute_trends cfg run_id discovery summaries) (\<lambda>trend.
             stage_step (rc_lease cfg) run_id DIGEST_BRIEFING
               (seq (execute_briefing cfg run_id discovery summaries)
                    (complete_run srcs (rc_lease cfg) run_id)) ret))))"

subsection \<open>The worker\<close>

record WorkerSettings =
  wk_worker_id :: string
  wk_lease_seconds :: int
  wk_summary_batch_size :: nat
  wk_reasoning_effort :: "DigestRunStageType \<Rightarrow> string"
  wk_client :: ClientConfig

definition runner_of :: "WorkerSettings \<Rightarrow> RunnerConfig" where
  "runner_of w = \<lparr>rc_client = wk_client w,
     rc_lease = \<lparr>le_worker_id = Some (wk_worker_id w), le_lease_seconds = wk_lease_seconds w\<rparr>,
     rc_summary_batch_size = wk_summary_batch_size w,
     rc_reasoning_effort = wk_reasoning_effort w\<rparr>"

definition run_once :: "'l Sources \<Rightarrow> WorkerSettings \<Rightarrow> bool sess" where
  "run_once srcs w =
     bind now (\<lambda>stamp.
     bind (claim_next (wk_worker_id w) (stamp + seconds (wk_lease_seconds w))) (\<lambda>claimed.
     case claimed of
       None \<Rightarrow> ret False
     | Some run \<Rightarrow> seq (execute_run srcs (runner_of w) run) (ret True)))"

end
