(* ===== verification/RunnerFacts.thy ===== *)
theory RunnerFacts
  imports Runner
begin

section \<open>What the execution of a run guarantees\<close>

text \<open>
  The locale \<open>stage_work\<close> is the interface between the code that works on one stage and the
  invariants of the tables: it names the only writes that code makes to runs, stages and
  requests, and every program of the runner keeps a property closed under those writes.  It
  is interpreted below for the checkpoints of the other stages and for the request ledger.
\<close>

subsection \<open>Results that carry a postcondition\<close>

definition yields :: "('s \<Rightarrow> bool) \<Rightarrow> ('s, 'a) prog \<Rightarrow> ('a \<Rightarrow> 's \<Rightarrow> bool) \<Rightarrow> bool" where
  "yields I m Q \<longleftrightarrow> (\<forall>s v s'. I s \<longrightarrow> m s = (Inr v, s') \<longrightarrow> Q v s')"

lemma yieldsD: "yields I m Q \<Longrightarrow> I s \<Longrightarrow> m s = (Inr v, s') \<Longrightarrow> Q v s'"
  by (simp add: yields_def)

lemma yields_bind:
  "yields I m R \<Longrightarrow> (\<And>v. yields (R v) (f v) Q) \<Longrightarrow> yields I (bind m f) Q"
  by (auto simp: yields_def bind_def split: prod.splits sum.splits)

lemma yields_seq: "yields I m (\<lambda>_. R) \<Longrightarrow> yields R n Q \<Longrightarrow> yields I (seq m n) Q"
  unfolding seq_def by (rule yields_bind)

lemma yields_keeps: "keeps I m \<Longrightarrow> yields I m (\<lambda>_. I)"
  by (auto simp: yields_def keeps_def)

lemma keeps_then: "keeps I m \<Longrightarrow> (\<And>v. yields I (f v) Q) \<Longrightarrow> yields I (bind m f) Q"
  by (rule yields_bind [OF yields_keeps])

lemma keeps_seq_then: "keeps I m \<Longrightarrow> yields I n Q \<Longrightarrow> yields I (seq m n) Q"
  by (rule yields_seq [OF yields_keeps])

lemma yields_raise: "yields I (raise c m) Q" "yields I (reraise e) Q" "yields I (client_error m) Q"
  by (auto simp: yields_def raise_def reraise_def client_error_def)

lemma yields_ret: "(\<And>s. I s \<Longrightarrow> Q v s) \<Longrightarrow> yields I (ret v) Q"
  by (simp add: yields_def ret_def)

lemma yields_if: "(b \<Longrightarrow> yields I m Q) \<Longrightarrow> (\<not> b \<Longrightarrow> yields I n Q) \<Longrightarrow> yields I (if b then m else n) Q"
  by simp

lemma yields_weaken: "yields J m R \<Longrightarrow> (\<And>s. I s \<Longrightarrow> J s) \<Longrightarrow> (\<And>v s. R v s \<Longrightarrow> Q v s) \<Longrightarrow> yields I m Q"
  by (simp add: yields_def) blast

lemma yields_lift: "(\<And>s v. I s \<Longrightarrow> r = Inr v \<Longrightarrow> Q v s) \<Longrightarrow> yields I (lift_result r) Q"
  by (simp add: yields_def lift_result_def)

subsection \<open>The writes of a stage\<close>

definition same_identity :: "(DigestRunStage \<Rightarrow> DigestRunStage) \<Rightarrow> bool" where
  "same_identity f \<longleftrightarrow> (\<forall>s. sg_id (f s) = sg_id s \<and> sg_run_id (f s) = sg_run_id s
     \<and> sg_stage (f s) = sg_stage s \<and> sg_position (f s) = sg_position s)"

definition same_request :: "(RadarRequest \<Rightarrow> RadarRequest) \<Rightarrow> bool" where
  "same_request h \<longleftrightarrow> (\<forall>q. rq_id (h q) = rq_id q \<and> rq_run_id (h q) = rq_run_id q
     \<and> rq_stage_id (h q) = rq_stage_id q)"

text \<open>The tables the execution of a stage reads back: runs, stages and requests.\<close>

definition same_work :: "db \<Rightarrow> db \<Rightarrow> bool" where
  "same_work d d' \<longleftrightarrow> digest_runs d' = digest_runs d \<and> run_stages d' = run_stages d
     \<and> radar_requests d' = radar_requests d"

text \<open>An invariant that the session's own operations and writes to other tables keep.\<close>

definition quiet_invariant :: "(session \<Rightarrow> bool) \<Rightarrow> bool" where
  "quiet_invariant I \<longleftrightarrow> keeps I now \<and> keeps I uuid4 \<and> keeps I mono_now \<and> keeps I ask_provider
     \<and> keeps I rollback \<and> keeps I flush \<and> keeps I commit
     \<and> (\<forall>f. (\<forall>d. same_work d (f d)) \<longrightarrow> keeps I (change f))"

lemma keeps_query [keeps_intros]: "keeps I (query f)"
  by (simp add: query_def keeps_gets)

lemma quiet_invariant_both:
  "(\<And>d d'. P d \<Longrightarrow> same_work d d' \<Longrightarrow> P d') \<Longrightarrow> quiet_invariant (both P)"
  unfolding quiet_invariant_def by (auto intro!: keeps_intros both_change)

lemma quiet_invariant_committed_ok: "quiet_invariant committed_ok"
  by (simp add: quiet_invariant_def committed_ok_basic)

locale run_work =
  fixes I :: "session \<Rightarrow> bool"
  assumes quiet_inv: "quiet_invariant I"
    and run_write: "(\<And>r. rn_id (f r) = rn_id r) \<Longrightarrow>
        keeps I (change (\<lambda>d. d\<lparr>digest_runs := update_where (q d) f (digest_runs d)\<rparr>))"
    and request_added: "keeps I (change (\<lambda>d. d\<lparr>radar_requests := radar_requests d @ [x]\<rparr>))"
    and request_write: "same_request h \<Longrightarrow>
        keeps I (change (\<lambda>d. d\<lparr>radar_requests := update_where p h (radar_requests d)\<rparr>))"
begin

lemma work_basic [keeps_intros]:
  "keeps I now" "keeps I uuid4" "keeps I mono_now" "keeps I ask_provider" "keeps I rollback"
  "keeps I flush" "keeps I commit"
  using quiet_inv by (simp_all add: quiet_invariant_def)

lemma work_change [keeps_intros]: "(\<And>d. same_work d (f d)) \<Longrightarrow> keeps I (change f)"
  using quiet_inv by (simp add: quiet_invariant_def)

lemma work_set_run: "(\<And>r. rn_id (f r) = rn_id r) \<Longrightarrow> keeps I (set_run i f)"
  unfolding set_run_def by (rule run_write)

lemma work_set_request: "same_request h \<Longrightarrow> keeps I (set_request i h)"
  unfolding set_request_def by (rule request_write)

lemma work_lease [keeps_intros]:
  "keeps I (lease_renew lease run owner)" "keeps I (lease_poll lease run owner)"
  unfolding lease_poll_def lease_renew_def renew_lease_def client_error_def Let_def
  by (intro keeps_intros run_write; simp)+

lemma work_observe [keeps_intros]:
  "keeps I (observe_submitted a)" "keeps I (observe_response a current r)"
  unfolding observe_submitted_def observe_response_def current_or_new_def add_request_def
    observed_request_def Let_def
  by (auto intro!: keeps_intros work_set_request request_added simp: same_request_def
      split: option.split)

lemma work_load [keeps_intros]:
  "keeps I (reload run)" "keeps I (lifecycle_stage run type)"
  unfolding reload_def lifecycle_stage_def client_error_def by (intro keeps_intros)+

lemma work_upsert [keeps_intros]: "keeps I (upsert_paper v)"
  unfolding upsert_paper_def
  by (auto intro!: keeps_intros simp: same_work_def split: option.split)

lemma work_save_ranked [keeps_intros]: "keeps I (save_ranked run rank xs)"
proof (induction xs arbitrary: rank)
  case (Cons x xs)
  then show ?case by (cases x) (auto intro!: keeps_intros simp: same_work_def)
qed (simp add: keeps_ret)

lemma work_attach [keeps_intros]: "keeps I (attach_summaries run xs)"
  by (induction xs) (auto intro!: keeps_intros simp: same_work_def)

lemma work_document [keeps_intros]:
  "keeps I (unavailable p reason)" "keeps I (unavailable_all ps)"
  "keeps I (record_document run p doc)"
proof -
  show u: "keeps I (unavailable p reason)" for p reason
    unfolding unavailable_def by (intro keeps_intros)
  show "keeps I (unavailable_all ps)" by (induction ps) (auto intro!: keeps_intros u)
  show "keeps I (record_document run p doc)"
    unfolding record_document_def by (intro keeps_intros) (simp add: same_work_def)
qed

lemma work_settle [keeps_intros]:
  "keeps I (settle run success)" "keeps I (obs_settle run success)"
  unfolding settle_def obs_settle_def lock_account_def set_observed_def Let_def
  by (intro keeps_intros; simp add: same_work_def)+

lemma work_assess [keeps_intros]: "keeps I (assess_run run findings)"
  unfolding assess_run_def Let_def
  by (auto intro!: keeps_intros work_set_run simp: same_work_def split: option.split)

lemma work_links [keeps_intros]: "keeps I (link_findings run)"
  unfolding link_findings_def by (intro keeps_intros)

lemma work_completed [keeps_intros]: "keeps I (mark_completed run)"
  unfolding mark_completed_def by (auto intro!: keeps_intros work_set_run)

end

text \<open>Work on one stage also writes that stage's row.\<close>

locale stage_work = run_work +
  fixes stage :: uuid
  assumes stage_write: "same_identity g \<Longrightarrow>
        keeps I (change (\<lambda>d. d\<lparr>run_stages := update_where (\<lambda>s. sg_id s = stage) g (run_stages d)\<rparr>))"
begin

lemma work_set_stage: "same_identity g \<Longrightarrow> keeps I (set_stage stage g)"
  unfolding set_stage_def by (rule stage_write)

lemmas work_writes = work_set_run work_set_stage work_set_request

lemma work_response [keeps_intros]:
  assumes "ac_stage_id a = stage"
  shows "keeps I (persist_response_id a current response)"
    and "keeps I (clear_lost_response a)"
  unfolding persist_response_id_def record_response_started_def clear_lost_response_def
    clear_active_response_def assms
  by (auto intro!: keeps_intros work_writes simp: same_identity_def same_request_def split: option.split)

lemma work_poll_loop [keeps_intros]:
  "keeps I (poll_loop fuel a type deadline failures current r)"
proof (induction fuel arbitrary: failures current r)
  case 0
  show ?case by (subst poll_loop.simps) (simp add: keeps_intros)
next
  case (Suc n)
  show ?case
    by (subst poll_loop.simps) (auto simp: client_error_def intro!: keeps_intros Suc.IH)
qed

lemma work_client [keeps_intros]:
  assumes "ac_stage_id a = stage"
  shows "keeps I (client_execute c a type existing)"
  unfolding client_execute_def request_body_def start_response_def resume_response_def
    finish_response_def client_failure_def client_error_def
  by (intro keeps_intros; rule assms)

lemma work_request [keeps_intros]:
  assumes "sg_id s = stage"
  shows "keeps I (stage_request cfg run s get)"
  unfolding stage_request_def execute_request_def typed_def client_error_def
  by (intro keeps_intros; simp add: assms)

lemma work_begin [keeps_intros]:
  "keeps I (begin_stage stage n)" "keeps I (begin_summaries stage existing n)"
  unfolding begin_stage_def begin_summaries_def mark_stage_running_def
  by (auto intro!: keeps_intros work_writes simp: same_identity_def same_request_def)

lemma work_metadata [keeps_intros]:
  "keeps I (record_result_metadata run stage result)"
  unfolding record_result_metadata_def
  by (auto intro!: keeps_intros work_writes simp: same_identity_def same_request_def split: option.split)

lemma work_complete_stage [keeps_intros]: "keeps I (complete_stage run stage data result)"
  unfolding complete_stage_def
  by (auto intro!: keeps_intros work_writes simp: same_identity_def same_request_def)

lemma work_saves [keeps_intros]:
  "keeps I (commit_discovery_relevance run stage dresult)"
  "keeps I (commit_summary_batch run stage sresult n)"
  "keeps I (commit_summary_stage stage n)"
  "keeps I (commit_trend_analysis run stage tresult)"
  "keeps I (commit_digest_briefing run stage bresult)"
  unfolding commit_discovery_relevance_def commit_summary_batch_def commit_summary_stage_def
    commit_trend_analysis_def commit_digest_briefing_def save_discovery_relevance_def
    save_summary_batch_def complete_summary_stage_def save_trend_analysis_def
    save_digest_briefing_def Let_def
  by (auto intro!: keeps_intros work_writes simp: same_identity_def same_request_def same_work_def)

end

subsection \<open>The sources of documents\<close>

text \<open>A program that writes none of the three tables, whatever else it does.\<close>

definition quiet :: "'a sess \<Rightarrow> bool" where
  "quiet m \<longleftrightarrow> (\<forall>I. quiet_invariant I \<longrightarrow> keeps I m)"

definition sources_ok :: "'l Sources \<Rightarrow> bool" where
  "sources_ok srcs \<longleftrightarrow> (\<forall>ps. quiet (src_lookup srcs ps))
     \<and> (\<forall>l p d. quiet (src_document srcs l p d)) \<and> (\<forall>r q. quiet (src_verify srcs r q))"

locale sourced_work = run_work +
  fixes srcs :: "'l Sources"
  assumes sources: "sources_ok srcs"
begin

lemma work_quiet: "quiet m \<Longrightarrow> keeps I m"
  using quiet_inv by (auto simp: quiet_def)

lemma work_sources [keeps_intros]:
  "keeps I (src_lookup srcs ps)" "keeps I (src_document srcs l p d)"
  "keeps I (src_verify srcs r q)"
  using sources by (simp_all add: sources_ok_def work_quiet)

lemma work_prepare_loop [keeps_intros]:
  "keeps I (prepare_loop srcs lease run lookups ps docs)"
  by (induction ps arbitrary: docs) (auto intro!: keeps_intros)

lemma work_prepare [keeps_intros]: "keeps I (prepare_content srcs lease run discovery)"
  unfolding prepare_content_def Let_def by (intro keeps_intros)

lemma work_verify [keeps_intros]: "keeps I (verify_automatically srcs run)"
  unfolding verify_automatically_def
  by (auto intro!: keeps_intros split: option.split saved_config.split)

lemma work_complete_run: "keeps I (complete_run srcs lease run)"
  unfolding complete_run_def by (intro keeps_intros)

end

subsection \<open>Every stage of a run\<close>

text \<open>An invariant kept whichever stage is written is kept by all of the run's stages.\<close>

locale all_work = sourced_work +
  assumes any_stage: "same_identity g \<Longrightarrow>
        keeps I (change (\<lambda>d. d\<lparr>run_stages := update_where (\<lambda>s. sg_id s = i) g (run_stages d)\<rparr>))"
begin

lemma stage_work_any: "stage_work I i"
  by unfold_locales (rule any_stage)

lemmas any_begin [keeps_intros] = stage_work.work_begin [OF stage_work_any]

lemmas any_saves [keeps_intros] = stage_work.work_saves [OF stage_work_any]

lemma any_request [keeps_intros]: "keeps I (stage_request cfg run st get)"
  by (rule stage_work.work_request [OF stage_work_any refl])

lemma any_summary_batch [keeps_intros]: "keeps I (summary_batch cfg run st docs n batch)"
  unfolding summary_batch_def by (intro keeps_intros)

lemma work_discovery: "keeps I (execute_discovery cfg run)"
  unfolding execute_discovery_def by (intro keeps_intros)

lemma work_summaries: "keeps I (execute_summaries srcs cfg run discovery)"
  unfolding execute_summaries_def Let_def by (intro keeps_intros)

lemma work_trends: "keeps I (execute_trends cfg run discovery summaries)"
  unfolding execute_trends_def by (intro keeps_intros)

lemma work_briefing: "keeps I (execute_briefing cfg run discovery summaries)"
  unfolding execute_briefing_def Let_def by (intro keeps_intros)

lemma work_fail [keeps_intros]: "keeps I (lifecycle_fail lease run active e)"
  unfolding lifecycle_fail_def mark_failed_def reject_latest_def clear_active_response_def
    fail_stage_def fail_run_def
  by (auto intro!: keeps_intros work_set_run work_set_request stage_work.work_set_stage [OF stage_work_any]
      simp: same_identity_def same_request_def split: option.split)

lemma work_stage_step:
  "keeps I m \<Longrightarrow> (\<And>v. keeps I (k v)) \<Longrightarrow> keeps I (stage_step lease run active m k)"
  using work_fail unfolding keeps_def stage_step_def
  by (fastforce split: prod.splits sum.splits)

lemma work_execute_run [keeps_intros]: "keeps I (execute_run srcs cfg run)"
  unfolding execute_run_def
  by (intro keeps_intros work_stage_step work_discovery work_summaries work_trends work_briefing
      work_complete_run)

lemma work_claim [keeps_intros]: "keeps I (claim_next worker expires)"
  unfolding claim_next_def take_lease_def by (intro keeps_intros run_write) simp

lemma work_run_once: "keeps I (run_once srcs w)"
  unfolding run_once_def by (intro keeps_intros)

end

end
