(* ===== verification/Checkpoints.thy ===== *)
theory Checkpoints
  imports RunnerFacts
begin

section \<open>Checkpoints and the end of a run\<close>

text \<open>
  \<open>saved run T\<close>: the stages of the types \<open>T\<close> of a run have a checkpoint.  Each stage of the
  runner adds its own type and keeps the others, so a run is completed with all four; a
  failure at any point is recorded, and \<open>execute_run\<close> never raises.
\<close>

definition stage_saved :: "uuid \<Rightarrow> DigestRunStageType \<Rightarrow> db \<Rightarrow> bool" where
  "stage_saved run t d \<longleftrightarrow>
     (\<exists>s \<in> set (run_stages d). sg_run_id s = run \<and> sg_stage s = t \<and> has_checkpoint s)"

definition stage_present :: "uuid \<Rightarrow> DigestRunStageType \<Rightarrow> db \<Rightarrow> bool" where
  "stage_present run t d \<longleftrightarrow> (\<exists>s \<in> set (run_stages d). sg_run_id s = run \<and> sg_stage s = t)"

definition saved :: "uuid \<Rightarrow> DigestRunStageType set \<Rightarrow> db \<Rightarrow> bool" where
  "saved run T d \<longleftrightarrow> distinct (map sg_id (run_stages d)) \<and> run \<in> rn_id ` set (digest_runs d)
     \<and> (\<forall>t. stage_present run t d) \<and> (\<forall>t \<in> T. stage_saved run t d)"

definition working_on :: "uuid \<Rightarrow> DigestRunStageType \<Rightarrow> DigestRunStageType set \<Rightarrow> uuid \<Rightarrow> db \<Rightarrow> bool" where
  "working_on run t T stage d \<longleftrightarrow> saved run T d \<and> t \<notin> T \<and> stage \<in> sg_id ` set (run_stages d)
     \<and> (\<forall>s \<in> set (run_stages d). sg_id s = stage \<longrightarrow> sg_run_id s = run \<and> sg_stage s = t)"

text \<open>A point between two stages: nothing is pending.\<close>

definition ready :: "uuid \<Rightarrow> DigestRunStageType set \<Rightarrow> session \<Rightarrow> bool" where
  "ready run T s \<longleftrightarrow> committed s = working s \<and> saved run T (working s)"

lemma same_identityD:
  assumes "same_identity g"
  shows "sg_id (g s) = sg_id s" "sg_run_id (g s) = sg_run_id s" "sg_stage (g s) = sg_stage s"
  using assms by (simp_all add: same_identity_def)

lemma map_update_where_same: "(\<And>x. k (f x) = k x) \<Longrightarrow> map k (update_where q f xs) = map k xs"
  by (simp add: update_where_def)

lemma image_update_where_same: "(\<And>x. k (f x) = k x) \<Longrightarrow> k ` set (update_where q f xs) = k ` set xs"
  using map_update_where_same [of k f q xs] by (metis set_map)

lemma same_identity_lists:
  assumes "same_identity g"
  shows "map sg_id (update_where q g xs) = map sg_id xs"
    and "sg_id ` set (update_where q g xs) = sg_id ` set xs"
    and "(\<lambda>s. (sg_run_id s, sg_stage s)) ` set (update_where q g xs)
       = (\<lambda>s. (sg_run_id s, sg_stage s)) ` set xs"
  by (simp_all add: map_update_where_same image_update_where_same same_identityD [OF assms])

lemma stage_present_image:
  "stage_present run t d \<longleftrightarrow> (run, t) \<in> (\<lambda>s. (sg_run_id s, sg_stage s)) ` set (run_stages d)"
  by (auto simp: stage_present_def)

lemma stage_present_write:
  "same_identity g \<Longrightarrow> stage_present run t (d\<lparr>run_stages := update_where q g (run_stages d)\<rparr>)
     = stage_present run t d"
  by (simp add: stage_present_image same_identity_lists)

lemma saved_same_work: "saved run T d \<Longrightarrow> same_work d d' \<Longrightarrow> saved run T d'"
  by (simp add: saved_def same_work_def stage_present_def stage_saved_def)

lemma saved_run_write:
  "saved run T d \<Longrightarrow> (\<And>r. rn_id (f r) = rn_id r) \<Longrightarrow>
     saved run T (d\<lparr>digest_runs := update_where q f (digest_runs d)\<rparr>)"
  by (simp add: saved_def stage_present_def stage_saved_def image_update_where_same)

lemma saved_stage_write:
  assumes s: "saved run T d" and g: "same_identity g"
    and other: "\<And>s. s \<in> set (run_stages d) \<Longrightarrow> sg_id s = stage \<Longrightarrow> sg_run_id s = run \<Longrightarrow> sg_stage s \<notin> T"
  shows "saved run T (d\<lparr>run_stages := update_where (\<lambda>s. sg_id s = stage) g (run_stages d)\<rparr>)"
proof -
  have "stage_saved run t (d\<lparr>run_stages := update_where (\<lambda>s. sg_id s = stage) g (run_stages d)\<rparr>)"
    if t: "t \<in> T" for t
  proof -
    from s t obtain x where x: "x \<in> set (run_stages d)" "sg_run_id x = run" "sg_stage x = t" "has_checkpoint x"
      by (auto simp: saved_def stage_saved_def)
    with other [of x] t have "sg_id x \<noteq> stage" by auto
    with x have "x \<in> set (update_where (\<lambda>s. sg_id s = stage) g (run_stages d))"
      by (force simp: set_update_where)
    with x show ?thesis by (auto simp: stage_saved_def)
  qed
  with s g show ?thesis
    by (simp add: saved_def stage_present_write same_identity_lists)
qed

lemma saved_requests [simp]: "saved run T (d\<lparr>radar_requests := x\<rparr>) = saved run T d"
  by (simp add: saved_def stage_present_def stage_saved_def)

lemma working_on_requests [simp]: "working_on run t T stage (d\<lparr>radar_requests := x\<rparr>) = working_on run t T stage d"
  by (simp add: working_on_def)

lemma working_on_same_work: "working_on run t T stage d \<Longrightarrow> same_work d d' \<Longrightarrow> working_on run t T stage d'"
  by (auto simp: working_on_def same_work_def intro: saved_same_work)

interpretation checkpoints: run_work "both (saved run T)" for run T
  by unfold_locales
     (auto intro!: quiet_invariant_both both_change intro: saved_same_work saved_run_write)

interpretation on_stage: stage_work "both (working_on run t T stage)" stage for run t T stage
proof unfold_locales
  fix g
  assume g: "same_identity g"
  show "keeps (both (working_on run t T stage))
      (change (\<lambda>d. d\<lparr>run_stages := update_where (\<lambda>s. sg_id s = stage) g (run_stages d)\<rparr>))"
  proof (rule both_change)
    fix d
    assume w: "working_on run t T stage d"
    with g have "saved run T (d\<lparr>run_stages := update_where (\<lambda>s. sg_id s = stage) g (run_stages d)\<rparr>)"
      by (intro saved_stage_write) (auto simp: working_on_def)
    with w g show "working_on run t T stage (d\<lparr>run_stages := update_where (\<lambda>s. sg_id s = stage) g (run_stages d)\<rparr>)"
      by (auto simp: working_on_def same_identity_lists set_update_where same_identityD [OF g])
  qed
qed (auto intro!: quiet_invariant_both both_change intro: working_on_same_work
      simp: working_on_def saved_run_write)

text \<open>What every session keeps: only consistent states are committed.\<close>

interpretation committing: stage_work committed_ok stage for stage
  by unfold_locales (simp_all add: quiet_invariant_committed_ok committed_ok_basic)

subsection \<open>One stage\<close>

definition entered :: "uuid \<Rightarrow> DigestRunStageType \<Rightarrow> DigestRunStageType set \<Rightarrow> DigestRunStage \<Rightarrow> session \<Rightarrow> bool" where
  "entered run t T st s \<longleftrightarrow> ready run T s \<and> st \<in> set (run_stages (working s))
     \<and> sg_run_id st = run \<and> sg_stage st = t"

lemma enter_stage: "yields (ready run T) (lifecycle_stage run t) (entered run t T)"
  unfolding yields_def lifecycle_stage_def client_error_def
  by (auto simp: run_simps entered_def set_stages_of split: option.splits dest!: find_Some_mem)

lemma entered_working:
  assumes "entered run t T st s" and "t \<notin> T"
  shows "both (working_on run t T (sg_id st)) s"
proof -
  have "x = st" if "x \<in> set (run_stages (working s))" "sg_id x = sg_id st" for x
    using assms that by (auto simp: entered_def ready_def saved_def distinct_map inj_on_def)
  with assms show ?thesis by (auto simp: entered_def ready_def both_def working_on_def)
qed

lemma entered_checkpoint:
  "entered run t T st s \<Longrightarrow> has_checkpoint st \<Longrightarrow> ready run (insert t T) s"
  by (auto simp: entered_def ready_def saved_def stage_saved_def)

lemma stage_savedI:
  "x \<in> set (run_stages d) \<Longrightarrow> sg_run_id x = run \<Longrightarrow> sg_stage x = t \<Longrightarrow> has_checkpoint x \<Longrightarrow> stage_saved run t d"
  by (auto simp: stage_saved_def)

lemma stage_saved_set_stage:
  assumes g: "same_identity g" "\<And>s. has_checkpoint s \<Longrightarrow> has_checkpoint (g s)"
  shows "keeps (\<lambda>s. stage_saved run t (working s)) (set_stage i g)"
proof (rule keepsI)
  fix s r s'
  assume "stage_saved run t (working s)" and m: "set_stage i g s = (r, s')"
  then obtain x where x: "x \<in> set (run_stages (working s))" "sg_run_id x = run" "sg_stage x = t" "has_checkpoint x"
    by (auto simp: stage_saved_def)
  let ?y = "if sg_id x = i then g x else x"
  have "?y \<in> set (run_stages (working s'))"
    using m x(1) unfolding row_defs change_def modify_def by (auto simp: set_update_where)
  then show "stage_saved run t (working s')"
    using x g by (intro stage_savedI [of ?y]) (auto simp: same_identityD [OF g(1)])
qed

lemma stage_saved_other:
  "(\<And>d. run_stages (f d) = run_stages d) \<Longrightarrow> keeps (\<lambda>s. stage_saved run t (working s)) (change f)"
  "keeps (\<lambda>s. stage_saved run t (working s)) (query h)"
  by (simp_all add: keeps_def run_simps stage_saved_def)

lemma stage_saved_metadata:
  "keeps (\<lambda>s. stage_saved run t (working s)) (record_result_metadata r stage result)"
  unfolding record_result_metadata_def set_run_def set_request_def
  by (auto intro!: keeps_intros stage_saved_set_stage stage_saved_other
      simp: same_identity_def has_checkpoint_def split: option.split)

text \<open>A program that writes the stage's row to a checkpoint, then commits.\<close>

lemma write_checkpoint:
  assumes "same_identity g" and "\<And>s. has_checkpoint (g s)"
  shows "yields (both (working_on run t T stage)) (set_stage stage g)
           (\<lambda>_ s. both (working_on run t T stage) s \<and> stage_saved run t (working s))"
  unfolding yields_def
proof (intro allI impI)
  fix s v s'
  assume w: "both (working_on run t T stage) s" and m: "set_stage stage g s = (Inr v, s')"
  from on_stage.work_set_stage [OF assms(1)] w m
  have "both (working_on run t T stage) s'" by (rule keepsD)
  moreover from w obtain x where x: "x \<in> set (run_stages (working s))" "sg_id x = stage"
    "sg_run_id x = run" "sg_stage x = t" by (auto simp: both_def working_on_def)
  have "g x \<in> set (run_stages (working s'))"
    using m x by (auto simp: run_simps set_update_where intro!: bexI [of _ x])
  then have "stage_saved run t (working s')" using x assms
    by (intro stage_savedI [of "g x"]) (auto simp: same_identityD [OF assms(1)])
  ultimately show "both (working_on run t T stage) s' \<and> stage_saved run t (working s')" by simp
qed

lemma complete_stage_saves:
  "yields (both (working_on run t T stage)) (complete_stage run stage data result)
     (\<lambda>_ s. both (working_on run t T stage) s \<and> stage_saved run t (working s))"
  unfolding complete_stage_def
proof (rule yields_bind [OF yields_keeps [OF both_now]], rule yields_seq)
  fix stamp
  show "yields (both (working_on run t T stage)) (set_stage stage (\<lambda>s. s\<lparr>sg_result_data := Some data,
        sg_progress_current := 1, sg_progress_total := 1, sg_status := STAGE_COMPLETED,
        sg_completed_at := Some stamp\<rparr>))
     (\<lambda>_ s. both (working_on run t T stage) s \<and> stage_saved run t (working s))"
    by (rule write_checkpoint) (simp_all add: same_identity_def has_checkpoint_def)
  show "yields (\<lambda>s. both (working_on run t T stage) s \<and> stage_saved run t (working s))
     (record_result_metadata run stage result)
     (\<lambda>_ s. both (working_on run t T stage) s \<and> stage_saved run t (working s))"
    by (intro yields_keeps keeps_conj on_stage.work_metadata stage_saved_metadata)
qed

lemma commit_checkpoint:
  "yields (\<lambda>s. both (working_on run t T stage) s \<and> stage_saved run t (working s)) commit
     (\<lambda>_. ready run (insert t T))"
  by (auto simp: yields_def run_simps both_def working_on_def ready_def saved_def split: if_splits)

lemma begin_works:
  "t \<notin> T \<Longrightarrow> yields (entered run t T st) (begin_stage (sg_id st) n) (\<lambda>_. both (working_on run t T (sg_id st)))"
  by (rule yields_weaken [OF yields_keeps [OF on_stage.work_begin(1)]]) (auto intro: entered_working)

lemma commit_discovery_saves:
  "yields (both (working_on run t T stage)) (commit_discovery_relevance run stage result)
     (\<lambda>_. ready run (insert t T))"
  unfolding commit_discovery_relevance_def save_discovery_relevance_def Let_def
  by (rule yields_seq [OF _ commit_checkpoint], rule keeps_seq_then [OF on_stage.work_set_run], simp,
      rule keeps_then [OF keeps_lift_result], rule keeps_seq_then [OF on_stage.work_save_ranked],
      rule complete_stage_saves)

lemma commit_output_saves:
  "yields (both (working_on run t T stage)) (commit_trend_analysis run stage tresult)
     (\<lambda>_. ready run (insert t T))"
  "yields (both (working_on run t T stage)) (commit_digest_briefing run stage bresult)
     (\<lambda>_. ready run (insert t T))"
  unfolding commit_trend_analysis_def save_trend_analysis_def commit_digest_briefing_def
    save_digest_briefing_def Let_def
  by (rule yields_seq [OF _ commit_checkpoint], rule keeps_then [OF both_uuid4],
      rule keeps_seq_then [OF on_stage.work_change], simp add: same_work_def,
      rule complete_stage_saves)+

lemma commit_summaries_saves:
  "yields (both (working_on run t T stage)) (commit_summary_stage stage n)
     (\<lambda>_. ready run (insert t T))"
  unfolding commit_summary_stage_def complete_summary_stage_def
  by (rule yields_seq [OF _ commit_checkpoint], rule keeps_then [OF both_now], rule write_checkpoint)
     (simp_all add: same_identity_def has_checkpoint_def split: option.split)

text \<open>Reading a saved stage changes nothing.\<close>

lemma ready_reading:
  "keeps (ready run T) (lift_result r)" "keeps (ready run T) (reload i)"
  "keeps (ready run T) (lifecycle_stage i t)"
  by (auto simp: keeps_def reload_def lifecycle_stage_def client_error_def run_simps split: option.split)

lemma execute_discovery_saves:
  assumes "rn_id r = run" and "DISCOVERY_RELEVANCE \<notin> T"
  shows "yields (ready run T) (execute_discovery cfg r) (\<lambda>_. ready run (insert DISCOVERY_RELEVANCE T))"
  unfolding execute_discovery_def assms(1)
proof (rule yields_bind [OF enter_stage], rule yields_if, goal_cases)
  case (1 st)
  then show ?case by (intro yields_lift) (auto intro: entered_checkpoint)
next
  case (2 st)
  show ?case
    by (rule yields_seq [OF begin_works [OF assms(2)]], rule keeps_then [OF on_stage.work_request [OF refl]],
        rule keeps_then [OF keeps_lift_result], rule yields_seq [OF commit_discovery_saves],
        rule yields_ret)
qed

lemma execute_trends_saves:
  assumes "TREND_ANALYSIS \<notin> T"
  shows "yields (ready run T) (execute_trends cfg run d m) (\<lambda>_. ready run (insert TREND_ANALYSIS T))"
  unfolding execute_trends_def
proof (rule keeps_then [OF ready_reading(2)], rule yields_bind [OF enter_stage], rule yields_if, goal_cases)
  case (1 r st)
  then show ?case by (intro yields_lift) (auto intro: entered_checkpoint)
next
  case (2 r st)
  show ?case
    by (rule yields_seq [OF begin_works [OF assms]], rule keeps_then [OF keeps_lift_result],
        rule keeps_then [OF on_stage.work_request [OF refl]], rule keeps_seq_then [OF keeps_lift_result],
        rule yields_seq [OF commit_output_saves(1)], rule yields_ret)
qed

lemma execute_briefing_saves:
  assumes "DIGEST_BRIEFING \<notin> T"
  shows "yields (ready run T) (execute_briefing cfg run d m) (\<lambda>_. ready run (insert DIGEST_BRIEFING T))"
  unfolding execute_briefing_def Let_def
proof (rule keeps_then [OF ready_reading(2)], rule yields_bind [OF enter_stage], rule yields_if, goal_cases)
  case (1 r st)
  then show ?case by (intro yields_lift) (auto intro: entered_checkpoint)
next
  case (2 r st)
  show ?case
    by (rule yields_seq [OF begin_works [OF assms]], rule keeps_then [OF keeps_lift_result],
        rule keeps_then [OF on_stage.work_request [OF refl]], rule keeps_seq_then [OF keeps_lift_result],
        rule yields_seq [OF commit_output_saves(2)], rule yields_ret)
qed

lemma sourced_on_stage: "sources_ok srcs \<Longrightarrow> sourced_work (both (working_on run t T stage)) srcs"
  by (intro sourced_work.intro sourced_work_axioms.intro on_stage.run_work_axioms)

lemma sourced_checkpoints: "sources_ok srcs \<Longrightarrow> sourced_work (both (saved run T)) srcs"
  by (intro sourced_work.intro sourced_work_axioms.intro checkpoints.run_work_axioms)

lemma summary_batch_works:
  "keeps (both (working_on run t T (sg_id st))) (summary_batch cfg r st docs n batch)"
  unfolding summary_batch_def by (intro keeps_intros; simp)

lemma begin_summaries_works:
  "t \<notin> T \<Longrightarrow> yields (entered run t T st) (begin_summaries (sg_id st) existing n)
     (\<lambda>_. both (working_on run t T (sg_id st)))"
  by (rule yields_weaken [OF yields_keeps [OF on_stage.work_begin(2)]]) (auto intro: entered_working)

lemma execute_summaries_saves:
  assumes "PAPER_SUMMARIES \<notin> T" and srcs: "sources_ok srcs"
  shows "yields (ready run T) (execute_summaries srcs cfg run d) (\<lambda>_. ready run (insert PAPER_SUMMARIES T))"
  unfolding execute_summaries_def Let_def
proof (rule keeps_then [OF ready_reading(2)], rule yields_bind [OF enter_stage], rule yields_if, goal_cases)
  case (1 r st)
  then show ?case by (intro yields_lift) (auto intro: entered_checkpoint)
next
  case (2 r st)
  show ?case
    by (rule keeps_then [OF keeps_lift_result], rule yields_seq [OF begin_summaries_works [OF assms(1)]],
        rule keeps_then [OF sourced_work.work_prepare [OF sourced_on_stage [OF srcs]]],
        rule keeps_then [OF keeps_lift_result], rule yields_if, rule yields_raise,
        rule keeps_seq_then [OF keeps_for_each [OF summary_batch_works]],
        rule yields_seq [OF commit_summaries_saves], rule keeps_then [OF ready_reading(3)],
        rule yields_keeps [OF ready_reading(1)])
qed

subsection \<open>The end of a run\<close>

definition all_saved :: "uuid \<Rightarrow> db \<Rightarrow> bool" where
  "all_saved run d \<longleftrightarrow> list_all (\<lambda>t. stage_saved run t d) RADAR_STAGE_ORDER"

lemma all_saved_iff: "all_saved run d \<longleftrightarrow> (\<forall>t. stage_saved run t d)"
  unfolding all_saved_def RADAR_STAGE_ORDER_def by (auto, metis DigestRunStageType.exhaust)

text \<open>How a run may stand after \<open>execute_run\<close>: gone, taken over by another worker, failed, or
  completed with every checkpoint saved.\<close>

definition settled_run :: "RunLease \<Rightarrow> uuid \<Rightarrow> db \<Rightarrow> bool" where
  "settled_run lease run d \<longleftrightarrow> (case get_run run d of None \<Rightarrow> True
     | Some r \<Rightarrow> \<not> still_owner lease r \<or> rn_status r = FAILED
         \<or> (rn_status r = COMPLETED \<and> all_saved run d))"

lemma reload_row: "yields (ready run T) (reload run) (\<lambda>r s. ready run T s \<and> rn_id r = run)"
  by (auto simp: yields_def reload_def client_error_def run_simps get_run_def
      split: option.splits dest: get_row_Some)

lemma reload_both:
  "yields (both (saved run T)) (reload run) (\<lambda>r s. both (saved run T) s \<and> rn_id r = run)"
  by (auto simp: yields_def reload_def client_error_def run_simps get_run_def
      split: option.splits dest: get_row_Some)

lemma get_run_update:
  "get_run run (d\<lparr>digest_runs := update_where (\<lambda>r. rn_id r = run) f (digest_runs d)\<rparr>)
     = map_option f (get_run run d)" if "\<And>r. rn_id (f r) = rn_id r"
proof -
  have "map_option (\<lambda>r. if rn_id r = run then f r else r) (get_run run d) = map_option f (get_run run d)"
    by (cases "get_run run d") (auto simp: get_run_def dest: get_row_Some)
  then show ?thesis using that by (simp add: get_run_def get_row_update_where)
qed

lemma mark_completed_commit:
  "yields (both (saved run UNIV)) (seq (mark_completed run) commit)
     (\<lambda>_ s. settled_run lease run (committed s))"
  unfolding yields_def
proof (intro allI impI)
  fix s s' :: session and v
  let ?f = "\<lambda>r. r\<lparr>rn_status := COMPLETED, rn_error_message := None,
       rn_completed_at := Some (clock s (ticks s)), rn_worker_id := None, rn_lease_expires_at := None\<rparr>"
  let ?d = "(working s)\<lparr>digest_runs := update_where (\<lambda>r. rn_id r = run) ?f (digest_runs (working s))\<rparr>"
  assume b: "both (saved run UNIV) s" and m: "seq (mark_completed run) commit s = (Inr v, s')"
  from m have c: "committed s' = ?d" by (auto simp: mark_completed_def run_simps split: if_splits)
  have "saved run UNIV ?d" using b by (intro saved_run_write) (auto simp: both_def)
  then have "all_saved run ?d" by (simp add: all_saved_iff saved_def)
  moreover have "rn_status r = COMPLETED" if "get_run run ?d = Some r" for r
    using that by (subst (asm) get_run_update) auto
  ultimately show "settled_run lease run (committed s')"
    unfolding c settled_run_def by (auto split: option.split)
qed

lemma complete_run_settles:
  assumes srcs: "sources_ok srcs"
  shows "yields (ready run UNIV) (complete_run srcs lease run)
           (\<lambda>_ s. settled_run lease' run (committed s))"
  unfolding complete_run_def
proof (rule yields_weaken [where J = "both (saved run UNIV)"])
  note src = sourced_checkpoints [OF srcs]
  show "yields (both (saved run UNIV)) (bind (reload run) (\<lambda>r.
     seq (lease_poll lease (rn_id r) (rn_owner_id r))
     (bind (verify_automatically srcs r) (\<lambda>sources.
     bind (reload run) (\<lambda>r.
     seq (lease_renew lease (rn_id r) (rn_owner_id r))
     (bind (link_findings r) (\<lambda>links.
     seq (assess_run (rn_id r) ((case sources of None \<Rightarrow> [] | Some fs \<Rightarrow> fs) @ links))
     (seq (settle r True)
     (seq (obs_settle r True)
     (seq (mark_completed (rn_id r)) commit)))))))))) (\<lambda>_ s. settled_run lease' run (committed s))"
  proof (rule keeps_then [OF checkpoints.work_load(1)], rule keeps_seq_then [OF checkpoints.work_lease(2)],
      rule keeps_then [OF sourced_work.work_verify [OF src]], rule yields_bind [OF reload_both])
    fix r0 sources r
    show "yields (\<lambda>s. both (saved run UNIV) s \<and> rn_id r = run)
      (seq (lease_renew lease (rn_id r) (rn_owner_id r))
       (bind (link_findings r) (\<lambda>links.
        seq (assess_run (rn_id r) ((case sources of None \<Rightarrow> [] | Some fs \<Rightarrow> fs) @ links))
        (seq (settle r True) (seq (obs_settle r True) (seq (mark_completed (rn_id r)) commit))))))
      (\<lambda>_ s. settled_run lease' run (committed s))"
    proof (cases "rn_id r = run")
      case True
      then show ?thesis unfolding True
        by (intro yields_weaken [OF keeps_seq_then [OF checkpoints.work_lease(1)
              keeps_then [OF checkpoints.work_links keeps_seq_then [OF checkpoints.work_assess
                keeps_seq_then [OF checkpoints.work_settle(1) keeps_seq_then [OF
                  checkpoints.work_settle(2) mark_completed_commit]]]]]]) auto
    qed (simp add: yields_def)
  qed
qed (simp_all add: ready_def both_def)

subsection \<open>A failure is always recorded\<close>

text \<open>Programs that never raise from a working copy that satisfies the constraints.\<close>

definition fine :: "'a sess \<Rightarrow> bool" where
  "fine m \<longleftrightarrow> (\<forall>s. constraints_ok (working s) \<longrightarrow>
     (\<exists>v s'. m s = (Inr v, s') \<and> constraints_ok (working s')))"

lemma fineD: "fine m \<Longrightarrow> constraints_ok (working s) \<Longrightarrow> \<exists>v s'. m s = (Inr v, s') \<and> constraints_ok (working s')"
  by (simp add: fine_def)

lemma fine_bind: "fine m \<Longrightarrow> (\<And>v. fine (f v)) \<Longrightarrow> fine (bind m f)"
  unfolding fine_def bind_def by (force split: prod.splits sum.splits)

lemma fine_seq: "fine m \<Longrightarrow> fine n \<Longrightarrow> fine (seq m n)"
  unfolding seq_def by (rule fine_bind)

lemma fine_basic:
  "fine now" "fine (query f)" "fine (ret v)" "fine flush" "fine commit"
  by (simp_all add: fine_def run_simps)

lemma fine_if: "(b \<Longrightarrow> fine m) \<Longrightarrow> (\<not> b \<Longrightarrow> fine n) \<Longrightarrow> fine (if b then m else n)"
  by simp

lemma fine_case_option:
  "fine m \<Longrightarrow> (\<And>v. fine (f v)) \<Longrightarrow> fine (case x of None \<Rightarrow> m | Some v \<Rightarrow> f v)"
  by (cases x) simp_all

lemma fine_change: "(\<And>d. constraints_ok d \<Longrightarrow> constraints_ok (f d)) \<Longrightarrow> fine (change f)"
  by (simp add: fine_def run_simps)

lemmas fine_intros = fine_bind fine_seq fine_basic fine_if fine_case_option

lemma fine_settle: "fine (settle r success)" "fine (obs_settle r success)"
  unfolding settle_def obs_settle_def lock_account_def set_observed_def Let_def
  by (intro fine_intros fine_change; simp add: constraints_ok_def)+

lemma fine_set_stage:
  assumes g: "same_identity g" and "\<And>s. sg_progress_current (g s) = sg_progress_current s"
    "\<And>s. sg_progress_total (g s) = sg_progress_total s"
  shows "fine (set_stage i g)"
proof -
  have "constraints_ok (d\<lparr>run_stages := update_where (\<lambda>s. sg_id s = i) g (run_stages d)\<rparr>)"
    if "constraints_ok d" for d
  proof -
    have "map (\<lambda>s. (sg_run_id s, sg_stage s)) (update_where (\<lambda>s. sg_id s = i) g (run_stages d))
        = map (\<lambda>s. (sg_run_id s, sg_stage s)) (run_stages d)"
      by (rule map_update_where_same) (simp add: same_identityD [OF g])
    with that assms(2,3) show ?thesis
      by (auto simp: constraints_ok_def intro!: list_all_update_where)
  qed
  then show ?thesis unfolding set_stage_def by (rule fine_change)
qed

lemma map_filter_update_where:
  "(\<And>x. k (f x) = k x) \<Longrightarrow> List.map_filter k (update_where q f xs) = List.map_filter k xs"
  by (induction xs) (auto simp: List.map_filter_def update_where_def)

lemma fine_reject_latest: "fine (reject_latest run stage)"
proof -
  have "constraints_ok (d\<lparr>radar_requests := update_where q (\<lambda>x. x\<lparr>rq_outcome := v x\<rparr>) (radar_requests d)\<rparr>)"
    if "constraints_ok d" for d q v
    using that by (simp add: constraints_ok_def map_filter_update_where)
  then show ?thesis
    unfolding reject_latest_def set_request_def by (intro fine_intros fine_change)
qed

lemma active_owners_failed:
  assumes "\<And>r. rn_status (f r) = FAILED"
  shows "active_owners (update_where q f rs) = map rn_owner_id (filter (\<lambda>r. \<not> q r \<and> is_active_status (rn_status r)) rs)"
  using assms by (induction rs) (auto simp: active_owners_def update_where_def is_active_status_def)

lemma fine_fail_run: "fine (fail_run run message stamp)"
proof -
  let ?f = "\<lambda>r. r\<lparr>rn_status := FAILED, rn_error_message := Some (take 2000 message),
       rn_completed_at := Some stamp, rn_worker_id := None, rn_lease_expires_at := None\<rparr>"
  have "constraints_ok (d\<lparr>digest_runs := update_where (\<lambda>r. rn_id r = run) ?f (digest_runs d)\<rparr>)"
    if c: "constraints_ok d" for d
  proof -
    have eq: "filter (\<lambda>r. rn_id r \<noteq> run \<and> is_active_status (rn_status r)) (digest_runs d)
      = filter (\<lambda>r. rn_id r \<noteq> run) (filter (\<lambda>r. is_active_status (rn_status r)) (digest_runs d))"
      unfolding filter_filter by (rule filter_cong) auto
    have "distinct (map rn_owner_id (filter (\<lambda>r. is_active_status (rn_status r)) (digest_runs d)))"
      using c by (simp add: constraints_ok_def active_owners_def)
    then have "distinct (active_owners (update_where (\<lambda>r. rn_id r = run) ?f (digest_runs d)))"
      by (subst active_owners_failed, simp, subst eq) (rule distinct_map_filter)
    moreover have "map rn_id (update_where (\<lambda>r. rn_id r = run) ?f (digest_runs d)) = map rn_id (digest_runs d)"
      by (rule map_update_where_same) simp
    ultimately show ?thesis using c by (simp add: constraints_ok_def)
  qed
  then show ?thesis unfolding fail_run_def set_run_def by (rule fine_change)
qed

text \<open>After a failure was committed.\<close>

lemma lifecycle_stage_finds:
  assumes "stage_present run t (working s)"
  shows "\<exists>st. lifecycle_stage run t s = (Inr st, s)"
proof -
  have "find (\<lambda>s. sg_stage s = t) (stages_of run (working s)) \<noteq> None"
    using assms by (auto simp: find_None_iff set_stages_of stage_present_def)
  then show ?thesis by (auto simp: lifecycle_stage_def run_simps)
qed

lemma fail_run_commit:
  assumes "constraints_ok (working s)"
  shows "\<exists>s'. seq (fail_run run message stamp) commit s = (Inr (), s')
     \<and> settled_run lease run (committed s')"
proof -
  let ?f = "\<lambda>r. r\<lparr>rn_status := FAILED, rn_error_message := Some (take 2000 message),
       rn_completed_at := Some stamp, rn_worker_id := None, rn_lease_expires_at := None\<rparr>"
  let ?d = "(working s)\<lparr>digest_runs := update_where (\<lambda>r. rn_id r = run) ?f (digest_runs (working s))\<rparr>"
  obtain s1 where f: "fail_run run message stamp s = (Inr (), s1)" and w: "working s1 = ?d"
    by (simp add: fail_run_def run_simps)
  have ok: "constraints_ok (working s1)" using fineD [OF fine_fail_run [of run message stamp] assms] f by auto
  have "settled_run lease run ?d"
    unfolding settled_run_def by (subst get_run_update) (auto split: option.split)
  then show ?thesis using f ok w by (simp add: step_Inr commit_ok)
qed

lemma lifecycle_fail_settles:
  assumes ok: "constraints_ok (committed s)" and stages: "stage_present run t (committed s)"
  shows "\<exists>s'. lifecycle_fail lease run (Some t) e s = (Inr (), s') \<and> settled_run lease run (committed s')"
proof -
  let ?s = "s\<lparr>working := committed s\<rparr>"
  show ?thesis
  proof (cases "get_run run (committed s)")
    case None
    then show ?thesis by (simp add: lifecycle_fail_def run_simps settled_run_def)
  next
    case (Some r)
    show ?thesis
    proof (cases "still_owner lease r")
      case False
      with Some show ?thesis by (simp add: lifecycle_fail_def run_simps settled_run_def)
    next
      case True
      obtain st where st: "lifecycle_stage run t ?s = (Inr st, ?s)"
        using lifecycle_stage_finds [of run t ?s] stages by auto
      have id: "rn_id r = run" using Some by (auto simp: get_run_def dest: get_row_Some)
      let ?m = "stage_title t @ '' failed: '' @ exn_message e"
      define before where "before = seq (reject_latest run (sg_id st))
            (seq (if exn_class e = RadarOutputValidationError then clear_active_response (sg_id st) else ret ())
            (bind now (\<lambda>stamp. seq (fail_stage (sg_id st) ?m stamp)
               (seq (settle r False) (seq (obs_settle r False) (ret stamp))))))"
      have eq: "lifecycle_fail lease run (Some t) e s
          = bind before (\<lambda>stamp. seq (fail_run run ?m stamp) commit) ?s"
        using Some True st id
        by (simp add: lifecycle_fail_def step_rollback step_query step_Inr mark_failed_def)
           (simp add: before_def seq_def bind_assoc)
      have "fine before"
        unfolding before_def clear_active_response_def fail_stage_def
        by (intro fine_intros fine_reject_latest fine_settle fine_set_stage) (simp_all add: same_identity_def)
      then obtain stamp s1 where b: "before ?s = (Inr stamp, s1)" "constraints_ok (working s1)"
        using ok fineD [of before ?s] by auto
      from fail_run_commit [OF b(2)] show ?thesis unfolding eq by (simp add: step_Inr(1) [where m = before, OF b(1)])
    qed
  qed
qed

subsection \<open>The whole run\<close>

lemma all_work_committing: "sources_ok srcs \<Longrightarrow> all_work committed_ok srcs"
  by unfold_locales (simp_all add: committed_ok_basic)

lemma all_work_present: "sources_ok srcs \<Longrightarrow> all_work (both (saved run {})) srcs"
  by unfold_locales (auto intro!: both_change saved_stage_write)

lemma ready_saved: "ready run T s \<Longrightarrow> both (saved run {}) s"
  by (auto simp: ready_def both_def saved_def)

lemma stage_step_settles:
  assumes s: "ready run T s" "committed_ok s"
    and m: "yields (ready run T) m Q" "keeps committed_ok m" "keeps (both (saved run {})) m"
    and k: "\<And>v s'. Q v s' \<Longrightarrow> committed_ok s' \<Longrightarrow>
        \<exists>s''. k v s' = (Inr (), s'') \<and> settled_run lease run (committed s'')"
  shows "\<exists>s''. stage_step lease run t m k s = (Inr (), s'') \<and> settled_run lease run (committed s'')"
proof (cases "m s")
  case (Pair res s')
  have c: "committed_ok s'" using m(2) s(2) Pair by (rule keepsD)
  have p: "both (saved run {}) s'" using m(3) ready_saved [OF s(1)] Pair by (rule keepsD)
  show ?thesis
  proof (cases res)
    case (Inl e)
    then show ?thesis
      using lifecycle_fail_settles [of s' run t lease e] c p Pair
      by (simp add: stage_step_def committed_ok_def both_def saved_def)
  next
    case (Inr v)
    then show ?thesis using yieldsD [OF m(1) s(1)] k c Pair by (simp add: stage_step_def)
  qed
qed

lemma all_stage_types:
  "insert DIGEST_BRIEFING (insert TREND_ANALYSIS (insert PAPER_SUMMARIES (insert DISCOVERY_RELEVANCE {}))) = UNIV"
  by (auto, metis DigestRunStageType.exhaust)

text \<open>\<open>execute_run\<close> never raises, and leaves the run settled.\<close>

lemma execute_run_settles:
  assumes srcs: "sources_ok srcs" and s: "ready run {} s" "committed_ok s"
    and r: "running run (working s) = Some r"
  shows "\<exists>s'. execute_run srcs cfg run s = (Inr (), s') \<and> settled_run (rc_lease cfg) run (committed s')"
proof -
  note aw = all_work_committing [OF srcs] all_work_present [OF srcs]
  note keep = aw [THEN all_work.work_discovery] aw [THEN all_work.work_summaries]
    aw [THEN all_work.work_trends] aw [THEN all_work.work_briefing]
    aw [THEN sourced_work.work_complete_run [OF all_work.axioms(1)]]
  have id: "rn_id r = run" using r by (auto simp: running_def get_run_def split: option.splits if_splits dest: get_row_Some)
  have final: "yields (ready run {TREND_ANALYSIS, PAPER_SUMMARIES, DISCOVERY_RELEVANCE})
      (seq (execute_briefing cfg run d m) (complete_run srcs (rc_lease cfg) run))
      (\<lambda>_ s. settled_run (rc_lease cfg) run (committed s))" for d m
    by (rule yields_seq [OF execute_briefing_saves], simp, unfold all_stage_types,
        rule complete_run_settles [OF srcs])
  show ?thesis
    unfolding execute_run_def
    apply (simp add: step_query r)
    apply (rule stage_step_settles [OF s execute_discovery_saves [OF id] keep(1,2)], simp)
    apply (rule stage_step_settles [OF _ _ execute_summaries_saves [OF _ srcs] keep(3,4)], assumption, assumption, simp)
    apply (rule stage_step_settles [OF _ _ execute_trends_saves keep(5,6)], assumption, assumption, simp)
    apply (rule stage_step_settles [OF _ _ final keeps_seq [OF keep(7,9)] keeps_seq [OF keep(8,10)]],
        assumption, assumption, simp add: ret_def)
    done
qed

end
