(* ===== verification/ExecutionFacts.thy ===== *)
theory ExecutionFacts
  imports Checkpoints
begin

section \<open>The polling loop ends, and every submission is on the ledger first\<close>

text \<open>
  \<open>poll_fuel\<close> is enough: between two readings of the monotonic clock the loop sleeps for the
  polling interval, so the deadline is reached before the fuel runs out.  A request is
  submitted to the provider only after its ledger row was committed, and no operation of a
  run removes a row from the ledger.
\<close>

subsection \<open>Only \<open>mono_now\<close> reads the monotonic clock\<close>

definition at_tick :: "(nat \<Rightarrow> int) \<Rightarrow> nat \<Rightarrow> session \<Rightarrow> bool" where
  "at_tick f n s \<longleftrightarrow> monotonic s = f \<and> mono_ticks s = n"

lemma at_tick_basic [keeps_intros]:
  "keeps (at_tick f n) now" "keeps (at_tick f n) uuid4" "keeps (at_tick f n) ask_provider"
  "keeps (at_tick f n) rollback" "keeps (at_tick f n) commit" "keeps (at_tick f n) (change g)"
  by (simp_all add: keeps_def at_tick_def run_simps)

lemma at_tick_lease [keeps_intros]: "keeps (at_tick f n) (lease_poll lease run owner)"
  "keeps (at_tick f n) (lease_renew lease run owner)"
  unfolding lease_poll_def lease_renew_def renew_lease_def client_error_def Let_def
  by (intro keeps_intros)+

lemma at_tick_observe [keeps_intros]: "keeps (at_tick f n) (observe_response a current r)"
  unfolding observe_response_def current_or_new_def add_request_def set_request_def Let_def
  by (auto intro!: keeps_intros split: option.split)

lemma step_mono_now:
  "bind mono_now f s = f (monotonic s (mono_ticks s)) (s\<lparr>mono_ticks := Suc (mono_ticks s)\<rparr>)"
  by (simp add: run_simps)

lemma ret_apply: "ret v s = (Inr v, s)"
  by (simp add: ret_def)

text \<open>The readings from now on are at least the polling interval apart.\<close>

definition paced :: "int \<Rightarrow> session \<Rightarrow> bool" where
  "paced interval s \<longleftrightarrow> (\<forall>k \<ge> mono_ticks s. monotonic s k + interval \<le> monotonic s (Suc k))"

text \<open>One turn of the loop, between its deadline check and the next one.\<close>

abbreviation poll_turn ::
  "RequestAccounting \<Rightarrow> nat \<Rightarrow> uuid option \<Rightarrow> ProviderResponse \<Rightarrow> (ProviderResponse \<times> nat \<times> uuid option) sess" where
  "poll_turn a failures current r \<equiv>
     seq (lease_poll (ac_lease a) (ac_run_id a) (ac_owner_id a))
       (bind (catch (bind ask_provider (\<lambda>r'. ret (r', 0)))
                (\<lambda>e. if Suc failures \<ge> 3 then reraise e else ret (r, Suc failures)))
          (\<lambda>(r', failures').
        bind (observe_response a current r') (\<lambda>current'. ret (r', failures', current'))))"

lemma poll_loop_Suc:
  "poll_loop (Suc n) a type deadline failures current r s =
      (if \<not> in_progress r then (Inr (Some (r, current)), s)
       else if monotonic s (mono_ticks s) \<ge> deadline
         then client_error (''OpenAI '' @ stage_value type @ '' exceeded the background time limit'')
           (s\<lparr>mono_ticks := Suc (mono_ticks s)\<rparr>)
       else bind (poll_turn a failures current r) (\<lambda>(r', failures', current').
              poll_loop n a type deadline failures' current' r') (s\<lparr>mono_ticks := Suc (mono_ticks s)\<rparr>))"
  by (subst poll_loop.simps)
     (simp add: step_mono_now seq_def bind_assoc case_prod_beta' ret_apply cong: if_cong)

lemma poll_loop_more:
  "fst (poll_loop n a type deadline failures current r s) \<noteq> Inr None \<Longrightarrow>
     poll_loop (n + k) a type deadline failures current r s
       = poll_loop n a type deadline failures current r s"
proof (induction n arbitrary: failures current r s)
  case 0
  then have "\<not> in_progress r"
    by (subst (asm) poll_loop.simps) (simp add: ret_def split: if_splits)
  then show ?case by (subst (1 2) poll_loop.simps) simp
next
  case (Suc n)
  let ?s = "s\<lparr>mono_ticks := Suc (mono_ticks s)\<rparr>"
  show ?case
  proof (cases "in_progress r \<and> monotonic s (mono_ticks s) < deadline")
    case False
    then show ?thesis by (auto simp: poll_loop_Suc)
  next
    case True
    obtain res s' where b: "poll_turn a failures current r ?s = (res, s')" by fastforce
    show ?thesis
    proof (cases res)
      case (Inl e)
      then show ?thesis using True b by (simp add: poll_loop_Suc step_Inl)
    next
      case (Inr v)
      obtain r' failures' current' where v: "v = (r', failures', current')" by (cases v) auto
      have "fst (poll_loop n a type deadline failures' current' r' s') \<noteq> Inr None"
        using Suc.prems True b Inr v by (simp add: poll_loop_Suc step_Inr)
      from Suc.IH [OF this] show ?thesis using True b Inr v by (simp add: poll_loop_Suc step_Inr)
    qed
  qed
qed

lemma poll_loop_fuel:
  assumes "paced interval s" and "0 < interval"
    and "deadline \<le> monotonic s (mono_ticks s) + int n * interval"
  shows "fst (poll_loop (Suc n) a type deadline failures current r s) \<noteq> Inr None"
  using assms
proof (induction n arbitrary: failures current r s)
  case 0
  then show ?case
    by (subst poll_loop.simps) (simp add: run_simps client_error_def)
next
  case (Suc n)
  let ?t = "monotonic s (mono_ticks s)"
  let ?body = "poll_turn a failures current r"
  let ?s = "s\<lparr>mono_ticks := Suc (mono_ticks s)\<rparr>"
  note step = poll_loop_Suc [of "Suc n" a type deadline failures current r s]
  have keep: "keeps (at_tick (monotonic s) (Suc (mono_ticks s))) ?body"
    by (intro keeps_intros)
  show ?case
  proof (cases "in_progress r \<and> ?t < deadline")
    case False
    then show ?thesis unfolding step by (auto simp: client_error_def run_simps)
  next
    case True
    obtain res s' where b: "?body ?s = (res, s')" by fastforce
    have at: "at_tick (monotonic s) (Suc (mono_ticks s)) s'"
      by (rule keepsD [OF keep _ b]) (simp add: at_tick_def)
    have p: "paced interval s'" using at Suc.prems(1) by (simp add: paced_def at_tick_def)
    have "?t + interval \<le> monotonic s (Suc (mono_ticks s))" using Suc.prems(1) by (simp add: paced_def)
    then have d: "deadline \<le> monotonic s' (mono_ticks s') + int n * interval"
      using Suc.prems(3) at by (simp add: at_tick_def algebra_simps)
    show ?thesis
    proof (cases res)
      case (Inl e)
      then show ?thesis using True b unfolding step by (simp add: step_Inl)
    next
      case (Inr v)
      obtain r' failures' current' where v: "v = (r', failures', current')" by (cases v) auto
      from Suc.IH [OF p Suc.prems(2) d] show ?thesis
        using True b Inr v unfolding step by (simp add: step_Inr)
    qed
  qed
qed

lemma poll_fuel_enough:
  assumes "0 < cl_poll_interval c" and "0 \<le> cl_poll_timeout c" and "paced (cl_poll_interval c) s"
    and "deadline \<le> monotonic s (mono_ticks s) + cl_poll_timeout c"
  shows "fst (poll_loop (poll_fuel c) a type deadline failures current r s) \<noteq> Inr None"
proof -
  let ?q = "cl_poll_timeout c div cl_poll_interval c"
  have f: "poll_fuel c = Suc (nat (?q + 1))"
    using assms(1,2) by (simp add: poll_fuel_def nat_add_distrib pos_imp_zdiv_nonneg_iff)
  have "cl_poll_timeout c < (?q + 1) * cl_poll_interval c"
  proof -
    have "cl_poll_timeout c = ?q * cl_poll_interval c + cl_poll_timeout c mod cl_poll_interval c"
      by (rule div_mult_mod_eq [symmetric])
    moreover have "cl_poll_timeout c mod cl_poll_interval c < cl_poll_interval c"
      using assms(1) by (rule pos_mod_bound)
    ultimately show ?thesis unfolding distrib_right by linarith
  qed
  moreover have n: "int (nat (?q + 1)) = ?q + 1"
    using assms(1,2) by (simp add: pos_imp_zdiv_nonneg_iff)
  ultimately have "deadline \<le> monotonic s (mono_ticks s) + int (nat (?q + 1)) * cl_poll_interval c"
    using assms(4) unfolding n by linarith
  then show ?thesis unfolding f by (rule poll_loop_fuel [OF assms(3,1)])
qed

subsection \<open>The ledger\<close>

definition on_ledger :: "uuid \<Rightarrow> uuid \<Rightarrow> uuid \<Rightarrow> db \<Rightarrow> bool" where
  "on_ledger i run stage d \<longleftrightarrow>
     (\<exists>q \<in> set (radar_requests d). rq_id q = i \<and> rq_run_id q = run \<and> rq_stage_id q = stage)"

lemma on_ledger_image:
  "on_ledger i run stage d \<longleftrightarrow>
     (i, run, stage) \<in> (\<lambda>q. (rq_id q, rq_run_id q, rq_stage_id q)) ` set (radar_requests d)"
  by (auto simp: on_ledger_def)

lemma on_ledger_write:
  "same_request h \<Longrightarrow> on_ledger i run stage (d\<lparr>radar_requests := update_where p h (radar_requests d)\<rparr>)
     = on_ledger i run stage d"
  unfolding on_ledger_image same_request_def by (simp add: image_update_where_same)

interpretation ledger: stage_work "both (on_ledger i run stage)" stage' for i run stage stage'
  by unfold_locales
     (auto intro!: quiet_invariant_both both_change simp: on_ledger_write,
      auto simp: on_ledger_def same_work_def)

lemma all_work_ledger: "sources_ok srcs \<Longrightarrow> all_work (both (on_ledger i run stage)) srcs"
  by unfold_locales (auto intro!: both_change simp: on_ledger_def)

text \<open>\<open>submitted\<close> commits the row before it returns, and asks the provider nothing.\<close>

lemma asked_basic:
  "keeps (\<lambda>s. asked s = n) now" "keeps (\<lambda>s. asked s = n) uuid4" "keeps (\<lambda>s. asked s = n) mono_now"
  "keeps (\<lambda>s. asked s = n) rollback" "keeps (\<lambda>s. asked s = n) commit" "keeps (\<lambda>s. asked s = n) (change g)"
  by (simp_all add: keeps_def run_simps)

lemma observe_submitted_asks_nothing: "keeps (\<lambda>s. asked s = n) (observe_submitted a)"
  unfolding observe_submitted_def lease_renew_def renew_lease_def client_error_def add_request_def Let_def
  by (intro keeps_intros asked_basic)

lemma observe_submitted_row:
  assumes "observe_submitted a s = (Inr current, s')"
  obtains i where "current = Some i" "both (on_ledger i (ac_run_id a) (ac_stage_id a)) s'"
proof -
  from assms obtain s1 where
    "(bind (query (current_price (ac_model_name a) None)) (\<lambda>price. bind now (\<lambda>created. bind uuid4 (\<lambda>i.
       seq (add_request (new_request a i (ac_model_name a)
            (map_option (\<lambda>p. p\<lparr>pr_model_name := ac_model_name a\<rparr>) price) created))
       (seq commit (ret (Some i))))))) s1 = (Inr current, s')"
    by (auto simp: observe_submitted_def seq_def bind_def split: prod.splits sum.splits)
  then show thesis
    by (intro that) (auto simp: run_simps add_request_def both_def on_ledger_def new_request_def split: if_splits)
qed

lemma start_response_on_ledger:
  assumes run: "start_response a None s = (res, s')" and asked: "asked s' \<noteq> asked s"
  shows "\<exists>i. on_ledger i (ac_run_id a) (ac_stage_id a) (committed s')"
proof -
  obtain res1 s1 where o: "observe_submitted a s = (res1, s1)" by fastforce
  have a1: "asked s1 = asked s"
    using keepsD [OF observe_submitted_asks_nothing refl o] by simp
  show ?thesis
  proof (cases res1)
    case (Inl e)
    with o run a1 asked show ?thesis
      by (simp add: start_response_def resume_response_def step_ret step_Inl)
  next
    case (Inr current)
    from observe_submitted_row [OF o [unfolded Inr]] obtain i where
      i: "current = Some i" "both (on_ledger i (ac_run_id a) (ac_stage_id a)) s1" .
    have keep: "keeps (both (on_ledger i (ac_run_id a) (ac_stage_id a)))
        (bind ask_provider (\<lambda>r. seq (persist_response_id a current (resp_id r)) (ret (r, current))))"
      by (intro keeps_intros) simp
    have "bind ask_provider (\<lambda>r. seq (persist_response_id a current (resp_id r)) (ret (r, current))) s1 = (res, s')"
      using run o Inr by (simp add: start_response_def resume_response_def step_ret step_Inr)
    from keepsD [OF keep i(2) this] show ?thesis by (auto simp: both_def)
  qed
qed

end
