(* ===== verification/RunInvariants.thy ===== *)
theory RunInvariants
  imports ExecutionFacts Submission
begin

section \<open>The rows stay consistent through the worker and through admission\<close>

text \<open>
  \<open>rows_ok\<close> (the columns of a run and of a stage agree with its status) is kept by every
  operation of the lifecycle, of the runner and of the submission, and so by the worker and
  by every admission or retry, whatever the provider, the clock or a failed commit do.
\<close>

lemma quiet_rows_ok: "quiet_invariant (both rows_ok)"
  by (rule quiet_invariant_both) (simp add: rows_ok_def same_work_def)

lemma quiet_keeps_rows: "quiet m \<Longrightarrow> keeps (both rows_ok) m"
  using quiet_rows_ok by (simp add: quiet_def)

lemma settle_keeps [keeps_intros]: "keeps (both rows_ok) (settle run success)"
  unfolding settle_def by (intro keeps_intros rows_ok_other_tables; simp)

lemma lifecycle_keeps [keeps_intros]:
  "keeps (both rows_ok) (reload run)" "keeps (both rows_ok) (lifecycle_stage run type)"
  "keeps (both rows_ok) (begin_stage stage n)" "keeps (both rows_ok) (begin_summaries stage existing n)"
  "keeps (both rows_ok) (unavailable p reason)" "keeps (both rows_ok) (record_document run' p doc)"
  "keeps (both rows_ok) (link_findings r)"
  unfolding reload_def lifecycle_stage_def client_error_def begin_stage_def begin_summaries_def
    unavailable_def record_document_def link_findings_def
  by (intro keeps_intros rows_ok_set_stage rows_ok_other_tables; simp add: stage_ok_def)+

lemma unavailable_all_keeps [keeps_intros]: "keeps (both rows_ok) (unavailable_all ps)"
  by (induction ps) (auto intro!: keeps_intros)

lemma commits_keep [keeps_intros]:
  "keeps (both rows_ok) (commit_discovery_relevance run stage dresult)"
  "keeps (both rows_ok) (commit_summary_batch run stage sresult n)"
  "keeps (both rows_ok) (commit_summary_stage stage n)"
  "keeps (both rows_ok) (commit_trend_analysis run stage tresult)"
  "keeps (both rows_ok) (commit_digest_briefing run stage bresult)"
  unfolding commit_discovery_relevance_def commit_summary_batch_def commit_summary_stage_def
    commit_trend_analysis_def commit_digest_briefing_def
  by (intro keeps_intros)+

lemma lifecycle_fail_keeps [keeps_intros]: "keeps (both rows_ok) (lifecycle_fail lease run active e)"
  unfolding lifecycle_fail_def mark_failed_def
  by (auto intro!: keeps_intros split: option.split)

lemma sources_keep [keeps_intros]:
  assumes "sources_ok srcs"
  shows "keeps (both rows_ok) (src_lookup srcs ps)" "keeps (both rows_ok) (src_document srcs l p d)"
    "keeps (both rows_ok) (src_verify srcs r q)"
  using assms by (simp_all add: sources_ok_def quiet_keeps_rows)

lemma prepare_loop_keeps [keeps_intros]:
  "sources_ok srcs \<Longrightarrow> keeps (both rows_ok) (prepare_loop srcs lease run lookups ps docs)"
  by (induction ps arbitrary: docs) (auto intro!: keeps_intros)

lemma complete_run_keeps [keeps_intros]:
  "sources_ok srcs \<Longrightarrow> keeps (both rows_ok) (complete_run srcs lease run)"
  unfolding complete_run_def verify_automatically_def
  by (auto intro!: keeps_intros split: option.split saved_config.split)

lemma stage_request_keeps [keeps_intros]: "keeps (both rows_ok) (stage_request cfg run st get)"
  unfolding stage_request_def typed_def by (auto intro!: keeps_intros split: option.split)

lemma stages_keep [keeps_intros]:
  "keeps (both rows_ok) (execute_discovery cfg r)"
  "keeps (both rows_ok) (execute_trends cfg run d m)"
  "keeps (both rows_ok) (execute_briefing cfg run d m)"
  unfolding execute_discovery_def execute_trends_def execute_briefing_def Let_def
  by (intro keeps_intros)+

lemma execute_summaries_keeps [keeps_intros]:
  "sources_ok srcs \<Longrightarrow> keeps (both rows_ok) (execute_summaries srcs cfg run d)"
  unfolding execute_summaries_def prepare_content_def summary_batch_def Let_def
  by (intro keeps_intros) assumption+

lemma stage_step_keeps:
  "keeps (both rows_ok) m \<Longrightarrow> (\<And>v. keeps (both rows_ok) (k v)) \<Longrightarrow>
     keeps (both rows_ok) (stage_step lease run active m k)"
  using lifecycle_fail_keeps unfolding keeps_def stage_step_def
  by (fastforce split: prod.splits sum.splits)

lemma run_once_keeps: "sources_ok srcs \<Longrightarrow> keeps (both rows_ok) (run_once srcs w)"
  unfolding run_once_def execute_run_def by (intro keeps_intros stage_step_keeps) assumption+

subsection \<open>Programs that touch no run, stage or request\<close>

text \<open>The access, observation and rate-limit services are \<open>quiet\<close>, so they keep every
  invariant of the runs.\<close>

named_theorems quiet_intros "one rule per program: it writes no run, stage or request"

lemma quiet_basic [quiet_intros]:
  "quiet now" "quiet uuid4" "quiet flush" "quiet commit" "quiet rollback" "quiet (query f)"
  "quiet (ret v)" "quiet (raise c m)" "quiet (reraise e)" "quiet (lift_result x)" "quiet (guard b c m)"
  unfolding quiet_def by (auto simp: quiet_invariant_def intro: keeps_intros)

lemma quiet_bind [quiet_intros]: "quiet m \<Longrightarrow> (\<And>v. quiet (f v)) \<Longrightarrow> quiet (bind m f)"
  by (simp add: quiet_def keeps_bind)

lemma quiet_seq [quiet_intros]: "quiet m \<Longrightarrow> quiet n \<Longrightarrow> quiet (seq m n)"
  by (simp add: quiet_def keeps_seq)

lemma quiet_catch [quiet_intros]: "quiet m \<Longrightarrow> (\<And>e. quiet (h e)) \<Longrightarrow> quiet (catch m h)"
  by (simp add: quiet_def keeps_catch)

lemma quiet_if [quiet_intros]: "(b \<Longrightarrow> quiet m) \<Longrightarrow> (\<not> b \<Longrightarrow> quiet n) \<Longrightarrow> quiet (if b then m else n)"
  by simp

lemma quiet_case_option [quiet_intros]:
  "quiet m \<Longrightarrow> (\<And>v. quiet (f v)) \<Longrightarrow> quiet (case x of None \<Rightarrow> m | Some v \<Rightarrow> f v)"
  by (cases x) simp_all

lemma quiet_case_prod [quiet_intros]:
  "(\<And>a b. quiet (f a b)) \<Longrightarrow> quiet (case p of (a, b) \<Rightarrow> f a b)"
  by (cases p) simp

lemma quiet_change: "(\<And>d. same_work d (f d)) \<Longrightarrow> quiet (change f)"
  by (simp add: quiet_def quiet_invariant_def)

lemma quiet_writes [quiet_intros]:
  "quiet (lock_account user)" "quiet (set_observed run f)" "quiet (set_state user g)"
  "quiet (enqueue user key subject body)"
  unfolding lock_account_def set_observed_def set_state_def enqueue_def
  by (intro quiet_intros quiet_change; simp add: same_work_def Let_def)+

lemma quiet_billing [quiet_intros]:
  "quiet (require_open_account user)" "quiet default_plan" "quiet (assign_free user stamp)"
  unfolding require_open_account_def default_plan_def assign_free_def Let_def
  by (intro quiet_intros quiet_change; simp add: same_work_def)+

lemma quiet_resolve_parts [quiet_intros]:
  "quiet (account_state user result stamp)" "quiet (record_effective user state result stamp)"
  "quiet (free_digest_ids user state limit paid)" "quiet (fall_back user state result)"
  unfolding account_state_def record_effective_def free_digest_ids_def fall_back_def Let_def
  by (intro quiet_intros quiet_change; simp add: same_work_def)+

lemma quiet_activate [quiet_intros]: "quiet (activate_digests user state result)"
  unfolding activate_digests_def
  by (intro quiet_intros quiet_change) (simp add: same_work_def)

lemma quiet_resolve [quiet_intros]: "quiet (resolve user settings)"
  unfolding resolve_def resolve_locked_def Let_def by (intro quiet_intros)

lemma quiet_assess [quiet_intros]: "quiet (assess user requested trigger context settings digest)"
  unfolding assess_def assess_usage_def by (intro quiet_intros)

lemma quiet_reserve [quiet_intros]: "quiet (reserve run schedule settings)"
  unfolding reserve_def book_usage_def Let_def
  by (intro quiet_intros quiet_change; simp add: same_work_def)

lemma quiet_observation [quiet_intros]: "quiet (obs_reserve run schedule)"
  unfolding obs_reserve_def assess_observed_def Let_def
  by (intro quiet_intros quiet_change; simp add: same_work_def)

lemma quiet_rate_limit [quiet_intros]:
  "quiet (consume hmac settings scope subject limit secs do_commit)"
  "quiet (enforce hmac settings scope subject limit secs do_commit)"
  unfolding enforce_def consume_def count_up_def Let_def
  by (intro quiet_intros quiet_change; simp add: same_work_def)+

subsection \<open>Admission\<close>

lemma submission_keeps [keeps_intros]:
  "keeps (both rows_ok) (reserve_run_budget hmac settings owner)"
  "keeps (both rows_ok) (book_run settings run)" "keeps (both rows_ok) (commit_start owner)"
  "keeps (both rows_ok) commit_retry"
  unfolding reserve_run_budget_def book_run_def commit_start_def commit_retry_def has_running_for_owner_def
  by (rule quiet_keeps_rows, intro quiet_intros)+

lemma create_queued_keeps [keeps_intros]:
  "keeps (both rows_ok) (create_queued zs c g owner scheduled time_zone)"
  unfolding create_queued_def
  by (intro keeps_intros rows_ok_set_run; simp add: run_ok_def is_active_def)

lemma start_digest_keeps: "keeps (both rows_ok) (start_digest hmac zs c digest owner scheduled tz do_commit)"
  unfolding start_digest_def has_running_for_owner_def by (intro keeps_intros)

lemma retry_digest_keeps: "keeps (both rows_ok) (retry_digest hmac c digest run owner)"
  unfolding retry_digest_def has_running_for_owner_def by (intro keeps_intros)

end
