(* ===== verification/LeaseProtocol.thy ===== *)
theory LeaseProtocol
  imports RunInvariants
begin

section \<open>The lease protocol between workers\<close>

text \<open>
  Several workers share the committed table of runs.  A state has the table, the time, what
  each worker chose but has not taken yet (the candidate and the time it read), and what
  each worker believes it holds (the run and the expiry it last wrote).  The steps are the
  transactions of the code, in any order: the choice and the conditional update of
  \<open>claim_next\<close> are two steps, so that another worker's claim may come between them;
  \<open>renew_lease\<close> succeeds or drops the belief; a run is completed or failed by a worker the
  row still names, in the transaction that checked it; a failed run is queued again by
  \<open>claim_failed_retry\<close>; and time only moves forward.
\<close>

record protocol =
  table :: db
  time :: datetime
  chosen :: "string \<Rightarrow> (uuid \<times> datetime) option"
  beliefs :: "string \<Rightarrow> (uuid \<times> datetime) option"

text \<open>The table after a program, run in a session of its own, and its result.\<close>

definition outcome :: "environment \<Rightarrow> 'a sess \<Rightarrow> db \<Rightarrow> exn + 'a" where
  "outcome e m d = fst (m (open_session e d))"

definition after :: "environment \<Rightarrow> 'a sess \<Rightarrow> db \<Rightarrow> db" where
  "after e m d = working (snd (m (open_session e d)))"

definition end_run :: "bool \<Rightarrow> uuid \<Rightarrow> string \<Rightarrow> datetime \<Rightarrow> unit sess" where
  "end_run success run message stamp =
     (if success then mark_completed run else fail_run run message stamp)"

definition holds :: "db \<Rightarrow> string \<Rightarrow> uuid \<Rightarrow> datetime \<Rightarrow> bool" where
  "holds d w i e \<longleftrightarrow> (\<exists>r. get_run i d = Some r \<and> rn_status r = RUNNING
     \<and> rn_worker_id r = Some w \<and> rn_lease_expires_at r = Some e)"

inductive lease_step :: "protocol \<Rightarrow> protocol \<Rightarrow> bool" where
  Tick: "time p \<le> t \<Longrightarrow> lease_step p (p\<lparr>time := t\<rparr>)"
| Choose: "claim_candidate (time p) (table p) = Some i \<Longrightarrow>
     lease_step p (p\<lparr>chosen := (chosen p)(w \<mapsto> (i, time p))\<rparr>)"
| Take: "chosen p w = Some (i, stamp) \<Longrightarrow>
     outcome e (take_lease i w expires stamp) (table p) = Inr n \<Longrightarrow>
     lease_step p (p\<lparr>table := after e (take_lease i w expires stamp) (table p),
       chosen := (chosen p)(w := None),
       beliefs := (if n = 1 then (beliefs p)(w \<mapsto> (i, expires)) else beliefs p)\<rparr>)"
| Renew: "beliefs p w = Some (i, old) \<Longrightarrow>
     outcome e (renew_lease i w expires) (table p) = Inr renewed \<Longrightarrow>
     lease_step p (p\<lparr>table := (if renewed then after e (renew_lease i w expires) (table p) else table p),
       beliefs := (beliefs p)(w := (if renewed then Some (i, expires) else None))\<rparr>)"
| Finish: "beliefs p w = Some (i, old) \<Longrightarrow> get_run i (table p) = Some r \<Longrightarrow>
     rn_worker_id r = Some w \<Longrightarrow>
     lease_step p (p\<lparr>table := after e (end_run success i message stamp) (table p),
       beliefs := (beliefs p)(w := None)\<rparr>)"
| Retry: "lease_step p (p\<lparr>table := after e (claim_failed_retry i) (table p)\<rparr>)"

inductive_cases lease_stepE: "lease_step p p'"

definition protocol_start :: "protocol \<Rightarrow> bool" where
  "protocol_start p \<longleftrightarrow> distinct (map rn_id (digest_runs (table p))) \<and> chosen p = Map.empty
     \<and> beliefs p = Map.empty"

inductive protocol_reachable :: "protocol \<Rightarrow> bool" where
  start: "protocol_start p \<Longrightarrow> protocol_reachable p"
| step: "protocol_reachable p \<Longrightarrow> lease_step p p' \<Longrightarrow> protocol_reachable p'"

subsection \<open>The invariant\<close>

text \<open>An unexpired belief is what the table says; a pending choice was read in the past.\<close>

definition protocol_inv :: "protocol \<Rightarrow> bool" where
  "protocol_inv p \<longleftrightarrow> distinct (map rn_id (digest_runs (table p)))
     \<and> (\<forall>w i stamp. chosen p w = Some (i, stamp) \<longrightarrow> stamp \<le> time p)
     \<and> (\<forall>w i e. beliefs p w = Some (i, e) \<longrightarrow> time p \<le> e \<longrightarrow> holds (table p) w i e)"

lemma get_run_after:
  assumes "distinct (map rn_id (digest_runs d))" and "\<And>r. rn_id (f r) = rn_id r"
  shows "get_run i (d\<lparr>digest_runs := update_where q f (digest_runs d)\<rparr>)
       = map_option (\<lambda>r. if q r then f r else r) (get_run i d)"
  using assms by (simp add: get_run_def get_row_update_where)

lemma after_take:
  "after e (take_lease i w expires stamp) d
     = d\<lparr>digest_runs := update_where (\<lambda>r. rn_id r = i \<and> claimable d stamp r) (leased w expires) (digest_runs d)\<rparr>"
  "outcome e (take_lease i w expires stamp) d
     = Inr (rowcount (\<lambda>r. rn_id r = i \<and> claimable d stamp r) (digest_runs d))"
  by (simp_all add: after_def outcome_def take_lease_eq)

lemma after_renew:
  "after e (renew_lease i w expires) d = d\<lparr>digest_runs := update_where
     (\<lambda>r. rn_id r = i \<and> rn_worker_id r = Some w \<and> rn_status r = RUNNING)
     (\<lambda>r. r\<lparr>rn_lease_expires_at := Some expires\<rparr>) (digest_runs d)\<rparr>"
  "outcome e (renew_lease i w expires) d = Inr (rowcount
     (\<lambda>r. rn_id r = i \<and> rn_worker_id r = Some w \<and> rn_status r = RUNNING) (digest_runs d) = 1)"
  by (simp_all add: after_def outcome_def renew_lease_eq Let_def)

lemma after_other:
  "after e (end_run True i message stamp) d = d\<lparr>digest_runs := update_where (\<lambda>r. rn_id r = i)
     (\<lambda>r. r\<lparr>rn_status := COMPLETED, rn_error_message := None,
       rn_completed_at := Some (env_clock e 0), rn_worker_id := None, rn_lease_expires_at := None\<rparr>) (digest_runs d)\<rparr>"
  "after e (end_run False i message stamp) d = d\<lparr>digest_runs := update_where (\<lambda>r. rn_id r = i)
     (\<lambda>r. r\<lparr>rn_status := FAILED, rn_error_message := Some (take 2000 message),
       rn_completed_at := Some stamp, rn_worker_id := None, rn_lease_expires_at := None\<rparr>) (digest_runs d)\<rparr>"
  "after e (claim_failed_retry i) d = d\<lparr>digest_runs := update_where
     (\<lambda>r. rn_id r = i \<and> rn_status r = FAILED) (\<lambda>r. r\<lparr>rn_status := QUEUED\<rparr>) (digest_runs d)\<rparr>"
  by (simp_all add: after_def end_run_def mark_completed_def fail_run_def claim_failed_retry_def
      Let_def run_simps)

lemmas after_steps = after_take after_renew after_other

text \<open>A write that does not match the row leaves the lease as it is.\<close>

lemma get_run_unchanged:
  "get_run i d = Some r \<Longrightarrow> \<not> q r \<Longrightarrow> (\<And>r. rn_id (f r) = rn_id r) \<Longrightarrow>
     get_run i (d\<lparr>digest_runs := update_where q f (digest_runs d)\<rparr>) = Some r"
  by (simp add: get_run_def get_row_update_where)

lemma holds_other:
  assumes "holds d w i e" and "\<And>r. rn_id r = i \<Longrightarrow> rn_status r = RUNNING \<Longrightarrow>
        rn_worker_id r = Some w \<Longrightarrow> rn_lease_expires_at r = Some e \<Longrightarrow> \<not> q r"
    and "\<And>r. rn_id (f r) = rn_id r"
  shows "holds (d\<lparr>digest_runs := update_where q f (digest_runs d)\<rparr>) w i e"
proof -
  from assms(1) obtain r where r: "get_run i d = Some r" "rn_status r = RUNNING"
    "rn_worker_id r = Some w" "rn_lease_expires_at r = Some e" by (auto simp: holds_def)
  have "rn_id r = i" using r(1) by (auto simp: get_run_def dest: get_row_Some)
  with r assms(2,3) show ?thesis unfolding holds_def by (intro exI [of _ r] conjI get_run_unchanged) auto
qed

text \<open>The row a write did match.\<close>

lemma holds_written:
  assumes dist: "distinct (map rn_id (digest_runs d))" and "rowcount (\<lambda>r. rn_id r = i \<and> q r) (digest_runs d) = 1"
    and "\<And>r. rn_id (f r) = rn_id r"
    and "\<And>r. q r \<Longrightarrow> rn_status (f r) = RUNNING \<and> rn_worker_id (f r) = Some w \<and> rn_lease_expires_at (f r) = Some e"
  shows "holds (d\<lparr>digest_runs := update_where (\<lambda>r. rn_id r = i \<and> q r) f (digest_runs d)\<rparr>) w i e"
proof -
  from assms(2) obtain r where r: "r \<in> set (digest_runs d)" "rn_id r = i" "q r"
    by (metis (mono_tags, lifting) rowcount_0 zero_neq_one)
  then have "get_run i d = Some r" using get_row_distinct [OF dist r(1)] by (simp add: get_run_def)
  with r assms(3,4) show ?thesis by (auto simp: holds_def get_run_def get_row_update_where)
qed

lemma step_ids:
  assumes "lease_step p p'"
  shows "map rn_id (digest_runs (table p')) = map rn_id (digest_runs (table p))"
  using assms
proof cases
  case (Finish w i old r e success message stamp)
  then show ?thesis by (cases success) (simp_all add: after_steps map_update_where_same)
qed (simp_all add: after_steps map_update_where_same)

lemma protocol_inv_step:
  assumes "lease_step p p'" and inv: "protocol_inv p"
  shows "protocol_inv p'"
proof -
  have d: "distinct (map rn_id (digest_runs (table p)))" using inv by (simp add: protocol_inv_def)
  have b: "holds (table p) w i e" if "beliefs p w = Some (i, e)" "time p \<le> e" for w i e
    using inv that by (simp add: protocol_inv_def)
  have d': "distinct (map rn_id (digest_runs (table p')))" using d step_ids [OF assms(1)] by simp
  from assms(1) show ?thesis
  proof cases
    case (Tick t)
    with inv show ?thesis by (fastforce simp: protocol_inv_def)
  next
    case (Choose i w)
    with inv show ?thesis by (auto simp: protocol_inv_def)
  next
    case (Take w i stamp e expires n)
    have past: "stamp \<le> time p" using inv Take(2) by (simp add: protocol_inv_def)
    have "holds (table p') w' j x" if "beliefs p' w' = Some (j, x)" "time p \<le> x" for w' j x
    proof (cases "w' = w \<and> n = 1")
      case True
      then show ?thesis using that Take d by (auto simp: after_take intro!: holds_written)
    next
      case False
      then have "holds (table p) w' j x" using that b Take(1) by (auto split: if_splits)
      then have "holds (after e (take_lease i w expires stamp) (table p)) w' j x"
        unfolding after_take
        by (rule holds_other) (use past that in \<open>auto simp: not_claimable\<close>)
      then show ?thesis using Take(1) by simp
    qed
    with Take(1) inv d' show ?thesis by (auto simp: protocol_inv_def)
  next
    case (Renew w i old e expires renewed)
    have "holds (table p') w' j x" if "beliefs p' w' = Some (j, x)" "time p \<le> x" for w' j x
    proof (cases "w' = w")
      case True
      then show ?thesis using that Renew d by (auto simp: after_renew split: if_splits intro!: holds_written)
    next
      case False
      then have h: "holds (table p) w' j x" using that b Renew(1) by (auto split: if_splits)
      have "holds (after e (renew_lease i w expires) (table p)) w' j x"
        unfolding after_renew by (rule holds_other [OF h]) (use False in auto)
      with h show ?thesis using Renew(1) by simp
    qed
    with Renew(1) inv d' show ?thesis by (auto simp: protocol_inv_def)
  next
    case (Finish w i old r e success message stamp)
    have "holds (table p') w' j x" if "beliefs p' w' = Some (j, x)" "time p \<le> x" for w' j x
    proof -
      from that Finish(1) have "w' \<noteq> w" by (auto split: if_splits)
      then have h: "holds (table p) w' j x" using that b Finish(1) by auto
      have "j \<noteq> i" using h Finish(3,4) \<open>w' \<noteq> w\<close> by (auto simp: holds_def)
      then have "holds (after e (end_run success i message stamp) (table p)) w' j x"
        by (cases success; simp only: after_other; intro holds_other [OF h]) auto
      then show ?thesis using Finish(1) by simp
    qed
    with Finish(1) inv d' show ?thesis by (auto simp: protocol_inv_def)
  next
    case (Retry e i)
    have "holds (table p') w' j x" if "beliefs p' w' = Some (j, x)" "time p \<le> x" for w' j x
    proof -
      have h: "holds (table p) w' j x" using b [of w' j x] that Retry by simp
      have "holds (after e (claim_failed_retry i) (table p)) w' j x"
        unfolding after_other by (rule holds_other [OF h]) auto
      then show ?thesis using Retry by simp
    qed
    with Retry inv d' show ?thesis by (auto simp: protocol_inv_def)
  qed
qed

lemma protocol_inv_reachable: "protocol_reachable p \<Longrightarrow> protocol_inv p"
proof (induction rule: protocol_reachable.induct)
  case (start p)
  then show ?case by (simp add: protocol_start_def protocol_inv_def)
next
  case (step p p')
  show ?case by (rule protocol_inv_step [OF step.hyps(2) step.IH])
qed

lemma belief_holds:
  "protocol_reachable p \<Longrightarrow> beliefs p w = Some (i, e) \<Longrightarrow> time p \<le> e \<Longrightarrow> holds (table p) w i e"
  using protocol_inv_reachable [of p] by (simp add: protocol_inv_def)

lemma lease_exclusive:
  assumes "protocol_reachable p" and "beliefs p w = Some (i, e)" "beliefs p w' = Some (i, e')"
    and "time p \<le> e" "time p \<le> e'"
  shows "w' = w"
  using belief_holds [OF assms(1,2,4)] belief_holds [OF assms(1,3,5)] by (auto simp: holds_def)

lemma held_not_candidate:
  assumes "protocol_reachable p" and "beliefs p w = Some (i, e)" and "time p \<le> e"
  shows "claim_candidate (time p) (table p) \<noteq> Some i"
proof
  assume "claim_candidate (time p) (table p) = Some i"
  then obtain r where r: "r \<in> set (digest_runs (table p))" "rn_id r = i" "claimable (table p) (time p) r"
    by (rule claim_candidate_Some)
  have "distinct (map rn_id (digest_runs (table p)))"
    using protocol_inv_reachable [OF assms(1)] by (simp add: protocol_inv_def)
  then have "get_run i (table p) = Some r" using get_row_distinct r(1,2) by (metis get_run_def)
  then show False
    using belief_holds [OF assms] not_claimable [OF _ assms(3)] r(3) by (auto simp: holds_def)
qed

end
