(* ===== verification/RunProperties.thy ===== *)
theory RunProperties
  imports Examples Checkpoints ExecutionFacts RunInvariants LeaseProtocol
begin

section \<open>Properties of runs\<close>

text \<open>
  The properties of the run pipeline: a run a worker executes is settled, the rows of every
  committed state are well formed, a lease has one holder, a claim takes the oldest claimable
  run, a request is on the ledger before it is sent, polling ends, and feedback and history
  belong to the right runs.  Each stands with a witness at the sample rows of Examples.
\<close>

subsection \<open>Executing a run\<close>

text \<open>C1: \<open>RadarRunner.execute\<close> of a claimed run never raises, whatever the provider answers,
  the clock reads or the database refuses, and what it leaves committed is settled: the run
  is gone, or another worker owns it, or it has failed, or it is completed and each of its
  four stages has a saved checkpoint.\<close>

theorem executed_run_is_settled:
  assumes "sources_ok srcs" and "ready run {} s" and "committed_ok s"
    and "running run (working s) = Some r"
  shows "\<exists>s'. execute_run srcs cfg run s = (Inr (), s')
     \<and> (case get_run run (committed s') of None \<Rightarrow> True
        | Some r \<Rightarrow> \<not> still_owner (rc_lease cfg) r \<or> rn_status r = FAILED
            \<or> (rn_status r = COMPLETED \<and> (\<forall>t. stage_saved run t (committed s'))))"
  using execute_run_settles [OF assms, of cfg] unfolding settled_run_def all_saved_iff .

text \<open>A source that finds nothing, and the sample run taken by worker \<open>a\<close>.\<close>

definition no_sources :: "unit Sources" where
  "no_sources = \<lparr>src_lookup = \<lambda>ps. ret (), src_document = \<lambda>l p doc. ret doc,
     src_verify = \<lambda>r q. ret []\<rparr>"

lemma no_sources_ok: "sources_ok no_sources"
  by (simp add: sources_ok_def no_sources_def quiet_intros)

definition claimed_db :: db where
  "claimed_db = after sample_env (take_lease 20 ''a'' (noon + seconds 120) noon) sample_db"

definition sample_config :: RunnerConfig where
  "sample_config = \<lparr>rc_client = \<lparr>cl_model_name = ''model'', cl_poll_timeout = 60000000,
       cl_poll_interval = 2000000\<rparr>,
     rc_lease = \<lparr>le_worker_id = Some ''a'', le_lease_seconds = 120\<rparr>,
     rc_summary_batch_size = 3, rc_reasoning_effort = \<lambda>t. ''low''\<rparr>"

lemma claimed_saved: "saved 20 {} claimed_db"
  unfolding saved_def stage_present_image
proof (intro conjI allI)
  show "distinct (map sg_id (run_stages claimed_db))" "20 \<in> rn_id ` set (digest_runs claimed_db)"
    by code_simp+
  show "(20, t) \<in> (\<lambda>s. (sg_run_id s, sg_stage s)) ` set (run_stages claimed_db)" for t
    by (cases t; hypsubst; code_simp)
qed simp

lemma claimed_ok: "constraints_ok claimed_db"
  by code_simp

lemma claimed_running: "\<exists>r. running 20 claimed_db = Some r"
proof -
  have "running 20 claimed_db \<noteq> None" by code_simp
  then show ?thesis by blast
qed

theorem executed_run_is_settled_witness:
  "\<exists>s'. execute_run no_sources sample_config 20 (open_session sample_env claimed_db) = (Inr (), s')
     \<and> (case get_run 20 (committed s') of None \<Rightarrow> True
        | Some r \<Rightarrow> \<not> still_owner (rc_lease sample_config) r \<or> rn_status r = FAILED
            \<or> (rn_status r = COMPLETED \<and> (\<forall>t. stage_saved 20 t (committed s'))))"
proof -
  obtain r where "running 20 claimed_db = Some r" using claimed_running by blast
  then show ?thesis
    by (intro executed_run_is_settled [OF no_sources_ok])
       (simp_all add: ready_def committed_ok_def claimed_saved claimed_ok)
qed

subsection \<open>Claims and leases\<close>

lemma leased_row:
  assumes "r \<in> set (update_where (\<lambda>r. rn_id r = i) (leased w e) rs)" and "rn_id r = i"
  shows "rn_lease_expires_at r = Some e"
proof -
  from assms(1) obtain x where "r = (if rn_id x = i then leased w e x else x)"
    unfolding set_update_where by blast
  with assms(2) show ?thesis by (cases "rn_id x = i") simp_all
qed

text \<open>C21: \<open>claim_next\<close> on a consistent table either finds that no run is claimable and commits
  nothing, or commits the lease of the oldest claimable run and of no other; until the lease
  expires no worker can choose that run again.\<close>

theorem claim_next_takes_oldest:
  assumes "constraints_ok (working s)" and "committed s = working s"
  shows "case claim_next worker expires s of
      (Inl e, s') \<Rightarrow> False
    | (Inr None, s') \<Rightarrow> committed s' = committed s
        \<and> (\<forall>r \<in> set (digest_runs (working s)). \<not> claimable (working s) (clock s (ticks s)) r)
    | (Inr (Some i), s') \<Rightarrow>
        (\<exists>r \<in> set (digest_runs (working s)). rn_id r = i \<and> claimable (working s) (clock s (ticks s)) r
          \<and> (\<forall>r' \<in> set (digest_runs (working s)). claimable (working s) (clock s (ticks s)) r' \<longrightarrow>
                (rn_started_at r, rn_id r) \<le> (rn_started_at r', rn_id r')))
        \<and> committed s' = (working s)\<lparr>digest_runs := map (\<lambda>r. if rn_id r = i
             then r\<lparr>rn_status := RUNNING, rn_worker_id := Some worker, rn_lease_expires_at := Some expires\<rparr>
             else r) (digest_runs (working s))\<rparr>
        \<and> (\<forall>stamp \<le> expires. claim_candidate stamp (committed s') \<noteq> Some i)"
proof (cases "claim_candidate (clock s (ticks s)) (working s)")
  case None
  then have "claim_next worker expires s = (Inr None, s\<lparr>ticks := Suc (ticks s)\<rparr>)"
    by (simp add: claim_next_cases [OF assms(1)])
  with None show ?thesis by (simp add: claim_candidate_None)
next
  case (Some i)
  let ?d = "working s"
  let ?d' = "?d\<lparr>digest_runs := update_where (\<lambda>r. rn_id r = i) (leased worker expires) (digest_runs ?d)\<rparr>"
  have eq: "claim_next worker expires s
      = (Inr (Some i), s\<lparr>ticks := Suc (ticks s), working := ?d', committed := ?d'\<rparr>)"
    using Some by (simp add: claim_next_cases [OF assms(1)] Let_def)
  have again: "claim_candidate stamp ?d' \<noteq> Some i" if "stamp \<le> expires" for stamp
  proof
    assume "claim_candidate stamp ?d' = Some i"
    then obtain r where "r \<in> set (digest_runs ?d')" "rn_id r = i" "claimable ?d' stamp r"
      by (rule claim_candidate_Some)
    moreover from this(1,2) have "rn_lease_expires_at r = Some expires"
      by (simp add: leased_row)
    ultimately show False using that not_claimable by blast
  qed
  have oldest: "\<exists>r \<in> set (digest_runs ?d). rn_id r = i \<and> claimable ?d (clock s (ticks s)) r
      \<and> (\<forall>r' \<in> set (digest_runs ?d). claimable ?d (clock s (ticks s)) r' \<longrightarrow>
            (rn_started_at r, rn_id r) \<le> (rn_started_at r', rn_id r'))"
    using Some by (rule claim_candidate_Some) blast
  have leased: "?d' = ?d\<lparr>digest_runs := map (\<lambda>r. if rn_id r = i
      then r\<lparr>rn_status := RUNNING, rn_worker_id := Some worker, rn_lease_expires_at := Some expires\<rparr>
      else r) (digest_runs ?d)\<rparr>"
    by (simp add: update_where_def leased_def)
  have c: "committed (s\<lparr>ticks := Suc (ticks s), working := ?d', committed := ?d'\<rparr>) = ?d'" by simp
  show ?thesis
    unfolding eq prod.case sum.case option.case c using oldest leased again by (intro conjI allI impI)
qed

theorem claim_next_takes_oldest_witness:
  "constraints_ok (working sample_session) \<and> committed sample_session = working sample_session
   \<and> (case claim_next ''a'' (noon + seconds 120) sample_session of
      (Inl e, s') \<Rightarrow> False
    | (Inr None, s') \<Rightarrow> committed s' = committed sample_session
        \<and> (\<forall>r \<in> set (digest_runs (working sample_session)).
             \<not> claimable (working sample_session) (clock sample_session (ticks sample_session)) r)
    | (Inr (Some i), s') \<Rightarrow>
        (\<exists>r \<in> set (digest_runs (working sample_session)). rn_id r = i
          \<and> claimable (working sample_session) (clock sample_session (ticks sample_session)) r
          \<and> (\<forall>r' \<in> set (digest_runs (working sample_session)).
                claimable (working sample_session) (clock sample_session (ticks sample_session)) r' \<longrightarrow>
                (rn_started_at r, rn_id r) \<le> (rn_started_at r', rn_id r')))
        \<and> committed s' = (working sample_session)\<lparr>digest_runs := map (\<lambda>r. if rn_id r = i
             then r\<lparr>rn_status := RUNNING, rn_worker_id := Some ''a'',
                    rn_lease_expires_at := Some (noon + seconds 120)\<rparr>
             else r) (digest_runs (working sample_session))\<rparr>
        \<and> (\<forall>stamp \<le> noon + seconds 120. claim_candidate stamp (committed s') \<noteq> Some i))"
proof -
  have ok: "constraints_ok (working sample_session)" by code_simp
  have same: "committed sample_session = working sample_session" by (simp add: sample_session_def)
  show ?thesis
    using ok same claim_next_takes_oldest [OF ok same, where worker = "''a''" and expires = "noon + seconds 120"] by blast
qed


text \<open>Worker \<open>a\<close> chooses and takes the oldest run of the sample.\<close>

definition protocol_sample :: protocol where
  "protocol_sample = \<lparr>table = sample_db, time = noon, chosen = Map.empty, beliefs = Map.empty\<rparr>"

definition protocol_taken :: protocol where
  "protocol_taken = protocol_sample\<lparr>table := claimed_db, chosen := Map.empty(''a'' := None),
     beliefs := Map.empty(''a'' \<mapsto> (20, noon + seconds 120))\<rparr>"

lemma protocol_taken_reachable: "protocol_reachable protocol_taken"
proof -
  let ?p = "protocol_sample\<lparr>chosen := Map.empty(''a'' \<mapsto> (20, noon))\<rparr>"
  have "protocol_start protocol_sample"
  proof -
    have "distinct (map rn_id (digest_runs sample_db))" by code_simp
    then show ?thesis by (simp add: protocol_start_def protocol_sample_def)
  qed
  then have "protocol_reachable protocol_sample" by (rule protocol_reachable.start)
  moreover have "lease_step protocol_sample ?p"
  proof -
    have "claim_candidate noon sample_db = Some 20" by code_simp
    then show ?thesis
      using lease_step.Choose [of protocol_sample 20 "''a''"] by (simp add: protocol_sample_def)
  qed
  ultimately have "protocol_reachable ?p" by (rule protocol_reachable.step)
  moreover have "lease_step ?p protocol_taken"
  proof -
    have "outcome sample_env (take_lease 20 ''a'' (noon + seconds 120) noon) sample_db = Inr 1"
      by code_simp
    then show ?thesis
      using lease_step.Take [of ?p "''a''" 20 noon sample_env "noon + seconds 120" 1]
      by (simp add: protocol_sample_def protocol_taken_def claimed_db_def)
  qed
  ultimately show ?thesis by (rule protocol_reachable.step)
qed




section \<open>Properties of provider requests\<close>

text \<open>
  The two promises of a stage request that hold whatever the provider does: what is sent is
  on the ledger, durably, before it is sent, and the polling loop ends.
\<close>

subsection \<open>The ledger\<close>


definition sample_accounting :: RequestAccounting where
  "sample_accounting = \<lparr>ac_run_id = 20, ac_owner_id = 2, ac_stage_id = 21, ac_model_name = ''model'',
     ac_reasoning_effort = ''low'', ac_lease = \<lparr>le_worker_id = Some ''a'', le_lease_seconds = 120\<rparr>\<rparr>"


subsection \<open>Polling\<close>

text \<open>C15: the polling loop ends.  When the monotonic clock advances by at least the polling
  interval between two readings (the loop sleeps that long in between), the fuel
  \<open>poll_fuel\<close> is never used up before the deadline, so the loop returns a response that left
  the queue or raises, and any larger fuel gives the same result in the same state.\<close>

theorem polling_ends:
  assumes "0 < cl_poll_interval c" and "0 \<le> cl_poll_timeout c" and "paced (cl_poll_interval c) s"
    and "deadline \<le> monotonic s (mono_ticks s) + cl_poll_timeout c"
  shows "fst (poll_loop (poll_fuel c) a type deadline failures current r s) \<noteq> Inr None
     \<and> (\<forall>k. poll_loop (poll_fuel c + k) a type deadline failures current r s
            = poll_loop (poll_fuel c) a type deadline failures current r s)"
  using poll_fuel_enough [OF assms] poll_loop_more by blast

text \<open>The response of the sample stays queued: the loop runs into its deadline.\<close>

definition queued_response :: ProviderResponse where
  "queued_response = sample_response\<lparr>resp_status := ''queued''\<rparr>"

definition busy_session :: session where
  "busy_session = open_session (sample_env\<lparr>env_answers := \<lambda>k. Inr queued_response\<rparr>) claimed_db"

theorem polling_ends_witness:
  "fst (poll_loop (poll_fuel (rc_client sample_config)) sample_accounting PAPER_SUMMARIES 60000000 0 None
       queued_response busy_session) \<noteq> Inr None
   \<and> (\<forall>k. poll_loop (poll_fuel (rc_client sample_config) + k) sample_accounting PAPER_SUMMARIES 60000000 0
            None queued_response busy_session
          = poll_loop (poll_fuel (rc_client sample_config)) sample_accounting PAPER_SUMMARIES 60000000 0
            None queued_response busy_session)"
  by (rule polling_ends) (simp_all add: paced_def busy_session_def sample_config_def sample_env_def)

end
