(* ===== verification/ServiceProperties.thy ===== *)
theory ServiceProperties
  imports RunProperties Dispatch Delivery
begin

section \<open>Properties of the service as a whole\<close>

text \<open>
  The committed database over a sequence of the operations of the service: workers, new and
  retried runs, the dispatcher and the delivery worker, feedback and clean-up, each in a
  session of its own and whatever it returns or raises.  Then what feedback and history read and write.
\<close>

subsection \<open>Sessions one after another\<close>

definition published :: "environment \<Rightarrow> 'a sess \<Rightarrow> db \<Rightarrow> db" where
  "published e m d = committed (snd (m (open_session e d)))"

inductive served :: "'l Sources \<Rightarrow> db \<Rightarrow> db \<Rightarrow> bool" for srcs :: "'l Sources" where
  start: "served srcs d d"
| work: "served srcs d d' \<Longrightarrow> served srcs d (published e (run_once srcs w) d')"
| submit: "served srcs d d' \<Longrightarrow>
     served srcs d (published e (start_digest hmac zs c digest owner scheduled tz do_commit) d')"
| retry: "served srcs d d' \<Longrightarrow> served srcs d (published e (retry_digest hmac c digest run owner) d')"
| feedback: "served srcs d d' \<Longrightarrow> served srcs d (published e (seq (save_feedback_if_latest r txt) commit) d')"
| review: "served srcs d d' \<Longrightarrow> served srcs d (published e (evaluate_manually r actor expected) d')"
| dispatch: "served srcs d d' \<Longrightarrow> served srcs d (published e (tick hmac zs c) d')"
| deliver: "served srcs d d' \<Longrightarrow> (\<And>m. quiet (send m)) \<Longrightarrow>
     served srcs d (published e (deliver_once send base) d')"
| cleanup: "served srcs d d' \<Longrightarrow> served srcs d (published e cleanup_rate_limits d')"

lemma publishedI:
  "keeps (both P) m \<Longrightarrow> P d \<Longrightarrow> P (published e m d)"
  using keepsD' [of "both P" m "open_session e d"] by (simp add: published_def both_def)

lemma published_ok: "keeps committed_ok m \<Longrightarrow> constraints_ok d \<Longrightarrow> constraints_ok (published e m d)"
  using keepsD' [of committed_ok m "open_session e d"] by (simp add: published_def committed_ok_def)

lemma quiet_ok: "quiet m \<Longrightarrow> keeps committed_ok m"
  using quiet_invariant_committed_ok by (simp add: quiet_def)

lemma admission_ok [keeps_intros]:
  "keeps committed_ok (reserve_run_budget hmac settings owner)"
  "keeps committed_ok (book_run settings run)" "keeps committed_ok (commit_start owner)"
  "keeps committed_ok commit_retry" "keeps committed_ok (lock_account owner)"
  unfolding reserve_run_budget_def book_run_def commit_start_def commit_retry_def has_running_for_owner_def
  by (rule quiet_ok, intro quiet_intros)+

lemma new_stages_ok_commit [keeps_intros]: "keeps committed_ok (new_stages run model version n ts)"
  by (induction ts arbitrary: n) (auto intro!: keeps_intros)

lemma create_ok [keeps_intros]: "keeps committed_ok (create_queued zs c g owner scheduled tz)"
  unfolding create_queued_def create_running_def set_run_def by (intro keeps_intros)

lemma submission_ok:
  "keeps committed_ok (start_digest hmac zs c digest owner scheduled tz do_commit)"
  "keeps committed_ok (retry_digest hmac c digest run owner)"
  unfolding start_digest_def retry_digest_def claim_failed_retry_def requeue_failed_def set_run_def
    set_stage_def clear_active_response_def has_running_for_owner_def Let_def
  by (intro keeps_intros)+

lemma feedback_ok: "keeps committed_ok (save_feedback_if_latest r txt)"
  unfolding save_feedback_if_latest_def by (intro keeps_intros)

lemma feedback_rows: "keeps (both rows_ok) (save_feedback_if_latest r txt)"
  unfolding save_feedback_if_latest_def
  by (intro keeps_intros both_change)
     (auto simp: rows_ok_def run_ok_def is_active_def intro!: list_all_update_where)

lemma reviews_quiet [quiet_intros]:
  "quiet (evaluate_manually r actor expected)" "quiet cleanup_rate_limits"
  unfolding evaluate_manually_def unavailable_error_def cleanup_rate_limits_def Let_def
  by (intro quiet_intros quiet_change; simp add: same_work_def)+

lemma deliver_quiet: "(\<And>m. quiet (send m)) \<Longrightarrow> quiet (deliver_once send base)"
  unfolding deliver_once_def delivery_claim_def delivery_finish_def delivery_outcome_def send_mail_def
    expire_unconfirmed_def claim_delivery_def set_deliveries_def Let_def
  by (intro quiet_intros quiet_change; simp add: same_work_def)

lemma with_session_keeps [keeps_intros]: "keeps I rollback \<Longrightarrow> keeps I m \<Longrightarrow> keeps I (with_session m)"
  by (auto simp: keeps_def with_session_def split: prod.splits)

lemma refused_quiet: "quiet (refused_dispatch i cursor stamp e)"
  unfolding refused_dispatch_def
  by (cases "exn_class e") (auto intro!: quiet_intros quiet_change simp: same_work_def)

lemma swap_quiet [quiet_intros]: "quiet (swap_cursor i old following)" "quiet (set_digest i f)"
  unfolding swap_cursor_def set_digest_def Let_def
  by (intro quiet_intros quiet_change; simp add: same_work_def)+

text \<open>The dispatcher's turn keeps what starting a run keeps and quiet programs keep.\<close>

lemma dispatch_keeps:
  assumes quiet: "\<And>m :: unit sess. quiet m \<Longrightarrow> keeps I m" "\<And>m :: nat sess. quiet m \<Longrightarrow> keeps I m"
      "\<And>m :: bool sess. quiet m \<Longrightarrow> keeps I m" "\<And>m :: Access sess. quiet m \<Longrightarrow> keeps I m"
    and start: "\<And>digest owner t tz. keeps I (start_digest hmac zs c digest owner t tz False)"
  shows "keeps I (dispatch_digest hmac zs c stamp i)"
proof -
  have basic: "keeps I (lock_account u)" "keeps I commit" "keeps I rollback" "keeps I (set_digest j f)"
    "keeps I (swap_cursor j old following)" "keeps I (resolve u st)" "keeps I (refused_dispatch j old t e)"
    for u j f old following st t e
    by (intro quiet quiet_intros refused_quiet)+
  have add: "keeps I (change (\<lambda>d. d\<lparr>deliveries := deliveries d @ [x]\<rparr>))" for x
    by (intro quiet quiet_change) (simp add: same_work_def)
  show ?thesis
    unfolding dispatch_digest_def dispatch_occurrence_def start_scheduled_def
    by (intro keeps_intros basic start add)
qed

lemma tick_loop_keeps:
  assumes "\<And>i. keeps I (dispatch_digest hmac zs c stamp i)" and "keeps I rollback"
  shows "keeps I (tick_loop hmac zs c stamp ids n)"
  using assms by (induction ids arbitrary: n) (auto intro!: keeps_intros)

lemma run_once_ok: "sources_ok srcs \<Longrightarrow> keeps committed_ok (run_once srcs w)"
  by (rule all_work.work_run_once) (rule all_work_committing)

text \<open>An operation keeps a committed database consistent and its rows well formed.\<close>

definition safe :: "'a sess \<Rightarrow> bool" where
  "safe m \<longleftrightarrow> keeps committed_ok m \<and> keeps (both rows_ok) m"

lemma safe_operations:
  "sources_ok srcs \<Longrightarrow> safe (run_once srcs w)"
  "safe (start_digest hmac zs c digest owner scheduled tz do_commit)"
  "safe (retry_digest hmac c digest run owner)"
  "safe (seq (save_feedback_if_latest r txt) commit)"
  unfolding safe_def
  by (simp_all add: run_once_ok run_once_keeps submission_ok start_digest_keeps retry_digest_keeps
      keeps_seq feedback_ok feedback_rows both_commit committed_ok_commit)

lemma safe_quiet: "quiet m \<Longrightarrow> safe m"
  by (simp add: safe_def quiet_ok quiet_keeps_rows)

lemma safe_tick: "safe (tick hmac zs c)"
proof -
  have ok: "keeps committed_ok (dispatch_digest hmac zs c stamp i)" for stamp i
    by (rule dispatch_keeps) (auto intro: quiet_ok submission_ok)
  have rows: "keeps (both rows_ok) (dispatch_digest hmac zs c stamp i)" for stamp i
    by (rule dispatch_keeps) (auto intro: quiet_keeps_rows start_digest_keeps)
  show ?thesis
    unfolding safe_def tick_def
    by (intro conjI keeps_intros tick_loop_keeps ok rows)
qed

lemma safe_published:
  "safe m \<Longrightarrow> constraints_ok d \<and> rows_ok d \<Longrightarrow>
     constraints_ok (published e m d) \<and> rows_ok (published e m d)"
  by (simp add: safe_def published_ok publishedI)

text \<open>C3: whatever workers, submissions, retries, the dispatcher, the delivery worker,
  feedback, reviews and clean-ups do, and
  wherever they stop, a committed database that satisfied its constraints and had well-formed
  rows still does: at most one active run per account; a run has a worker and a lease exactly
  while it is running and a completion time once it ended; a completed stage has its output,
  a failed one its message.\<close>

theorem service_keeps_database_ok:
  assumes "served srcs d d'" and "sources_ok srcs" and "constraints_ok d" and "rows_ok d"
  shows "constraints_ok d' \<and> rows_ok d' \<and> distinct (active_owners (digest_runs d'))
     \<and> (\<forall>r \<in> set (digest_runs d'). (rn_worker_id r = None \<longleftrightarrow> rn_status r \<noteq> RUNNING)
          \<and> (rn_lease_expires_at r = None \<longleftrightarrow> rn_status r \<noteq> RUNNING)
          \<and> (is_active r \<or> rn_completed_at r \<noteq> None))"
proof -
  from assms(1,3,4) have "constraints_ok d' \<and> rows_ok d'"
  proof (induction rule: served.induct)
    case (start d)
    then show ?case by simp
  qed (simp_all add: safe_published safe_operations safe_quiet reviews_quiet
      safe_tick deliver_quiet assms(2))
  then show ?thesis by (simp add: constraints_ok_def rows_ok_def list_all_iff run_ok_def)
qed

theorem service_keeps_database_ok_witness:
  "\<exists>d'. d' = published sample_env (run_once no_sources \<lparr>wk_worker_id = ''a'', wk_lease_seconds = 120,
          wk_summary_batch_size = 3, wk_reasoning_effort = \<lambda>t. ''low'',
          wk_client = rc_client sample_config\<rparr>) sample_db
     \<and> constraints_ok d' \<and> rows_ok d' \<and> distinct (active_owners (digest_runs d'))
     \<and> (\<forall>r \<in> set (digest_runs d'). (rn_worker_id r = None \<longleftrightarrow> rn_status r \<noteq> RUNNING)
          \<and> (rn_lease_expires_at r = None \<longleftrightarrow> rn_status r \<noteq> RUNNING)
          \<and> (is_active r \<or> rn_completed_at r \<noteq> None))"
proof -
  have ok: "constraints_ok sample_db" "rows_ok sample_db" by code_simp+
  show ?thesis
    using service_keeps_database_ok [OF served.work [OF served.start] no_sources_ok ok] by blast
qed

subsection \<open>Feedback and history\<close>


text \<open>Two completed runs of one digest.\<close>

definition finished_run :: "uuid \<Rightarrow> int \<Rightarrow> DigestRun" where
  "finished_run i age = (sample_run i 1 age)\<lparr>rn_status := COMPLETED, rn_completed_at := Some noon\<rparr>"

definition finished_db :: db where
  "finished_db = empty_db\<lparr>digest_runs := [finished_run 60 7200, finished_run 70 3600]\<rparr>"


text \<open>C35: the history a new run is given is that of the newest completed runs of its digest
  whose delivery was not held, at most the configured number, oldest first; a completed run
  that was left out is no newer than any that was kept.\<close>

theorem history_is_newest_completed:
  "\<exists>rs. build_history_context digest limit d = map (history_item d) rs
     \<and> length rs = min limit (length (filter (in_history digest) (digest_runs d)))
     \<and> set rs \<subseteq> {r \<in> set (digest_runs d). rn_digest_id r = digest \<and> rn_status r = COMPLETED
           \<and> \<not> rn_quality_delivery_blocked r}
     \<and> sorted_wrt (\<lambda>a b. (rn_started_at a, rn_id a) \<le> (rn_started_at b, rn_id b)) rs
     \<and> (\<forall>r \<in> set (digest_runs d). in_history digest r \<longrightarrow> r \<notin> set rs \<longrightarrow>
          (\<forall>k \<in> set rs. (rn_started_at r, rn_id r) \<le> (rn_started_at k, rn_id k)))"
proof -
  let ?f = "filter (in_history digest) (digest_runs d)"
  let ?rs = "rev (take limit (newest_first ?f))"
  have eq: "build_history_context digest limit d = map (history_item d) ?rs"
    by (simp add: build_history_context_def)
  have sub: "set ?rs \<subseteq> set ?f" by (metis set_newest_first set_rev set_take_subset)
  have sorted: "sorted_wrt (\<lambda>a b. (rn_started_at a, rn_id a) \<le> (rn_started_at b, rn_id b)) ?rs"
    using sorted_wrt_take [OF newest_first_sorted [of ?f], of limit] by (simp add: sorted_wrt_rev)
  have older: "(rn_started_at r, rn_id r) \<le> (rn_started_at k, rn_id k)"
    if "r \<in> set ?f" "r \<notin> set ?rs" "k \<in> set ?rs" for r k
  proof -
    have "r \<in> set (take limit (newest_first ?f) @ drop limit (newest_first ?f))" using that(1) by simp
    with that(2) have "r \<in> set (drop limit (newest_first ?f))" by (simp del: append_take_drop_id)
    with newest_taken [of k limit ?f r] that(3) show ?thesis by simp
  qed
  show ?thesis
    using eq sub sorted older
    by (intro exI [of _ ?rs]) (auto simp: in_history_def min.commute)
qed

theorem history_is_newest_completed_witness:
  "map hi_run_id (build_history_context 7 1 finished_db) = [70]
   \<and> (\<exists>rs. build_history_context 7 1 finished_db = map (history_item finished_db) rs
     \<and> length rs = min 1 (length (filter (in_history 7) (digest_runs finished_db)))
     \<and> set rs \<subseteq> {r \<in> set (digest_runs finished_db). rn_digest_id r = 7 \<and> rn_status r = COMPLETED
           \<and> \<not> rn_quality_delivery_blocked r})"
proof -
  have "map hi_run_id (build_history_context 7 1 finished_db) = [70]" by code_simp
  with history_is_newest_completed [of 7 1 finished_db] show ?thesis by blast
qed

end
