(* ===== verification/BillingFrames.thy ===== *)
theory BillingFrames
  imports Replacement BillingSync Subscribers ServiceProperties
begin

section \<open>What observing Stripe leaves alone\<close>

text \<open>
  Observation reads Stripe with GET requests and writes statuses, periods, invoices and
  notices.  It never publishes anything itself, adds no intent and changes neither the
  parameters an intent is sent with nor the synchronisation jobs.  The locale \<open>observing\<close>
  states this once for every session invariant that such writes keep.
\<close>

text \<open>The columns a request to Stripe is built from.\<close>

type_synonym intents =
  "(uuid \<times> parameters) list \<times> (uuid \<times> string option \<times> parameters) list \<times> (uuid \<times> parameters) list"

definition intents_of :: "db \<Rightarrow> intents" where
  "intents_of d =
     (map (\<lambda>c. (co_id c, co_parameters c)) (checkouts d),
      map (\<lambda>x. (ch_id x, ch_schedule_id x, ch_parameters x)) (changes d),
      map (\<lambda>u. (up_id u, up_parameters u)) (upgrades d))"

definition steady :: "(db \<Rightarrow> db) \<Rightarrow> bool" where
  "steady f \<longleftrightarrow> (\<forall>d. intents_of (f d) = intents_of d \<and> sync_jobs (f d) = sync_jobs d
     \<and> (constraints_ok d \<longrightarrow> constraints_ok (f d)))"

lemma steadyI:
  "(\<And>d. intents_of (f d) = intents_of d) \<Longrightarrow> (\<And>d. sync_jobs (f d) = sync_jobs d)
    \<Longrightarrow> (\<And>d. constraints_ok d \<Longrightarrow> constraints_ok (f d)) \<Longrightarrow> steady f"
  by (simp add: steady_def)

lemma steady_other:
  assumes "\<And>d. checkouts (f d) = checkouts d" "\<And>d. changes (f d) = changes d" "\<And>d. upgrades (f d) = upgrades d"
    "\<And>d. sync_jobs (f d) = sync_jobs d" "\<And>d. constraints_ok (f d) = constraints_ok d"
  shows "steady f"
  using assms by (simp add: steady_def intents_of_def)

locale observing =
  fixes I :: "session \<Rightarrow> bool"
  assumes draws: "keeps I now" "keeps I uuid4" "keeps I flush"
    and reads: "cl_key c = None \<Longrightarrow> keeps I (ask_stripe c)"
    and writes: "steady f \<Longrightarrow> keeps I (change f)"
begin

lemmas basic [keeps_intros] = draws

lemma o_query [keeps_intros]: "keeps I (query f)"
  by (simp add: query_def keeps_intros)

lemma other_table [keeps_intros]:
  "(\<And>d. checkouts (f d) = checkouts d) \<Longrightarrow> (\<And>d. changes (f d) = changes d) \<Longrightarrow> (\<And>d. upgrades (f d) = upgrades d)
    \<Longrightarrow> (\<And>d. sync_jobs (f d) = sync_jobs d) \<Longrightarrow> (\<And>d. constraints_ok (f d) = constraints_ok d) \<Longrightarrow> keeps I (change f)"
  by (intro writes steady_other)

lemma o_set_checkout [keeps_intros]:
  "(\<And>r. co_id (f r) = co_id r) \<Longrightarrow> (\<And>r. co_parameters (f r) = co_parameters r) \<Longrightarrow> keeps I (set_checkout i f)"
  unfolding set_checkout_def
  by (intro writes steadyI) (simp_all add: intents_of_def constraints_ok_def)

lemma o_set_change [keeps_intros]:
  "(\<And>r. ch_id (f r) = ch_id r) \<Longrightarrow> (\<And>r. ch_schedule_id (f r) = ch_schedule_id r)
    \<Longrightarrow> (\<And>r. ch_parameters (f r) = ch_parameters r) \<Longrightarrow> keeps I (set_change i f)"
  unfolding set_change_def
  by (intro writes steadyI) (simp_all add: intents_of_def constraints_ok_def)

lemma o_set_upgrade [keeps_intros]:
  "(\<And>r. up_id (f r) = up_id r) \<Longrightarrow> (\<And>r. up_parameters (f r) = up_parameters r) \<Longrightarrow> keeps I (set_upgrade i f)"
  unfolding set_upgrade_def
  by (intro writes steadyI) (simp_all add: intents_of_def constraints_ok_def)

subsection \<open>Access\<close>

lemma o_rows [keeps_intros]:
  "keeps I (set_state user k)" "keeps I (enqueue user key subject body)" "keeps I (require_open_account user)"
  "keeps I (lock_billing user closes)" "keeps I (Observation.lock_account user)" "keeps I (require_opt_in user)"
  unfolding set_state_def enqueue_def require_open_account_def lock_billing_def Observation.lock_account_def
    require_opt_in_def
  by (intro keeps_intros; simp add: Let_def constraints_ok_def)+

lemma o_billing [keeps_intros]:
  "keeps I default_plan" "keeps I (assign_free user stamp)"
  unfolding default_plan_def assign_free_def Let_def
  by (intro keeps_intros; simp add: constraints_ok_def)+

lemma o_resolve_parts [keeps_intros]:
  "keeps I (account_state user result stamp)" "keeps I (record_effective user state result stamp)"
  "keeps I (free_digest_ids user state limit paid)" "keeps I (fall_back user state result)"
  "keeps I (activate_digests user state result)"
  unfolding account_state_def record_effective_def free_digest_ids_def fall_back_def activate_digests_def Let_def
  by (intro keeps_intros; simp add: constraints_ok_def)+

lemma o_resolve [keeps_intros]: "keeps I (resolve user settings)"
  unfolding resolve_def resolve_locked_def Let_def by (intro keeps_intros)

subsection \<open>Stripe and its catalogue\<close>

lemma o_get [keeps_intros]: "keeps I (get_object s p)"
  unfolding get_object_def request_def by (intro keeps_intros reads) simp

lemma o_only_reads [keeps_intros]:
  "keeps I (stripe_client s)" "keeps I (enabled s)" "keeps I (load rows key k)" "keeps I (load_checkout i)"
  "keeps I (load_plan p)" "keeps I (subscription s c)" "keeps I (ensure_database_mode s)"
  unfolding stripe_client_def enabled_def load_def load_checkout_def load_plan_def subscription_def
    ensure_database_mode_def
  by (intro keeps_intros; simp add: constraints_ok_def)+

lemma o_fetch [keeps_intros]: "keeps I (fetch s p)"
  unfolding fetch_def by (intro keeps_intros reads) simp

lemma o_check_prices [keeps_intros]: "keeps I (check_prices s m c ps)"
  by (induction s m c ps rule: check_prices.induct) (auto intro!: keeps_intros)

lemma o_check_mapping [keeps_intros]: "keeps I (check_mapping c s)"
  unfolding check_mapping_def Let_def by (intro keeps_intros)

subsection \<open>Invoices\<close>

lemma o_observe_invoice [keeps_intros]: "keeps I (save_invoice i)" "keeps I (observe_invoice c value)"
  unfolding observe_invoice_def save_invoice_def
  by (intro keeps_intros; simp add: constraints_ok_def)+

lemma o_retrieve [keeps_intros]: "keeps I (retrieve s invoice)"
  unfolding retrieve_def by (intro keeps_intros)

lemma o_invoice_page [keeps_intros]: "keeps I (invoice_page s c cursor)"
  unfolding invoice_page_def by (intro keeps_intros)

lemma o_advance_history [keeps_intros]: "keeps I (advance_history s c recent)"
  unfolding advance_history_def by (intro keeps_intros; simp)

lemma o_reconcile [keeps_intros]: "keeps I (reconcile s checkout latest)"
  unfolding reconcile_def by (intro keeps_intros; simp)

lemma o_capture [keeps_intros]: "keeps I (capture checkout payment)"
  unfolding capture_def Let_def by (intro keeps_intros; simp)

subsection \<open>Transitions, subscriptions and checkouts\<close>

lemma o_change_parts [keeps_intros]:
  "keeps I (change_notice ch event message)" "keeps I (upgrade_notice u event message)"
  "keeps I (verified_schedule s c ch)" "keeps I (review_upgrade i message)"
  unfolding change_notice_def upgrade_notice_def verified_schedule_def review_upgrade_def
  by (intro keeps_intros; simp)+

lemma o_stop_change [keeps_intros]: "keeps I (stop_change ch message)"
  unfolding stop_change_def by (intro keeps_intros; simp)

lemma o_bind_target [keeps_intros]: "keeps I (bind_target c ch)"
  unfolding bind_target_def by (intro keeps_intros; simp add: constraints_ok_def)

lemma o_observe_price_of_change [keeps_intros]: "keeps I (observe_price_of_change s c ch value item)"
  unfolding observe_price_of_change_def by (intro keeps_intros)

lemma o_observe_change [keeps_intros]: "keeps I (observe_change s checkout value)"
  unfolding observe_change_def by (intro keeps_intros) (auto intro!: keeps_intros split: list.splits)

lemma o_settle_change [keeps_intros]: "keeps I (settle_change s checkout)"
  unfolding settle_change_def by (intro keeps_intros; simp)

lemma o_evidence [keeps_intros]: "keeps I (evidence s c n seen invoice)"
  by (induction s c n seen invoice rule: evidence.induct) (auto intro!: keeps_intros)

lemma o_attach_invoice [keeps_intros]: "keeps I (attach_invoice s c u latest)"
  unfolding attach_invoice_def
  by (intro keeps_intros) (auto intro!: keeps_intros split: sum.splits)

lemma o_apply_upgrade [keeps_intros]: "keeps I (apply_upgrade s c u value item)"
  unfolding apply_upgrade_def by (intro keeps_intros; simp)

lemma o_await_payment [keeps_intros]: "keeps I (await_payment u pending)"
  unfolding await_payment_def Let_def by (intro keeps_intros; simp)

lemma o_settle_upgrade [keeps_intros]: "keeps I (settle_upgrade s c u value item price i)"
  unfolding settle_upgrade_def Let_def by (intro keeps_intros; simp)

lemma o_observe_upgrade [keeps_intros]: "keeps I (observe_upgrade s checkout value)"
  unfolding observe_upgrade_def Let_def
  by (intro keeps_intros) (auto intro!: keeps_intros split: list.splits option.splits)

lemma o_record_period [keeps_intros]: "keeps I (record_period checkout value status)"
  unfolding record_period_def by (intro keeps_intros; simp)

lemma o_observe_subscription [keeps_intros]: "keeps I (observe_subscription s checkout sub)"
  unfolding observe_subscription_def by (intro keeps_intros; simp)

lemma o_observe_checkout [keeps_intros]: "keeps I (observe_checkout s checkout value)"
  unfolding observe_checkout_def by (intro keeps_intros; simp)

lemma o_sync_attempt [keeps_intros]: "keeps I (get_session s c session)" "keeps I (sync_attempt s checkout)"
  unfolding get_session_def sync_attempt_def by (intro keeps_intros)+

lemma o_reread [keeps_intros]: "keeps I (reread s checkout type obj)"
  unfolding reread_def by (intro keeps_intros)

lemma o_handle_event [keeps_intros]: "keeps I (handle_event s event False)"
  unfolding handle_event_def Let_def if_False
  by (intro keeps_intros; simp add: constraints_ok_def split: json.splits)
     (auto intro!: keeps_intros simp: constraints_ok_def)

lemma o_reconcile_checkout [keeps_intros]: "keeps I (reconcile_checkout s checkout)"
  unfolding reconcile_checkout_def Let_def by (intro keeps_intros)

subsection \<open>Offers\<close>

lemma o_offers [keeps_intros]:
  "keeps I (checkout_plan s code revision interval subscriber)" "keeps I (serialized_change ch)"
  "keeps I (change_options s user)" "keeps I (require_coverage s c status message)"
  "keeps I (verify_schedulable s c expected_end)" "keeps I (serialized_upgrade u)" "keeps I (preflight s user)"
  "keeps I (find_target user c code revision)" "keeps I (verify_target s u)" "keeps I (owned_upgrade user i)"
  "keeps I (owned_change user i)" "keeps I (load_change i)" "keeps I (confirm_source s c ch)"
  unfolding checkout_plan_def serialized_change_def change_options_def require_coverage_def verify_schedulable_def
    serialized_upgrade_def preflight_def find_target_def verify_target_def owned_upgrade_def owned_change_def
    load_change_def confirm_source_def Let_def
  by (intro keeps_intros)+

end

end
