(* ===== verification/StripeRequests.thy ===== *)
theory StripeRequests
  imports BillingFrames
begin

section \<open>Every request with an idempotency key comes from a saved intent\<close>

text \<open>
  Stripe carries out a request with an idempotency key once and answers a repetition from
  memory, so the program may repeat one after a timeout or a crash, provided that the key
  always stands for the same parameters.  It therefore commits an intent (a checkout, a
  subscription change, an upgrade) with its exact parameters before it sends anything.
  \<open>authorised\<close> says which request an intent allows, \<open>accounted\<close> is the invariant of a session:
  everything sent so far was authorised by what was committed then and still is.
\<close>

definition uuid_limit :: nat where
  "uuid_limit = 2 ^ 128"

definition checkout_key :: "uuid \<Rightarrow> string" where
  "checkout_key i = ''radar-sandbox-checkout-'' @ uuid_text i"

definition expire_key :: "uuid \<Rightarrow> string" where
  "expire_key i = ''radar-checkout-expire-'' @ uuid_text i"

definition schedule_key :: "uuid \<Rightarrow> string \<Rightarrow> string" where
  "schedule_key i step = ''radar-change-'' @ uuid_text i @ ''-'' @ step"

definition upgrade_key :: "uuid \<Rightarrow> string" where
  "upgrade_key i = ''radar-upgrade-'' @ uuid_text i"

inductive authorised :: "intents \<Rightarrow> stripe_call \<Rightarrow> bool" where
  unkeyed: "cl_key c = None \<Longrightarrow> authorised w c"
| checkout: "map_of (fst w) i = Some ps \<Longrightarrow> i < uuid_limit \<Longrightarrow>
    authorised w \<lparr>cl_method = ''POST'', cl_path = ''checkout/sessions'', cl_data = ps, cl_key = Some (checkout_key i)\<rparr>"
| expiry: "map_of (fst w) i = Some ps \<Longrightarrow> i < uuid_limit \<Longrightarrow>
    authorised w \<lparr>cl_method = ''POST'', cl_path = ''checkout/sessions/'' @ k @ ''/expire'', cl_data = [],
      cl_key = Some (expire_key i)\<rparr>"
| creation: "map_of (fst (snd w)) i = Some x \<Longrightarrow> i < uuid_limit \<Longrightarrow>
    authorised w \<lparr>cl_method = ''POST'', cl_path = ''subscription_schedules'', cl_data = [(''from_subscription'', sub)],
      cl_key = Some (schedule_key i ''create'')\<rparr>"
| configuring: "map_of (fst (snd w)) i = Some (Some sid, ps) \<Longrightarrow> sid \<noteq> [] \<Longrightarrow> ps \<noteq> [] \<Longrightarrow> i < uuid_limit \<Longrightarrow>
    authorised w \<lparr>cl_method = ''POST'', cl_path = ''subscription_schedules/'' @ sid, cl_data = ps,
      cl_key = Some (schedule_key i ''configure'')\<rparr>"
| release: "map_of (fst (snd w)) i = Some (Some sid, ps) \<Longrightarrow> sid \<noteq> [] \<Longrightarrow> i < uuid_limit \<Longrightarrow>
    authorised w \<lparr>cl_method = ''POST'', cl_path = ''subscription_schedules/'' @ sid @ ''/release'',
      cl_data = [(''preserve_cancel_date'', ''true'')], cl_key = Some (schedule_key i ''release'')\<rparr>"
| upgrading: "map_of (snd (snd w)) i = Some ps \<Longrightarrow> i < uuid_limit \<Longrightarrow>
    authorised w \<lparr>cl_method = ''POST'', cl_path = ''subscriptions/'' @ sub, cl_data = ps, cl_key = Some (upgrade_key i)\<rparr>"

inductive_cases authorisedE: "authorised w c"

subsection \<open>Intents only grow\<close>

text \<open>Rows are added; the schedule of a change and its parameters are filled in once.\<close>

definition extends :: "intents \<Rightarrow> intents \<Rightarrow> bool" where
  "extends w w' \<longleftrightarrow>
     (\<forall>i ps. map_of (fst w) i = Some ps \<longrightarrow> map_of (fst w') i = Some ps)
     \<and> (\<forall>i sid ps. map_of (fst (snd w)) i = Some (sid, ps) \<longrightarrow>
          (\<exists>sid' ps'. map_of (fst (snd w')) i = Some (sid', ps') \<and> (has_text sid \<longrightarrow> sid' = sid) \<and> (ps \<noteq> [] \<longrightarrow> ps' = ps)))
     \<and> (\<forall>i ps. map_of (snd (snd w)) i = Some ps \<longrightarrow> map_of (snd (snd w')) i = Some ps)"

lemma extends_refl: "extends w w"
  by (auto simp: extends_def)

lemma has_text_Some: "sid \<noteq> [] \<Longrightarrow> has_text (Some sid)"
  by (simp add: has_text_def)

lemma authorised_extends: "authorised w c \<Longrightarrow> extends w w' \<Longrightarrow> authorised w' c"
proof (induction rule: authorised.induct)
  case (configuring w i sid ps)
  then have "map_of (fst (snd w')) i = Some (Some sid, ps)"
    unfolding extends_def by (metis has_text_Some)
  with configuring show ?case by (intro authorised.configuring)
next
  case (release w i sid ps)
  then obtain ps' where "map_of (fst (snd w')) i = Some (Some sid, ps')"
    unfolding extends_def by (metis has_text_Some)
  with release show ?case by (intro authorised.release)
next
  case (creation w i x sub)
  then obtain x' where "map_of (fst (snd w')) i = Some x'"
    unfolding extends_def by (cases x) blast
  with creation show ?case by (intro authorised.creation)
next
  case (unkeyed c w)
  then show ?case by (intro authorised.unkeyed)
next
  case (checkout w i ps)
  then have "map_of (fst w') i = Some ps" by (simp add: extends_def)
  with checkout show ?case by (intro authorised.checkout)
next
  case (expiry w i ps k)
  then have "map_of (fst w') i = Some ps" by (simp add: extends_def)
  with expiry show ?case by (intro authorised.expiry)
next
  case (upgrading w i ps sub)
  then have "map_of (snd (snd w')) i = Some ps" by (simp add: extends_def)
  with upgrading show ?case by (intro authorised.upgrading)
qed

definition small :: "db \<Rightarrow> bool" where
  "small d \<longleftrightarrow> (\<forall>i \<in> co_id ` set (checkouts d) \<union> ch_id ` set (changes d) \<union> up_id ` set (upgrades d). i < uuid_limit)"

definition accounted :: "session \<Rightarrow> bool" where
  "accounted s \<longleftrightarrow> constraints_ok (working s) \<and> constraints_ok (committed s)
     \<and> intents_of (committed s) = intents_of (working s) \<and> small (working s) \<and> (\<forall>k. uuids s k < uuid_limit)
     \<and> (\<forall>(c, d) \<in> set (sent s). authorised (intents_of d) c \<and> authorised (intents_of (working s)) c)"

lemma small_intents: "small d \<longleftrightarrow> (\<forall>i \<in> fst ` set (fst (intents_of d)) \<union> fst ` set (fst (snd (intents_of d)))
    \<union> fst ` set (snd (snd (intents_of d))). i < uuid_limit)"
  by (auto simp: small_def intents_of_def image_image)

lemma small_same: "intents_of d = intents_of d' \<Longrightarrow> small d \<longleftrightarrow> small d'"
  by (simp add: small_intents)

text \<open>The parts of the invariant, and a session with the same ones.\<close>

lemma accountedI:
  assumes "accounted s" and "constraints_ok (working s')" and "constraints_ok (committed s')"
    and "intents_of (working s') = intents_of (working s)" and "intents_of (committed s') = intents_of (working s)"
    and "uuids s' = uuids s" and "sent s' = sent s"
  shows "accounted s'"
  using assms small_same [of "working s'" "working s"] by (simp add: accounted_def)

lemma accountedD:
  "accounted s \<Longrightarrow> constraints_ok (working s)" "accounted s \<Longrightarrow> constraints_ok (committed s)"
  "accounted s \<Longrightarrow> intents_of (committed s) = intents_of (working s)"
  by (simp_all add: accounted_def)

lemma accounted_change:
  assumes "\<And>d. intents_of (f d) = intents_of d" and "\<And>d. constraints_ok d \<Longrightarrow> constraints_ok (f d)"
  shows "keeps accounted (change f)"
  unfolding keeps_def
proof (intro allI impI)
  fix s assume "accounted s"
  then show "accounted (snd (change f s))" by (rule accountedI) (simp_all add: run_simps assms accountedD [OF \<open>accounted s\<close>])
qed

lemma accounted_ask:
  assumes "accounted s" and "authorised (intents_of (working s)) c"
  shows "accounted (snd (ask_stripe c s))"
  using assms by (simp add: accounted_def ask_stripe_def)

lemma accounted_draws: "keeps accounted now" "keeps accounted uuid4" "keeps accounted flush"
  by (auto simp: keeps_def run_simps accounted_def)

lemma accounted_commit [keeps_intros]: "keeps accounted commit"
  unfolding keeps_def
proof (intro allI impI)
  fix s assume s: "accounted s"
  then show "accounted (snd (commit s))"
    by (rule accountedI) (simp_all add: commit_ok accountedD [OF s])
qed

lemma accounted_rollback [keeps_intros]: "keeps accounted rollback"
  unfolding keeps_def
proof (intro allI impI)
  fix s assume s: "accounted s"
  then show "accounted (snd (rollback s))"
    by (rule accountedI) (simp_all add: run_simps accountedD [OF s])
qed

interpretation accounted: observing accounted
proof
  show "keeps accounted (change f)" if "steady f" for f
    using that by (intro accounted_change) (simp_all add: steady_def)
  show "keeps accounted (ask_stripe c)" if "cl_key c = None" for c
    using that unfolding keeps_def by (auto intro!: accounted_ask authorised.unkeyed)
qed (rule accounted_draws)+

subsection \<open>Facts about the saved intents\<close>

definition leads :: "('s \<Rightarrow> bool) \<Rightarrow> ('s, 'a) prog \<Rightarrow> ('s \<Rightarrow> bool) \<Rightarrow> bool" where
  "leads I m J \<longleftrightarrow> (\<forall>s. I s \<longrightarrow> J (snd (m s)))"

lemma leads_keeps: "leads I m I \<longleftrightarrow> keeps I m"
  by (simp add: leads_def keeps_def)

lemma leads_weaken: "leads I m J \<Longrightarrow> (\<And>s. H s \<Longrightarrow> I s) \<Longrightarrow> leads H m J"
  by (simp add: leads_def)

lemma leads_bind:
  "leads I m J \<Longrightarrow> yields I m K \<Longrightarrow> (\<And>v. leads (K v) (f v) J) \<Longrightarrow> leads I (bind m f) J"
  unfolding leads_def yields_def bind_def by (auto split: prod.splits sum.splits)

lemma leads_seq: "leads I m J \<Longrightarrow> keeps J n \<Longrightarrow> leads I (seq m n) J"
  unfolding leads_def keeps_def seq_def bind_def by (auto split: prod.splits sum.splits)

lemma leads_then: "leads I m J \<Longrightarrow> (\<And>v. keeps J (f v)) \<Longrightarrow> leads I (bind m f) J"
  unfolding leads_def keeps_def bind_def by (auto split: prod.splits sum.splits)

lemma leads_catch: "leads I m J \<Longrightarrow> (\<And>e. keeps J (h e)) \<Longrightarrow> leads I (catch m h) J"
  unfolding leads_def keeps_def catch_def by (auto split: prod.splits sum.splits)

lemma leads_if: "(b \<Longrightarrow> leads I m J) \<Longrightarrow> (\<not> b \<Longrightarrow> leads I n J) \<Longrightarrow> leads I (if b then m else n) J"
  by simp

definition having :: "(intents \<Rightarrow> bool) \<Rightarrow> session \<Rightarrow> bool" where
  "having P s \<longleftrightarrow> accounted s \<and> P (intents_of (working s))"

lemma having_accounted: "having P s \<Longrightarrow> accounted s"
  by (simp add: having_def)

lemma having_change:
  "keeps accounted (change f) \<Longrightarrow> (\<And>d. intents_of (f d) = intents_of d) \<Longrightarrow> keeps (having P) (change f)"
  by (auto simp: keeps_def having_def run_simps)

lemma having_post:
  assumes "\<And>w. P w \<Longrightarrow> authorised w \<lparr>cl_method = m, cl_path = p, cl_data = ps, cl_key = k\<rparr>"
  shows "keeps (having P) (request s m p ps k)"
proof -
  have "keeps (having P) (ask_stripe \<lparr>cl_method = m, cl_path = p, cl_data = ps, cl_key = k\<rparr>)"
    unfolding keeps_def
  proof (intro allI impI)
    fix s assume s: "having P s"
    with assms have "accounted (snd (ask_stripe \<lparr>cl_method = m, cl_path = p, cl_data = ps, cl_key = k\<rparr> s))"
      by (intro accounted_ask) (simp_all add: having_def)
    with s show "having P (snd (ask_stripe \<lparr>cl_method = m, cl_path = p, cl_data = ps, cl_key = k\<rparr> s))"
      by (simp add: having_def ask_stripe_def)
  qed
  then show ?thesis unfolding request_def by (intro keeps_intros)
qed

lemma having_commit [keeps_intros]: "keeps (having P) commit"
  using accounted_commit by (auto simp: keeps_def having_def commit_ok accountedD)

interpretation having: observing "having P" for P
proof
  have draw: "keeps (having P) m" if "keeps accounted m" "\<And>s. working (snd (m s)) = working s" for m :: "'a sess"
    using that by (auto simp: keeps_def having_def)
  show "keeps (having P) now" "keeps (having P) uuid4" "keeps (having P) flush"
    by (rule draw; simp add: keeps_intros run_simps)+
  show "keeps (having P) (ask_stripe c)" if "cl_key c = None" for c
    by (rule draw) (use that in \<open>auto intro: accounted.reads simp: ask_stripe_def\<close>)
  show "keeps (having P) (change f)" if "steady f" for f
    using that by (intro having_change accounted.writes) (simp_all add: steady_def)
qed

lemma having_bind:
  "leads (having P) m accounted \<Longrightarrow> yields (having P) m (\<lambda>v. having (Q v))
    \<Longrightarrow> (\<And>v. leads (having (Q v)) (f v) accounted) \<Longrightarrow> leads (having P) (bind m f) accounted"
  by (rule leads_bind)

lemma having_leads: "keeps (having P) m \<Longrightarrow> leads (having P) m accounted"
  by (auto simp: keeps_def leads_def having_def)

lemma having_then:
  "keeps (having P) m \<Longrightarrow> (\<And>v. leads (having P) (f v) accounted) \<Longrightarrow> leads (having P) (bind m f) accounted"
  by (rule having_bind [OF having_leads yields_keeps])

lemma having_seq:
  "keeps (having P) m \<Longrightarrow> leads (having P) n accounted \<Longrightarrow> leads (having P) (seq m n) accounted"
  unfolding seq_def by (rule having_then)

lemma having_learn:
  assumes "keeps (having P) m" and "yields (having P) m (\<lambda>v s. Q v (intents_of (working s)))"
    and "\<And>v. leads (having (\<lambda>w. P w \<and> Q v w)) (f v) accounted"
  shows "leads (having P) (bind m f) accounted"
proof (rule having_bind [OF having_leads [OF assms(1)] _ assms(3)])
  show "yields (having P) m (\<lambda>v. having (\<lambda>w. P w \<and> Q v w))"
    using assms(1,2) unfolding yields_def keeps_def having_def by (metis snd_conv)
qed

lemma having_end: "keeps accounted m \<Longrightarrow> leads (having P) m accounted"
  by (auto simp: keeps_def leads_def having_def)

lemma leads_if_fact:
  assumes "b \<Longrightarrow> leads (having (\<lambda>w. P w \<and> Q w)) m J"
  shows "leads (having (\<lambda>w. P w \<and> b \<and> Q w)) m J"
  using assms by (auto simp: leads_def having_def)

lemma accounted_from: "leads (having (\<lambda>w. True)) m accounted \<Longrightarrow> keeps accounted m"
  by (simp add: leads_def keeps_def having_def)

subsection \<open>Rows and their intents\<close>

lemma map_of_rows: "map_of (map (\<lambda>r. (key r, g r)) rows) k = map_option g (get_row key k rows)"
  by (induction rows) (auto simp: get_row_def)

lemma intents_rows:
  "map_of (fst (intents_of d)) i = map_option co_parameters (get_row co_id i (checkouts d))"
  "map_of (fst (snd (intents_of d))) i
    = map_option (\<lambda>x. (ch_schedule_id x, ch_parameters x)) (get_row ch_id i (changes d))"
  "map_of (snd (snd (intents_of d))) i = map_option up_parameters (get_row up_id i (upgrades d))"
  by (simp_all add: intents_of_def map_of_rows)

lemma small_rows:
  "small d \<Longrightarrow> get_row co_id i (checkouts d) = Some c \<Longrightarrow> i < uuid_limit"
  "small d \<Longrightarrow> get_row ch_id i (changes d) = Some x \<Longrightarrow> i < uuid_limit"
  "small d \<Longrightarrow> get_row up_id i (upgrades d) = Some u \<Longrightarrow> i < uuid_limit"
  by (auto simp: small_def dest!: get_row_Some)

definition checkout_saved :: "Checkout \<Rightarrow> intents \<Rightarrow> bool" where
  "checkout_saved c w \<longleftrightarrow> map_of (fst w) (co_id c) = Some (co_parameters c) \<and> co_id c < uuid_limit"

definition change_saved :: "SubscriptionChange \<Rightarrow> intents \<Rightarrow> bool" where
  "change_saved x w \<longleftrightarrow> map_of (fst (snd w)) (ch_id x) = Some (ch_schedule_id x, ch_parameters x) \<and> ch_id x < uuid_limit"

definition upgrade_saved :: "SubscriptionUpgrade \<Rightarrow> intents \<Rightarrow> bool" where
  "upgrade_saved u w \<longleftrightarrow> map_of (snd (snd w)) (up_id u) = Some (up_parameters u) \<and> up_id u < uuid_limit"

lemma yields_load:
  assumes "\<And>s r. I s \<Longrightarrow> get_row key k (rows (working s)) = Some r \<Longrightarrow> Q r s"
  shows "yields I (load rows key k) Q"
  using assms by (auto simp: yields_def load_def run_simps the_value_ok split: sum.splits prod.splits)

lemma load_saved:
  "yields (having P) (load_checkout i) (\<lambda>c s. (\<lambda>w. co_id c = i \<and> checkout_saved c w) (intents_of (working s)))"
  "yields (having P) (load_change j) (\<lambda>x s. (\<lambda>w. ch_id x = j \<and> change_saved x w) (intents_of (working s)))"
  "yields (having P) (load upgrades up_id k) (\<lambda>u s. (\<lambda>w. up_id u = k \<and> upgrade_saved u w) (intents_of (working s)))"
  unfolding load_checkout_def load_change_def
  by (rule yields_load; frule get_row_Some;
      auto simp: checkout_saved_def change_saved_def upgrade_saved_def intents_rows having_def accounted_def
        dest: small_rows)+

lemma keeps_load [keeps_intros]: "keeps I (load rows key k)" "keeps I (load_checkout i)" "keeps I (load_change j)"
  unfolding load_def load_checkout_def load_change_def by (intro keeps_intros)+

lemma having_load_checkout:
  assumes "\<And>c. co_id c = i \<Longrightarrow> leads (having (\<lambda>w. P w \<and> checkout_saved c w)) (f c) accounted"
  shows "leads (having P) (bind (load_checkout i) f) accounted"
  by (rule having_learn [OF keeps_load(2) load_saved(1)]) (rule leads_if_fact [OF assms])

lemma having_load_change:
  assumes "\<And>x. ch_id x = i \<Longrightarrow> leads (having (\<lambda>w. P w \<and> change_saved x w)) (f x) accounted"
  shows "leads (having P) (bind (load_change i) f) accounted"
  by (rule having_learn [OF keeps_load(3) load_saved(2)]) (rule leads_if_fact [OF assms])

lemma having_load_upgrade:
  assumes "\<And>u. up_id u = i \<Longrightarrow> leads (having (\<lambda>w. P w \<and> upgrade_saved u w)) (f u) accounted"
  shows "leads (having P) (bind (load upgrades up_id i) f) accounted"
  by (rule having_learn [OF keeps_load(1) load_saved(3)]) (rule leads_if_fact [OF assms])

subsection \<open>Checkouts\<close>

text \<open>Publishing new rows or filling in a schedule.\<close>

lemma having_publish:
  assumes "\<And>d. constraints_ok d \<Longrightarrow> constraints_ok (f d)"
    and "\<And>d. small d \<Longrightarrow> P (intents_of d) \<Longrightarrow> small (f d) \<and> extends (intents_of d) (intents_of (f d))"
  shows "leads (having P) (seq (change f) commit) accounted"
  unfolding leads_def
proof (intro allI impI)
  fix s assume s: "having P s"
  let ?s = "s\<lparr>working := f (working s)\<rparr>" and ?w = "working s"
  have ok: "constraints_ok (f ?w)" and more: "small (f ?w)" "extends (intents_of ?w) (intents_of (f ?w))"
    using s assms by (auto simp: having_def accounted_def)
  have "snd (seq (change f) commit s) = ?s\<lparr>committed := f ?w\<rparr>"
    using commit_ok [of ?s] ok by (simp add: step_change)
  then show "accounted (snd (seq (change f) commit s))"
    using s ok more authorised_extends [OF _ more(2)]
    by (auto simp: having_def accounted_def)
qed

lemma seq_assoc: "seq m (seq n k) = seq (seq m n) k"
  by (simp add: seq_def bind_assoc)

section \<open>The billing commands send only what they have saved\<close>

text \<open>
  Every command of the billing services keeps \<open>accounted\<close>: it publishes an intent before the
  request built from it, and fills in the schedule of a change only once.
\<close>

lemmas having_steps = having_then having_seq having_load_checkout having_load_change having_load_upgrade
  leads_if

lemma leads_case_prod: "(\<And>a b. leads I (f a b) J) \<Longrightarrow> leads I (case p of (a, b) \<Rightarrow> f a b) J"
  by (cases p) simp

subsection \<open>Checkouts\<close>

lemma having_create:
  assumes "\<And>w. P w \<Longrightarrow> checkout_saved c w"
  shows "keeps (having P) (create_request s c)"
  unfolding create_request_def
  by (rule having_post, drule assms, unfold checkout_saved_def checkout_key_def [symmetric])
    (blast intro: authorised.checkout)

lemma accounted_session_url [keeps_intros]: "keeps accounted (session_url s i value)"
  unfolding session_url_def by (intro keeps_intros)

lemma accounted_create_session [keeps_intros]: "keeps accounted (create_session s i)"
  unfolding create_session_def
  by (rule accounted_from, intro having_load_checkout having_then having_create)
    (auto intro!: having_end keeps_intros)

lemma accounted_earlier_attempt [keeps_intros]:
  "keeps accounted (earlier_attempt s i code revision interval must)"
  unfolding earlier_attempt_def Let_def by (intro keeps_intros)

lemma step_changes: "seq (change f) (seq (change g) m) = seq (change (\<lambda>d. g (f d))) m"
  by (simp add: run_simps fun_eq_iff)

lemma step_nothing: "seq (ret ()) m = m"
  by (simp add: seq_def)

definition add_checkout :: "Checkout \<Rightarrow> uuid option \<Rightarrow> db \<Rightarrow> db" where
  "add_checkout row source d =
     (let cs = checkouts d @ [row] in d\<lparr>checkouts := (case source of None \<Rightarrow> cs
        | Some k \<Rightarrow> update_where (\<lambda>r. co_id r = k) (\<lambda>r. r\<lparr>co_replacement_intent :=
            map_option (\<lambda>i. i\<lparr>ri_state := ''replaced'', ri_successor_id := Some (uuid_text (co_id row))\<rparr>)
              (co_replacement_intent r)\<rparr>) cs)\<rparr>)"

lemma add_and_link:
  "seq (change (\<lambda>d. d\<lparr>checkouts := checkouts d @ [row]\<rparr>)) (seq (link_successor source (co_id row)) m)
    = seq (change (add_checkout row source)) m"
proof (cases source)
  case None
  moreover have "add_checkout row None = (\<lambda>d. d\<lparr>checkouts := checkouts d @ [row]\<rparr>)"
    by (simp add: fun_eq_iff add_checkout_def)
  ultimately show ?thesis by (simp add: link_successor_def step_nothing)
next
  case (Some k)
  show ?thesis unfolding Some link_successor_def set_checkout_def option.case step_changes
    by (rule arg_cong [where f = "\<lambda>f. seq (change f) m"]) (simp add: fun_eq_iff add_checkout_def)
qed

lemma intents_add_checkout:
  "intents_of (add_checkout row source d) = (fst (intents_of d) @ [(co_id row, co_parameters row)], snd (intents_of d))"
  by (cases source) (simp_all add: add_checkout_def intents_of_def)

lemma extends_append:
  "extends (c, x, u) (c @ c', x, u)" "extends (c, x, u) (c, x @ x', u)" "extends (c, x, u) (c, x, u @ u')"
  by (auto simp: extends_def map_add_Some_iff)

lemma having_add_checkout:
  "leads (having (\<lambda>w. co_id row < uuid_limit)) (seq (change (add_checkout row source)) commit) accounted"
proof (rule having_publish)
  show "constraints_ok d \<Longrightarrow> constraints_ok (add_checkout row source d)" for d
    by (cases source) (simp_all add: add_checkout_def constraints_ok_def)
  show "small (add_checkout row source d) \<and> extends (intents_of d) (intents_of (add_checkout row source d))"
    if "small d" "co_id row < uuid_limit" for d
    using that extends_append(1) [of "fst (intents_of d)" "fst (snd (intents_of d))" "snd (snd (intents_of d))"]
    by (auto simp: small_intents intents_add_checkout)
qed

lemma accounted_new_attempt [keeps_intros]:
  "keeps accounted (new_attempt s user code revision interval subscriber source)"
proof -
  have drawn: "yields (having P) uuid4 (\<lambda>i. having (\<lambda>w. i < uuid_limit))" for P
    by (auto simp: yields_def having_def accounted_def uuid4_def)
  have rest: "leads (having (\<lambda>w. i < uuid_limit))
      (seq (change (\<lambda>d. d\<lparr>checkouts := checkouts d @ [new_checkout i user p interval price ps t]\<rparr>))
        (seq (link_successor source i) (seq commit m))) accounted"
    if "keeps accounted m" for i p price ps t and m :: "string sess"
    using that having_add_checkout [of "new_checkout i user p interval price ps t" source]
      add_and_link [of "new_checkout i user p interval price ps t" source "seq commit m"]
    by (simp add: new_checkout_def seq_assoc leads_seq)
  show ?thesis
    unfolding new_attempt_def Let_def
    by (rule accounted_from, rule having_then, (intro keeps_intros)[1], rule leads_case_prod,
        rule having_bind [OF having_end drawn], (intro keeps_intros)[1])
      (intro having_then keeps_intros rest)
qed

lemma accounted_start_checkout [keeps_intros]:
  "keeps accounted (start_checkout s user code revision interval subscriber expected source)"
proof -
  have "keeps accounted (case a of OpenAt url \<Rightarrow> ret url | Resume i \<Rightarrow> create_session s i
      | Fresh \<Rightarrow> new_attempt s user code revision interval subscriber source)" for a
    by (cases a) (simp_all add: keeps_intros)
  then show ?thesis unfolding start_checkout_def by (intro keeps_intros)
qed

lemma accounted_refresh [keeps_intros]: "keeps accounted (refresh s user)"
  unfolding refresh_def by (intro keeps_intros)

lemma accounted_unkeyed [keeps_intros]: "keeps accounted (request s m p data None)"
  unfolding request_def by (intro keeps_intros accounted.reads) simp

lemma accounted_portal [keeps_intros]: "keeps accounted (portal s user subscriber cancel)"
  unfolding portal_def by (intro keeps_intros)

subsection \<open>Replacement of a checkout\<close>

lemma accounted_block [keeps_intros]:
  "keeps accounted (block_intent i)" "keeps accounted (stop_replacement i message)"
  unfolding stop_replacement_def block_intent_def by (intro keeps_intros; simp)+

lemma accounted_original_session [keeps_intros]: "keeps accounted (original_session s i)"
  unfolding original_session_def
  by (rule accounted_from, intro having_then having_load_checkout leads_if having_create)
    (auto intro!: having_end keeps_intros)

lemma accounted_canonical [keeps_intros]: "keeps accounted (canonical s i)"
  unfolding canonical_def by (intro keeps_intros)

lemma having_expire:
  assumes "\<And>w. P w \<Longrightarrow> checkout_saved c w" and "co_id c = i"
  shows "keeps (having P) (request s ''POST'' (''checkout/sessions/'' @ k @ ''/expire'') [] (Some (''radar-checkout-expire-'' @ uuid_text i)))"
  using assms(2)
  by (intro having_post, drule_tac assms(1), unfold checkout_saved_def expire_key_def [symmetric])
    (blast intro: authorised.expiry)

lemma accounted_expire_session [keeps_intros]: "keeps accounted (expire_session s i)"
  unfolding expire_session_def
  by (rule accounted_from, rule having_load_checkout, rule having_then, (intro keeps_intros having_expire; simp)[1])
    (intro having_end keeps_intros)

lemma accounted_hand_over [keeps_intros]: "keeps accounted (hand_over s user i code revision interval)"
  unfolding hand_over_def by (intro keeps_intros)

lemma accounted_run_replacement [keeps_intros]: "keeps accounted (run_replacement s user i code revision interval)"
  unfolding run_replacement_def release_intent_def Let_def by (intro keeps_intros)

lemma accounted_choose_replacement [keeps_intros]:
  "keeps accounted (choose_replacement s user expected code revision interval)"
  unfolding choose_replacement_def save_replacement_def by (intro keeps_intros; simp)

lemma accounted_replace_checkout [keeps_intros]:
  "keeps accounted (replace_checkout n s user expected code revision interval)"
proof (induction n)
  case (Suc n)
  have "keeps accounted (case r of
      Successor i \<Rightarrow> start_checkout s user code revision interval True (Some i) None
    | Original \<Rightarrow> start_checkout s user code revision interval True (Some expected) None
    | Again \<Rightarrow> replace_checkout n s user expected code revision interval
    | Proceed \<Rightarrow> run_replacement s user expected code revision interval)" for r
    using Suc by (cases r) (simp_all add: keeps_intros)
  then show ?case by (simp add: keeps_intros)
qed (simp add: keeps_intros)

lemma accounted_resume_checkout [keeps_intros]: "keeps accounted (resume_checkout s user expected replacement)"
  unfolding resume_checkout_def by (intro keeps_intros)

end
