(* ===== verification/ClosureFacts.thy ===== *)
theory ClosureFacts
  imports AccountFacts StripeRequests
begin

section \<open>What the account services keep\<close>

text \<open>
  The interpretations: every program of the account services keeps what is true since an earlier
  database.  Requests and the worker write rows whose state they have read before; the locale
  \<open>holding\<close> states what such a program knows of the working copy and of the committed one.
\<close>

subsection \<open>The relation as an invariant\<close>

lemma both_since_change:
  "(\<And>d. accounts_ok d \<Longrightarrow> since d (f d)) \<Longrightarrow> keeps (both (since d0)) (change f)"
  by (rule both_change) (meson since_ok since_trans)

interpretation since: account_invariant "both (since d0)" for d0
proof
  show "keeps (both (since d0)) (change f)"
    if "\<And>d. users (f d) = users d" "\<And>d. closures_of (f d) = closures_of d" for f
    using that by (intro both_since_change since_other) simp_all
  show "keeps (both (since d0)) (change (\<lambda>d. d\<lparr>users := update_where p f (users d)\<rparr>))"
    if "\<And>u. p u \<Longrightarrow> usr_id (f u) = usr_id u" "\<And>u. p u \<Longrightarrow> outlives u (f u)" for p f
    using that by (intro both_since_change since_update_users) simp_all
  show "keeps (both (since d0)) (change (\<lambda>d. d\<lparr>users := users d @ [u]\<rparr>))" for u
    by (intro both_since_change since_new_user)
  show "keeps (both (since d0)) (set_closure i g)"
    if "\<And>c. advances c (g c)" "\<And>c. settled_closure c \<Longrightarrow> settled_closure (g c)" for i g
    unfolding set_closure_def set_closures_def
    using that by (intro both_since_change since_update_closures) (auto simp: accounts_ok_def list_all_iff)
  show "keeps (both (since d0)) (ask_stripe c)" for c by (intro keeps_intros)
qed (intro keeps_intros)+

subsection \<open>Knowing more of the two copies\<close>

definition knowing :: "db \<Rightarrow> (db \<Rightarrow> bool) \<Rightarrow> (db \<Rightarrow> bool) \<Rightarrow> session \<Rightarrow> bool" where
  "knowing d0 C W s \<longleftrightarrow> both (since d0) s \<and> C (committed s) \<and> W (working s)"

locale holding =
  fixes W :: "db \<Rightarrow> bool"
  assumes stable: "users d' = users d \<Longrightarrow> closures_of d' = closures_of d \<Longrightarrow> W d \<Longrightarrow> W d'"
begin

lemma knowing_change:
  assumes "keeps (both (since d0)) (change f)" and "\<And>d. accounts_ok d \<Longrightarrow> W d \<Longrightarrow> W (f d)"
  shows "keeps (knowing d0 C W) (change f)"
  using assms by (auto simp: keeps_def knowing_def both_def change_def modify_def dest: since_ok)

sublocale beside_accounts "knowing d0 C W" for d0 C
proof
  have same: "keeps (knowing d0 C W) m"
    if "keeps (both (since d0)) m" "\<And>s. working (snd (m s)) = working s" "\<And>s. committed (snd (m s)) = committed s"
    for m :: "'a sess"
    using that by (auto simp: keeps_def knowing_def)
  show "keeps (knowing d0 C W) now" "keeps (knowing d0 C W) uuid4" "keeps (knowing d0 C W) flush"
    "keeps (knowing d0 C W) (ask_stripe c)" for c
    by (rule same; simp add: keeps_intros run_simps)+
  show "keeps (knowing d0 C W) (change f)"
    if "\<And>d. users (f d) = users d" "\<And>d. closures_of (f d) = closures_of d" for f
    using that stable by (intro knowing_change since.other) blast+
qed

end

text \<open>Rules for programs that know more on the way than they keep at the end.\<close>

lemma leads_first:
  "keeps I m \<Longrightarrow> (\<And>s. I s \<Longrightarrow> J s) \<Longrightarrow> (\<And>v. leads I (f v) J) \<Longrightarrow> leads I (bind m f) J"
  "keeps I m' \<Longrightarrow> (\<And>s. I s \<Longrightarrow> J s) \<Longrightarrow> leads I n J \<Longrightarrow> leads I (seq m' n) J"
  unfolding leads_def keeps_def seq_def bind_def by (force split: prod.splits sum.splits)+

lemma leads_known:
  "(\<And>v. leads (\<lambda>s. I s \<and> Q v s) (f v) J) \<Longrightarrow> (\<And>s. I s \<Longrightarrow> Q (g (working s)) s) \<Longrightarrow> leads I (bind (query g) f) J"
  unfolding leads_def by (metis step_query)

lemma leads_keeping: "keeps I m \<Longrightarrow> (\<And>s. I s \<Longrightarrow> J s) \<Longrightarrow> leads I m J"
  by (simp add: leads_def keeps_def)

lemma knowing_both: "knowing d0 C W s \<Longrightarrow> both (since d0) s"
  by (simp add: knowing_def)

abbreviation anything :: "db \<Rightarrow> bool" where "anything \<equiv> (\<lambda>d. True)"

subsection \<open>The request of a closure\<close>

definition unclosed :: "uuid \<Rightarrow> db \<Rightarrow> bool" where
  "unclosed i d \<longleftrightarrow> find_user i d \<noteq> None \<and> find_closure i d = None"

definition has_account :: "uuid \<Rightarrow> db \<Rightarrow> bool" where
  "has_account i d \<longleftrightarrow> find_user i d \<noteq> None"

interpretation has_account: holding "has_account i" for i
  by unfold_locales (simp add: has_account_def find_user_def)

interpretation unclosed: holding "unclosed i" for i
  by unfold_locales (simp add: unclosed_def find_user_def find_closure_def closures_of_def)

lemma shut_rows:
  assumes ok: "accounts_ok d" and out: "unclosed i d" and c: "clo_user_id c = i" "settled_closure c"
  shows "since d (on_accounts (\<lambda>a. a\<lparr>account_closures := account_closures a @ [c]\<rparr>)
      (d\<lparr>users := update_where (\<lambda>u. usr_id u = i) (closed_user t) (users d)\<rparr>))" 
proof -
  let ?d = "d\<lparr>users := update_where (\<lambda>u. usr_id u = i) (closed_user t) (users d)\<rparr>"
  have 1: "since d ?d" using ok by (intro since_update_users) (simp_all add: closed_user_def outlives_def)
  from out obtain u where "find_user i d = Some u" by (auto simp: unclosed_def)
  then have "find_user i ?d = Some (closed_user t u)"
    by (auto simp: find_user_def find_user_update closed_user_def dest: get_row_Some)
  then have "\<exists>u. find_user (clo_user_id c) ?d = Some u \<and> is_closing u" using c by (simp add: closed_user_def)
  moreover have "find_closure (clo_user_id c) ?d = None" using out c by (simp add: unclosed_def find_closure_def)
  ultimately have "since ?d (on_accounts (\<lambda>a. a\<lparr>account_closures := account_closures a @ [c]\<rparr>) ?d)"
    using since_ok [OF 1] c by (intro since_new_closure)
  with 1 show ?thesis by (rule since_trans)
qed

lemma shut_account_since:
  assumes "clo_user_id c = i" and "settled_closure c"
  shows "leads (knowing d0 anything (unclosed i)) (shut_account i c t) (both (since d0))"
proof -
  have fuse: "seq (change f) (seq (change g) m) = seq (change (\<lambda>d. g (f d))) m" for f g and m :: "unit sess"
    by (simp add: fun_eq_iff run_simps)
  have "leads (knowing d0 anything (unclosed i))
      (change (\<lambda>d. on_accounts (\<lambda>a. a\<lparr>account_closures := account_closures a @ [c]\<rparr>)
        (d\<lparr>users := update_where (\<lambda>u. usr_id u = i) (closed_user t) (users d)\<rparr>))) (both (since d0))"
    using shut_rows [OF _ _ assms]
    by (auto simp: leads_def knowing_def both_def change_def modify_def intro: since_trans dest: since_ok)
  then have rows: "leads (knowing d0 anything (unclosed i)) (seq (change (\<lambda>d. on_accounts (\<lambda>a. a\<lparr>account_closures := account_closures a @ [c]\<rparr>)
        (d\<lparr>users := update_where (\<lambda>u. usr_id u = i) (closed_user t) (users d)\<rparr>))) m) (both (since d0))"
    if "keeps (both (since d0)) m" for m :: "unit sess" using that by (rule leads_seq)
  moreover have "keeps (both (since d0)) (change (\<lambda>d. d\<lparr>digests := update_where p g (digests d)\<rparr>))" for p g
    by (intro since.other) (simp_all add: closures_of_def)
  ultimately show ?thesis
    unfolding shut_account_def set_user_def fuse by (intro rows keeps_intros)
qed

lemma begin_closure_since:
  "leads (knowing d0 anything (has_account i)) (begin_closure i actor email) (both (since d0))"
proof -
  have new: "clo_user_id (new_closure i a e ms t) = i" "settled_closure (new_closure i a e ms t)" for a e ms t
    by (simp_all add: new_closure_def settled_closure_def)
  have shut: "leads (knowing d0 anything (unclosed i)) (seq (shut_account i (new_closure i actor email ms t) t) m)
      (both (since d0))" if "keeps (both (since d0)) m" for ms t and m :: "AccountClosure sess"
    by (intro leads_seq shut_account_since new that)
  have "leads (knowing d0 anything (unclosed i)) (bind now (\<lambda>t. bind (query (\<lambda>d. contact_messages (account_tables d))) (\<lambda>ms.
      let c = new_closure i actor email ms t in seq (shut_account i c t) (ret c)))) (both (since d0))"
    unfolding Let_def by (intro leads_first shut keeps_intros) (simp_all add: knowing_both)
  then have none: "leads (\<lambda>s. knowing d0 anything (has_account i) s \<and> None = find_closure i (working s))
      (bind now (\<lambda>t. bind (query (\<lambda>d. contact_messages (account_tables d))) (\<lambda>ms.
      let c = new_closure i actor email ms t in seq (shut_account i c t) (ret c)))) (both (since d0))"
    by (elim leads_weaken) (simp add: knowing_def has_account_def unclosed_def)
  show ?thesis
    unfolding begin_closure_def
  proof (rule leads_known [where Q = "\<lambda>v s. v = find_closure i (working s)"])
    fix v show "leads (\<lambda>s. knowing d0 anything (has_account i) s \<and> v = find_closure i (working s))
      (case v of None \<Rightarrow> bind now (\<lambda>t. bind (query (\<lambda>d. contact_messages (account_tables d))) (\<lambda>ms.
        let c = new_closure i actor email ms t in seq (shut_account i c t) (ret c))) | Some c \<Rightarrow> ret c) (both (since d0))"
      using none by (cases v) (auto intro!: leads_keeping simp: knowing_both leads_def ret_def)
  qed simp
qed

lemma close_target_since:
  "leads (knowing d0 anything (has_account i)) (close_target k i actor secret u) (both (since d0))"
proof -
  have "keeps (knowing d0 anything (has_account i)) (authorised_actor k actor secret)"
    unfolding authorised_actor_def by (intro keeps_intros)
  then show ?thesis
    unfolding close_target_def by (intro leads_first begin_closure_since keeps_intros) (simp_all add: knowing_both)
qed

lemma request_closure_since: "keeps (both (since d0)) (request_closure k i actor secret)"
proof -
  have "leads (\<lambda>s. both (since d0) s \<and> v = find_user i (working s))
      (case v of None \<Rightarrow> raise (HttpError 404) ''Account not found.'' | Some u \<Rightarrow> close_target k i actor secret u)
      (both (since d0))" for v
    using close_target_since
    by (cases v) (simp_all add: leads_def knowing_def has_account_def raise_def, metis option.distinct(1))
  then show ?thesis
    unfolding request_closure_def leads_keeps [symmetric]
    by (intro leads_first leads_known [where Q = "\<lambda>v s. v = find_user i (working s)"] keeps_intros)
       (auto intro: leads_weaken)
qed

subsection \<open>A closure that is being worked on\<close>

definition working_on :: "uuid \<Rightarrow> (AccountClosure \<Rightarrow> bool) \<Rightarrow> db \<Rightarrow> bool" where
  "working_on i R d \<longleftrightarrow> (\<exists>c u. find_closure i d = Some c \<and> clo_state c \<noteq> ClosureCompleted \<and> R c
     \<and> find_user i d = Some u \<and> is_closing u)"

abbreviation any_row :: "AccountClosure \<Rightarrow> bool" where "any_row \<equiv> (\<lambda>c. True)"

interpretation working_on: holding "working_on i R" for i R
  by unfold_locales (simp add: working_on_def find_user_def find_closure_def closures_of_def)

interpretation anything: holding anything
  by unfold_locales simp

lemma working_onI:
  assumes "accounts_ok d" and "find_closure i d = Some c" and "clo_state c \<noteq> ClosureCompleted" and "R c"
  shows "working_on i R d"
proof -
  from assms(2) have "c \<in> set (closures_of d)" "clo_user_id c = i"
    by (auto simp: find_closure_def closures_of_def dest: get_row_Some)
  with assms show ?thesis by (auto simp: working_on_def accounts_ok_def)
qed

lemma since_known_closure:
  assumes ok: "accounts_ok d" and c: "find_closure i d = Some c"
    and f: "advances c (f c)" "settled_closure (f c)"
  shows "since d (on_accounts (\<lambda>a. a\<lparr>account_closures := update_where (\<lambda>c. clo_user_id c = i) f (account_closures a)\<rparr>) d)"
proof (rule since_update_closures [OF ok])
  fix x assume x: "x \<in> set (closures_of d)" "clo_user_id x = i"
  from ok have "distinct (map clo_user_id (closures_of d))" by (simp add: accounts_ok_def)
  from get_row_distinct [OF this x(1)] x c have "x = c" by (simp add: find_closure_def closures_of_def)
  with f show "advances x (f x) \<and> settled_closure (f x)" by simp
qed

lemma leads_closure_write:
  assumes "\<And>c. clo_state c \<noteq> ClosureCompleted \<Longrightarrow> R c \<Longrightarrow> advances c (f c) \<and> settled_closure (f c)"
    and "\<And>d. accounts_ok d \<Longrightarrow> working_on i R d \<Longrightarrow>
      W (on_accounts (\<lambda>a. a\<lparr>account_closures := update_where (\<lambda>c. clo_user_id c = i) f (account_closures a)\<rparr>) d)"
  shows "leads (knowing d0 C (working_on i R)) (set_closure i f) (knowing d0 C W)"
  unfolding leads_def
proof (intro allI impI)
  fix s assume s: "knowing d0 C (working_on i R) s"
  then have ok: "since d0 (working s)" "accounts_ok (working s)" and w: "working_on i R (working s)"
    by (auto simp: knowing_def both_def dest: since_ok)
  from w obtain c where c: "find_closure i (working s) = Some c" "clo_state c \<noteq> ClosureCompleted" "R c"
    by (auto simp: working_on_def)
  from since_known_closure [OF ok(2) c(1)] assms(1) [OF c(2) c(3)] ok(1) since_trans
  have "since d0 (on_accounts (\<lambda>a. a\<lparr>account_closures := update_where (\<lambda>c. clo_user_id c = i) f (account_closures a)\<rparr>) (working s))"
    by blast
  with s assms(2) [OF ok(2) w] show "knowing d0 C W (snd (set_closure i f s))"
    by (simp add: set_closure_def set_closures_def knowing_def both_def run_simps)
qed

lemma get_row_update_found:
  "get_row key k xs = Some c \<Longrightarrow> key (f c) = k \<Longrightarrow> get_row key k (update_where (\<lambda>x. key x = k) f xs) = Some (f c)"
  by (induction xs) (auto simp: get_row_def update_where_def split: if_splits)

lemma leads_on_it:
  assumes "\<And>c. clo_state c \<noteq> ClosureCompleted \<Longrightarrow> R c \<Longrightarrow> advances c (f c) \<and> clo_state (f c) \<noteq> ClosureCompleted \<and> R' (f c)"
  shows "leads (knowing d0 C (working_on i R)) (set_closure i f) (knowing d0 C (working_on i R'))"
proof (rule leads_closure_write)
  fix c assume "clo_state c \<noteq> ClosureCompleted" "R c"
  with assms [OF this] show "advances c (f c) \<and> settled_closure (f c)" by (simp add: settled_closure_def)
next
  fix d assume "working_on i R d"
  then obtain c u where c: "find_closure i d = Some c" "clo_state c \<noteq> ClosureCompleted" "R c"
    and u: "find_user i d = Some u" "is_closing u" by (auto simp: working_on_def)
  let ?d = "on_accounts (\<lambda>a. a\<lparr>account_closures := update_where (\<lambda>c. clo_user_id c = i) f (account_closures a)\<rparr>) d"
  from c have id: "clo_user_id c = i" by (auto simp: find_closure_def dest: get_row_Some)
  have "find_closure i ?d = Some (f c)"
    using c(1) assms [OF c(2) c(3)] id
    by (simp add: find_closure_def on_accounts_def get_row_update_found advances_def)
  with c u assms [OF c(2) c(3)] show "working_on i R' ?d"
    by (auto simp: working_on_def find_user_def on_accounts_def)
qed

lemma keeps_on_it:
  assumes "\<And>c. clo_state c \<noteq> ClosureCompleted \<Longrightarrow> R c \<Longrightarrow> advances c (f c) \<and> clo_state (f c) \<noteq> ClosureCompleted \<and> R (f c)"
  shows "keeps (knowing d0 C (working_on i R)) (set_closure i f)"
  by (simp only: leads_keeps [symmetric]) (rule leads_on_it, rule assms)

lemma on_it_nested: assumes "keeps (knowing d0 C W) m" shows "keeps (knowing d0 C W) (nested m)"
proof (rule keepsI)
  fix s r s' assume s: "knowing d0 C W s" and run: "nested m s = (r, s')"
  from assms s have m: "knowing d0 C W (snd (m s))" by (rule keepsD')
  with s run show "knowing d0 C W s'"
    by (cases "m s") (auto simp: nested_def seq_def bind_def flush_def raise_def ret_def knowing_def both_def
        split: if_splits sum.splits)
qed

lemma on_it_tombstone: "keeps (knowing d0 C (working_on i R)) (set_user i (tombstone h))"
  unfolding keeps_def
proof (intro allI impI)
  fix s assume s: "knowing d0 C (working_on i R) s"
  then have ok: "since d0 (working s)" "accounts_ok (working s)" and w: "working_on i R (working s)"
    by (auto simp: knowing_def both_def dest: since_ok)
  let ?d = "(working s)\<lparr>users := update_where (\<lambda>u. usr_id u = i) (tombstone h) (users (working s))\<rparr>"
  from w obtain c u where c: "find_closure i (working s) = Some c" "clo_state c \<noteq> ClosureCompleted" "R c"
    and u: "find_user i (working s) = Some u" "is_closing u" by (auto simp: working_on_def)
  have "since (working s) ?d"
  proof (rule since_update_users [OF ok(2)])
    fix j v assume "find_user j (working s) = Some v" "usr_id v = i"
    then have "find_user i (working s) = Some v" by (auto simp: find_user_def dest: get_row_Some)
    with u have "v = u" by simp
    with u show "outlives v (tombstone h v)" by (simp add: outlives_def tombstone_def)
  qed (simp add: tombstone_def)
  with ok(1) have "since d0 ?d" by (rule since_trans)
  moreover have "find_user i ?d = Some (tombstone h u)"
  proof -
    from u have "usr_id u = i" by (auto simp: find_user_def dest: get_row_Some)
    with u get_row_update_found [of usr_id i "users (working s)" u "tombstone h"] show ?thesis
      by (simp add: find_user_def tombstone_def)
  qed
  moreover have "find_closure i ?d = Some c" using c by (simp add: find_closure_def)
  moreover have "is_closing (tombstone h u)" using u by (simp add: tombstone_def)
  ultimately have "since d0 ?d \<and> working_on i R ?d" using c unfolding working_on_def by blast
  then show "knowing d0 C (working_on i R) (snd (set_user i (tombstone h) s))"
    using s by (simp add: set_user_def knowing_def both_def run_simps)
qed

lemma keeps_erase:
  "(\<And>c t. R c \<Longrightarrow> R (c\<lparr>clo_data_removed_at := Some t\<rparr>)) \<Longrightarrow>
    keeps (knowing d0 C (working_on i R)) (erase_personal_data k h others i)"
  by (intro working_on.q_erase on_it_tombstone keeps_on_it) (auto simp: advances_def)

text \<open>What holds when a program returns, and when it raises.\<close>

definition outcome :: "(session \<Rightarrow> bool) \<Rightarrow> 'a sess \<Rightarrow> (session \<Rightarrow> bool) \<Rightarrow> (session \<Rightarrow> bool) \<Rightarrow> bool" where
  "outcome I m N E \<longleftrightarrow> (\<forall>s. I s \<longrightarrow> (case m s of (Inl e, s') \<Rightarrow> E s' | (Inr v, s') \<Rightarrow> N s'))"

lemma outcome_leads: "leads I m J \<Longrightarrow> (\<And>s. J s \<Longrightarrow> E s) \<Longrightarrow> outcome I m J E"
  unfolding outcome_def leads_def by (auto split: prod.splits sum.splits)

lemma outcome_keeps: "keeps I m \<Longrightarrow> (\<And>s. I s \<Longrightarrow> E s) \<Longrightarrow> outcome I m I E"
  by (simp add: outcome_leads leads_keeps)

lemma outcome_bind: "outcome I m J E \<Longrightarrow> (\<And>v. outcome J (f v) N E) \<Longrightarrow> outcome I (bind m f) N E"
  unfolding outcome_def bind_def by (fastforce split: prod.splits sum.splits)

lemma outcome_seq: "outcome I m J E \<Longrightarrow> outcome J n N E \<Longrightarrow> outcome I (seq m n) N E"
  unfolding seq_def by (rule outcome_bind)

lemma outcome_weaken: "outcome J m N E \<Longrightarrow> (\<And>s. I s \<Longrightarrow> J s) \<Longrightarrow> outcome I m N E"
  by (simp add: outcome_def)

lemma outcome_known:
  "(\<And>v. outcome (\<lambda>s. I s \<and> g (working s) = v) (f v) N E) \<Longrightarrow> outcome I (bind (query g) f) N E"
  unfolding outcome_def by (simp add: step_query)

lemma outcome_if: "(b \<Longrightarrow> outcome I m N E) \<Longrightarrow> (\<not> b \<Longrightarrow> outcome I n N E) \<Longrightarrow> outcome I (if b then m else n) N E"
  by simp

subsection \<open>A turn of the worker\<close>

abbreviation at_work :: "db \<Rightarrow> uuid \<Rightarrow> (AccountClosure \<Rightarrow> bool) \<Rightarrow> session \<Rightarrow> bool" where
  "at_work d0 i R \<equiv> knowing d0 (working_on i any_row) (working_on i R)"

text \<open>What a failed turn is started over from.\<close>

definition ground :: "db \<Rightarrow> uuid \<Rightarrow> session \<Rightarrow> bool" where
  "ground d0 i s \<longleftrightarrow> since d0 (committed s) \<and> working_on i any_row (committed s)"

lemma at_ground: "knowing d0 (working_on i any_row) W s \<Longrightarrow> ground d0 i s"
  by (simp add: knowing_def both_def ground_def)

lemma work_keeps: "keeps (knowing d0 (working_on i any_row) W) m \<Longrightarrow>
    outcome (knowing d0 (working_on i any_row) W) m (knowing d0 (working_on i any_row) W) (ground d0 i)"
  by (rule outcome_keeps) (simp_all add: at_ground)

lemma work_leads: "leads (knowing d0 (working_on i any_row) W) m (knowing d0 (working_on i any_row) W') \<Longrightarrow>
    outcome (knowing d0 (working_on i any_row) W) m (knowing d0 (working_on i any_row) W') (ground d0 i)"
  by (rule outcome_leads) (simp_all add: at_ground)

lemma outcome_commit: "outcome (knowing d0 (working_on i any_row) W) commit (both (since d0)) (ground d0 i)"
  by (simp add: outcome_def knowing_def both_def ground_def run_simps split: if_splits)

definition resolved :: "AccountClosure \<Rightarrow> bool" where
  "resolved c \<longleftrightarrow> clo_billing_resolved_at c \<noteq> None"

definition cleared :: "AccountClosure \<Rightarrow> bool" where
  "cleared c \<longleftrightarrow> clo_billing_resolved_at c \<noteq> None \<and> clo_data_removed_at c \<noteq> None"

lemmas row_defs' = advances_def resolved_def cleared_def

lemma outcome_require:
  assumes "\<And>c. outcome (\<lambda>s. I s \<and> find_closure i (working s) = Some c) (f c) N E" and "\<And>s. I s \<Longrightarrow> E s"
  shows "outcome I (bind (require_closure i) f) N E"
  unfolding require_closure_def bind_assoc
proof (rule outcome_known)
  fix v show "outcome (\<lambda>s. I s \<and> find_closure i (working s) = v)
      (bind (case v of None \<Rightarrow> raise (HttpError 404) ''No account closure was requested.'' | Some c \<Rightarrow> ret c) f) N E"
    using assms by (cases v) (auto simp: outcome_def raise_def)
qed

lemma record_issues_work: "keeps (at_work d0 i any_row) (record_issues i issues)"
  unfolding record_issues_def by (intro keeps_intros keeps_on_it) (simp_all add: advances_def)

lemma record_none:
  "outcome (at_work d0 i any_row) (record_issues i []) (at_work d0 i resolved) (ground d0 i)"
proof -
  have "outcome (\<lambda>s. at_work d0 i any_row s \<and> find_closure i (working s) = Some c)
      (if clo_billing_resolved_at c \<noteq> None then ret () else bind now (\<lambda>t. set_closure i (\<lambda>c. c\<lparr>clo_billing_resolved_at := Some t\<rparr>)))
      (at_work d0 i resolved) (ground d0 i)" for c
  proof (cases "clo_billing_resolved_at c = None")
    case True
    have "outcome (at_work d0 i any_row) (bind now (\<lambda>t. set_closure i (\<lambda>c. c\<lparr>clo_billing_resolved_at := Some t\<rparr>)))
        (at_work d0 i resolved) (ground d0 i)"
      by (intro outcome_bind [OF work_keeps] work_leads leads_on_it keeps_intros)
         (simp_all add: row_defs')
    then have "outcome (\<lambda>s. at_work d0 i any_row s \<and> find_closure i (working s) = Some c)
        (bind now (\<lambda>t. set_closure i (\<lambda>c. c\<lparr>clo_billing_resolved_at := Some t\<rparr>))) (at_work d0 i resolved) (ground d0 i)"
      by (rule outcome_weaken) simp
    with True show ?thesis by simp
  next
    case False
    then show ?thesis by (auto simp: outcome_def ret_def knowing_def working_on_def resolved_def)
  qed
  then show ?thesis
    unfolding record_issues_def
    by (intro outcome_seq [OF work_keeps] keeps_on_it) (auto simp: advances_def at_ground intro!: outcome_require)
qed

lemma finish_work: "outcome (at_work d0 i cleared) (seq (finish_closure i) commit) (both (since d0)) (ground d0 i)"
proof -
  have drop: "keeps (at_work d0 i cleared) (change (drop_checkouts i))"
    by (intro working_on.other) (simp_all add: drop_checkouts_def closures_of_def Let_def)
  have fin: "leads (at_work d0 i cleared) (set_closure i (completed_closure t)) (knowing d0 (working_on i any_row) anything)" for t
    by (rule leads_closure_write) (simp_all add: advances_def settled_closure_def cleared_def completed_closure_def)
  have tell: "keeps (knowing d0 (working_on i any_row) anything) (set_closure i (announce t))" for t
  proof -
    have "keeps (both (since d0)) (set_closure i (announce t))"
      by (rule since.closure_write) (simp_all add: announce_def advances_def settled_closure_def)
    then show ?thesis
      unfolding set_closure_def set_closures_def by (rule anything.knowing_change) simp
  qed
  let ?tell = "bind (require_closure i) (\<lambda>c. if header_set (clo_notification_email c)
     then bind now (\<lambda>t. set_closure i (announce t)) else ret ())"
  have "keeps (knowing d0 (working_on i any_row) anything) ?tell" by (intro keeps_intros tell)
  from work_keeps [OF this]
  have "outcome (at_work d0 i cleared) (seq (set_closure i (completed_closure t)) ?tell)
      (knowing d0 (working_on i any_row) anything) (ground d0 i)" for t
    by (rule outcome_seq [OF work_leads [OF fin]])
  then have turn: "outcome (at_work d0 i cleared) (bind now (\<lambda>t. seq (set_closure i (completed_closure t)) ?tell))
      (knowing d0 (working_on i any_row) anything) (ground d0 i)"
    by (rule outcome_bind [OF work_keeps [OF working_on.q_basic(1)]])
  show ?thesis
    unfolding finish_closure_def by (intro outcome_seq [OF outcome_seq [OF work_keeps [OF drop] turn] outcome_commit])
qed

lemma erase_work:
  assumes "\<And>c t. R c \<Longrightarrow> R (c\<lparr>clo_data_removed_at := Some t\<rparr>)"
    and "\<And>c t. R c \<Longrightarrow> R' (c\<lparr>clo_data_removed_at := Some t\<rparr>)"
  shows "outcome (at_work d0 i R) (erase_personal_data k h others i) (at_work d0 i R') (ground d0 i)"
proof -
  have rest: "outcome (at_work d0 i R) (seq (set_closure i (\<lambda>c. c\<lparr>clo_data_removed_at := Some t\<rparr>)) flush)
      (at_work d0 i R') (ground d0 i)" for t
  proof -
    have "leads (at_work d0 i R) (set_closure i (\<lambda>c. c\<lparr>clo_data_removed_at := Some t\<rparr>)) (at_work d0 i R')"
      by (rule leads_on_it) (use assms(2) in \<open>simp add: advances_def\<close>)
    then show ?thesis
      by (rule outcome_seq [OF work_leads work_keeps [OF working_on.q_basic(3)]])
  qed
  have checkouts: "keeps (at_work d0 i R) (change (\<lambda>d. d\<lparr>checkouts := update_where p f (checkouts d)\<rparr>))" for p f
    by (intro working_on.other) (simp_all add: closures_of_def)
  show ?thesis
    unfolding erase_personal_data_def
    by (intro rest outcome_bind [OF work_keeps] outcome_seq [OF work_keeps] checkouts on_it_tombstone keeps_intros)
qed

lemma conclude_work:
  assumes "issues \<noteq> [] \<Longrightarrow> R = any_row" and "issues = [] \<Longrightarrow> R = resolved"
  shows "outcome (at_work d0 i R) (conclude_closure k h others i issues) (both (since d0)) (ground d0 i)"
proof -
  have same: "R (f c) = R c" if "clo_billing_resolved_at (f c) = clo_billing_resolved_at c" for f c
    using assms that by (cases "issues = []") (simp_all add: resolved_def)
  have wait: "outcome (at_work d0 i R) (bind now (\<lambda>t. seq (set_closure i (put_off t)) commit)) (both (since d0)) (ground d0 i)"
    by (intro outcome_bind [OF work_keeps] outcome_seq [OF work_keeps] outcome_commit keeps_on_it keeps_intros;
        simp add: at_ground advances_def put_off_def same)
  define R' where "R' = (if issues = [] then cleared else any_row)"
  have last: "outcome (at_work d0 i R') (seq (if issues \<noteq> [] then set_closure i (needs_review msg_resolve) else finish_closure i) commit)
      (both (since d0)) (ground d0 i)"
  proof (cases "issues = []")
    case True
    then show ?thesis using finish_work by (simp add: R'_def)
  next
    case False
    have "keeps (at_work d0 i any_row) (set_closure i (needs_review msg_resolve))"
      by (rule keeps_on_it) (simp add: advances_def needs_review_def)
    with False show ?thesis
      by (auto simp: R'_def intro!: outcome_seq [OF work_keeps outcome_commit])
  qed
  have erase: "outcome (\<lambda>s. at_work d0 i R s \<and> find_closure i (working s) = Some c)
      (if clo_data_removed_at c = None then erase_personal_data k h others i else ret ()) (at_work d0 i R') (ground d0 i)" for c
  proof (cases "clo_data_removed_at c = None")
    case True
    have "outcome (at_work d0 i R) (erase_personal_data k h others i) (at_work d0 i R') (ground d0 i)"
      by (rule erase_work) (use assms in \<open>cases "issues = []"; simp add: R'_def resolved_def cleared_def\<close>)+
    with True show ?thesis by (auto elim: outcome_weaken)
  next
    case False
    with assms show ?thesis
      by (auto simp: outcome_def ret_def knowing_def working_on_def R'_def resolved_def cleared_def)
  qed
  have go_on: "outcome (at_work d0 i R) (bind (require_closure i) (\<lambda>c.
       seq (if clo_data_removed_at c = None then erase_personal_data k h others i else ret ())
      (seq (if issues \<noteq> [] then set_closure i (needs_review msg_resolve) else finish_closure i) commit)))
      (both (since d0)) (ground d0 i)"
    by (rule outcome_require) (rule outcome_seq [OF erase last], rule at_ground)
  show ?thesis
    unfolding conclude_closure_def
    by (rule outcome_bind [OF work_keeps [OF working_on.q_closure_reads(2)]], rule outcome_if; rule wait go_on)
qed

lemma settle_work: "outcome (at_work d0 i any_row) (settle_closure k h others s i) (both (since d0)) (ground d0 i)"
proof -
  have "outcome (at_work d0 i any_row) (seq (record_issues i issues) (conclude_closure k h others i issues))
      (both (since d0)) (ground d0 i)" for issues
  proof (cases "issues = []")
    case True
    then show ?thesis
      by (simp only:) (intro outcome_seq [OF record_none] conclude_work; simp)
  next
    case False
    then show ?thesis
      by (intro outcome_seq [OF work_keeps [OF record_issues_work]] conclude_work) simp_all
  qed
  then show ?thesis
    unfolding settle_closure_def Let_def
    by (intro outcome_bind [OF work_keeps] keeps_intros)
qed

lemma retry_later_work: "leads (ground d0 i) (retry_later i) (both (since d0))"
proof -
  have undo: "leads (ground d0 i) rollback (at_work d0 i any_row)"
    by (simp add: leads_def ground_def knowing_def both_def run_simps)
  have later: "keeps (at_work d0 i any_row) (set_closure i (billing_retry t))" for t
    by (rule keeps_on_it) (simp add: advances_def billing_retry_def Let_def)
  have "keeps (at_work d0 i any_row) commit"
    by (auto simp: keeps_def knowing_def both_def working_on_def run_simps)
  with later have "keeps (at_work d0 i any_row) (seq (lock_billing i True) (bind (query (find_closure i)) (\<lambda>found.
     bind (lift_result (the_value AttributeErrorPy found)) (\<lambda>c.
     seq (if clo_attempts c \<ge> 8 then set_closure i (billing_retry (clo_requested_at c))
          else bind now (\<lambda>t. set_closure i (billing_retry t))) commit))))"
    by (intro keeps_intros)
  from leads_seq [OF undo this] show ?thesis
    unfolding retry_later_def by (simp add: leads_def knowing_def)
qed

lemma catch_work:
  "outcome I m N E \<Longrightarrow> (\<And>e. leads E (h e) J) \<Longrightarrow> (\<And>s. N s \<Longrightarrow> J s) \<Longrightarrow> leads I (catch m h) J"
  unfolding outcome_def leads_def catch_def by (fastforce split: prod.splits sum.splits)

lemma work_closure_since: "leads (at_work d0 i any_row) (work_closure k h others s i) (both (since d0))"
proof -
  have "leads (at_work d0 i any_row) (catch (settle_closure k h others s i) (\<lambda>e. retry_later i)) (both (since d0))"
    by (rule catch_work [OF settle_work retry_later_work])
  then have tail: "leads (at_work d0 i any_row) (seq (catch (settle_closure k h others s i) (\<lambda>e. retry_later i)) (ret True))
      (both (since d0))"
    by (rule leads_seq) (rule keeps_ret)
  show ?thesis
    unfolding work_closure_def
    by (intro leads_first leads_if tail knowing_both leads_keeping keeps_intros) auto
qed

lemma leads_case_option:
  "leads I m J \<Longrightarrow> (\<And>v. leads I (f v) J) \<Longrightarrow> leads I (case x of None \<Rightarrow> m | Some v \<Rightarrow> f v) J"
  by (cases x) simp_all

lemma leads_commit:
  assumes "leads (knowing d0 W W) m (both (since d0))"
  shows "leads (knowing d0 C W) (seq commit m) (both (since d0))"
  using assms by (auto simp: leads_def seq_def bind_def commit_def flush_def modify_def raise_def ret_def knowing_def both_def)

lemma early_erasure_work:
  "keeps (knowing d0 anything (working_on i any_row)) (early_erasure k h others i c)"
proof -
  have commit: "keeps (knowing d0 anything (working_on i any_row)) commit"
    by (auto simp: keeps_def knowing_def both_def run_simps)
  have "keeps (knowing d0 anything (working_on i any_row)) (erase_personal_data k h others i)"
    by (rule keeps_erase)
  then show ?thesis
    unfolding early_erasure_def
    by (intro keeps_intros on_it_nested keeps_on_it commit) (simp_all add: advances_def needs_review_def)
qed

lemma due_closure_work:
  assumes "accounts_ok d" and "due_closure t d = Some c"
  shows "working_on (clo_user_id c) any_row d"
proof -
  from assms(2) have c: "c \<in> set (closures_of d)" "closure_due t c"
    by (auto simp: due_closure_def closures_of_def dest: first_by_Some(1))
  from assms(1) have "distinct (map clo_user_id (closures_of d))" by (simp add: accounts_ok_def)
  from get_row_distinct [OF this c(1)] have "find_closure (clo_user_id c) d = Some c"
    by (simp add: find_closure_def closures_of_def)
  with assms(1) c(2) show ?thesis by (intro working_onI) (auto simp: closure_due_def)
qed

lemma process_one_since: "keeps (both (since d0)) (process_one k h others s)"
proof -
  have rows: "keeps (knowing d0 anything (working_on i any_row)) (set_closure i (\<lambda>c. c\<lparr>clo_attempts := Suc (clo_attempts c)\<rparr>))"
    "keeps (knowing d0 anything (working_on i any_row)) (set_closure i (refresh_contacts ms))" for i ms
    by (rule keeps_on_it; simp add: advances_def refresh_contacts_def)+
  have finish: "leads (knowing d0 anything (working_on i any_row))
      (if \<not> go_on then ret True else seq commit (work_closure k h others s i)) (both (since d0))" for i go_on
    by (intro leads_if leads_commit work_closure_since leads_keeping keeps_intros knowing_both)
  have body: "leads (\<lambda>s. both (since d0) s \<and> due_closure t (working s) = Some c) (m c) (both (since d0))"
    if "leads (knowing d0 anything (working_on (clo_user_id c) any_row)) (m c) (both (since d0))" for t c and m :: "AccountClosure \<Rightarrow> bool sess"
    using that by (rule leads_weaken) (auto simp: knowing_def both_def dest: since_ok intro: due_closure_work)
  have none: "leads (\<lambda>s. both (since d0) s \<and> due_closure t (working s) = None) (ret v) (both (since d0))" for t and v :: bool
    by (simp add: leads_def ret_def)
  have split: "leads (\<lambda>s. both (since d0) s \<and> v = due_closure t (working s)) (case v of None \<Rightarrow> ret False | Some c \<Rightarrow> m c) (both (since d0))"
    if "\<And>c. leads (knowing d0 anything (working_on (clo_user_id c) any_row)) (m c) (both (since d0))" for v t m
  proof (cases v)
    case None
    then show ?thesis using none [of t False] by (simp add: eq_commute)
  next
    case (Some c)
    have "leads (\<lambda>s. both (since d0) s \<and> due_closure t (working s) = Some c) (m c) (both (since d0))"
      by (rule body) (rule that)
    with Some show ?thesis by (simp add: eq_commute)
  qed
  have start: "keeps (both (since d0)) (bind now (\<lambda>t. bind (query (due_closure t)) (\<lambda>due. case due of None \<Rightarrow> ret False | Some c \<Rightarrow> m c)))"
    if "\<And>c. leads (knowing d0 anything (working_on (clo_user_id c) any_row)) (m c) (both (since d0))" for m :: "AccountClosure \<Rightarrow> bool sess"
  proof -
    have look: "leads (both (since d0)) (bind (query (due_closure t)) (\<lambda>due. case due of None \<Rightarrow> ret False | Some c \<Rightarrow> m c)) (both (since d0))" for t
      by (rule leads_known [where Q = "\<lambda>v s. v = due_closure t (working s)"]) (rule split [OF that], rule refl)
    show ?thesis
      unfolding leads_keeps [symmetric] by (rule leads_first(1) [OF since.q_basic(1) _ look])
  qed
  show ?thesis
    unfolding process_one_def Let_def
    by (rule since.a_with_session, rule start)
       (intro finish leads_first knowing_both early_erasure_work rows leads_case_option leads_keeping working_on.q_basic
         working_on.q_locks working_on.q_query working_on.q_closure_reads working_on.q_reads keeps_ret, auto)
qed

subsection \<open>The remaining requests\<close>

lemma retry_closure_since [keeps_intros]: "keeps (both (since d0)) (retry_closure i)"
proof -
  have again: "leads (\<lambda>s. both (since d0) s \<and> v = find_closure i (working s))
      (bind (case v of None \<Rightarrow> raise (HttpError 404) ''No account closure was requested.'' | Some c \<Rightarrow> ret c)
        (\<lambda>c. seq (if clo_state c = ClosureCompleted then ret () else bind now (\<lambda>t. set_closure i (retried_closure t))) commit))
      (both (since d0))" for v
  proof (cases "\<exists>c. v = Some c \<and> clo_state c \<noteq> ClosureCompleted")
    case True
    then obtain c where c: "v = Some c" "clo_state c \<noteq> ClosureCompleted" by auto
    have "keeps (knowing d0 anything (working_on i any_row)) (set_closure i (retried_closure t))" for t
      by (rule keeps_on_it) (simp add: advances_def retried_closure_def)
    then have "keeps (knowing d0 anything (working_on i any_row)) (bind now (\<lambda>t. set_closure i (retried_closure t)))"
      by (intro keeps_intros)
    then have "leads (knowing d0 anything (working_on i any_row)) (seq (bind now (\<lambda>t. set_closure i (retried_closure t))) commit)
        (both (since d0))"
      by (intro leads_seq since.ends leads_keeping) (auto simp: knowing_def)
    then have "leads (\<lambda>s. both (since d0) s \<and> v = find_closure i (working s))
        (seq (bind now (\<lambda>t. set_closure i (retried_closure t))) commit) (both (since d0))"
      by (rule leads_weaken) (use c in \<open>auto simp: knowing_def both_def intro: working_onI [OF since_ok] sym\<close>)
    with c show ?thesis by simp
  next
    case False
    have "keeps (both (since d0)) (bind (case v of None \<Rightarrow> raise (HttpError 404) ''No account closure was requested.'' | Some c \<Rightarrow> ret c)
        (\<lambda>c. seq (if clo_state c = ClosureCompleted then ret () else bind now (\<lambda>t. set_closure i (retried_closure t))) commit))"
      using False since.ends by (cases v) (auto intro!: keeps_intros)
    then show ?thesis unfolding leads_def keeps_def by blast
  qed
  show ?thesis
    unfolding retry_closure_def require_closure_def bind_assoc leads_keeps [symmetric]
    by (rule leads_known [where Q = "\<lambda>v s. v = find_closure i (working s)", OF again refl])
qed

lemma recover_checkout_since: "keeps (both (since d0)) (recover_checkout s i a cid)"
  unfolding recover_checkout_def by (intro keeps_intros)

lemma review_contact_since: "keeps (both (since d0)) (review_contact_message i m decision)"
proof -
  have "keeps (both (since d0)) (case decision of DeleteMessage \<Rightarrow> set_contacts f
      | UnrelatedMessage \<Rightarrow> seq (bind (require_closure i) (\<lambda>_. ret ())) (set_closure i (\<lambda>c. c\<lparr>clo_unrelated_contact_ids :=
            clo_unrelated_contact_ids c @ [x]\<rparr>)))" for f x
  proof -
    have "keeps (both (since d0)) (set_closure i (\<lambda>c. c\<lparr>clo_unrelated_contact_ids := clo_unrelated_contact_ids c @ [x]\<rparr>))"
      by (rule since.closure_write) (simp_all add: advances_def settled_closure_def)
    then show ?thesis
      by (cases decision) (simp_all add: since.q_writes keeps_seq keeps_bind keeps_ret since.q_reads)
  qed
  then show ?thesis unfolding review_contact_message_def by (intro keeps_intros)
qed

lemma notify_one_since:
  assumes "\<And>m. keeps (both (since d0)) (sender m)"
  shows "keeps (both (since d0)) (notify_one a sender)"
proof -
  have rows: "keeps (both (since d0)) (set_closure i expired_notice)"
    "keeps (both (since d0)) (set_closure i (\<lambda>x. x\<lparr>clo_notice_attempts := Suc (clo_notice_attempts x)\<rparr>))"
    "keeps (both (since d0)) (set_closure i (sent_notice t))" "keeps (both (since d0)) (set_closure i (unsent_notice n))" for i t n
    by (rule since.closure_write; simp add: advances_def settled_closure_def expired_notice_def sent_notice_def
        unsent_notice_def Let_def)+
  have "keeps (both (since d0)) (unsent c)" "keeps (both (since d0)) (send_notice a sender e c)" for c e
    unfolding send_notice_def unsent_def Let_def by (intro keeps_intros rows assms)+
  then show ?thesis
    unfolding notify_one_def by (intro since.a_with_session keeps_intros rows)
qed

end
