(* ===== verification/AccountProperties.thy ===== *)
theory AccountProperties
  imports ClosureFacts Examples
begin

section \<open>Properties of the accounts\<close>

text \<open>
  The requests and background steps of the account services as commands, each one in a session
  of its own, in any order; and what holds however they follow each other.  Restoring the
  configured super-admin at start-up is not among them: it may promote an account and replace its
  password without ending its sessions.
\<close>

subsection \<open>Commands\<close>

text \<open>What the services are given: primitives, settings, and what sends their mails.\<close>

record account_world =
  aw_primitives :: primitives
  aw_auth :: AuthSettings
  aw_settings :: Settings
  aw_code_mail :: code_mail
  aw_link_mail :: "string \<Rightarrow> string \<Rightarrow> unit sess"
  aw_notice_mail :: "OutgoingEmail \<Rightarrow> unit sess"
  aw_publication_hash :: publication_hash
  aw_other_names :: "string list"

datatype account_command =
    Login string string | Refresh string | Logout "string option"
  | Register string string string | ChangeAddress string uuid | Resend uuid "uuid option" | Confirm uuid string "uuid option"
  | Recover string | ResetPassword string string | CleanUp
  | UpdateProfile uuid ProfileUpdate | ChangePassword User string string
  | UpdateUser User uuid AdminUserUpdate | SetRole User uuid UserRole | DeleteUser User uuid
  | PublishContent string PublicContentUpdate User
  | RequestClosure uuid User string | RetryClosure uuid | RecoverCheckout uuid uuid string
  | ReviewContact uuid uuid contact_decision | WorkClosures | SendNotice

definition ignoring :: "'a sess \<Rightarrow> unit sess" where
  "ignoring m = bind m (\<lambda>_. ret ())"

fun account_program :: "account_world \<Rightarrow> account_command \<Rightarrow> unit sess" where
  "account_program w (Login email secret) = ignoring (login (aw_primitives w) (aw_auth w) email secret)"
| "account_program w (Refresh raw) = ignoring (refresh_tokens (aw_primitives w) (aw_auth w) raw)"
| "account_program w (Logout raw) = logout (aw_primitives w) raw"
| "account_program w (Register email name secret) =
     ignoring (register (aw_primitives w) (aw_auth w) (aw_code_mail w) email name secret)"
| "account_program w (ChangeAddress email i) =
     ignoring (start_verification (aw_primitives w) (aw_auth w) (aw_code_mail w) email (Some i) no_registration)"
| "account_program w (Resend i user) = resend_code (aw_primitives w) (aw_auth w) (aw_code_mail w) i user"
| "account_program w (Confirm i code user) = ignoring (confirm_code (aw_primitives w) (aw_auth w) i code user)"
| "account_program w (Recover email) = send_recovery (aw_primitives w) (aw_auth w) (aw_link_mail w) email"
| "account_program w (ResetPassword token secret) = ignoring (reset_password (aw_primitives w) token secret)"
| "account_program w CleanUp = seq cleanup_expired cleanup_recovery"
| "account_program w (UpdateProfile i c) = ignoring (update_profile i c)"
| "account_program w (ChangePassword u current secret) = change_password (aw_primitives w) u current secret"
| "account_program w (UpdateUser actor i c) = ignoring (update_user actor i c)"
| "account_program w (SetRole actor i r) = ignoring (set_role actor i r)"
| "account_program w (DeleteUser actor i) = delete_user actor i"
| "account_program w (PublishContent slug p actor) = ignoring (publish_content slug p actor)"
| "account_program w (RequestClosure i actor secret) = ignoring (request_closure (aw_primitives w) i actor secret)"
| "account_program w (RetryClosure i) = retry_closure i"
| "account_program w (RecoverCheckout i attempt cid) = recover_checkout (aw_settings w) i attempt cid"
| "account_program w (ReviewContact i message decision) = review_contact_message i message decision"
| "account_program w WorkClosures =
     ignoring (process_one (aw_primitives w) (aw_publication_hash w) (aw_other_names w) (aw_settings w))"
| "account_program w SendNotice = ignoring (notify_one (aw_auth w) (aw_notice_mail w))"

fun account_run :: "account_world \<Rightarrow> account_command list \<Rightarrow> session \<Rightarrow> session" where
  "account_run w [] s = s"
| "account_run w (c # cs) s = account_run w cs (snd (with_session (account_program w c) s))"

text \<open>Sending a mail does not touch the database.\<close>

definition only_sends :: "'a sess \<Rightarrow> bool" where
  "only_sends m \<longleftrightarrow> (\<forall>s. committed (snd (m s)) = committed s \<and> working (snd (m s)) = working s)"

definition quiet_mails :: "account_world \<Rightarrow> bool" where
  "quiet_mails w \<longleftrightarrow> (\<forall>x y z. only_sends (aw_code_mail w x y z)) \<and> (\<forall>x y. only_sends (aw_link_mail w x y))
     \<and> (\<forall>x. only_sends (aw_notice_mail w x))"

lemma only_sends_keeps: "only_sends m \<Longrightarrow> keeps (both P) m" "only_sends m \<Longrightarrow> keeps committed_ok m"
  by (simp_all add: only_sends_def keeps_def both_def committed_ok_def)

lemma account_program_since:
  assumes "quiet_mails w"
  shows "keeps (both (since d0)) (account_program w c)"
proof -
  have mail: "keeps (both (since d0)) (aw_code_mail w x y z)" "keeps (both (since d0)) (aw_link_mail w x y)"
    "keeps (both (since d0)) (aw_notice_mail w m)" for x y z m
    using assms by (simp_all add: quiet_mails_def only_sends_keeps)
  show ?thesis
    unfolding ignoring_def
    by (cases c; simp only: account_program.simps ignoring_def;
        intro keeps_intros since.a_login since.a_refresh since.a_logout since.a_register since.a_start since.a_resend
          since.a_confirm since.a_recovery since.a_reset since.a_cleanup since.a_profile since.a_change_password
          since.a_update_user since.a_set_role since.a_delete_user since.a_publish request_closure_since
          retry_closure_since recover_checkout_since review_contact_since process_one_since notify_one_since mail)
qed

lemma account_run_keeps:
  "(\<And>c. keeps I (with_session (account_program w c))) \<Longrightarrow> I s \<Longrightarrow> I (account_run w cs s)"
  by (induction cs arbitrary: s) (auto dest: keepsD')

lemma account_run_since:
  "quiet_mails w \<Longrightarrow> both (since d0) s \<Longrightarrow> both (since d0) (account_run w cs s)"
  by (rule account_run_keeps) (rule since.a_with_session, rule account_program_since)

lemma account_run_rests: "working s = committed s \<Longrightarrow> working (account_run w cs s) = committed (account_run w cs s)"
  by (induction cs arbitrary: s) (simp_all add: with_session_def rollback_def modify_def split: prod.split)

subsection \<open>The constraints of the database\<close>

interpretation durable: account_invariant committed_ok
  by unfold_locales (simp_all add: committed_ok_basic set_closure_def set_closures_def)

lemma durable_rows:
  "keeps committed_ok (set_closure i f)" "keeps committed_ok (set_user i g)"
  by (simp_all add: set_closure_def set_closures_def set_user_def committed_ok_basic)

lemma durable_nested: "keeps committed_ok m \<Longrightarrow> keeps committed_ok (nested m)"
  unfolding keeps_def nested_def
  by (auto simp: seq_def bind_def flush_def raise_def ret_def committed_ok_def split: prod.splits sum.splits)

lemma durable_erase: "keeps committed_ok (erase_personal_data k h others i)"
  by (intro durable.q_erase durable_rows)

lemma durable_requests:
  "keeps committed_ok (request_closure k i actor secret)" "keeps committed_ok (retry_closure i)"
  unfolding request_closure_def close_target_def begin_closure_def shut_account_def authorised_actor_def retry_closure_def Let_def
  by (intro keeps_intros durable_rows)+

lemma durable_review: "keeps committed_ok (review_contact_message i m decision)"
  unfolding review_contact_message_def
  by (cases decision; simp only: contact_decision.case; intro keeps_intros durable_rows durable_requests)

lemma durable_recover: "keeps committed_ok (recover_checkout s i a cid)"
  unfolding recover_checkout_def by (intro keeps_intros durable_requests)

lemma durable_worker: "keeps committed_ok (process_one k h others s)"
  unfolding process_one_def early_erasure_def work_closure_def retry_later_def settle_closure_def conclude_closure_def
    record_issues_def finish_closure_def Let_def
  by (intro durable.a_with_session keeps_intros durable_rows durable_nested durable_erase)

lemma durable_notice:
  "(\<And>m. keeps committed_ok (sender m)) \<Longrightarrow> keeps committed_ok (notify_one a sender)"
  unfolding notify_one_def send_notice_def unsent_def Let_def
  by (intro durable.a_with_session keeps_intros durable_rows)

lemma account_program_durable:
  assumes "quiet_mails w"
  shows "keeps committed_ok (account_program w c)"
proof -
  have mail: "keeps committed_ok (aw_code_mail w x y z)" "keeps committed_ok (aw_link_mail w x y)"
    "keeps committed_ok (aw_notice_mail w m)" for x y z m
    using assms by (simp_all add: quiet_mails_def only_sends_keeps)
  show ?thesis
    by (cases c; simp only: account_program.simps ignoring_def;
        intro keeps_intros durable.a_login durable.a_refresh durable.a_logout durable.a_register durable.a_start durable.a_resend
          durable.a_confirm durable.a_recovery durable.a_reset durable.a_cleanup durable.a_profile durable.a_change_password
          durable.a_update_user durable.a_set_role durable.a_delete_user durable.a_publish durable_requests
          durable_recover durable_review durable_worker durable_notice mail)
qed

lemma account_run_durable: "quiet_mails w \<Longrightarrow> committed_ok s \<Longrightarrow> committed_ok (account_run w cs s)"
  by (rule account_run_keeps) (rule durable.a_with_session, rule account_program_durable)

subsection \<open>Access tokens\<close>

lemma current_user_reads:
  assumes "current_user k a (Some (kind, token)) s = (Inr u, s')"
  shows "\<exists>t p c. pm_decode k t token = Some p \<and> claims_of ''access'' p = Inr c
    \<and> find_user (tc_subject c) (working s) = Some u \<and> usr_is_active u \<and> usr_auth_version u = tc_auth_version c"
  using assms
  by (auto simp: current_user_def unauthorized_def decode_token_def decode_at_def rcatch_def run_simps
      split: if_splits option.splits sum.splits)

lemma current_user_at:
  "current_user k a c s = (r, s') \<Longrightarrow> both P s \<Longrightarrow> both P s'"
  by (rule keepsD [of "both P" "current_user k a c"]) (simp add: current_user_def unauthorized_def decode_token_def keeps_intros)

text \<open>What a signed payload says does not depend on when it is checked.\<close>

definition timeless :: "primitives \<Rightarrow> bool" where
  "timeless k \<longleftrightarrow> (\<forall>t t' x p p'. pm_decode k t x = Some p \<longrightarrow> pm_decode k t' x = Some p' \<longrightarrow> p' = p)"

text \<open>C4: an access token that is accepted at two moments, whatever account commands lie between
  them, was good all the time: at every moment in between its account was active, not closing, and
  had the same password, role and version.  So a change of the password, a new role, a deactivation
  or a closure ends every token issued before, for good.\<close>

theorem token_stays_good_or_dead:
  assumes timeless: "timeless (aw_primitives w)" and mails: "quiet_mails w"
    and start: "accounts_ok (committed s0)" "users_ok (users (committed s0))" "working s0 = committed s0"
    and first: "current_user (aw_primitives w) (aw_auth w) (Some (kind, token)) s0 = (Inr u0, s0')"
    and mid: "s1 = account_run w cs s0'"
    and second: "current_user (aw_primitives w) (aw_auth w) (Some (kind, token)) (account_run w cs' s1) = (Inr u2, s2)"
  shows "usr_id u2 = usr_id u0 \<and> (\<forall>u \<in> {u2, the (find_user (usr_id u0) (committed s1))}.
    usr_is_active u \<and> \<not> is_closing u \<and> usr_password_hash u = usr_password_hash u0 \<and> usr_role u = usr_role u0
    \<and> usr_is_super_admin u = usr_is_super_admin u0 \<and> usr_auth_version u = usr_auth_version u0)
    \<and> find_user (usr_id u0) (committed s1) \<noteq> None"
proof -
  let ?d0 = "committed s0"
  obtain t p c where a: "pm_decode (aw_primitives w) t token = Some p" "claims_of ''access'' p = Inr c"
    "find_user (tc_subject c) ?d0 = Some u0" "usr_is_active u0" "usr_auth_version u0 = tc_auth_version c"
    using current_user_reads [OF first] start(3) by auto
  obtain t' p' c' where b: "pm_decode (aw_primitives w) t' token = Some p'" "claims_of ''access'' p' = Inr c'"
    "find_user (tc_subject c') (working (account_run w cs' s1)) = Some u2" "usr_is_active u2"
    "usr_auth_version u2 = tc_auth_version c'"
    using current_user_reads [OF second] by auto
  from timeless a(1) b(1) have "p' = p" by (auto simp: timeless_def)
  with a(2) b(2) have c: "c' = c" by simp
  from a(3) have id: "usr_id u0 = tc_subject c" and mem: "u0 \<in> set (users ?d0)"
    by (auto simp: find_user_def dest: get_row_Some)
  from b(3) c have id2: "usr_id u2 = tc_subject c" by (auto simp: find_user_def dest: get_row_Some)
  from start(2) mem a(4) have open0: "\<not> is_closing u0" by (auto simp: users_ok_def list_all_iff)
  have at0: "both (since ?d0) s0'" "both (\<lambda>d. d = ?d0) s0'"
    by (rule current_user_at [OF first]; use start in \<open>simp add: both_def since_refl\<close>)+
  have rest1: "working s1 = committed s1"
    unfolding mid using at0(2) by (intro account_run_rests) (simp add: both_def)
  from account_run_since [OF mails at0(1)] have s1: "since ?d0 (committed s1)" by (simp add: mid both_def)
  then obtain u1 where u1: "find_user (tc_subject c) (committed s1) = Some u1" "outlives u0 u1"
    using a(3) unfolding since_def by blast
  have "both (since (committed s1)) s1" using s1 rest1 by (simp add: both_def since_refl since_ok)
  from account_run_since [OF mails this] have "since (committed s1) (working (account_run w cs' s1))" by (simp add: both_def)
  with u1(1) b(3) c have u2: "outlives u1 u2" unfolding since_def by (metis option.inject)
  from a(5) b(5) c have same: "usr_auth_version u2 = usr_auth_version u0" by simp
  with u1(2) u2 have "usr_auth_version u1 = usr_auth_version u0" by (simp add: outlives_def)
  with u1(2) u2 same open0 a(4)
  have "\<not> is_closing u1 \<and> usr_password_hash u1 = usr_password_hash u0 \<and> usr_role u1 = usr_role u0 \<and> usr_is_active u1
      \<and> usr_is_super_admin u1 = usr_is_super_admin u0"
    by (auto simp: outlives_def)
  moreover from this u2 same \<open>usr_auth_version u1 = usr_auth_version u0\<close>
  have "\<not> is_closing u2 \<and> usr_password_hash u2 = usr_password_hash u0 \<and> usr_role u2 = usr_role u0
      \<and> usr_is_super_admin u2 = usr_is_super_admin u0"
    by (auto simp: outlives_def)
  ultimately show ?thesis
    using id id2 u1(1) b(4) same \<open>usr_auth_version u1 = usr_auth_version u0\<close> by simp
qed

subsection \<open>Protected accounts and closures\<close>


text \<open>C8: a closure is final: whatever the account services are asked afterwards, the request stays
  on record, the account stays without access, a completed closure stays completed, and a closure
  is completed only after the personal data was removed and the billing was resolved.\<close>

theorem closure_is_final:
  assumes mails: "quiet_mails w"
    and start: "accounts_ok (committed s)" "constraints_ok (committed s)" "working s = committed s"
    and closing: "find_closure i (committed s) = Some c"
    and run: "s' = account_run w cs s"
  shows "\<exists>c' u. find_closure i (committed s') = Some c' \<and> find_user i (committed s') = Some u
    \<and> clo_requested_at c' = clo_requested_at c \<and> is_closing u \<and> \<not> usr_is_active u
    \<and> (clo_state c = ClosureCompleted \<longrightarrow> clo_state c' = ClosureCompleted \<and> clo_completed_at c' = clo_completed_at c)
    \<and> (clo_state c' = ClosureCompleted \<longrightarrow> clo_data_removed_at c' \<noteq> None \<and> clo_billing_resolved_at c' \<noteq> None)"
proof -
  from start have "both (since (committed s)) s" by (simp add: both_def since_refl)
  from account_run_since [OF mails this] have since: "since (committed s) (committed s')" by (simp add: run both_def)
  with closing obtain c' where c': "find_closure i (committed s') = Some c'" "advances c c'"
    unfolding since_def by metis
  then have mem: "c' \<in> set (closures_of (committed s'))" "clo_user_id c' = i"
    by (auto simp: find_closure_def closures_of_def dest: get_row_Some)
  with since obtain u where u: "find_user i (committed s') = Some u" "is_closing u"
    by (auto simp: since_def accounts_ok_def)
  from start(2) have "committed_ok s" by (simp add: committed_ok_def)
  from account_run_durable [OF mails this] have "users_ok (users (committed s'))"
    by (simp add: run committed_ok_def constraints_ok_def)
  with u have "\<not> usr_is_active u"
    by (auto simp: users_ok_def list_all_iff find_user_def dest!: get_row_Some)
  moreover from mem since have "settled_closure c'" by (auto simp: since_def accounts_ok_def list_all_iff)
  ultimately show ?thesis using c' u by (auto simp: advances_def settled_closure_def)
qed

subsection \<open>Erasure\<close>

text \<open>The rows that belong to an account or name it; checkouts, the rows of the locks and the closure
  itself are kept for the billing.\<close>

definition any_row_of :: "('a \<Rightarrow> 'k) \<Rightarrow> 'k \<Rightarrow> 'a list \<Rightarrow> bool" where
  "any_row_of key k rows \<longleftrightarrow> list_ex (\<lambda>r. key r = k) rows"

definition owns_rows :: "uuid \<Rightarrow> db \<Rightarrow> bool" where
  "owns_rows i d \<longleftrightarrow> list_ex (\<lambda>b. b) [
     any_row_of dg_owner_id i (digests d), any_row_of rn_owner_id i (digest_runs d),
     any_row_of us_user_id i (usages d), any_row_of fs_user_id i (free_subs d),
     any_row_of as_user_id i (account_states d), any_row_of ob_user_id i (observed_runs d),
     any_row_of om_user_id i (assignments d), any_row_of pol_user_id i (policies d),
     any_row_of up_user_id i (upgrades d), any_row_of ch_user_id i (changes d),
     any_row_of bn_user_id i (notices d), any_row_of sj_user_id i (sync_jobs d),
     any_row_of ses_user_id i (auth_sessions (account_tables d)),
     any_row_of prs_user_id i (password_resets (account_tables d))]"

definition names_account :: "uuid \<Rightarrow> db \<Rightarrow> bool" where
  "names_account i d \<longleftrightarrow> list_ex (\<lambda>b. b) [
     any_row_of emv_user_id (Some i) (email_verifications (account_tables d)),
     any_row_of cme_user_id (Some i) (contact_messages (account_tables d)),
     any_row_of pub_created_by (Some i) (public_contents (account_tables d)),
     any_row_of ev_created_by (Some i) (quality_evaluations d),
     any_row_of clr_created_by (Some i) (claim_reviews (review_tables d)),
     any_row_of rbm_created_by (Some i) (benchmarks (review_tables d)),
     any_row_of bcr_created_by (Some i) (case_reviews (review_tables d)),
     any_row_of bch_created_by (Some i) (criteria_history (review_tables d)),
     any_row_of bpu_created_by (Some i) (publications (review_tables d)),
     any_row_of sj_retried_by (Some i) (sync_jobs d), any_row_of pol_created_by (Some i) (policies d),
     any_row_of om_created_by (Some i) (assignments d)]"

text \<open>The rows of the runs that go with the account.\<close>

definition run_rows :: "uuid list \<Rightarrow> db \<Rightarrow> bool" where
  "run_rows rs d \<longleftrightarrow> list_ex (\<lambda>b. b) [
     list_ex (\<lambda>r. sg_run_id r \<in> set rs) (run_stages d),
     list_ex (\<lambda>r. dp_run_id r \<in> set rs) (run_papers d),
     list_ex (\<lambda>r. rt_run_id r \<in> set rs) (trend_analyses d),
     list_ex (\<lambda>r. rb_run_id r \<in> set rs) (briefings d),
     list_ex (\<lambda>r. rq_run_id r \<in> set rs) (radar_requests d),
     list_ex (\<lambda>r. dl_run_id r \<in> set rs) (deliveries d),
     list_ex (\<lambda>r. ev_run_id r \<in> set rs) (quality_evaluations d),
     list_ex (\<lambda>r. sc_run_id r \<in> set rs) (source_contents d)]"

lemma no_row_of:
  "\<not> any_row_of key k (filter (\<lambda>r. key r \<noteq> k) rows)"
  "(\<And>r. key (f r) \<noteq> k) \<Longrightarrow> \<not> any_row_of key k (map f rows)"
  "(\<And>r. key (f r) = key r) \<Longrightarrow> any_row_of key k (map f rows) = any_row_of key k rows"
  "\<not> any_row_of key k rows \<Longrightarrow> \<not> any_row_of key k (filter p rows)"
  "\<not> list_ex (\<lambda>r. key r \<in> A) (filter (\<lambda>r. key r \<notin> A) rows)"
  "(\<And>r. key (f r) = key r) \<Longrightarrow> list_ex (\<lambda>r. key r \<in> A) (map f rows) = list_ex (\<lambda>r. key r \<in> A) rows"
  by (auto simp: any_row_of_def list_ex_iff)

lemma detached_other [simp]: "detached i x \<noteq> Some i"
  by (simp add: detached_def)

definition same_content :: "db \<Rightarrow> session \<Rightarrow> bool" where
  "same_content d s \<longleftrightarrow> digests (working s) = digests d \<and> digest_runs (working s) = digest_runs d
     \<and> contact_messages (account_tables (working s)) = contact_messages (account_tables d)
     \<and> users (working s) = users d"

lemma same_content_change:
  "(\<And>x. digests (f x) = digests x) \<Longrightarrow> (\<And>x. digest_runs (f x) = digest_runs x) \<Longrightarrow>
    (\<And>x. contact_messages (account_tables (f x)) = contact_messages (account_tables x)) \<Longrightarrow> (\<And>x. users (f x) = users x)
    \<Longrightarrow> keeps (same_content d) (change f)"
  by (simp add: keeps_def same_content_def run_simps)

lemma redaction_keeps_content: "keeps (same_content d) (redact_admin_history h others i)"
proof -
  have basic: "keeps (same_content d) now" "keeps (same_content d) (query f)" for f
    by (simp_all add: keeps_def same_content_def run_simps)
  have rows: "keeps (same_content d) (change (on_reviews g))" "keeps (same_content d) (set_claim_reviews p u)"
    "keeps (same_content d) (change (unname i))" for g p u
    unfolding set_claim_reviews_def
    by (intro same_content_change; simp add: on_reviews_def unname_def unname_accounts_def)+
  show ?thesis
    unfolding redact_admin_history_def redact_publication_def by (intro keeps_intros basic rows)
qed

lemmas erase_defs = erase_rows_def erase_billing_rows_def erase_run_rows_def erase_account_rows_def erase_review_rows_def Let_def

lemma bare_checkouts:
  assumes "c \<in> set (update_where (\<lambda>c. co_user_id c = i) bare_checkout cs)" and "co_user_id c = i"
  shows "\<forall>x \<in> set (co_parameters c). startswith (fst x) ''metadata['' \<or> fst x = ''expires_at''"
proof -
  from assms obtain y where y: "c = (if co_user_id y = i then bare_checkout y else y)" by (auto simp only: set_update_where)
  with assms(2) have "c = bare_checkout y" by (cases "co_user_id y = i") simp_all
  then have "co_parameters c = filter (\<lambda>p. startswith (fst p) ''metadata['' \<or> fst p = ''expires_at'') (co_parameters y)"
    by (simp only: bare_checkout_def) simp
  then show ?thesis by (simp only: set_filter) blast
qed

lemma erase_rows_accounts: "account_tables (erase_rows i d) = erase_account_rows i (account_tables d)"
  by (simp add: erase_rows_def Let_def)

lemma erased_run_rows: "\<not> any_row_of rn_owner_id i (filter (\<lambda>r. rn_id r \<notin> set (erased_runs i d)) (digest_runs d))"
  by (auto simp: any_row_of_def list_ex_iff erased_runs_def)

lemma erased_rows:
  "\<not> owns_rows i (erase_rows i d)" "\<not> names_account i (erase_rows i d)" "\<not> run_rows (erased_runs i d) (erase_rows i d)"
  by (simp_all add: owns_rows_def names_account_def run_rows_def erase_defs no_row_of erased_run_rows)


subsection \<open>Refresh tokens\<close>

lemma refresh_succeeds:
  assumes "refresh_tokens k a raw s = (Inr it, s')"
  shows "\<exists>t p c x u s1. pm_decode k (clock s (ticks s)) raw = Some p \<and> claims_of ''refresh'' p = Inr c
    \<and> Option.bind (tc_session_id c) (\<lambda>i. find_session i (working s)) = Some x \<and> find_user (tc_subject c) (working s) = Some u
    \<and> session_usable a t c x u \<and> pm_digest k raw = ses_token_hash x
    \<and> s1 = s\<lparr>ticks := Suc (Suc (ticks s))\<rparr> \<and> rotate k a t raw x u s1 = (Inr it, s')"
  using assms
  by (auto simp: refresh_tokens_def decode_token_def decode_at_def rcatch_def drop_session_def run_simps
      split: if_splits option.splits sum.splits prod.splits)

lemma refresh_replayed:
  assumes "pm_decode k (clock s (ticks s)) raw = None \<or> pm_decode k (clock s (ticks s)) raw = Some p"
    and "claims_of ''refresh'' p = Inr c" and "tc_session_id c = Some i" and "find_session i (working s) = Some x"
    and "ses_token_hash x \<noteq> pm_digest k raw" and "constraints_ok (working s)"
  shows "\<exists>e s'. refresh_tokens k a raw s = (Inl e, s') \<and> exn_class e \<in> {RefreshConflict, AuthenticationError}
    \<and> (exn_class e = RefreshConflict \<longrightarrow> committed s' = committed s)"
proof -
  have revoked: "constraints_ok (on_accounts (\<lambda>a. a\<lparr>auth_sessions := update_where p (\<lambda>y. y\<lparr>ses_revoked_at := t\<rparr>) (auth_sessions a)\<rparr>) d)"
    if "constraints_ok d" for p t d
    using that by (simp add: constraints_ok_def on_accounts_def account_tables_ok_def)
  show ?thesis
  proof (cases "pm_decode k (clock s (ticks s)) raw")
    case None
    then show ?thesis
      by (simp add: refresh_tokens_def decode_token_def decode_at_def token_error_def run_simps)
  next
    case (Some q)
    with assms(1) have "q = p" by simp
    with Some assms show ?thesis
      by (auto simp: refresh_tokens_def decode_token_def decode_at_def rcatch_def drop_session_def revoke_def set_sessions_def
          run_simps revoked split: option.splits)
  qed
qed

definition rotated :: "primitives \<Rightarrow> datetime \<Rightarrow> string \<Rightarrow> IssuedTokens \<Rightarrow> AuthSession \<Rightarrow> AuthSession" where
  "rotated k t raw it x = x\<lparr>ses_token_hash := pm_digest k (it_refresh_token it),
     ses_previous_token_hash := Some (pm_digest k raw), ses_rotated_at := Some t, ses_expires_at := it_refresh_expires_at it\<rparr>"

lemma rotate_result:
  assumes "rotate k a t raw x u s = (Inr it, s')"
  shows "committed s' = working s' \<and> constraints_ok (working s') \<and> it_user it = u
    \<and> it_refresh_expires_at it = min (t + days (aus_refresh_token_days a)) (ses_created_at x + days (aus_session_absolute_days a))
    \<and> working s' = on_accounts (\<lambda>d. d\<lparr>auth_sessions := update_where (\<lambda>y. ses_id y = ses_id x
        \<and> ses_token_hash y = pm_digest k raw \<and> ses_revoked_at y = None \<and> ses_expires_at y > t) (rotated k t raw it)
        (auth_sessions d)\<rparr>) (working s)"
  using assms
  by (auto simp: rotate_def Let_def create_access_token_def create_refresh_token_def encode_token_def swap_token_def
      set_sessions_def issued_tokens_def rotated_def [abs_def] run_simps split: if_splits)


end
