(* ===== verification/CredentialProperties.thy ===== *)
theory CredentialProperties
  imports AccountProperties
begin

section \<open>Properties of codes and links\<close>

text \<open>
  The number of guesses a challenge allows, counted over any sequence of confirmations and
  resends, and the reset of a password.
\<close>

subsection \<open>Classes of exceptions a program never raises\<close>

definition never :: "exn_class \<Rightarrow> 'a sess \<Rightarrow> bool" where
  "never c m \<longleftrightarrow> (\<forall>s e s'. m s = (Inl e, s') \<longrightarrow> exn_class e \<noteq> c)"

named_theorems never_intros

lemma never_basic [never_intros]:
  "never c (ret v)" "never c now" "never c uuid4" "never c (query f)" "never c (change g)" "never c rollback"
  "c' \<noteq> c \<Longrightarrow> never c (raise c' m)" "c' \<noteq> c \<Longrightarrow> never c (guard b c' m)" "c \<noteq> IntegrityError \<Longrightarrow> never c flush"
  "c \<noteq> IntegrityError \<Longrightarrow> never c commit" "c' \<noteq> c \<Longrightarrow> never c (lift_result (the_value c' x))"
  by (auto simp: never_def run_simps the_value_def split: if_splits option.splits)

lemma never_bind [never_intros]: "never c m \<Longrightarrow> (\<And>v. never c (f v)) \<Longrightarrow> never c (bind m f)"
  unfolding never_def bind_def by (auto split: prod.splits sum.splits)

lemma never_seq [never_intros]: "never c m \<Longrightarrow> never c n \<Longrightarrow> never c (seq m n)"
  unfolding seq_def by (rule never_bind)

lemma never_cases [never_intros]:
  "(b \<Longrightarrow> never c m) \<Longrightarrow> (\<not> b \<Longrightarrow> never c n) \<Longrightarrow> never c (if b then m else n)"
  "never c m \<Longrightarrow> (\<And>v. never c (f v)) \<Longrightarrow> never c (case x of None \<Rightarrow> m | Some v \<Rightarrow> f v)"
  "(\<And>x y. never c (g x y)) \<Longrightarrow> never c (case p of (x, y) \<Rightarrow> g x y)"
  by (simp_all split: option.split prod.split)

lemma never_catch: "never c m \<Longrightarrow> (\<And>e. exn_class e \<noteq> c \<Longrightarrow> never c (h e)) \<Longrightarrow> never c (catch m h)"
  unfolding never_def catch_def by (fastforce split: prod.splits sum.splits)

lemma never_reraise: "exn_class e \<noteq> c \<Longrightarrow> never c (reraise e)"
  by (simp add: never_def run_simps)

abbreviation wrong_code :: exn_class where "wrong_code \<equiv> EmailVerificationError 400"

lemma never_wrong_later [never_intros]:
  "never wrong_code (require_open_user user)" "never wrong_code cleanup_expired" "never wrong_code (lock_challenge i user b)"
  unfolding require_open_user_def cleanup_expired_def lock_challenge_def drop_verifications_def set_verifications_def
  by (intro never_intros; simp)+

lemma never_query_result:
  assumes "\<And>d e. g d = Inl e \<Longrightarrow> exn_class e \<noteq> c" and "\<And>v. never c (f v)"
  shows "never c (bind (query g) (\<lambda>r. bind (lift_result r) f))"
  using assms by (auto simp: never_def run_simps split: sum.splits)

lemma never_wrong_documents [never_intros]: "never wrong_code (check_documents v)"
  unfolding check_documents_def drop_verifications_def
  by (intro never_query_result never_cases never_seq never_basic) (auto simp: legal_document_version_def split: if_splits)

lemma never_wrong_account [never_intros]:
  "never wrong_code (registered_user v)" "never wrong_code (enroll_registration u)" "never wrong_code (start_session k a u)"
  unfolding registered_user_def create_user_def enroll_registration_def assign_free_def default_plan_def start_session_def
    create_access_token_def create_refresh_token_def encode_token_def create_auth_session_def Let_def
  by (intro never_intros; simp)+

lemma never_wrong_complete: "never wrong_code (undo_on_error msg (complete_challenge k a user v))"
proof -
  have "never wrong_code (complete_challenge k a user v)"
    unfolding complete_challenge_def set_user_def drop_verifications_def by (intro never_intros; simp)
  then show ?thesis
    unfolding undo_on_error_def by (rule never_catch) (intro never_intros never_reraise; simp)
qed

subsection \<open>Guesses\<close>

definition guesses_left :: "uuid \<Rightarrow> db \<Rightarrow> nat" where
  "guesses_left i d = (case find_verification (\<lambda>v. emv_id v = i) d of None \<Rightarrow> 0 | Some v \<Rightarrow> MAX_CODE_ATTEMPTS - emv_attempts v)"

definition challenges_ok :: "uuid \<Rightarrow> nat \<Rightarrow> db \<Rightarrow> bool" where
  "challenges_ok i n d \<longleftrightarrow> distinct (map emv_id (email_verifications (account_tables d))) \<and> guesses_left i d \<le> n"

definition same_challenges :: "(db \<Rightarrow> db) \<Rightarrow> bool" where
  "same_challenges f \<longleftrightarrow> (\<forall>d. email_verifications (account_tables (f d)) = email_verifications (account_tables d))"

lemma challenges_other: "same_challenges f \<Longrightarrow> keeps (both (challenges_ok i n)) (change f)"
  by (rule both_change) (simp add: same_challenges_def challenges_ok_def guesses_left_def find_verification_def)

lemma find_update_id:
  assumes "\<And>v. emv_id (f v) = emv_id v"
  shows "find (\<lambda>v. emv_id v = i) (update_where p f vs) = map_option (\<lambda>v. if p v then f v else v) (find (\<lambda>v. emv_id v = i) vs)"
  using assms by (induction vs) (auto simp: update_where_def)

lemma challenges_update:
  assumes "\<And>v. emv_id (f v) = emv_id v" and "\<And>v. emv_attempts v \<le> emv_attempts (f v)"
  shows "keeps (both (challenges_ok i n)) (set_verifications p f)"
  unfolding set_verifications_def
proof (rule both_change)
  fix d assume "challenges_ok i n d"
  then show "challenges_ok i n (on_accounts (\<lambda>a. a\<lparr>email_verifications := update_where p f (email_verifications a)\<rparr>) d)"
    using assms le_trans [OF diff_le_mono2]
    by (fastforce simp: challenges_ok_def on_accounts_def guesses_left_def find_verification_def find_update_id
        split: option.splits)
qed

lemma find_filter_le:
  "distinct (map emv_id vs) \<Longrightarrow> find (\<lambda>v. emv_id v = i) (filter q vs) \<in> {None, find (\<lambda>v. emv_id v = i) vs}"
proof (induction vs)
  case (Cons v vs)
  have "find (\<lambda>v. emv_id v = i) (filter q vs) = None" if "emv_id v = i"
    using that Cons.prems by (simp add: find_None_iff) (metis imageI)
  then show ?case using Cons by auto
qed simp

lemma challenges_drop: "keeps (both (challenges_ok i n)) (drop_verifications p)"
  unfolding drop_verifications_def
proof (rule both_change)
  fix d assume ok: "challenges_ok i n d"
  then have "distinct (map emv_id (email_verifications (account_tables d)))" by (simp add: challenges_ok_def)
  from find_filter_le [OF this, of i "\<lambda>v. \<not> p v"] ok
  show "challenges_ok i n (on_accounts (\<lambda>a. a\<lparr>email_verifications := filter (\<lambda>v. \<not> p v) (email_verifications a)\<rparr>) d)"
    by (auto simp: challenges_ok_def on_accounts_def guesses_left_def find_verification_def distinct_map_filter)
qed

text \<open>What confirmations and resends do to the challenges.\<close>

lemma challenges_same:
  "keeps (both (challenges_ok i n)) (change (\<lambda>d. d\<lparr>users := us d\<rparr>))"
  "keeps (both (challenges_ok i n)) (change (\<lambda>d. d\<lparr>plans := ps d\<rparr>))"
  "keeps (both (challenges_ok i n)) (change (\<lambda>d. d\<lparr>free_subs := fs d\<rparr>))"
  "keeps (both (challenges_ok i n)) (change (\<lambda>d. d\<lparr>policies := po d\<rparr>))"
  "keeps (both (challenges_ok i n)) (change (on_accounts (\<lambda>a. a\<lparr>auth_sessions := f a\<rparr>)))"
  by (intro challenges_other; simp add: same_challenges_def on_accounts_def)+

lemmas challenge_intros = both_now both_uuid4 both_query both_rollback both_flush both_commit keeps_intros challenges_drop challenges_same

lemma challenges_lock: "keeps (both (challenges_ok i n)) (lock_challenge j user counted)"
  unfolding lock_challenge_def require_open_user_def cleanup_expired_def
  by (intro challenge_intros challenges_update; simp)

lemma challenges_account: "keeps (both (challenges_ok i n)) (registered_user v)"
  unfolding registered_user_def create_user_def by (intro challenge_intros)

lemma challenges_enroll: "keeps (both (challenges_ok i n)) (enroll_registration u)"
  unfolding enroll_registration_def assign_free_def default_plan_def Let_def by (intro challenge_intros)

lemma challenges_session: "keeps (both (challenges_ok i n)) (start_session k a u)"
  unfolding start_session_def create_access_token_def create_refresh_token_def encode_token_def create_auth_session_def Let_def
  by (intro challenge_intros)

lemma challenges_complete: "keeps (both (challenges_ok i n)) (complete_challenge k a user v)"
  unfolding complete_challenge_def set_user_def
  by (intro challenges_account challenges_enroll challenges_session challenge_intros)

lemma challenges_confirm: "keeps (both (challenges_ok i n)) (confirm_code k a j code user)"
  unfolding confirm_code_def require_open_user_def check_documents_def undo_on_error_def
  by (intro challenge_intros challenges_lock challenges_complete)

lemma challenges_resend:
  assumes "\<And>x y z. only_sends (mail x y z)"
  shows "keeps (both (challenges_ok i n)) (resend_code k a mail j user)"
  unfolding resend_code_def send_code_def Let_def
  by (intro challenge_intros challenges_lock challenges_update only_sends_keeps assms; simp)

text \<open>A sequence of confirmations (with a code) and resends of one challenge, and the number of codes
  that are compared and found wrong.\<close>

definition wrong_code_error :: exn where
  "wrong_code_error = Exn (EmailVerificationError 400) msg_code"

fun wrong_guesses ::
  "primitives \<Rightarrow> AuthSettings \<Rightarrow> code_mail \<Rightarrow> uuid \<Rightarrow> uuid option \<Rightarrow> string option list \<Rightarrow> session \<Rightarrow> nat" where
  "wrong_guesses k a mail i user [] s = 0"
| "wrong_guesses k a mail i user (None # cs) s =
     wrong_guesses k a mail i user cs (snd (with_session (resend_code k a mail i user) s))"
| "wrong_guesses k a mail i user (Some code # cs) s =
     (case with_session (confirm_code k a i code user) s of
        (r, s') \<Rightarrow> (if r = Inl wrong_code_error then 1 else 0) + wrong_guesses k a mail i user cs s')"

lemma left_after_lock:
  assumes "lock_challenge i user True s = (Inr v, s')" and "distinct (map emv_id (email_verifications (account_tables (working s))))"
  shows "Suc (guesses_left i (working s')) \<le> guesses_left i (working s)"
proof -
  obtain t where rows: "email_verifications (account_tables (working s'))
      = update_where (live_challenge i user t True) (\<lambda>v. v\<lparr>emv_attempts := emv_attempts v + 1\<rparr>) (email_verifications (account_tables (working s)))"
    and one: "rowcount (live_challenge i user t True) (email_verifications (account_tables (working s))) = 1"
    using assms(1)
    by (auto simp: lock_challenge_def require_open_user_def set_verifications_def on_accounts_def run_simps
        split: if_splits option.splits prod.splits sum.splits)
  from one have "filter (live_challenge i user t True) (email_verifications (account_tables (working s))) \<noteq> []"
    by (auto simp: rowcount_def)
  then obtain x where x: "x \<in> set (email_verifications (account_tables (working s)))" "live_challenge i user t True x"
    by (auto simp: filter_empty_conv)
  then have id: "emv_id x = i" and few: "emv_attempts x < MAX_CODE_ATTEMPTS" by (simp_all add: live_challenge_def)
  from get_row_distinct [OF assms(2) x(1)] id have "find (\<lambda>v. emv_id v = i) (email_verifications (account_tables (working s))) = Some x"
    by (simp add: get_row_def)
  with x few show ?thesis
    by (simp add: guesses_left_def find_verification_def rows find_update_id Suc_diff_Suc)
qed

lemma wrong_code_counts:
  assumes run: "confirm_code k a i code user s = (Inl wrong_code_error, s')" and ok: "challenges_ok i n (working s)"
  shows "Suc (guesses_left i (committed s')) \<le> n"
proof -
  have "confirm_code k a i code user = bind (require_open_user user) (\<lambda>_. bind (lock_challenge i user True) (\<lambda>v.
     bind now (\<lambda>t.
     if t \<ge> emv_code_expires_at v \<or> emv_code_hash v \<noteq> code_hash k a i code
     then seq commit (verification_error 400 msg_code)
     else seq (if user = None then check_documents v else ret ())
       (undo_on_error ''An account with this email already exists'' (complete_challenge k a user v)))))"
    by (simp add: confirm_code_def seq_def)
  note unfolded = this
  have later: "never wrong_code (seq (if user = None then check_documents v else ret ())
       (undo_on_error ''An account with this email already exists'' (complete_challenge k a user v)))" for v
    by (intro never_intros never_wrong_complete)
  have first: "never wrong_code (require_open_user user)" and second: "never wrong_code (lock_challenge i user True)"
    by (intro never_intros)+
  obtain s1 where s1: "require_open_user user s = (Inr (), s1)" "working s1 = working s"
    using run first unfolding unfolded
    by (auto simp: bind_def never_def wrong_code_error_def require_open_user_def run_simps split: prod.splits sum.splits option.splits if_splits)
  have "lock_challenge i user True s1 \<noteq> (Inl wrong_code_error, s')"
    using second unfolding never_def wrong_code_error_def by (metis exn.sel(1))
  then obtain v s2 where s2: "lock_challenge i user True s1 = (Inr v, s2)"
    using run s1 unfolding unfolded by (auto simp: bind_def split: prod.splits sum.splits)
  have no_later: "seq (if user = None then check_documents v else ret ()) (undo_on_error ''An account with this email already exists''
      (complete_challenge k a user v)) s3 \<noteq> (Inl wrong_code_error, s')" for s3
    using later [of v] unfolding never_def wrong_code_error_def by (metis exn.sel(1))
  have "\<exists>s3. working s3 = working s2 \<and> seq commit (verification_error 400 msg_code :: confirmation sess) s3 = (Inl wrong_code_error, s')"
    using run s1 s2 no_later unfolding unfolded
    by (intro exI [of _ "s2\<lparr>ticks := Suc (ticks s2)\<rparr>"]) (auto simp: bind_def now_def split: if_splits)
  then have "committed s' = working s2"
    by (auto simp: run_simps wrong_code_error_def split: if_splits)
  moreover have "Suc (guesses_left i (working s2)) \<le> guesses_left i (working s1)"
    using left_after_lock [OF s2] ok s1 by (simp add: challenges_ok_def)
  ultimately show ?thesis using ok s1 by (simp add: challenges_ok_def)
qed

text \<open>C12: a challenge allows at most fifty wrong codes: of any sequence of confirmations and resends,
  no more are told that their code is incorrect than guesses were left, because every wrong guess is
  committed although the request fails, and a new code does not reset the count.\<close>

theorem code_guesses_are_bounded:
  assumes mail: "\<And>x y z. only_sends (mail x y z)"
    and start: "working s = committed s" "constraints_ok (committed s)"
  shows "wrong_guesses k a mail i user cs s \<le> guesses_left i (committed s)
    \<and> guesses_left i (committed s) \<le> MAX_CODE_ATTEMPTS"
proof -
  have "wrong_guesses k a mail i user cs s \<le> n"
    if "both (challenges_ok i n) s" for n
    using that
  proof (induction cs arbitrary: s n)
    case Nil
    then show ?case by simp
  next
    case (Cons c cs)
    have step: "both (challenges_ok i m) (snd (with_session p s))" if "keeps (both (challenges_ok i m)) p"
      "both (challenges_ok i m) s" for p :: "'x sess" and m
      using that by (auto simp: with_session_def both_def rollback_def modify_def keeps_def split: prod.splits)
    show ?case
    proof (cases c)
      case None
      have "both (challenges_ok i n) (snd (with_session (resend_code k a mail i user) s))"
        by (intro step challenges_resend mail Cons.prems)
      with Cons.IH None show ?thesis by simp
    next
      case (Some code)
      obtain r s' where run: "confirm_code k a i code user s = (r, s')" by (cases "confirm_code k a i code user s")
      let ?s = "snd (with_session (confirm_code k a i code user) s)"
      have s: "with_session (confirm_code k a i code user) s = (r, ?s)" "?s = snd (rollback s')"
        by (simp_all add: with_session_def run)
      have eq: "wrong_guesses k a mail i user (c # cs) s
          = (if r = Inl wrong_code_error then 1 else 0) + wrong_guesses k a mail i user cs ?s"
        unfolding Some by (simp add: with_session_def run)
      have after: "both (challenges_ok i n) ?s" by (intro step challenges_confirm Cons.prems)
      show ?thesis
      proof (cases "r = Inl wrong_code_error")
        case False
        with Cons.IH [OF after] show ?thesis unfolding eq by simp
      next
        case True
        from Cons.prems have ok: "challenges_ok i n (working s)" by (simp add: both_def)
        from wrong_code_counts [OF run [unfolded True] ok] obtain m where m: "n = Suc m" "guesses_left i (committed s') \<le> m"
          by (metis Suc_le_D Suc_le_mono)
        have "both (challenges_ok i m) ?s"
          using after m by (simp add: s(2) rollback_def modify_def both_def challenges_ok_def)
        from Cons.IH [OF this] True m(1) show ?thesis unfolding eq by simp
      qed
    qed
  qed
  moreover have "both (challenges_ok i (guesses_left i (committed s))) s"
    using start by (simp add: both_def challenges_ok_def constraints_ok_def account_tables_ok_def)
  ultimately show ?thesis by (auto simp: guesses_left_def split: option.split)
qed

subsection \<open>Reset links\<close>

lemma reset_succeeds:
  assumes "reset_password k token secret s = (Inr email, s')"
  shows "\<exists>r u d. find (\<lambda>r. prs_token_hash r = pm_digest k token) (password_resets (account_tables (working s))) = Some r
    \<and> find_user (prs_user_id r) (working s) = Some u \<and> usr_is_active u \<and> fingerprint k u = prs_credential_fingerprint r
    \<and> prs_email r = email \<and> committed s' = d \<and> working s' = d
    \<and> rowcount (open_reset (pm_digest k token) (clock s (ticks s))) (password_resets (account_tables (working s))) = 1
    \<and> rowcount (\<lambda>x. unchanged_user u x \<and> usr_email x = prs_email r) (users (working s)) = 1
    \<and> users d = update_where (\<lambda>x. unchanged_user u x \<and> usr_email x = prs_email r)
        (\<lambda>x. x\<lparr>usr_password_hash := pm_hash k (uuids s (drawn s)) secret, usr_auth_version := usr_auth_version x + 1\<rparr>) (users (working s))
    \<and> password_resets (account_tables d) = update_where (open_reset (pm_digest k token) (clock s (ticks s))) (\<lambda>r. r\<lparr>prs_consumed_at := Some (clock s (ticks s))\<rparr>)
        (password_resets (account_tables (working s)))
    \<and> auth_sessions (account_tables d) = update_where (\<lambda>y. ses_user_id y = usr_id u \<and> ses_revoked_at y = None)
        (\<lambda>y. y\<lparr>ses_revoked_at := Some (clock s (Suc (ticks s)))\<rparr>) (auth_sessions (account_tables (working s)))"
  using assms
  by (auto simp: reset_password_def Let_def invalid_link_def hash_password_def consume_reset_def set_resets_def
      replace_password_def revoke_all_for_user_def set_sessions_def drop_verifications_def on_accounts_def run_simps
      split: if_splits option.splits)

lemma consumed_link_fails:
  assumes "\<And>t. rowcount (open_reset (pm_digest k token) t) (password_resets (account_tables (working s))) = 0"
  shows "\<exists>m s'. reset_password k token secret s = (Inl (Exn (HttpError 400) m), s') \<and> committed s' = committed s"
  using assms
  by (simp add: reset_password_def Let_def invalid_link_def hash_password_def consume_reset_def set_resets_def run_simps
      split: if_splits option.splits)


end
