(* ===== verification/AccountWitnesses.thy ===== *)
theory AccountWitnesses
  imports CredentialProperties
begin

section \<open>The account properties on concrete accounts\<close>

text \<open>Primitives with readable values: a hash is the password after a mark, a digest the token after
  a letter, and two tokens are known.\<close>

definition claims_payload :: "string \<Rightarrow> uuid \<Rightarrow> uuid \<Rightarrow> json" where
  "claims_payload kind user ses = JObj [(''sub'', JStr (uuid_text user)), (''av'', JInt 1), (''typ'', JStr kind),
     (''jti'', JStr (uuid_text 9)), (''exp'', JInt 2000000000), (''sid'', JStr (uuid_text ses))]"

definition plain_primitives :: primitives where
  "plain_primitives = \<lparr>pm_hash = (\<lambda>salt p. CHR ''#'' # p), pm_verify = (\<lambda>p h. h = CHR ''#'' # p),
     pm_digest = (\<lambda>t. CHR ''d'' # t), pm_hmac = (\<lambda>k m. CHR ''m'' # m), pm_encode = (\<lambda>j. ''fresh''),
     pm_decode = (\<lambda>t token. if token = ''access'' then Some (claims_payload ''access'' 1 5)
        else if token = ''refresh'' then Some (claims_payload ''refresh'' 1 5) else None)\<rparr>"

definition plain_auth :: AuthSettings where
  "plain_auth = \<lparr>aus_access_token_minutes = 15, aus_refresh_token_days = 7, aus_session_absolute_days = 30,
     aus_refresh_race_grace_seconds = 10, aus_jwt_secret = ''secret'', aus_jwt_issuer = ''radar'',
     aus_jwt_audience = ''radar'', aus_frontend_base_url = ''https://radar.example'', aus_cors_origins = [],
     aus_production = False\<rparr>"

definition plain_world :: account_world where
  "plain_world = \<lparr>aw_primitives = plain_primitives, aw_auth = plain_auth, aw_settings = sample_settings,
     aw_code_mail = (\<lambda>x y z. ret ()), aw_link_mail = (\<lambda>x y. ret ()), aw_notice_mail = (\<lambda>m. ret ()),
     aw_publication_hash = (\<lambda>p. []), aw_other_names = []\<rparr>"

definition plain_sign_in :: AuthSession where
  "plain_sign_in = \<lparr>ses_id = 5, ses_user_id = 1, ses_token_hash = ''drefresh'', ses_previous_token_hash = None,
     ses_rotated_at = None, ses_expires_at = noon + days 7, ses_revoked_at = None, ses_created_at = noon\<rparr>"

definition account_db :: db where
  "account_db = empty_db\<lparr>users := [sample_user 1 None, (sample_user 2 None)\<lparr>usr_role := RoleAdmin, usr_is_super_admin := True\<rparr>],
     account_tables := no_accounts\<lparr>auth_sessions := [plain_sign_in]\<rparr>\<rparr>"

definition account_session :: session where
  "account_session = open_session sample_env account_db"

lemma plain_world_simps [simp]:
  "aw_primitives plain_world = plain_primitives" "aw_auth plain_world = plain_auth"
  "quiet_mails plain_world" "timeless plain_primitives"
  by (auto simp: plain_world_def quiet_mails_def only_sends_def timeless_def plain_primitives_def ret_def split: if_splits)

lemma account_session_simps [simp]:
  "working account_session = account_db" "committed account_session = account_db"
  "clock account_session = env_clock sample_env" "ticks account_session = 0" "drawn account_session = 0"
  by (simp_all add: account_session_def)

lemma account_db_ok: "accounts_ok account_db" "constraints_ok account_db" "users_ok (users account_db)"
  by (simp_all add: accounts_ok_def closures_of_def account_db_def empty_db_def no_accounts_def constraints_ok_def
      sample_user_def account_tables_ok_def active_owners_def List.map_filter_def)

lemma uuid_texts: "uuid_of (uuid_text 1) = Some 1" "uuid_of (uuid_text 5) = Some 5" "uuid_of (uuid_text 9) = Some 9"
  by code_simp+

lemma plain_claims:
  "claims_of ''access'' (claims_payload ''access'' 1 5) = Inr \<lparr>tc_subject = 1, tc_jwt_id = 9, tc_session_id = Some 5,
     tc_expires_at = from_timestamp 2000000000, tc_auth_version = 1\<rparr>"
  "claims_of ''refresh'' (claims_payload ''refresh'' 1 5) = Inr \<lparr>tc_subject = 1, tc_jwt_id = 9, tc_session_id = Some 5,
     tc_expires_at = from_timestamp 2000000000, tc_auth_version = 1\<rparr>"
  by code_simp+

definition plain_token_claims :: TokenClaims where
  "plain_token_claims = \<lparr>tc_subject = 1, tc_jwt_id = 9, tc_session_id = Some 5,
     tc_expires_at = from_timestamp 2000000000, tc_auth_version = 1\<rparr>"

lemma plain_simps [simp]:
  "decode_at plain_primitives t ''access'' ''access'' = Inr plain_token_claims"
  "decode_at plain_primitives t ''refresh'' ''refresh'' = Inr plain_token_claims"
  "pm_digest plain_primitives x = CHR ''d'' # x" "pm_hash plain_primitives y x = CHR ''#'' # x"
  "pm_hmac plain_primitives z x = CHR ''m'' # x" "pm_verify plain_primitives x z = (z = CHR ''#'' # x)"
  "pm_encode plain_primitives j = ''fresh''"
  using plain_claims
  by (simp_all add: decode_at_def plain_primitives_def plain_token_claims_def)

lemma plain_claims_simps [simp]:
  "tc_subject plain_token_claims = 1" "tc_session_id plain_token_claims = Some 5" "tc_auth_version plain_token_claims = 1"
  by (simp_all add: plain_token_claims_def)

lemma plain_auth_simps [simp]:
  "aus_session_absolute_days plain_auth = 30" "aus_refresh_token_days plain_auth = 7"
  "aus_access_token_minutes plain_auth = 15" "aus_refresh_race_grace_seconds plain_auth = 10"
  by (simp_all add: plain_auth_def)

lemma lower_bearer: "lower ''Bearer'' = ''bearer''"
  by code_simp

lemma plain_current_user:
  assumes "find_user 1 (working s) = Some u" and "usr_is_active u" and "usr_auth_version u = 1" and "usr_id u = 1"
    and "find_session 5 (working s) = Some plain_sign_in" and "clock s = env_clock sample_env" and "ticks s < 1000"
  shows "current_user plain_primitives plain_auth (Some (''Bearer'', ''access'')) s = (Inr u, s\<lparr>ticks := ticks s + 3\<rparr>)"
  using assms
  by (simp add: current_user_def lower_bearer decode_token_def plain_sign_in_def sample_env_def noon_def from_timestamp_def run_simps)

text \<open>The account is renamed, and its token still works.\<close>

definition rename :: "account_command list" where
  "rename = [UpdateProfile 1 \<lparr>upd_email = None, upd_full_name = Some ''Ada L''\<rparr>]"

lemma renamed:
  "find_user 1 (working (account_run plain_world rename (account_session\<lparr>ticks := 3\<rparr>)))
     = Some ((sample_user 1 None)\<lparr>usr_full_name := ''Ada L''\<rparr>)"
  "find_session 5 (working (account_run plain_world rename (account_session\<lparr>ticks := 3\<rparr>))) = Some plain_sign_in"
  "clock (account_run plain_world rename (account_session\<lparr>ticks := 3\<rparr>)) = env_clock sample_env"
  "ticks (account_run plain_world rename (account_session\<lparr>ticks := 3\<rparr>)) = 3"
  using account_db_ok
  by (simp_all add: rename_def with_session_def ignoring_def update_profile_def loaded_user_def the_value_def find_user_def
      get_row_def set_user_def named_def conflict_on_commit_def run_simps account_db_def sample_user_def find_session_def
      update_where_def constraints_ok_def plain_sign_in_def)

lemma token_stays_good_or_dead_witness:
  "\<exists>u. fst (current_user plain_primitives plain_auth (Some (''Bearer'', ''access'')) account_session) = Inr (sample_user 1 None)
    \<and> fst (current_user plain_primitives plain_auth (Some (''Bearer'', ''access''))
        (account_run plain_world rename (account_session\<lparr>ticks := 3\<rparr>))) = Inr u
    \<and> usr_full_name u = ''Ada L'' \<and> usr_auth_version u = 1 \<and> usr_password_hash u = ''hash'' \<and> \<not> is_closing u"
proof -
  have rows: "find_user 1 account_db = Some (sample_user 1 None)" "find_session 5 account_db = Some plain_sign_in"
    by (simp_all add: find_user_def find_session_def get_row_def account_db_def sample_user_def plain_sign_in_def)
  have user: "usr_is_active (sample_user 1 None)" "usr_auth_version (sample_user 1 None) = 1" "usr_id (sample_user 1 None) = 1"
    "usr_password_hash (sample_user 1 None) = ''hash''"
    by (simp_all add: sample_user_def)
  from plain_current_user [of account_session "sample_user 1 None"]
  have first: "current_user plain_primitives plain_auth (Some (''Bearer'', ''access'')) account_session
      = (Inr (sample_user 1 None), account_session\<lparr>ticks := 3\<rparr>)"
    using rows user by simp
  let ?s1 = "account_run plain_world rename (account_session\<lparr>ticks := 3\<rparr>)"
  let ?u = "(sample_user 1 None)\<lparr>usr_full_name := ''Ada L''\<rparr>"
  have second: "current_user plain_primitives plain_auth (Some (''Bearer'', ''access'')) ?s1 = (Inr ?u, ?s1\<lparr>ticks := 6\<rparr>)"
    using plain_current_user [of ?s1 ?u] renamed user by simp
  have "account_run plain_world [] ?s1 = ?s1" by simp
  with token_stays_good_or_dead [where w = plain_world and ?s0.0 = account_session and cs = rename and cs' = "[]"
      and kind = "''Bearer''" and token = "''access''" and ?u0.0 = "sample_user 1 None" and s0' = "account_session\<lparr>ticks := 3\<rparr>"
      and ?s1.0 = ?s1 and ?u2.0 = ?u and ?s2.0 = "?s1\<lparr>ticks := 6\<rparr>"] first second account_db_ok user
  show ?thesis by simp
qed


text \<open>A closing account with a digest, a sign-in, and two messages, one of them under a hold.\<close>

definition plain_closure :: AccountClosure where
  "plain_closure = new_closure 3 3 ''eve@example.org'' [] noon"

definition plain_message :: "uuid \<Rightarrow> bool \<Rightarrow> ContactMessage" where
  "plain_message i hold = \<lparr>cme_id = i, cme_user_id = Some 3, cme_name = ''Eve'', cme_email = ''eve@example.org'',
     cme_message = ''Hello'', cme_created_at = noon, cme_reviewed_at = None, cme_retention_hold = hold\<rparr>"

definition closing_db :: db where
  "closing_db = empty_db\<lparr>users := [sample_user 3 (Some noon)], digests := [sample_digest 7 3],
     account_tables := no_accounts\<lparr>account_closures := [plain_closure],
       contact_messages := [plain_message 21 True, plain_message 22 False]\<rparr>\<rparr>"

lemma closing_db_ok: "accounts_ok closing_db" "constraints_ok closing_db"
  "find_closure 3 closing_db = Some plain_closure" "find_user 3 closing_db = Some (sample_user 3 (Some noon))"
  by (simp_all add: accounts_ok_def closures_of_def closing_db_def empty_db_def no_accounts_def constraints_ok_def find_user_def
      find_closure_def get_row_def plain_closure_def new_closure_def settled_closure_def
      sample_user_def account_tables_ok_def active_owners_def List.map_filter_def)

lemma closure_is_final_witness:
  "\<exists>c u. find_closure 3 (committed (account_run plain_world [RetryClosure 3, UpdateUser (sample_user 1 None) 3
      \<lparr>adu_email = None, adu_full_name = None, adu_is_active = Some True\<rparr>] (open_session sample_env closing_db))) = Some c
    \<and> find_user 3 (committed (account_run plain_world [RetryClosure 3, UpdateUser (sample_user 1 None) 3
      \<lparr>adu_email = None, adu_full_name = None, adu_is_active = Some True\<rparr>] (open_session sample_env closing_db))) = Some u
    \<and> clo_requested_at c = noon \<and> \<not> usr_is_active u"
  using closure_is_final [where w = plain_world and s = "open_session sample_env closing_db" and i = 3 and c = plain_closure
      and cs = "[RetryClosure 3, UpdateUser (sample_user 1 None) 3
      \<lparr>adu_email = None, adu_full_name = None, adu_is_active = Some True\<rparr>]", OF _ _ _ _ _ refl] closing_db_ok
  by (fastforce simp: plain_closure_def new_closure_def)


text \<open>A refresh, the token used again, and a challenge that is guessed at.\<close>

lemma account_db_sessions_ok:
  "(\<And>x. ses_id (f x) = ses_id x) \<Longrightarrow>
    constraints_ok (on_accounts (\<lambda>a. a\<lparr>auth_sessions := map f (auth_sessions a)\<rparr>) account_db)"
  by (simp add: account_db_def empty_db_def no_accounts_def constraints_ok_def sample_user_def account_tables_ok_def
      active_owners_def List.map_filter_def on_accounts_def)


definition challenge_db :: db where
  "challenge_db = account_db\<lparr>account_tables := no_accounts\<lparr>email_verifications := [\<lparr>emv_id = 8, emv_email = ''new@example.org'',
     emv_user_id = None, emv_full_name = Some ''Eve'', emv_password_hash = Some ''#pw'', emv_code_hash = ''mcode'', emv_sent_at = noon,
     emv_code_expires_at = noon + days 1, emv_expires_at = noon + days 1, emv_attempts = 48, emv_legal_agreement_at = Some noon,
     emv_terms_version = None, emv_privacy_version = None\<rparr>]\<rparr>\<rparr>"

lemma code_guesses_are_bounded_witness:
  "wrong_guesses plain_primitives plain_auth (\<lambda>x y z. ret ()) 8 None [Some ''000000'', None, Some ''111111'', Some ''222222'']
     (open_session sample_env challenge_db) \<le> 2"
proof -
  have "constraints_ok challenge_db"
    by (simp add: challenge_db_def account_db_def empty_db_def no_accounts_def constraints_ok_def sample_user_def account_tables_ok_def
        active_owners_def List.map_filter_def)
  moreover have "guesses_left 8 challenge_db = 2"
    by (simp add: guesses_left_def find_verification_def challenge_db_def MAX_CODE_ATTEMPTS_def)
  ultimately show ?thesis
    using code_guesses_are_bounded [of "\<lambda>x y z. ret ()" "open_session sample_env challenge_db" plain_primitives plain_auth 8 None]
    by (simp add: only_sends_def ret_def del: wrong_guesses.simps)
qed

definition reset_db :: db where
  "reset_db = account_db\<lparr>account_tables := no_accounts\<lparr>auth_sessions := [plain_sign_in], password_resets := [\<lparr>prs_user_id = 1,
     prs_token_hash = ''dlink'', prs_email = ''ada@example.org'', prs_credential_fingerprint = ''dhash:ada@example.org'',
     prs_expires_at = noon + minutes 30, prs_consumed_at = None\<rparr>]\<rparr>\<rparr>"


end
