(* ===== verification/StripeChanges.thy ===== *)
theory StripeChanges
  imports StripeRequests
begin

section \<open>Changes and upgrades send only what they have saved\<close>

text \<open>
  The same for the renewal changes and the upgrades: the parameters of a schedule are saved
  before it is configured and never replaced, those of an upgrade with its preview.
\<close>

subsection \<open>Renewal changes\<close>

lemma change_key_eq: "change_key ch step = Some (schedule_key (ch_id ch) step)"
  by (simp add: change_key_def schedule_key_def)

lemma small_update_change:
  "(\<And>x. ch_id (f x) = ch_id x) \<Longrightarrow> small d \<Longrightarrow> small (d\<lparr>changes := update_where p f (changes d)\<rparr>)"
  by (auto simp: small_def set_update_where)

lemma constraints_changes: "constraints_ok (d\<lparr>changes := xs\<rparr>) = constraints_ok d"
  by (simp add: constraints_ok_def)

lemma changed_intent:
  assumes "\<And>x. ch_id (f x) = ch_id x"
  shows "map_of (fst (snd (intents_of (d\<lparr>changes := update_where (\<lambda>r. ch_id r = i) f (changes d)\<rparr>)))) j
    = map_option (\<lambda>x. if ch_id x = i then (ch_schedule_id (f x), ch_parameters (f x)) else (ch_schedule_id x, ch_parameters x))
        (get_row ch_id j (changes d))"
  using assms by (simp add: intents_rows get_row_update_where option.map_comp comp_def if_distrib cong: if_cong)

lemma extends_change:
  assumes "\<And>x. ch_id (f x) = ch_id x"
    and "\<And>x. get_row ch_id i (changes d) = Some x \<Longrightarrow> (has_text (ch_schedule_id x) \<longrightarrow> ch_schedule_id (f x) = ch_schedule_id x)
      \<and> (ch_parameters x \<noteq> [] \<longrightarrow> ch_parameters (f x) = ch_parameters x)"
  shows "extends (intents_of d) (intents_of (d\<lparr>changes := update_where (\<lambda>r. ch_id r = i) f (changes d)\<rparr>))"
proof -
  let ?d = "d\<lparr>changes := update_where (\<lambda>r. ch_id r = i) f (changes d)\<rparr>"
  have "\<exists>sid' ps'. map_of (fst (snd (intents_of ?d))) j = Some (sid', ps')
      \<and> (has_text sid \<longrightarrow> sid' = sid) \<and> (ps \<noteq> [] \<longrightarrow> ps' = ps)"
    if old: "map_of (fst (snd (intents_of d))) j = Some (sid, ps)" for j sid ps
  proof -
    from old obtain x where x: "get_row ch_id j (changes d) = Some x" "sid = ch_schedule_id x" "ps = ch_parameters x"
      by (auto simp: intents_rows)
    then have "ch_id x = j" by (auto dest: get_row_Some)
    with x assms(2) show ?thesis
      by (cases "j = i") (simp_all add: changed_intent [OF assms(1)])
  qed
  moreover have "fst (intents_of ?d) = fst (intents_of d)" "snd (snd (intents_of ?d)) = snd (snd (intents_of d))"
    by (simp_all add: intents_of_def)
  ultimately show ?thesis unfolding extends_def by simp
qed

lemma having_set_schedule:
  assumes "\<not> has_text (ch_schedule_id ch)"
  shows "leads (having (change_saved ch)) (seq (set_change (ch_id ch) (\<lambda>x. x\<lparr>ch_schedule_id := Some sid\<rparr>)) commit) accounted"
  unfolding set_change_def
proof (rule having_publish)
  fix d assume d: "small d" "change_saved ch (intents_of d)"
  have "extends (intents_of d) (intents_of (d\<lparr>changes := update_where (\<lambda>r. ch_id r = ch_id ch)
      (\<lambda>x. x\<lparr>ch_schedule_id := Some sid\<rparr>) (changes d)\<rparr>))"
    using d(2) assms by (intro extends_change) (auto simp: change_saved_def intents_rows)
  with d(1) show "small (d\<lparr>changes := update_where (\<lambda>r. ch_id r = ch_id ch)
      (\<lambda>x. x\<lparr>ch_schedule_id := Some sid\<rparr>) (changes d)\<rparr>)
    \<and> extends (intents_of d) (intents_of (d\<lparr>changes := update_where (\<lambda>r. ch_id r = ch_id ch)
      (\<lambda>x. x\<lparr>ch_schedule_id := Some sid\<rparr>) (changes d)\<rparr>))"
    by (auto intro: small_update_change)
qed (simp add: constraints_changes)

lemma having_set_parameters:
  assumes "ch_parameters ch = []"
  shows "leads (having (change_saved ch)) (seq (set_change (ch_id ch) (\<lambda>x. x\<lparr>ch_parameters := ps\<rparr>)) commit) accounted"
  unfolding set_change_def
proof (rule having_publish)
  fix d assume d: "small d" "change_saved ch (intents_of d)"
  have "extends (intents_of d) (intents_of (d\<lparr>changes := update_where (\<lambda>r. ch_id r = ch_id ch)
      (\<lambda>x. x\<lparr>ch_parameters := ps\<rparr>) (changes d)\<rparr>))"
    using d(2) assms by (intro extends_change) (auto simp: change_saved_def intents_rows)
  with d(1) show "small (d\<lparr>changes := update_where (\<lambda>r. ch_id r = ch_id ch)
      (\<lambda>x. x\<lparr>ch_parameters := ps\<rparr>) (changes d)\<rparr>)
    \<and> extends (intents_of d) (intents_of (d\<lparr>changes := update_where (\<lambda>r. ch_id r = ch_id ch)
      (\<lambda>x. x\<lparr>ch_parameters := ps\<rparr>) (changes d)\<rparr>))"
    by (auto intro: small_update_change)
qed (simp add: constraints_changes)

lemma having_create_schedule:
  assumes "\<not> has_text (ch_schedule_id ch)"
  shows "leads (having (change_saved ch)) (create_schedule s c ch value) accounted"
proof -
  have "keeps (having (change_saved ch)) (request s ''POST'' ''subscription_schedules''
      [(''from_subscription'', text_or_none (co_subscription_id c))] (change_key ch ''create''))"
    unfolding change_key_eq
    by (rule having_post, unfold change_saved_def) (blast intro: authorised.creation)
  moreover have fill: "leads (having (change_saved ch))
      (seq (set_change (ch_id ch) (\<lambda>x. x\<lparr>ch_schedule_id := Some sid\<rparr>)) (seq commit m)) accounted"
    if "keeps accounted m" for sid and m :: "bool sess"
    unfolding seq_assoc [of "set_change _ _"] by (rule leads_seq [OF having_set_schedule [OF assms] that])
  ultimately show ?thesis
    unfolding create_schedule_def review_change_def
    by (intro fill having_then leads_if having_end [of "seq (set_change _ _) (ret _)"] having_seq [of _ "guard _ _ _"])
       (auto intro!: keeps_intros)
qed

lemma stripe_id_text: "stripe_id (c # p) (jtext t) = Inr i \<Longrightarrow> has_text t"
  by (cases t; cases "the t") (auto simp: stripe_id_def has_text_def startswith_def jtext_def)

lemma verified_has_text: "yields I (verified_schedule s c ch) (\<lambda>v s. has_text (ch_schedule_id ch))"
  unfolding verified_schedule_def
  by (rule yields_bind [where R = "\<lambda>v s. has_text (ch_schedule_id ch)"], rule yields_lift, erule stripe_id_text)
    (simp add: yields_def)

lemma having_verified:
  assumes "\<And>v. has_text (ch_schedule_id ch) \<Longrightarrow> leads (having P) (f v) accounted"
  shows "leads (having P) (bind (verified_schedule s c ch) f) accounted"
proof (rule having_learn [OF having.o_change_parts(3) verified_has_text])
  show "leads (having (\<lambda>w. P w \<and> has_text (ch_schedule_id ch))) (f v) accounted" for v
    using assms by (auto simp: leads_def having_def)
qed

text \<open>What a change still to be configured is sent with.\<close>

definition configurable :: "SubscriptionChange \<Rightarrow> intents \<Rightarrow> bool" where
  "configurable ch w \<longleftrightarrow> (\<exists>ps. map_of (fst (snd w)) (ch_id ch) = Some (ch_schedule_id ch, ps) \<and> ps \<noteq> [])"

lemma yields_publish:
  "(\<And>d. P (intents_of d) \<Longrightarrow> Q (intents_of (f d)))
    \<Longrightarrow> yields (having P) (seq (change f) commit) (\<lambda>v s. Q (intents_of (working s)))"
  by (auto simp: yields_def having_def run_simps split: if_splits)

lemma yields_having:
  "leads (having P) m accounted \<Longrightarrow> yields (having P) m (\<lambda>v s. Q v (intents_of (working s)))
    \<Longrightarrow> yields (having P) m (\<lambda>v. having (Q v))"
  unfolding leads_def yields_def having_def by (metis snd_conv)

lemma configuration_nonempty: "configuration ch begins \<noteq> []"
  by (simp add: configuration_def)

lemma prepared_parameters:
  assumes "ch_parameters ch = []"
  shows "leads (having (change_saved ch)) (seq (set_change (ch_id ch) (\<lambda>x. x\<lparr>ch_parameters := configuration ch b\<rparr>)) commit) accounted"
    and "yields (having (change_saved ch)) (seq (set_change (ch_id ch) (\<lambda>x. x\<lparr>ch_parameters := configuration ch b\<rparr>)) commit)
      (\<lambda>v. having (configurable ch))"
proof -
  show l: "leads (having (change_saved ch)) (seq (set_change (ch_id ch) (\<lambda>x. x\<lparr>ch_parameters := configuration ch b\<rparr>)) commit) accounted"
    using assms by (rule having_set_parameters)
  have "yields (having (change_saved ch)) (seq (set_change (ch_id ch) (\<lambda>x. x\<lparr>ch_parameters := configuration ch b\<rparr>)) commit)
      (\<lambda>v s. configurable ch (intents_of (working s)))"
    unfolding set_change_def
  proof (rule yields_publish)
    fix d assume "change_saved ch (intents_of d)"
    then obtain x where x: "get_row ch_id (ch_id ch) (changes d) = Some x" "ch_schedule_id x = ch_schedule_id ch"
      by (auto simp: change_saved_def intents_rows)
    then have "ch_id x = ch_id ch" by (auto dest: get_row_Some)
    with x show "configurable ch (intents_of (d\<lparr>changes := update_where (\<lambda>r. ch_id r = ch_id ch)
        (\<lambda>x. x\<lparr>ch_parameters := configuration ch b\<rparr>) (changes d)\<rparr>))"
      by (simp add: configurable_def changed_intent configuration_nonempty)
  qed
  with l show "yields (having (change_saved ch)) (seq (set_change (ch_id ch) (\<lambda>x. x\<lparr>ch_parameters := configuration ch b\<rparr>)) commit)
      (\<lambda>v. having (configurable ch))"
    by (rule yields_having)
qed

lemma having_prepare:
  assumes "\<And>go. leads (having (configurable ch)) (f go) accounted"
  shows "leads (having (change_saved ch)) (bind (prepare_parameters ch current) f) accounted"
proof (cases "ch_parameters ch = []")
  case False
  then have "leads (having (change_saved ch)) (f True) accounted"
    using assms [of True]
    by (auto simp: leads_def having_def change_saved_def configurable_def)
  with False show ?thesis by (simp add: prepare_parameters_def)
next
  case True
  let ?fill = "\<lambda>b. seq (set_change (ch_id ch) (\<lambda>x. x\<lparr>ch_parameters := configuration ch b\<rparr>)) commit"
  have "leads (having (change_saved ch)) (bind (?fill b) (\<lambda>u. bind (seq (lock_billing (ch_user_id ch) False)
      (bind (load_change (ch_id ch)) (\<lambda>x. ret (ch_state x = ''preparing'')))) f)) accounted" for b
    by (rule having_bind [OF prepared_parameters [OF True]], rule having_then [OF _ assms])
      (intro keeps_intros)
  then have "leads (having (change_saved ch)) (bind (lift_result (source_phase ch current)) (\<lambda>b. bind (?fill b)
      (\<lambda>u. bind (seq (lock_billing (ch_user_id ch) False)
      (bind (load_change (ch_id ch)) (\<lambda>x. ret (ch_state x = ''preparing'')))) f))) accounted"
    by (rule having_then [OF keeps_lift_result])
  with True show ?thesis by (simp add: prepare_parameters_def seq_def bind_assoc)
qed

lemma having_configure:
  assumes "\<And>w. P w \<Longrightarrow> configurable ch w \<and> change_saved x w" and "ch_id x = ch_id ch" and "has_text (ch_schedule_id ch)"
  shows "keeps (having P) (request s ''POST'' (''subscription_schedules/'' @ text_or_none (ch_schedule_id x))
    (ch_parameters x) (change_key x ''configure''))"
  unfolding change_key_eq
proof (rule having_post)
  fix w assume "P w"
  then have "configurable ch w" "change_saved x w" using assms(1) by blast+
  with assms(2,3) obtain sid where "map_of (fst (snd w)) (ch_id x) = Some (Some sid, ch_parameters x)"
    "ch_parameters x \<noteq> []" "sid \<noteq> []" "ch_schedule_id x = Some sid" "ch_id x < uuid_limit"
    by (cases "ch_schedule_id ch") (auto simp: configurable_def change_saved_def has_text_def)
  then show "authorised w \<lparr>cl_method = ''POST'', cl_path = ''subscription_schedules/'' @ text_or_none (ch_schedule_id x),
      cl_data = ch_parameters x, cl_key = Some (schedule_key (ch_id x) ''configure'')\<rparr>"
    by (simp only: text_or_none_def option.case) (rule authorised.configuring)
qed

lemma accounted_scheduled_notice [keeps_intros]: "keeps accounted (scheduled_notice ch)" "keeps accounted (review_change i m)"
  unfolding scheduled_notice_def review_change_def by (intro keeps_intros; simp)+

lemma accounted_configure_schedule [keeps_intros]: "keeps accounted (configure_schedule s c i)"
proof -
  have go: "leads (having (configurable ch)) (if \<not> go then ret () else bind (load_change i) (\<lambda>x.
      bind (request s ''POST'' (''subscription_schedules/'' @ text_or_none (ch_schedule_id x)) (ch_parameters x)
         (change_key x ''configure'')) (\<lambda>_. m x))) accounted"
    if "ch_id ch = i" "has_text (ch_schedule_id ch)" "\<And>x. keeps accounted (m x)" for ch go m
    by (intro leads_if having_load_change having_then having_configure)
       (use that in \<open>auto intro!: having_end keeps_intros\<close>)
  show ?thesis
    unfolding configure_schedule_def
    by (rule accounted_from, rule having_load_change, rule having_verified, simp,
        intro go having_then leads_if having_seq having_prepare [THEN leads_weaken])
      (auto intro!: keeps_intros having_end simp: having_def)
qed

lemma having_advance_preparing: "leads (having (change_saved ch)) (advance_preparing s c ch) accounted"
proof -
  have "leads (having (change_saved ch)) (bind (if has_text (ch_schedule_id ch) then ret True else create_schedule s c ch v)
      (\<lambda>go. if go then configure_schedule s c (ch_id ch) else ret ())) accounted" for v
  proof (cases "has_text (ch_schedule_id ch)")
    case True
    then show ?thesis by (simp add: having_end keeps_intros)
  next
    case False
    then show ?thesis
      unfolding if_not_P [OF False]
      by (intro leads_then having_create_schedule) (auto intro!: keeps_intros)
  qed
  then show ?thesis unfolding advance_preparing_def by (rule having_then [OF having.o_only_reads(6)])
qed

lemma having_release:
  assumes "has_text (ch_schedule_id ch)"
  shows "keeps (having (change_saved ch)) (request s ''POST'' (''subscription_schedules/'' @ text_or_none (ch_schedule_id ch) @ ''/release'')
      [(''preserve_cancel_date'', ''true'')] (change_key ch ''release''))"
  unfolding change_key_eq
proof (rule having_post)
  fix w assume "change_saved ch w"
  with assms obtain sid where "map_of (fst (snd w)) (ch_id ch) = Some (Some sid, ch_parameters ch)"
    "sid \<noteq> []" "ch_schedule_id ch = Some sid" "ch_id ch < uuid_limit"
    by (cases "ch_schedule_id ch") (auto simp: change_saved_def has_text_def)
  then show "authorised w \<lparr>cl_method = ''POST'', cl_path = ''subscription_schedules/'' @ text_or_none (ch_schedule_id ch) @ ''/release'',
      cl_data = [(''preserve_cancel_date'', ''true'')], cl_key = Some (schedule_key (ch_id ch) ''release'')\<rparr>"
    by (simp only: text_or_none_def option.case) (rule authorised.release)
qed

lemma accounted_settle_release [keeps_intros]: "keeps accounted (settle_release s c i value)"
  unfolding settle_release_def by (intro keeps_intros; simp)

lemma having_advance_release: "leads (having (change_saved ch)) (advance_release s c ch) accounted"
proof -
  have late: "keeps accounted (set_change i (\<lambda>x. if ch_state x = ''undoing'' then x\<lparr>ch_state := ''scheduled''\<rparr> else x))" for i
    by (intro keeps_intros) simp_all
  have post: "leads (having (change_saved ch)) (bind (request s ''POST'' (''subscription_schedules/'' @ text_or_none (ch_schedule_id ch) @ ''/release'')
      [(''preserve_cancel_date'', ''true'')] (change_key ch ''release'')) (\<lambda>_. m)) accounted"
    if "has_text (ch_schedule_id ch)" "keeps accounted m" for m :: "unit sess"
    by (rule having_then [OF having_release [OF that(1)] having_end [OF that(2)]])
  show ?thesis unfolding advance_release_def
    by (rule having_verified, intro post having_then [of _ "lift_result _"] having_then [of _ "if _ then _ else _"] leads_if)
      (auto intro!: having_end late keeps_intros)
qed

lemma accounted_advance_review [keeps_intros]: "keeps accounted (advance_review s c ch)"
  unfolding advance_review_def by (intro keeps_intros)

lemma having_advance: "leads (having (change_saved ch)) (advance s ch) accounted"
  unfolding advance_def
  by (intro having_then [of _ "load_checkout _"] leads_if having_advance_preparing having_advance_release)
    (auto intro!: having_end keeps_intros)

lemma owned_change_saved:
  "yields (having P) (owned_change user i) (\<lambda>x s. (\<lambda>w. ch_id x = i \<and> change_saved x w) (intents_of (working s)))"
  unfolding owned_change_def
  by (auto simp: yields_def run_simps change_saved_def intents_rows having_def accounted_def
      split: option.splits if_splits dest: small_rows get_row_Some)

lemma having_owned_change:
  assumes "\<And>x. ch_id x = i \<Longrightarrow> leads (having (change_saved x)) (f x) accounted"
  shows "keeps accounted (bind (owned_change user i) f)"
  by (rule accounted_from, rule having_learn [OF having.o_offers(11) owned_change_saved], rule leads_if_fact,
      rule leads_weaken [OF assms]) (auto simp: having_def)

lemma accounted_retry_change [keeps_intros]: "keeps accounted (retry_change s user i)"
proof -
  have body: "leads (having (change_saved ch)) (seq (stripe_client s) (seq (advance s ch) m)) accounted"
    if "keeps accounted m" for ch and m :: "unit sess"
    by (intro having_seq [of _ "stripe_client s"] leads_seq having_advance that keeps_intros)
  show ?thesis unfolding retry_change_def failed_change_def Let_def
    by (intro keeps_seq having_owned_change leads_seq leads_catch body) (auto intro!: keeps_intros)
qed

lemma drawn_id: "yields (having P) uuid4 (\<lambda>i. having (\<lambda>w. i < uuid_limit))"
  by (auto simp: yields_def having_def accounted_def uuid4_def)

lemma having_drawn:
  assumes "\<And>i. leads (having (\<lambda>w. i < uuid_limit)) (f i) accounted"
  shows "leads (having P) (bind uuid4 f) accounted"
  by (rule having_bind [OF having_end drawn_id assms]) (intro keeps_intros)

lemma having_add_change:
  assumes "ch_id row < uuid_limit"
  shows "leads (having P) (seq (change (\<lambda>d. d\<lparr>changes := changes d @ [row]\<rparr>)) commit) accounted"
proof (rule having_publish)
  fix d assume "small d"
  with assms show "small (d\<lparr>changes := changes d @ [row]\<rparr>)
      \<and> extends (intents_of d) (intents_of (d\<lparr>changes := changes d @ [row]\<rparr>))"
    by (auto simp: small_def intents_of_def extends_append)
qed (simp add: constraints_changes)

lemma accounted_save_intent [keeps_intros]: "keeps accounted (save_intent s user c code revision interval ends ids)"
proof -
  have add: "leads (having (\<lambda>w. i < uuid_limit)) (seq (change (\<lambda>d. d\<lparr>changes := changes d
      @ [new_change i user c target interval ends chosen due created]\<rparr>)) (seq commit (ret i))) accounted"
    for i target chosen due created
  proof (cases "i < uuid_limit")
    case True
    then show ?thesis unfolding seq_assoc [of "change _"]
      by (intro leads_seq having_add_change keeps_intros) (simp add: new_change_def)
  next
    case False
    then show ?thesis by (simp add: leads_def having_def)
  qed
  show ?thesis unfolding save_intent_def
    by (rule accounted_from, intro add having_drawn having_then having_seq keeps_intros)
qed

lemma accounted_schedule_change [keeps_intros]:
  "keeps accounted (schedule_change s user code revision interval expected_end ids)"
  unfolding schedule_change_def by (intro keeps_intros)

lemma accounted_undo_change [keeps_intros]: "keeps accounted (undo_change s user i)"
  unfolding undo_change_def by (intro keeps_intros; simp)

lemma accounted_tick_changes [keeps_intros]: "keeps accounted (tick_changes s)"
  unfolding tick_changes_def by (intro keeps_intros)

subsection \<open>Paid upgrades\<close>

lemma having_load_submitted:
  assumes "\<And>u. leads (having (upgrade_saved u)) (f u) accounted"
  shows "keeps accounted (bind (load upgrades up_id i) f)"
  by (rule accounted_from, rule having_load_upgrade, rule leads_weaken [OF assms]) (auto simp: having_def)

lemma accounted_quote_charge [keeps_intros]: "keeps accounted (quote_charge s c u)"
  unfolding quote_charge_def by (intro keeps_intros)

definition add_quote :: "uuid \<Rightarrow> SubscriptionUpgrade \<Rightarrow> db \<Rightarrow> db" where
  "add_quote user u d = d\<lparr>upgrades := update_where (\<lambda>x. up_user_id x = user \<and> up_state x = ''preview'')
     (\<lambda>x. x\<lparr>up_state := ''expired''\<rparr>) (upgrades d) @ [u]\<rparr>"

lemma having_add_quote:
  assumes "up_id u < uuid_limit"
  shows "leads (having P) (seq (change (add_quote user u)) commit) accounted"
proof (rule having_publish)
  have eq: "intents_of (add_quote user u d) = (fst (intents_of d), fst (snd (intents_of d)),
      snd (snd (intents_of d)) @ [(up_id u, up_parameters u)])" for d
    by (simp add: add_quote_def intents_of_def)
  fix d assume "small d"
  with assms extends_append(3) [of "fst (intents_of d)" "fst (snd (intents_of d))" "snd (snd (intents_of d))"]
  show "small (add_quote user u d) \<and> extends (intents_of d) (intents_of (add_quote user u d))"
    by (auto simp: small_intents eq)
qed (simp add: add_quote_def constraints_ok_def)

lemma accounted_preview_upgrade [keeps_intros]: "keeps accounted (preview_upgrade s user code revision)"
proof -
  have add: "leads (having (\<lambda>w. up_id u < uuid_limit)) (seq (change (\<lambda>d. d\<lparr>upgrades := update_where
      (\<lambda>x. up_user_id x = user \<and> up_state x = ''preview'') (\<lambda>x. x\<lparr>up_state := ''expired''\<rparr>) (upgrades d) @ [u]\<rparr>))
      (seq commit m)) accounted" if "keeps accounted m" for u and m :: "SerializedUpgrade sess"
  proof (cases "up_id u < uuid_limit")
    case True
    then show ?thesis unfolding add_quote_def [symmetric] seq_assoc [of "change _"]
      by (intro leads_seq having_add_quote that)
  next
    case False
    then show ?thesis by (simp add: leads_def having_def)
  qed
  have quoted: "leads (having (\<lambda>w. i < uuid_limit)) (bind (quote_charge s c (previewed_upgrade i user c source target item invoice period t created))
      (\<lambda>quote. seq (change (\<lambda>d. d\<lparr>upgrades := update_where
      (\<lambda>x. up_user_id x = user \<and> up_state x = ''preview'') (\<lambda>x. x\<lparr>up_state := ''expired''\<rparr>) (upgrades d)
        @ [(previewed_upgrade i user c source target item invoice period t created)\<lparr>up_quote := quote,
            up_parameters := upgrade_parameters (previewed_upgrade i user c source target item invoice period t created)\<rparr>]\<rparr>))
      (seq commit (m quote)))) accounted"
    if "\<And>q. keeps accounted (m q)" for i c source target item invoice period t created and m :: "UpgradeQuoteRecord \<Rightarrow> SerializedUpgrade sess"
  proof (rule having_then)
    show "keeps (having (\<lambda>w. i < uuid_limit)) (quote_charge s c (previewed_upgrade i user c source target item invoice period t created))"
      unfolding quote_charge_def by (intro keeps_intros having_post authorised.unkeyed) simp
  qed (rule leads_weaken [OF add [OF that]], simp add: having_def previewed_upgrade_def)
  show ?thesis unfolding preview_upgrade_def Let_def
    by (rule accounted_from, intro quoted having_drawn having_then having_seq leads_case_prod keeps_intros)
qed

lemma having_upgrade_request: "keeps (having (upgrade_saved u)) (upgrade_request s c u)"
  unfolding upgrade_request_def
  by (rule having_post, unfold upgrade_saved_def upgrade_key_def [symmetric]) (blast intro: authorised.upgrading)

lemma having_submit_upgrade: "leads (having (upgrade_saved u)) (submit_upgrade s c u) accounted"
proof -
  have post: "leads (having (upgrade_saved u)) (bind (upgrade_request s c u) (\<lambda>_. m)) accounted"
    if "keeps accounted m" for m :: "unit sess"
    by (rule having_then [OF having_upgrade_request having_end [OF that]])
  show ?thesis unfolding submit_upgrade_def
    by (intro post leads_if having_then) (auto intro!: having_end keeps_intros)
qed

lemma accounted_advance_upgrade [keeps_intros]: "keeps accounted (advance_upgrade s c i)"
proof -
  have submit: "leads (having (upgrade_saved u)) (bind now (\<lambda>stamp. if submitted_too_long u stamp
      then review_upgrade i m else submit_upgrade s c u)) accounted" for u c m
    by (intro having_then leads_if having_submit_upgrade) (auto intro!: having_end keeps_intros)
  show ?thesis unfolding advance_upgrade_def
    by (intro keeps_seq having_load_submitted having_then [of _ "load_checkout _"] leads_seq leads_if submit)
      (auto intro!: having_end keeps_intros)
qed

lemma accounted_retry_upgrade [keeps_intros]: "keeps accounted (retry_upgrade s user i)"
  unfolding retry_upgrade_def failed_upgrade_def Let_def by (intro keeps_intros; simp)

lemma accounted_upgrade_commands [keeps_intros]:
  "keeps accounted (confirm_upgrade s user i)" "keeps accounted (pay_upgrade s user i)" "keeps accounted (tick_upgrades s)"
  unfolding confirm_upgrade_def pay_upgrade_def tick_upgrades_def by (intro keeps_intros; simp)+

end
