(* ===== verification/BillingProperties.thy ===== *)
theory BillingProperties
  imports StripeChanges
begin

section \<open>Properties of billing\<close>

subsection \<open>Synchronisation\<close>

lemma constraints_jobs: "constraints_ok (d\<lparr>sync_jobs := js\<rparr>) = constraints_ok d"
  by (simp add: constraints_ok_def)

lemma accounted_jobs [keeps_intros]:
  "keeps accounted (insert_job j)" "keeps accounted (set_jobs p f)" "keeps accounted (set_job i g)"
  unfolding insert_job_def set_jobs_def set_job_def
  by (intro keeps_intros accounted_change; auto simp: constraints_jobs intents_of_def)+

lemma accounted_receive [keeps_intros]: "keeps accounted (receive s event)"
  unfolding receive_def by (intro keeps_intros)

lemma accounted_seed [keeps_intros]: "keeps accounted seed_reconciliation"
  unfolding seed_reconciliation_def
  by (intro keeps_intros accounted_change) (simp_all add: intents_of_def constraints_ok_def)

lemma accounted_claims [keeps_intros]:
  "keeps accounted claim_sync" "keeps accounted (hold_claim i token)" "keeps accounted (if_owned i token g)"
  unfolding claim_sync_def hold_claim_def if_owned_def Let_def by (intro keeps_intros)+

lemma accounted_process [keeps_intros]: "keeps accounted (process s i token)"
  unfolding process_def process_claimed_def record_failure_def by (intro keeps_intros)

lemma accounted_sync [keeps_intros]: "keeps accounted (sync_once s)" "keeps accounted (retry_sync actor i)"
  unfolding sync_once_def retry_sync_def by (intro keeps_intros)+

subsection \<open>Commands\<close>

text \<open>What the billing endpoints and the billing worker run, each in a session of its own.\<close>

datatype billing_command =
    StartCheckout uuid string nat string bool
  | ReplaceCheckout uuid uuid string nat string
  | ResumeCheckout uuid "uuid option" "string option"
  | RefreshCheckout uuid
  | OpenPortal uuid bool bool
  | ScheduleChange uuid string nat string datetime "uuid list"
  | RetryChange uuid uuid
  | UndoChange uuid uuid
  | PreviewUpgrade uuid string nat
  | ConfirmUpgrade uuid uuid
  | RetryUpgrade uuid uuid
  | PayUpgrade uuid uuid
  | ReceiveEvent json
  | Synchronise
  | RetrySync User string
  | TickUpgrades
  | TickChanges

definition void :: "'a sess \<Rightarrow> unit sess" where
  "void m = bind m (\<lambda>_. ret ())"

fun perform :: "Settings \<Rightarrow> billing_command \<Rightarrow> unit sess" where
  "perform s (StartCheckout u code revision interval subscriber) =
     void (start_checkout s u code revision interval subscriber None None)"
| "perform s (ReplaceCheckout u expected code revision interval) =
     void (replace_checkout 1000 s u expected code revision interval)"
| "perform s (ResumeCheckout u expected replacement) = void (resume_checkout s u expected replacement)"
| "perform s (RefreshCheckout u) = refresh s u"
| "perform s (OpenPortal u subscriber cancel) = void (portal s u subscriber cancel)"
| "perform s (ScheduleChange u code revision interval ends ids) =
     void (schedule_change s u code revision interval ends ids)"
| "perform s (RetryChange u i) = void (retry_change s u i)"
| "perform s (UndoChange u i) = void (undo_change s u i)"
| "perform s (PreviewUpgrade u code revision) = void (preview_upgrade s u code revision)"
| "perform s (ConfirmUpgrade u i) = void (confirm_upgrade s u i)"
| "perform s (RetryUpgrade u i) = void (retry_upgrade s u i)"
| "perform s (PayUpgrade u i) = void (pay_upgrade s u i)"
| "perform s (ReceiveEvent event) = void (receive s event)"
| "perform s Synchronise = void (sync_once s)"
| "perform s (RetrySync actor i) = retry_sync actor i"
| "perform s TickUpgrades = void (tick_upgrades s)"
| "perform s TickChanges = void (tick_changes s)"

definition serve :: "Settings \<Rightarrow> billing_command list \<Rightarrow> unit sess" where
  "serve s cs = for_each cs (\<lambda>c. catch (with_session (perform s c)) (\<lambda>e. ret ()))"

lemma accounted_perform [keeps_intros]: "keeps accounted (perform s c)"
  by (cases c) (simp_all add: void_def keeps_intros)

lemma accounted_serve: "keeps accounted (serve s cs)"
  unfolding serve_def by (intro keeps_intros)

definition billing_run :: "Settings \<Rightarrow> billing_command list \<Rightarrow> environment \<Rightarrow> db \<Rightarrow> session" where
  "billing_run s cs e d = snd (serve s cs (open_session e d))"

text \<open>Identifiers are 128 bits wide.\<close>

definition proper_ids :: "environment \<Rightarrow> db \<Rightarrow> bool" where
  "proper_ids e d \<longleftrightarrow> small d \<and> (\<forall>k. env_uuids e k < uuid_limit)"

lemma accounted_billing_run:
  assumes "constraints_ok d" and "proper_ids e d"
  shows "accounted (billing_run s cs e d)"
  unfolding billing_run_def using assms
  by (intro keepsD' [OF accounted_serve]) (simp add: accounted_def proper_ids_def)

subsection \<open>Requests\<close>

text \<open>C16: whatever Stripe answers and in whatever order the billing commands are served, a
  request with an idempotency key was sent only when the intent it is built from, with exactly
  these parameters, was committed.\<close>

theorem keyed_requests_are_durable:
  assumes "constraints_ok d" and "proper_ids e d" and "(c, seen) \<in> set (sent (billing_run s cs e d))"
  shows "authorised (intents_of seen) c"
  using accounted_billing_run [OF assms(1,2)] assms(3) unfolding accounted_def by blast

lemma length_hex_digits: "length (hex_digits w n) = w"
  by (induction w n rule: hex_digits.induct) simp_all

lemma hex_digit_inj: "a < 16 \<Longrightarrow> b < 16 \<Longrightarrow> ''0123456789abcdef'' ! a = ''0123456789abcdef'' ! b \<Longrightarrow> a = b"
  by (simp add: nth_eq_iff_index_eq)

lemma hex_digits_inj: "hex_digits w n = hex_digits w m \<Longrightarrow> n < 16 ^ w \<Longrightarrow> m < 16 ^ w \<Longrightarrow> n = m"
proof (induction w arbitrary: n m)
  case (Suc w)
  then have "hex_digits w (n div 16) = hex_digits w (m div 16)" "n mod 16 = m mod 16"
    by (auto intro: hex_digit_inj simp: length_hex_digits simp del: nth_Cons_numeral)
  moreover have "n div 16 < 16 ^ w" "m div 16 < 16 ^ w" using Suc.prems by (auto simp: less_mult_imp_div_less)
  ultimately show ?case using Suc.IH by (metis div_mult_mod_eq)
qed simp

lemma uuid_text_inj:
  assumes "uuid_text i = uuid_text j" and "i < uuid_limit" and "j < uuid_limit"
  shows "i = j"
proof -
  let ?s = "hex_digits 32 i" and ?t = "hex_digits 32 j"
  have split: "drop n x = take k (drop n x) @ drop (k + n) x" for n k and x :: string
    by (metis append_take_drop_id drop_drop)
  have parts: "x = take 8 x @ take 4 (drop 8 x) @ take 4 (drop 12 x) @ take 4 (drop 16 x) @ drop 20 x" for x :: string
    using split [of 0 x 8] split [of 8 x 4] split [of 12 x 4] split [of 16 x 4] by simp
  have "take 8 ?s = take 8 ?t \<and> take 4 (drop 8 ?s) = take 4 (drop 8 ?t) \<and> take 4 (drop 12 ?s) = take 4 (drop 12 ?t)
      \<and> take 4 (drop 16 ?s) = take 4 (drop 16 ?t) \<and> drop 20 ?s = drop 20 ?t"
    using assms(1) by (simp add: uuid_text_def Let_def length_hex_digits)
  then have "?s = ?t" using parts [of ?s] parts [of ?t] by simp
  moreover have "i < 16 ^ 32" "j < 16 ^ 32" using assms(2,3) by (simp_all add: uuid_limit_def)
  ultimately show ?thesis by (rule hex_digits_inj)
qed

lemma length_uuid_text: "length (uuid_text i) = 36"
  by (simp add: uuid_text_def Let_def length_hex_digits)

lemmas key_defs = checkout_key_def expire_key_def schedule_key_def upgrade_key_def

lemma keys_inj:
  "i < uuid_limit \<Longrightarrow> j < uuid_limit \<Longrightarrow> checkout_key i = checkout_key j \<longleftrightarrow> i = j"
  "i < uuid_limit \<Longrightarrow> j < uuid_limit \<Longrightarrow> expire_key i = expire_key j \<longleftrightarrow> i = j"
  "i < uuid_limit \<Longrightarrow> j < uuid_limit \<Longrightarrow> upgrade_key i = upgrade_key j \<longleftrightarrow> i = j"
  "i < uuid_limit \<Longrightarrow> j < uuid_limit \<Longrightarrow> schedule_key i x = schedule_key j y \<longleftrightarrow> i = j \<and> x = y"
  by (auto simp: key_defs length_uuid_text dest: uuid_text_inj)

lemma keys_distinct:
  "checkout_key i \<noteq> expire_key j" "checkout_key i \<noteq> schedule_key j x" "checkout_key i \<noteq> upgrade_key j"
  "expire_key i \<noteq> schedule_key j x" "expire_key i \<noteq> upgrade_key j" "schedule_key i x \<noteq> upgrade_key j"
  by (simp_all add: key_defs)

lemma authorised_data:
  assumes "authorised w c" and "authorised w c'" and "cl_key c = Some k" and "cl_key c' = Some k"
    and "cl_path c \<noteq> ''subscription_schedules''"
  shows "cl_data c' = cl_data c"
  using assms(1)
proof (cases rule: authorised.cases)
  case (checkout i ps)
  from assms(2) show ?thesis
    by (cases rule: authorised.cases) (use assms(3,4) checkout in \<open>auto simp: keys_inj keys_distinct keys_distinct [symmetric]\<close>)
next
  case (expiry i ps p)
  from assms(2) show ?thesis
    by (cases rule: authorised.cases) (use assms(3,4) expiry in \<open>auto simp: keys_inj keys_distinct keys_distinct [symmetric]\<close>)
next
  case (configuring i sid ps)
  from assms(2) show ?thesis
    by (cases rule: authorised.cases) (use assms(3,4) configuring in \<open>auto simp: keys_inj keys_distinct keys_distinct [symmetric]\<close>)
next
  case (release i sid ps)
  from assms(2) show ?thesis
    by (cases rule: authorised.cases) (use assms(3,4) release in \<open>auto simp: keys_inj keys_distinct keys_distinct [symmetric]\<close>)
next
  case (upgrading i ps sub)
  from assms(2) show ?thesis
    by (cases rule: authorised.cases) (use assms(3,4) upgrading in \<open>auto simp: keys_inj keys_distinct keys_distinct [symmetric]\<close>)
qed (use assms(3,5) in auto)


text \<open>A paid plan.\<close>

definition shop_plan :: PlanRevision where
  "shop_plan = \<lparr>pl_id = 5, pl_code = ''pro'', pl_revision = 1,
     pl_configuration = \<lparr>pc_name = ''Pro'', pc_state = Reviewed, pc_currency = ''EUR'', pc_monthly_price = 1900,
       pc_annual_price = None, pc_tax_display = Inclusive, pc_max_digests = 3, pc_max_papers_per_run = 10,
       pc_papers_per_month = 100, pc_runs_per_month = 20, pc_manual_runs_per_month = 10,
       pc_schedule_frequencies = [WEEKLY], pc_email_delivery = True, pc_trial_days = 0,
       pc_stripe_sandbox = Some \<lparr>map_product_id = ''prod_1'', map_monthly_price_id = ''price_1'', map_annual_price_id = None\<rparr>,
       pc_billing_type = Some BillingStripe, pc_subscriber_visible = True, pc_display_order = 0\<rparr>\<rparr>"


text \<open>A checkout whose creation was never answered.\<close>

definition unanswered :: Checkout where
  "unanswered = new_checkout 70 1 5 ''monthly'' ''price_1'' [(''mode'', ''subscription'')] noon"

definition shop_db :: db where
  "shop_db = empty_db\<lparr>users := [sample_user 1 None], plans := [shop_plan], checkouts := [unanswered]\<rparr>"

definition creation_call :: stripe_call where
  "creation_call = \<lparr>cl_method = ''POST'', cl_path = ''checkout/sessions'', cl_data = [(''mode'', ''subscription'')],
     cl_key = Some (checkout_key 70)\<rparr>"

definition shop_commands :: "billing_command list" where
  "shop_commands = [StartCheckout 1 ''pro'' 1 ''monthly'' False, StartCheckout 1 ''pro'' 1 ''monthly'' False]"

lemmas start_defs = start_checkout_def ensure_database_mode_def enabled_def stripe_client_def
  lock_billing_def closing_def change_pending_def blocking_change_def blocking_upgrade_def latest_checkout_def
  first_by_def replacement_pending_def earlier_attempt_def sync_attempt_def load_checkout_def load_def
  get_row_def the_value_def has_text_def load_plan_def ended_def too_old_def create_session_def create_request_def
  request_def read_answer_def

definition shop_env :: environment where
  "shop_env = sample_env\<lparr>env_uuids := (\<lambda>k. (1000 + k) mod uuid_limit)\<rparr>"

lemmas shop_defs = shop_env_def shop_db_def unanswered_def new_checkout_def shop_plan_def empty_db_def sample_user_def
  sample_env_def sample_settings_def creation_call_def shop_commands_def

lemma shop_sends:
  "map fst (sent (billing_run sample_settings shop_commands shop_env shop_db)) = [creation_call, creation_call]"
  unfolding billing_run_def serve_def
  by (simp add: void_def with_session_def start_defs shop_defs mode_name_def key_matches_def startswith_def
      checkout_key_def co_livemode_def constraints_ok_def active_owners_def run_simps update_where_def)

lemma shop_proper: "constraints_ok shop_db" "proper_ids shop_env shop_db"
proof -
  show "constraints_ok shop_db" by (simp add: shop_defs constraints_ok_def active_owners_def)
  show "proper_ids shop_env shop_db"
    by (simp add: proper_ids_def small_def shop_defs uuid_limit_def)
qed

theorem keyed_requests_are_durable_witness:
  "\<exists>seen. (creation_call, seen) \<in> set (sent (billing_run sample_settings shop_commands shop_env shop_db))
     \<and> authorised (intents_of seen) creation_call"
proof -
  have "creation_call \<in> fst ` set (sent (billing_run sample_settings shop_commands shop_env shop_db))"
    using shop_sends by (metis list.set_intros(1) list.set_map)
  then obtain seen where "(creation_call, seen) \<in> set (sent (billing_run sample_settings shop_commands shop_env shop_db))"
    by force
  with keyed_requests_are_durable [OF shop_proper] show ?thesis by blast
qed


subsection \<open>Evidence\<close>

text \<open>C38: whatever JSON Stripe answers, an invoice that is accepted as the quote or the payment of
  an upgrade consists of one credit for the old price and one positive charge for the new one,
  both from the agreed moment to the end of the period, which add up to the positive amount due
  in the agreed currency.\<close>

theorem snapshot_is_proper_quote:
  assumes "snapshot invoice c u preview = Inr q"
  shows "proper_quote u q"
proof -
  from assms obtain v where v: "validate_upgrade_invoice invoice c u preview = Inr v" and q: "q = to_record v"
    by (auto simp: snapshot_def map_sum_ok)
  from v show ?thesis
  proof (rule validated_lines)
    assume cc: "require_credit_and_charge (vi_lines v) u = Inr ()" and len: "length (vi_lines v) = 2"
      and tot: "vi_total v = sum_list (map vl_amount (vi_lines v))" "vi_amount_due v = vi_total v" "0 < vi_total v"
        "vi_currency v = uq_currency (up_quote u)"
      and dates: "\<forall>l \<in> set (vi_lines v). vl_start l = timestamp (up_proration_at u) \<and> vl_end l = timestamp (up_period_end u)"
    let ?a = "JStr (up_source_price_id u)" and ?b = "JStr (up_target_price_id u)"
    from cc have prices: "vl_price ` set (vi_lines v) = {?a, ?b}" and neq: "?a \<noteq> ?b"
      and credit: "amount_of (vi_lines v) (up_source_price_id u) \<le> 0"
      and charge: "0 < amount_of (vi_lines v) (up_target_price_id u)"
      by (auto simp: require_credit_and_charge_def rseq_ok refuse_if_ok length_remdups_card_conv)
    from len prices neq obtain x y where xy: "vl_price x = ?a" "vl_price y = ?b"
      "vi_lines v = [x, y] \<or> vi_lines v = [y, x]" by (rule two_lines)
    have am: "vl_amount x \<le> 0" "0 < vl_amount y"
      using credit charge xy neq by (auto simp: amount_of_def last_by_def)
    have set: "set (uq_lines q) = {line_record x, line_record y}" and n: "length (uq_lines q) = 2"
      using xy(3) by (auto simp: q to_record_def)
    have sorted: "sorted (map ln_price (uq_lines q))"
      by (simp add: q to_record_def line_record_def o_def)
    have "uq_total q = vl_amount x + vl_amount y" using tot(1) xy(3) by (auto simp: q to_record_def)
    moreover have "x \<in> set (vi_lines v)" "y \<in> set (vi_lines v)" using xy(3) by auto
    ultimately show ?thesis unfolding proper_quote_def
      using set n sorted am tot(2-4) dates xy(1,2)
      by (intro conjI exI [of _ "vl_amount x"] exI [of _ "vl_amount y"])
         (simp_all add: q to_record_def line_record_def price_text_def)
  qed
qed

definition upgrading_shop :: SubscriptionUpgrade where
  "upgrading_shop = previewed_upgrade 90 1 unanswered shop_plan
     (shop_plan\<lparr>pl_id := 6, pl_configuration := (pl_configuration shop_plan)\<lparr>pc_stripe_sandbox :=
        Some \<lparr>map_product_id = ''prod_2'', map_monthly_price_id = ''price_2'', map_annual_price_id = None\<rparr>\<rparr>\<rparr>)
     ''si_1'' ''in_1'' (noon, noon + seconds 86400) noon noon"

definition invoice_line :: "string \<Rightarrow> int \<Rightarrow> json" where
  "invoice_line price amount = JObj [(''price'', JStr price), (''quantity'', JInt 1), (''proration'', JBool True),
     (''subscription'', JStr ''sub_1''), (''subscription_item'', JStr ''si_1''), (''currency'', JStr ''eur''),
     (''amount'', JInt amount),
     (''period'', JObj [(''start'', JInt 1741600800), (''end'', JInt 1741687200)])]"

definition upgrade_invoice :: json where
  "upgrade_invoice = JObj [(''object'', JStr ''invoice''), (''livemode'', JBool False), (''customer'', JStr ''cus_1''),
     (''subscription'', JStr ''sub_1''), (''currency'', JStr ''eur''),
     (''collection_method'', JStr ''charge_automatically''), (''total'', JInt 700), (''amount_due'', JInt 700),
     (''lines'', JObj [(''has_more'', JBool False),
        (''data'', JList [invoice_line ''price_1'' (-300), invoice_line ''price_2'' 1000])])]"

definition billed :: Checkout where
  "billed = unanswered\<lparr>co_customer_id := Some ''cus_1'', co_subscription_id := Some ''sub_1''\<rparr>"

lemma shop_quote: "\<not> isl (snapshot upgrade_invoice billed upgrading_shop True)"
  by code_simp

theorem snapshot_is_proper_quote_witness:
  "\<exists>q. snapshot upgrade_invoice billed upgrading_shop True = Inr q \<and> proper_quote upgrading_shop q"
proof -
  obtain q where "snapshot upgrade_invoice billed upgrading_shop True = Inr q"
    using shop_quote by (cases "snapshot upgrade_invoice billed upgrading_shop True") auto
  with snapshot_is_proper_quote show ?thesis by blast
qed

end
