(* ===== verification/ContentProperties.thy ===== *)
theory ContentProperties
  imports Examples Runner
begin

section \<open>Properties of the research content\<close>

text \<open>
  What the accepted output of the stages guarantees: discovery, the reporting period, the
  evidence of summaries, the inputs of later stages, the saved checkpoints and the quality
  decision.  The sample is a discovery of two papers of which one lies outside the period.
\<close>

subsection \<open>Sample content\<close>

definition sample_paper :: "string \<Rightarrow> date \<Rightarrow> SearchPaper" where
  "sample_paper key published = \<lparr>sp_source_name = ''arXiv'', sp_external_id = key, sp_title = key,
     sp_authors = [''Grace''], sp_abstract = Some ''text'', sp_published_date = Some published,
     sp_updated_date = None, sp_venue_or_source = None, sp_url = ''https://arxiv.org/abs/'' @ key,
     sp_pdf_url = None, sp_doi = None, sp_access_status = AccessOpen, sp_license = None,
     sp_full_text_available = True, sp_discovery_reason = [], sp_matched_keywords = [],
     sp_possible_duplicate_of = None, sp_factual_note = [], sp_warnings = [], sp_citations = []\<rparr>"

definition sample_details :: RelevanceDetails where
  "sample_details = \<lparr>ra_topic_relevance_score = 8, ra_novelty_signal_score = 7,
     ra_practical_value_score = 6, ra_score = 80, ra_confidence_score = 7,
     ra_recommended_status = Summarize, ra_best_digest_placement = TopPaper, ra_rationale = [],
     ra_criteria = [], ra_evidence_used = [], ra_potential_value_for_audience = [],
     ra_caveats = [], ra_next_step_recommendations = []\<rparr>"

definition sample_discovery_response :: DiscoveryResponse where
  "sample_discovery_response = \<lparr>
     dresp_search = \<lparr>sm_queries = [''sleep''], sm_sources_used = [''arXiv''],
       sm_deduplication_notes = [], sm_coverage_notes = [], sm_next_step_recommendations = []\<rparr>,
     dresp_papers = [\<lparr>ap_paper = sample_paper ''p1'' (dt_date noon - 2), ap_assessment = sample_details\<rparr>,
       \<lparr>ap_paper = sample_paper ''p2'' (dt_date noon - 40), ap_assessment = sample_details\<rparr>],
     dresp_methodology = [], dresp_recommendations = [], dresp_quality_warnings = []\<rparr>"

definition sample_discovery :: DiscoveryRelevanceOutput where
  "sample_discovery = projr (to_output sample_discovery_response)"

definition sample_summary :: "string \<Rightarrow> PaperSummary" where
  "sample_summary key = \<lparr>ps_external_id = key, ps_summary_basis = BasisOpenFullText,
     ps_paper_type = EmpiricalStudy, ps_concise_summary = ''A study.'', ps_why_this_paper_matters = [],
     ps_methods = [], ps_key_findings = [''Sleep helps.''], ps_limitations = [], ps_implications = [],
     ps_recommendations = [], ps_suggested_digest_bullet = ''Sleep.'', ps_follow_up_questions = [],
     ps_related_search_terms = [], ps_warnings = [], ps_confidence_score = 8,
     ps_summary_evidence_ids = [''s1''], ps_finding_evidence = [\<lparr>fe_finding_index = 0, fe_passage_ids = [''s1'']\<rparr>],
     ps_source_attribution = None\<rparr>"

definition sample_document :: "string \<Rightarrow> SourceDocument" where
  "sample_document key = \<lparr>doc_external_id = key, doc_title = key, doc_authors = [''Grace''],
     doc_status = Available, doc_basis = DocAbstractOnly,
     doc_source_url = Some ''https://arxiv.org'', doc_request_url = None, doc_retrieved_at = noon,
     doc_source_version = None, doc_content_sha256 = None,
     doc_license_url = Some ''https://creativecommons.org/licenses/by/4.0/'', doc_permission_source = None,
     doc_rights_notice = None, doc_policy_version = ''1'', doc_cached = False,
     doc_passages = [\<lparr>psg_id = ''s1'', psg_section = ''Abstract'', psg_text = ''Sleep helps.''\<rparr>],
     doc_notes = []\<rparr>"

definition sample_summaries :: PaperSummariesOutput where
  "sample_summaries = \<lparr>paper_summaries = [sample_summary ''p1'']\<rparr>"

subsection \<open>Discovery\<close>

text \<open>The provider's discovery is accepted exactly when its papers have distinct external
  identifiers; then every paper keeps its own assessment and nothing else is assessed, and
  otherwise the conversion is a \<open>ValidationError\<close>.\<close>

theorem discovery_conversion:
  "if distinct (map (\<lambda>i. sp_external_id (ap_paper i)) (dresp_papers r))
   then (\<exists>d. to_output r = Inr d \<and> valid_discovery d
           \<and> ss_papers (dr_search d) = map ap_paper (dresp_papers r)
           \<and> (\<forall>i \<in> set (dresp_papers r). \<exists>a. relevance_of d (sp_external_id (ap_paper i)) = Some a
                \<and> RelevanceDetails.truncate a = ap_assessment i))
   else (\<exists>m. to_output r = Inl (Exn ValidationError m))"
proof -
  let ?d = "\<lparr>dr_search = SearchMetadata.extend (dresp_search r) (SearchStage.fields (map ap_paper (dresp_papers r))),
      dr_relevance = \<lparr>rs_methodology = dresp_methodology r,
        rs_assessments = map (\<lambda>item. RelevanceDetails.extend (ap_assessment item)
            (RelevanceAssessment.fields (sp_external_id (ap_paper item)))) (dresp_papers r),
        rs_recommendations = dresp_recommendations r,
        rs_quality_warnings = dresp_quality_warnings r\<rparr>\<rparr>"
  have out: "to_output r = validate_assessments ?d" by (simp add: to_output_def)
  have papers: "ss_papers (dr_search ?d) = map ap_paper (dresp_papers r)"
    by (simp add: SearchMetadata.extend_def SearchStage.fields_def)
  have ids: "paper_ids ?d = map (\<lambda>i. sp_external_id (ap_paper i)) (dresp_papers r)"
    "assessment_ids ?d = paper_ids ?d"
    using papers by (simp_all add: paper_ids_def assessment_ids_def RelevanceDetails.extend_def
        RelevanceAssessment.fields_def comp_def)
  show ?thesis
  proof (cases "distinct (map (\<lambda>i. sp_external_id (ap_paper i)) (dresp_papers r))")
    case True
    then have v: "valid_discovery ?d" using ids by (simp add: valid_discovery_def)
    have "\<exists>a. relevance_of ?d (sp_external_id (ap_paper i)) = Some a
        \<and> RelevanceDetails.truncate a = ap_assessment i" if "i \<in> set (dresp_papers r)" for i
    proof -
      let ?a = "RelevanceDetails.extend (ap_assessment i) (RelevanceAssessment.fields (sp_external_id (ap_paper i)))"
      have "?a \<in> set (rs_assessments (dr_relevance ?d))" using that by simp
      moreover have "distinct (map ra_external_id (rs_assessments (dr_relevance ?d)))"
        using v by (simp add: valid_discovery_def assessment_ids_def)
      ultimately have "relevance_of ?d (ra_external_id ?a) = Some ?a"
        unfolding relevance_of_def by (intro last_by_distinct)
      then show ?thesis
        by (simp add: RelevanceDetails.extend_def RelevanceAssessment.fields_def RelevanceDetails.truncate_def)
    qed
    with True v papers show ?thesis unfolding out validate_assessments_ok [OF v] by auto
  next
    case False
    then have "\<not> valid_discovery ?d" using ids by (simp add: valid_discovery_def)
    then obtain e where e: "validate_assessments ?d = Inl e"
      using validate_assessments_iff [of ?d] by (cases "validate_assessments ?d") auto
    then have "\<exists>m. e = Exn ValidationError m"
      using validate_assessments_error [OF e] by (cases e) auto
    with False e show ?thesis unfolding out by auto
  qed
qed

theorem discovery_conversion_witness:
  "\<exists>d. to_output sample_discovery_response = Inr d \<and> valid_discovery d
     \<and> ss_papers (dr_search d) = map ap_paper (dresp_papers sample_discovery_response)
     \<and> (\<forall>i \<in> set (dresp_papers sample_discovery_response). \<exists>a.
          relevance_of d (sp_external_id (ap_paper i)) = Some a
          \<and> RelevanceDetails.truncate a = ap_assessment i)"
proof -
  have "distinct (map (\<lambda>i. sp_external_id (ap_paper i)) (dresp_papers sample_discovery_response))"
    by code_simp
  with discovery_conversion [of sample_discovery_response] show ?thesis by simp
qed

lemma drop_abstracts_fields [simp]:
  "dr_relevance (drop_abstracts d) = dr_relevance d" "paper_ids (drop_abstracts d) = paper_ids d"
  "assessment_ids (drop_abstracts d) = assessment_ids d"
  "valid_discovery (drop_abstracts d) = valid_discovery d"
  by (simp_all add: drop_abstracts_def paper_ids_def assessment_ids_def valid_discovery_def comp_def)

lemma accept_discovery_cases:
  assumes "accept_discovery snapshot d = Inr d'"
  obtains e where "exclude_out_of_period_papers d (ds_reporting_from snapshot) (ds_reporting_to snapshot) = Inr e"
    and "d' = drop_abstracts e" and "length (ss_papers (dr_search d)) \<le> ds_maximum_papers snapshot"
  using assms by (auto simp: accept_discovery_def validate_discovery_def rejected_def
      split: sum.splits if_splits)

lemma accept_discovery_refused:
  assumes "valid_discovery d" and "accept_discovery snapshot d = Inl e"
  shows "exn_class e = RadarOutputValidationError
     \<and> (ds_maximum_papers snapshot < length (ss_papers (dr_search d))
         \<or> ds_reporting_to snapshot < ds_reporting_from snapshot)"
proof -
  have "set (map sp_external_id (ss_papers (dr_search d)))
      \<subseteq> set (map ra_external_id (rs_assessments (dr_relevance d)))"
    using assms(1) by (simp add: valid_discovery_def paper_ids_def assessment_ids_def)
  from exclude_papers_ok [OF this] obtain r where
    "exclude_papers (ds_reporting_from snapshot) (ds_reporting_to snapshot) (ss_papers (dr_search d))
       (rs_assessments (dr_relevance d)) = Inr r" by blast
  with assms(2) show ?thesis
    by (auto simp: accept_discovery_def validate_discovery_def exclude_out_of_period_papers_def
        rejected_def split: if_splits prod.splits)
qed

text \<open>C25: a valid discovery is refused, as a \<open>RadarOutputValidationError\<close>, exactly when it has
  more papers than the digest allows or the period is empty.  Otherwise what the runner
  saves of it holds the papers that were found, still with one assessment each; every paper
  it leaves selected has a publication date inside the period, or none, and no abstract is
  kept.\<close>

theorem accepted_discovery_in_period:
  assumes "valid_discovery d"
  shows "case accept_discovery snapshot d of
      Inl e \<Rightarrow> exn_class e = RadarOutputValidationError
        \<and> (ds_maximum_papers snapshot < length (ss_papers (dr_search d))
            \<or> ds_reporting_to snapshot < ds_reporting_from snapshot)
    | Inr d' \<Rightarrow> length (ss_papers (dr_search d)) \<le> ds_maximum_papers snapshot
        \<and> ds_reporting_from snapshot \<le> ds_reporting_to snapshot
        \<and> valid_discovery d' \<and> paper_ids d' = paper_ids d
        \<and> (\<forall>p \<in> set (ss_papers (dr_search d')). sp_abstract p = None
             \<and> (sp_external_id p \<in> selected_ids d' \<longrightarrow>
                  in_period (ds_reporting_from snapshot) (ds_reporting_to snapshot) (sp_published_date p)))"
proof (cases "accept_discovery snapshot d")
  case (Inl e)
  with accept_discovery_refused [OF assms Inl] show ?thesis by simp
next
  case (Inr d')
  let ?lo = "ds_reporting_from snapshot" and ?hi = "ds_reporting_to snapshot"
  from Inr obtain e where e: "exclude_out_of_period_papers d ?lo ?hi = Inr e" "d' = drop_abstracts e"
    and len: "length (ss_papers (dr_search d)) \<le> ds_maximum_papers snapshot"
    by (rule accept_discovery_cases)
  have period: "?lo \<le> ?hi"
    using e(1) by (simp add: exclude_out_of_period_papers_def rejected_def split: if_splits)
  note v = exclude_valid_discovery [OF assms e(1)]
  have "sp_abstract p = None \<and> (sp_external_id p \<in> selected_ids d' \<longrightarrow>
      in_period ?lo ?hi (sp_published_date p))" if "p \<in> set (ss_papers (dr_search d'))" for p
  proof -
    from that obtain q where q: "q \<in> set (ss_papers (dr_search e))" "p = q\<lparr>sp_abstract := None\<rparr>"
      by (auto simp: e(2) drop_abstracts_def)
    have "in_period ?lo ?hi (sp_published_date q)"
      if "a \<in> set (rs_assessments (dr_relevance e))" "is_selected a" "ra_external_id a = sp_external_id q" for a
      using exclude_selected_in_period [OF assms e(1) q(1) that(1,3,2)] .
    then show ?thesis by (auto simp: q(2) e(2) selected_ids_def)
  qed
  with Inr v len e(2) period show ?thesis by simp
qed

theorem accepted_discovery_in_period_witness:
  "valid_discovery sample_discovery
   \<and> (case accept_discovery sample_snapshot sample_discovery of
      Inl e \<Rightarrow> exn_class e = RadarOutputValidationError
        \<and> (ds_maximum_papers sample_snapshot < length (ss_papers (dr_search sample_discovery))
            \<or> ds_reporting_to sample_snapshot < ds_reporting_from sample_snapshot)
    | Inr d' \<Rightarrow> length (ss_papers (dr_search sample_discovery)) \<le> ds_maximum_papers sample_snapshot
        \<and> ds_reporting_from sample_snapshot \<le> ds_reporting_to sample_snapshot
        \<and> valid_discovery d' \<and> paper_ids d' = paper_ids sample_discovery
        \<and> (\<forall>p \<in> set (ss_papers (dr_search d')). sp_abstract p = None
             \<and> (sp_external_id p \<in> selected_ids d' \<longrightarrow> in_period (ds_reporting_from sample_snapshot)
                    (ds_reporting_to sample_snapshot) (sp_published_date p))))"
proof -
  have v: "valid_discovery sample_discovery" by code_simp
  show ?thesis using v accepted_discovery_in_period [OF v, of sample_snapshot] by (rule conjI)
qed

subsection \<open>Checkpoints read back\<close>

lemma list_all_update_first: "list_all P xs \<Longrightarrow> (\<And>x. P x \<Longrightarrow> P (f x)) \<Longrightarrow> list_all P (update_first q f xs)"
  by (induction xs) auto

lemma list_all_update_last_by:
  "list_all P xs \<Longrightarrow> (\<And>x. P x \<Longrightarrow> P (f x)) \<Longrightarrow> list_all P (update_last_by key k f xs)"
  by (simp add: update_last_by_def list_all_update_first)

lemma exclusion_keeps_bounds [simp]:
  "paper_fields_ok (warn_paper reason p) = paper_fields_ok p"
  "relevance_bounds (reject_assessment reason a) = relevance_bounds a"
  "paper_fields_ok (p\<lparr>sp_abstract := x\<rparr>) = paper_fields_ok p"
  by (simp_all add: warn_paper_def paper_fields_ok_def reject_assessment_def relevance_bounds_def Let_def)

lemma exclude_papers_bounds:
  "exclude_papers lo hi ps as' = Inr (ps2, as2) \<Longrightarrow> list_all paper_fields_ok ps \<Longrightarrow>
     list_all relevance_bounds as' \<Longrightarrow> list_all paper_fields_ok ps2 \<and> list_all relevance_bounds as2"
proof (induction ps arbitrary: as' ps2)
  case (Cons p ps)
  then show ?case
    by (auto simp: Let_def list_all_update_last_by split: if_splits sum.splits option.splits
        dest!: Cons.IH)
qed simp

lemma constrain_summary_score:
  assumes "constrain_summary docs s = Inr s'" and "one_to_ten (ps_confidence_score s)"
  shows "one_to_ten (ps_confidence_score s')"
  using assms
  by (auto simp: constrain_summary_def getitem_def metadata_only_summary_def supported_summary_def
      one_to_ten_def Let_def split: sum.splits option.splits if_splits)

lemma constrain_summaries_scores:
  assumes "constrain_summaries s docs = Inr s'"
    and "list_all (\<lambda>s. one_to_ten (ps_confidence_score s)) (paper_summaries s)"
  shows "list_all (\<lambda>s. one_to_ten (ps_confidence_score s)) (paper_summaries s')"
proof -
  from assms(1) obtain ss where r: "map_result (constrain_summary docs) (paper_summaries s) = Inr ss"
    "paper_summaries s' = ss"
    by (auto simp: constrain_summaries_def split: sum.splits)
  from r(1) have "list_all2 (\<lambda>x y. constrain_summary docs x = Inr y) (paper_summaries s) ss"
    by (simp add: map_result_Inr_iff)
  then show ?thesis
    using assms(2) unfolding r(2)
    by (induction rule: list_all2_induct) (auto dest: constrain_summary_score)
qed


definition sample_briefing :: DigestBriefingOutput where
  "sample_briefing = \<lparr>digest_briefing = \<lparr>db_title = ''Sleep'', db_executive_summary = ''One study.'',
     db_highlights = [], db_main_signal = None, db_top_paper_external_ids = [''p1''],
     db_secondary_paper_external_ids = [], db_recommendations = [], db_recommended_next_searches = [],
     db_source_basis = SBAbstractsOnly, db_transparency_note = ''Abstracts.'', db_quality_warnings = [],
     db_source_attributions = [], db_content_markdown = ''text''\<rparr>\<rparr>"

definition sample_documents :: documents where
  "sample_documents = [(''p1'', sample_document ''p1'')]"

definition sample_batch :: "SummaryInput list" where
  "sample_batch = [DocumentInput ''p1'' ''p1'' [''Grace''] ''https://arxiv.org/abs/p1'' None (sample_document ''p1'')]"

lemma sample_discovery_accepted: "\<exists>d'. accept_discovery sample_snapshot sample_discovery = Inr d'"
proof (cases "accept_discovery sample_snapshot sample_discovery")
  case (Inl e)
  have "valid_discovery sample_discovery"
    "\<not> (ds_maximum_papers sample_snapshot < length (ss_papers (dr_search sample_discovery))
         \<or> ds_reporting_to sample_snapshot < ds_reporting_from sample_snapshot)"
    by code_simp+
  with accept_discovery_refused [OF _ Inl] show ?thesis by blast
qed blast


subsection \<open>Evidence\<close>

text \<open>C26: an accepted summary claims no more than its saved document allows.  The
  accepted summaries are those of the same papers in the same order, and each
  one has the basis and the attribution of its document, or, without usable text, states no
  finding at all.\<close>

theorem accepted_summaries_claim_no_more:
  assumes "constrain_summaries out docs = Inr out'"
  shows "map ps_external_id (paper_summaries out') = map ps_external_id (paper_summaries out)
     \<and> (\<forall>s \<in> set (paper_summaries out'). \<exists>d. map_of docs (ps_external_id s) = Some d
          \<and> (if doc_status d = Available \<and> doc_passages d \<noteq> []
             then ps_summary_basis s = basis_of_document (doc_basis d)
               \<and> (\<exists>a. ps_source_attribution s = Some a \<and> Some (sa_license_url a) = doc_license_url d
                    \<and> Some (sa_source_url a) = doc_source_url d)
             else ps_summary_basis s = BasisMetadataOnly \<and> ps_key_findings s = []
               \<and> ps_source_attribution s = None \<and> ps_confidence_score s = 1))"
proof -
  have "\<exists>d. map_of docs (ps_external_id s) = Some d
          \<and> (if doc_status d = Available \<and> doc_passages d \<noteq> []
             then ps_summary_basis s = basis_of_document (doc_basis d)
               \<and> (\<exists>a. ps_source_attribution s = Some a \<and> Some (sa_license_url a) = doc_license_url d
                    \<and> Some (sa_source_url a) = doc_source_url d)
             else ps_summary_basis s = BasisMetadataOnly \<and> ps_key_findings s = []
               \<and> ps_source_attribution s = None \<and> ps_confidence_score s = 1)"
    if "s \<in> set (paper_summaries out')" for s
    using constrain_summaries_within [OF assms that] by (cases "map_of docs (ps_external_id s)") (simp_all add: claims_within_def split del: if_split)
  with constrain_summaries_ids [OF assms] show ?thesis by blast
qed

definition sample_constrained :: PaperSummariesOutput where
  "sample_constrained = projr (constrain_summaries sample_summaries sample_documents)"

theorem accepted_summaries_claim_no_more_witness:
  "map ps_external_id (paper_summaries sample_constrained) = [''p1'']
   \<and> (\<exists>s d. paper_summaries sample_constrained = [s] \<and> map_of sample_documents (ps_external_id s) = Some d
        \<and> ps_summary_basis s = basis_of_document (doc_basis d)
        \<and> (\<exists>a. ps_source_attribution s = Some a \<and> Some (sa_license_url a) = doc_license_url d
             \<and> Some (sa_source_url a) = doc_source_url d))"
proof -
  have c: "constrain_summaries sample_summaries sample_documents = Inr sample_constrained" by code_simp
  have ids: "map ps_external_id (paper_summaries sample_summaries) = [''p1'']" by code_simp
  note claims = accepted_summaries_claim_no_more [OF c, unfolded ids]
  from claims obtain s where s: "paper_summaries sample_constrained = [s]" "ps_external_id s = ''p1''"
    by (auto simp: map_eq_Cons_conv)
  have d: "map_of sample_documents ''p1'' = Some (sample_document ''p1'')"
    "doc_status (sample_document ''p1'') = Available \<and> doc_passages (sample_document ''p1'') \<noteq> []"
    by (simp_all add: sample_documents_def sample_document_def)
  from claims s d show ?thesis by auto
qed



subsection \<open>Inputs of later stages\<close>

text \<open>The inputs of the trend and briefing stages exist for every valid discovery, and hold
  the summarised papers, each once, in the order of the discovery.\<close>

theorem later_stage_inputs:
  assumes "valid_discovery d"
  shows "\<exists>t b. trend_input d s = Inr t \<and> briefing_input d s = Inr b
     \<and> map tin_external_id t = filter (\<lambda>i. i \<in> summary_ids s) (paper_ids d)
     \<and> map bin_external_id b = map tin_external_id t \<and> distinct (map tin_external_id t)"
proof -
  have "\<exists>r. trend_input d s = Inr r \<and> map tin_external_id r = filter (\<lambda>i. i \<in> summary_ids s) (paper_ids d)"
    unfolding trend_input_def summary_ids_def paper_ids_def
    by (rule with_summaries_ok [OF assms subset_refl]) simp
  then obtain t where t: "trend_input d s = Inr t"
    "map tin_external_id t = filter (\<lambda>i. i \<in> summary_ids s) (paper_ids d)" by blast
  have "\<exists>r. briefing_input d s = Inr r \<and> map bin_external_id r = filter (\<lambda>i. i \<in> summary_ids s) (paper_ids d)"
    unfolding briefing_input_def summary_ids_def paper_ids_def
    by (rule with_summaries_ok [OF assms subset_refl]) simp
  then obtain b where b: "briefing_input d s = Inr b"
    "map bin_external_id b = filter (\<lambda>i. i \<in> summary_ids s) (paper_ids d)" by blast
  have "distinct (paper_ids d)" using assms by (simp add: valid_discovery_def)
  with t b show ?thesis by simp
qed

theorem later_stage_inputs_witness:
  "\<exists>t b. trend_input sample_discovery sample_summaries = Inr t
     \<and> briefing_input sample_discovery sample_summaries = Inr b
     \<and> map tin_external_id t = filter (\<lambda>i. i \<in> summary_ids sample_summaries) (paper_ids sample_discovery)
     \<and> map bin_external_id b = map tin_external_id t \<and> distinct (map tin_external_id t)"
proof (rule later_stage_inputs)
  show "valid_discovery sample_discovery" by code_simp
qed

end
