(* ===== verification/DeliveryProperties.thy ===== *)
theory DeliveryProperties
  imports Delivery ServiceProperties
begin

section \<open>Properties of the delivery of briefings\<close>

text \<open>
  The delivery worker against an abstract machine over the status and the number of attempts
  of a delivery, what it sends to whom, and what the mail holds.
\<close>

subsection \<open>The abstract machine\<close>

type_synonym delivery_phase = "delivery_status \<times> nat"

inductive delivery_step :: "delivery_phase \<Rightarrow> delivery_phase \<Rightarrow> bool" where
  claim_waiting: "n < MAX_ATTEMPTS \<Longrightarrow> delivery_step (DeliveryPending, n) (Sending, Suc n)"
| claim_again: "n < MAX_ATTEMPTS \<Longrightarrow> delivery_step (Sending, n) (Sending, Suc n)"
| give_up: "MAX_ATTEMPTS \<le> n \<Longrightarrow> delivery_step (Sending, n) (DeliveryFailed, n)"
| try_later: "n < MAX_ATTEMPTS \<Longrightarrow> delivery_step (Sending, n) (DeliveryPending, n)"
| settle: "result \<in> {Sent, Held, Cancelled} \<Longrightarrow> delivery_step (Sending, n) (result, n)"

inductive_cases delivery_stepE: "delivery_step (status, n) p"

inductive_simps delivery_step_simps:
  "delivery_step (DeliveryPending, n) p" "delivery_step (Sending, n) p"
  "delivery_step (Sent, n) p" "delivery_step (DeliveryFailed, n) p"
  "delivery_step (Held, n) p" "delivery_step (Cancelled, n) p"

abbreviation delivery_steps :: "delivery_phase \<Rightarrow> delivery_phase \<Rightarrow> bool" where
  "delivery_steps \<equiv> delivery_step\<^sup>*\<^sup>*"

definition phase :: "DigestEmailDelivery \<Rightarrow> delivery_phase" where
  "phase x = (dl_status x, dl_attempts x)"

definition settled_status :: "delivery_status \<Rightarrow> bool" where
  "settled_status st \<longleftrightarrow> st \<in> {Sent, DeliveryFailed, Held, Cancelled}"

lemma settled_stays:
  assumes "delivery_steps p q" and "settled_status (fst p)"
  shows "q = p"
  using assms
proof (induction rule: rtranclp_induct)
  case (step y z)
  then have "y = p" by simp
  with step show ?case by (cases p) (auto simp: settled_status_def delivery_step_simps)
qed simp

lemma attempts_grow: "delivery_steps p q \<Longrightarrow> snd p \<le> snd q"
  by (induction rule: rtranclp_induct) (auto elim!: delivery_step.cases)

text \<open>Rows that moved as the machine allows.\<close>

definition moved :: "DigestEmailDelivery list \<Rightarrow> DigestEmailDelivery list \<Rightarrow> bool" where
  "moved = list_all2 (\<lambda>x y. dl_run_id y = dl_run_id x \<and> delivery_steps (phase x) (phase y))"

definition worked :: "DigestEmailDelivery list \<Rightarrow> db \<Rightarrow> bool" where
  "worked start d \<longleftrightarrow> moved start (deliveries d) \<and> list_all delivery_ok (deliveries d)
     \<and> list_all (\<lambda>x. dl_claim_token x \<noteq> None \<longrightarrow> dl_status x = Sending) (deliveries d)
     \<and> distinct (map dl_run_id (deliveries d))"

lemma moved_update:
  assumes "moved start rows"
    and "\<And>x. x \<in> set rows \<Longrightarrow> p x \<Longrightarrow> dl_run_id (f x) = dl_run_id x \<and> delivery_steps (phase x) (phase (f x))"
  shows "moved start (update_where p f rows)"
  using assms unfolding moved_def update_where_def
  by (auto simp: list_all2_conv_all_nth) (meson nth_mem rtranclp_trans)

lemma worked_update:
  assumes "worked start d"
    and "\<And>x. x \<in> set (deliveries d) \<Longrightarrow> p x \<Longrightarrow> dl_run_id (f x) = dl_run_id x
           \<and> delivery_steps (phase x) (phase (f x)) \<and> delivery_ok (f x)
           \<and> (dl_claim_token (f x) \<noteq> None \<longrightarrow> dl_status (f x) = Sending)"
  shows "worked start (d\<lparr>deliveries := update_where p f (deliveries d)\<rparr>)"
proof -
  let ?rows = "deliveries d"
  have "moved start (update_where p f ?rows)"
    using assms by (intro moved_update) (auto simp: worked_def)
  moreover have "list_all delivery_ok (update_where p f ?rows)"
    "list_all (\<lambda>x. dl_claim_token x \<noteq> None \<longrightarrow> dl_status x = Sending) (update_where p f ?rows)"
    using assms by (auto simp: worked_def list_all_iff set_update_where)
  moreover have "map dl_run_id (update_where p f ?rows) = map dl_run_id ?rows"
    using assms(2) by (auto simp: update_where_def)
  ultimately show ?thesis using assms(1) by (simp add: worked_def)
qed


lemma worked_own: "list_all delivery_ok (deliveries d)
    \<Longrightarrow> list_all (\<lambda>x. dl_claim_token x \<noteq> None \<longrightarrow> dl_status x = Sending) (deliveries d)
    \<Longrightarrow> distinct (map dl_run_id (deliveries d)) \<Longrightarrow> worked (deliveries d) d"
  by (simp add: worked_def moved_def list_all2_refl)

subsection \<open>The two sessions\<close>

text \<open>A program that leaves the delivery table alone, as a mail service does.\<close>

definition leaves_deliveries :: "'a sess \<Rightarrow> bool" where
  "leaves_deliveries m \<longleftrightarrow> (\<forall>s. deliveries (working (snd (m s))) = deliveries (working s)
     \<and> deliveries (committed (snd (m s))) = deliveries (committed s))"

definition mails_only :: "sender \<Rightarrow> bool" where
  "mails_only send \<longleftrightarrow> (\<forall>m. leaves_deliveries (send m))"

lemma worked_expire:
  assumes "worked start d"
  shows "worked start (d\<lparr>deliveries := update_where (unconfirmed stamp) abandoned_delivery (deliveries d)\<rparr>)"
  using assms
  by (rule worked_update)
     (use assms in \<open>auto simp: unconfirmed_def phase_def delivery_ok_def worked_def list_all_iff
        abandoned_delivery_def intro!: delivery_step.give_up r_into_rtranclp\<close>)

lemma eligible_after_expire:
  assumes "x \<in> set (update_where (unconfirmed stamp) abandoned_delivery rows)"
    and "list_all delivery_ok rows" and "eligible stamp x"
  shows "dl_attempts x < MAX_ATTEMPTS \<and> dl_status x \<in> {DeliveryPending, Sending}"
proof -
  obtain y where y: "y \<in> set rows" "x = (if unconfirmed stamp y then abandoned_delivery y else y)"
    using assms(1) by (auto simp: set_update_where)
  have "\<not> unconfirmed stamp y"
    using assms(3) y(2) by (auto simp: eligible_def abandoned_delivery_def)
  with y assms(2,3) show ?thesis
    by (auto simp: eligible_def unconfirmed_def list_all_iff delivery_ok_def)
qed

lemma worked_claim:
  assumes "worked start d"
    and "\<And>x. x \<in> set (deliveries d) \<Longrightarrow> eligible stamp x \<Longrightarrow>
      dl_attempts x < MAX_ATTEMPTS \<and> dl_status x \<in> {DeliveryPending, Sending}"
  shows "worked start (d\<lparr>deliveries := update_where (\<lambda>x. dl_run_id x = run \<and> eligible stamp x)
     (claimed_delivery stamp token) (deliveries d)\<rparr>)"
  using assms(1)
proof (rule worked_update)
  fix x assume x: "x \<in> set (deliveries d)" "dl_run_id x = run \<and> eligible stamp x"
  with assms(2) have "delivery_step (phase x) (phase (claimed_delivery stamp token x))"
    by (fastforce simp: phase_def claimed_delivery_def intro: delivery_step.intros)
  with assms(2) x show "dl_run_id (claimed_delivery stamp token x) = dl_run_id x
      \<and> delivery_steps (phase x) (phase (claimed_delivery stamp token x))
      \<and> delivery_ok (claimed_delivery stamp token x)
      \<and> (dl_claim_token (claimed_delivery stamp token x) \<noteq> None
           \<longrightarrow> dl_status (claimed_delivery stamp token x) = Sending)"
    by (fastforce simp: claimed_delivery_def delivery_ok_def)
qed

lemma claim_worked: "keeps (both (worked start)) (delivery_claim stamp token)"
proof (rule keepsI)
  fix s r s' assume I: "both (worked start) s" and run: "delivery_claim stamp token s = (r, s')"
  define d where "d = (working s)\<lparr>deliveries := update_where (unconfirmed stamp) abandoned_delivery (deliveries (working s))\<rparr>"
  define rest :: "uuid option sess" where "rest = bind (query (next_delivery stamp)) (\<lambda>chosen.
      case chosen of
        None \<Rightarrow> seq rollback (ret None)
      | Some run \<Rightarrow>
          bind (claim_delivery stamp token run) (\<lambda>n.
          if n \<noteq> 1 then seq rollback (ret None)
          else seq commit (seq rollback (ret (Some run)))))"
  have d: "worked start d" unfolding d_def
    by (rule worked_expire) (use I in \<open>simp add: both_def\<close>)
  have eq: "delivery_claim stamp token s = seq commit rest (s\<lparr>working := d\<rparr>)"
    by (simp add: delivery_claim_def rest_def expire_unconfirmed_def set_deliveries_def step_change d_def)
  show "both (worked start) s'"
  proof (cases "constraints_ok d")
    case False
    then have "s' = s\<lparr>working := d\<rparr>"
      using run eq by (simp add: step_Inl [OF commit_fails])
    with I d show ?thesis by (simp add: both_def)
  next
    case True
    define t where "t = s\<lparr>working := d, committed := d\<rparr>"
    have at_t: "rest t = (r, s')"
      using run eq True by (simp add: step_Inr [OF commit_ok] t_def)
    have few: "dl_attempts x < MAX_ATTEMPTS \<and> dl_status x \<in> {DeliveryPending, Sending}"
      if "x \<in> set (deliveries d)" "eligible stamp x" for x
      using that I eligible_after_expire [of x stamp "deliveries (working s)"]
      by (simp add: d_def both_def worked_def)
    have t: "both (worked start) t" using d by (simp add: t_def both_def)
    show ?thesis
    proof (cases "next_delivery stamp d")
      case None
      then show ?thesis using at_t t by (auto simp: rest_def t_def run_simps both_def)
    next
      case (Some i)
      have c: "both (worked start) (t\<lparr>working := d\<lparr>deliveries :=
          update_where (\<lambda>x. dl_run_id x = i \<and> eligible stamp x) (claimed_delivery stamp token) (deliveries d)\<rparr>\<rparr>)"
        using worked_claim [OF d few, where run = i and token = token] d by (simp add: both_def t_def)
      have k: "keeps (both (worked start)) (if n \<noteq> 1 then seq rollback (ret None)
          else seq commit (seq rollback (ret (Some i))))" for n :: nat
        by (intro keeps_intros)
      from at_t Some obtain n where "(if n \<noteq> (1::nat) then seq rollback (ret None)
          else seq commit (seq rollback (ret (Some i)))) (t\<lparr>working := d\<lparr>deliveries :=
          update_where (\<lambda>x. dl_run_id x = i \<and> eligible stamp x) (claimed_delivery stamp token) (deliveries d)\<rparr>\<rparr>)
          = (r, s')"
        by (simp add: rest_def step_query claim_delivery_def set_deliveries_def Let_def bind_assoc
            seq_def step_change [unfolded seq_def] t_def)
      then show ?thesis using keepsD [OF k c] by blast
    qed
  qed
qed


text \<open>What a delivery may become, and that nothing else is written before the outcome.\<close>

lemma outcome_cases:
  assumes "mails_only send" and "delivery_outcome send base stamp x run s = (r, s')"
  shows "(\<exists>f. r = Inr f \<and> (f = held_delivery \<or> f = cancelled_delivery
             \<or> f = undelivered stamp (dl_attempts x) \<or> (\<exists>t. f = sent_delivery t)))
     \<and> deliveries (working s') = deliveries (working s) \<and> deliveries (committed s') = deliveries (committed s)"
proof -
  have sending: "deliveries (working t) = deliveries (working s) \<and> deliveries (committed t) = deliveries (committed s)"
    if "send_mail send base run u s = (v, t)" for u v t
  proof (cases "briefing_email (working s) run (usr_email u) base")
    case (Inl e)
    with that show ?thesis by (auto simp: send_mail_def run_simps)
  next
    case (Inr m)
    with that have "send m s = (v, t)" by (simp add: send_mail_def run_simps split: prod.splits sum.splits)
    with assms(1) show ?thesis by (simp add: mails_only_def leaves_deliveries_def) (metis snd_conv)
  qed
  show ?thesis
    using assms(2) sending unfolding delivery_outcome_def
    by (force simp: run_simps split: if_splits option.splits prod.splits sum.splits)
qed

lemma finish_row:
  assumes "delivery_ok x" and "dl_status x = Sending"
    and "f = held_delivery \<or> f = cancelled_delivery \<or> f = undelivered stamp (dl_attempts x)
           \<or> (\<exists>t. f = sent_delivery t)"
  shows "dl_run_id (released (f x)) = dl_run_id x \<and> delivery_steps (phase x) (phase (released (f x)))
     \<and> delivery_ok (released (f x)) \<and> dl_claim_token (released (f x)) = None"
proof -
  have "delivery_step (phase x) (phase (released (f x)))"
    using assms
    by (cases "MAX_ATTEMPTS \<le> dl_attempts x")
       (auto simp: phase_def released_def held_delivery_def cancelled_delivery_def
        sent_delivery_def undelivered_def Let_def delivery_step_simps)
  with assms show ?thesis
    by (auto simp: released_def held_delivery_def cancelled_delivery_def delivery_ok_def
        sent_delivery_def undelivered_def Let_def split: if_splits)
qed

lemma finish_worked:
  assumes mail: "mails_only send"
  shows "keeps (both (worked start)) (delivery_finish send base stamp token run)"
proof (rule keepsI)
  fix s r s'
  assume I: "both (worked start) s" and out: "delivery_finish send base stamp token run s = (r, s')"
  show "both (worked start) s'"
  proof (cases "get_row dl_run_id run (deliveries (working s)) = None \<or> get_run run (working s) = None")
    case True
    with out I show ?thesis by (auto simp: delivery_finish_def step_query ret_def split: option.splits)
  next
    case False
    then obtain x i where x: "get_row dl_run_id run (deliveries (working s)) = Some x"
      and i: "get_run run (working s) = Some i" by auto
    obtain v t where o: "delivery_outcome send base stamp x i s = (v, t)" by fastforce
    from outcome_cases [OF mail o] obtain f where v: "v = Inr f"
      and f: "f = held_delivery \<or> f = cancelled_delivery \<or> f = undelivered stamp (dl_attempts x)
           \<or> (\<exists>t. f = sent_delivery t)"
      and same: "deliveries (working t) = deliveries (working s)"
        "deliveries (committed t) = deliveries (committed s)" by blast
    have w: "worked start (working s)" using I by (simp add: both_def)
    have t: "both (worked start) t" using I same by (simp add: both_def worked_def)
    let ?p = "\<lambda>y. dl_run_id y = run \<and> dl_claim_token y = Some token"
    have c: "both (worked start) (t\<lparr>working := (working t)\<lparr>deliveries :=
        update_where ?p (released \<circ> f) (deliveries (working t))\<rparr>\<rparr>)"
    proof -
      have "worked start ((working t)\<lparr>deliveries := update_where ?p (released \<circ> f) (deliveries (working t))\<rparr>)"
      proof (rule worked_update)
        show "worked start (working t)" using t by (simp add: both_def)
        fix y assume y: "y \<in> set (deliveries (working t))" "?p y"
        have "y = x"
          using y w x get_row_distinct [of dl_run_id "deliveries (working s)" y]
          by (simp add: same worked_def)
        then have "dl_status x = Sending" "delivery_ok x"
          using y w by (auto simp: same worked_def list_all_iff)
        from finish_row [OF this(2,1) f] \<open>y = x\<close>
        show "dl_run_id ((released \<circ> f) y) = dl_run_id y
            \<and> delivery_steps (phase y) (phase ((released \<circ> f) y)) \<and> delivery_ok ((released \<circ> f) y)
            \<and> (dl_claim_token ((released \<circ> f) y) \<noteq> None \<longrightarrow> dl_status ((released \<circ> f) y) = Sending)"
          by simp
      qed
      with t show ?thesis by (simp add: both_def)
    qed
    have "delivery_finish send base stamp token run s = seq commit rollback (t\<lparr>working := (working t)\<lparr>deliveries :=
        update_where ?p (released \<circ> f) (deliveries (working t))\<rparr>\<rparr>)"
      using x i by (simp add: delivery_finish_def step_query set_deliveries_def step_change
          step_Inr(1) [where m = "delivery_outcome send base stamp x i", OF o [unfolded v]])
    with out have "seq commit rollback (t\<lparr>working := (working t)\<lparr>deliveries :=
        update_where ?p (released \<circ> f) (deliveries (working t))\<rparr>\<rparr>) = (r, s')" by simp
    moreover have "keeps (both (worked start)) (seq commit rollback)" by (intro keeps_intros)
    ultimately show ?thesis using c
      by (elim keepsD [where m = "seq commit rollback" and I = "both (worked start)", rotated 2])
  qed
qed

lemma deliver_worked: "mails_only send \<Longrightarrow> keeps (both (worked start)) (deliver_once send base)"
  unfolding deliver_once_def Let_def by (intro keeps_intros claim_worked finish_worked)


subsection \<open>Refinement\<close>

text \<open>C10: a turn of the delivery worker moves every delivery along the abstract machine: a
  waiting delivery is claimed, a claimed one is sent, held, cancelled, failed or put back, and
  each claim counts as an attempt.  So nobody is mailed more than five times for one run, a
  delivery that waits has an attempt left, and one that has ended stays as it is.\<close>

theorem delivery_worker_refines:
  assumes "mails_only send" and "distinct (map dl_run_id (deliveries d))"
    and "\<forall>x \<in> set (deliveries d). delivery_ok x \<and> (dl_claim_token x \<noteq> None \<longrightarrow> dl_status x = Sending)"
    and "d' = published e (deliver_once send base) d"
  shows "list_all2 (\<lambda>x y. dl_run_id y = dl_run_id x \<and> delivery_steps (phase x) (phase y)
        \<and> dl_attempts x \<le> dl_attempts y \<and> dl_attempts y \<le> 5
        \<and> (dl_status y = DeliveryPending \<longrightarrow> dl_attempts y < 5)
        \<and> (settled_status (dl_status x) \<longrightarrow> phase y = phase x))
     (deliveries d) (deliveries d')"
proof -
  have "worked (deliveries d) d" using assms(2,3) by (intro worked_own) (auto simp: list_all_iff)
  then have w: "worked (deliveries d) d'"
    using publishedI [OF deliver_worked [OF assms(1)]] assms(4) by blast
  have "dl_attempts y \<le> 5 \<and> (dl_status y = DeliveryPending \<longrightarrow> dl_attempts y < 5)" if "y \<in> set (deliveries d')" for y
    using w that by (simp add: worked_def list_all_iff delivery_ok_def MAX_ATTEMPTS_def)
  moreover have "dl_attempts x \<le> dl_attempts y" "settled_status (dl_status x) \<longrightarrow> phase y = phase x"
    if "delivery_steps (phase x) (phase y)" for x y
    using attempts_grow [OF that] settled_stays [OF that] by (auto simp: phase_def)
  ultimately show ?thesis
    using w unfolding worked_def moved_def by (auto elim!: list.rel_mono_strong)
qed

subsection \<open>What is sent\<close>

text \<open>The row a turn ends with, when its token still stands.\<close>

lemma finish_decided:
  assumes "get_row dl_run_id run (deliveries (working s)) = Some x" and "get_run run (working s) = Some i"
    and "delivery_outcome send base stamp x i s = (Inr f, t)"
  shows "delivery_finish send base stamp token run s
       = seq (set_deliveries (\<lambda>y. dl_run_id y = run \<and> dl_claim_token y = Some token) (released \<circ> f))
           (seq commit rollback) t"
  using assms(1,2) by (simp add: delivery_finish_def step_query 
      step_Inr(1) [where m = "delivery_outcome send base stamp x i", OF assms(3)])

text \<open>C28: the sender is not called for a run whose quality decision forbids delivery, nor for
  an account that is gone or inactive: the turn does the same whatever the sender is, and the
  delivery becomes held or cancelled.\<close>

theorem no_mail_unless_allowed:
  assumes "get_row dl_run_id run (deliveries (working s)) = Some x" and "get_run run (working s) = Some i"
    and "owner = get_row usr_id (rn_owner_id i) (users (working s))"
    and "\<not> delivery_allowed i \<or> owner = None \<or> \<not> usr_is_active (the owner)"
  shows "delivery_finish send base stamp token run s
       = seq (set_deliveries (\<lambda>y. dl_run_id y = run \<and> dl_claim_token y = Some token)
                (released \<circ> (if delivery_allowed i then cancelled_delivery else held_delivery)))
           (seq commit rollback) s"
proof (rule finish_decided [OF assms(1,2)])
  show "delivery_outcome send base stamp x i s
      = (Inr (if delivery_allowed i then cancelled_delivery else held_delivery), s)"
    using assms(3,4) by (auto simp: delivery_outcome_def step_query ret_def split: option.splits)
qed

text \<open>C29: the mail for a run goes to the address given, holds no markup but that of the
  template (removing every stored text from it leaves the same angle brackets and quotes), and
  links only to \<open>http\<close> and \<open>https\<close> addresses with a host and without credentials.\<close>

theorem mail_markup_is_template:
  assumes "briefing_email d run recipient base_url = Inr m"
  shows "em_recipient m = recipient
     \<and> (\<exists>b h ps. briefing_of (rn_id run) d = Some b \<and> em_html m = Some h
          \<and> ps = papers_to_read (rn_id run) d (rb_data b)
          \<and> markup h = markup (briefing_html (blank_briefing b)
                (map blank_section (sections_before run (rb_data b))) (map blank_paper ps)
                (map blank_section (sections_after (rb_data b))) [])
          \<and> list_all (\<lambda>(category, title, url). case url of None \<Rightarrow> True | Some u \<Rightarrow>
               (case urlsplit u of Inl e \<Rightarrow> False | Inr p \<Rightarrow> scheme p \<in> {''http'', ''https''}
                  \<and> hostname p \<noteq> [] \<and> username p = [] \<and> password p = [])) ps)"
proof -
  obtain b where b: "briefing_of (rn_id run) d = Some b" "em_recipient m = recipient"
    "em_html m = Some (briefing_html b (sections_before run (rb_data b))
       (papers_to_read (rn_id run) d (rb_data b)) (sections_after (rb_data b)) (run_link run base_url))"
    by (rule briefing_email_ok [OF assms])
  let ?ps = "papers_to_read (rn_id run) d (rb_data b)"
  have "list_all (\<lambda>(category, title, url). case url of None \<Rightarrow> True | Some u \<Rightarrow>
               (case urlsplit u of Inl e \<Rightarrow> False | Inr p \<Rightarrow> scheme p \<in> {''http'', ''https''}
                  \<and> hostname p \<noteq> [] \<and> username p = [] \<and> password p = [])) ?ps"
    unfolding list_all_iff using papers_to_read_safe by (fastforce split: option.splits)
  with b show ?thesis by (simp add: markup_briefing [where link = "run_link run base_url"])
qed

subsection \<open>Examples\<close>

definition quiet_sender :: sender where
  "quiet_sender m = ret ()"

definition waiting_delivery :: "uuid \<Rightarrow> DigestEmailDelivery" where
  "waiting_delivery run = \<lparr>dl_run_id = run, dl_status = DeliveryPending, dl_attempts = 0,
     dl_next_attempt_at = noon, dl_claim_token = None, dl_claimed_until = None, dl_sent_at = None,
     dl_last_error = None\<rparr>"

definition sample_briefing :: DigestRunBriefing where
  "sample_briefing = \<lparr>rb_id = 31, rb_run_id = 1, rb_title = ''Sleep & memory'',
     rb_executive_summary = ''<b>Short</b> naps help.'', rb_content_markdown = [],
     rb_data = \<lparr>db_title = ''Sleep & memory'', db_executive_summary = [], db_highlights = [],
       db_main_signal = None, db_top_paper_external_ids = [], db_secondary_paper_external_ids = [],
       db_recommendations = [], db_recommended_next_searches = [], db_source_basis = SBAbstractsOnly,
       db_transparency_note = [], db_quality_warnings = [], db_source_attributions = [],
       db_content_markdown = []\<rparr>\<rparr>"

definition delivery_db :: db where
  "delivery_db = empty_db\<lparr>users := [sample_user 4 None], digest_runs :=
     [(sample_run 1 4 60)\<lparr>rn_status := COMPLETED, rn_completed_at := Some noon\<rparr>],
     briefings := [sample_briefing], deliveries := [waiting_delivery 1]\<rparr>"

lemma mails_only_quiet: "mails_only quiet_sender"
  by (simp add: mails_only_def leaves_deliveries_def quiet_sender_def ret_def)

theorem delivery_worker_refines_witness:
  "\<exists>d'. d' = published sample_env (deliver_once quiet_sender ''https://radar.test'') delivery_db
     \<and> list_all2 (\<lambda>x y. dl_run_id y = dl_run_id x \<and> delivery_steps (phase x) (phase y)
        \<and> dl_attempts x \<le> dl_attempts y \<and> dl_attempts y \<le> 5
        \<and> (dl_status y = DeliveryPending \<longrightarrow> dl_attempts y < 5)
        \<and> (settled_status (dl_status x) \<longrightarrow> phase y = phase x))
     (deliveries delivery_db) (deliveries d')"
proof -
  have "distinct (map dl_run_id (deliveries delivery_db))"
    "\<forall>x \<in> set (deliveries delivery_db). delivery_ok x \<and> (dl_claim_token x \<noteq> None \<longrightarrow> dl_status x = Sending)"
    by (simp_all add: delivery_db_def waiting_delivery_def delivery_ok_def MAX_ATTEMPTS_def)
  from delivery_worker_refines [OF mails_only_quiet this refl] show ?thesis by blast
qed

theorem no_mail_unless_allowed_witness:
  "\<exists>s i. get_run 1 (working s) = Some i \<and> \<not> delivery_allowed i
     \<and> delivery_finish quiet_sender ''https://radar.test'' noon ''token'' 1 s
       = seq (set_deliveries (\<lambda>y. dl_run_id y = 1 \<and> dl_claim_token y = Some ''token'')
                (released \<circ> held_delivery)) (seq commit rollback) s"
proof -
  define i where "i = (sample_run 1 4 60)\<lparr>rn_quality_delivery_blocked := True\<rparr>"
  define s where "s = open_session sample_env (delivery_db\<lparr>digest_runs := [i]\<rparr>)"
  have i: "\<not> delivery_allowed i" by (simp add: i_def delivery_allowed_def)
  have rows: "get_row dl_run_id 1 (deliveries (working s)) = Some (waiting_delivery 1)"
    "get_run 1 (working s) = Some i"
    by (simp_all add: s_def i_def delivery_db_def get_row_def get_run_def waiting_delivery_def
        sample_run_def new_run_def)
  from no_mail_unless_allowed [OF rows refl, of quiet_sender "''https://radar.test''" noon "''token''"] i rows
  show ?thesis by auto
qed

theorem mail_markup_is_template_witness:
  "\<exists>m. briefing_email delivery_db (sample_run 1 4 60) ''ada@example.org'' ''https://radar.test'' = Inr m
     \<and> em_recipient m = ''ada@example.org''"
proof -
  have "\<exists>m. briefing_email delivery_db (sample_run 1 4 60) ''ada@example.org'' ''https://radar.test'' = Inr m"
    by (simp add: briefing_email_def delivery_allowed_def sample_run_def new_run_def briefing_of_def
        delivery_db_def get_row_def sample_briefing_def host_text_def urlsplit_def split_scheme_def
        cut_at_def lstrip_by_def startswith_def is_scheme_char_def is_alpha_def is_upper_def is_lower_def
        Let_def)
  then show ?thesis using mail_markup_is_template by blast
qed

end
