(* ===== verification/DispatchProperties.thy ===== *)
theory DispatchProperties
  imports Dispatch ServiceProperties
begin

section \<open>Properties of the schedule dispatcher\<close>

text \<open>
  Starting a run inside the dispatcher's transaction publishes nothing before the final
  commit and moves no cursor except by pausing a schedule (\<open>transaction\<close>).  From this: a
  dispatched occurrence is never due again, and a refused one leaves everything as it was.
\<close>

subsection \<open>Inside a transaction\<close>

definition same_digest :: "Digest \<Rightarrow> Digest \<Rightarrow> bool" where
  "same_digest g g' \<longleftrightarrow> dg_id g' = dg_id g \<and> dg_owner_id g' = dg_owner_id g
     \<and> (dg_schedule_next_at g' = dg_schedule_next_at g \<or> dg_schedule_next_at g' = None)"

definition calm :: "(db \<Rightarrow> db) \<Rightarrow> bool" where
  "calm f \<longleftrightarrow> (\<forall>d. list_all2 same_digest (digests d) (digests (f d)))"

lemma same_digest_refl: "list_all2 same_digest ds ds"
  by (simp add: list_all2_refl same_digest_def)

lemma calm_same: "(\<And>d. digests (f d) = digests d) \<Longrightarrow> calm f"
  by (simp add: calm_def same_digest_refl)

lemma calm_update:
  "(\<And>g. same_digest g (h g)) \<Longrightarrow> calm (\<lambda>d. d\<lparr>digests := update_where (q d) h (digests d)\<rparr>)"
  by (auto simp: calm_def update_where_def list_all2_conv_all_nth same_digest_def)

locale transaction =
  fixes I :: "session \<Rightarrow> bool"
  assumes draws: "keeps I now" "keeps I uuid4" "keeps I flush"
    and writes: "calm f \<Longrightarrow> keeps I (change f)"
begin

lemmas basic [keeps_intros] = draws

lemma other_table [keeps_intros]: "(\<And>d. digests (f d) = digests d) \<Longrightarrow> keeps I (change f)"
  by (simp add: writes calm_same)

lemma t_rows [keeps_intros]:
  "keeps I (set_run i f)" "keeps I (set_stage i g)" "keeps I (set_observed i h)"
  "keeps I (set_state user k)" "keeps I (enqueue user key subject body)" "keeps I (lock_account user)"
  unfolding set_run_def set_stage_def set_observed_def set_state_def enqueue_def lock_account_def
  by (intro keeps_intros; simp add: Let_def)+

lemma t_billing [keeps_intros]:
  "keeps I (require_open_account user)" "keeps I default_plan" "keeps I (assign_free user stamp)"
  unfolding require_open_account_def default_plan_def assign_free_def Let_def
  by (intro keeps_intros; simp)+

lemma t_resolve_parts [keeps_intros]:
  "keeps I (account_state user result stamp)" "keeps I (record_effective user state result stamp)"
  "keeps I (free_digest_ids user state limit paid)" "keeps I (fall_back user state result)"
  unfolding account_state_def record_effective_def free_digest_ids_def fall_back_def Let_def
  by (intro keeps_intros; simp)+

lemma t_activate [keeps_intros]: "keeps I (activate_digests user state result)"
  unfolding activate_digests_def
  by (intro keeps_intros writes calm_update) (simp add: same_digest_def pause_digest_def)

lemma t_resolve [keeps_intros]: "keeps I (resolve user settings)"
  unfolding resolve_def resolve_locked_def Let_def by (intro keeps_intros)

lemma t_assess [keeps_intros]: "keeps I (assess user requested trigger context settings digest)"
  unfolding assess_def assess_usage_def by (intro keeps_intros)

lemma t_reserve [keeps_intros]: "keeps I (reserve run schedule settings)"
  unfolding reserve_def book_usage_def Let_def by (intro keeps_intros; simp)

lemma t_observe [keeps_intros]: "keeps I (obs_reserve run schedule)"
  unfolding obs_reserve_def assess_observed_def Let_def by (intro keeps_intros; simp)

lemma t_limit [keeps_intros]: "keeps I (enforce hmac settings scope subject limit secs False)"
  unfolding enforce_def consume_def count_up_def Let_def if_False by (intro keeps_intros; simp)

lemma t_stages [keeps_intros]: "keeps I (new_stages run model version n ts)"
  by (induction ts arbitrary: n) (auto intro!: keeps_intros)

lemma t_create [keeps_intros]: "keeps I (create_queued zs c g owner scheduled tz)"
  unfolding create_queued_def create_running_def by (intro keeps_intros; simp)

lemma t_start [keeps_intros]: "keeps I (start_digest hmac zs c digest owner scheduled tz False)"
  unfolding start_digest_def has_running_for_owner_def reserve_run_budget_def book_run_def if_False
  by (intro keeps_intros)

end

text \<open>Nothing is published, and a digest that is not due does not become so.\<close>

definition not_due :: "uuid \<Rightarrow> datetime \<Rightarrow> db \<Rightarrow> bool" where
  "not_due i stamp d \<longleftrightarrow>
     (\<forall>g \<in> set (digests d). dg_id g = i \<longrightarrow> \<not> at_or_before (dg_schedule_next_at g) stamp)"

lemma not_due_calm: "calm f \<Longrightarrow> not_due i stamp d \<Longrightarrow> not_due i stamp (f d)"
  unfolding calm_def not_due_def
  by (fastforce simp: same_digest_def at_or_before_def list_all2_conv_all_nth in_set_conv_nth
      split: option.splits)

interpretation unpublished: transaction "\<lambda>s. committed s = c" for c
  by unfold_locales (simp_all add: keeps_def run_simps)

interpretation settled_cursor: transaction "on_working (not_due i stamp)" for i stamp
  by unfold_locales (auto intro: on_working_basic on_working_change not_due_calm)


subsection \<open>Occurrences\<close>

definition zones_ok :: "zones \<Rightarrow> bool" where
  "zones_ok zs \<longleftrightarrow> (\<forall>name. case zs name of None \<Rightarrow> True | Some z \<Rightarrow> zone_ok z)"

lemma occurrences_after:
  assumes "zones_ok zs" and "occurrences_at zs sch stamp = Inr (due, following)"
  shows "\<not> at_or_before following stamp"
proof -
  obtain z where z: "zs (sch_time_zone sch) = Some z"
    and a: "around (utc_offset z) (wall_offset z) sch stamp = Some (due, following)"
    using assms(2) by (auto simp: occurrences_at_def split: option.splits)
  have zone: "zone_ok z" using assms(1) z unfolding zones_ok_def by (metis option.case(2))
  show ?thesis
  proof (cases "case sch_ends_at sch of None \<Rightarrow> True | Some e \<Rightarrow> stamp < e")
    case True
    from timezone.around_correct [OF timezone_zone [OF zone] True] obtain latest upcoming where
      "around (utc_offset z) (wall_offset z) sch stamp = Some (latest,
         (case sch_ends_at sch of None \<Rightarrow> Some upcoming | Some e \<Rightarrow> if upcoming \<ge> e then None else Some upcoming))"
      and "stamp < upcoming" by metis
    with a show ?thesis by (auto simp: at_or_before_def split: option.splits if_splits)
  next
    case False
    with a show ?thesis by (auto simp: around_def at_or_before_def split: option.splits)
  qed
qed

text \<open>A zone of the database makes \<open>around\<close> return, so that \<open>occurrences_at\<close> does.\<close>

lemma occurrences_return:
  assumes "zones_ok zs" and "validate_schedule zs sch = Inr sch'"
  shows "\<exists>r. occurrences_at zs sch stamp = Inr r"
proof -
  obtain z where z: "zs (sch_time_zone sch) = Some z"
    using assms(2) by (auto simp: validate_schedule_def validation_error_def split: if_splits)
  have zone: "zone_ok z" using assms(1) z unfolding zones_ok_def by (metis option.case(2))
  have "\<exists>r. around (utc_offset z) (wall_offset z) sch stamp = Some r"
  proof (cases "case sch_ends_at sch of None \<Rightarrow> True | Some e \<Rightarrow> stamp < e")
    case True
    from timezone.around_correct [OF timezone_zone [OF zone] True] show ?thesis by metis
  next
    case False
    then show ?thesis by (auto simp: around_def split: option.splits)
  qed
  with z show ?thesis by (auto simp: occurrences_at_def)
qed

subsection \<open>A dispatched occurrence\<close>

lemma yields_catch:
  "yields I m Q \<Longrightarrow> (\<And>e. yields (\<lambda>_. True) (h e) Q) \<Longrightarrow> yields I (catch m h) Q"
  by (fastforce simp: yields_def catch_def split: prod.splits sum.splits)

lemma yields_any: "(\<And>v s. Q v s) \<Longrightarrow> yields I m Q"
  by (simp add: yields_def)

lemma yields_commit: "yields (on_working P) (seq commit (ret True)) (\<lambda>v s. v \<longrightarrow> P (committed s))"
  by (auto simp: yields_def on_working_def run_simps split: if_splits)

lemma yields_False: "yields I (seq m (ret False)) (\<lambda>v s. v \<longrightarrow> P s)"
  by (auto simp: yields_def run_simps split: prod.splits sum.splits)

lemma refused_yields: "yields (\<lambda>_. True) (refused_dispatch i cursor stamp e) (\<lambda>v s. v \<longrightarrow> P s)"
  unfolding refused_dispatch_def
  by (cases "exn_class e")
     (simp_all add: yields_def run_simps split: prod.splits sum.splits if_splits)

lemma start_scheduled_yields:
  "yields (on_working (not_due i stamp)) (start_scheduled hmac zs c stamp i owner t sch)
     (\<lambda>v s. v \<longrightarrow> not_due i stamp (committed s))"
  unfolding start_scheduled_def set_digest_def
  by (intro keeps_then keeps_seq_then yields_commit settled_cursor.t_start settled_cursor.writes
      calm_update calm_same keeps_intros) (simp_all add: same_digest_def)

lemma not_due_moved:
  assumes "\<not> at_or_before following stamp"
  shows "not_due i stamp (d\<lparr>digests := update_where (\<lambda>g. dg_id g = i)
     (\<lambda>g. g\<lparr>dg_schedule_next_at := following\<rparr>) (digests d)\<rparr>)"
  unfolding not_due_def
proof (intro ballI impI)
  fix g assume "g \<in> set (digests (d\<lparr>digests := update_where (\<lambda>g. dg_id g = i)
     (\<lambda>g. g\<lparr>dg_schedule_next_at := following\<rparr>) (digests d)\<rparr>))" and i: "dg_id g = i"
  then obtain x where "g = (if dg_id x = i then x\<lparr>dg_schedule_next_at := following\<rparr> else x)"
    by (auto simp: set_update_where)
  with i have "dg_schedule_next_at g = following" by (cases "dg_id x = i") simp_all
  with assms show "\<not> at_or_before (dg_schedule_next_at g) stamp" by simp
qed

lemma moved_cursor_not_due:
  "\<not> at_or_before following stamp \<Longrightarrow> yields (\<lambda>_. True)
     (set_digest i (\<lambda>x. x\<lparr>dg_schedule_next_at := following\<rparr>)) (\<lambda>_. on_working (not_due i stamp))"
  by (simp add: yields_def set_digest_def change_def modify_def on_working_def not_due_moved)

lemma dispatch_occurrence_yields:
  assumes "zones_ok zs"
  shows "yields (\<lambda>_. True) (dispatch_occurrence hmac zs c stamp g sch)
     (\<lambda>v s. v \<longrightarrow> not_due (dg_id g) stamp (committed s))"
proof -
  have r: "yields (\<lambda>_. True) (seq rollback (ret False)) (\<lambda>v s. v \<longrightarrow> P s)" for P :: "session \<Rightarrow> bool"
    by (rule yields_False)
  have rest: "yields (\<lambda>_. True)
      (seq (set_digest (dg_id g) (\<lambda>x. x\<lparr>dg_schedule_next_at := following\<rparr>))
       (bind (query (active_user (dg_owner_id g))) (\<lambda>active.
        if \<not> active then seq rollback (ret False)
        else (case due of
            None \<Rightarrow> seq commit (ret False)
          | Some t \<Rightarrow> catch (start_scheduled hmac zs c stamp (dg_id g) (dg_owner_id g) t sch)
              (refused_dispatch (dg_id g) (dg_schedule_next_at g) stamp)))))
      (\<lambda>v s. v \<longrightarrow> not_due (dg_id g) stamp (committed s))"
    if "\<not> at_or_before following stamp" for due following
    using moved_cursor_not_due [OF that]
  proof (rule yields_seq)
    show "yields (on_working (not_due (dg_id g) stamp))
      (bind (query (active_user (dg_owner_id g))) (\<lambda>active.
        if \<not> active then seq rollback (ret False)
        else (case due of
            None \<Rightarrow> seq commit (ret False)
          | Some t \<Rightarrow> catch (start_scheduled hmac zs c stamp (dg_id g) (dg_owner_id g) t sch)
              (refused_dispatch (dg_id g) (dg_schedule_next_at g) stamp))))
      (\<lambda>v s. v \<longrightarrow> not_due (dg_id g) stamp (committed s))"
      by (rule keeps_then, intro keeps_intros, intro yields_if yields_False, cases due)
         (simp_all add: yields_False yields_catch start_scheduled_yields refused_yields)
  qed
  show ?thesis
    unfolding dispatch_occurrence_def
  proof (rule yields_bind [OF yields_lift])
    fix s v assume "occurrences_at zs sch stamp = Inr v"
    then show "\<not> at_or_before (snd v) stamp" using occurrences_after [OF assms] by (cases v) simp
  next
    fix v :: "datetime option \<times> datetime option"
    show "yields (\<lambda>s. \<not> at_or_before (snd v) stamp) (case v of (due, following) \<Rightarrow>
        bind (swap_cursor (dg_id g) (dg_schedule_next_at g) following) (\<lambda>n.
          if n \<noteq> 1 then seq rollback (ret False)
          else seq (set_digest (dg_id g) (\<lambda>x. x\<lparr>dg_schedule_next_at := following\<rparr>))
       (bind (query (active_user (dg_owner_id g))) (\<lambda>active.
        if \<not> active then seq rollback (ret False)
        else (case due of
            None \<Rightarrow> seq commit (ret False)
          | Some t \<Rightarrow> catch (start_scheduled hmac zs c stamp (dg_id g) (dg_owner_id g) t sch)
              (refused_dispatch (dg_id g) (dg_schedule_next_at g) stamp))))))
      (\<lambda>v s. v \<longrightarrow> not_due (dg_id g) stamp (committed s))"
    proof (cases v)
      case (Pair due following)
      have k: "keeps (\<lambda>s. \<not> at_or_before following stamp) m" for m :: "nat sess"
        by (simp add: keeps_def)
      show ?thesis
        unfolding Pair prod.case snd_conv
        by (rule keeps_then [OF k], intro yields_if yields_False)
           (use rest in \<open>simp add: yields_def\<close>)
    qed
  qed
qed


lemma dispatch_digest_yields:
  assumes "zones_ok zs"
  shows "yields (\<lambda>_. True) (dispatch_digest hmac zs c stamp i) (\<lambda>v s. v \<longrightarrow> not_due i stamp (committed s))"
proof -
  have k: "keeps (\<lambda>_. True) m" for m :: "'x sess" by (simp add: keeps_def)
  have ends: "yields (\<lambda>_. True) (ret False) (\<lambda>v s. v \<longrightarrow> P s)" for P :: "session \<Rightarrow> bool"
    by (simp add: yields_ret)
  have found: "yields (\<lambda>_. True) (query (get_digest i)) (\<lambda>v s. case v of None \<Rightarrow> True | Some g \<Rightarrow> dg_id g = i)"
    by (auto simp: yields_def query_def gets_def get_digest_def split: option.split dest: get_row_Some)
  have last: "yields (\<lambda>s. case v of None \<Rightarrow> True | Some g \<Rightarrow> dg_id g = i)
      (case v of None \<Rightarrow> raise AttributeErrorPy []
              | Some g \<Rightarrow>
                  if dg_schedule_paused g then seq commit (ret False)
                  else (case dg_schedule g of
                      None \<Rightarrow> raise ValidationError []
                    | Some stored \<Rightarrow>
                        bind (lift_result (validate_schedule zs stored))
                          (dispatch_occurrence hmac zs c stamp g)))
      (\<lambda>v s. v \<longrightarrow> not_due i stamp (committed s))" for v
  proof (cases v)
    case None
    then show ?thesis by (simp add: yields_raise)
  next
    case (Some g)
    show ?thesis
    proof (cases "dg_id g = i")
      case True
      have "yields (\<lambda>_. True) (bind (lift_result x) (dispatch_occurrence hmac zs c stamp g))
          (\<lambda>v s. v \<longrightarrow> not_due i stamp (committed s))" for x
        using keeps_then [OF k dispatch_occurrence_yields [OF assms]] True by auto
      with Some True show ?thesis
        by (auto simp: yields_False yields_raise split: option.split)
    qed (simp add: Some yields_def)
  qed
  show ?thesis
    unfolding dispatch_digest_def
  proof (rule keeps_then [OF k])
    fix v
    show "yields (\<lambda>_. True) (case v of None \<Rightarrow> ret False
     | Some g0 \<Rightarrow>
         if \<not> still_due stamp g0 then ret False
         else seq (lock_account (dg_owner_id g0))
           (bind (query (get_digest i)) (\<lambda>fresh.
            if \<not> (case fresh of None \<Rightarrow> False | Some g \<Rightarrow> still_due stamp g)
            then seq rollback (ret False)
            else bind (resolve (dg_owner_id g0) (sm_settings c)) (\<lambda>access.
              bind (query (get_digest i)) (\<lambda>current.
              case current of None \<Rightarrow> raise AttributeErrorPy []
              | Some g \<Rightarrow>
                  if dg_schedule_paused g then seq commit (ret False)
                  else (case dg_schedule g of
                      None \<Rightarrow> raise ValidationError []
                    | Some stored \<Rightarrow>
                        bind (lift_result (validate_schedule zs stored))
                          (dispatch_occurrence hmac zs c stamp g)))))))
     (\<lambda>v s. v \<longrightarrow> not_due i stamp (committed s))"
    proof (cases v)
      case None
      then show ?thesis by (simp add: ends)
    next
      case (Some g0)
      show ?thesis
        unfolding Some option.case
        by (intro yields_if ends keeps_seq_then [OF k] keeps_then [OF k] yields_False
            yields_bind [OF found last])
    qed
  qed
qed

text \<open>C11: when the dispatcher has queued a run for a digest, the committed cursor of that digest
  lies after the time of the tick or is gone: it is not among the due digests any more, and
  another turn at the same time does nothing, so an occurrence is dispatched at most once.\<close>

theorem dispatched_once:
  assumes "zones_ok zs" and "dispatch_digest hmac zs c stamp i s = (Inr True, s')"
  shows "(\<forall>g \<in> set (digests (committed s')). dg_id g = i \<longrightarrow> \<not> at_or_before (dg_schedule_next_at g) stamp)
     \<and> i \<notin> set (due_digests stamp (committed s'))
     \<and> fst (dispatch_digest hmac zs c stamp i (snd (rollback s'))) = Inr False"
proof -
  have n: "not_due i stamp (committed s')"
    using yieldsD [OF dispatch_digest_yields [OF assms(1)] _ assms(2)] by simp
  have "i \<notin> set (due_digests stamp (committed s'))"
    using n by (auto simp: due_digests_def due_digest_def not_due_def dest!: in_set_takeD)
  moreover have "fst (dispatch_digest hmac zs c stamp i (snd (rollback s'))) = Inr False"
  proof (cases "get_digest i (committed s')")
    case None
    then show ?thesis by (simp add: dispatch_digest_def run_simps)
  next
    case (Some g)
    then have "\<not> still_due stamp g"
      using n by (auto simp: get_digest_def not_due_def still_due_def dest: get_row_Some)
    with Some show ?thesis by (simp add: dispatch_digest_def run_simps)
  qed
  ultimately show ?thesis using n by (simp add: not_due_def)
qed


subsection \<open>A refused occurrence\<close>

definition postponed :: "uuid \<Rightarrow> datetime option \<Rightarrow> datetime \<Rightarrow> db \<Rightarrow> db" where
  "postponed i cursor stamp d = d\<lparr>digests := update_where
     (\<lambda>g. dg_id g = i \<and> dg_schedule_next_at g = cursor)
     (\<lambda>g. g\<lparr>dg_subscription_retry_at := Some (stamp + seconds 60)\<rparr>) (digests d)\<rparr>"

lemma refused_committed:
  assumes "refused_dispatch i cursor stamp e s = (r, s')"
  shows "committed s' \<in> {committed s, postponed i cursor stamp (committed s)}"
proof -
  have "keeps (\<lambda>t. committed t = committed s) (reraise e :: bool sess)"
    "keeps (\<lambda>t. committed t = committed s) (seq rollback (ret False))"
    by (simp_all add: keeps_def run_simps)
  with assms show ?thesis
    unfolding refused_dispatch_def
    by (cases "exn_class e") (auto simp: postponed_def run_simps split: if_splits)
qed

lemma start_scheduled_committed:
  assumes "start_scheduled hmac zs c stamp i owner t sch s = (r, s')" and "committed s' \<noteq> committed s"
  shows "r = Inr True"
proof -
  have keep: "keeps (\<lambda>u. committed u = committed s) (start_digest hmac zs c i owner (Some t) tz False)" for tz
    by (rule unpublished.t_start)
  obtain v u where v: "start_digest hmac zs c i owner (Some t) (sch_time_zone sch) False s = (v, u)" by fastforce
  have u: "committed u = committed s" using keepsD [OF keep _ v] by simp
  show ?thesis
    using assms v u unfolding start_scheduled_def
    by (cases v) (auto simp: run_simps split: if_splits)
qed

text \<open>C27: an occurrence that is due is dispatched as a whole or not at all: unless its turn
  reports a queued run, what is committed is the database the turn began with, in which at
  most the digest was put off for a minute because its account may not run.\<close>

theorem refused_dispatch_is_atomic:
  assumes "dispatch_occurrence hmac zs c stamp g sch s = (r, s')" and "r \<noteq> Inr True"
    and "occurrences_at zs sch stamp = Inr (Some t, following)"
  shows "committed s' \<in> {committed s, postponed (dg_id g) (dg_schedule_next_at g) stamp (committed s)}"
proof -
  define rest where "rest = catch (start_scheduled hmac zs c stamp (dg_id g) (dg_owner_id g) t sch)
      (refused_dispatch (dg_id g) (dg_schedule_next_at g) stamp)"
  have rest: "committed v \<in> {committed u, postponed (dg_id g) (dg_schedule_next_at g) stamp (committed u)}"
    if "rest u = (r, v)" for u v
  proof -
    obtain w x where w: "start_scheduled hmac zs c stamp (dg_id g) (dg_owner_id g) t sch u = (w, x)" by fastforce
    show ?thesis
    proof (cases w)
      case (Inl e)
      have "committed x = committed u" using start_scheduled_committed [OF w] Inl by auto
      then show ?thesis
        using that w Inl refused_committed [of "dg_id g" "dg_schedule_next_at g" stamp e x r v]
        by (simp add: rest_def catch_def)
    next
      case (Inr b)
      then have "w = r" "x = v" using that w by (simp_all add: rest_def catch_def)
      then show ?thesis using start_scheduled_committed [OF w] assms(2) by auto
    qed
  qed
  show ?thesis
    using assms(1,3)
    unfolding dispatch_occurrence_def swap_cursor_def set_digest_def rest_def [symmetric] Let_def
    by (auto simp: run_simps rest_def [symmetric] split: if_splits dest!: rest)
qed

end
