(* ===== verification/Evaluation.thy ===== *)
theory Evaluation
  imports Briefing Results
begin

section \<open>Offline evaluation of claim reviewers (backend/app/evaluation)\<close>

text \<open>
  A benchmark of claims with their sources, human reviews of it, the judgments of a candidate
  reviewer, and the report that compares them: the decision is made from approved cases only,
  with explicit counts of what is missing.  Every file carries fingerprints of what it was
  made from; SHA-256 over canonical JSON is a parameter (\<open>hashes\<close>).  A float is a rational.
  The file system and the rendering of the report as Markdown are left out.
\<close>

subsection \<open>Files (evaluation/models.py)\<close>

text \<open>The fingerprint of each kind of value: a case is hashed with its sources, ordered by
  identifier.\<close>

record hashes =
  fp_benchmark :: "Benchmark \<Rightarrow> string"
  fp_case :: "Case \<times> Source list \<Rightarrow> string"
  fp_reviews :: "Reviews \<Rightarrow> string"
  fp_candidate :: "Candidate \<Rightarrow> string"
  fp_criteria :: "Criteria \<Rightarrow> string"

subsection \<open>Validators\<close>

abbreviation check_that :: "bool \<Rightarrow> string \<Rightarrow> exn + unit" where
  "check_that b m \<equiv> require b ValidationError m"

definition unique :: "string list \<Rightarrow> string \<Rightarrow> exn + unit" where
  "unique values description =
     check_that (length values = length (remdups values)) (''Duplicate '' @ description)"

text \<open>\<open>re.fullmatch(r"https://arxiv.org/abs/(\d{4}\.\d{4,5})v\d+", url)\<close>: the matched family.
  The dot of the host name is not escaped, so that any character may stand in its place.\<close>

definition arxiv_family :: "string \<Rightarrow> string option" where
  "arxiv_family url =
     (if startswith url ''https://arxiv'' \<and> take 1 (drop 13 url) \<notin> {[], nl}
         \<and> startswith (drop 14 url) ''org/abs/''
      then (let rest = drop 22 url;
                year = take 4 rest;
                number = takeWhile is_digit (drop 5 rest);
                version = drop (5 + length number) rest
            in if length year = 4 \<and> list_all is_digit year \<and> take 1 (drop 4 rest) = ''.''
                 \<and> length number \<in> {4, 5} \<and> take 1 version = ''v''
                 \<and> drop 1 version \<noteq> [] \<and> list_all is_digit (drop 1 version)
               then Some (take (5 + length number) rest) else None)
      else None)"

definition CC0 :: string where "CC0 = ''https://creativecommons.org/publicdomain/zero/1.0/''"

definition ARXIV_TERMS :: string where "ARXIV_TERMS = ''https://info.arxiv.org/help/api/tou.html''"

definition present :: "string option \<Rightarrow> bool" where
  "present v = (case v of None \<Rightarrow> False | Some s \<Rightarrow> s \<noteq> [])"

definition content_permissions :: "Source \<Rightarrow> exn + unit" where
  "content_permissions s =
     checks
      (check_that (sum_list (map (\<lambda>p. length (bp_text p)) (src_passages s)) \<le> 24000)
         ''Source excerpts exceed 24,000 characters''
       # (if src_kind s = ArxivAbstract
          then [check_that (arxiv_family (case src_url s of None \<Rightarrow> [] | Some u \<Rightarrow> u) = Some (src_family s))
                  ''arXiv sources require a versioned canonical URL and matching paper family'',
                check_that (src_license_url s = Some CC0 \<and> src_permission_url s = Some ARXIV_TERMS)
                  ''arXiv abstract metadata requires its CC0 permission record'',
                check_that (src_authors s \<noteq> [] \<and> src_captured_at s \<noteq> None \<and> src_passages s \<noteq> [])
                  ''arXiv sources require authors, capture date and abstract text'']
          else [check_that (\<not> (present (src_url s) \<or> present (src_license_url s) \<or> present (src_permission_url s)))
                  ''Synthetic/unavailable scenarios cannot impersonate external licensed sources'',
                check_that (\<not> (src_kind s = SourceUnavailable \<and> src_passages s \<noteq> []))
                  ''Unavailable or rights-unconfirmed sources cannot retain text'',
                check_that (\<not> (src_kind s = Synthetic \<and> src_passages s = []))
                  ''Synthetic sources must contain original fixture text'']))"

definition source_by_id :: "Benchmark \<Rightarrow> string \<Rightarrow> Source option" where
  "source_by_id b k = last_by src_id (bm_sources b) k"

text \<open>\<open>families\<close> keeps the split of the last source seen of each family.\<close>

fun families_ok :: "(string \<Rightarrow> Split option) \<Rightarrow> Source list \<Rightarrow> exn + unit" where
  "families_ok seen [] = Inr ()"
| "families_ok seen (s # ss) =
     (if seen (src_family s) \<notin> {None, Some (src_split s)}
      then validation_error ''A paper family cannot appear in both development and heldout splits''
      else families_ok (seen(src_family s \<mapsto> src_split s)) ss)"

definition case_ok :: "Benchmark \<Rightarrow> Case \<Rightarrow> exn + unit" where
  "case_ok b c =
     checks [unique (cs_source_ids c) ''case source IDs'',
       unique (cs_cited_passage_ids c) ''case citation IDs'',
       check_that (list_all (\<lambda>k. case source_by_id b k of None \<Rightarrow> False
             | Some s \<Rightarrow> src_split s = cs_split c) (cs_source_ids c))
         (''Case '' @ cs_id c @ '' has missing sources or crosses splits'')]"

definition relationships :: "Benchmark \<Rightarrow> exn + unit" where
  "relationships b =
     checks ([unique (map src_id (bm_sources b)) ''source IDs'',
       unique (map cs_id (bm_cases b)) ''case IDs'',
       unique (concat (map (\<lambda>s. map bp_id (src_passages s)) (bm_sources b))) ''passage IDs'',
       families_ok Map.empty (bm_sources b)] @ map (case_ok b) (bm_cases b))"

definition case_sources :: "Benchmark \<Rightarrow> Case \<Rightarrow> Source list" where
  "case_sources b c = filter (\<lambda>s. src_id s \<in> set (cs_source_ids c)) (bm_sources b)"

definition case_hash :: "hashes \<Rightarrow> Benchmark \<Rightarrow> Case \<Rightarrow> string" where
  "case_hash h b c = fp_case h (c, sort_key src_id (case_sources b c))"

definition passages_for :: "Benchmark \<Rightarrow> Case \<Rightarrow> string set" where
  "passages_for b c = set (concat (map (\<lambda>s. map bp_id (src_passages s)) (case_sources b c)))"

definition given :: "string option \<Rightarrow> bool" where
  "given v = (case v of None \<Rightarrow> False | Some s \<Rightarrow> strip s \<noteq> [])"

definition review_identity ::
  "string option \<Rightarrow> (datetime \<times> bool) option \<Rightarrow> string option \<Rightarrow> exn + unit" where
  "review_identity reviewer reviewed_at rationale =
     checks [check_that (given reviewer \<and> given rationale \<and> reviewed_at \<noteq> None)
         ''Approval requires a named human reviewer, timestamp, and rationale'',
       check_that (case reviewed_at of None \<Rightarrow> True | Some (t, offset) \<Rightarrow> offset)
         ''Review timestamp must include a timezone'']"

definition review_approval :: "Review \<Rightarrow> exn + unit" where
  "review_approval r =
     checks ([unique (rv_evidence_passage_ids r) ''review passage IDs'']
      @ (if rv_status r \<in> {ReviewApproved, ReviewExcluded}
         then [review_identity (rv_reviewer r) (rv_reviewed_at r) (rv_rationale r),
               check_that (rv_human_reviewed r \<and> rv_permissions_checked r)
                 ''Human review and permission checks must be explicitly attested''] else [])
      @ (if rv_status r = ReviewApproved
         then [check_that (rv_verdict r \<noteq> None) ''An approved case needs a human verdict'',
               check_that (rv_verdict r = Some VInsufficient \<or> rv_evidence_passage_ids r \<noteq> [])
                 ''Supported/contradicted verdicts require evidence passages''] else []))"

definition model_provenance :: "Candidate \<Rightarrow> exn + unit" where
  "model_provenance c =
     check_that (\<not> (cd_method c = SavedModelOutput \<and> cd_judgments c \<noteq> []
          \<and> (\<not> present (cd_model c) \<or> \<not> present (cd_prompt_version c))))
       ''Saved model judgments require the model and prompt version''"

definition criteria_approval :: "Criteria \<Rightarrow> exn + unit" where
  "criteria_approval c =
     (if cr_approved c then review_identity (cr_reviewer c) (cr_reviewed_at c) (cr_rationale c) else Inr ())"

section \<open>Scoring a candidate against human reviews (backend/app/evaluation/scoring.py)\<close>

text \<open>
  \<open>score_candidate\<close> makes one row per case of a split and counts over the rows of approved
  cases only; \<open>evaluate\<close> adds the comparison with a baseline and the decision.  A ratio with
  an empty denominator is \<open>None\<close>.
\<close>

subsection \<open>Bindings\<close>

text \<open>The rows of a reviews or candidate file, with what \<open>validate_bindings\<close> reads of them.\<close>

definition validate_rows ::
  "hashes \<Rightarrow> Benchmark \<Rightarrow> string \<Rightarrow> (string \<times> string \<times> string list option) list \<Rightarrow> exn + unit" where
  "validate_rows h b sha rows =
     checks ([require (sha = fp_benchmark h b) ValueErrorPy
         ''Benchmark fingerprint changed; recreate the packet and re-review changed inputs'',
       require (length (map fst rows) = length (remdups (map fst rows))) ValueErrorPy
         ''Duplicate review/judgment case IDs'']
      @ map (\<lambda>(i, case_sha, evidence).
          case last_by cs_id (bm_cases b) i of
            None \<Rightarrow> Inl (Exn ValueErrorPy (''Unknown or changed case: '' @ i))
          | Some c \<Rightarrow> checks
              [require (case_sha = case_hash h b c) ValueErrorPy (''Unknown or changed case: '' @ i),
               require (case evidence of None \<Rightarrow> True | Some ps \<Rightarrow> set ps \<subseteq> passages_for b c) ValueErrorPy
                 (''Human review references evidence outside case '' @ i)]) rows)"

definition validate_reviews :: "hashes \<Rightarrow> Benchmark \<Rightarrow> Reviews \<Rightarrow> exn + unit" where
  "validate_reviews h b r = validate_rows h b (rvs_benchmark_sha256 r)
     (map (\<lambda>x. (rv_case_id x, rv_case_sha256 x, Some (rv_evidence_passage_ids x))) (rvs_records r))"

definition validate_candidate :: "hashes \<Rightarrow> Benchmark \<Rightarrow> Candidate \<Rightarrow> exn + unit" where
  "validate_candidate h b c = validate_rows h b (cd_benchmark_sha256 c)
     (map (\<lambda>x. (jd_case_id x, jd_case_sha256 x, None)) (cd_judgments c))"

subsection \<open>Metrics\<close>

definition ratio :: "nat \<Rightarrow> nat \<Rightarrow> rat option" where
  "ratio n d = (if d = 0 then None else Some (of_nat n / of_nat d))"

definition VERDICTS :: "Verdict list" where
  "VERDICTS = [VSupported, VContradicted, VInsufficient]"

definition count_rows :: "('a \<Rightarrow> bool) \<Rightarrow> 'a list \<Rightarrow> nat" where
  "count_rows p rows = length (filter p rows)"

definition is_rejection :: "Prediction \<Rightarrow> bool" where
  "is_rejection p \<longleftrightarrow> p \<in> {Predicted VContradicted, Predicted VInsufficient}"

definition confusion_matrix :: "ScoredRow list \<Rightarrow> ((Verdict \<times> Prediction) \<times> nat) list" where
  "confusion_matrix rows = concat (map (\<lambda>label. map (\<lambda>p. ((label, p),
       count_rows (\<lambda>r. row_expected r = Some label \<and> row_predicted r = p) rows))
     (map Predicted VERDICTS @ [Abstain, Missing])) VERDICTS)"

definition metrics :: "ScoredRow list \<Rightarrow> Metrics" where
  "metrics rows =
     (let total = length rows;
          positive = filter (\<lambda>r. row_expected r = Some VSupported) rows;
          negative = filter (\<lambda>r. row_expected r \<noteq> Some VSupported) rows;
          critical = filter (\<lambda>r. row_severity r = Critical) negative;
          accepted = count_rows (\<lambda>r. row_predicted r = Predicted VSupported) negative;
          rejected = count_rows (\<lambda>r. is_rejection (row_predicted r)) positive;
          correct = count_rows row_correct rows
      in \<lparr>mt_cases = total, mt_correct = correct, mt_accuracy = ratio correct total,
          mt_verdict_accuracy = ratio (count_rows (\<lambda>r. map_option Predicted (row_expected r) = Some (row_predicted r)) rows) total,
          mt_prediction_coverage = ratio (count_rows (\<lambda>r. row_predicted r \<in> set (map Predicted VERDICTS)) rows) total,
          mt_missing = count_rows (\<lambda>r. row_predicted r = Missing) rows,
          mt_abstentions = count_rows (\<lambda>r. row_predicted r = Abstain) rows,
          mt_invalid_evidence_references = count_rows (\<lambda>r. row_references_valid r = Some False) rows,
          mt_supported_cases = length positive, mt_unsupported_cases = length negative,
          mt_false_acceptances = accepted, mt_false_acceptance_rate = ratio accepted (length negative),
          mt_false_rejections = rejected, mt_false_rejection_rate = ratio rejected (length positive),
          mt_unsupported_detection_rate =
            ratio (count_rows (\<lambda>r. is_rejection (row_predicted r)) negative) (length negative),
          mt_critical_unsupported_cases = length critical,
          mt_critical_false_acceptances = count_rows (\<lambda>r. row_predicted r = Predicted VSupported) critical,
          mt_confusion_matrix = confusion_matrix rows\<rparr>)"

subsection \<open>Rows\<close>

definition label_of :: "Reviews \<Rightarrow> Case \<Rightarrow> Review option" where
  "label_of r c = last_by rv_case_id (rvs_records r) (cs_id c)"

definition judgment_of :: "Candidate \<Rightarrow> Case \<Rightarrow> Judgment option" where
  "judgment_of cd c = last_by jd_case_id (cd_judgments cd) (cs_id c)"

definition reviewed :: "Review option \<Rightarrow> bool" where
  "reviewed label = (case label of None \<Rightarrow> False | Some r \<Rightarrow> rv_status r = ReviewApproved)"

definition evidence_valid :: "Benchmark \<Rightarrow> Case \<Rightarrow> Judgment \<Rightarrow> bool" where
  "evidence_valid b c j \<longleftrightarrow> set (jd_evidence_passage_ids j) \<subseteq> passages_for b c
     \<and> (jd_verdict j \<in> {Predicted VSupported, Predicted VContradicted} \<longrightarrow> jd_evidence_passage_ids j \<noteq> [])"

definition score_row :: "Benchmark \<Rightarrow> Reviews \<Rightarrow> Candidate \<Rightarrow> Case \<Rightarrow> ScoredRow" where
  "score_row b r cd c =
     (let label = label_of r c; prediction = judgment_of cd c; sources = case_sources b c;
          expected = (if reviewed label then Option.bind label rv_verdict else None);
          predicted = (case prediction of None \<Rightarrow> Missing | Some j \<Rightarrow> jd_verdict j);
          valid = map_option (evidence_valid b c) prediction
      in \<lparr>row_case_id = cs_id c, row_scope = cs_scope c, row_tags = cs_tags c, row_severity = cs_severity c,
          row_real = (sources \<noteq> [] \<and> list_all (\<lambda>s. src_kind s = ArxivAbstract) sources),
          row_review_status = (case label of None \<Rightarrow> ReviewPending | Some x \<Rightarrow> rv_status x),
          row_expected = expected, row_predicted = predicted, row_references_valid = valid,
          row_correct = (reviewed label \<and> map_option Predicted expected = Some predicted \<and> valid = Some True),
          row_rationale = map_option jd_rationale prediction\<rparr>)"

definition selected_cases :: "Benchmark \<Rightarrow> Split \<Rightarrow> Case list" where
  "selected_cases b split = filter (\<lambda>c. cs_split c = split) (bm_cases b)"

definition reviewed_families :: "Benchmark \<Rightarrow> Reviews \<Rightarrow> Case list \<Rightarrow> string set" where
  "reviewed_families b r cases = set (concat (map (\<lambda>c.
     if reviewed (label_of r c)
     then map src_family (filter (\<lambda>s. src_kind s = ArxivAbstract) (case_sources b c)) else []) cases))"

fun scope_text :: "claim_scope \<Rightarrow> string" where
  "scope_text ScopeSummary = ''summary''"
| "scope_text ScopeFinding = ''finding''"
| "scope_text ScopeTrend = ''trend''"
| "scope_text ScopeBriefing = ''briefing''"

definition kind_text :: "bool \<Rightarrow> string" where
  "kind_text arxiv = (if arxiv then ''real'' else ''synthetic_or_unavailable'')"

text \<open>\<open>{key: metrics([r for r in scored if key in keys(r)]) for key in sorted(...)}\<close>.\<close>

definition breakdown :: "(ScoredRow \<Rightarrow> string list) \<Rightarrow> ScoredRow list \<Rightarrow> (string \<times> Metrics) list" where
  "breakdown keys scored = map (\<lambda>k. (k, metrics (filter (\<lambda>r. k \<in> set (keys r)) scored)))
     (sorted_set (set (concat (map keys scored))))"

definition total_of :: "rat option list \<Rightarrow> rat option" where
  "total_of xs = (let known = List.map_filter id xs in if known = [] then None else Some (sum_list known))"

definition approved_rows :: "ScoredRow list \<Rightarrow> ScoredRow list" where
  "approved_rows rows = filter (\<lambda>r. row_review_status r = ReviewApproved) rows"

definition score_rows :: "Benchmark \<Rightarrow> Reviews \<Rightarrow> Candidate \<Rightarrow> Split \<Rightarrow> CandidateScore" where
  "score_rows b r cd split =
     (let selected = selected_cases b split;
          rows = map (score_row b r cd) selected;
          scored = approved_rows rows;
          judgments = List.map_filter (judgment_of cd) selected
      in \<lparr>sco_candidate_id = cd_candidate_id cd, sco_method = cd_method cd, sco_model = cd_model cd,
          sco_prompt_version = cd_prompt_version cd, sco_evaluator_version = cd_evaluator_version cd,
          sco_selected_cases = length selected, sco_approved_cases = length scored,
          sco_pending_cases = count_rows (\<lambda>x. row_review_status x = ReviewPending) rows,
          sco_excluded_cases = count_rows (\<lambda>x. row_review_status x = ReviewExcluded) rows,
          sco_reviewed_real_source_families = card (reviewed_families b r selected),
          sco_metrics = metrics scored,
          sco_by_scope = breakdown (\<lambda>x. [scope_text (row_scope x)]) scored,
          sco_by_source_kind = breakdown (\<lambda>x. [kind_text (row_real x)]) scored,
          sco_by_tag = breakdown row_tags scored, sco_cases = rows,
          sco_recorded_cost_usd = total_of (map jd_cost_usd judgments),
          sco_cost_records_missing = count_rows (\<lambda>j. jd_cost_usd j = None) judgments,
          sco_recorded_latency_seconds = total_of (map jd_latency_seconds judgments),
          sco_latency_records_missing = count_rows (\<lambda>j. jd_latency_seconds j = None) judgments\<rparr>)"

definition score_candidate ::
  "hashes \<Rightarrow> Benchmark \<Rightarrow> Reviews \<Rightarrow> Candidate \<Rightarrow> Split \<Rightarrow> exn + CandidateScore" where
  "score_candidate h b r cd split =
     rseq (validate_reviews h b r) (rseq (validate_candidate h b cd) (Inr (score_rows b r cd split)))"

subsection \<open>The report\<close>

definition was_correct :: "CandidateScore \<Rightarrow> string \<Rightarrow> bool" where
  "was_correct prior i = (case last_by row_case_id (sco_cases prior) i of
     None \<Rightarrow> False | Some r \<Rightarrow> row_correct r)"

definition compare_scores :: "CandidateScore \<Rightarrow> CandidateScore \<Rightarrow> Comparison" where
  "compare_scores current prior =
     \<lparr>cmp_baseline = prior,
      cmp_regressions = map row_case_id (filter (\<lambda>r. was_correct prior (row_case_id r) \<and> \<not> row_correct r)
        (sco_cases current)),
      cmp_improvements = map row_case_id (filter (\<lambda>r. row_correct r \<and> \<not> was_correct prior (row_case_id r))
        (sco_cases current)),
      cmp_accuracy_delta = (case (mt_accuracy (sco_metrics current), mt_accuracy (sco_metrics prior)) of
          (Some a, Some o') \<Rightarrow> Some (a - o') | _ \<Rightarrow> None)\<rparr>"

definition when_text :: "bool \<Rightarrow> string \<Rightarrow> string list" where
  "when_text b m = (if b then [m] else [])"

definition readiness_reasons :: "Criteria \<Rightarrow> CandidateScore \<Rightarrow> string list" where
  "readiness_reasons c s =
     when_text (\<not> cr_approved c) ''Acceptance criteria still require human approval''
     @ when_text (sco_pending_cases s \<noteq> 0) ''Selected cases still require human review''
     @ when_text (sco_approved_cases s < cr_minimum_reviewed_cases c) ''Too few human-reviewed cases''
     @ when_text (sco_reviewed_real_source_families s < cr_minimum_source_families c)
         ''Too few reviewed real-paper families''
     @ when_text (list_ex (\<lambda>v. count_rows (\<lambda>r. row_expected r = Some v) (approved_rows (sco_cases s)) = 0) VERDICTS)
         ''Human labels must cover all three verdicts''
     @ when_text (mt_critical_unsupported_cases (sco_metrics s) = 0) ''No approved critical unsupported case''
     @ when_text (mt_prediction_coverage (sco_metrics s) \<in> {None, Some 0})
         ''No substantive candidate verdicts are available''"

definition below :: "rat option \<Rightarrow> rat \<Rightarrow> bool" where
  "below v threshold = (case v of None \<Rightarrow> False | Some x \<Rightarrow> x < threshold)"

definition above :: "rat option \<Rightarrow> rat \<Rightarrow> bool" where
  "above v threshold = (case v of None \<Rightarrow> False | Some x \<Rightarrow> x > threshold)"

text \<open>The messages of the three thresholds end with \<open>{threshold:g}\<close>, which is left out.\<close>

definition failures_of :: "Criteria \<Rightarrow> CandidateScore \<Rightarrow> Comparison option \<Rightarrow> string list" where
  "failures_of c s comparison =
     when_text (below (mt_prediction_coverage (sco_metrics s)) (cr_minimum_prediction_coverage c))
       ''prediction_coverage violates minimum ''
     @ when_text (below (mt_accuracy (sco_metrics s)) (cr_minimum_accuracy c)) ''accuracy violates minimum ''
     @ when_text (above (mt_false_acceptance_rate (sco_metrics s)) (cr_maximum_false_acceptance_rate c))
       ''false_acceptance_rate violates maximum ''
     @ when_text (mt_critical_false_acceptances (sco_metrics s) \<noteq> 0)
       ''Critical unsupported claims were accepted; aggregate accuracy cannot override this''
     @ when_text (mt_invalid_evidence_references (sco_metrics s) \<noteq> 0)
       ''Reviewer judgments contain missing or invalid required evidence references''
     @ when_text (case comparison of None \<Rightarrow> False
         | Some x \<Rightarrow> length (cmp_regressions x) > cr_maximum_regressions c)
       ''Candidate exceeds the allowed regression count''"

definition evaluate ::
  "hashes \<Rightarrow> Benchmark \<Rightarrow> Reviews \<Rightarrow> Candidate \<Rightarrow> Criteria \<Rightarrow> Split \<Rightarrow> Candidate option \<Rightarrow> exn + Report" where
  "evaluate h b r cd c split baseline =
     rbind (score_candidate h b r cd split) (\<lambda>current.
     rbind (case baseline of None \<Rightarrow> Inr None
            | Some old \<Rightarrow> map_sum id (\<lambda>prior. Some (compare_scores current prior))
                (score_candidate h b r old split)) (\<lambda>comparison.
     let readiness = readiness_reasons c current;
         failures = failures_of c current comparison
     in Inr \<lparr>rep_benchmark_sha256 = fp_benchmark h b, rep_reviews_sha256 = fp_reviews h r,
          rep_candidate_sha256 = fp_candidate h cd, rep_criteria_sha256 = fp_criteria h c,
          rep_baseline_sha256 = map_option (fp_candidate h) baseline, rep_split = split,
          rep_decision = (if readiness \<noteq> [] then NotReady else if failures \<noteq> [] then Fail else Pass),
          rep_readiness_reasons = readiness, rep_failures = failures,
          rep_candidate = current, rep_comparison = comparison\<rparr>))"

end
