(* ===== verification/EvaluationProperties.thy ===== *)
theory EvaluationProperties
  imports Evaluation Examples
begin

section \<open>Properties of the offline evaluation\<close>

text \<open>
  What the counts of a report mean, and what a passing decision rests on: labels of humans
  for every selected case, no critical claim wrongly accepted, and references that exist.
\<close>

subsection \<open>Counting\<close>

lemma count_rows_le: "count_rows p rows \<le> length rows"
  by (simp add: count_rows_def)

lemma count_rows_0: "count_rows p rows = 0 \<longleftrightarrow> (\<forall>r \<in> set rows. \<not> p r)"
  by (simp add: count_rows_def filter_empty_conv)

lemma count_rows_Cons: "count_rows p (r # rows) = (if p r then 1 else 0) + count_rows p rows"
  by (simp add: count_rows_def)

lemma count_rows_disjoint:
  "(\<And>r. \<not> (p r \<and> q r)) \<Longrightarrow> count_rows (\<lambda>r. p r \<or> q r) rows = count_rows p rows + count_rows q rows"
  by (induction rows) (auto simp: count_rows_def)

lemma ratio_bounds: "n \<le> d \<Longrightarrow> ratio n d = Some q \<Longrightarrow> 0 \<le> q \<and> q \<le> 1"
  by (auto simp: ratio_def split: if_splits)

lemma ratio_None: "ratio n d = None \<longleftrightarrow> d = 0"
  by (simp add: ratio_def)

lemma ratio_Some: "ratio n d = Some q \<longleftrightarrow> 0 < d \<and> q = of_nat n / of_nat d"
  by (auto simp: ratio_def)

lemma when_text_Nil [simp]: "when_text b m = [] \<longleftrightarrow> \<not> b"
  by (simp add: when_text_def)

subsection \<open>Metrics\<close>

lemma prediction_cases: "p = Missing \<or> p = Abstain \<or> (\<exists>v. p = Predicted v)"
  by (cases p) auto

lemma predictions_partition:
  "count_rows (\<lambda>r. row_predicted r = Missing) rows + count_rows (\<lambda>r. row_predicted r = Abstain) rows
     + count_rows (\<lambda>r. row_predicted r \<in> set (map Predicted VERDICTS)) rows = length rows"
proof (induction rows)
  case (Cons r rows)
  show ?case
  proof (cases "row_predicted r")
    case (Predicted v)
    with Cons show ?thesis by (cases v) (simp_all add: count_rows_def VERDICTS_def)
  qed (use Cons in \<open>simp_all add: count_rows_def VERDICTS_def\<close>)
qed (simp add: count_rows_def)

lemma confusion_Cons:
  assumes "row_expected r = Some v"
  shows "sum_list (map snd (confusion_matrix (r # rows))) = 1 + sum_list (map snd (confusion_matrix rows))"
proof -
  obtain p where p: "row_predicted r = p" by blast
  show ?thesis
  proof (cases p)
    case (Predicted w)
    with assms p show ?thesis
      by (cases v; cases w) (simp_all add: confusion_matrix_def VERDICTS_def count_rows_Cons)
  qed (use assms p in \<open>cases v; simp add: confusion_matrix_def VERDICTS_def count_rows_Cons\<close>)+
qed

lemma confusion_total:
  "\<forall>r \<in> set rows. row_expected r \<noteq> None \<Longrightarrow> sum_list (map snd (confusion_matrix rows)) = length rows"
proof (induction rows)
  case Nil
  then show ?case by (simp add: confusion_matrix_def VERDICTS_def count_rows_def)
next
  case (Cons r rows)
  then obtain v where "row_expected r = Some v" by auto
  from confusion_Cons [OF this, of rows] Cons show ?case by simp
qed

lemma filter_split: "length (filter p xs) + length (filter (\<lambda>x. \<not> p x) xs) = length xs"
  by (induction xs) auto

lemma metrics_rates:
  "Some q \<in> {mt_accuracy (metrics rows), mt_verdict_accuracy (metrics rows), mt_prediction_coverage (metrics rows),
      mt_false_acceptance_rate (metrics rows), mt_false_rejection_rate (metrics rows),
      mt_unsupported_detection_rate (metrics rows)} \<Longrightarrow> 0 \<le> q \<and> q \<le> 1"
proof -
  have le: "count_rows p xs \<le> length xs" for p and xs :: "ScoredRow list" by (rule count_rows_le)
  assume "Some q \<in> {mt_accuracy (metrics rows), mt_verdict_accuracy (metrics rows), mt_prediction_coverage (metrics rows),
      mt_false_acceptance_rate (metrics rows), mt_false_rejection_rate (metrics rows),
      mt_unsupported_detection_rate (metrics rows)}"
  then obtain p and xs :: "ScoredRow list" where "Some q = ratio (count_rows p xs) (length xs)"
    unfolding metrics_def Let_def by (simp, elim disjE) (rule that, assumption)+
  then show ?thesis using ratio_bounds [OF le] by metis
qed

text \<open>The counts of a table of approved rows fit together: every row is a missing, an
  abstaining or a substantive prediction, is counted once in the confusion matrix, and expects
  either support or its absence; no count exceeds its denominator, every rate lies between 0
  and 1, and a rate is missing exactly when its denominator is empty.\<close>

theorem metrics_fit_together:
  assumes "\<forall>r \<in> set rows. row_expected r \<noteq> None" and "m = metrics rows"
  shows "mt_cases m = length rows
     \<and> mt_missing m + mt_abstentions m + count_rows (\<lambda>r. \<exists>v. row_predicted r = Predicted v) rows = mt_cases m
     \<and> sum_list (map snd (mt_confusion_matrix m)) = mt_cases m
     \<and> mt_supported_cases m + mt_unsupported_cases m = mt_cases m
     \<and> mt_correct m \<le> mt_cases m \<and> mt_false_acceptances m \<le> mt_unsupported_cases m
     \<and> mt_false_rejections m \<le> mt_supported_cases m
     \<and> mt_critical_false_acceptances m \<le> mt_critical_unsupported_cases m
     \<and> mt_critical_unsupported_cases m \<le> mt_unsupported_cases m
     \<and> (mt_accuracy m = None \<longleftrightarrow> mt_cases m = 0)
     \<and> (mt_false_acceptance_rate m = None \<longleftrightarrow> mt_unsupported_cases m = 0)
     \<and> (mt_false_rejection_rate m = None \<longleftrightarrow> mt_supported_cases m = 0)
     \<and> (\<forall>q. Some q \<in> {mt_accuracy m, mt_verdict_accuracy m, mt_prediction_coverage m,
            mt_false_acceptance_rate m, mt_false_rejection_rate m, mt_unsupported_detection_rate m}
          \<longrightarrow> 0 \<le> q \<and> q \<le> 1)"
proof -
  have p: "count_rows (\<lambda>r. \<exists>v. row_predicted r = Predicted v) rows
      = count_rows (\<lambda>r. row_predicted r \<in> set (map Predicted VERDICTS)) rows"
  proof -
    have "(\<exists>v. x = Predicted v) \<longleftrightarrow> x \<in> set (map Predicted VERDICTS)" for x
      by (auto simp: VERDICTS_def) (metis Verdict.exhaust)
    then show ?thesis by (simp add: count_rows_def)
  qed
  have critical: "length (filter (\<lambda>x. row_severity x = Critical) (filter (\<lambda>r. row_expected r \<noteq> Some VSupported) rows))
      \<le> length (filter (\<lambda>r. row_expected r \<noteq> Some VSupported) rows)"
    by (rule length_filter_le)
  have counts: "mt_cases m = length rows
     \<and> mt_missing m + mt_abstentions m + count_rows (\<lambda>r. \<exists>v. row_predicted r = Predicted v) rows = mt_cases m
     \<and> sum_list (map snd (mt_confusion_matrix m)) = mt_cases m
     \<and> mt_supported_cases m + mt_unsupported_cases m = mt_cases m
     \<and> mt_correct m \<le> mt_cases m \<and> mt_false_acceptances m \<le> mt_unsupported_cases m
     \<and> mt_false_rejections m \<le> mt_supported_cases m
     \<and> mt_critical_false_acceptances m \<le> mt_critical_unsupported_cases m
     \<and> mt_critical_unsupported_cases m \<le> mt_unsupported_cases m
     \<and> (mt_accuracy m = None \<longleftrightarrow> mt_cases m = 0)
     \<and> (mt_false_acceptance_rate m = None \<longleftrightarrow> mt_unsupported_cases m = 0)
     \<and> (mt_false_rejection_rate m = None \<longleftrightarrow> mt_supported_cases m = 0)"
    using predictions_partition [of rows] confusion_total [OF assms(1)] critical
      filter_split [of "\<lambda>r. row_expected r = Some VSupported" rows]
    unfolding p assms(2) metrics_def Let_def
    by (simp add: count_rows_le ratio_None)
  from counts metrics_rates [where rows = rows] show ?thesis unfolding assms(2) by blast
qed

definition metrics_rows :: "ScoredRow list" where
  "metrics_rows = map (\<lambda>(e, p, s). \<lparr>row_case_id = ''c'', row_scope = ScopeSummary, row_tags = [''t''], row_severity = s,
      row_real = True, row_review_status = ReviewApproved, row_expected = Some e, row_predicted = p,
      row_references_valid = Some True, row_correct = (Predicted e = p), row_rationale = None\<rparr>)
     [(VSupported, Predicted VSupported, Ordinary), (VInsufficient, Predicted VSupported, Critical),
      (VContradicted, Abstain, Ordinary), (VSupported, Missing, Ordinary)]"

lemma metrics_fit_together_witness:
  "mt_supported_cases (metrics metrics_rows) + mt_unsupported_cases (metrics metrics_rows) = 4
   \<and> mt_false_acceptances (metrics metrics_rows) = 1 \<and> mt_false_acceptance_rate (metrics metrics_rows) = Some (1 / 2)"
  using metrics_fit_together [of metrics_rows "metrics metrics_rows"]
  by (simp add: metrics_rows_def metrics_def Let_def count_rows_def ratio_def)

subsection \<open>The decision\<close>

lemma evaluate_ok:
  assumes "evaluate h b r cd c split baseline = Inr rep"
  shows "rep_candidate rep = score_rows b r cd split
    \<and> (rep_decision rep = Pass \<longleftrightarrow> readiness_reasons c (score_rows b r cd split) = []
         \<and> failures_of c (score_rows b r cd split) (rep_comparison rep) = [])"
  using assms by (auto simp: evaluate_def score_candidate_def ok_iff Let_def split: option.splits if_split_asm)

lemma no_pending:
  "sco_pending_cases (score_rows b r cd split) = 0 \<longleftrightarrow>
     (\<forall>k \<in> set (selected_cases b split). \<exists>l. label_of r k = Some l \<and> rv_status l \<noteq> ReviewPending)"
  by (auto simp: score_rows_def Let_def count_rows_0 score_row_def split: option.splits)

lemma approved_row:
  "row_review_status (score_row b r cd k) = ReviewApproved \<longleftrightarrow> (\<exists>l. label_of r k = Some l \<and> rv_status l = ReviewApproved)"
  by (auto simp: score_row_def Let_def split: option.splits)

lemma valid_references:
  assumes "mt_invalid_evidence_references (sco_metrics (score_rows b r cd split)) = 0"
    and "k \<in> set (selected_cases b split)" and "label_of r k = Some l" and "rv_status l = ReviewApproved"
    and "judgment_of cd k = Some j"
  shows "evidence_valid b k j"
proof -
  have "row_references_valid (score_row b r cd k) \<noteq> Some False"
    using assms(1-4) approved_row [of b r cd k]
    by (auto simp: score_rows_def metrics_def Let_def count_rows_0 approved_rows_def)
  then show ?thesis using assms(5) by (simp add: score_row_def Let_def)
qed

lemma critical_not_accepted:
  assumes "mt_critical_false_acceptances (sco_metrics (score_rows b r cd split)) = 0"
    and "k \<in> set (selected_cases b split)" and "label_of r k = Some l" and "rv_status l = ReviewApproved"
    and "judgment_of cd k = Some j" and "cs_severity k = Critical" and "rv_verdict l \<noteq> Some VSupported"
  shows "jd_verdict j \<noteq> Predicted VSupported"
proof -
  have "row_expected (score_row b r cd k) \<noteq> Some VSupported" "row_severity (score_row b r cd k) = Critical"
    using assms by (simp_all add: score_row_def Let_def reviewed_def)
  then have "row_predicted (score_row b r cd k) \<noteq> Predicted VSupported"
    using assms(1-4) approved_row [of b r cd k]
    by (auto simp: score_rows_def metrics_def Let_def count_rows_0 approved_rows_def)
  then show ?thesis using assms(5) by (simp add: score_row_def Let_def)
qed

lemma approved_count:
  "sco_approved_cases (score_rows b r cd split)
     = length (filter (\<lambda>k. reviewed (label_of r k)) (selected_cases b split))"
proof -
  have "(row_review_status (score_row b r cd k) = ReviewApproved) = reviewed (label_of r k)" for k
    by (simp add: approved_row reviewed_def split: option.splits)
  then show ?thesis by (simp add: score_rows_def Let_def approved_rows_def filter_map o_def)
qed

lemma attested:
  assumes "review_approval l = Inr ()" and "rv_status l \<noteq> ReviewPending"
  shows "given (rv_reviewer l) \<and> rv_human_reviewed l \<and> rv_permissions_checked l
    \<and> (rv_status l = ReviewExcluded \<or> rv_status l = ReviewApproved \<and> (\<exists>v. rv_verdict l = Some v))"
  using assms by (cases "rv_status l") (auto simp: review_approval_def review_identity_def ok_iff)

text \<open>C40: a passing decision rests on human evidence: the criteria were approved by a named
  reviewer, every selected case was excluded or approved with a verdict by a named human who
  attested the permissions, no judgment of an approved case cites passages outside its case or
  lacks required ones, no critical claim without support was judged supported, and at least the
  required number of cases was reviewed.\<close>

theorem pass_requires_evidence:
  assumes "evaluate h b r cd c split baseline = Inr rep" and "rep_decision rep = Pass"
    and "\<forall>l \<in> set (rvs_records r). review_approval l = Inr ()" and "criteria_approval c = Inr ()"
  shows "cr_approved c \<and> given (cr_reviewer c)
    \<and> cr_minimum_reviewed_cases c \<le> length (filter (\<lambda>k. reviewed (label_of r k)) (selected_cases b split))
    \<and> (\<forall>k \<in> set (selected_cases b split). \<exists>l. label_of r k = Some l
         \<and> given (rv_reviewer l) \<and> rv_human_reviewed l \<and> rv_permissions_checked l
         \<and> (rv_status l = ReviewExcluded
            \<or> rv_status l = ReviewApproved \<and> (\<exists>v. rv_verdict l = Some v
                \<and> (\<forall>j. judgment_of cd k = Some j \<longrightarrow> evidence_valid b k j
                     \<and> \<not> (cs_severity k = Critical \<and> v \<noteq> VSupported \<and> jd_verdict j = Predicted VSupported)))))"
proof -
  let ?s = "score_rows b r cd split"
  from evaluate_ok [OF assms(1)] assms(2)
  have ready: "readiness_reasons c ?s = []" and fine: "failures_of c ?s (rep_comparison rep) = []" by auto
  from ready have approved: "cr_approved c" and pending: "sco_pending_cases ?s = 0"
    and enough: "cr_minimum_reviewed_cases c \<le> sco_approved_cases ?s"
    by (simp_all add: readiness_reasons_def)
  from fine have crit: "mt_critical_false_acceptances (sco_metrics ?s) = 0"
    and refs: "mt_invalid_evidence_references (sco_metrics ?s) = 0"
    by (simp_all add: failures_of_def)
  have "given (cr_reviewer c)"
    using approved assms(4) by (simp add: criteria_approval_def review_identity_def ok_iff)
  moreover have "\<exists>l. label_of r k = Some l
         \<and> given (rv_reviewer l) \<and> rv_human_reviewed l \<and> rv_permissions_checked l
         \<and> (rv_status l = ReviewExcluded
            \<or> rv_status l = ReviewApproved \<and> (\<exists>v. rv_verdict l = Some v
                \<and> (\<forall>j. judgment_of cd k = Some j \<longrightarrow> evidence_valid b k j
                     \<and> \<not> (cs_severity k = Critical \<and> v \<noteq> VSupported \<and> jd_verdict j = Predicted VSupported))))"
    if k: "k \<in> set (selected_cases b split)" for k
  proof -
    from pending k obtain l where l: "label_of r k = Some l" "rv_status l \<noteq> ReviewPending"
      by (auto simp: no_pending)
    from l(1) have "l \<in> set (rvs_records r)" by (auto simp: label_of_def dest: last_by_Some)
    with assms(3) have "review_approval l = Inr ()" by blast
    from attested [OF this l(2)] show ?thesis
      using valid_references [OF refs k l(1)] critical_not_accepted [OF crit k l(1)] l(1) by fastforce
  qed
  ultimately show ?thesis using approved enough by (simp add: approved_count)
qed

text \<open>A benchmark of one paper with a case for each verdict, the last one critical, and a
  candidate that agrees with the reviews.\<close>

definition benchmark_cases :: "(string \<times> Verdict \<times> case_severity) list" where
  "benchmark_cases = [(''a'', VSupported, Ordinary), (''b'', VContradicted, Ordinary), (''c'', VInsufficient, Critical)]"

definition benchmark1 :: Benchmark where
  "benchmark1 = \<lparr>bm_id = ''b1'', bm_version = ''1'', bm_description = ''Sleep'',
     bm_sources = [\<lparr>src_id = ''s'', src_family = ''2401.00001'', src_split = Heldout, src_kind = ArxivAbstract,
       src_title = ''T'', src_authors = [''Ada''], src_url = Some ''https://arxiv.org/abs/2401.00001v1'',
       src_license_url = Some CC0, src_permission_url = Some ARXIV_TERMS, src_captured_at = Some 0,
       src_permission_note = ''CC0'', src_passages = [\<lparr>bp_id = ''p'', bp_text = ''Memory improved.''\<rparr>]\<rparr>],
     bm_cases = map (\<lambda>(i, v, s). \<lparr>cs_id = i, cs_split = Heldout, cs_scope = ScopeSummary, cs_claim = ''Claim'',
       cs_source_ids = [''s''], cs_cited_passage_ids = [], cs_tags = [''t''], cs_severity = s\<rparr>) benchmark_cases\<rparr>"

definition reviews1 :: Reviews where
  "reviews1 = \<lparr>rvs_benchmark_sha256 = ''h'', rvs_records = map (\<lambda>(i, v, s). \<lparr>rv_case_id = i, rv_case_sha256 = ''h'',
     rv_status = ReviewApproved, rv_verdict = Some v, rv_evidence_passage_ids = [''p''], rv_reviewer = Some ''Ada'',
     rv_reviewed_at = Some (0, True), rv_rationale = Some ''Read'', rv_human_reviewed = True,
     rv_permissions_checked = True\<rparr>) benchmark_cases\<rparr>"

definition candidate1 :: Candidate where
  "candidate1 = \<lparr>cd_benchmark_sha256 = ''h'', cd_candidate_id = ''m'', cd_method = SavedModelOutput,
     cd_model = Some ''m'', cd_prompt_version = Some ''1'', cd_evaluator_version = ''1'',
     cd_judgments = map (\<lambda>(i, v, s). \<lparr>jd_case_id = i, jd_case_sha256 = ''h'', jd_verdict = Predicted v,
       jd_evidence_passage_ids = [''p''], jd_rationale = ''Read'', jd_cost_usd = None,
       jd_latency_seconds = None\<rparr>) benchmark_cases\<rparr>"

definition criteria1 :: Criteria where
  "criteria1 = \<lparr>cr_approved = True, cr_reviewer = Some ''Ada'', cr_reviewed_at = Some (0, True),
     cr_rationale = Some ''Agreed'', cr_minimum_reviewed_cases = 3, cr_minimum_source_families = 1,
     cr_minimum_prediction_coverage = 1, cr_minimum_accuracy = 9 / 10,
     cr_maximum_false_acceptance_rate = 0, cr_maximum_regressions = 0\<rparr>"

definition hashes1 :: hashes where
  "hashes1 = \<lparr>fp_benchmark = (\<lambda>_. ''h''), fp_case = (\<lambda>_. ''h''), fp_reviews = (\<lambda>_. ''r''),
     fp_candidate = (\<lambda>_. ''c''), fp_criteria = (\<lambda>_. ''k'')\<rparr>"

lemma evaluation_passes:
  "case evaluate hashes1 benchmark1 reviews1 candidate1 criteria1 Heldout None of
     Inl e \<Rightarrow> False | Inr rep \<Rightarrow> rep_decision rep = Pass"
  by code_simp

lemma reviews1_attested:
  "list_all (\<lambda>l. review_approval l = Inr ()) (rvs_records reviews1) \<and> criteria_approval criteria1 = Inr ()"
  by code_simp

lemma pass_requires_evidence_witness:
  "(case evaluate hashes1 benchmark1 reviews1 candidate1 criteria1 Heldout None of
     Inl e \<Rightarrow> False | Inr rep \<Rightarrow> rep_decision rep = Pass)
   \<and> 3 \<le> length (filter (\<lambda>k. reviewed (label_of reviews1 k)) (selected_cases benchmark1 Heldout))"
proof -
  obtain rep where rep: "evaluate hashes1 benchmark1 reviews1 candidate1 criteria1 Heldout None = Inr rep"
      "rep_decision rep = Pass"
    using evaluation_passes by (auto split: sum.splits)
  have "cr_minimum_reviewed_cases criteria1 = 3" by (simp add: criteria1_def)
  with rep show ?thesis
    using pass_requires_evidence [OF rep] reviews1_attested by (simp add: list_all_iff)
qed

subsection \<open>The address of an arXiv source\<close>

text \<open>The pattern of the canonical address leaves the dot of the host name unescaped, so that
  an address of another host is taken for a canonical one.\<close>

lemma arxiv_family_any_host:
  "arxiv_family ''https://arxivXorg/abs/2401.00001v1'' = Some ''2401.00001''"
  by code_simp

end
