(* ===== verification/QualityProperties.thy ===== *)
theory QualityProperties
  imports ContentProperties QualityService RunFacts
begin

section \<open>Properties of the quality checks\<close>

text \<open>
  What an output that was not held is known to satisfy, how the decision governs delivery,
  and that a manual evaluation only appends an audit row.
\<close>

subsection \<open>Output that is not held\<close>

lemma not_held: "qd_status (decide fs) \<noteq> QHold \<Longrightarrow> f \<in> set fs \<Longrightarrow> qf_severity f \<noteq> SevHold"
  using decide_hold_iff by blast

lemma finding_if_not_held:
  "set (finding_if b c SevHold m i) \<subseteq> set fs \<Longrightarrow> qd_status (decide fs) \<noteq> QHold \<Longrightarrow> \<not> b"
  using not_held [of fs "finding c SevHold m i"] by (auto simp: finding_if_def split: if_splits)

lemma references_released:
  assumes "set (reference_findings d s refs) \<subseteq> set fs" and "qd_status (decide fs) \<noteq> QHold"
  shows "selected_ids d = summary_ids s \<and> refs \<subseteq> selected_ids d"
  using assms(1) finding_if_not_held [OF _ assms(2)]
  unfolding reference_findings_def Let_def set_append by blast

lemma content_released:
  assumes "set (content_findings s t b) \<subseteq> set fs" and "qd_status (decide fs) \<noteq> QHold"
  shows "(\<forall>x \<in> set (paper_summaries s). strip (ps_concise_summary x) \<noteq> [])
     \<and> (\<forall>th \<in> set (ta_themes (trend_analysis t)). tt_evidence_external_ids th \<noteq> []
          \<and> (tt_evidence_type th = MultiPaperPattern \<longrightarrow> 2 \<le> card (set (tt_evidence_external_ids th))))
     \<and> strip (db_title (digest_briefing b)) \<noteq> [] \<and> strip (db_executive_summary (digest_briefing b)) \<noteq> []
     \<and> strip (db_content_markdown (digest_briefing b)) \<noteq> []"
proof -
  note parts = assms(1) [unfolded content_findings_def Let_def set_append, simplified Un_subset_iff]
  note no = parts [THEN conjunct1, THEN finding_if_not_held, OF assms(2)]
    parts [THEN conjunct2, THEN conjunct1, THEN finding_if_not_held, OF assms(2)]
    parts [THEN conjunct2, THEN conjunct2, THEN conjunct1, THEN finding_if_not_held, OF assms(2)]
    parts [THEN conjunct2, THEN conjunct2, THEN conjunct2, THEN finding_if_not_held, OF assms(2)]
  have "2 \<le> card (set (tt_evidence_external_ids th))"
    if "th \<in> set (ta_themes (trend_analysis t))" "tt_evidence_type th = MultiPaperPattern"
      "tt_evidence_external_ids th \<noteq> []" for th
    using no(4) that by (force simp: filter_empty_conv not_less)
  with no show ?thesis by (auto simp: filter_empty_conv split: if_splits)
qed

lemma reporting_released:
  assumes "set (reporting_findings lo hi ps) \<subseteq> set fs" and "qd_status (decide fs) \<noteq> QHold"
    and "p \<in> set ps"
  shows "in_period lo hi (sp_published_date p)"
proof -
  have "filter (\<lambda>p. \<not> in_period lo hi (sp_published_date p)) ps = []"
    using assms(1) finding_if_not_held [OF _ assms(2)]
    unfolding reporting_findings_def Let_def set_append by blast
  with assms(3) show ?thesis by (simp add: filter_empty_conv)
qed

lemma duplicates_released:
  assumes "duplicate_findings ps = Inr dups" and "set dups \<subseteq> set fs" and "qd_status (decide fs) \<noteq> QHold"
    and "p \<in> set ps" "q \<in> set ps" and "canonical_url (sp_url p) = canonical_url (sp_url q)"
  shows "sp_external_id p = sp_external_id q"
proof -
  from assms(1) obtain entries where e: "map_result identity_entries ps = Inr entries"
    "\<exists>rest. dups = finding_if (repeated_keys (concat entries) \<noteq> {}) ''duplicate_identity'' SevHold
       ''Multiple included papers share the same DOI or source URL.'' (repeated_keys (concat entries)) @ rest"
    by (auto simp: duplicate_findings_def Let_def split: sum.splits)
  have none: "repeated_keys (concat entries) = {}"
    using e(2) assms(2) finding_if_not_held [OF _ assms(3)] by fastforce
  have entry: "\<exists>url. canonical_url (sp_url x) = Inr url \<and> ((''url'', url), sp_external_id x) \<in> set (concat entries)"
    if "x \<in> set ps" for x
  proof -
    have "\<exists>es \<in> set entries. identity_entries x = Inr es"
      using e(1) [unfolded map_result_Inr_iff] that by (induction rule: list_all2_induct) auto
    then obtain es where es: "es \<in> set entries" "identity_entries x = Inr es" by blast
    from es(2) obtain url where "canonical_url (sp_url x) = Inr url" "((''url'', url), sp_external_id x) \<in> set es"
      by (auto simp: identity_entries_def split: sum.splits)
    with es(1) show ?thesis by auto
  qed
  from entry [OF assms(4)] obtain url where p: "canonical_url (sp_url p) = Inr url"
    "((''url'', url), sp_external_id p) \<in> set (concat entries)" by blast
  from entry [OF assms(5)] obtain url' where q: "canonical_url (sp_url q) = Inr url'"
    "((''url'', url'), sp_external_id q) \<in> set (concat entries)" by blast
  have "url' = url" using p(1) q(1) assms(6) by simp
  then have q': "((''url'', url), sp_external_id q) \<in> set (concat entries)" using q(2) by simp
  show ?thesis
  proof (rule ccontr)
    assume "sp_external_id p \<noteq> sp_external_id q"
    then have "sp_external_id p \<in> repeated_keys (concat entries)"
      unfolding repeated_keys_iff using p(2) q' by metis
    with none show False by simp
  qed
qed

text \<open>C13: an evaluated output that is not held is coherent.  Its summaries are of exactly the
  papers selected in discovery, everything its trends and briefing cite was selected, every
  theme has evidence and a multi-paper pattern two distinct papers, no required text is
  blank, and, where the check is on, every paper it uses lies in the reporting period and no
  two of them share a canonical URL.\<close>

theorem released_output_is_coherent:
  assumes "evaluate_quality lo hi stages c = Inr dec" and "qc_mode c \<noteq> ModeOff"
    and "qd_status dec \<noteq> QHold"
  shows "\<exists>d s t b. map_of stages DISCOVERY_RELEVANCE = Some (Some (DiscoveryData d))
     \<and> map_of stages PAPER_SUMMARIES = Some (Some (SummariesData s))
     \<and> map_of stages TREND_ANALYSIS = Some (Some (TrendData t))
     \<and> map_of stages DIGEST_BRIEFING = Some (Some (BriefingData b))
     \<and> selected_ids d = summary_ids s \<and> trend_references t \<union> briefing_references b \<subseteq> selected_ids d
     \<and> (\<forall>x \<in> set (paper_summaries s). strip (ps_concise_summary x) \<noteq> [])
     \<and> (\<forall>th \<in> set (ta_themes (trend_analysis t)). tt_evidence_external_ids th \<noteq> []
          \<and> (tt_evidence_type th = MultiPaperPattern \<longrightarrow> 2 \<le> card (set (tt_evidence_external_ids th))))
     \<and> strip (db_title (digest_briefing b)) \<noteq> [] \<and> strip (db_executive_summary (digest_briefing b)) \<noteq> []
     \<and> strip (db_content_markdown (digest_briefing b)) \<noteq> []
     \<and> (\<forall>p \<in> set (ss_papers (dr_search d)). sp_external_id p \<in> selected_ids d \<longrightarrow>
          (qc_check_reporting_dates c \<longrightarrow> in_period lo hi (sp_published_date p))
          \<and> (qc_check_duplicates c \<longrightarrow> (\<forall>q \<in> set (ss_papers (dr_search d)). sp_external_id q \<in> selected_ids d \<longrightarrow>
               canonical_url (sp_url p) = canonical_url (sp_url q) \<longrightarrow> sp_external_id p = sp_external_id q)))"
proof -
  from assms(1,2) obtain d s t b fs where
    saved: "map_of stages DISCOVERY_RELEVANCE = Some (Some (DiscoveryData d))"
    "map_of stages PAPER_SUMMARIES = Some (Some (SummariesData s))"
    "map_of stages TREND_ANALYSIS = Some (Some (TrendData t))"
    "map_of stages DIGEST_BRIEFING = Some (Some (BriefingData b))"
    and q: "quality_findings lo hi c d s t b = Inr fs" and dec: "dec = decide fs"
    by (rule evaluate_quality_cases)
  note held = assms(3) [unfolded dec] and parts = quality_findings_parts [OF q]
  let ?used = "included_papers d (trend_references t \<union> briefing_references b)"
  have used: "p \<in> set ?used" if "p \<in> set (ss_papers (dr_search d))" "sp_external_id p \<in> selected_ids d" for p
    using that by (simp add: included_papers_def)
  have dups: "\<exists>dups. duplicate_findings ?used = Inr dups \<and> set dups \<subseteq> set fs" if "qc_check_duplicates c"
    using q that by (auto simp: quality_findings_def Let_def split: if_splits sum.splits)
  note refs = references_released [OF parts(1) held] and content = content_released [OF parts(2) held]
  have papers: "(qc_check_reporting_dates c \<longrightarrow> in_period lo hi (sp_published_date p))
      \<and> (qc_check_duplicates c \<longrightarrow> (\<forall>q \<in> set (ss_papers (dr_search d)). sp_external_id q \<in> selected_ids d \<longrightarrow>
           canonical_url (sp_url p) = canonical_url (sp_url q) \<longrightarrow> sp_external_id p = sp_external_id q))"
    if "p \<in> set (ss_papers (dr_search d))" "sp_external_id p \<in> selected_ids d" for p
    using reporting_released [OF parts(3) held used [OF that]] dups
      duplicates_released [OF _ _ held used [OF that] used] by blast
  show ?thesis
    using saved refs content papers
    by (intro exI [of _ d] exI [of _ s] exI [of _ t] exI [of _ b]) blast
qed

text \<open>One paper, found and summarised, in a period of ten days.\<close>

definition solo_discovery :: DiscoveryRelevanceOutput where
  "solo_discovery = projr (to_output (sample_discovery_response\<lparr>dresp_papers :=
     [\<lparr>ap_paper = sample_paper ''p1'' 5, ap_assessment = sample_details\<rparr>]\<rparr>))"

definition solo_trends :: TrendAnalysisOutput where
  "solo_trends = \<lparr>trend_analysis = \<lparr>ta_overview = ''One signal.'', ta_overall_confidence = Low,
     ta_analysis_limitations = [], ta_themes = [\<lparr>tt_title = ''Sleep'', tt_summary = ''Helps.'',
       tt_evidence_type = SinglePaperSignal, tt_evidence_external_ids = [''p1''],
       tt_observed_pattern = [], tt_interpretation = [], tt_confidence = Low,
       tt_relevance_to_audience = [], tt_caveats = []\<rparr>],
     ta_emerging_items = [], ta_repeated_problems = [], ta_competing_approaches = [],
     ta_weak_signals = [], ta_changes_vs_previous_digest = [], ta_practical_implications = [],
     ta_recommendations = [], ta_recommended_next_searches = []\<rparr>\<rparr>"

definition solo_stages :: stage_results where
  "solo_stages = [(DISCOVERY_RELEVANCE, Some (DiscoveryData solo_discovery)),
     (PAPER_SUMMARIES, Some (SummariesData sample_summaries)),
     (TREND_ANALYSIS, Some (TrendData solo_trends)),
     (DIGEST_BRIEFING, Some (BriefingData sample_briefing))]"

lemma solo_released:
  "\<exists>dec. evaluate_quality 1 10 solo_stages default_QualityConfig = Inr dec \<and> qd_status dec \<noteq> QHold"
proof -
  have "case evaluate_quality 1 10 solo_stages default_QualityConfig of
      Inl e \<Rightarrow> False | Inr dec \<Rightarrow> qd_status dec \<noteq> QHold" by code_simp
  then show ?thesis by (simp split: sum.splits)
qed

theorem released_output_is_coherent_witness:
  "\<exists>d s t b. map_of solo_stages DISCOVERY_RELEVANCE = Some (Some (DiscoveryData d))
     \<and> map_of solo_stages PAPER_SUMMARIES = Some (Some (SummariesData s))
     \<and> map_of solo_stages TREND_ANALYSIS = Some (Some (TrendData t))
     \<and> map_of solo_stages DIGEST_BRIEFING = Some (Some (BriefingData b))
     \<and> selected_ids d = summary_ids s \<and> trend_references t \<union> briefing_references b \<subseteq> selected_ids d"
proof -
  obtain dec where dec: "evaluate_quality 1 10 solo_stages default_QualityConfig = Inr dec"
    "qd_status dec \<noteq> QHold" using solo_released by blast
  have mode: "qc_mode default_QualityConfig \<noteq> ModeOff" by code_simp
  show ?thesis using released_output_is_coherent [OF dec(1) mode dec(2)] by (elim exE conjE) (intro exI conjI)
qed

subsection \<open>The decision and the delivery\<close>

text \<open>C30: the decision recorded when a run is assessed governs its delivery.  A run whose saved
  settings cannot be read, or whose enforced checks hold or cannot complete, is not delivered;
  an observed run is always delivered; with the checks off it is delivered unless its
  settings were saved by another engine version.\<close>

theorem delivery_follows_decision:
  assumes "distinct (map rn_id (digest_runs (working s)))" and "run \<in> set (digest_runs (working s))"
    and "rn_quality_config run = Some config" and "rn_quality_evaluated_at run = None"
  shows "\<exists>run'. fst (assess_run (rn_id run) extra s) = Inr ()
     \<and> get_run (rn_id run) (working (snd (assess_run (rn_id run) extra s))) = Some run'
     \<and> (delivery_allowed run' \<longleftrightarrow>
          (case config of
             UnreadableSnapshot m \<Rightarrow> False
           | SavedSnapshot q \<Rightarrow> (case qc_mode (qs_config q) of
                 ModeEnforce \<Rightarrow> qd_status (snd (run_decision config (rn_digest_snapshot run)
                     (stage_results_of (rn_id run) (working s)) extra)) \<noteq> QHold
               | ModeObserve \<Rightarrow> True
               | ModeOff \<Rightarrow> qs_engine_version q = ENGINE_VERSION)))"
  using assess_run_result [OF assms, of extra]
    delivery_after_assessment [OF assms(3), of "stage_results_of (rn_id run) (working s)" extra "clock s (ticks s)"]
  by (intro exI conjI) blast+

text \<open>A run whose settings no longer validate is held, whatever they were.\<close>

definition unreadable_run :: DigestRun where
  "unreadable_run = (sample_run 40 1 60)\<lparr>rn_status := RUNNING, rn_worker_id := Some ''a'',
     rn_lease_expires_at := Some noon, rn_quality_config := Some (UnreadableSnapshot (Some ModeObserve))\<rparr>"

definition unreadable_session :: session where
  "unreadable_session = open_session sample_env (empty_db\<lparr>digest_runs := [unreadable_run]\<rparr>)"

theorem delivery_follows_decision_witness:
  "\<exists>run'. fst (assess_run 40 [] unreadable_session) = Inr ()
     \<and> get_run 40 (working (snd (assess_run 40 [] unreadable_session))) = Some run'
     \<and> \<not> delivery_allowed run'"
proof -
  have ids: "rn_id unreadable_run = 40" by (simp add: unreadable_run_def sample_run_def new_run_def)
  have "distinct (map rn_id (digest_runs (working unreadable_session)))"
    "unreadable_run \<in> set (digest_runs (working unreadable_session))"
    "rn_quality_config unreadable_run = Some (UnreadableSnapshot (Some ModeObserve))"
    "rn_quality_evaluated_at unreadable_run = None"
    by (simp_all add: unreadable_session_def unreadable_run_def sample_run_def new_run_def)
  from delivery_follows_decision [OF this, of "[]"] show ?thesis by (simp add: ids)
qed



end
