(* ===== verification/ScheduleProperties.thy ===== *)
theory ScheduleProperties
  imports RateLimit Examples
begin

section \<open>Properties of billing windows, rate limits and schedules\<close>

text \<open>
  The properties of the time-driven components: the monthly allowance windows
  (subscription_access_service.py), the fixed-window rate limits (rate_limit_service.py)
  and the recurrence of schedules (recurrence.py), each with a witness at concrete values.
\<close>

text \<open>C32: the monthly windows of an account tile time: every time lies in its own window, a
  time has the same window exactly when it lies in it, and the first window begins at the
  anchor.\<close>

theorem billing_windows_tile:
  "fst (window anchor stamp) \<le> stamp \<and> stamp < snd (window anchor stamp)
   \<and> (window anchor t = window anchor stamp
        \<longleftrightarrow> fst (window anchor stamp) \<le> t \<and> t < snd (window anchor stamp))
   \<and> fst (window anchor anchor) = anchor"
proof -
  have "window anchor anchor = (month_at anchor 0, month_at anchor (0 + 1))"
    using month_at_strict_mono [of 0 1 anchor] by (intro window_unique) (simp_all add: month_at_0)
  then have "fst (window anchor anchor) = anchor" by (simp add: month_at_0)
  moreover have "window anchor t = window anchor stamp
        \<longleftrightarrow> fst (window anchor stamp) \<le> t \<and> t < snd (window anchor stamp)"
    using window_same [of anchor stamp t] window_bounds [of anchor t] window_bounds(2) [of t anchor]
    by auto
  ultimately show ?thesis
    using window_bounds(1) [of anchor stamp] window_bounds(2) [of stamp anchor] by simp
qed

text \<open>C23: in any time zone whose offsets are less than a day apart, \<open>around\<close> of a schedule that
  has not ended returns: the latest occurrence up to the time, none exactly before the start,
  and the first occurrence after it unless that is at or after the end.\<close>

theorem around_brackets_time:
  assumes "zone_ok z" and "case sch_ends_at s of None \<Rightarrow> True | Some e \<Rightarrow> stamp < e"
  shows "\<exists>latest upcoming.
     around (utc_offset z) (wall_offset z) s stamp = Some (latest,
        case sch_ends_at s of None \<Rightarrow> Some upcoming
          | Some e \<Rightarrow> if upcoming \<ge> e then None else Some upcoming)
     \<and> (case latest of None \<Rightarrow> stamp < sch_starts_at s
        | Some l \<Rightarrow> sch_starts_at s \<le> stamp \<and> l \<le> stamp
            \<and> (\<exists>i. l = occurrence (utc_offset z) (wall_offset z) s i))
     \<and> stamp < upcoming \<and> (\<exists>i. upcoming = occurrence (utc_offset z) (wall_offset z) s i)
     \<and> (\<forall>j. occurrence (utc_offset z) (wall_offset z) s j
              \<in> {t. t \<ge> upcoming} \<union> {t. \<exists>l. latest = Some l \<and> t \<le> l})"
proof -
  let ?o = "occurrence (utc_offset z) (wall_offset z) s"
  from timezone.around_correct [OF timezone_zone [OF assms(1)] assms(2)]
  obtain latest upcoming where
    eq: "around (utc_offset z) (wall_offset z) s stamp = Some (latest,
       (case sch_ends_at s of None \<Rightarrow> Some upcoming | Some e \<Rightarrow> if upcoming \<ge> e then None else Some upcoming))"
    and l: "\<And>l. latest = Some l \<Longrightarrow> l \<in> range ?o \<and> l \<le> stamp \<and> (\<forall>j. ?o j \<le> stamp \<longrightarrow> ?o j \<le> l)"
    and none: "latest = None \<longleftrightarrow> stamp < sch_starts_at s"
    and up: "upcoming \<in> range ?o" "stamp < upcoming" "\<And>j. stamp < ?o j \<Longrightarrow> upcoming \<le> ?o j"
    by metis
  have low: "sch_starts_at s \<le> ?o j" for j
    using timezone.occurrence_mono [OF timezone_zone [OF assms(1)], of 0 j s]
    by (simp add: occurrence_def)
  have split: "?o j \<in> {t. t \<ge> upcoming} \<union> {t. \<exists>l. latest = Some l \<and> t \<le> l}" for j
    using l up(3) [of j] none low [of j] by (cases latest) force+
  show ?thesis
    using eq l none up split by (intro exI [of _ latest] exI [of _ upcoming])
      (auto split: option.splits)
qed

text \<open>The weekly schedule of the examples on 10 March 2025, in a zone with summer time.\<close>

theorem around_brackets_time_witness:
  "\<exists>latest upcoming.
     around (utc_offset cet_2025) (wall_offset cet_2025) weekly_schedule noon = Some (latest,
        case sch_ends_at weekly_schedule of None \<Rightarrow> Some upcoming
          | Some e \<Rightarrow> if upcoming \<ge> e then None else Some upcoming)
     \<and> (case latest of None \<Rightarrow> noon < sch_starts_at weekly_schedule
        | Some l \<Rightarrow> sch_starts_at weekly_schedule \<le> noon \<and> l \<le> noon
            \<and> (\<exists>i. l = occurrence (utc_offset cet_2025) (wall_offset cet_2025) weekly_schedule i))
     \<and> noon < upcoming
     \<and> (\<exists>i. upcoming = occurrence (utc_offset cet_2025) (wall_offset cet_2025) weekly_schedule i)
     \<and> (\<forall>j. occurrence (utc_offset cet_2025) (wall_offset cet_2025) weekly_schedule j
              \<in> {t. t \<ge> upcoming} \<union> {t. \<exists>l. latest = Some l \<and> t \<le> l})"
proof (rule around_brackets_time)
  show "zone_ok cet_2025" by code_simp
  show "case sch_ends_at weekly_schedule of None \<Rightarrow> True | Some e \<Rightarrow> noon < e" by code_simp
qed

subsection \<open>Rate limits\<close>

text \<open>C33: of the attempts a subject makes within one window, exactly the first ones are accepted
  until the counter reaches the limit, and every later one is refused.\<close>

theorem rate_limit_in_window:
  assumes "bucket_keys_ok (working s)" and "0 < limit"
    and "\<And>i. i < n \<Longrightarrow> window_bucket secs (clock s (ticks s + i)) = window_bucket secs (clock s (ticks s))"
  shows "fst (attempts hmac settings scope subject limit secs n s)
     = Inr (map (\<lambda>i. used (key_at hmac settings scope subject secs (clock s (ticks s))) (working s) + i < limit) [0..<n])"
  by (rule attempts_results [OF assms(1,2)]) (simp add: key_at_def window_key_def Let_def assms(3))

definition plain_hmac :: hmac where
  "plain_hmac secret message = message"

theorem rate_limit_in_window_witness:
  "fst (attempts plain_hmac sample_settings ''login-ip'' ''10.0.0.1'' 3 900 5 (open_session sample_env empty_db))
     = Inr [True, True, True, False, False]"
proof -
  let ?s = "open_session sample_env empty_db"
  have ok: "bucket_keys_ok (working ?s)" by (simp add: bucket_keys_ok_def empty_db_def)
  have w: "window_bucket 900 (clock ?s (ticks ?s + i)) = window_bucket 900 (clock ?s (ticks ?s))" if "i < 5" for i
  proof -
    have "i \<in> {0, 1, 2, 3, 4}" using that by auto
    then show ?thesis
      by (auto simp: sample_env_def noon_def window_bucket_def timestamp_def from_timestamp_def epoch_us_def)
  qed
  have u: "used k (working ?s) = 0" for k
    by (simp add: used_def get_bucket_def get_row_def empty_db_def)
  have "fst (attempts plain_hmac sample_settings ''login-ip'' ''10.0.0.1'' 3 900 5 ?s)
      = Inr (map (\<lambda>i. used (key_at plain_hmac sample_settings ''login-ip'' ''10.0.0.1'' 900
          (clock ?s (ticks ?s))) (working ?s) + i < 3) [0..<5])"
    by (rule rate_limit_in_window [OF ok _ w]) simp_all
  moreover have "map (\<lambda>i. 0 + i < 3) [0..<5] = [True, True, True, False, False]" by code_simp
  ultimately show ?thesis unfolding u by simp
qed

text \<open>A refused caller is told to wait at least a second, at most a window, and long enough
  for its window to have ended.\<close>

theorem retry_after_reaches_next_window:
  assumes "0 < secs" and "window_key hmac settings scope subject secs stamp = (key, deadline)"
  shows "1 \<le> retry_after deadline stamp \<and> retry_after deadline stamp \<le> secs
     \<and> deadline \<le> stamp + seconds (retry_after deadline stamp)
     \<and> window_bucket secs stamp < window_bucket secs (stamp + seconds (retry_after deadline stamp))"
proof -
  note b = retry_after_bounds [OF assms(1) assms(2) [symmetric]]
  have dl: "deadline = from_timestamp ((window_bucket secs stamp + 1) * secs)"
    using assms(2) by (simp add: window_key_def Let_def)
  have "window_bucket secs stamp + 1 \<le> window_bucket secs (stamp + seconds (retry_after deadline stamp))"
  proof (rule ccontr)
    assume "\<not> ?thesis"
    then have "window_bucket secs (stamp + seconds (retry_after deadline stamp)) + 1 \<le> window_bucket secs stamp + 1"
      by simp
    then have "from_timestamp ((window_bucket secs (stamp + seconds (retry_after deadline stamp)) + 1) * secs) \<le> deadline"
      using assms(1) unfolding dl by (simp add: from_timestamp_def)
    with window_bucket_bounds(2) [OF assms(1), of "stamp + seconds (retry_after deadline stamp)"] b(2)
    show False by simp
  qed
  with b show ?thesis by simp
qed

theorem retry_after_reaches_next_window_witness:
  "\<exists>key deadline. window_key plain_hmac sample_settings ''login-ip'' ''10.0.0.1'' 900 noon = (key, deadline)
     \<and> 1 \<le> retry_after deadline noon \<and> retry_after deadline noon \<le> 900
     \<and> deadline \<le> noon + seconds (retry_after deadline noon)
     \<and> window_bucket 900 noon < window_bucket 900 (noon + seconds (retry_after deadline noon))"
proof -
  obtain key deadline where
    w: "window_key plain_hmac sample_settings ''login-ip'' ''10.0.0.1'' 900 noon = (key, deadline)" by fastforce
  have "0 < (900 :: int)" by simp
  from retry_after_reaches_next_window [OF this w] w show ?thesis by blast
qed

end
