(* ===== verification/ScheduledRuns.thy ===== *)
theory ScheduledRuns
  imports DispatchProperties
begin

section \<open>A due occurrence is started\<close>

text \<open>
  The admission of a scheduled run from end to end, with total correctness: \<open>returns m s Q\<close>
  says that the program returns and what then holds.  One lemma per operation between the
  lock of the account and the final commit, for an account that no plan limits; together
  they give the progress of the dispatcher, and the concrete sessions of the witnesses.
\<close>

definition returns :: "'a sess \<Rightarrow> session \<Rightarrow> ('a \<Rightarrow> session \<Rightarrow> bool) \<Rightarrow> bool" where
  "returns m s Q \<longleftrightarrow> (case m s of (Inl e, s') \<Rightarrow> False | (Inr v, s') \<Rightarrow> Q v s')"

lemma returnsD: "returns m s Q \<Longrightarrow> \<exists>v s'. m s = (Inr v, s') \<and> Q v s'"
  by (auto simp: returns_def split: prod.splits sum.splits)

lemma returns_bind:
  "returns m s Q \<Longrightarrow> (\<And>v s'. Q v s' \<Longrightarrow> returns (f v) s' R) \<Longrightarrow> returns (bind m f) s R"
  by (fastforce simp: returns_def bind_def split: prod.splits sum.splits)

lemma returns_seq:
  "returns m s (\<lambda>_. Q) \<Longrightarrow> (\<And>s'. Q s' \<Longrightarrow> returns n s' R) \<Longrightarrow> returns (seq m n) s R"
  unfolding seq_def by (rule returns_bind)

lemma returns_weaken: "returns m s Q \<Longrightarrow> (\<And>v s'. Q v s' \<Longrightarrow> R v s') \<Longrightarrow> returns m s R"
  by (auto simp: returns_def split: prod.splits sum.splits)

lemma returns_ret: "Q v s \<Longrightarrow> returns (ret v) s Q"
  by (simp add: returns_def ret_def)

lemma returns_query: "returns (f (g (working s))) s Q \<Longrightarrow> returns (bind (query g) f) s Q"
  by (simp add: returns_def step_query)

lemma returns_now: "returns (f (clock s (ticks s))) (s\<lparr>ticks := Suc (ticks s)\<rparr>) Q \<Longrightarrow> returns (bind now f) s Q"
  by (simp add: returns_def step_now)

lemma returns_change: "returns m (s\<lparr>working := f (working s)\<rparr>) Q \<Longrightarrow> returns (seq (change f) m) s Q"
  by (simp add: returns_def step_change)

lemma returns_flush: "constraints_ok (working s) \<Longrightarrow> Q () s \<Longrightarrow> returns flush s Q"
  by (simp add: returns_def run_simps)

lemma returns_if: "(b \<Longrightarrow> returns m s Q) \<Longrightarrow> (\<not> b \<Longrightarrow> returns n s Q) \<Longrightarrow> returns (if b then m else n) s Q"
  by simp

text \<open>An account whose runs are not limited by a plan, and what the admission of its runs
  leaves alone.\<close>

definition unlimited :: "uuid \<Rightarrow> db \<Rightarrow> bool" where
  "unlimited user d \<longleftrightarrow> constraints_ok d \<and> active_user user d
     \<and> (case get_row usr_id user (users d) of None \<Rightarrow> True | Some u \<Rightarrow> usr_closure_requested_at u = None)
     \<and> (case policy_of d user of None \<Rightarrow> True | Some p \<Rightarrow> pol_mode p = Complimentary)"

definition same_core :: "session \<Rightarrow> session \<Rightarrow> bool" where
  "same_core s s' \<longleftrightarrow> drawn s' = drawn s \<and> uuids s' = uuids s \<and> buckets (working s') = buckets (working s)
     \<and> digests (working s') = digests (working s) \<and> digest_runs (working s') = digest_runs (working s)
     \<and> run_stages (working s') = run_stages (working s)"

definition admitted :: "uuid \<Rightarrow> session \<Rightarrow> session \<Rightarrow> bool" where
  "admitted user s s' \<longleftrightarrow> unlimited user (working s') \<and> same_core s s'"

lemma admitted_trans: "admitted user s t \<Longrightarrow> admitted user t u \<Longrightarrow> admitted user s u"
  by (simp add: admitted_def same_core_def)

lemma admitted_refl: "unlimited user (working s) \<Longrightarrow> admitted user s s"
  by (simp add: admitted_def same_core_def)

lemma admitted_unlimited: "admitted user s t \<Longrightarrow> unlimited user (working t)"
  by (simp add: admitted_def)

lemma returns_locked:
  "unlimited user (working s) \<Longrightarrow> returns (lock_account u) s (\<lambda>_. admitted user s)"
  by (simp add: returns_def lock_account_def run_simps Let_def unlimited_def constraints_ok_def
      active_user_def policy_of_def same_core_def admitted_def)

lemma returns_opened:
  "unlimited user (working s) \<Longrightarrow> returns (require_open_account user) s (\<lambda>_. admitted user s)"
  by (auto simp: returns_def require_open_account_def run_simps unlimited_def admitted_def same_core_def
      split: option.splits)

lemma returns_resolve:
  "unlimited user (working s) \<Longrightarrow>
     returns (resolve user settings) s (\<lambda>a s'. ac_mode a = Complimentary \<and> admitted user s s')"
  by (auto simp: returns_def resolve_def require_open_account_def run_simps admitted_def
      resolve_billing_def base_access_def Let_def unlimited_def same_core_def split: option.splits)

lemma returns_assess:
  "unlimited user (working s) \<Longrightarrow> returns (assess user n trigger context settings i) s
     (\<lambda>(access, issues) s'. ac_mode access = Complimentary \<and> issues = [] \<and> admitted user s s')"
  unfolding assess_def by (rule returns_bind [OF returns_resolve]) (auto simp: returns_def ret_def)

lemma returns_reserve:
  assumes "unlimited (rn_owner_id r) (working s)"
  shows "returns (reserve r sch settings) s (\<lambda>_. admitted (rn_owner_id r) s)"
  unfolding reserve_def
proof (rule returns_seq [OF returns_locked [OF assms]], rule returns_seq [OF returns_opened [OF admitted_unlimited]],
    assumption, rule returns_query, rule returns_if)
  fix t u assume t: "admitted (rn_owner_id r) s t" and "admitted (rn_owner_id r) t u"
  then have u: "admitted (rn_owner_id r) s u" by (rule admitted_trans)
  then show "returns (ret ()) u (\<lambda>_. admitted (rn_owner_id r) s)" by (simp add: returns_ret)
  show "returns (bind (query (run_context r (find_usage (rn_id r) (working u)) sch)) (\<lambda>context.
       bind (assess (rn_owner_id r) (ds_maximum_papers (rn_digest_snapshot r)) (rn_trigger r)
               context settings (Some (rn_digest_id r))) (\<lambda>(access, issues).
       if issues \<noteq> [] then raise (AccessDenied 403) (join '' '' issues)
       else if ac_mode access = Complimentary then ret ()
       else book_usage r (find_usage (rn_id r) (working u)) context access))) u
     (\<lambda>_. admitted (rn_owner_id r) s)"
    by (rule returns_query, rule returns_bind [OF returns_assess [OF admitted_unlimited [OF u]]])
       (use u admitted_trans in \<open>auto simp: returns_def ret_def\<close>)
qed

lemma admitted_observed:
  "admitted user s (t\<lparr>ticks := n, working := (working u)\<lparr>observed_runs := x\<rparr>\<rparr>)
     = admitted user s (t\<lparr>ticks := n, working := working u\<rparr>)"
  by (simp add: admitted_def same_core_def unlimited_def constraints_ok_def active_user_def policy_of_def)

lemma returns_observe:
  assumes "unlimited user (working s)"
  shows "returns (obs_reserve r sch) s (\<lambda>_. admitted user s)"
proof -
  have assessed: "returns (assess_observed r sch a row t) u (\<lambda>_. admitted user s)"
    if "admitted user s u" for a row t u
    using that by (auto simp: returns_def assess_observed_def set_observed_def run_simps admitted_def
        same_core_def unlimited_def constraints_ok_def active_user_def policy_of_def)
  show ?thesis
    unfolding obs_reserve_def Let_def
  proof (rule returns_seq [OF returns_locked [OF assms]], rule returns_query)
    fix t assume t: "admitted user s t"
    show "returns (case observed_run (rn_id r) (working t) of
       Some row \<Rightarrow>
         if ob_state row \<noteq> Released then ret ()
         else bind now (\<lambda>stamp.
           bind (query (\<lambda>d. case ob_assignment_id row of None \<Rightarrow> None
                   | Some k \<Rightarrow> get_row om_id k (assignments d))) (\<lambda>assignment.
           seq (set_observed (rn_id r) (\<lambda>r. r\<lparr>ob_attempts := ob_attempts r + 1\<rparr>))
           (assess_observed r sch assignment row stamp)))
     | None \<Rightarrow>
         bind now (\<lambda>stamp.
         bind (query (\<lambda>d. current_assignment d (rn_owner_id r))) (\<lambda>assignment.
         seq (change (\<lambda>d. d\<lparr>observed_runs := observed_runs d @ [new_observed r assignment stamp]\<rparr>))
            (assess_observed r sch assignment (new_observed r assignment stamp) stamp)))) t
     (\<lambda>_. admitted user s)"
    proof (cases "observed_run (rn_id r) (working t)")
      case None
      show ?thesis
        unfolding None option.case
        by (intro returns_now returns_query returns_change assessed)
           (use t in \<open>auto simp: admitted_def same_core_def unlimited_def constraints_ok_def active_user_def policy_of_def\<close>)
    next
      case (Some row)
      show ?thesis
        unfolding Some option.case set_observed_def
        by (intro returns_if returns_ret returns_now returns_query returns_change assessed)
           (use t in \<open>auto simp: admitted_def same_core_def unlimited_def constraints_ok_def active_user_def policy_of_def\<close>)
    qed
  qed
qed


text \<open>Counters with room for one more attempt.\<close>

definition counted :: "nat \<Rightarrow> db \<Rightarrow> bool" where
  "counted n d \<longleftrightarrow> bucket_keys_ok d \<and> list_all (\<lambda>b. bk_count b \<le> n) (buckets d)"

lemma returns_enforce:
  assumes "counted n (working s)" and "n < limit"
  shows "returns (enforce hmac settings scope subject limit secs False) s
     (\<lambda>_ s'. \<exists>bs. working s' = (working s)\<lparr>buckets := bs\<rparr> \<and> drawn s' = drawn s \<and> uuids s' = uuids s
        \<and> counted (Suc n) (working s'))"
proof -
  let ?s = "s\<lparr>ticks := Suc (ticks s)\<rparr>"
  obtain key deadline where w: "window_key hmac settings scope subject secs (clock s (ticks s)) = (key, deadline)"
    by fastforce
  have eq: "enforce hmac settings scope subject limit secs False s
     = bind (bind (count_up key limit) (\<lambda>accepted.
          bind (query (get_bucket key)) (\<lambda>present.
          bind (if \<not> accepted \<and> present = None
                then seq (change (\<lambda>d. d\<lparr>buckets := buckets d
                            @ [\<lparr>bk_key = key, bk_count = 1, bk_expires_at = deadline\<rparr>]\<rparr>))
                     (ret True)
                else ret accepted) (\<lambda>result.
          seq (ret ()) (ret (result, retry_after deadline (clock s (ticks s))))))))
        (\<lambda>(accepted, retry). if accepted then ret () else raise (RateLimitExceeded retry) scope) ?s"
    by (simp add: enforce_def consume_def bind_assoc step_now w)
  show ?thesis
  proof (cases "get_bucket key (working s)")
    case None
    then have c: "count_up key limit ?s = (Inr False, ?s)" by (intro count_up_absent) simp
    have "key \<notin> bk_key ` set (buckets (working s))" using None by (simp add: get_bucket_def get_row_None)
    with None c assms(1) show ?thesis
      unfolding returns_def eq bind_assoc
      by (simp add: step_Inr(1) [where m = "count_up key limit", OF c])
         (auto simp: run_simps counted_def bucket_keys_ok_def list_all_iff)
  next
    case (Some b)
    have few: "bk_count b < limit"
      using Some assms by (auto simp: counted_def get_bucket_def list_all_iff dest!: get_row_Some)
    have ok: "bucket_keys_ok (working ?s)" "get_bucket key (working ?s) = Some b"
      using Some assms(1) by (simp_all add: counted_def)
    define t where "t = ?s\<lparr>working := (working s)\<lparr>buckets := update_where (below_limit key limit)
         (\<lambda>b. b\<lparr>bk_count := bk_count b + 1\<rparr>) (buckets (working s))\<rparr>\<rparr>"
    have "snd (count_up key limit ?s) = t" by (simp add: count_up_def run_simps t_def)
    then have c: "count_up key limit ?s = (Inr True, t)"
      using count_up_present(1) [OF ok, of limit] few by (simp add: prod_eq_iff)
    have "counted (Suc n) (working t)"
      using assms(1) unfolding counted_def
      by (fastforce simp: t_def bucket_keys_ok_def below_limit_def list_all_iff set_update_where)
    then show ?thesis
      unfolding returns_def eq bind_assoc
      by (simp add: step_Inr(1) [where m = "count_up key limit", OF c])
         (auto simp: run_simps t_def)
  qed
qed


text \<open>A new identifier, and the run and stages it names.\<close>

definition unused :: "uuid \<Rightarrow> db \<Rightarrow> bool" where
  "unused i d \<longleftrightarrow> i \<notin> rn_id ` set (digest_runs d) \<and> i \<notin> sg_run_id ` set (run_stages d)"

definition idle :: "uuid \<Rightarrow> db \<Rightarrow> bool" where
  "idle user d \<longleftrightarrow> (\<forall>r \<in> set (digest_runs d). rn_owner_id r = user \<longrightarrow> \<not> is_active r)"

lemma idle_owner: "idle user d \<longleftrightarrow> user \<notin> set (active_owners (digest_runs d))"
  by (auto simp: idle_def active_owners_def is_active_def)

lemma update_where_appended:
  "\<forall>x \<in> set xs. \<not> p x \<Longrightarrow> p y \<Longrightarrow> update_where p f (xs @ [y]) = xs @ [f y]"
  by (simp add: update_where_def map_idI)

lemma new_stages_result:
  "\<exists>st n. new_stages run model version k ts s = (Inr st, s\<lparr>drawn := n\<rparr>)
     \<and> map sg_stage st = ts \<and> list_all (\<lambda>x. sg_run_id x = run \<and> sg_progress_current x \<le> sg_progress_total x) st"
proof (induction ts arbitrary: k s)
  case (Cons t ts)
  from Cons.IH [of "Suc k" "s\<lparr>drawn := Suc (drawn s)\<rparr>"] show ?case
    by (auto simp: step_uuid4 step_Inr new_stage_def ret_def)
next
  case Nil
  show ?case by (rule exI [of _ "[]"], rule exI [of _ "drawn s"]) (simp add: ret_def)
qed

lemma returns_create_running:
  assumes "unlimited owner (working s)" and "idle owner (working s)" and "unused (uuids s (drawn s)) (working s)"
  shows "returns (create_running digest owner snapshot history feedback model version) s
     (\<lambda>i s'. i = uuids s (drawn s) \<and> (\<exists>stamp. digest_runs (working s') = digest_runs (working s)
            @ [new_run i digest owner snapshot history feedback model version stamp])
        \<and> unlimited owner (working s') \<and> digests (working s') = digests (working s))"
proof -
  let ?i = "uuids s (drawn s)" and ?t = "clock s (ticks s)"
  define s0 where "s0 = s\<lparr>drawn := Suc (drawn s), ticks := Suc (ticks s)\<rparr>"
  obtain st n where st: "new_stages ?i model version 1 RADAR_STAGE_ORDER s0 = (Inr st, s0\<lparr>drawn := n\<rparr>)"
    and st': "map sg_stage st = RADAR_STAGE_ORDER"
      "list_all (\<lambda>x. sg_run_id x = ?i \<and> sg_progress_current x \<le> sg_progress_total x) st"
    using new_stages_result [of ?i model version 1 RADAR_STAGE_ORDER s0] by blast
  let ?d = "(working s)\<lparr>digest_runs := digest_runs (working s)
        @ [new_run ?i digest owner snapshot history feedback model version ?t],
      run_stages := run_stages (working s) @ st\<rparr>"
  have "distinct (map sg_stage st)" using st'(1) by (simp add: RADAR_STAGE_ORDER_def)
  then have "distinct (map (\<lambda>x. (sg_run_id x, sg_stage x)) st)"
    by (auto simp: distinct_map inj_on_def)
  then have ok: "constraints_ok ?d"
    using assms st'(2)
    by (auto simp: constraints_ok_def unlimited_def idle_owner unused_def active_owners_def list_all_iff
        new_run_def image_iff)
  then have "unlimited owner ?d"
    using assms(1) by (simp add: unlimited_def active_user_def policy_of_def)
  moreover have "create_running digest owner snapshot history feedback model version s
      = (Inr ?i, s0\<lparr>drawn := n, working := ?d\<rparr>)"
  proof -
    have "create_running digest owner snapshot history feedback model version s
      = bind (new_stages ?i model version 1 RADAR_STAGE_ORDER) (\<lambda>stages.
        seq (change (\<lambda>d. d\<lparr>digest_runs := digest_runs d
              @ [new_run ?i digest owner snapshot history feedback model version ?t],
            run_stages := run_stages d @ stages\<rparr>)) (seq flush (ret ?i))) s0"
      by (simp add: create_running_def step_uuid4 step_now s0_def)
    also have "\<dots> = seq (change (\<lambda>d. d\<lparr>digest_runs := digest_runs d
              @ [new_run ?i digest owner snapshot history feedback model version ?t],
            run_stages := run_stages d @ st\<rparr>)) (seq flush (ret ?i)) (s0\<lparr>drawn := n\<rparr>)"
      by (rule step_Inr(1) [where m = "new_stages ?i model version 1 RADAR_STAGE_ORDER", OF st])
    also have "\<dots> = (Inr ?i, s0\<lparr>drawn := n, working := ?d\<rparr>)"
      using ok by (simp add: step_change) (simp add: run_simps s0_def)
    finally show ?thesis .
  qed
  ultimately show ?thesis by (auto simp: returns_def)
qed


definition scheduled_run :: "uuid \<Rightarrow> uuid \<Rightarrow> uuid \<Rightarrow> datetime \<Rightarrow> DigestRun \<Rightarrow> bool" where
  "scheduled_run i digest owner t r \<longleftrightarrow> rn_id r = i \<and> rn_digest_id r = digest \<and> rn_owner_id r = owner
     \<and> rn_status r = QUEUED \<and> rn_trigger r = SCHEDULED \<and> rn_scheduled_for r = Some t"

definition with_new_run :: "uuid \<Rightarrow> uuid \<Rightarrow> uuid \<Rightarrow> datetime \<Rightarrow> session \<Rightarrow> session \<Rightarrow> bool" where
  "with_new_run i digest owner t s s' \<longleftrightarrow> unlimited owner (working s') \<and> digests (working s') = digests (working s)
     \<and> (\<exists>r. scheduled_run i digest owner t r \<and> digest_runs (working s') = digest_runs (working s) @ [r])"

lemma lift_result_bind: "bind (lift_result (Inr v)) f = f v"
  by (simp add: fun_eq_iff run_simps)

lemma returns_create_queued:
  assumes "unlimited owner (working s)" and "idle owner (working s)" and "unused (uuids s (drawn s)) (working s)"
    and "zs tz \<noteq> None"
  shows "returns (create_queued zs c g owner (Some t) tz) s
     (\<lambda>i s'. i = uuids s (drawn s) \<and> with_new_run i (dg_id g) owner t s s')"
proof -
  obtain z where z: "zs tz = Some z" using assms(4) by blast
  then obtain snapshot where snap: "digest_snapshot zs g (Some t) tz = Inr snapshot"
    by (simp add: digest_snapshot_def Let_def)
  let ?i = "uuids s (drawn s)"
  have set: "seq (set_run ?i (\<lambda>r. r\<lparr>rn_quality_config := Some config\<rparr>))
      (seq (set_run ?i (\<lambda>r. r\<lparr>rn_trigger := SCHEDULED, rn_scheduled_for := Some t\<rparr>)) (ret ?i)) u
      = (Inr ?i, u\<lparr>working := (working u)\<lparr>digest_runs := digest_runs (working s)
            @ [r\<lparr>rn_quality_config := Some config, rn_trigger := SCHEDULED, rn_scheduled_for := Some t\<rparr>]\<rparr>\<rparr>)"
    if "digest_runs (working u) = digest_runs (working s) @ [r]" "rn_id r = ?i" for config u r
  proof -
    have fresh: "\<forall>x \<in> set (digest_runs (working s)). \<not> rn_id x = ?i"
      using assms(3) unfolding unused_def by (metis image_eqI)
    show ?thesis
      using that by (simp add: run_simps update_where_appended [OF fresh])
  qed
  have last: "returns (seq (set_run i (\<lambda>r. r\<lparr>rn_quality_config := Some config\<rparr>))
       (seq (set_run i (\<lambda>r. r\<lparr>rn_trigger := SCHEDULED, rn_scheduled_for := Some t\<rparr>)) (ret i))) u
      (\<lambda>i s'. i = ?i \<and> with_new_run i (dg_id g) owner t s s')"
    if u: "i = ?i \<and> (\<exists>stamp. digest_runs (working u) = digest_runs (working s)
            @ [new_run i (dg_id g) owner snapshot history feedback model version stamp])
        \<and> unlimited owner (working u) \<and> digests (working u) = digests (working s)"
    for i u config history feedback model version
  proof -
    obtain r where r: "digest_runs (working u) = digest_runs (working s) @ [r]" "rn_id r = ?i"
      "rn_digest_id r = dg_id g" "rn_owner_id r = owner" "rn_status r = QUEUED" "i = ?i"
      using u by (auto simp: new_run_def)
    show ?thesis
      unfolding r(6) returns_def set [OF r(1,2)]
      using r u
      by (auto simp: with_new_run_def scheduled_run_def unlimited_def constraints_ok_def active_owners_def
          active_user_def policy_of_def is_active_status_def)
  qed
  show ?thesis
    unfolding create_queued_def snap lift_result_bind option.case
    by (rule returns_query, rule returns_query, rule returns_bind [OF returns_create_running [OF assms(1-3)]],
        rule returns_query, erule last)
qed

lemma returns_book_run:
  assumes "with_new_run i digest owner t s u" and "constraints_ok (working u)"
  shows "returns (book_run settings i) u (\<lambda>_. with_new_run i digest owner t s)"
proof -
  obtain r where r: "scheduled_run i digest owner t r" "digest_runs (working u) = digest_runs (working s) @ [r]"
    "unlimited owner (working u)"
    using assms(1) by (auto simp: with_new_run_def)
  have "r \<in> set (digest_runs (working u))" "rn_id r = i" using r by (simp_all add: scheduled_run_def)
  then have get: "get_run i (working u) = Some r"
    using assms(2) get_row_distinct [of rn_id "digest_runs (working u)" r]
    by (simp add: get_run_def constraints_ok_def)
  have o: "rn_owner_id r = owner" using r(1) by (simp add: scheduled_run_def)
  show ?thesis
    unfolding book_run_def
  proof (rule returns_query, simp only: get option.case, rule returns_query,
      rule returns_seq [OF returns_reserve], simp add: o r, rule returns_query,
      rule returns_weaken [OF returns_observe])
    fix v assume "admitted (rn_owner_id r) u v"
    then show "unlimited owner (working v)" by (simp add: admitted_def o)
  next
    fix v w a assume "admitted (rn_owner_id r) u v" "admitted owner v w"
    then show "with_new_run i digest owner t s w"
      using assms(1) by (simp add: o with_new_run_def admitted_def same_core_def)
  qed
qed


lemma with_new_run_from:
  "with_new_run i digest owner t u v \<Longrightarrow> digests (working u) = digests (working s) \<Longrightarrow>
     digest_runs (working u) = digest_runs (working s) \<Longrightarrow> with_new_run i digest owner t s v"
  by (simp add: with_new_run_def)

definition startable :: "SubmissionConfig \<Rightarrow> uuid \<Rightarrow> session \<Rightarrow> bool" where
  "startable c owner s \<longleftrightarrow> unlimited owner (working s) \<and> idle owner (working s)
     \<and> unused (uuids s (drawn s)) (working s)
     \<and> (\<exists>n. counted n (working s) \<and> n < set_radar_runs_per_hour (sm_settings c)
              \<and> Suc n < set_radar_runs_per_day (sm_settings c))"

lemma startable_admitted: "startable c owner s \<Longrightarrow> admitted owner s t \<Longrightarrow> startable c owner t"
  by (simp add: startable_def admitted_def same_core_def idle_def unused_def counted_def bucket_keys_ok_def)

lemma startable_buckets:
  "unlimited owner (d\<lparr>buckets := bs\<rparr>) = unlimited owner d" "idle owner (d\<lparr>buckets := bs\<rparr>) = idle owner d"
  "unused i (d\<lparr>buckets := bs\<rparr>) = unused i d"
  by (simp_all add: unlimited_def constraints_ok_def active_user_def policy_of_def idle_def unused_def)

lemma startable_digests:
  "unlimited owner (d\<lparr>digests := ds\<rparr>) = unlimited owner d" "idle owner (d\<lparr>digests := ds\<rparr>) = idle owner d"
  "unused i (d\<lparr>digests := ds\<rparr>) = unused i d" "counted n (d\<lparr>digests := ds\<rparr>) = counted n d"
  by (simp_all add: unlimited_def constraints_ok_def active_user_def policy_of_def idle_def unused_def
      counted_def bucket_keys_ok_def)

lemma returns_budget:
  assumes "counted n (working s)" and "n < set_radar_runs_per_hour st" and "Suc n < set_radar_runs_per_day st"
  shows "returns (reserve_run_budget hmac st owner) s
     (\<lambda>_ s'. \<exists>bs. working s' = (working s)\<lparr>buckets := bs\<rparr> \<and> drawn s' = drawn s \<and> uuids s' = uuids s)"
  unfolding reserve_run_budget_def
proof (rule returns_seq [OF returns_enforce [OF assms(1,2)]])
  fix t :: session assume t: "\<exists>bs. working t = (working s)\<lparr>buckets := bs\<rparr> \<and> drawn t = drawn s \<and> uuids t = uuids s
      \<and> counted (Suc n) (working t)"
  then have c: "counted (Suc n) (working t)" by blast
  show "returns (enforce hmac st ''radar-day'' (uuid_text owner) (set_radar_runs_per_day st) 86400 False) t
     (\<lambda>_ s'. \<exists>bs. working s' = (working s)\<lparr>buckets := bs\<rparr> \<and> drawn s' = drawn s \<and> uuids s' = uuids s)"
    by (rule returns_weaken [OF returns_enforce [OF c assms(3)]]) (use t in auto)
qed

lemma returns_start:
  assumes start: "startable c owner s" and found: "get_for_owner digest owner (working s) \<noteq> None"
    and zone: "zs tz \<noteq> None"
  shows "returns (start_digest hmac zs c digest owner (Some t) tz False) s
     (\<lambda>i. with_new_run i digest owner t s)"
proof -
  obtain g0 where g0: "get_for_owner digest owner (working s) = Some g0" using found by blast
  then have mem: "g0 \<in> set (digests (working s))" "dg_id g0 = digest"
    unfolding get_for_owner_def by (auto dest!: find_Some_mem)
  show ?thesis
    unfolding start_digest_def has_running_for_owner_def if_False
  proof (rule returns_query, simp only: g0 option.case, rule returns_seq [OF returns_locked [where user = owner]],
      use start in \<open>simp add: startable_def\<close>, rule returns_query, rule returns_query)
    fix u assume u: "admitted owner s u"
    let ?g = "case get_row dg_id digest (digests (working u)) of None \<Rightarrow> g0 | Some g \<Rightarrow> g"
    have g: "dg_id ?g = digest" using mem by (auto split: option.split dest: get_row_Some)
    have st: "startable c owner u" using startable_admitted [OF start u] .
    then have idle: "idle owner (working u)" by (simp add: startable_def)
    obtain n where n: "counted n (working u)" "n < set_radar_runs_per_hour (sm_settings c)"
      "Suc n < set_radar_runs_per_day (sm_settings c)"
      using st by (auto simp: startable_def)
    have "returns (seq (reserve_run_budget hmac (sm_settings c) owner)
            (bind (create_queued zs c ?g owner (Some t) tz) (\<lambda>run.
             seq (book_run (sm_settings c) run) (seq (ret ()) (ret run))))) u
        (\<lambda>i. with_new_run i digest owner t s)"
    proof (rule returns_seq [OF returns_budget [OF n]])
      fix v :: session assume v: "\<exists>bs. working v = (working u)\<lparr>buckets := bs\<rparr> \<and> drawn v = drawn u \<and> uuids v = uuids u"
      then have ready: "unlimited owner (working v)" "idle owner (working v)" "unused (uuids v (drawn v)) (working v)"
        using st by (auto simp: startable_def startable_buckets)
      have same: "digests (working v) = digests (working s)" "digest_runs (working v) = digest_runs (working s)"
        using v u by (auto simp: admitted_def same_core_def)
      show "returns (bind (create_queued zs c ?g owner (Some t) tz) (\<lambda>run.
             seq (book_run (sm_settings c) run) (seq (ret ()) (ret run)))) v
        (\<lambda>i. with_new_run i digest owner t s)"
      proof (rule returns_bind [OF returns_create_queued [where zs = zs and tz = tz, OF ready zone]])
        fix i w assume "i = uuids v (drawn v) \<and> with_new_run i (dg_id ?g) owner t v w"
        then have w: "with_new_run i digest owner t s w"
          using same g by (auto intro: with_new_run_from)
        then have "constraints_ok (working w)" by (simp add: with_new_run_def unlimited_def)
        from returns_book_run [OF w this]
        show "returns (seq (book_run (sm_settings c) i) (seq (ret ()) (ret i))) w
           (\<lambda>i. with_new_run i digest owner t s)"
          by (rule returns_seq) (simp add: returns_def run_simps)
      qed
    qed
    then show "returns (if \<exists>r\<in>set (digest_runs (working u)). rn_owner_id r = owner \<and> is_active r
          then raise RadarRunAlreadyActiveError msg_active_start
          else seq (reserve_run_budget hmac (sm_settings c) owner)
            (bind (create_queued zs c ?g owner (Some t) tz) (\<lambda>run.
             seq (book_run (sm_settings c) run) (seq (ret ()) (ret run))))) u
        (\<lambda>i. with_new_run i digest owner t s)"
      using idle by (auto simp: idle_def)
  qed
qed


text \<open>The occurrence of a digest, from the compare-and-swap on.\<close>

lemma returns_start_scheduled:
  assumes start: "startable c owner s" and found: "get_for_owner i owner (working s) \<noteq> None"
    and zone: "zs (sch_time_zone sch) \<noteq> None"
  shows "returns (start_scheduled hmac zs c stamp i owner t sch) s
     (\<lambda>b s'. b \<and> (\<exists>run r. scheduled_run run i owner t r
         \<and> digest_runs (committed s') = digest_runs (working s) @ [r]
         \<and> (sch_send_email sch \<longrightarrow> new_delivery run stamp \<in> set (deliveries (committed s')))))"
  unfolding start_scheduled_def
proof (rule returns_bind [OF returns_start [where zs = zs, OF assms]])
  fix run u assume "with_new_run run i owner t s u"
  then obtain r where r: "scheduled_run run i owner t r" "digest_runs (working u) = digest_runs (working s) @ [r]"
    "constraints_ok (working u)"
    by (auto simp: with_new_run_def unlimited_def)
  then show "returns (seq (set_digest i (\<lambda>g. g\<lparr>dg_subscription_retry_at := None\<rparr>))
     (seq (if sch_send_email sch
           then change (\<lambda>d. d\<lparr>deliveries := deliveries d @ [new_delivery run stamp]\<rparr>) else ret ())
     (seq commit (ret True)))) u
     (\<lambda>b s'. b \<and> (\<exists>run r. scheduled_run run i owner t r
         \<and> digest_runs (committed s') = digest_runs (working s) @ [r]
         \<and> (sch_send_email sch \<longrightarrow> new_delivery run stamp \<in> set (deliveries (committed s')))))"
    by (auto simp: returns_def run_simps constraints_ok_def)
qed

lemma returns_occurrence:
  assumes start: "startable c (dg_owner_id g) s" and g: "g \<in> set (digests (working s))"
    and dist: "distinct (map dg_id (digests (working s)))"
    and due: "occurrences_at zs sch stamp = Inr (Some t, following)"
  shows "returns (dispatch_occurrence hmac zs c stamp g sch) s
     (\<lambda>b s'. b \<and> (\<exists>run r. scheduled_run run (dg_id g) (dg_owner_id g) t r
         \<and> digest_runs (committed s') = digest_runs (working s) @ [r]
         \<and> (sch_send_email sch \<longrightarrow> new_delivery run stamp \<in> set (deliveries (committed s')))))"
proof -
  let ?i = "dg_id g"
  let ?p = "\<lambda>x. dg_id x = ?i \<and> dg_schedule_next_at x = dg_schedule_next_at g"
  have zone: "zs (sch_time_zone sch) \<noteq> None" using due by (auto simp: occurrences_at_def split: option.splits)
  have one: "rowcount ?p (digests (working s)) = 1"
    using rowcount_distinct [OF dist g, of "\<lambda>x. dg_schedule_next_at x = dg_schedule_next_at g"] by simp
  define ds where "ds = update_where (\<lambda>x. dg_id x = ?i) (\<lambda>x. x\<lparr>dg_schedule_next_at := following\<rparr>)
      (update_where ?p (\<lambda>x. x\<lparr>dg_schedule_next_at := following\<rparr>) (digests (working s)))"
  define u where "u = s\<lparr>working := (working s)\<lparr>digests := ds\<rparr>\<rparr>"
  have "g\<lparr>dg_schedule_next_at := following\<rparr> \<in> set ds"
    unfolding ds_def update_where_def set_map image_image by (rule image_eqI [OF _ g]) simp
  then have "\<exists>x \<in> set ds. dg_id x = ?i \<and> dg_owner_id x = dg_owner_id g" by (rule bexI [rotated]) simp
  then have found: "get_for_owner ?i (dg_owner_id g) (working u) \<noteq> None"
    by (auto simp: u_def get_for_owner_def find_None_iff)
  have st: "startable c (dg_owner_id g) u"
    using start by (simp add: u_def startable_def startable_digests)
  have active: "active_user (dg_owner_id g) (working u)"
    using st by (simp add: startable_def unlimited_def)
  have "dispatch_occurrence hmac zs c stamp g sch s
      = catch (start_scheduled hmac zs c stamp ?i (dg_owner_id g) t sch)
          (refused_dispatch ?i (dg_schedule_next_at g) stamp) u"
    using one active
    by (simp add: dispatch_occurrence_def due lift_result_bind swap_cursor_def Let_def bind_assoc step_query
        set_digest_def seq_def step_change [unfolded seq_def] u_def ds_def)
  then show ?thesis
    using returns_start_scheduled [where zs = zs and sch = sch and hmac = hmac and stamp = stamp and t = t, OF st found zone]
    by (auto simp: returns_def catch_def u_def split: prod.splits sum.splits)
qed


lemma returns_dispatch:
  assumes start: "startable c (dg_owner_id g) s" and found: "get_digest i (working s) = Some g"
    and dist: "distinct (map dg_id (digests (working s)))"
    and due: "still_due stamp g" "\<not> dg_schedule_paused g" "dg_schedule g = Some sch"
    and valid: "validate_schedule zs sch = Inr sch" and occ: "occurrences_at zs sch stamp = Inr (Some t, following)"
  shows "returns (dispatch_digest hmac zs c stamp i) s
     (\<lambda>b s'. b \<and> (\<exists>run r. scheduled_run run i (dg_owner_id g) t r
         \<and> digest_runs (committed s') = digest_runs (working s) @ [r]
         \<and> (sch_send_email sch \<longrightarrow> new_delivery run stamp \<in> set (deliveries (committed s')))))"
proof -
  let ?o = "dg_owner_id g"
  let ?Q = "\<lambda>b s'. b \<and> (\<exists>run r. scheduled_run run i ?o t r
         \<and> digest_runs (committed s') = digest_runs (working s) @ [r]
         \<and> (sch_send_email sch \<longrightarrow> new_delivery run stamp \<in> set (deliveries (committed s'))))"
  have i: "dg_id g = i" and mem: "g \<in> set (digests (working s))"
    using found by (auto simp: get_digest_def dest: get_row_Some)
  have un: "unlimited ?o (working s)" using start by (simp add: startable_def)
  have last: "returns (dispatch_occurrence hmac zs c stamp g sch) u ?Q" if u: "admitted ?o s u" for u
  proof -
    have "digests (working u) = digests (working s)" "digest_runs (working u) = digest_runs (working s)"
      using u by (simp_all add: admitted_def same_core_def)
    with returns_occurrence [OF startable_admitted [OF start u], where zs = zs and sch = sch and stamp = stamp
        and t = t and following = following and hmac = hmac] mem dist occ i
    show ?thesis by simp
  qed
  have same: "get_digest i (working u) = Some g" if "admitted ?o s u" for u
    using that found by (simp add: admitted_def same_core_def get_digest_def)
  have main: "returns (bind (resolve ?o (sm_settings c)) (\<lambda>access. bind (query (get_digest i)) (\<lambda>current.
              case current of None \<Rightarrow> raise AttributeErrorPy []
              | Some g \<Rightarrow>
                  if dg_schedule_paused g then seq commit (ret False)
                  else (case dg_schedule g of
                      None \<Rightarrow> raise ValidationError []
                    | Some stored \<Rightarrow>
                        bind (lift_result (validate_schedule zs stored))
                          (dispatch_occurrence hmac zs c stamp g))))) u ?Q" if u: "admitted ?o s u" for u
  proof (rule returns_bind [OF returns_resolve [OF admitted_unlimited [OF u]]], rule returns_query)
    fix a v assume "ac_mode a = Complimentary \<and> admitted ?o u v"
    with u have v: "admitted ?o s v" using admitted_trans by blast
    show "returns (case get_digest i (working v) of None \<Rightarrow> raise AttributeErrorPy []
              | Some g \<Rightarrow>
                  if dg_schedule_paused g then seq commit (ret False)
                  else (case dg_schedule g of
                      None \<Rightarrow> raise ValidationError []
                    | Some stored \<Rightarrow>
                        bind (lift_result (validate_schedule zs stored))
                          (dispatch_occurrence hmac zs c stamp g))) v ?Q"
      using last [OF v] by (simp add: same [OF v] due valid lift_result_bind)
  qed
  show ?thesis
    unfolding dispatch_digest_def
    by (rule returns_query, simp only: found option.case due(1) if_False not_True_eq_False,
        rule returns_seq [OF returns_locked [OF un]], rule returns_query,
        simp only: same option.case due(1) if_False not_True_eq_False, rule main)
qed


lemma returns_True: "returns m s (\<lambda>b s'. b \<and> P s') \<Longrightarrow> \<exists>s'. m s = (Inr True, s') \<and> P s'"
  by (auto simp: returns_def split: prod.splits sum.splits)

lemmas dispatch_queues = returns_True [OF returns_dispatch]

lemma latest_occurrence:
  assumes "zones_ok zs" and "validate_schedule zs sch = Inr sch"
    and "sch_starts_at sch \<le> stamp" and "case sch_ends_at sch of None \<Rightarrow> True | Some e \<Rightarrow> stamp < e"
  shows "\<exists>t following. occurrences_at zs sch stamp = Inr (Some t, following) \<and> t \<le> stamp"
proof -
  obtain z where z: "zs (sch_time_zone sch) = Some z"
    using assms(2) by (auto simp: validate_schedule_def validation_error_def split: if_splits)
  have zone: "zone_ok z" using assms(1) z unfolding zones_ok_def by (metis option.case(2))
  from timezone.around_correct [OF timezone_zone [OF zone] assms(4)] obtain latest upcoming where
    a: "around (utc_offset z) (wall_offset z) sch stamp = Some (latest,
         (case sch_ends_at sch of None \<Rightarrow> Some upcoming | Some e \<Rightarrow> if upcoming \<ge> e then None else Some upcoming))"
      "\<And>l. latest = Some l \<Longrightarrow> l \<le> stamp" "latest = None \<longleftrightarrow> stamp < sch_starts_at sch" by metis
  then obtain t where "latest = Some t" using assms(3) by fastforce
  with a z show ?thesis by (auto simp: occurrences_at_def)
qed

text \<open>C9: a due occurrence is started.  When the account of a due digest is open and not limited
  by a plan, has no run queued or running and has attempts left in the rate limits, the turn
  of the digest queues one run, scheduled for the latest occurrence up to the time of the tick,
  commits it, and with it the pending delivery that the schedule asks for.\<close>

theorem due_digest_is_dispatched:
  assumes "startable c (dg_owner_id g) s" and "get_digest i (working s) = Some g"
    and "distinct (map dg_id (digests (working s)))" and "zones_ok zs"
    and "at_or_before (dg_schedule_next_at g) stamp" and "\<not> dg_schedule_paused g" and "dg_schedule g = Some sch"
    and "validate_schedule zs sch = Inr sch"
    and "sch_starts_at sch \<le> stamp" and "case sch_ends_at sch of None \<Rightarrow> True | Some e \<Rightarrow> stamp < e"
  shows "\<exists>s' t following run r. dispatch_digest hmac zs c stamp i s = (Inr True, s')
     \<and> occurrences_at zs sch stamp = Inr (Some t, following) \<and> t \<le> stamp
     \<and> digest_runs (committed s') = digest_runs (working s) @ [r]
     \<and> rn_id r = run \<and> rn_digest_id r = i \<and> rn_owner_id r = dg_owner_id g \<and> rn_status r = QUEUED
     \<and> rn_trigger r = SCHEDULED \<and> rn_scheduled_for r = Some t
     \<and> (sch_send_email sch \<longrightarrow> new_delivery run stamp \<in> set (deliveries (committed s')))"
proof -
  obtain t following where o: "occurrences_at zs sch stamp = Inr (Some t, following)" "t \<le> stamp"
    using latest_occurrence [OF assms(4,8-10)] by blast
  have "still_due stamp g" using assms(5,7) by (simp add: still_due_def)
  from dispatch_queues [where zs = zs and hmac = hmac, OF assms(1-3) this assms(6-8) o(1)] o
  show ?thesis unfolding scheduled_run_def by blast
qed

subsection \<open>Examples\<close>

definition one_zone :: zones where
  "one_zone name = (if name = ''UTC'' then Some utc_zone else None)"

definition daily_schedule :: DigestSchedule where
  "daily_schedule = \<lparr>sch_frequency = DAILY, sch_send_email = True,
     sch_starts_at = noon - seconds 3600, sch_ends_at = None, sch_time_zone = ''UTC''\<rparr>"

definition scheduled_digest :: Digest where
  "scheduled_digest = (sample_digest 7 4)\<lparr>dg_schedule := Some daily_schedule,
     dg_schedule_next_at := Some (noon - seconds 3600)\<rparr>"

definition scheduled_session :: session where
  "scheduled_session = open_session sample_env
     (empty_db\<lparr>users := [sample_user 4 None], digests := [scheduled_digest]\<rparr>)"

definition sample_submission :: SubmissionConfig where
  "sample_submission = \<lparr>sm_settings = sample_settings, sm_model_name = ''model'',
     sm_prompt_version = ''v1'', sm_history_limit = 3\<rparr>"

definition plain_key :: hmac where
  "plain_key secret message = message"

lemma one_zone_ok: "zones_ok one_zone"
  by (simp add: zones_ok_def one_zone_def zone_ok_def zone_offsets_def utc_zone_def day_us_def)

lemma scheduled_startable: "startable sample_submission 4 scheduled_session"
  by (simp add: startable_def scheduled_session_def unlimited_def empty_db_def constraints_ok_def
      active_owners_def active_user_def get_row_def sample_user_def policy_of_def first_by_def idle_def
      unused_def counted_def bucket_keys_ok_def sample_submission_def sample_settings_def exI [of _ 0])

lemma scheduled_due:
  "get_digest 7 (working scheduled_session) = Some scheduled_digest" "dg_owner_id scheduled_digest = 4"
  "distinct (map dg_id (digests (working scheduled_session)))"
  "at_or_before (dg_schedule_next_at scheduled_digest) noon" "\<not> dg_schedule_paused scheduled_digest"
  "dg_schedule scheduled_digest = Some daily_schedule"
  "validate_schedule one_zone daily_schedule = Inr daily_schedule" "sch_starts_at daily_schedule \<le> noon"
  "case sch_ends_at daily_schedule of None \<Rightarrow> True | Some e \<Rightarrow> noon < e"
  by (simp_all add: scheduled_session_def empty_db_def get_digest_def get_row_def scheduled_digest_def
      sample_digest_def at_or_before_def daily_schedule_def validate_schedule_def one_zone_def)

theorem due_digest_is_dispatched_witness:
  "\<exists>s' t following run r. dispatch_digest plain_key one_zone sample_submission noon 7 scheduled_session = (Inr True, s')
     \<and> occurrences_at one_zone daily_schedule noon = Inr (Some t, following) \<and> t \<le> noon
     \<and> digest_runs (committed s') = [r] \<and> rn_id r = run \<and> rn_digest_id r = 7 \<and> rn_owner_id r = 4
     \<and> rn_status r = QUEUED \<and> rn_trigger r = SCHEDULED \<and> rn_scheduled_for r = Some t
     \<and> new_delivery run noon \<in> set (deliveries (committed s'))"
proof -
  have start: "startable sample_submission (dg_owner_id scheduled_digest) scheduled_session"
    using scheduled_startable by (simp add: scheduled_due)
  have "digest_runs (working scheduled_session) = []" "sch_send_email daily_schedule"
    by (simp_all add: scheduled_session_def empty_db_def daily_schedule_def)
  with due_digest_is_dispatched [OF start scheduled_due(1,3) one_zone_ok scheduled_due(4-9), of plain_key]
  show ?thesis unfolding scheduled_due(2) by force
qed

lemma scheduled_run_queued:
  "\<exists>s'. dispatch_digest plain_key one_zone sample_submission noon 7 scheduled_session = (Inr True, s')"
proof -
  have start: "startable sample_submission (dg_owner_id scheduled_digest) scheduled_session"
    using scheduled_startable by (simp add: scheduled_due)
  obtain t following where o: "occurrences_at one_zone daily_schedule noon = Inr (Some t, following)"
    using latest_occurrence [OF one_zone_ok scheduled_due(7-9)] by blast
  have due: "still_due noon scheduled_digest" using scheduled_due(4,6) by (simp add: still_due_def)
  from dispatch_queues [where hmac = plain_key, OF start scheduled_due(1,3) due scheduled_due(5-7) o]
  show ?thesis by blast
qed

theorem dispatched_once_witness:
  "\<exists>s'. dispatch_digest plain_key one_zone sample_submission noon 7 scheduled_session = (Inr True, s')
     \<and> 7 \<notin> set (due_digests noon (committed s'))
     \<and> fst (dispatch_digest plain_key one_zone sample_submission noon 7 (snd (rollback s'))) = Inr False"
proof -
  obtain s' where s': "dispatch_digest plain_key one_zone sample_submission noon 7 scheduled_session = (Inr True, s')"
    using scheduled_run_queued by blast
  with dispatched_once [OF one_zone_ok s'] show ?thesis by blast
qed

text \<open>An account whose runs a plan refuses: the occurrence is put off.\<close>

theorem refused_dispatch_is_atomic_witness:
  "\<exists>r s' s t. r \<noteq> Inr True \<and> dispatch_occurrence plain_key one_zone sample_submission noon scheduled_digest daily_schedule s = (r, s')
     \<and> occurrences_at one_zone daily_schedule noon = Inr t
     \<and> committed s' \<in> {committed s, postponed 7 (Some (noon - seconds 3600)) noon (committed s)}"
proof -
  define s where "s = open_session sample_env (empty_db\<lparr>digests := [scheduled_digest]\<rparr>)"
  obtain t following where o: "occurrences_at one_zone daily_schedule noon = Inr (Some t, following)"
    using latest_occurrence [OF one_zone_ok scheduled_due(7-9)] by blast
  have "fst (dispatch_occurrence plain_key one_zone sample_submission noon scheduled_digest daily_schedule s) = Inr False"
    by (simp add: dispatch_occurrence_def o lift_result_bind swap_cursor_def Let_def run_simps set_digest_def
        s_def empty_db_def rowcount_def active_user_def get_row_def)
  then obtain s' where s': "dispatch_occurrence plain_key one_zone sample_submission noon scheduled_digest daily_schedule s
      = (Inr False, s')" by (metis prod.collapse)
  have "dg_id scheduled_digest = 7" "dg_schedule_next_at scheduled_digest = Some (noon - seconds 3600)"
    by (simp_all add: scheduled_digest_def sample_digest_def)
  with refused_dispatch_is_atomic [OF s' _ o] s' o show ?thesis by auto
qed

end
