(* ===== verification/SyncProperties.thy ===== *)
theory SyncProperties
  imports BillingFrames
begin

section \<open>Properties of the billing synchronisation\<close>

text \<open>
  One attempt at a job either publishes all it observed together with the completion of the
  job, or nothing but the bookkeeping of the failure; a claimed job belongs to its claimant
  until the lease runs out.
\<close>

text \<open>Observation publishes nothing, and leaves the jobs alone.\<close>

interpretation unsaved: observing "\<lambda>s. committed s = c" for c
  by unfold_locales (simp_all add: keeps_def run_simps)

interpretation jobs_kept: observing "on_working (\<lambda>d. sync_jobs d = js)" for js
  by unfold_locales (auto intro: on_working_basic on_working_change
      simp: steady_def keeps_def on_working_def run_simps)

definition claimed_on :: "db \<Rightarrow> BillingSyncJob list \<Rightarrow> session \<Rightarrow> bool" where
  "claimed_on c js s \<longleftrightarrow> committed s = c \<and> on_working (\<lambda>d. sync_jobs d = js) s"

lemma keeps_claimed_on:
  "(\<And>c. keeps (\<lambda>s. committed s = c) m) \<Longrightarrow> (\<And>js. keeps (on_working (\<lambda>d. sync_jobs d = js)) m)
    \<Longrightarrow> keeps (claimed_on c js) m"
  unfolding claimed_on_def by (rule keeps_conj)

definition completed_job :: "string \<Rightarrow> db \<Rightarrow> bool" where
  "completed_job i d \<longleftrightarrow> (\<exists>j. get_row sj_id i (sync_jobs d) = Some j \<and> sj_state j = ''processed'' \<and> sj_lease_token j = None)"

text \<open>All or nothing: only a result \<open>True\<close> publishes, with the job completed.\<close>

definition all_or_nothing :: "string \<Rightarrow> (session \<Rightarrow> bool) \<Rightarrow> db \<Rightarrow> bool sess \<Rightarrow> bool" where
  "all_or_nothing i I c m \<longleftrightarrow> (\<forall>s r s'. I s \<longrightarrow> m s = (r, s') \<longrightarrow>
     (if r = Inr True then completed_job i (committed s') else committed s' = c))"

lemma aon_bind:
  assumes "keeps I m" and "\<And>s. I s \<Longrightarrow> committed s = c" and "\<And>v. all_or_nothing i I c (f v)"
  shows "all_or_nothing i I c (bind m f)"
  unfolding all_or_nothing_def
proof (intro allI impI)
  fix s r s' assume s: "I s" and run: "bind m f s = (r, s')"
  obtain r1 s1 where m: "m s = (r1, s1)" by fastforce
  then have I1: "I s1" using assms(1) s by (auto intro: keepsD)
  show "if r = Inr True then completed_job i (committed s') else committed s' = c"
  proof (cases r1)
    case (Inl e)
    with run m have "r = Inl e" "s' = s1" by (simp_all add: bind_def)
    with I1 assms(2) show ?thesis by simp
  next
    case (Inr v)
    with run m have "f v s1 = (r, s')" by (simp add: bind_def)
    with I1 assms(3) show ?thesis unfolding all_or_nothing_def by blast
  qed
qed

lemma aon_seq:
  "keeps I m \<Longrightarrow> (\<And>s. I s \<Longrightarrow> committed s = c) \<Longrightarrow> all_or_nothing i I c n \<Longrightarrow> all_or_nothing i I c (seq m n)"
  unfolding seq_def by (rule aon_bind)

lemma aon_dropped: "(\<And>s. I s \<Longrightarrow> committed s = c) \<Longrightarrow> all_or_nothing i I c (seq rollback (ret False))"
  by (auto simp: all_or_nothing_def run_simps)

lemma get_row_updated:
  assumes "distinct (map sj_id js)" and "rowcount p js = 1" and "\<And>j. p j \<Longrightarrow> sj_id j = i" and "\<And>j. sj_id (f j) = sj_id j"
  shows "\<exists>j. get_row sj_id i js = Some j \<and> p j \<and> get_row sj_id i (update_where p f js) = Some (f j)"
proof -
  from assms(2) have "filter p js \<noteq> []" by (auto simp: rowcount_def)
  then obtain j where j: "j \<in> set js" "p j" by (auto simp: filter_empty_conv)
  with assms(1,3) have "get_row sj_id i js = Some j" by (metis get_row_distinct)
  with j assms(4) show ?thesis by (simp add: get_row_update_where)
qed

lemma aon_finish:
  assumes "distinct (map sj_id js)"
  shows "all_or_nothing i (claimed_on c js) c (bind (if_owned i token (finish_job following))
    (\<lambda>still. if still then seq commit (ret True) else seq rollback (ret False)))"
  unfolding all_or_nothing_def
proof (intro allI impI)
  fix s r s'
  assume s: "claimed_on c js s" and run: "bind (if_owned i token (finish_job following))
    (\<lambda>still. if still then seq commit (ret True) else seq rollback (ret False)) s = (r, s')"
  let ?p = "owned_job i token (clock s (ticks s))" and ?f = "finish_job following (clock s (Suc (ticks s)))"
  have js: "sync_jobs (working s) = js" "committed s = c" using s by (simp_all add: claimed_on_def on_working_def)
  show "if r = Inr True then completed_job i (committed s') else committed s' = c"
  proof (cases "rowcount ?p js = 1")
    case False
    then show ?thesis using run js by (auto simp: if_owned_def set_jobs_def run_simps)
  next
    case True
    from get_row_updated [OF assms True, of i ?f] obtain j where
      "get_row sj_id i (update_where ?p ?f js) = Some (?f j)"
      by (auto simp: owned_job_def finish_job_def)
    then show ?thesis using run js True
      by (auto simp: if_owned_def set_jobs_def run_simps completed_job_def finish_job_def split: if_splits)
  qed
qed

lemma hold_claim_eq:
  "hold_claim i token s = (Inr (rowcount (owned_job i token (clock s (ticks s))) (sync_jobs (working s)) = 1), s\<lparr>ticks := Suc (ticks s)\<rparr>)"
proof -
  have "update_where (owned_job i token t) (\<lambda>j. j\<lparr>sj_lease_token := Some token\<rparr>) js = js" for t js
    by (auto simp: update_where_def owned_job_def intro: map_idI)
  then show ?thesis by (simp add: hold_claim_def set_jobs_def run_simps)
qed

lemma claimed_on_hold: "keeps (claimed_on c js) (hold_claim i token)"
  by (simp add: keeps_def claimed_on_def on_working_def hold_claim_eq)

lemma aon_load:
  assumes "\<And>j. get_row sj_id i js = Some j \<Longrightarrow> all_or_nothing i (claimed_on c js) c (f j)"
  shows "all_or_nothing i (claimed_on c js) c (bind (load sync_jobs sj_id i) f)"
proof (cases "get_row sj_id i js")
  case None
  then show ?thesis
    by (auto simp: all_or_nothing_def load_def run_simps claimed_on_def on_working_def the_value_def)
next
  case (Some j)
  then have "bind (load sync_jobs sj_id i) f s = f j s" if "claimed_on c js s" for s
    using that by (simp add: load_def run_simps claimed_on_def on_working_def the_value_def)
  with assms [OF Some] show ?thesis by (simp add: all_or_nothing_def)
qed

lemma aon_if: "(b \<Longrightarrow> all_or_nothing i I c m) \<Longrightarrow> (\<not> b \<Longrightarrow> all_or_nothing i I c n) \<Longrightarrow> all_or_nothing i I c (if b then m else n)"
  by simp

lemma aon_drop:
  assumes "get_row sj_id i js = Some j"
  shows "all_or_nothing i (claimed_on c js) c (seq (set_job i drop_job) (seq commit (ret True)))"
proof -
  have "get_row sj_id i (update_where (\<lambda>j. sj_id j = i) drop_job js) = Some (drop_job j)"
    using assms by (auto simp: get_row_update_where drop_job_def dest: get_row_Some)
  then show ?thesis
    by (auto simp: all_or_nothing_def claimed_on_def on_working_def set_job_def run_simps completed_job_def drop_job_def
        split: if_splits)
qed

lemma process_claimed_aon:
  assumes "distinct (map sj_id js)"
  shows "all_or_nothing i (claimed_on c js) c (process_claimed s i token)"
proof -
  have work: "keeps (claimed_on c js) (if sj_kind j = ''webhook'' then seq (handle_event s (sj_payload j) False) (ret None)
      else reconcile_checkout s (sj_checkout_id j))" for j
    by (intro keeps_claimed_on keeps_intros)
  have steps: "keeps (claimed_on c js) (query f)" "keeps (claimed_on c js) flush" for f :: "db \<Rightarrow> bool"
    by (intro keeps_claimed_on keeps_intros)+
  have on_c: "claimed_on c js s \<Longrightarrow> committed s = c" for s
    by (simp add: claimed_on_def)
  show ?thesis unfolding process_claimed_def
    by (intro aon_if aon_load aon_drop aon_dropped aon_finish [OF assms] aon_bind [OF claimed_on_hold] aon_bind [OF work]
        aon_bind [OF steps(1)] aon_seq [OF steps(2)] on_c)
qed

text \<open>The bookkeeping of a failure, which is committed on its own.\<close>

definition noted_failure :: "Settings \<Rightarrow> string \<Rightarrow> BillingSyncJob \<Rightarrow> BillingSyncJob \<Rightarrow> bool" where
  "noted_failure s i j j' \<longleftrightarrow> j' = j \<or> sj_id j = i \<and> sj_failures j' = Suc (sj_failures j) \<and> sj_lease_token j' = None
     \<and> (if sj_failures j' \<ge> set_stripe_sync_max_failures s then sj_state j' = ''failed'' \<and> sj_next_attempt_at j' = None
        else sj_state j' = ''retry'' \<and> sj_next_attempt_at j' \<noteq> None)"

lemma record_failure_notes:
  assumes "record_failure s i token e \<sigma> = (Inr b, \<sigma>')" and "working \<sigma> = committed \<sigma>"
    and "distinct (map sj_id (sync_jobs (committed \<sigma>)))"
  shows "\<not> b \<and> (\<exists>js. committed \<sigma>' = (committed \<sigma>)\<lparr>sync_jobs := js\<rparr>
     \<and> list_all2 (noted_failure s i) (sync_jobs (committed \<sigma>)) js)"
proof -
  let ?d = "committed \<sigma>" and ?p = "owned_job i token (clock \<sigma> (ticks \<sigma>))"
  show ?thesis
  proof (cases "rowcount ?p (sync_jobs ?d) = 1")
    case False
    then have "b = False" "committed \<sigma>' = ?d"
      using assms(1,2) by (auto simp: record_failure_def hold_claim_eq run_simps)
    then show ?thesis by (intro conjI exI [of _ "sync_jobs ?d"]) (simp_all add: list_all2_refl noted_failure_def)
  next
    case True
    then obtain j where j: "get_row sj_id i (sync_jobs ?d) = Some j"
      using get_row_updated [OF assms(3) True, of i id] by (auto simp: owned_job_def)
    let ?q = "owned_job i token (clock \<sigma> (Suc (ticks \<sigma>)))"
      and ?f = "failed_job s (Suc (sj_failures j)) (failure_message e) (clock \<sigma> (Suc (Suc (ticks \<sigma>))))"
    have "b = False" and c: "committed \<sigma>' = ?d\<lparr>sync_jobs := update_where ?q ?f (sync_jobs ?d)\<rparr>"
      using assms(1,2) True j
      by (auto simp: record_failure_def hold_claim_eq if_owned_def set_jobs_def load_def the_value_def run_simps split: if_splits)
    have "noted_failure s i x (if ?q x then ?f x else x)" if "x \<in> set (sync_jobs ?d)" for x
    proof (cases "?q x")
      case True
      with that assms(3) j have "x = j" by (metis get_row_distinct option.inject owned_job_def)
      with True show ?thesis
        by (auto simp: noted_failure_def failed_job_def Let_def owned_job_def)
    qed (simp add: noted_failure_def)
    then have "list_all2 (noted_failure s i) (sync_jobs ?d) (update_where ?q ?f (sync_jobs ?d))"
      by (simp add: update_where_def list_all2_conv_all_nth)
    with c \<open>b = False\<close> show ?thesis by blast
  qed
qed

text \<open>C18: an attempt at a synchronisation job is all or nothing.  When it succeeds the job is
  completed in the database together with what was observed; when it fails, whether Stripe,
  the data or the lease was the reason, the committed database is as before except that the
  failure is counted on the job, which is retried later until the failures reach the limit.\<close>

theorem sync_attempt_is_atomic:
  assumes "process s i token \<sigma> = (Inr finished, \<sigma>')" and "working \<sigma> = committed \<sigma>"
    and "distinct (map sj_id (sync_jobs (committed \<sigma>)))"
  shows "if finished then completed_job i (committed \<sigma>')
    else \<exists>js. committed \<sigma>' = (committed \<sigma>)\<lparr>sync_jobs := js\<rparr>
      \<and> list_all2 (noted_failure s i) (sync_jobs (committed \<sigma>)) js"
proof -
  let ?d = "committed \<sigma>"
  obtain r \<sigma>1 where run: "process_claimed s i token \<sigma> = (r, \<sigma>1)" by fastforce
  have "claimed_on ?d (sync_jobs ?d) \<sigma>" using assms(2) by (simp add: claimed_on_def on_working_def)
  with process_claimed_aon [OF assms(3), of i ?d s token] run
  have aon: "if r = Inr True then completed_job i (committed \<sigma>1) else committed \<sigma>1 = ?d"
    unfolding all_or_nothing_def by blast
  show ?thesis
  proof (cases r)
    case (Inr b)
    with run assms(1) have "finished = b" "committed \<sigma>' = committed \<sigma>1"
      by (auto simp: process_def catch_def with_session_def run_simps)
    with aon Inr show ?thesis
      by (cases b) (auto intro!: exI [of _ "sync_jobs ?d"] simp: list_all2_refl noted_failure_def)
  next
    case (Inl e)
    with aon have c: "committed \<sigma>1 = ?d" by simp
    from Inl run assms(1) obtain \<sigma>2 where
      "record_failure s i token e (\<sigma>1\<lparr>working := ?d\<rparr>) = (Inr finished, \<sigma>2)" "committed \<sigma>' = committed \<sigma>2"
      using c by (auto simp: process_def catch_def with_session_def rollback_def modify_def split: prod.splits)
    with record_failure_notes [of s i token e "\<sigma>1\<lparr>working := ?d\<rparr>"] c assms(3) show ?thesis by auto
  qed
qed

text \<open>A job whose event says nothing of its type fails, and is retried.\<close>

definition mute_job :: BillingSyncJob where
  "mute_job = \<lparr>sj_id = ''evt_1'', sj_checkout_id = 70, sj_user_id = 1, sj_kind = ''webhook'',
     sj_event_type = None, sj_payload = JObj [], sj_state = ''processing'', sj_attempts = 1, sj_failures = 0,
     sj_manual_retries = 0, sj_retried_by = None, sj_retried_at = None, sj_next_attempt_at = None,
     sj_lease_token = Some ''token'', sj_lease_expires_at = Some (noon + seconds 120), sj_last_error = None,
     sj_last_attempt_at = Some noon, sj_last_success_at = None, sj_created_at = noon\<rparr>"

definition mute_db :: db where
  "mute_db = empty_db\<lparr>users := [sample_user 1 None], sync_jobs := [mute_job]\<rparr>"

lemma mute_run:
  obtains \<sigma> where "process sample_settings ''evt_1'' ''token'' (open_session sample_env mute_db) = (Inr False, \<sigma>)"
    and "map sj_state (sync_jobs (committed \<sigma>)) = [''retry'']" "map sj_failures (sync_jobs (committed \<sigma>)) = [1]"
  by (simp add: process_def process_claimed_def record_failure_def hold_claim_eq with_session_def mute_db_def
      mute_job_def empty_db_def sample_env_def sample_settings_def sample_user_def load_def the_value_def get_row_def
      owned_job_def rowcount_def run_simps closing_def handle_event_def event_type_def if_owned_def set_jobs_def
      update_where_def failed_job_def Let_def retry_delay_def constraints_ok_def active_owners_def)

theorem sync_attempt_is_atomic_witness:
  "\<exists>(\<sigma> :: session) js. committed \<sigma> = mute_db\<lparr>sync_jobs := js\<rparr> \<and> list_all2 (noted_failure sample_settings ''evt_1'') [mute_job] js
     \<and> map sj_state js = [''retry'']"
proof -
  obtain \<sigma> where run: "process sample_settings ''evt_1'' ''token'' (open_session sample_env mute_db) = (Inr False, \<sigma>)"
    and retry: "map sj_state (sync_jobs (committed \<sigma>)) = [''retry'']" by (rule mute_run)
  obtain js where "committed \<sigma> = mute_db\<lparr>sync_jobs := js\<rparr>"
      "list_all2 (noted_failure sample_settings ''evt_1'') (sync_jobs mute_db) js"
    using sync_attempt_is_atomic [OF run] by (auto simp: mute_db_def)
  moreover from this(1) have "map sj_state js = [''retry'']" using retry by simp
  ultimately show ?thesis by (intro exI [of _ \<sigma>] exI [of _ js]) (simp add: mute_db_def)
qed

lemma claim_excludes:
  assumes "claim_sync \<sigma> = (Inr (Some (i, token)), \<sigma>')" and "working \<sigma> = committed \<sigma>"
    and "distinct (map sj_id (sync_jobs (committed \<sigma>)))"
    and "committed \<tau> = committed \<sigma>'" and "working \<tau> = committed \<tau>" and "other \<noteq> token"
  shows "\<exists>j. get_row sj_id i (sync_jobs (committed \<sigma>)) = Some j \<and> sync_due (clock \<sigma> (ticks \<sigma>)) j
      \<and> (\<forall>x \<in> set (sync_jobs (committed \<sigma>)). sync_due (clock \<sigma> (ticks \<sigma>)) x \<longrightarrow> claim_order j \<le> claim_order x)
      \<and> committed \<sigma>' = (committed \<sigma>)\<lparr>sync_jobs := update_where (\<lambda>x. sj_id x = i)
          (claimed_job (clock \<sigma> (ticks \<sigma>)) token) (sync_jobs (committed \<sigma>))\<rparr>"
    and "\<forall>j \<in> set (sync_jobs (committed \<sigma>')). \<forall>u < clock \<sigma> (ticks \<sigma>) + seconds LEASE_SECONDS. sj_id j = i \<longrightarrow> \<not> sync_due u j"
    and "\<exists>\<tau>'. process s i other \<tau> = (Inr False, \<tau>') \<and> committed \<tau>' = committed \<sigma>'"
proof -
  let ?t = "clock \<sigma> (ticks \<sigma>)" and ?js = "sync_jobs (committed \<sigma>)"
  from assms(1,2) obtain j where best: "first_by claim_order (filter (sync_due ?t) ?js) = Some j" and i: "i = sj_id j"
    and c: "committed \<sigma>' = (committed \<sigma>)\<lparr>sync_jobs := update_where (\<lambda>x. sj_id x = i \<and> sync_due ?t x)
        (claimed_job ?t token) ?js\<rparr>"
    by (auto simp: claim_sync_def set_jobs_def run_simps Let_def split: option.splits if_splits)
  note first = first_by_Some [OF best]
  then have j: "j \<in> set ?js" "sync_due ?t j" by auto
  with assms(3) i have row: "get_row sj_id i ?js = Some j" by (auto intro: get_row_distinct)
  have only: "x = j" if "x \<in> set ?js" "sj_id x = i" for x
    using that j(1) i assms(3) by (auto simp: distinct_map inj_on_def)
  then have "update_where (\<lambda>x. sj_id x = i \<and> sync_due ?t x) (claimed_job ?t token) ?js
      = update_where (\<lambda>x. sj_id x = i) (claimed_job ?t token) ?js"
    using j(2) by (auto simp: update_where_def)
  with c row j(2) first show "\<exists>j. get_row sj_id i ?js = Some j \<and> sync_due ?t j
      \<and> (\<forall>x \<in> set ?js. sync_due ?t x \<longrightarrow> claim_order j \<le> claim_order x)
      \<and> committed \<sigma>' = (committed \<sigma>)\<lparr>sync_jobs := update_where (\<lambda>x. sj_id x = i) (claimed_job ?t token) ?js\<rparr>"
    by auto
  have held: "x = claimed_job ?t token j" if "x \<in> set (sync_jobs (committed \<sigma>'))" "sj_id x = i" for x
  proof -
    from that(1) c obtain y where y: "y \<in> set ?js" and x: "x = (if sj_id y = i \<and> sync_due ?t y then claimed_job ?t token y else y)"
      by (auto simp: set_update_where)
    from x that(2) have "sj_id y = i" by (simp add: claimed_job_def split: if_splits)
    with y have "y = j" by (rule only)
    with x i j(2) show ?thesis by simp
  qed
  have fresh: "\<not> sync_due u (claimed_job ?t token j)" if "u < ?t + seconds LEASE_SECONDS" for u
    using that by (simp add: sync_due_def claimed_job_def reached_def)
  from held show "\<forall>j \<in> set (sync_jobs (committed \<sigma>')). \<forall>u < ?t + seconds LEASE_SECONDS. sj_id j = i \<longrightarrow> \<not> sync_due u j"
    using fresh by metis
  have "\<not> owned_job i other u (claimed_job ?t token j)" for u
    using assms(6) by (simp add: owned_job_def claimed_job_def)
  then have "rowcount (owned_job i other u) (sync_jobs (committed \<sigma>')) = 0" for u
    unfolding rowcount_0 using held owned_job_def by metis
  then show "\<exists>\<tau>'. process s i other \<tau> = (Inr False, \<tau>') \<and> committed \<tau>' = committed \<sigma>'"
    using assms(4,5) by (simp add: process_def process_claimed_def hold_claim_eq with_session_def catch_def run_simps)
qed

text \<open>C37: a claim takes the job that has been due longest and commits a lease on it, and nothing
  else changes.  Until the lease runs out no other claim can choose the job, and an attempt under
  another token returns without effect.\<close>

theorem claimed_sync_job_is_exclusive:
  assumes "claim_sync \<sigma> = (Inr (Some (i, token)), \<sigma>')" and "working \<sigma> = committed \<sigma>"
    and "distinct (map sj_id (sync_jobs (committed \<sigma>)))"
    and "committed \<tau> = committed \<sigma>'" and "working \<tau> = committed \<tau>" and "other \<noteq> token"
  shows "(\<exists>j. get_row sj_id i (sync_jobs (committed \<sigma>)) = Some j \<and> sync_due (clock \<sigma> (ticks \<sigma>)) j
      \<and> (\<forall>x \<in> set (sync_jobs (committed \<sigma>)). sync_due (clock \<sigma> (ticks \<sigma>)) x \<longrightarrow> claim_order j \<le> claim_order x)
      \<and> committed \<sigma>' = (committed \<sigma>)\<lparr>sync_jobs := update_where (\<lambda>x. sj_id x = i)
          (claimed_job (clock \<sigma> (ticks \<sigma>)) token) (sync_jobs (committed \<sigma>))\<rparr>)
    \<and> (\<forall>j \<in> set (sync_jobs (committed \<sigma>')). \<forall>u < clock \<sigma> (ticks \<sigma>) + seconds LEASE_SECONDS. sj_id j = i \<longrightarrow> \<not> sync_due u j)
    \<and> (\<exists>\<tau>'. process s i other \<tau> = (Inr False, \<tau>') \<and> committed \<tau>' = committed \<sigma>')"
  using claim_excludes [OF assms] by blast

definition waiting_db :: db where
  "waiting_db = empty_db\<lparr>users := [sample_user 1 None],
     sync_jobs := [mute_job\<lparr>sj_state := ''pending'', sj_next_attempt_at := Some noon, sj_lease_token := None,
       sj_lease_expires_at := None\<rparr>]\<rparr>"

lemma waiting_claim:
  obtains token \<sigma> where "claim_sync (open_session sample_env waiting_db) = (Inr (Some (''evt_1'', token)), \<sigma>)"
    and "working \<sigma> = committed \<sigma>"
  by (simp add: claim_sync_def set_jobs_def run_simps Let_def waiting_db_def mute_job_def empty_db_def sample_env_def sample_user_def
      sync_due_def reached_def first_by_def rowcount_def constraints_ok_def active_owners_def update_where_def)

theorem claimed_sync_job_is_exclusive_witness:
  "\<exists>token \<sigma> \<tau>. claim_sync (open_session sample_env waiting_db) = (Inr (Some (''evt_1'', token)), \<sigma>)
     \<and> process sample_settings ''evt_1'' (token @ ''x'') \<sigma> = (Inr False, \<tau>) \<and> committed \<tau> = committed \<sigma>"
proof -
  obtain token \<sigma> where run: "claim_sync (open_session sample_env waiting_db) = (Inr (Some (''evt_1'', token)), \<sigma>)"
    and clean: "working \<sigma> = committed \<sigma>" by (rule waiting_claim)
  have "\<exists>\<tau>. process sample_settings ''evt_1'' (token @ ''x'') \<sigma> = (Inr False, \<tau>) \<and> committed \<tau> = committed \<sigma>"
    using claimed_sync_job_is_exclusive [OF run, of \<sigma> "token @ ''x''" sample_settings] clean
    by (simp add: waiting_db_def)
  with run show ?thesis by blast
qed

end
