(* ===== verification/Spec2Isabelle.thy ===== *)
theory Spec2Isabelle
  imports Access AccessProperties AccountFacts AccountProperties AccountWitnesses Admission
    AdmissionFacts Billing BillingFrames BillingProperties BillingSync Briefing Calendar
    Catalogue Changes Checkouts Checkpoints Closure ClosureBilling ClosureFacts ClosureWorker
    ContentProperties Contracts CredentialProperties Credentials Delivery DeliveryProperties
    Dispatch DispatchProperties Evaluation EvaluationProperties Evidence Examples Execution
    ExecutionFacts Identity Invoices Json LeaseProtocol Lifecycle Models Observation
    PaymentRules Prelude PyStrings Quality QualityProperties QualityService RateLimit Recurrence
    Registration Replacement Results RunFacts RunInvariants RunProperties RunQueries RunState
    Runner RunnerFacts ScheduleProperties ScheduledRuns ServiceProperties Store StripeChanges
    StripeClient StripeRequests Submission Subscribers SyncProperties Transitions Upgrades
    Validation Webhooks
begin

text \<open>
  The Scientific Research Radar: the backend under src/backend/app.

  The program sends its users digests of new research.  A user keeps digests (a topic, key
  words, a reporting period, perhaps a schedule); a run of a digest goes through four stages
  (discovery, summaries, trend analysis, briefing), each one asked of a language-model
  provider and validated before it is saved; a finished run is checked for quality and then
  delivered.  Runs are limited by the subscription of the account and by rate limits.

  How the parts interact.  A request or the schedule dispatcher starts a run
  (radar/submission.py): the rate limit is charged, the account's access is resolved from
  its plan, checkouts and invoices, the run is booked against the monthly allowance, and a
  queued row with four pending stages is committed.  A worker (radar/worker.py) claims the
  oldest claimable run with a lease, and the runner (radar/runner.py) executes the stages
  it has no checkpoint of.  Every provider request is recorded in a ledger before it is
  sent, polled until it completes or the deadline passes, and validated; its result is
  saved together with the checkpoint of its stage.  An exception fails the stage and the
  run, unless another worker took the lease; a retry queues the failed run again, and
  resumes at the checkpoints.  Completion evaluates the quality of the result, which may
  hold back its delivery.
\<close>

end
